(* ===== verification/Py_Values.thy ===== *)
theory Py_Values
  imports Complex_Main "HOL-Library.AList" "HOL-Library.Char_ord" "HOL-Library.List_Lexorder"
begin

text \<open>
  The prelude of the development: Python values as the service stores them, ordered
  dictionaries, the exceptions the modelled code raises, and the state-passing
  computations in which every operation is written.

  \<^item> \<open>json\<close> is the JSON-shaped part of Python's values; a float is the rational number it
    denotes (NaN and the infinities, which the stores never hold, are left out).
  \<^item> A dictionary is an association list in insertion order: \<open>AList.update\<close> replaces a
    value in place and appends a new key, as a Python \<open>dict\<close> does.
  \<^item> A computation takes the state and returns the exception or the result together with
    the state it leaves; an exception does not undo the changes made before it.
\<close>

named_theorems py_run \<open>unfolding of the state-passing combinators\<close>
named_theorems dict_simps \<open>lookup and membership after dictionary updates\<close>

section \<open>Values\<close>

datatype json =
    JNull
  | JBool bool
  | JInt int
  | JFloat rat
  | JStr string
  | JArr "json list"
  | JObj "(string \<times> json) list"

type_synonym jdict = "(string \<times> json) list"

fun num_of :: "json \<Rightarrow> rat option" where
  "num_of (JBool b) = Some (if b then 1 else 0)"
| "num_of (JInt i) = Some (of_int i)"
| "num_of (JFloat q) = Some q"
| "num_of _ = None"

lemma size_dict_value [termination_simp]:
  "(k, v) \<in> set d \<Longrightarrow> size v < Suc (size_list (size_prod (\<lambda>_. 0) size) d)"
  by (induction d) auto

text \<open>
  Python's \<open>==\<close>: numbers compare by value across \<open>bool\<close>, \<open>int\<close> and \<open>float\<close>, dictionaries
  without regard to the order of their keys.
\<close>

fun py_eq :: "json \<Rightarrow> json \<Rightarrow> bool" where
  "py_eq JNull b = (b = JNull)"
| "py_eq (JStr s) b = (b = JStr s)"
| "py_eq (JArr xs) b = (case b of JArr ys \<Rightarrow> list_all2 py_eq xs ys | _ \<Rightarrow> False)"
| "py_eq (JObj xs) b =
     (case b of
        JObj ys \<Rightarrow>
          length xs = length ys \<and>
          list_all (\<lambda>p. case map_of ys (fst p) of
                          Some w \<Rightarrow> py_eq (snd p) w
                        | None \<Rightarrow> False) xs
      | _ \<Rightarrow> False)"
| "py_eq (JBool x) b = (num_of b = num_of (JBool x))"
| "py_eq (JInt x) b = (num_of b = num_of (JInt x))"
| "py_eq (JFloat x) b = (num_of b = num_of (JFloat x))"

text \<open>The tags that \<open>type(a) is type(b)\<close> compares.\<close>

datatype py_type = TNone | TBool | TInt | TFloat | TStr | TList | TDict

fun type_of :: "json \<Rightarrow> py_type" where
  "type_of JNull = TNone"
| "type_of (JBool _) = TBool"
| "type_of (JInt _) = TInt"
| "type_of (JFloat _) = TFloat"
| "type_of (JStr _) = TStr"
| "type_of (JArr _) = TList"
| "type_of (JObj _) = TDict"

fun py_truthy :: "json \<Rightarrow> bool" where
  "py_truthy JNull = False"
| "py_truthy (JBool b) = b"
| "py_truthy (JInt i) = (i \<noteq> 0)"
| "py_truthy (JFloat q) = (q \<noteq> 0)"
| "py_truthy (JStr s) = (s \<noteq> [])"
| "py_truthy (JArr xs) = (xs \<noteq> [])"
| "py_truthy (JObj d) = (d \<noteq> [])"

definition py_or :: "json \<Rightarrow> json \<Rightarrow> json" where
  "py_or a b = (if py_truthy a then a else b)"

text \<open>
  Well-formed values: every dictionary inside has distinct keys, which the Python type
  guarantees and association lists do not.
\<close>

fun wf_json :: "json \<Rightarrow> bool" where
  "wf_json (JArr xs) = list_all wf_json xs"
| "wf_json (JObj d) = (distinct (map fst d) \<and> list_all (\<lambda>p. wf_json (snd p)) d)"
| "wf_json _ = True"

abbreviation wf_dict :: "jdict \<Rightarrow> bool" where
  "wf_dict d \<equiv> wf_json (JObj d)"

lemma list_all2_same_on: "list_all (\<lambda>x. P x x) xs \<Longrightarrow> list_all2 P xs xs"
  by (induction xs) auto

lemma py_eq_refl [simp]: "wf_json a \<Longrightarrow> py_eq a a"
proof (induction a)
  case (JArr xs)
  then show ?case
    by (auto simp: list_all_iff intro!: list_all2_same_on)
next
  case (JObj d)
  have "list_all (\<lambda>p. case map_of d (fst p) of Some w \<Rightarrow> py_eq (snd p) w | None \<Rightarrow> False) d"
    using JObj by (auto simp: list_all_iff map_of_eq_Some_iff)
  then show ?case by simp
qed auto

lemma py_eq_JStr [simp]: "py_eq a (JStr s) \<longleftrightarrow> a = JStr s"
  by (cases a) (auto split: json.splits)

lemma py_eq_JNull [simp]: "py_eq a JNull \<longleftrightarrow> a = JNull"
  by (cases a) (auto split: json.splits)

section \<open>Dictionaries\<close>

text \<open>\<open>d.get(k)\<close> with the default \<open>None\<close>, \<open>d.get(k, x)\<close> and \<open>d.setdefault(k, x)\<close>.\<close>

definition dget :: "jdict \<Rightarrow> string \<Rightarrow> json" where
  "dget d k = (case map_of d k of None \<Rightarrow> JNull | Some v \<Rightarrow> v)"

definition dget_or :: "jdict \<Rightarrow> string \<Rightarrow> json \<Rightarrow> json" where
  "dget_or d k x = (case map_of d k of None \<Rightarrow> x | Some v \<Rightarrow> v)"

abbreviation dput :: "string \<Rightarrow> 'v \<Rightarrow> (string \<times> 'v) list \<Rightarrow> (string \<times> 'v) list" where
  "dput \<equiv> AList.update"

abbreviation dpop :: "'k \<Rightarrow> ('k \<times> 'v) list \<Rightarrow> ('k \<times> 'v) list" where
  "dpop \<equiv> AList.delete"

definition has_key :: "('k \<times> 'v) list \<Rightarrow> 'k \<Rightarrow> bool" where
  "has_key d k = (map_of d k \<noteq> None)"

definition dset_default :: "string \<Rightarrow> 'v \<Rightarrow> (string \<times> 'v) list \<Rightarrow> (string \<times> 'v) list" where
  "dset_default k x d = (if has_key d k then d else dput k x d)"

text \<open>\<open>d.update(patch)\<close>: the pairs of the patch in their order.\<close>

definition dupdate :: "jdict \<Rightarrow> jdict \<Rightarrow> jdict" where
  "dupdate d patch = fold (\<lambda>(k, v). dput k v) patch d"

lemma map_of_dput [simp]: "map_of (dput k v d) = (map_of d)(k \<mapsto> v)"
  by (rule update_conv')

lemma map_of_dpop [simp]: "map_of (dpop k d) = (map_of d)(k := None)"
  by (rule delete_conv')

lemma has_key_iff: "has_key d k \<longleftrightarrow> k \<in> fst ` set d"
  by (auto simp: has_key_def map_of_eq_None_iff)

lemma has_key_dput [simp]: "has_key (dput k v d) j \<longleftrightarrow> j = k \<or> has_key d j"
  by (auto simp: has_key_def)

lemma has_key_Some: "map_of d k = Some v \<Longrightarrow> has_key d k"
  by (simp add: has_key_def)

lemma map_of_dset_default [simp]:
  "map_of (dset_default k x d) j =
     (if j = k then Some (case map_of d k of None \<Rightarrow> x | Some v \<Rightarrow> v) else map_of d j)"
  by (auto simp: dset_default_def has_key_def)

lemma dget_dput [simp]: "dget (dput k v d) j = (if j = k then v else dget d j)"
  by (simp add: dget_def)

lemma map_of_dupdate:
  "map_of (dupdate d patch) k =
     (case map_of (rev patch) k of None \<Rightarrow> map_of d k | Some v \<Rightarrow> Some v)"
  unfolding dupdate_def
proof (induction patch arbitrary: d)
  case Nil
  then show ?case by simp
next
  case (Cons p patch)
  show ?case
    by (cases p) (simp add: Cons map_add_def split: option.splits)
qed

lemma map_of_dupdate_distinct:
  assumes "distinct (map fst patch)"
  shows "map_of (dupdate d patch) k =
     (case map_of patch k of None \<Rightarrow> map_of d k | Some v \<Rightarrow> Some v)"
proof -
  have "map_of (rev patch) = map_of patch"
    using assms by (metis distinct_rev map_of_eqI map_of_inject_set rev_map set_rev)
  then show ?thesis by (simp add: map_of_dupdate)
qed

lemma map_of_dupdate_other:
  "k \<notin> fst ` set patch \<Longrightarrow> map_of (dupdate d patch) k = map_of d k"
  by (simp add: map_of_dupdate map_of_eq_None_iff split: option.splits)
     (metis (no_types, lifting) image_iff map_of_SomeD prod.sel(1) set_rev)

lemma keys_dpop [simp]: "fst ` set (dpop k d) = fst ` set d - {k}"
proof -
  have "set (map fst (dpop k d)) = set (map fst d) - {k}"
    by (simp only: delete_keys set_removeAll)
  then show ?thesis by simp
qed

lemma dput_fresh: "\<not> has_key d k \<Longrightarrow> dput k v d = d @ [(k, v)]"
  by (induction d) (auto simp: has_key_def split: if_splits)

lemma dpop_dput_fresh: "\<not> has_key d k \<Longrightarrow> dpop k (dput k v d) = d"
  by (simp add: delete_update_same has_key_iff)

lemma distinct_dput [simp]: "distinct (map fst d) \<Longrightarrow> distinct (map fst (dput k v d))"
  by (rule distinct_update)

lemma distinct_dupdate [simp]:
  "distinct (map fst d) \<Longrightarrow> distinct (map fst (dupdate d patch))"
  unfolding dupdate_def by (induction patch arbitrary: d) (auto split: prod.splits)

lemma set_dputD: "p \<in> set (dput k v d) \<Longrightarrow> p = (k, v) \<or> p \<in> set d"
  by (induction d) (auto split: if_splits)

lemma wf_dict_dput: "wf_dict d \<Longrightarrow> wf_json v \<Longrightarrow> wf_dict (dput k v d)"
  by (auto simp: list_all_iff dest!: set_dputD)

lemma wf_dict_dupdate: "wf_dict d \<Longrightarrow> wf_dict patch \<Longrightarrow> wf_dict (dupdate d patch)"
  unfolding dupdate_def
proof (induction patch arbitrary: d)
  case Nil
  then show ?case by simp
next
  case (Cons p patch)
  have "wf_dict patch" and "wf_json (snd p)"
    using Cons.prems(2) by auto
  moreover from this have "wf_dict (dput (fst p) (snd p) d)"
    by (intro wf_dict_dput Cons.prems(1))
  ultimately
  show ?case
    using Cons.IH by (simp add: case_prod_beta)
qed

lemma wf_json_dget: "wf_dict d \<Longrightarrow> wf_json (dget d k)"
  by (auto simp: dget_def list_all_iff dest: map_of_SomeD split: option.splits)

lemmas dict_lookup = map_of_dput map_of_dpop has_key_dput dget_dput map_of_dset_default

section \<open>Exceptions\<close>

text \<open>
  The exceptions of the modelled modules. Messages that carry no data of their own are
  literal strings; the others keep the values the message is built from. An \<open>APIProblem\<close> keeps
  its status, code, title and extras; its human-readable detail is left out.
\<close>

datatype exn =
    TypeError
  | ValueError string
  | KeyError string
  | RuntimeErr string
  | OverflowErr
  | ResourceNotFound string string
  | ResourceAlreadyExists string string
  | RevisionConflict int int
  | IdempotencyConflict string string string string
  | StoreErr string
  | JobFence string int int int int string
  | IndexErr
  | AttributeErr string
  | TimeoutErr string
  | FileNotFound string
  | TokenInvalid string
  | AuthConfig string
  | WebhookHTTP int
  | CancelledErr
  | APIProblem int string string jdict
  | BlobIntegrity string
  | BlobNotFound string
  | BlobSizeLimit string
  | BlobErr string
  | InvalidTicket string
  | ExpiredTicket string
  | BackendErr string jdict
  | EngineErr string string
  | AssertionErr
  | OSErr string

section \<open>State-passing computations\<close>

type_synonym ('s, 'a) py = "'s \<Rightarrow> (exn + 'a) \<times> 's"

definition ret :: "'a \<Rightarrow> ('s, 'a) py" where
  "ret x s = (Inr x, s)"

definition raise :: "exn \<Rightarrow> ('s, 'a) py" where
  "raise e s = (Inl e, s)"

definition seq :: "('s, 'a) py \<Rightarrow> ('a \<Rightarrow> ('s, 'b) py) \<Rightarrow> ('s, 'b) py" where
  "seq m f s = (case m s of (Inl e, s') \<Rightarrow> (Inl e, s') | (Inr x, s') \<Rightarrow> f x s')"

definition gets :: "('s \<Rightarrow> 'a) \<Rightarrow> ('s, 'a) py" where
  "gets f s = (Inr (f s), s)"

definition modify :: "('s \<Rightarrow> 's) \<Rightarrow> ('s, unit) py" where
  "modify f s = (Inr (), f s)"

text \<open>\<open>if c: raise e\<close>, and a lifted result that may already be an exception.\<close>

definition fail_if :: "bool \<Rightarrow> exn \<Rightarrow> ('s, unit) py" where
  "fail_if c e s = (if c then (Inl e, s) else (Inr (), s))"

definition lift :: "exn + 'a \<Rightarrow> ('s, 'a) py" where
  "lift r s = (r, s)"

text \<open>A \<open>for\<close> loop over a list; an exception leaves the loop and keeps the state so far.\<close>

fun each :: "('a \<Rightarrow> ('s, unit) py) \<Rightarrow> 'a list \<Rightarrow> ('s, unit) py" where
  "each f [] = ret ()"
| "each f (x # xs) = seq (f x) (\<lambda>_. each f xs)"

fun collect :: "('a \<Rightarrow> ('s, 'b) py) \<Rightarrow> 'a list \<Rightarrow> ('s, 'b list) py" where
  "collect f [] = ret []"
| "collect f (x # xs) = seq (f x) (\<lambda>y. seq (collect f xs) (\<lambda>ys. ret (y # ys)))"

lemmas py_defs [py_run] =
  ret_def raise_def seq_def gets_def modify_def fail_if_def lift_def

lemma seq_Inr [elim]:
  assumes "seq m f s = (Inr y, s')"
  obtains x s1 where "m s = (Inr x, s1)" and "f x s1 = (Inr y, s')"
  using assms by (auto simp: seq_def split: prod.splits sum.splits)

lemma seq_assoc: "seq (seq m f) g = seq m (\<lambda>x. seq (f x) g)"
  by (rule ext) (auto simp: seq_def split: prod.splits sum.splits)

lemma seq_ret [simp]: "seq m ret = m" and ret_seq [simp]: "seq (ret x) f = f x"
  by (rule ext; auto simp: seq_def ret_def split: prod.splits sum.splits)+

text \<open>The state a computation leaves, whatever its outcome.\<close>

abbreviation post :: "('s, 'a) py \<Rightarrow> 's \<Rightarrow> 's" where
  "post m s \<equiv> snd (m s)"

text \<open>Two steps of which each may raise, without a state.\<close>

definition exn_bind :: "exn + 'a \<Rightarrow> ('a \<Rightarrow> exn + 'b) \<Rightarrow> exn + 'b" where
  "exn_bind r f = (case r of Inl e \<Rightarrow> Inl e | Inr x \<Rightarrow> f x)"

lemma exn_bind_simps [simp]: "exn_bind (Inl e) f = Inl e" "exn_bind (Inr x) f = f x"
  by (simp_all add: exn_bind_def)

lemma exn_bind_Inr: "exn_bind r f = Inr y \<longleftrightarrow> (\<exists>x. r = Inr x \<and> f x = Inr y)"
  by (cases r) simp_all

text \<open>
  \<open>triple P m Q E\<close>: from a state with \<open>P\<close> the computation returns a value \<open>x\<close> in a state
  with \<open>Q x\<close>, or raises in a state with \<open>E\<close>. \<open>keeps P m\<close> is the special case of an invariant
  that survives both outcomes. The rules below are proved for the combinators once, so that
  an operation inherits its specification from its parts.
\<close>

definition triple ::
  "('s \<Rightarrow> bool) \<Rightarrow> ('s, 'a) py \<Rightarrow> ('a \<Rightarrow> 's \<Rightarrow> bool) \<Rightarrow> ('s \<Rightarrow> bool) \<Rightarrow> bool" where
  "triple P m Q E \<longleftrightarrow>
     (\<forall>s. P s \<longrightarrow> (case m s of (Inl _, s') \<Rightarrow> E s' | (Inr x, s') \<Rightarrow> Q x s'))"

definition keeps :: "('s \<Rightarrow> bool) \<Rightarrow> ('s, 'a) py \<Rightarrow> bool" where
  "keeps P m \<longleftrightarrow> (\<forall>s. P s \<longrightarrow> P (post m s))"

lemma keeps_iff_triple: "keeps P m \<longleftrightarrow> triple P m (\<lambda>_. P) P"
  by (simp add: keeps_def triple_def case_prod_beta)

lemma tripleI:
  "(\<And>s e s'. P s \<Longrightarrow> m s = (Inl e, s') \<Longrightarrow> E s') \<Longrightarrow>
   (\<And>s x s'. P s \<Longrightarrow> m s = (Inr x, s') \<Longrightarrow> Q x s') \<Longrightarrow> triple P m Q E"
  by (auto simp: triple_def split: prod.splits sum.splits)

lemma triple_Inr: "triple P m Q E \<Longrightarrow> P s \<Longrightarrow> m s = (Inr x, s') \<Longrightarrow> Q x s'"
  by (auto simp: triple_def)

lemma triple_Inl: "triple P m Q E \<Longrightarrow> P s \<Longrightarrow> m s = (Inl e, s') \<Longrightarrow> E s'"
  by (auto simp: triple_def)

lemma triple_post:
  "triple P m (\<lambda>_. E) E \<Longrightarrow> P s \<Longrightarrow> E (post m s)"
  by (simp add: triple_def case_prod_beta)

lemma triple_weaken:
  "triple P' m Q' E' \<Longrightarrow> (\<And>s. P s \<Longrightarrow> P' s) \<Longrightarrow> (\<And>x s. Q' x s \<Longrightarrow> Q x s) \<Longrightarrow>
   (\<And>s. E' s \<Longrightarrow> E s) \<Longrightarrow> triple P m Q E"
  by (fastforce simp: triple_def split: prod.splits sum.splits)

lemma triple_seq:
  "triple P m R E \<Longrightarrow> (\<And>x. triple (R x) (f x) Q E) \<Longrightarrow> triple P (seq m f) Q E"
  by (fastforce simp: triple_def seq_def split: prod.splits sum.splits)

lemma triple_ret: "(\<And>s. P s \<Longrightarrow> Q x s) \<Longrightarrow> triple P (ret x) Q E"
  by (simp add: triple_def py_run)

lemma triple_raise: "(\<And>s. P s \<Longrightarrow> E s) \<Longrightarrow> triple P (raise e) Q E"
  by (simp add: triple_def py_run)

lemma triple_gets: "(\<And>s. P s \<Longrightarrow> Q (g s) s) \<Longrightarrow> triple P (gets g) Q E"
  by (simp add: triple_def py_run)

lemma triple_modify: "(\<And>s. P s \<Longrightarrow> Q () (h s)) \<Longrightarrow> triple P (modify h) Q E"
  by (simp add: triple_def py_run)

lemma triple_fail_if:
  "(\<And>s. P s \<Longrightarrow> c \<Longrightarrow> E s) \<Longrightarrow> (\<And>s. P s \<Longrightarrow> \<not> c \<Longrightarrow> Q () s) \<Longrightarrow> triple P (fail_if c e) Q E"
  by (simp add: triple_def py_run)

lemma triple_lift:
  "(\<And>s e. P s \<Longrightarrow> r = Inl e \<Longrightarrow> E s) \<Longrightarrow> (\<And>s x. P s \<Longrightarrow> r = Inr x \<Longrightarrow> Q x s)
     \<Longrightarrow> triple P (lift r) Q E"
  by (cases r) (auto simp: triple_def py_run)

lemma triple_lift_eq:
  "(\<And>s. P s \<Longrightarrow> E s) \<Longrightarrow> triple P (lift r) (\<lambda>x s. P s \<and> r = Inr x) E"
  by (rule triple_lift) auto

lemma triple_pre: "(\<And>s. P s \<Longrightarrow> triple (\<lambda>t. t = s) m Q E) \<Longrightarrow> triple P m Q E"
  by (simp add: triple_def)

lemma keepsI: "(\<And>s. P s \<Longrightarrow> P (post m s)) \<Longrightarrow> keeps P m"
  by (simp add: keeps_def)

lemma keepsD: "keeps P m \<Longrightarrow> P s \<Longrightarrow> P (post m s)"
  by (simp add: keeps_def)

lemma keeps_basic [intro!, simp]:
  "keeps P (ret x)" "keeps P (raise e)" "keeps P (gets f)" "keeps P (fail_if c e)"
  "keeps P (lift r)"
  by (auto simp: keeps_def py_run)

lemma keeps_seq [intro]: "keeps P m \<Longrightarrow> (\<And>x. keeps P (f x)) \<Longrightarrow> keeps P (seq m f)"
  by (fastforce simp: keeps_def seq_def split: prod.splits sum.splits)

lemma keeps_modify: "(\<And>s. P s \<Longrightarrow> P (f s)) \<Longrightarrow> keeps P (modify f)"
  by (simp add: keeps_def py_run)

lemma keeps_each [intro]: "(\<And>x. x \<in> set xs \<Longrightarrow> keeps P (f x)) \<Longrightarrow> keeps P (each f xs)"
  by (induction xs) auto

lemma keeps_collect [intro]:
  "(\<And>x. x \<in> set xs \<Longrightarrow> keeps P (f x)) \<Longrightarrow> keeps P (collect f xs)"
  by (induction xs) auto

text \<open>A computation that only reads leaves the state as it is.\<close>

definition pure_read :: "('s, 'a) py \<Rightarrow> bool" where
  "pure_read m \<longleftrightarrow> (\<forall>s. post m s = s)"

lemma pure_read_basic [intro!, simp]:
  "pure_read (ret x)" "pure_read (raise e)" "pure_read (gets f)" "pure_read (fail_if c e)"
  "pure_read (lift r)"
  by (auto simp: pure_read_def py_run)

lemma pure_read_seq [intro]: "pure_read m \<Longrightarrow> (\<And>x. pure_read (f x)) \<Longrightarrow> pure_read (seq m f)"
  by (auto simp: pure_read_def seq_def split: prod.splits sum.splits) (metis snd_conv)+

lemma pure_read_keeps: "pure_read m \<Longrightarrow> keeps P m"
  by (simp add: pure_read_def keeps_def)

end
