(* ===== verification/Py_Text.thy ===== *)
theory Py_Text
  imports Py_Values "HOL-Library.Multiset"
begin

text \<open>
  The string operations of Python's standard library that the service relies on, on ASCII
  text: decimal formatting with zero padding, \<open>int(s)\<close>, \<open>strip\<close>, \<open>lower\<close>, \<open>rstrip\<close>,
  \<open>isalnum\<close>, \<open>startswith\<close>. The lemmas show that formatting is injective and that \<open>int\<close>
  reads back what was formatted.
\<close>

section \<open>Character classes\<close>

definition code_of :: "char \<Rightarrow> nat" where
  "code_of c = of_char c"

definition is_digit :: "char \<Rightarrow> bool" where
  "is_digit c \<longleftrightarrow> 48 \<le> code_of c \<and> code_of c \<le> 57"

definition is_upper :: "char \<Rightarrow> bool" where
  "is_upper c \<longleftrightarrow> 65 \<le> code_of c \<and> code_of c \<le> 90"

definition is_lower :: "char \<Rightarrow> bool" where
  "is_lower c \<longleftrightarrow> 97 \<le> code_of c \<and> code_of c \<le> 122"

definition is_alnum :: "char \<Rightarrow> bool" where
  "is_alnum c \<longleftrightarrow> is_digit c \<or> is_upper c \<or> is_lower c"

definition is_space :: "char \<Rightarrow> bool" where
  "is_space c \<longleftrightarrow> code_of c = 32 \<or> (9 \<le> code_of c \<and> code_of c \<le> 13)
                \<or> (28 \<le> code_of c \<and> code_of c \<le> 31)"

definition to_lower :: "char \<Rightarrow> char" where
  "to_lower c = (if is_upper c then char_of (code_of c + 32) else c)"

lemmas char_class_defs =
  is_digit_def is_upper_def is_lower_def is_alnum_def is_space_def to_lower_def code_of_def

section \<open>String methods\<close>

definition py_strip :: "string \<Rightarrow> string" where
  "py_strip s = rev (dropWhile is_space (rev (dropWhile is_space s)))"

definition py_lower :: "string \<Rightarrow> string" where
  "py_lower s = map to_lower s"

definition py_rstrip :: "char \<Rightarrow> string \<Rightarrow> string" where
  "py_rstrip c s = rev (dropWhile (\<lambda>x. x = c) (rev s))"

definition py_isalnum :: "string \<Rightarrow> bool" where
  "py_isalnum s \<longleftrightarrow> s \<noteq> [] \<and> list_all is_alnum s"

fun starts_with :: "string \<Rightarrow> string \<Rightarrow> bool" where
  "starts_with s [] = True"
| "starts_with [] (c # cs) = False"
| "starts_with (d # s) (c # cs) = (d = c \<and> starts_with s cs)"

text \<open>\<open>s.split(c)\<close> for a separator of one character.\<close>

fun py_split :: "char \<Rightarrow> string \<Rightarrow> string list" where
  "py_split c [] = [[]]"
| "py_split c (x # xs) =
     (if x = c then [] # py_split c xs
      else case py_split c xs of [] \<Rightarrow> [[x]] | w # ws \<Rightarrow> (x # w) # ws)"

text \<open>\<open>s.split()\<close>: the runs of characters that are not white space.\<close>

fun words_from :: "string \<Rightarrow> string \<Rightarrow> string list" where
  "words_from w [] = (if w = [] then [] else [rev w])"
| "words_from w (c # cs) =
     (if is_space c then (if w = [] then words_from [] cs else rev w # words_from [] cs)
      else words_from (c # w) cs)"

definition py_words :: "string \<Rightarrow> string list" where
  "py_words s = words_from [] s"

lemma py_split_nonempty [simp]: "py_split c s \<noteq> []"
  by (cases s) (auto split: list.split)

lemma py_split_no_sep: "w \<in> set (py_split c s) \<Longrightarrow> c \<notin> set w"
  by (induction s arbitrary: w) (auto split: if_splits list.splits)

section \<open>Decimal formatting\<close>

definition digit_char :: "nat \<Rightarrow> char" where
  "digit_char d = char_of (48 + d)"

definition digit_val :: "char \<Rightarrow> nat" where
  "digit_val c = code_of c - 48"

fun nat_str :: "nat \<Rightarrow> string" where
  "nat_str n = (if n < 10 then [digit_char n] else nat_str (n div 10) @ [digit_char (n mod 10)])"

declare nat_str.simps [simp del]

definition int_str :: "int \<Rightarrow> string" where
  "int_str i = (if i < 0 then ''-'' @ nat_str (nat (- i)) else nat_str (nat i))"

text \<open>\<open>f"{n:0wd}"\<close>: at least \<open>w\<close> digits, padded with zeros on the left.\<close>

definition pad_str :: "nat \<Rightarrow> nat \<Rightarrow> string" where
  "pad_str w n = replicate (w - length (nat_str n)) (CHR ''0'') @ nat_str n"

definition digits_val :: "nat \<Rightarrow> string \<Rightarrow> nat" where
  "digits_val acc s = foldl (\<lambda>a c. 10 * a + digit_val c) acc s"

lemma digit_char [simp]:
  assumes "d < 10"
  shows "digit_val (digit_char d) = d" and "is_digit (digit_char d)"
  using assms by (simp_all add: digit_val_def digit_char_def char_class_defs of_char_of)

lemma digits_val_append: "digits_val a (s @ t) = digits_val (digits_val a s) t"
  by (simp add: digits_val_def)

lemma digits_val_nat_str: "digits_val 0 (nat_str n) = n"
proof (induction n rule: nat_str.induct)
  case (1 n)
  then show ?case
    by (subst nat_str.simps) (auto simp: digits_val_append, auto simp: digits_val_def)
qed

lemma nat_str_digits: "list_all is_digit (nat_str n)"
proof (induction n rule: nat_str.induct)
  case (1 n)
  then show ?case by (subst nat_str.simps) auto
qed

lemma nat_str_nonempty [simp]: "nat_str n \<noteq> []"
  by (subst nat_str.simps) simp

lemma digits_val_zeros: "digits_val 0 (replicate k (CHR ''0'')) = 0"
  by (induction k) (simp_all add: digits_val_def digit_val_def code_of_def)

lemma digits_val_pad: "digits_val 0 (pad_str w n) = n"
  by (simp add: pad_str_def digits_val_append digits_val_zeros digits_val_nat_str)

lemma pad_str_inj [simp]: "pad_str w n = pad_str w m \<longleftrightarrow> n = m"
  by (metis digits_val_pad)

lemma pad_str_digits: "list_all is_digit (pad_str w n)"
  by (auto simp: pad_str_def nat_str_digits list_all_iff char_class_defs nat_str_digits [unfolded list_all_iff char_class_defs])

section \<open>Reading integers\<close>

text \<open>
  \<open>int(s)\<close> of a string: surrounding white space, one sign, digits with single underscores
  between them; more than 4300 digits are refused.
\<close>

fun scan_digits :: "bool \<Rightarrow> nat \<Rightarrow> string \<Rightarrow> nat option" where
  "scan_digits prev acc [] = (if prev then Some acc else None)"
| "scan_digits prev acc (c # cs) =
     (if is_digit c then scan_digits True (10 * acc + digit_val c) cs
      else if c = CHR ''_'' \<and> prev then scan_digits False acc cs
      else None)"

definition parse_nat :: "string \<Rightarrow> nat option" where
  "parse_nat s = (if 4300 < length (filter is_digit s) then None else scan_digits False 0 s)"

definition parse_int :: "string \<Rightarrow> int option" where
  "parse_int s =
     (case py_strip s of
        [] \<Rightarrow> None
      | c # cs \<Rightarrow>
          if c = CHR ''-'' then map_option (\<lambda>n. - int n) (parse_nat cs)
          else if c = CHR ''+'' then map_option int (parse_nat cs)
          else map_option int (parse_nat (c # cs)))"

lemma scan_digits_all:
  "list_all is_digit s \<Longrightarrow> s \<noteq> [] \<or> prev \<Longrightarrow> scan_digits prev acc s = Some (digits_val acc s)"
  by (induction s arbitrary: prev acc) (auto simp: digits_val_def)

lemma scan_digits_prev: "scan_digits prev acc s = Some n \<Longrightarrow> s = [] \<longrightarrow> prev"
  by (cases s) (auto split: if_splits)

lemma is_digit_not_space: "is_digit c \<Longrightarrow> \<not> is_space c \<and> c \<noteq> CHR ''-'' \<and> c \<noteq> CHR ''+''"
  by (auto simp: char_class_defs)

lemma dropWhile_none: "list_all (\<lambda>c. \<not> P c) s \<Longrightarrow> dropWhile P s = s"
  by (cases s) auto

lemma py_strip_none: "list_all (\<lambda>c. \<not> is_space c) s \<Longrightarrow> py_strip s = s"
  by (simp add: py_strip_def dropWhile_none list_all_iff)

lemma digits_no_space: "list_all is_digit s \<Longrightarrow> list_all (\<lambda>c. \<not> is_space c) s"
  using is_digit_not_space by (auto simp: list_all_iff)

text \<open>Formatting a number and reading it back.\<close>

lemma parse_nat_str:
  assumes "length (nat_str n) \<le> 4300"
  shows "parse_nat (nat_str n) = Some n"
proof -
  have "length (filter is_digit (nat_str n)) \<le> 4300"
    using assms length_filter_le [of is_digit "nat_str n"] by linarith
  then show ?thesis
    by (simp add: parse_nat_def scan_digits_all nat_str_digits digits_val_nat_str)
qed

lemma parse_int_str:
  assumes "length (nat_str (nat \<bar>i\<bar>)) \<le> 4300"
  shows "parse_int (int_str i) = Some i"
proof (cases "i < 0")
  case True
  let ?s = "nat_str (nat (- i))"
  have "list_all (\<lambda>c. \<not> is_space c) (CHR ''-'' # ?s)"
    using digits_no_space [OF nat_str_digits] by (simp add: char_class_defs)
  then have "py_strip (CHR ''-'' # ?s) = CHR ''-'' # ?s" by (rule py_strip_none)
  then show ?thesis
    using True assms by (simp add: int_str_def parse_int_def parse_nat_str)
next
  case False
  let ?s = "nat_str (nat i)"
  obtain c cs where s: "?s = c # cs" by (metis nat_str_nonempty neq_Nil_conv)
  then have "is_digit c" using nat_str_digits [of "nat i"] by simp
  moreover have "py_strip ?s = ?s"
    by (rule py_strip_none) (rule digits_no_space [OF nat_str_digits])
  ultimately show ?thesis
    using False assms parse_nat_str [of "nat i"] is_digit_not_space [of c]
    by (auto simp: int_str_def parse_int_def s)
qed

section \<open>Conversions of values\<close>

text \<open>
  \<open>int(v)\<close>: a float is truncated towards zero, a string is parsed, \<open>None\<close> and containers
  are refused.
\<close>

definition trunc_rat :: "rat \<Rightarrow> int" where
  "trunc_rat q = (if q < 0 then - \<lfloor>- q\<rfloor> else \<lfloor>q\<rfloor>)"

fun py_int :: "json \<Rightarrow> exn + int" where
  "py_int (JInt i) = Inr i"
| "py_int (JBool b) = Inr (if b then 1 else 0)"
| "py_int (JFloat q) = Inr (trunc_rat q)"
| "py_int (JStr s) =
     (case parse_int s of
        Some i \<Rightarrow> Inr i
      | None \<Rightarrow> Inl (ValueError ''invalid literal for int()''))"
| "py_int _ = Inl TypeError"

text \<open>\<open>round\<close> to an integer, ties to the even neighbour; with \<open>k\<close> decimals; \<open>f"{q:.kf}"\<close>.\<close>

definition round_half_even :: "rat \<Rightarrow> int" where
  "round_half_even q =
     (let n = \<lfloor>q\<rfloor>; d = q - of_int n
      in if d < 1/2 then n else if d > 1/2 then n + 1 else if even n then n else n + 1)"

definition round_to :: "nat \<Rightarrow> rat \<Rightarrow> rat" where
  "round_to k q = of_int (round_half_even (q * 10 ^ k)) / 10 ^ k"

definition fixed_str :: "nat \<Rightarrow> rat \<Rightarrow> string" where
  "fixed_str k q =
     (let n = round_half_even (\<bar>q\<bar> * 10 ^ k)
      in (if q < 0 then ''-'' else []) @ int_str (n div 10 ^ k) @ ''.'' @ pad_str k (nat (n mod 10 ^ k)))"

section \<open>What the interpreter decides\<close>

text \<open>
  Two things that Python leaves to the interpreter are parameters: the text of floats,
  lists and dictionaries (\<open>repr\<close>), and the order in which a set is iterated, which changes
  from process to process for strings. \<open>env_ok\<close> is the documented behaviour of the second:
  every element exactly once.
\<close>

record py_env =
  repr_of :: "json \<Rightarrow> string"
  set_iter :: "json list \<Rightarrow> json list"

definition env_ok :: "py_env \<Rightarrow> bool" where
  "env_ok env \<longleftrightarrow> (\<forall>xs. mset (set_iter env xs) = mset xs)"

definition plain_env :: py_env where
  "plain_env = \<lparr>repr_of = (\<lambda>_. []), set_iter = (\<lambda>xs. xs)\<rparr>"

lemma plain_env_ok: "env_ok plain_env"
  by (simp add: env_ok_def plain_env_def)

lemma set_iter_set: "env_ok env \<Longrightarrow> set (set_iter env xs) = set xs"
  unfolding env_ok_def by (metis set_mset_mset)

lemma set_iter_distinct: "env_ok env \<Longrightarrow> distinct (set_iter env xs) = distinct xs"
  unfolding env_ok_def by (metis mset_eq_imp_distinct_iff)

fun py_str :: "py_env \<Rightarrow> json \<Rightarrow> string" where
  "py_str env JNull = ''None''"
| "py_str env (JBool b) = (if b then ''True'' else ''False'')"
| "py_str env (JInt i) = int_str i"
| "py_str env (JStr s) = s"
| "py_str env v = repr_of env v"

text \<open>Iteration over a value, hashing, and the set built from an iterable.\<close>

fun py_iter :: "json \<Rightarrow> exn + json list" where
  "py_iter (JArr xs) = Inr xs"
| "py_iter (JStr s) = Inr (map (\<lambda>c. JStr [c]) s)"
| "py_iter (JObj d) = Inr (map (\<lambda>p. JStr (fst p)) d)"
| "py_iter _ = Inl TypeError"

definition hashable :: "json \<Rightarrow> bool" where
  "hashable v \<longleftrightarrow> type_of v \<noteq> TList \<and> type_of v \<noteq> TDict"

fun dedupe :: "json list \<Rightarrow> json list \<Rightarrow> json list" where
  "dedupe seen [] = []"
| "dedupe seen (x # xs) =
     (if list_ex (\<lambda>y. py_eq y x) seen then dedupe seen xs else x # dedupe (x # seen) xs)"

definition py_set :: "json \<Rightarrow> exn + json list" where
  "py_set v =
     (case py_iter v of
        Inl e \<Rightarrow> Inl e
      | Inr xs \<Rightarrow> if list_all hashable xs then Inr (dedupe [] xs) else Inl TypeError)"

definition in_set :: "json \<Rightarrow> json list \<Rightarrow> exn + bool" where
  "in_set v xs = (if hashable v then Inr (list_ex (\<lambda>x. py_eq x v) xs) else Inl TypeError)"

end
