(* ===== verification/Store_State.thy ===== *)
theory Store_State
  imports Py_Text
begin

text \<open>
  The state of \<open>InMemoryStore\<close> (store.py) and its three private helpers, in which every
  public operation is written: \<open>_create_locked\<close>, \<open>_get_locked\<close> and \<open>_update_locked\<close>, with
  the identifier counters of \<open>_new_id_locked\<close> and \<open>new_id\<close>.

  The fields are those of \<open>InMemoryStore.__init__\<close> without the asyncio conditions. A
  resource is a dictionary of JSON values; values are immutable here, so the copies that
  \<open>deepcopy\<close> makes on ingress and egress need no counterpart. The lock makes each operation
  one step. The arguments are the mappings that the signatures ask for.
\<close>

type_synonym coll = "(string \<times> jdict) list"

record stored_response =
  status_code :: int
  body :: json
  headers :: "(string \<times> string) list"

record idem_record =
  request_fingerprint :: string
  response :: "stored_response option"

record store =
  st_id_counters :: "(string \<times> nat) list"
  st_datasets :: coll
  st_dataset_versions :: coll
  st_runs :: coll
  st_events :: "(string \<times> jdict list) list"
  st_event_ids :: "(string \<times> coll) list"
  st_outputs :: "(string \<times> coll) list"
  st_decision_packets :: "(string \<times> coll) list"
  st_commands :: coll
  st_results :: coll
  st_artifacts :: coll
  st_approvals :: "(string \<times> coll) list"
  st_models :: coll
  st_webhook_endpoints :: coll
  st_webhook_deliveries :: "(string \<times> coll) list"
  st_deletions :: coll
  st_idempotency :: "((string \<times> string) \<times> idem_record) list"

definition empty_store :: store where
  "empty_store =
     \<lparr>st_id_counters = [], st_datasets = [], st_dataset_versions = [], st_runs = [],
      st_events = [], st_event_ids = [], st_outputs = [], st_decision_packets = [],
      st_commands = [], st_results = [], st_artifacts = [], st_approvals = [],
      st_models = [], st_webhook_endpoints = [], st_webhook_deliveries = [],
      st_deletions = [], st_idempotency = []\<rparr>"

section \<open>Identifiers\<close>

definition id_prefixes :: "(string \<times> string) list" where
  "id_prefixes =
     [(''dataset'', ''ds''), (''datasets'', ''ds''), (''ds'', ''ds''),
      (''dataset_version'', ''dsv''), (''dataset_versions'', ''dsv''), (''dsv'', ''dsv''),
      (''run'', ''run''), (''runs'', ''run''),
      (''event'', ''evt''), (''events'', ''evt''), (''evt'', ''evt''),
      (''output'', ''out''), (''outputs'', ''out''), (''out'', ''out''),
      (''decision_packet'', ''dp''), (''decision_packets'', ''dp''), (''dp'', ''dp''),
      (''wait_set'', ''ws''), (''ws'', ''ws''),
      (''command'', ''cmd''), (''commands'', ''cmd''), (''cmd'', ''cmd''),
      (''result'', ''res''), (''result_manifest'', ''res''), (''res'', ''res''),
      (''artifact'', ''art''), (''artifacts'', ''art''), (''art'', ''art''),
      (''experiment'', ''exp''), (''exp'', ''exp''),
      (''model'', ''mdl''), (''mdl'', ''mdl''),
      (''approval'', ''apr''), (''apr'', ''apr''),
      (''webhook_endpoint'', ''wh''), (''webhook_endpoints'', ''wh''), (''wh'', ''wh''),
      (''webhook_delivery'', ''whd''), (''webhook_deliveries'', ''whd''), (''whd'', ''whd''),
      (''deletion'', ''del''), (''deletions'', ''del''), (''del'', ''del''),
      (''redelivery'', ''redel''), (''redeliveries'', ''redel''), (''redel'', ''redel'')]"

definition format_id :: "string \<Rightarrow> nat \<Rightarrow> string" where
  "format_id prefix n = prefix @ ''_'' @ pad_str 12 n"

definition new_id_locked :: "string \<Rightarrow> (store, string) py" where
  "new_id_locked prefix s =
     (let value = (case map_of (st_id_counters s) prefix of None \<Rightarrow> 0 | Some n \<Rightarrow> n) + 1
      in (Inr (format_id prefix value),
          s\<lparr>st_id_counters := dput prefix value (st_id_counters s)\<rparr>))"

text \<open>\<open>self._new_id_locked(self._ID_PREFIXES[kind])\<close>.\<close>

definition new_id_of_kind :: "string \<Rightarrow> (store, string) py" where
  "new_id_of_kind kind =
     (case map_of id_prefixes kind of
        None \<Rightarrow> raise (KeyError kind)
      | Some prefix \<Rightarrow> new_id_locked prefix)"

definition new_id :: "string \<Rightarrow> (store, string) py" where
  "new_id kind =
     (let normalized = py_rstrip (CHR ''_'') (py_lower (py_strip kind));
          prefix = (case map_of id_prefixes normalized of None \<Rightarrow> normalized | Some p \<Rightarrow> p)
      in if prefix = [] \<or> \<not> py_isalnum (filter (\<lambda>c. c \<noteq> CHR ''-'') prefix)
         then raise (ValueError ''invalid resource ID kind'')
         else new_id_locked prefix)"

section \<open>Creating, reading and updating one resource of a collection\<close>

fun apply_fixed :: "string \<Rightarrow> (string \<times> json) list \<Rightarrow> jdict \<Rightarrow> exn + jdict" where
  "apply_fixed resource [] item = Inr item"
| "apply_fixed resource ((field, v) # fixed) item =
     (let supplied = dget item field
      in if supplied \<noteq> JNull \<and> \<not> py_eq supplied v
         then Inl (ValueError (resource @ ''.'' @ field @ '' does not match its parent''))
         else apply_fixed resource fixed (dput field v item))"

definition with_id :: "string \<Rightarrow> string \<Rightarrow> jdict \<Rightarrow> (store, jdict) py" where
  "with_id id_field kind item =
     (if dget item id_field = JNull
      then seq (new_id_of_kind kind) (\<lambda>rid. ret (dput id_field (JStr rid) item))
      else ret item)"

definition insert_new ::
  "(store \<Rightarrow> coll) \<Rightarrow> ((coll \<Rightarrow> coll) \<Rightarrow> store \<Rightarrow> store) \<Rightarrow> string \<Rightarrow> string \<Rightarrow> jdict
     \<Rightarrow> (store, jdict) py" where
  "insert_new get upd id_field resource item =
     (case dget item id_field of
        JStr rid \<Rightarrow>
          if rid = [] then raise (ValueError (resource @ ''.'' @ id_field @ '' must be a non-empty string''))
          else seq (gets (\<lambda>s. has_key (get s) rid)) (\<lambda>exists.
                 if exists then raise (ResourceAlreadyExists resource rid)
                 else seq (modify (upd (dput rid item))) (\<lambda>_. ret item))
      | _ \<Rightarrow> raise (ValueError (resource @ ''.'' @ id_field @ '' must be a non-empty string'')))"

definition create_locked ::
  "(store \<Rightarrow> coll) \<Rightarrow> ((coll \<Rightarrow> coll) \<Rightarrow> store \<Rightarrow> store) \<Rightarrow> string \<Rightarrow> string \<Rightarrow> string
     \<Rightarrow> (string \<times> json) list \<Rightarrow> jdict \<Rightarrow> (store, jdict) py" where
  "create_locked get upd id_field kind resource fixed value =
     seq (lift (apply_fixed resource fixed value)) (\<lambda>item.
     seq (with_id id_field kind item) (\<lambda>item.
       insert_new get upd id_field resource item))"

definition get_locked :: "(store \<Rightarrow> coll) \<Rightarrow> string \<Rightarrow> (store, jdict option) py" where
  "get_locked get resource_id = gets (\<lambda>s. map_of (get s) resource_id)"

text \<open>The patch of an update without its identifier field, unless that would change it.\<close>

definition patch_without_id :: "string \<Rightarrow> string \<Rightarrow> string \<Rightarrow> jdict \<Rightarrow> exn + jdict" where
  "patch_without_id resource id_field resource_id patch =
     (if py_eq (dget_or patch id_field (JStr resource_id)) (JStr resource_id)
      then Inr (dpop id_field patch)
      else Inl (ValueError (resource @ ''.'' @ id_field @ '' cannot be changed'')))"

definition update_locked ::
  "(store \<Rightarrow> coll) \<Rightarrow> ((coll \<Rightarrow> coll) \<Rightarrow> store \<Rightarrow> store) \<Rightarrow> string \<Rightarrow> string
     \<Rightarrow> string \<Rightarrow> jdict \<Rightarrow> (store, jdict) py" where
  "update_locked get upd id_field resource resource_id updates =
     seq (gets (\<lambda>s. map_of (get s) resource_id)) (\<lambda>found.
       case found of
         None \<Rightarrow> raise (ResourceNotFound resource resource_id)
       | Some current \<Rightarrow>
           seq (lift (patch_without_id resource id_field resource_id updates)) (\<lambda>patch.
             let item = dupdate current patch
             in seq (modify (upd (dput resource_id item))) (\<lambda>_. ret item)))"

end
