(* ===== verification/Store_Ops.thy ===== *)
theory Store_Ops
  imports Store_State
begin

text \<open>
  The public operations of \<open>InMemoryStore\<close> (store.py) on its flat and per-run collections:
  datasets, dataset versions, runs, outputs, decision packets, commands, results,
  artifacts, approvals, models, webhook endpoints and deliveries, deletions. Events and
  the webhook outbox are in \<open>Store_Events\<close>, idempotency in \<open>Store_Idempotency\<close>.
\<close>

section \<open>Access to nested collections\<close>

type_synonym nested = "(string \<times> coll) list"

definition sub :: "(store \<Rightarrow> nested) \<Rightarrow> string \<Rightarrow> store \<Rightarrow> coll" where
  "sub tab k s = (case map_of (tab s) k of None \<Rightarrow> [] | Some c \<Rightarrow> c)"

definition alter :: "string \<Rightarrow> ('a \<Rightarrow> 'a) \<Rightarrow> (string \<times> 'a) list \<Rightarrow> (string \<times> 'a) list" where
  "alter k f t = (case map_of t k of None \<Rightarrow> t | Some c \<Rightarrow> dput k (f c) t)"

definition in_sub ::
  "((nested \<Rightarrow> nested) \<Rightarrow> store \<Rightarrow> store) \<Rightarrow> string \<Rightarrow> (coll \<Rightarrow> coll) \<Rightarrow> store \<Rightarrow> store" where
  "in_sub tab_upd k f = tab_upd (alter k f)"

text \<open>\<open>self._outputs[run_id]\<close> raises \<open>KeyError\<close> where the entry is missing.\<close>

definition need_sub :: "(store \<Rightarrow> (string \<times> 'a) list) \<Rightarrow> string \<Rightarrow> (store, unit) py" where
  "need_sub tab k = seq (gets (\<lambda>s. has_key (tab s) k)) (\<lambda>ok. fail_if (\<not> ok) (KeyError k))"

definition require_run :: "string \<Rightarrow> (store, unit) py" where
  "require_run run_id =
     seq (gets (\<lambda>s. has_key (st_runs s) run_id)) (\<lambda>ok.
       fail_if (\<not> ok) (ResourceNotFound ''run'' run_id))"

text \<open>
  \<open>if run_id is not None and run_id not in self._runs: raise ...\<close>, where \<open>run_id\<close> is any
  value of the item: a list or dictionary is not hashable, another value that is not a
  string is no key.
\<close>

definition optional_run :: "py_env \<Rightarrow> jdict \<Rightarrow> (store, unit) py" where
  "optional_run env item =
     (case dget item ''run_id'' of
        JNull \<Rightarrow> ret ()
      | JStr r \<Rightarrow> require_run r
      | v \<Rightarrow> if hashable v then raise (ResourceNotFound ''run'' (py_str env v)) else raise TypeError)"

definition list_of :: "(store \<Rightarrow> coll) \<Rightarrow> (store, jdict list) py" where
  "list_of get = gets (\<lambda>s. map snd (get s))"

definition list_where :: "(store \<Rightarrow> coll) \<Rightarrow> string \<Rightarrow> string option \<Rightarrow> (store, jdict list) py" where
  "list_where get field sel =
     gets (\<lambda>s. let values = map snd (get s) in
       case sel of
         None \<Rightarrow> values
       | Some x \<Rightarrow> filter (\<lambda>v. py_eq (dget v field) (JStr x)) values)"

section \<open>Datasets and dataset versions\<close>

definition create_dataset :: "jdict \<Rightarrow> (store, jdict) py" where
  "create_dataset value =
     create_locked st_datasets st_datasets_update ''dataset_id'' ''dataset'' ''dataset'' [] value"

definition get_dataset :: "string \<Rightarrow> (store, jdict option) py" where
  "get_dataset dataset_id = get_locked st_datasets dataset_id"

definition update_dataset :: "string \<Rightarrow> jdict \<Rightarrow> (store, jdict) py" where
  "update_dataset dataset_id updates =
     update_locked st_datasets st_datasets_update ''dataset_id'' ''dataset'' dataset_id updates"

definition list_datasets :: "(store, jdict list) py" where
  "list_datasets = list_of st_datasets"

definition insert_version :: "json \<Rightarrow> jdict \<Rightarrow> (store, jdict) py" where
  "insert_version dataset_id value =
     create_locked st_dataset_versions st_dataset_versions_update
       ''dataset_version_id'' ''dataset_version'' ''dataset_version''
       [(''dataset_id'', dataset_id)] value"

definition create_dataset_version :: "string \<Rightarrow> jdict \<Rightarrow> (store, jdict) py" where
  "create_dataset_version dataset_id value =
     seq (gets (\<lambda>s. has_key (st_datasets s) dataset_id)) (\<lambda>ok.
     seq (fail_if (\<not> ok) (ResourceNotFound ''dataset'' dataset_id)) (\<lambda>_.
       insert_version (JStr dataset_id) value))"

text \<open>
  The dataset is removed again when its first version is refused
  (\<open>except Exception: self._datasets.pop(...); raise\<close>).
\<close>

definition create_dataset_with_version :: "jdict \<Rightarrow> jdict \<Rightarrow> (store, jdict \<times> jdict) py" where
  "create_dataset_with_version dataset version =
     seq (create_dataset dataset) (\<lambda>created s.
       case insert_version (dget created ''dataset_id'') version s of
         (Inl e, s') \<Rightarrow>
           (case dget created ''dataset_id'' of
              JStr k \<Rightarrow> (Inl e, st_datasets_update (dpop k) s')
            | _ \<Rightarrow> (Inl e, s'))
       | (Inr v, s') \<Rightarrow> (Inr (created, v), s'))"

definition get_dataset_version :: "string \<Rightarrow> (store, jdict option) py" where
  "get_dataset_version dataset_version_id = get_locked st_dataset_versions dataset_version_id"

definition update_dataset_version :: "string \<Rightarrow> jdict \<Rightarrow> (store, jdict) py" where
  "update_dataset_version dataset_version_id updates =
     seq (gets (\<lambda>s. map_of (st_dataset_versions s) dataset_version_id)) (\<lambda>found.
       case found of
         None \<Rightarrow> raise (ResourceNotFound ''dataset_version'' dataset_version_id)
       | Some current \<Rightarrow>
           (case map_of current ''dataset_id'' of
              None \<Rightarrow> raise (KeyError ''dataset_id'')
            | Some owner \<Rightarrow>
                if \<not> py_eq (dget_or updates ''dataset_id'' owner) owner
                then raise (ValueError ''dataset_version.dataset_id cannot be changed'')
                else update_locked st_dataset_versions st_dataset_versions_update
                       ''dataset_version_id'' ''dataset_version'' dataset_version_id updates))"

definition list_dataset_versions :: "string option \<Rightarrow> (store, jdict list) py" where
  "list_dataset_versions dataset_id = list_where st_dataset_versions ''dataset_id'' dataset_id"

section \<open>Runs\<close>

definition create_run :: "jdict \<Rightarrow> (store, jdict) py" where
  "create_run value =
     (let item = dset_default ''snapshot_seq'' (JInt 0)
                   (dset_default ''run_revision'' (JInt 1) value)
      in seq (create_locked st_runs st_runs_update ''run_id'' ''run'' ''run'' [] item) (\<lambda>created.
         case dget created ''run_id'' of
           JStr run_id \<Rightarrow>
             seq (modify (st_events_update (dput run_id []))) (\<lambda>_.
             seq (modify (st_event_ids_update (dput run_id []))) (\<lambda>_.
             seq (modify (st_outputs_update (dput run_id []))) (\<lambda>_.
             seq (modify (st_decision_packets_update (dput run_id []))) (\<lambda>_.
             seq (modify (st_approvals_update (dput run_id []))) (\<lambda>_.
             ret created)))))
         | _ \<Rightarrow> raise (KeyError ''run_id'')))"

definition get_run :: "string \<Rightarrow> (store, jdict option) py" where
  "get_run run_id = get_locked st_runs run_id"

definition list_runs :: "(store, jdict list) py" where
  "list_runs = list_of st_runs"

text \<open>
  The optimistic concurrency check of \<open>update_run\<close>, \<open>mutate_run_with_event\<close> and
  \<open>finalize_run_with_result\<close>: \<open>int(current.get("run_revision", 1))\<close> against the expected one.
\<close>

definition check_revision :: "jdict \<Rightarrow> int option \<Rightarrow> (store, int) py" where
  "check_revision current expected =
     seq (lift (py_int (dget_or current ''run_revision'' (JInt 1)))) (\<lambda>revision.
       case expected of
         Some e \<Rightarrow> if e \<noteq> revision then raise (RevisionConflict e revision) else ret revision
       | None \<Rightarrow> ret revision)"

definition current_run :: "string \<Rightarrow> (store, jdict) py" where
  "current_run run_id =
     seq (gets (\<lambda>s. map_of (st_runs s) run_id)) (\<lambda>found.
       case found of
         None \<Rightarrow> raise (ResourceNotFound ''run'' run_id)
       | Some current \<Rightarrow> ret current)"

definition put_run :: "string \<Rightarrow> jdict \<Rightarrow> (store, unit) py" where
  "put_run run_id item = modify (st_runs_update (dput run_id item))"

definition protect_run :: "jdict \<Rightarrow> jdict" where
  "protect_run patch = dpop ''snapshot_seq'' (dpop ''run_revision'' patch)"

definition bumped :: "bool \<Rightarrow> int \<Rightarrow> jdict \<Rightarrow> jdict" where
  "bumped bump revision item =
     (if bump then dput ''run_revision'' (JInt (revision + 1)) item else item)"

definition update_run ::
  "string \<Rightarrow> jdict \<Rightarrow> int option \<Rightarrow> bool \<Rightarrow> (store, jdict) py" where
  "update_run run_id updates expected_revision bump_revision =
     seq (current_run run_id) (\<lambda>current.
     seq (check_revision current expected_revision) (\<lambda>revision.
     seq (lift (patch_without_id ''run'' ''run_id'' run_id updates)) (\<lambda>patch.
       let item = bumped bump_revision revision (dupdate current (protect_run patch))
       in seq (put_run run_id item) (\<lambda>_. ret item))))"

section \<open>Outputs, decision packets and approvals of a run\<close>

definition create_output :: "string \<Rightarrow> jdict \<Rightarrow> (store, jdict) py" where
  "create_output run_id value =
     seq (require_run run_id) (\<lambda>_.
     seq (need_sub st_outputs run_id) (\<lambda>_.
       create_locked (sub st_outputs run_id) (in_sub st_outputs_update run_id)
         ''output_id'' ''output'' ''output'' [(''run_id'', JStr run_id)] value))"

definition get_output :: "string \<Rightarrow> string \<Rightarrow> (store, jdict option) py" where
  "get_output run_id output_id =
     seq (require_run run_id) (\<lambda>_.
     seq (need_sub st_outputs run_id) (\<lambda>_. get_locked (sub st_outputs run_id) output_id))"

definition list_outputs :: "string \<Rightarrow> (store, jdict list) py" where
  "list_outputs run_id =
     seq (require_run run_id) (\<lambda>_.
     seq (need_sub st_outputs run_id) (\<lambda>_. list_of (sub st_outputs run_id)))"

definition create_decision_packet :: "string \<Rightarrow> jdict \<Rightarrow> (store, jdict) py" where
  "create_decision_packet run_id value =
     seq (require_run run_id) (\<lambda>_.
     seq (new_id_of_kind ''wait_set'') (\<lambda>ws.
     seq (need_sub st_decision_packets run_id) (\<lambda>_.
       create_locked (sub st_decision_packets run_id) (in_sub st_decision_packets_update run_id)
         ''decision_packet_id'' ''decision_packet'' ''decision_packet''
         [(''run_id'', JStr run_id)] (dset_default ''wait_set_id'' (JStr ws) value))))"

definition get_decision_packet :: "string \<Rightarrow> string \<Rightarrow> (store, jdict option) py" where
  "get_decision_packet run_id packet_id =
     seq (require_run run_id) (\<lambda>_.
     seq (need_sub st_decision_packets run_id) (\<lambda>_.
       get_locked (sub st_decision_packets run_id) packet_id))"

definition get_decision_packet_by_wait_set :: "string \<Rightarrow> string \<Rightarrow> (store, jdict option) py" where
  "get_decision_packet_by_wait_set run_id wait_set_id =
     seq (require_run run_id) (\<lambda>_.
     seq (need_sub st_decision_packets run_id) (\<lambda>_.
       gets (\<lambda>s. find (\<lambda>p. py_eq (dget p ''wait_set_id'') (JStr wait_set_id))
                     (rev (map snd (sub st_decision_packets run_id s))))))"

definition update_decision_packet :: "string \<Rightarrow> string \<Rightarrow> jdict \<Rightarrow> (store, jdict) py" where
  "update_decision_packet run_id packet_id updates =
     seq (require_run run_id) (\<lambda>_.
     seq (need_sub st_decision_packets run_id) (\<lambda>_.
     seq (gets (\<lambda>s. map_of (sub st_decision_packets run_id s) packet_id)) (\<lambda>found.
       case found of
         None \<Rightarrow> raise (ResourceNotFound ''decision_packet'' packet_id)
       | Some current \<Rightarrow>
           if \<not> py_eq (dget_or updates ''run_id'' (JStr run_id)) (JStr run_id)
           then raise (ValueError ''decision_packet.run_id cannot be changed'')
           else if \<not> py_eq (dget_or updates ''wait_set_id'' (dget current ''wait_set_id''))
                          (dget current ''wait_set_id'')
           then raise (ValueError ''decision_packet.wait_set_id cannot be changed'')
           else update_locked (sub st_decision_packets run_id)
                  (in_sub st_decision_packets_update run_id)
                  ''decision_packet_id'' ''decision_packet'' packet_id updates)))"

definition list_decision_packets :: "string \<Rightarrow> (store, jdict list) py" where
  "list_decision_packets run_id =
     seq (require_run run_id) (\<lambda>_.
     seq (need_sub st_decision_packets run_id) (\<lambda>_. list_of (sub st_decision_packets run_id)))"

text \<open>\<open>self._approvals.setdefault(run_id, {})\<close>.\<close>

definition ensure_sub ::
  "((nested \<Rightarrow> nested) \<Rightarrow> store \<Rightarrow> store) \<Rightarrow> string \<Rightarrow> (store, unit) py" where
  "ensure_sub tab_upd k = modify (tab_upd (dset_default k []))"

definition create_approval :: "string \<Rightarrow> jdict \<Rightarrow> (store, jdict) py" where
  "create_approval run_id value =
     seq (require_run run_id) (\<lambda>_.
     seq (ensure_sub st_approvals_update run_id) (\<lambda>_.
       create_locked (sub st_approvals run_id) (in_sub st_approvals_update run_id)
         ''approval_id'' ''approval'' ''approval'' [(''run_id'', JStr run_id)] value))"

definition get_approval :: "string \<Rightarrow> string \<Rightarrow> (store, jdict option) py" where
  "get_approval run_id approval_id =
     seq (require_run run_id) (\<lambda>_.
     seq (ensure_sub st_approvals_update run_id) (\<lambda>_.
       get_locked (sub st_approvals run_id) approval_id))"

definition update_approval :: "string \<Rightarrow> string \<Rightarrow> jdict \<Rightarrow> (store, jdict) py" where
  "update_approval run_id approval_id updates =
     seq (require_run run_id) (\<lambda>_.
       if \<not> py_eq (dget_or updates ''run_id'' (JStr run_id)) (JStr run_id)
       then raise (ValueError ''approval.run_id cannot be changed'')
       else seq (ensure_sub st_approvals_update run_id) (\<lambda>_.
              update_locked (sub st_approvals run_id) (in_sub st_approvals_update run_id)
                ''approval_id'' ''approval'' approval_id updates))"

definition list_approvals :: "string \<Rightarrow> (store, jdict list) py" where
  "list_approvals run_id =
     seq (require_run run_id) (\<lambda>_.
     seq (ensure_sub st_approvals_update run_id) (\<lambda>_. list_of (sub st_approvals run_id)))"

section \<open>Commands, artifacts, models and deletions\<close>

definition create_command :: "py_env \<Rightarrow> jdict \<Rightarrow> (store, jdict) py" where
  "create_command env value =
     seq (optional_run env value) (\<lambda>_.
       create_locked st_commands st_commands_update ''command_id'' ''command'' ''command'' [] value)"

definition get_command :: "string \<Rightarrow> (store, jdict option) py" where
  "get_command command_id = get_locked st_commands command_id"

definition update_command :: "string \<Rightarrow> jdict \<Rightarrow> (store, jdict) py" where
  "update_command command_id updates =
     update_locked st_commands st_commands_update ''command_id'' ''command'' command_id updates"

definition list_commands :: "string option \<Rightarrow> (store, jdict list) py" where
  "list_commands run_id = list_where st_commands ''run_id'' run_id"

definition create_artifact :: "py_env \<Rightarrow> jdict \<Rightarrow> (store, jdict) py" where
  "create_artifact env value =
     seq (optional_run env value) (\<lambda>_.
       create_locked st_artifacts st_artifacts_update
         ''artifact_id'' ''artifact'' ''artifact'' [] value)"

definition get_artifact :: "string \<Rightarrow> (store, jdict option) py" where
  "get_artifact artifact_id = get_locked st_artifacts artifact_id"

definition update_artifact :: "string \<Rightarrow> jdict \<Rightarrow> (store, jdict) py" where
  "update_artifact artifact_id updates =
     update_locked st_artifacts st_artifacts_update
       ''artifact_id'' ''artifact'' artifact_id updates"

definition list_artifacts :: "string option \<Rightarrow> (store, jdict list) py" where
  "list_artifacts run_id = list_where st_artifacts ''run_id'' run_id"

definition create_model :: "py_env \<Rightarrow> jdict \<Rightarrow> (store, jdict) py" where
  "create_model env value =
     seq (optional_run env value) (\<lambda>_.
       create_locked st_models st_models_update ''model_id'' ''model'' ''model'' [] value)"

definition get_model :: "string \<Rightarrow> (store, jdict option) py" where
  "get_model model_id = get_locked st_models model_id"

definition list_models :: "string option \<Rightarrow> (store, jdict list) py" where
  "list_models run_id = list_where st_models ''run_id'' run_id"

definition create_deletion :: "jdict \<Rightarrow> (store, jdict) py" where
  "create_deletion value =
     create_locked st_deletions st_deletions_update
       ''deletion_id'' ''deletion'' ''deletion'' [] value"

definition get_deletion :: "string \<Rightarrow> (store, jdict option) py" where
  "get_deletion deletion_id = get_locked st_deletions deletion_id"

definition update_deletion :: "string \<Rightarrow> jdict \<Rightarrow> (store, jdict) py" where
  "update_deletion deletion_id updates =
     update_locked st_deletions st_deletions_update
       ''deletion_id'' ''deletion'' deletion_id updates"

section \<open>Results\<close>

text \<open>
  \<open>setdefault\<close> evaluates its argument first, so a manifest identifier is drawn even when
  the result names its own.
\<close>

definition prepare_result :: "string \<Rightarrow> jdict \<Rightarrow> (store, jdict) py" where
  "prepare_result run_id value =
     (let supplied = dget value ''run_id''
      in seq (fail_if (supplied \<noteq> JNull \<and> \<not> py_eq supplied (JStr run_id))
                (ValueError ''result.run_id does not match its parent run'')) (\<lambda>_.
         seq (new_id_of_kind ''result'') (\<lambda>rid.
           ret (dset_default ''result_manifest_id'' (JStr rid)
                  (dput ''run_id'' (JStr run_id) value)))))"

definition store_result :: "string \<Rightarrow> jdict \<Rightarrow> (store, unit) py" where
  "store_result run_id result =
     seq (gets (\<lambda>s. map_of (st_results s) run_id)) (\<lambda>existing.
     seq (fail_if (case existing of None \<Rightarrow> False | Some r \<Rightarrow> \<not> py_eq (JObj r) (JObj result))
            (ResourceAlreadyExists ''result'' run_id)) (\<lambda>_.
       modify (st_results_update (dput run_id result))))"

definition set_result :: "string \<Rightarrow> jdict \<Rightarrow> (store, jdict) py" where
  "set_result run_id value =
     seq (require_run run_id) (\<lambda>_.
     seq (prepare_result run_id value) (\<lambda>result.
     seq (store_result run_id result) (\<lambda>_. ret result)))"

definition get_result :: "string \<Rightarrow> (store, jdict option) py" where
  "get_result run_id =
     seq (require_run run_id) (\<lambda>_. get_locked st_results run_id)"

section \<open>Webhook endpoints and deliveries\<close>

definition create_webhook_endpoint :: "jdict \<Rightarrow> (store, jdict) py" where
  "create_webhook_endpoint value =
     create_locked st_webhook_endpoints st_webhook_endpoints_update
       ''webhook_endpoint_id'' ''webhook_endpoint'' ''webhook_endpoint'' [] value"

definition get_webhook_endpoint :: "string \<Rightarrow> (store, jdict option) py" where
  "get_webhook_endpoint endpoint_id = get_locked st_webhook_endpoints endpoint_id"

definition update_webhook_endpoint :: "string \<Rightarrow> jdict \<Rightarrow> (store, jdict) py" where
  "update_webhook_endpoint endpoint_id updates =
     update_locked st_webhook_endpoints st_webhook_endpoints_update
       ''webhook_endpoint_id'' ''webhook_endpoint'' endpoint_id updates"

definition list_webhook_endpoints :: "string option \<Rightarrow> (store, jdict list) py" where
  "list_webhook_endpoints tenant_id = list_where st_webhook_endpoints ''tenant_id'' tenant_id"

definition require_endpoint :: "string \<Rightarrow> (store, unit) py" where
  "require_endpoint endpoint_id =
     seq (gets (\<lambda>s. has_key (st_webhook_endpoints s) endpoint_id)) (\<lambda>ok.
       fail_if (\<not> ok) (ResourceNotFound ''webhook_endpoint'' endpoint_id))"

definition insert_delivery :: "string \<Rightarrow> jdict \<Rightarrow> (store, jdict) py" where
  "insert_delivery endpoint_id value =
     create_locked (sub st_webhook_deliveries endpoint_id)
       (in_sub st_webhook_deliveries_update endpoint_id)
       ''delivery_id'' ''webhook_delivery'' ''webhook_delivery''
       [(''webhook_endpoint_id'', JStr endpoint_id)] value"

definition create_webhook_delivery :: "string \<Rightarrow> jdict \<Rightarrow> (store, jdict) py" where
  "create_webhook_delivery endpoint_id value =
     seq (require_endpoint endpoint_id) (\<lambda>_.
     seq (ensure_sub st_webhook_deliveries_update endpoint_id) (\<lambda>_.
       insert_delivery endpoint_id value))"

definition get_webhook_delivery :: "string \<Rightarrow> string \<Rightarrow> (store, jdict option) py" where
  "get_webhook_delivery endpoint_id delivery_id =
     seq (require_endpoint endpoint_id) (\<lambda>_.
     seq (ensure_sub st_webhook_deliveries_update endpoint_id) (\<lambda>_.
       get_locked (sub st_webhook_deliveries endpoint_id) delivery_id))"

definition update_webhook_delivery :: "string \<Rightarrow> string \<Rightarrow> jdict \<Rightarrow> (store, jdict) py" where
  "update_webhook_delivery endpoint_id delivery_id updates =
     seq (require_endpoint endpoint_id) (\<lambda>_.
       if \<not> py_eq (dget_or updates ''webhook_endpoint_id'' (JStr endpoint_id)) (JStr endpoint_id)
       then raise (ValueError ''webhook_delivery.webhook_endpoint_id cannot be changed'')
       else seq (ensure_sub st_webhook_deliveries_update endpoint_id) (\<lambda>_.
              update_locked (sub st_webhook_deliveries endpoint_id)
                (in_sub st_webhook_deliveries_update endpoint_id)
                ''delivery_id'' ''webhook_delivery'' delivery_id updates))"

definition list_webhook_deliveries :: "string \<Rightarrow> (store, jdict list) py" where
  "list_webhook_deliveries endpoint_id =
     seq (require_endpoint endpoint_id) (\<lambda>_.
     seq (ensure_sub st_webhook_deliveries_update endpoint_id) (\<lambda>_.
       list_of (sub st_webhook_deliveries endpoint_id)))"

end
