(* ===== verification/Py_Base64.thy ===== *)
theory Py_Base64
  imports Py_Text
begin

text \<open>
  Base64 in the URL-safe alphabet, as the standard library reads and writes it
  (\<open>base64.urlsafe_b64encode\<close>, \<open>base64.b64decode\<close>, \<open>binascii.a2b_base64\<close> with its strict mode),
  on which the tokens and cursors of the service rest. A \<open>char\<close> is one byte.
\<close>

section \<open>Encoding\<close>

definition b64_char :: "nat \<Rightarrow> char" where
  "b64_char v =
     (if v < 26 then char_of (65 + v) else if v < 52 then char_of (71 + v)
      else if v < 62 then char_of (v - 4) else if v = 62 then CHR ''-'' else CHR ''_'')"

definition b64_index :: "char \<Rightarrow> nat option" where
  "b64_index c =
     (if is_upper c then Some (code_of c - 65)
      else if is_lower c then Some (code_of c - 71)
      else if is_digit c then Some (code_of c + 4)
      else if c = CHR ''-'' \<or> c = CHR ''+'' then Some 62
      else if c = CHR ''_'' \<or> c = CHR ''/'' then Some 63
      else None)"

fun b64_encode :: "string \<Rightarrow> string" where
  "b64_encode [] = []"
| "b64_encode [x] =
     [b64_char (code_of x div 4), b64_char (code_of x mod 4 * 16), CHR ''='', CHR ''='']"
| "b64_encode [x, y] =
     [b64_char (code_of x div 4), b64_char (code_of x mod 4 * 16 + code_of y div 16),
      b64_char (code_of y mod 16 * 4), CHR ''='']"
| "b64_encode (x # y # z # s) =
     b64_char (code_of x div 4) # b64_char (code_of x mod 4 * 16 + code_of y div 16) #
     b64_char (code_of y mod 16 * 4 + code_of z div 64) # b64_char (code_of z mod 64) # b64_encode s"

section \<open>Decoding\<close>

text \<open>
  The loop of \<open>a2b_base64\<close>: the position in the group of four, the bits left over, the run of
  padding and whether padding was seen. Outside strict mode other characters are skipped.
\<close>

fun a2b :: "bool \<Rightarrow> nat \<Rightarrow> nat \<Rightarrow> nat \<Rightarrow> bool \<Rightarrow> string \<Rightarrow> string option" where
  "a2b strict q l pads seen [] = (if q = 0 then Some [] else None)"
| "a2b strict q l pads seen (c # cs) =
     (if c = CHR ''='' then
        if strict \<and> q = 0 then None
        else if 2 \<le> q then
          if 4 \<le> q + pads + 1 then (if strict \<and> cs \<noteq> [] then None else Some [])
          else a2b strict q l (pads + 1) True cs
        else a2b strict q l pads True cs
      else case b64_index c of
        None \<Rightarrow> if strict then None else a2b strict q l pads seen cs
      | Some v \<Rightarrow>
          if strict \<and> seen then None
          else if q = 0 then a2b strict 1 v 0 seen cs
          else if q = 1 then map_option (Cons (char_of (l * 4 + v div 16))) (a2b strict 2 (v mod 16) 0 seen cs)
          else if q = 2 then map_option (Cons (char_of (l * 16 + v div 4))) (a2b strict 3 (v mod 4) 0 seen cs)
          else map_option (Cons (char_of (l * 64 + v))) (a2b strict 0 0 0 seen cs))"

definition b64_decode :: "bool \<Rightarrow> string \<Rightarrow> string option" where
  "b64_decode strict s = a2b strict 0 0 0 False s"

text \<open>\<open>s + "=" * (-len(s) % 4)\<close>.\<close>

definition b64_pad :: "string \<Rightarrow> string" where
  "b64_pad s = s @ replicate (nat (- int (length s) mod 4)) (CHR ''='')"

section \<open>Decoding reads what encoding wrote\<close>

lemma code_of_less [simp]: "code_of c < 256"
  by (simp add: code_of_def)

lemma char_of_code_of [simp]: "char_of (code_of c) = c"
  by (simp add: code_of_def)

lemma b64_index_char [simp]: "v < 64 \<Longrightarrow> b64_index (b64_char v) = Some v"
  by (auto simp: b64_char_def b64_index_def char_class_defs of_char_of)

lemma b64_index_pad: "b64_index (CHR ''='') = None"
  by code_simp

lemma b64_char_not_pad [simp]: "v < 64 \<Longrightarrow> b64_char v \<noteq> CHR ''=''"
  using b64_index_char [of v] b64_index_pad by fastforce

lemma high_bits [simp]:
  "code_of x div 4 < 64" "code_of y div 16 < 16" "code_of z div 64 < 4"
  by (simp_all add: less_mult_imp_div_less)

lemma bits [simp]:
  "code_of x mod 4 * 16 + code_of y div 16 < 64" "code_of y mod 16 * 4 + code_of z div 64 < 64"
  "code_of x mod 4 * 16 < 64" "code_of y mod 16 * 4 < 64" "code_of z mod 64 < 64"
  "code_of y div 16 div 16 = 0" "code_of y div 16 mod 16 = code_of y div 16"
  "code_of z div 64 div 4 = 0" "code_of z div 64 mod 4 = code_of z div 64"
proof -
  have "code_of x mod 4 < 4" "code_of y mod 16 < 16" by simp_all
  then show "code_of x mod 4 * 16 + code_of y div 16 < 64" "code_of y mod 16 * 4 + code_of z div 64 < 64"
    "code_of x mod 4 * 16 < 64" "code_of y mod 16 * 4 < 64"
    using high_bits(2) [of y] high_bits(3) [of z] by linarith+
qed (simp_all only: high_bits div_less mod_less mod_less_divisor zero_less_numeral)

lemma pad_count: "(n + k) mod 4 = 0 \<Longrightarrow> k < 4 \<Longrightarrow> nat (- int n mod 4) = k"
proof -
  assume "(n + k) mod 4 = 0" and "k < 4"
  then have "(int n + int k) mod 4 = 0" and "0 \<le> int k" and "int k < 4"
    by presburger+
  then have "- int n mod 4 = int k" by presburger
  then show ?thesis by simp
qed

lemma a2b_encode: "a2b strict 0 l p False (b64_encode s) = Some s"
proof (induction s arbitrary: l p rule: b64_encode.induct)
  case (2 x)
  show ?case by (simp)
next
  case (3 x y)
  show ?case by (simp)
next
  case (4 x y z s)
  then show ?case by (simp)
qed simp

lemma b64_decode_encode: "b64_decode strict (b64_encode s) = Some s"
  by (simp add: b64_decode_def a2b_encode)

text \<open>Cutting the padding off and putting it back.\<close>

lemma b64_encode_shape:
  "\<exists>t k. b64_encode s = t @ replicate k (CHR ''='') \<and> k < 4 \<and> CHR ''='' \<notin> set t \<and>
     length (b64_encode s) mod 4 = 0"
proof (induction s rule: b64_encode.induct)
  case (2 x)
  show ?case
    by (rule exI [where x = "[b64_char (code_of x div 4), b64_char (code_of x mod 4 * 16)]"], rule exI [where x = 2])
       (simp add: numeral_2_eq_2 not_sym [OF b64_char_not_pad])
next
  case (3 x y)
  show ?case
    by (rule exI [where x = "[b64_char (code_of x div 4), b64_char (code_of x mod 4 * 16 + code_of y div 16),
          b64_char (code_of y mod 16 * 4)]"], rule exI [where x = 1])
       (simp add: not_sym [OF b64_char_not_pad])
next
  case (4 x y z s)
  then obtain t k where "b64_encode s = t @ replicate k (CHR ''='')" "k < 4" "CHR ''='' \<notin> set t"
    "length (b64_encode s) mod 4 = 0" by metis
  then show ?case
    by (intro exI [where x = "b64_char (code_of x div 4) # b64_char (code_of x mod 4 * 16 + code_of y div 16) #
          b64_char (code_of y mod 16 * 4 + code_of z div 64) # b64_char (code_of z mod 64) # t"] exI [where x = k])
       (simp add: not_sym [OF b64_char_not_pad])
qed simp

lemma rstrip_replicate: "c \<notin> set t \<Longrightarrow> py_rstrip c (t @ replicate k c) = t"
proof -
  assume "c \<notin> set t"
  then have "dropWhile (\<lambda>x. x = c) (rev t) = rev t"
    by (intro dropWhile_none) (auto simp: list_all_iff)
  moreover have "dropWhile (\<lambda>x. x = c) (replicate k c @ u) = dropWhile (\<lambda>x. x = c) u" for u
    by (induction k) auto
  ultimately show ?thesis by (simp add: py_rstrip_def)
qed

lemma b64_pad_rstrip: "b64_pad (py_rstrip (CHR ''='') (b64_encode s)) = b64_encode s"
proof -
  obtain t k where e: "b64_encode s = t @ replicate k (CHR ''='')" "k < 4" "CHR ''='' \<notin> set t"
    and "length (b64_encode s) mod 4 = 0"
    using b64_encode_shape [of s] by metis
  then have "nat (- int (length t) mod 4) = k"
    by (intro pad_count) simp_all
  with e show ?thesis by (simp add: rstrip_replicate b64_pad_def)
qed

lemma b64_round_trip: "b64_decode strict (b64_pad (py_rstrip (CHR ''='') (b64_encode s))) = Some s"
  by (simp add: b64_pad_rstrip b64_decode_encode)

end
