(* ===== verification/Py_Json.thy ===== *)
theory Py_Json
  imports Py_Text
begin

text \<open>
  What \<open>json.loads\<close> gives back for a value written with
  \<open>json.dumps(..., sort_keys=True, separators=(",", ":"))\<close> (persistence.py): the same value,
  with the keys of every dictionary in sorted order. The text in between is not modelled.
  The comparison of keys is that of code points; a \<open>char\<close> here is one byte of UTF-8, which
  orders alike.
\<close>

definition sort_keys :: "(string \<times> 'v) list \<Rightarrow> (string \<times> 'v) list" where
  "sort_keys d = sort_key fst d"

fun canon :: "json \<Rightarrow> json" where
  "canon (JArr xs) = JArr (map canon xs)"
| "canon (JObj d) = JObj (sort_keys (map (\<lambda>(k, v). (k, canon v)) d))"
| "canon v = v"

abbreviation canon_dict :: "jdict \<Rightarrow> jdict" where
  "canon_dict d \<equiv> sort_keys (map (\<lambda>(k, v). (k, canon v)) d)"

lemma set_sort_keys [simp]: "set (sort_keys d) = set d"
  by (simp add: sort_keys_def)

lemma length_sort_keys [simp]: "length (sort_keys d) = length d"
  by (simp add: sort_keys_def)

lemma distinct_sort_keys [simp]: "distinct (map fst (sort_keys d)) = distinct (map fst d)"
proof -
  have "mset (map fst (sort_keys d)) = mset (map fst d)"
    by (simp add: sort_keys_def)
  then show ?thesis by (rule mset_eq_imp_distinct_iff)
qed

lemma map_of_filter: "map_of d k = map_of (filter (\<lambda>p. fst p = k) d) k"
  by (induction d) auto

text \<open>Sorting is stable, so lookups are the same even where a key occurs twice.\<close>

lemma map_of_sort_keys [simp]: "map_of (sort_keys d) k = map_of d k"
  unfolding sort_keys_def
  by (subst (1 2) map_of_filter) (simp only: sort_key_stable [of fst k d, simplified])

lemma has_key_sort_keys [simp]: "has_key (sort_keys d) k = has_key d k"
  by (simp add: has_key_def)

lemma map_of_map_values [simp]: "map_of (map (\<lambda>(k, v). (k, f v)) d) k = map_option f (map_of d k)"
  by (induction d) auto

lemma fst_comp_values [simp]: "fst \<circ> (\<lambda>(k, v). (k, f v)) = fst"
  by (rule ext) auto

lemma map_of_canon_dict: "map_of (canon_dict d) k = map_option canon (map_of d k)"
  by simp

lemma dget_canon_dict [simp]: "dget (canon_dict d) k = canon (dget d k)"
  by (simp add: dget_def split: option.split)

lemma insort_map_values:
  "insort_key fst (k, f v) (map (\<lambda>(k, v). (k, f v)) d)
     = map (\<lambda>(k, v). (k, f v)) (insort_key fst (k, v) d)"
  by (induction d) auto

lemma sort_keys_map_values:
  "sort_keys (map (\<lambda>(k, v). (k, f v)) d) = map (\<lambda>(k, v). (k, f v)) (sort_keys d)"
  unfolding sort_keys_def by (induction d) (auto simp: insort_map_values)

text \<open>The same with the map over the values as a constant, for rewriting.\<close>

definition on_values :: "('a \<Rightarrow> 'b) \<Rightarrow> (string \<times> 'a) list \<Rightarrow> (string \<times> 'b) list" where
  "on_values f d = map (\<lambda>(k, v). (k, f v)) d"

lemma on_values_simps:
  "map (\<lambda>(k, v). (k, f v)) d = on_values f d"
  "on_values f (on_values g e) = on_values (\<lambda>v. f (g v)) e"
  "sort_keys (on_values f d) = on_values f (sort_keys d)"
proof -
  show "sort_keys (on_values f d) = on_values f (sort_keys d)"
    unfolding on_values_def by (rule sort_keys_map_values)
qed (simp_all add: on_values_def comp_def case_prod_unfold)

lemma canon_basic [simp]:
  "canon v = JStr s \<longleftrightarrow> v = JStr s" "canon v = JNull \<longleftrightarrow> v = JNull" "canon v = JInt i \<longleftrightarrow> v = JInt i"
  by (cases v; simp)+

lemma wf_canon: "wf_json v \<Longrightarrow> wf_json (canon v)"
  by (induction v rule: canon.induct) (auto simp: list_all_iff)

text \<open>A value and its canonical form are equal for Python's \<open>==\<close>.\<close>

lemma py_eq_canon: "wf_json v \<Longrightarrow> py_eq v (canon v)"
proof (induction v rule: canon.induct)
  case (1 xs)
  then show ?case by (auto simp: list_all2_map2 list_all_iff list_all2_conv_all_nth)
next
  case (2 d)
  have "map_of (canon_dict d) k = Some (canon v)" and "py_eq v (canon v)" if "(k, v) \<in> set d" for k v
    using 2 that by (auto simp: map_of_eq_Some_iff list_all_iff)
  then show ?case by (auto simp: list_all_iff simp del: map_of_map_values map_of_sort_keys)
qed auto

end
