(* ===== verification/Security.thy ===== *)
theory Security
  imports Py_Base64 Py_Json
begin

text \<open>
  Bearer tokens (security.py): the strict HS256 verifier, the claims it accepts and the
  validation of shared secrets; and the JWKS verifier as far as it is the service's own code.

  HMAC-SHA256 and \<open>json.loads\<close> of UTF-8 text are the record \<open>crypto\<close>; a text that is no JSON
  is \<open>None\<close>. PyJWT is third-party code: its calls are the record \<open>pyjwt\<close>. A set of strings is
  a list without repetition.
\<close>

record crypto =
  hmac_sha256 :: "string \<Rightarrow> string \<Rightarrow> string"
  loads :: "string \<Rightarrow> json option"

section \<open>Shared validation\<close>

definition nonempty_string :: "string \<Rightarrow> json \<Rightarrow> exn + string" where
  "nonempty_string name value =
     (case value of
        JStr s \<Rightarrow>
          if s = [] \<or> s \<noteq> py_strip s
          then Inl (ValueError (name @ '' must be a non-empty string without surrounding whitespace.''))
          else Inr s
      | _ \<Rightarrow> Inl (ValueError (name @ '' must be a non-empty string without surrounding whitespace.'')))"

definition validate_shared_secret :: "string \<Rightarrow> string list \<Rightarrow> string \<Rightarrow> exn + string" where
  "validate_shared_secret name rejected_values secret =
     (if length secret < 32 then Inl (ValueError (name @ '' must contain at least 32 bytes.''))
      else if secret \<in> set rejected_values
      then Inl (ValueError (name @ '' uses a publicly known placeholder value.''))
      else Inr secret)"

text \<open>The pattern \<open>[\x21\x23-\x5B\x5D-\x7E]{1,256}\<close>.\<close>

definition scope_char :: "char \<Rightarrow> bool" where
  "scope_char c \<longleftrightarrow> code_of c = 33 \<or> (35 \<le> code_of c \<and> code_of c \<le> 91) \<or> (93 \<le> code_of c \<and> code_of c \<le> 126)"

definition valid_scope :: "string \<Rightarrow> bool" where
  "valid_scope s \<longleftrightarrow> s \<noteq> [] \<and> length s \<le> 256 \<and> list_all scope_char s"

definition normalize_scope :: "json \<Rightarrow> exn + string" where
  "normalize_scope value =
     (case value of
        JStr s \<Rightarrow> if valid_scope s then Inr s
                  else Inl (ValueError ''A scope must be a valid visible ASCII OAuth scope-token.'')
      | _ \<Rightarrow> Inl (ValueError ''A scope must be a valid visible ASCII OAuth scope-token.''))"

text \<open>\<open>[f(x) for x in xs]\<close> where \<open>f\<close> may raise.\<close>

fun traverse :: "('a \<Rightarrow> exn + 'b) \<Rightarrow> 'a list \<Rightarrow> exn + 'b list" where
  "traverse f [] = Inr []"
| "traverse f (x # xs) = exn_bind (f x) (\<lambda>y. exn_bind (traverse f xs) (\<lambda>ys. Inr (y # ys)))"

text \<open>\<open>except (TypeError, ValueError) as error: raise TokenVerificationError(...)\<close>.\<close>

definition as_token_error :: "string \<Rightarrow> exn + 'a \<Rightarrow> exn + 'a" where
  "as_token_error message r =
     (case r of Inl (ValueError _) \<Rightarrow> Inl (TokenInvalid message) | Inl TypeError \<Rightarrow> Inl (TokenInvalid message)
      | _ \<Rightarrow> r)"

section \<open>Segments\<close>

definition base64url_char :: "char \<Rightarrow> bool" where
  "base64url_char c \<longleftrightarrow> is_alnum c \<or> c = CHR ''_'' \<or> c = CHR ''-''"

definition decode_base64url :: "string \<Rightarrow> exn + string" where
  "decode_base64url segment =
     (if segment = [] \<or> \<not> list_all base64url_char segment
      then Inl (TokenInvalid ''The bearer token is invalid.'')
      else case b64_decode True (b64_pad segment) of
             None \<Rightarrow> Inl (TokenInvalid ''The bearer token is invalid.'')
           | Some bs \<Rightarrow> Inr bs)"

definition decode_json_object :: "crypto \<Rightarrow> string \<Rightarrow> exn + jdict" where
  "decode_json_object cr segment =
     exn_bind (decode_base64url segment) (\<lambda>bs.
       case loads cr bs of
         None \<Rightarrow> Inl (TokenInvalid ''The bearer token is invalid.'')
       | Some (JObj d) \<Rightarrow> Inr d
       | Some _ \<Rightarrow> Inl (TokenInvalid ''JWT header and payload must be JSON objects.''))"

section \<open>Claims\<close>

text \<open>\<open>float(i)\<close> raises \<open>OverflowError\<close> beyond the range of a double.\<close>

definition float_of_int :: "int \<Rightarrow> exn + rat" where
  "float_of_int i = (if \<bar>i\<bar> < 2 ^ 1024 - 2 ^ 970 then Inr (of_int i) else Inl OverflowErr)"

definition numeric_date :: "string \<Rightarrow> bool \<Rightarrow> json \<Rightarrow> exn + rat option" where
  "numeric_date name required value =
     (case value of
        JNull \<Rightarrow> if required then Inl (TokenInvalid (''The bearer token is missing '' @ name @ ''.'')) else Inr None
      | JInt i \<Rightarrow> exn_bind (float_of_int i) (\<lambda>q. Inr (Some q))
      | JFloat q \<Rightarrow> Inr (Some q)
      | _ \<Rightarrow> Inl (TokenInvalid (''The bearer token '' @ name @ '' claim is invalid.'')))"

definition audience_claim :: "json \<Rightarrow> exn + string list" where
  "audience_claim value =
     (let bad = ''The bearer token audience is invalid.'';
          check = (\<lambda>xs. exn_bind (as_token_error bad (traverse (nonempty_string ''audience'') xs)) (\<lambda>ss.
                     if ss = [] then Inl (TokenInvalid bad) else Inr (remdups ss)))
      in case value of
           JStr s \<Rightarrow> check [JStr s]
         | JArr xs \<Rightarrow> check xs
         | _ \<Rightarrow> Inl (TokenInvalid bad))"

definition identifier_claim :: "string \<Rightarrow> json \<Rightarrow> exn + string" where
  "identifier_claim name value =
     (let bad = ''The bearer token '' @ name @ '' claim is invalid.''
      in exn_bind (as_token_error bad (nonempty_string name value)) (\<lambda>s.
           if 256 < length s \<or> list_ex (\<lambda>c. code_of c < 32) s then Inl (TokenInvalid bad) else Inr s))"

text \<open>The pattern \<open>[A-Za-z0-9][A-Za-z0-9_-]{0,255}\<close>.\<close>

definition valid_tenant_id :: "string \<Rightarrow> bool" where
  "valid_tenant_id s \<longleftrightarrow> s \<noteq> [] \<and> length s \<le> 256 \<and> is_alnum (hd s) \<and> list_all base64url_char (tl s)"

definition tenant_id_claim :: "json \<Rightarrow> exn + string" where
  "tenant_id_claim value =
     exn_bind (identifier_claim ''tenant_id'' value) (\<lambda>s.
       if valid_tenant_id s then Inr s
       else Inl (TokenInvalid ''The bearer token tenant_id claim is invalid.''))"

definition actor_types :: "string list" where
  "actor_types = [''human'', ''agent'', ''service'']"

definition actor_type_claim :: "json \<Rightarrow> exn + string" where
  "actor_type_claim value =
     exn_bind (identifier_claim ''actor_type'' value) (\<lambda>s.
       if s \<in> set actor_types then Inr s
       else Inl (TokenInvalid ''The bearer token actor_type claim is invalid.''))"

definition claim_set :: "string \<Rightarrow> json \<Rightarrow> exn + string list" where
  "claim_set name value =
     (let bad = ''The bearer token '' @ name @ '' claim is invalid.'';
          check = (\<lambda>xs. exn_bind (as_token_error bad (traverse normalize_scope xs)) (\<lambda>ss. Inr (remdups ss)))
      in case value of
           JNull \<Rightarrow> Inr []
         | JStr s \<Rightarrow> check (map JStr (py_words s))
         | JArr xs \<Rightarrow> check xs
         | _ \<Rightarrow> Inl (TokenInvalid bad))"

definition claim_union :: "string \<Rightarrow> string \<Rightarrow> jdict \<Rightarrow> exn + string list" where
  "claim_union one many payload =
     exn_bind (claim_set one (dget payload one)) (\<lambda>a.
     exn_bind (claim_set many (dget payload many)) (\<lambda>b. Inr (remdups (a @ b))))"

record verified_token =
  vt_subject :: string
  vt_tenant_id :: string
  vt_scopes :: "string list"
  vt_roles :: "string list"
  vt_actor_type :: string
  vt_issuer :: string
  vt_key_id :: "string option"

text \<open>The claims both verifiers read in the same order.\<close>

definition identity_claims :: "string \<Rightarrow> string option \<Rightarrow> jdict \<Rightarrow> exn + verified_token" where
  "identity_claims issuer key_id payload =
     exn_bind (identifier_claim ''sub'' (dget payload ''sub'')) (\<lambda>subject.
     exn_bind (tenant_id_claim (dget payload ''tenant_id'')) (\<lambda>tenant_id.
     exn_bind (claim_union ''scope'' ''scopes'' payload) (\<lambda>scopes.
     exn_bind (claim_union ''role'' ''roles'' payload) (\<lambda>roles.
     exn_bind (actor_type_claim (dget_or payload ''actor_type'' (JStr ''service''))) (\<lambda>actor_type.
       Inr \<lparr>vt_subject = subject, vt_tenant_id = tenant_id, vt_scopes = scopes, vt_roles = roles,
            vt_actor_type = actor_type, vt_issuer = issuer, vt_key_id = key_id\<rparr>)))))"

section \<open>The HS256 verifier\<close>

record hs256_verifier =
  hs_issuer :: string
  hs_audiences :: "string list"
  hs_keys :: "(string \<times> string) list"
  hs_leeway :: int

definition checked_leeway :: "int \<Rightarrow> exn + int" where
  "checked_leeway n =
     (if 0 \<le> n \<and> n \<le> 300 then Inr n else Inl (ValueError ''leeway_seconds must be between 0 and 300.''))"

definition checked_key :: "string \<times> string \<Rightarrow> exn + (string \<times> string)" where
  "checked_key entry =
     exn_bind (nonempty_string ''key id'' (JStr (fst entry))) (\<lambda>k.
     exn_bind (validate_shared_secret (''Signing key '' @ k) [] (snd entry)) (\<lambda>secret. Inr (k, secret)))"

definition hs256_jwt_verifier ::
  "string \<Rightarrow> string list \<Rightarrow> (string \<times> string) list \<Rightarrow> int \<Rightarrow> exn + hs256_verifier" where
  "hs256_jwt_verifier issuer audience keys leeway_seconds =
     exn_bind (nonempty_string ''issuer'' (JStr issuer)) (\<lambda>iss.
     exn_bind (traverse (nonempty_string ''audience'') (map JStr audience)) (\<lambda>auds.
     if auds = [] then Inl (ValueError ''At least one expected audience is required.'')
     else exn_bind (checked_leeway leeway_seconds) (\<lambda>leeway.
          exn_bind (traverse checked_key keys) (\<lambda>ks.
          if ks = [] then Inl (ValueError ''At least one HS256 signing key is required.'')
          else Inr \<lparr>hs_issuer = iss, hs_audiences = remdups auds, hs_keys = ks, hs_leeway = leeway\<rparr>))))"

definition select_key :: "hs256_verifier \<Rightarrow> json \<Rightarrow> exn + (string \<times> string)" where
  "select_key v key_id =
     (case key_id of
        JNull \<Rightarrow>
          (case hs_keys v of
             [kv] \<Rightarrow> Inr kv
           | _ \<Rightarrow> Inl (TokenInvalid ''A key id is required while keys are rotating.''))
      | JStr k \<Rightarrow>
          (case map_of (hs_keys v) k of
             None \<Rightarrow> Inl (TokenInvalid ''The bearer token key id is unknown.'')
           | Some secret \<Rightarrow> Inr (k, secret))
      | _ \<Rightarrow> Inl (TokenInvalid ''The bearer token key id is invalid.''))"

definition check_signature :: "crypto \<Rightarrow> string \<Rightarrow> string \<Rightarrow> string \<Rightarrow> exn + unit" where
  "check_signature cr signing_key signing_input segment =
     exn_bind (decode_base64url segment) (\<lambda>signature.
       if length signature \<noteq> 32 \<or> signature \<noteq> hmac_sha256 cr signing_key signing_input
       then Inl (TokenInvalid ''The bearer token signature is invalid.'') else Inr ())"

definition check_times :: "hs256_verifier \<Rightarrow> rat \<Rightarrow> jdict \<Rightarrow> exn + unit" where
  "check_times v now payload =
     exn_bind (numeric_date ''exp'' True (dget payload ''exp'')) (\<lambda>expiration.
     if (case expiration of Some q \<Rightarrow> now \<ge> q + of_int (hs_leeway v) | None \<Rightarrow> False)
     then Inl (TokenInvalid ''The bearer token has expired.'')
     else exn_bind (numeric_date ''nbf'' False (dget payload ''nbf'')) (\<lambda>not_before.
          if (case not_before of Some q \<Rightarrow> now + of_int (hs_leeway v) < q | None \<Rightarrow> False)
          then Inl (TokenInvalid ''The bearer token is not active yet.'') else Inr ()))"

definition check_issuer_and_audience :: "hs256_verifier \<Rightarrow> jdict \<Rightarrow> exn + unit" where
  "check_issuer_and_audience v payload =
     (if dget payload ''iss'' \<noteq> JStr (hs_issuer v)
      then Inl (TokenInvalid ''The bearer token issuer is invalid.'')
      else exn_bind (audience_claim (dget payload ''aud'')) (\<lambda>auds.
           if set (hs_audiences v) \<inter> set auds = {}
           then Inl (TokenInvalid ''The bearer token audience is invalid.'') else Inr ()))"

definition verify_hs256 :: "crypto \<Rightarrow> hs256_verifier \<Rightarrow> rat \<Rightarrow> string \<Rightarrow> exn + verified_token" where
  "verify_hs256 cr v now token =
     (if token = [] \<or> 65536 < length token then Inl (TokenInvalid ''The bearer token is invalid.'')
      else case py_split (CHR ''.'') token of
             [h, p, g] \<Rightarrow>
               if h = [] \<or> p = [] \<or> g = [] then Inl (TokenInvalid ''The bearer token is invalid.'')
               else exn_bind (decode_json_object cr h) (\<lambda>header.
                    exn_bind (decode_json_object cr p) (\<lambda>payload.
                    if dget header ''alg'' \<noteq> JStr ''HS256''
                    then Inl (TokenInvalid ''The bearer token uses an unsupported algorithm.'')
                    else if has_key header ''crit''
                    then Inl (TokenInvalid ''Critical JWT headers are not supported.'')
                    else exn_bind (select_key v (dget header ''kid'')) (\<lambda>(key_id, signing_key).
                         exn_bind (check_signature cr signing_key (h @ ''.'' @ p) g) (\<lambda>_.
                         exn_bind (check_times v now payload) (\<lambda>_.
                         exn_bind (check_issuer_and_audience v payload) (\<lambda>_.
                           identity_claims (hs_issuer v) (Some key_id) payload))))))
           | _ \<Rightarrow> Inl (TokenInvalid ''The bearer token is invalid.''))"

section \<open>The JWKS verifier\<close>

text \<open>
  What PyJWT does for the verifier: the header of a token before its verification, the signing
  key from the provider for a token, the keys of a set, and the verified payload. An exception
  of the library is \<open>None\<close>.
\<close>

record 'key pyjwt =
  unverified_header :: "string \<Rightarrow> jdict option"
  key_from_provider :: "string \<Rightarrow> 'key option"
  key_set :: "(string option \<times> 'key) list"
  jwt_decode :: "'key \<Rightarrow> string \<Rightarrow> json option"

record jwks_verifier =
  jw_issuer :: string
  jw_audiences :: "string list"
  jw_algorithms :: "string list"
  jw_leeway :: int
  jw_from_url :: bool

definition symmetric_algorithm :: "string \<Rightarrow> bool" where
  "symmetric_algorithm a \<longleftrightarrow> py_lower a = ''none'' \<or> starts_with (py_lower a) ''hs''"

definition jwks_jwt_verifier ::
  "string \<Rightarrow> string list \<Rightarrow> string list \<Rightarrow> string option \<Rightarrow> jdict option \<Rightarrow> int \<Rightarrow> exn + jwks_verifier" where
  "jwks_jwt_verifier issuer audience algorithms jwks_url jwks_json leeway_seconds =
     exn_bind (nonempty_string ''issuer'' (JStr issuer)) (\<lambda>iss.
     exn_bind (traverse (nonempty_string ''audience'') (map JStr audience)) (\<lambda>auds.
     if auds = [] then Inl (ValueError ''At least one expected audience is required.'')
     else exn_bind (traverse (nonempty_string ''algorithm'') (map JStr algorithms)) (\<lambda>algs.
     if algs = [] then Inl (ValueError ''At least one JWT algorithm is required.'')
     else if list_ex symmetric_algorithm algs
     then Inl (ValueError ''JWKS verification only accepts asymmetric JWT algorithms.'')
     else exn_bind (checked_leeway leeway_seconds) (\<lambda>leeway.
     let from_url = (case jwks_url of Some u \<Rightarrow> u \<noteq> [] | None \<Rightarrow> False);
         from_json = (case jwks_json of Some d \<Rightarrow> d \<noteq> [] | None \<Rightarrow> False)
     in if from_url = from_json then Inl (ValueError ''Configure exactly one of jwks_url or jwks_json.'')
        else Inr \<lparr>jw_issuer = iss, jw_audiences = remdups auds, jw_algorithms = algs,
                  jw_leeway = leeway, jw_from_url = from_url\<rparr>))))"

text \<open>Inside the \<open>try\<close>: any exception but \<open>TokenVerificationError\<close> becomes one.\<close>

definition library :: "'a option \<Rightarrow> exn + 'a" where
  "library r = (case r of None \<Rightarrow> Inl (TokenInvalid ''The bearer token is invalid or expired.'') | Some x \<Rightarrow> Inr x)"

definition signing_key_for :: "'key pyjwt \<Rightarrow> jwks_verifier \<Rightarrow> string \<Rightarrow> string option \<Rightarrow> exn + 'key" where
  "signing_key_for jwt v token key_id =
     (if jw_from_url v then library (key_from_provider jwt token)
      else case key_id of
             None \<Rightarrow> (case key_set jwt of
                        [(_, k)] \<Rightarrow> Inr k
                      | _ \<Rightarrow> Inl (TokenInvalid ''A key id is required while keys are rotating.''))
           | Some kid \<Rightarrow> (case find (\<lambda>(i, k). i = Some kid) (key_set jwt) of
                        None \<Rightarrow> Inl (TokenInvalid ''The bearer token key id is unknown.'')
                      | Some (i, k) \<Rightarrow> Inr k))"

definition verify_jwks :: "'key pyjwt \<Rightarrow> jwks_verifier \<Rightarrow> string \<Rightarrow> exn + verified_token" where
  "verify_jwks jwt v token =
     (if token = [] \<or> 65536 < length token then Inl (TokenInvalid ''The bearer token is invalid.'')
      else exn_bind (library (unverified_header jwt token)) (\<lambda>header.
           if py_truthy (dget header ''crit'')
           then Inl (TokenInvalid ''Critical JWT headers are not supported.'')
           else exn_bind (case dget header ''kid'' of
                            JNull \<Rightarrow> Inr None | JStr k \<Rightarrow> Inr (Some k)
                          | _ \<Rightarrow> Inl (TokenInvalid ''The bearer token key id is invalid.'')) (\<lambda>key_id.
                exn_bind (signing_key_for jwt v token key_id) (\<lambda>key.
                exn_bind (library (jwt_decode jwt key token)) (\<lambda>payload.
                case payload of
                  JObj d \<Rightarrow> identity_claims (jw_issuer v) key_id d
                | _ \<Rightarrow> Inl (TokenInvalid ''The bearer token payload is invalid.''))))))"

end
