(* ===== verification/Operations.thy ===== *)
theory Operations
  imports Py_Text
begin

text \<open>
  The canonical operations of the HTTP interface (operations.py): the table of routes and the
  operations an agent may call.
\<close>

definition canonical_route_operation_ids :: "((string \<times> string) \<times> string) list" where
  "canonical_route_operation_ids =
     [((''GET'', ''/v1/agent/manifest''), ''getAgentInterfaceManifest''),
      ((''GET'', ''/v1/runs/{run_id}/agent-context''), ''getAgentRunContext''),
      ((''GET'', ''/v1/runs/{run_id}/agent-actions''), ''listAgentRunActions''),
      ((''POST'', ''/v1/datasets''), ''createDatasetUpload''),
      ((''POST'', ''/v1/dataset-versions/{dataset_version_id}/upload-parts:sign''), ''signDatasetUploadParts''),
      ((''POST'', ''/v1/dataset-versions/{dataset_version_id}:finalize''), ''finalizeDatasetUpload''),
      ((''GET'', ''/v1/dataset-versions/{dataset_version_id}''), ''getDatasetVersion''),
      ((''POST'', ''/v1/runs''), ''createRun''),
      ((''GET'', ''/v1/runs''), ''listRuns''),
      ((''GET'', ''/v1/runs/{run_id}''), ''getRun''),
      ((''GET'', ''/v1/runs/{run_id}/stages''), ''listRunStages''),
      ((''GET'', ''/v1/runs/{run_id}/events''), ''readRunEvents''),
      ((''GET'', ''/v1/runs/{run_id}/outputs''), ''listRunOutputs''),
      ((''GET'', ''/v1/runs/{run_id}/outputs/{output_id}''), ''getRunOutput''),
      ((''GET'', ''/v1/runs/{run_id}/experiments''), ''listRunExperiments''),
      ((''GET'', ''/v1/runs/{run_id}/experiments/{experiment_id}''), ''getRunExperiment''),
      ((''GET'', ''/v1/runs/{run_id}/decision-packets''), ''listDecisionPackets''),
      ((''POST'', ''/v1/runs/{run_id}/decision-packets/{wait_set_id}:answer''), ''answerDecisionPacket''),
      ((''GET'', ''/v1/runs/{run_id}/approvals''), ''listRunApprovals''),
      ((''POST'', ''/v1/runs/{run_id}/approvals/{approval_id}:decide''), ''decideApproval''),
      ((''POST'', ''/v1/runs/{run_id}:pause''), ''pauseRun''),
      ((''POST'', ''/v1/runs/{run_id}:resume''), ''resumeRun''),
      ((''POST'', ''/v1/runs/{run_id}:cancel''), ''cancelRun''),
      ((''GET'', ''/v1/commands/{command_id}''), ''getCommand''),
      ((''GET'', ''/v1/runs/{run_id}/result''), ''getRunResult''),
      ((''GET'', ''/v1/artifacts/{artifact_id}''), ''getArtifact''),
      ((''POST'', ''/v1/artifacts/{artifact_id}:download''), ''createArtifactDownloadTicket''),
      ((''GET'', ''/v1/models/{model_id}''), ''getModelCandidate''),
      ((''POST'', ''/v1/webhook-endpoints''), ''createWebhookEndpoint''),
      ((''GET'', ''/v1/webhook-endpoints''), ''listWebhookEndpoints''),
      ((''GET'', ''/v1/webhook-endpoints/{webhook_endpoint_id}''), ''getWebhookEndpoint''),
      ((''DELETE'', ''/v1/webhook-endpoints/{webhook_endpoint_id}''), ''deleteWebhookEndpoint''),
      ((''POST'', ''/v1/webhook-endpoints/{webhook_endpoint_id}:rotate-secret''), ''rotateWebhookEndpointSecret''),
      ((''POST'', ''/v1/webhook-endpoints/{webhook_endpoint_id}:enable''), ''enableWebhookEndpoint''),
      ((''GET'', ''/v1/webhook-endpoints/{webhook_endpoint_id}/deliveries''), ''listWebhookDeliveries''),
      ((''GET'', ''/v1/webhook-endpoints/{webhook_endpoint_id}/deliveries/{delivery_id}''), ''getWebhookDelivery''),
      ((''POST'', ''/v1/webhook-endpoints/{webhook_endpoint_id}/deliveries/{delivery_id}:redeliver''), ''redeliverWebhookDelivery''),
      ((''DELETE'', ''/v1/datasets/{dataset_id}''), ''deleteDataset''),
      ((''GET'', ''/v1/deletions/{deletion_id}''), ''getDeletionJob'')]"

definition canonical_operation_ids :: "string list" where
  "canonical_operation_ids = map snd canonical_route_operation_ids"

definition active_agent_operation_ids :: "string list" where
  "active_agent_operation_ids =
     [''getAgentInterfaceManifest'', ''getAgentRunContext'', ''listAgentRunActions'',
      ''createDatasetUpload'', ''signDatasetUploadParts'', ''finalizeDatasetUpload'',
      ''getDatasetVersion'', ''createRun'', ''getRun'', ''readRunEvents'', ''listRunOutputs'',
      ''getRunOutput'', ''listDecisionPackets'', ''answerDecisionPacket'', ''pauseRun'',
      ''resumeRun'', ''cancelRun'', ''getCommand'', ''getRunResult'', ''getArtifact'',
      ''createArtifactDownloadTicket'', ''createWebhookEndpoint'', ''listWebhookEndpoints'',
      ''getWebhookEndpoint'', ''deleteWebhookEndpoint'', ''rotateWebhookEndpointSecret'',
      ''enableWebhookEndpoint'', ''listWebhookDeliveries'', ''getWebhookDelivery'',
      ''redeliverWebhookDelivery'']"

definition known_operation_ids :: "string list" where
  "known_operation_ids = remdups canonical_operation_ids"

lemma routes_distinct: "distinct (map fst canonical_route_operation_ids)"
  by code_simp

lemma operation_ids_distinct: "distinct canonical_operation_ids"
  by code_simp

lemma active_operations_known: "set active_agent_operation_ids \<subseteq> set known_operation_ids"
proof -
  have "list_all (\<lambda>x. list_ex (\<lambda>y. y = x) canonical_operation_ids) active_agent_operation_ids" by code_simp
  then show ?thesis by (auto simp: known_operation_ids_def list_all_iff list_ex_iff)
qed

end
