(* ===== verification/Auth.thy ===== *)
theory Auth
  imports Security Operations
begin

text \<open>
  Authentication and authorisation (auth.py) and the local issuing of credentials
  (credentials.py): the settings read from the environment, the choice of the authenticator,
  the Bearer token of a request, and the scopes an operation requires. The environment is an
  association list. PyJWT's encoder is a parameter of \<open>issue_token\<close>.
\<close>

record principal =
  subject :: string
  tenant_id :: string
  scopes :: "string list"
  roles :: "string list"
  actor_type :: string
  authentication_mode :: string
  issuer :: "string option"
  key_id :: "string option"

datatype auth_mode = Development | Production

record auth_settings =
  as_mode :: auth_mode
  as_issuer :: "string option"
  as_audiences :: "string list"
  as_signing_keys :: "(string \<times> string) list"
  as_jwks_url :: "string option"
  as_jwks_json :: "jdict option"
  as_algorithms :: "string list"
  as_cursor_secret :: "string option"
  as_leeway :: int

definition default_settings :: "auth_mode \<Rightarrow> auth_settings" where
  "default_settings mode =
     \<lparr>as_mode = mode, as_issuer = None, as_audiences = [], as_signing_keys = [], as_jwks_url = None,
      as_jwks_json = None, as_algorithms = [''RS256''], as_cursor_secret = None, as_leeway = 30\<rparr>"

section \<open>Reading the environment\<close>

type_synonym environ = "(string \<times> string) list"

definition read_auth_mode :: "environ \<Rightarrow> exn + auth_mode" where
  "read_auth_mode source =
     (let configured = (case map_of source ''AUTOML_AUTH_MODE'' of
            Some s \<Rightarrow> s
          | None \<Rightarrow> (case map_of source ''AUTOML_ENV'' of Some s \<Rightarrow> s | None \<Rightarrow> ''development''));
          normalized = py_lower (py_strip configured)
      in if normalized \<in> {''development'', ''dev'', ''local'', ''test''} then Inr Development
         else if normalized \<in> {''production'', ''prod'', ''staging'', ''stage'', ''jwt''} then Inr Production
         else Inl (AuthConfig ''AUTOML_AUTH_MODE must be development or production.''))"

definition optional_environment_value :: "environ \<Rightarrow> string \<Rightarrow> string option" where
  "optional_environment_value source name =
     (case map_of source name of
        None \<Rightarrow> None
      | Some s \<Rightarrow> if py_strip s = [] then None else Some (py_strip s))"

definition required_environment_value :: "environ \<Rightarrow> string \<Rightarrow> exn + string" where
  "required_environment_value source name =
     (case optional_environment_value source name of
        None \<Rightarrow> Inl (AuthConfig (name @ '' is required in production mode.''))
      | Some s \<Rightarrow> Inr s)"

text \<open>\<open>tuple(part.strip() for part in s.split(",") if part.strip())\<close>.\<close>

definition comma_list :: "string \<Rightarrow> string list" where
  "comma_list s = filter (\<lambda>w. w \<noteq> []) (map py_strip (py_split (CHR '','') s))"

definition read_algorithms :: "environ \<Rightarrow> exn + string list" where
  "read_algorithms source =
     (let algorithms = comma_list (case map_of source ''AUTOML_JWT_ALGORITHMS'' of
            Some s \<Rightarrow> s | None \<Rightarrow> ''RS256'')
      in if algorithms = [] then Inl (AuthConfig ''AUTOML_JWT_ALGORITHMS cannot be empty.'')
         else if list_ex symmetric_algorithm algorithms
         then Inl (AuthConfig ''JWKS production mode requires asymmetric JWT algorithms.'')
         else Inr algorithms)"

definition read_jwks_json :: "crypto \<Rightarrow> environ \<Rightarrow> exn + jdict option" where
  "read_jwks_json cr source =
     (case map_of source ''AUTOML_JWKS_JSON'' of
        None \<Rightarrow> Inr None
      | Some raw \<Rightarrow>
          if py_strip raw = [] then Inr None
          else case loads cr raw of
                 None \<Rightarrow> Inl (AuthConfig ''AUTOML_JWKS_JSON must be a JWKS JSON object.'')
               | Some (JObj d) \<Rightarrow>
                   if type_of (dget d ''keys'') = TList then Inr (Some d)
                   else Inl (AuthConfig ''AUTOML_JWKS_JSON must contain a keys array.'')
               | Some _ \<Rightarrow> Inl (AuthConfig ''AUTOML_JWKS_JSON must contain a keys array.''))"

definition signing_key_entry :: "string \<times> json \<Rightarrow> exn + (string \<times> string)" where
  "signing_key_entry entry =
     (case snd entry of
        JStr secret \<Rightarrow>
          if py_strip (fst entry) = [] \<or> secret = []
          then Inl (AuthConfig ''AUTOML_JWT_KEYS key ids and secrets must be non-empty strings.'')
          else Inr (fst entry, secret)
      | _ \<Rightarrow> Inl (AuthConfig ''AUTOML_JWT_KEYS key ids and secrets must be non-empty strings.''))"

definition read_signing_keys :: "crypto \<Rightarrow> environ \<Rightarrow> exn + (string \<times> string) list" where
  "read_signing_keys cr source =
     (let given = (\<lambda>name. case map_of source name of Some s \<Rightarrow> s | None \<Rightarrow> []);
          serialized = given ''AUTOML_JWT_KEYS''; single = given ''AUTOML_JWT_SECRET''
      in if serialized \<noteq> [] \<and> single \<noteq> []
         then Inl (AuthConfig ''Configure AUTOML_JWT_KEYS or AUTOML_JWT_SECRET, not both.'')
         else if serialized \<noteq> []
         then case loads cr serialized of
                None \<Rightarrow> Inl (AuthConfig ''AUTOML_JWT_KEYS must be a JSON object mapping key ids to secrets.'')
              | Some (JObj d) \<Rightarrow>
                  if d = [] then Inl (AuthConfig ''AUTOML_JWT_KEYS must be a non-empty JSON object.'')
                  else traverse signing_key_entry d
              | Some _ \<Rightarrow> Inl (AuthConfig ''AUTOML_JWT_KEYS must be a non-empty JSON object.'')
         else if single \<noteq> []
         then let kid = py_strip (case map_of source ''AUTOML_JWT_KID'' of Some s \<Rightarrow> s | None \<Rightarrow> ''default'')
              in if kid = [] then Inl (AuthConfig ''AUTOML_JWT_KID cannot be empty.'')
                 else Inr [(kid, single)]
         else Inl (AuthConfig ''Production mode requires AUTOML_JWT_KEYS or AUTOML_JWT_SECRET.''))"

definition insecure_cursor_secrets :: "string list" where
  "insecure_cursor_secrets =
     [''milestone-1-only-change-this-secret-before-deployment'',
      ''replace-with-an-independent-random-secret'']"

text \<open>\<open>except ValueError as error: raise AuthConfigurationError(...)\<close>; the latter is a subclass.\<close>

definition as_config_error :: "string \<Rightarrow> exn + 'a \<Rightarrow> exn + 'a" where
  "as_config_error message r =
     (case r of Inl (ValueError _) \<Rightarrow> Inl (AuthConfig message) | Inl (AuthConfig _) \<Rightarrow> Inl (AuthConfig message)
      | _ \<Rightarrow> r)"

definition read_cursor_secret :: "environ \<Rightarrow> exn + string" where
  "read_cursor_secret source =
     exn_bind (required_environment_value source ''AUTOML_CURSOR_SECRET'') (\<lambda>secret.
       as_config_error ''AUTOML_CURSOR_SECRET is not production-safe.''
         (validate_shared_secret ''AUTOML_CURSOR_SECRET'' insecure_cursor_secrets secret))"

definition read_keys_and_algorithms ::
  "crypto \<Rightarrow> environ \<Rightarrow> bool \<Rightarrow> exn + (string \<times> string) list \<times> string list" where
  "read_keys_and_algorithms cr source jwks =
     (if jwks then exn_bind (read_algorithms source) (\<lambda>algs. Inr ([], algs))
      else exn_bind (read_signing_keys cr source) (\<lambda>keys. Inr (keys, [''HS256''])))"

definition read_leeway :: "environ \<Rightarrow> exn + int" where
  "read_leeway source =
     (case parse_int (case map_of source ''AUTOML_JWT_LEEWAY_SECONDS'' of Some s \<Rightarrow> s | None \<Rightarrow> ''30'') of
        None \<Rightarrow> Inl (AuthConfig ''AUTOML_JWT_LEEWAY_SECONDS must be an integer.'')
      | Some n \<Rightarrow>
          if 0 \<le> n \<and> n \<le> 300 then Inr n
          else Inl (AuthConfig ''AUTOML_JWT_LEEWAY_SECONDS must be between 0 and 300.''))"

definition auth_from_env :: "crypto \<Rightarrow> environ \<Rightarrow> exn + auth_settings" where
  "auth_from_env cr source =
     exn_bind (read_auth_mode source) (\<lambda>mode.
     if mode = Development then Inr (default_settings Development)
     else exn_bind (required_environment_value source ''AUTOML_JWT_ISSUER'') (\<lambda>iss.
          exn_bind (required_environment_value source ''AUTOML_JWT_AUDIENCE'') (\<lambda>audience_value.
          let audiences = comma_list audience_value
          in if audiences = [] then Inl (AuthConfig ''AUTOML_JWT_AUDIENCE cannot be empty.'')
             else let jwks_url = optional_environment_value source ''AUTOML_JWKS_URL''
             in exn_bind (read_jwks_json cr source) (\<lambda>jwks_json.
                if jwks_url \<noteq> None \<and> jwks_json \<noteq> None
                then Inl (AuthConfig ''Configure AUTOML_JWKS_URL or AUTOML_JWKS_JSON, not both.'')
                else exn_bind (read_keys_and_algorithms cr source (jwks_url \<noteq> None \<or> jwks_json \<noteq> None)) (\<lambda>(keys, algs).
                     exn_bind (read_cursor_secret source) (\<lambda>cursor_secret.
                     exn_bind (read_leeway source) (\<lambda>leeway.
                       Inr \<lparr>as_mode = mode, as_issuer = Some iss, as_audiences = audiences,
                            as_signing_keys = keys, as_jwks_url = jwks_url, as_jwks_json = jwks_json,
                            as_algorithms = algs, as_cursor_secret = Some cursor_secret,
                            as_leeway = leeway\<rparr>)))))))"

section \<open>Authenticators\<close>

text \<open>The adapter boundary \<open>TokenVerifier\<close>: the two verifiers of the service, or the caller's.\<close>

datatype token_verifier =
    HS256 hs256_verifier
  | JWKS jwks_verifier
  | Adapter "string \<Rightarrow> exn + verified_token"

datatype authenticator =
    DevelopmentAuthenticator
  | VerifiedTokenAuthenticator token_verifier

definition verify :: "crypto \<Rightarrow> 'key pyjwt \<Rightarrow> rat \<Rightarrow> token_verifier \<Rightarrow> string \<Rightarrow> exn + verified_token" where
  "verify cr jwt now v token =
     (case v of HS256 h \<Rightarrow> verify_hs256 cr h now token | JWKS j \<Rightarrow> verify_jwks jwt j token | Adapter f \<Rightarrow> f token)"

text \<open>\<open>digest\<close> is the hexadecimal SHA-256 of a string.\<close>

definition authenticate ::
  "crypto \<Rightarrow> 'key pyjwt \<Rightarrow> (string \<Rightarrow> string) \<Rightarrow> rat \<Rightarrow> authenticator \<Rightarrow> string \<Rightarrow> exn + principal" where
  "authenticate cr jwt digest now a token =
     (case a of
        DevelopmentAuthenticator \<Rightarrow>
          (let d = take 16 (digest token)
           in Inr \<lparr>subject = ''dev:'' @ d, tenant_id = ''tenant_'' @ d, scopes = [''*''], roles = [''developer''],
                   actor_type = ''development'', authentication_mode = ''development'',
                   issuer = Some ''automl-development'', key_id = None\<rparr>)
      | VerifiedTokenAuthenticator v \<Rightarrow>
          exn_bind (verify cr jwt now v token) (\<lambda>vt.
            Inr \<lparr>subject = vt_subject vt, tenant_id = vt_tenant_id vt, scopes = vt_scopes vt,
                 roles = vt_roles vt, actor_type = vt_actor_type vt, authentication_mode = ''production'',
                 issuer = Some (vt_issuer vt), key_id = vt_key_id vt\<rparr>))"

definition default_verifier :: "auth_settings \<Rightarrow> exn + token_verifier" where
  "default_verifier s =
     (case as_issuer s of
        None \<Rightarrow> Inl (AuthConfig ''Production authentication requires issuer and audience.'')
      | Some iss \<Rightarrow>
          if as_audiences s = []
          then Inl (AuthConfig ''Production authentication requires issuer and audience.'')
          else as_config_error ''The production JWT configuration is invalid.''
            (if as_jwks_url s \<noteq> None \<or> as_jwks_json s \<noteq> None
             then exn_bind (jwks_jwt_verifier iss (as_audiences s) (as_algorithms s) (as_jwks_url s)
                             (as_jwks_json s) (as_leeway s)) (\<lambda>v. Inr (JWKS v))
             else if as_signing_keys s = []
             then Inl (AuthConfig ''Production HS256 preview authentication requires signing keys.'')
             else exn_bind (hs256_jwt_verifier iss (as_audiences s) (as_signing_keys s) (as_leeway s))
                    (\<lambda>v. Inr (HS256 v))))"

definition build_authenticator :: "auth_settings \<Rightarrow> token_verifier option \<Rightarrow> exn + authenticator" where
  "build_authenticator s verifier =
     (case as_mode s of
        Development \<Rightarrow>
          if verifier \<noteq> None
          then Inl (AuthConfig ''A token verifier cannot be configured in development authentication mode.'')
          else Inr DevelopmentAuthenticator
      | Production \<Rightarrow>
          (case as_cursor_secret s of
             None \<Rightarrow> Inl (AuthConfig ''Production authentication requires a dedicated cursor signing secret.'')
           | Some secret \<Rightarrow>
               exn_bind (as_config_error ''The production cursor signing secret is invalid.''
                 (validate_shared_secret ''Cursor signing secret'' insecure_cursor_secrets secret)) (\<lambda>_.
               exn_bind (case verifier of Some v \<Rightarrow> Inr v | None \<Rightarrow> default_verifier s) (\<lambda>v.
                 Inr (VerifiedTokenAuthenticator v)))))"

definition authenticate_bearer_token ::
  "crypto \<Rightarrow> 'key pyjwt \<Rightarrow> (string \<Rightarrow> string) \<Rightarrow> rat \<Rightarrow> environ \<Rightarrow> string \<Rightarrow> exn + principal" where
  "authenticate_bearer_token cr jwt digest now source token =
     (if py_strip token = [] then Inl (TokenInvalid ''The bearer token is empty.'')
      else exn_bind (auth_from_env cr source) (\<lambda>settings.
           exn_bind (build_authenticator settings None) (\<lambda>a.
             authenticate cr jwt digest now a (py_strip token))))"

section \<open>The principal of a request\<close>

definition extract_bearer_token :: "string option \<Rightarrow> exn + string" where
  "extract_bearer_token authorization =
     (case authorization of
        None \<Rightarrow> Inl (APIProblem 401 ''unauthorized'' ''Authentication required'' [])
      | Some s \<Rightarrow>
          let scheme = takeWhile (\<lambda>c. c \<noteq> CHR '' '') s;
              rest = dropWhile (\<lambda>c. c \<noteq> CHR '' '') s;
              token = py_strip (tl rest)
          in if rest = [] \<or> py_lower scheme \<noteq> ''bearer'' \<or> token = [] \<or> list_ex is_space token
             then Inl (APIProblem 401 ''unauthorized'' ''Authentication required'' [])
             else Inr token)"

definition audit_principal :: "principal \<Rightarrow> jdict" where
  "audit_principal p =
     [(''tenant_id'', JStr (tenant_id p)), (''subject'', JStr (subject p)),
      (''actor_type'', JStr (actor_type p))]"

text \<open>The principal and what the request keeps of it for the audit.\<close>

definition require_principal ::
  "crypto \<Rightarrow> 'key pyjwt \<Rightarrow> (string \<Rightarrow> string) \<Rightarrow> rat \<Rightarrow> environ \<Rightarrow> string option
     \<Rightarrow> exn + principal \<times> jdict" where
  "require_principal cr jwt digest now source authorization =
     exn_bind (extract_bearer_token authorization) (\<lambda>token.
       case authenticate_bearer_token cr jwt digest now source token of
         Inr p \<Rightarrow> Inr (p, audit_principal p)
       | Inl (AuthConfig _) \<Rightarrow>
           Inl (APIProblem 503 ''authentication_unavailable'' ''Authentication is unavailable'' [])
       | Inl (TokenInvalid _) \<Rightarrow>
           Inl (APIProblem 401 ''unauthorized'' ''Invalid authentication token'' [])
       | Inl e \<Rightarrow> Inl e)"

section \<open>Scopes\<close>

text \<open>\<open>dict.fromkeys\<close>: each element once, in the order of its first occurrence.\<close>

definition first_occurrences :: "'a list \<Rightarrow> 'a list" where
  "first_occurrences xs = rev (remdups (rev xs))"

definition has_scope :: "principal \<Rightarrow> string \<Rightarrow> exn + bool" where
  "has_scope p scope =
     exn_bind (normalize_scope (JStr scope)) (\<lambda>s. Inr (''*'' \<in> set (scopes p) \<or> s \<in> set (scopes p)))"

definition has_scopes :: "principal \<Rightarrow> string list \<Rightarrow> exn + bool" where
  "has_scopes p required =
     exn_bind (traverse (\<lambda>s. normalize_scope (JStr s)) required) (\<lambda>ss.
       Inr (''*'' \<in> set (scopes p) \<or> list_all (\<lambda>s. s \<in> set (scopes p)) ss))"

definition enforce_scopes :: "principal \<Rightarrow> string list \<Rightarrow> exn + principal" where
  "enforce_scopes p required =
     exn_bind (traverse (\<lambda>s. normalize_scope (JStr s)) required) (\<lambda>ss.
     let normalized = first_occurrences ss
     in if normalized = [] then Inl (ValueError ''At least one required scope must be provided.'')
        else exn_bind (traverse (\<lambda>s. exn_bind (has_scope p s) (\<lambda>b. Inr (s, b))) normalized) (\<lambda>held.
          let missing = map fst (filter (\<lambda>(s, b). \<not> b) held)
          in if missing = [] then Inr p
             else Inl (APIProblem 403 ''insufficient_scope'' ''Insufficient scope''
                    [(''required_scopes'', JArr (map JStr normalized)),
                     (''missing_scopes'', JArr (map JStr missing))])))"

text \<open>The pattern \<open>[A-Za-z][A-Za-z0-9._-]{0,127}\<close>.\<close>

definition valid_operation_id :: "string \<Rightarrow> bool" where
  "valid_operation_id s \<longleftrightarrow> s \<noteq> [] \<and> length s \<le> 128 \<and> (is_upper (hd s) \<or> is_lower (hd s)) \<and>
     list_all (\<lambda>c. is_alnum c \<or> c = CHR ''.'' \<or> c = CHR ''_'' \<or> c = CHR ''-'') (tl s)"

definition scope_for_operation :: "string \<Rightarrow> exn + string" where
  "scope_for_operation operation_id =
     (if \<not> valid_operation_id operation_id
      then Inl (ValueError ''An operation id must be a valid OpenAPI operationId.'')
      else if operation_id \<notin> set known_operation_ids
      then Inl (ValueError ''The operation id is not part of the canonical API contract.'')
      else Inr (''automl:operation:'' @ operation_id))"

definition has_operation_scope :: "principal \<Rightarrow> string \<Rightarrow> exn + bool" where
  "has_operation_scope p operation_id = exn_bind (scope_for_operation operation_id) (has_scope p)"

definition enforce_operation_scope :: "principal \<Rightarrow> string \<Rightarrow> exn + principal" where
  "enforce_operation_scope p operation_id =
     exn_bind (scope_for_operation operation_id) (\<lambda>s. enforce_scopes p [s])"

section \<open>Issuing credentials\<close>

definition credential_payload ::
  "string option \<Rightarrow> string \<Rightarrow> string \<Rightarrow> string \<Rightarrow> string \<Rightarrow> string list \<Rightarrow> int \<Rightarrow> int \<Rightarrow> string \<Rightarrow> jdict" where
  "credential_payload iss aud sub tenant actor scope_list issued_at expires_at jti =
     [(''iss'', case iss of Some s \<Rightarrow> JStr s | None \<Rightarrow> JNull), (''aud'', JStr aud), (''sub'', JStr sub),
      (''tenant_id'', JStr tenant), (''actor_type'', JStr actor),
      (''scopes'', JArr (map JStr scope_list)), (''iat'', JInt issued_at), (''nbf'', JInt issued_at),
      (''exp'', JInt expires_at), (''jti'', JStr jti)]"

record credential =
  cr_token :: string
  cr_subject :: string
  cr_tenant_id :: string
  cr_actor_type :: string
  cr_key_id :: string
  cr_scopes :: "string list"
  cr_expires_at :: int
  cr_expires_in :: int

text \<open>
  \<open>jwt_encode headers payload key\<close> is PyJWT's encoder, \<open>now\<close> the whole seconds of the clock and
  \<open>jti\<close> the fresh identifier; \<open>sorted({...})\<close> is a sorted list without repetition.
\<close>

definition issue_token ::
  "crypto \<Rightarrow> (jdict \<Rightarrow> jdict \<Rightarrow> string \<Rightarrow> string) \<Rightarrow> environ \<Rightarrow> int \<Rightarrow> string
     \<Rightarrow> string \<Rightarrow> string \<Rightarrow> string \<Rightarrow> string list \<Rightarrow> int \<Rightarrow> string option \<Rightarrow> exn + credential" where
  "issue_token cr jwt_encode source now jti sub tenant actor operations expires_in kid =
     (if \<not> (60 \<le> expires_in \<and> expires_in \<le> 86400)
      then Inl (ValueError ''expires_in must be between 60 and 86400 seconds'')
      else exn_bind (auth_from_env cr source) (\<lambda>settings.
      case as_signing_keys settings of
        [] \<Rightarrow> Inl (AuthConfig ''Local credential issuance requires production HS256 keys; it is unavailable in JWKS mode.'')
      | first # others \<Rightarrow>
          if as_mode settings \<noteq> Production
          then Inl (AuthConfig ''Local credential issuance requires production HS256 keys; it is unavailable in JWKS mode.'')
          else let selected = (case kid of Some k \<Rightarrow> (if k \<noteq> [] then k else fst first) | None \<Rightarrow> fst first)
          in case map_of (as_signing_keys settings) selected of
               None \<Rightarrow> Inl (ValueError ''the selected key id is not configured'')
             | Some signing_key \<Rightarrow>
                 exn_bind (traverse scope_for_operation operations) (\<lambda>ss.
                 let scope_list = sort (remdups ss)
                 in if scope_list = [] then Inl (ValueError ''at least one --operation is required'')
                    else let payload = credential_payload (as_issuer settings) (hd (as_audiences settings))
                               sub tenant actor scope_list now (now + expires_in) jti;
                             token = jwt_encode [(''kid'', JStr selected), (''typ'', JStr ''JWT'')] payload signing_key;
                             iss = (case as_issuer settings of Some s \<Rightarrow> s | None \<Rightarrow> ''None'')
                    in exn_bind (hs256_jwt_verifier iss (as_audiences settings) (as_signing_keys settings)
                                  (as_leeway settings)) (\<lambda>v.
                       exn_bind (verify_hs256 cr v (of_int now) token) (\<lambda>_.
                         Inr \<lparr>cr_token = token, cr_subject = sub, cr_tenant_id = tenant, cr_actor_type = actor,
                              cr_key_id = selected, cr_scopes = scope_list, cr_expires_at = now + expires_in,
                              cr_expires_in = expires_in\<rparr>)))))"

end
