(* ===== verification/Runtime_Limits.thy ===== *)
theory Runtime_Limits
  imports Security
begin

text \<open>
  The runtime limits (limits.py): read from the environment, and the check of a run's budget.
  \<open>float(s)\<close> of a string is the argument \<open>parse_float\<close>, where a string that denotes no finite
  number is \<open>None\<close>.
\<close>

section \<open>Limits\<close>

definition env_int :: "(string \<times> string) list \<Rightarrow> string \<Rightarrow> int \<Rightarrow> int \<Rightarrow> exn + int" where
  "env_int source name dflt minimum =
     (case map_of source name of
        None \<Rightarrow> Inr dflt
      | Some raw \<Rightarrow>
          if py_strip raw = [] then Inr dflt
          else case parse_int raw of
                 None \<Rightarrow> Inl (ValueError (name @ '' must be an integer.''))
               | Some v \<Rightarrow>
                   if v < minimum then Inl (ValueError (name @ '' must be at least '' @ int_str minimum @ ''.''))
                   else Inr v)"

text \<open>The only caller leaves \<open>minimum\<close> at its default 0.0.\<close>

definition env_float ::
  "(string \<Rightarrow> rat option) \<Rightarrow> (string \<times> string) list \<Rightarrow> string \<Rightarrow> rat \<Rightarrow> exn + rat" where
  "env_float parse_float source name dflt =
     (case map_of source name of
        None \<Rightarrow> Inr dflt
      | Some raw \<Rightarrow>
          if py_strip raw = [] then Inr dflt
          else case parse_float raw of
                 None \<Rightarrow> Inl (ValueError (name @ '' must be a number.''))
               | Some v \<Rightarrow>
                   if v < 0 then Inl (ValueError (name @ '' must be at least 0.0.'')) else Inr v)"

record runtime_limits =
  max_dataset_bytes :: int
  max_upload_part_bytes :: int
  max_active_runs_per_tenant :: int
  max_storage_bytes_per_tenant :: int
  max_trials_per_run :: int
  max_wall_time_seconds :: int
  max_compute_credits :: rat

definition default_limits :: runtime_limits where
  "default_limits =
     \<lparr>max_dataset_bytes = 100 * 1024 * 1024, max_upload_part_bytes = 100 * 1024 * 1024,
      max_active_runs_per_tenant = 4, max_storage_bytes_per_tenant = 1024 * 1024 * 1024,
      max_trials_per_run = 20, max_wall_time_seconds = 3600, max_compute_credits = 20\<rparr>"

definition limits_from_env :: "(string \<Rightarrow> rat option) \<Rightarrow> (string \<times> string) list \<Rightarrow> exn + runtime_limits" where
  "limits_from_env parse_float source =
     (let d = default_limits
      in exn_bind (env_int source ''AUTOML_MAX_DATASET_BYTES'' (max_dataset_bytes d) 1) (\<lambda>a.
         exn_bind (env_int source ''AUTOML_MAX_UPLOAD_PART_BYTES'' (max_upload_part_bytes d) 1) (\<lambda>b.
         exn_bind (env_int source ''AUTOML_MAX_ACTIVE_RUNS_PER_TENANT'' (max_active_runs_per_tenant d) 1) (\<lambda>c.
         exn_bind (env_int source ''AUTOML_MAX_STORAGE_BYTES_PER_TENANT'' (max_storage_bytes_per_tenant d) 1) (\<lambda>e.
         exn_bind (env_int source ''AUTOML_MAX_TRIALS_PER_RUN'' (max_trials_per_run d) 1) (\<lambda>f.
         exn_bind (env_int source ''AUTOML_MAX_WALL_TIME_SECONDS'' (max_wall_time_seconds d) 60) (\<lambda>g.
         exn_bind (env_float parse_float source ''AUTOML_MAX_COMPUTE_CREDITS'' (max_compute_credits d)) (\<lambda>h.
           Inr \<lparr>max_dataset_bytes = a, max_upload_part_bytes = b, max_active_runs_per_tenant = c,
                max_storage_bytes_per_tenant = e, max_trials_per_run = f, max_wall_time_seconds = g,
                max_compute_credits = h\<rparr>))))))))"

definition manifest :: "runtime_limits \<Rightarrow> jdict" where
  "manifest l =
     [(''max_dataset_bytes'', JInt (max_dataset_bytes l)),
      (''max_upload_part_bytes'', JInt (max_upload_part_bytes l)),
      (''max_active_runs_per_tenant'', JInt (max_active_runs_per_tenant l)),
      (''max_storage_bytes_per_tenant'', JInt (max_storage_bytes_per_tenant l)),
      (''max_trials_per_run'', JInt (max_trials_per_run l)),
      (''max_wall_time_seconds'', JInt (max_wall_time_seconds l)),
      (''max_compute_credits'', JFloat (max_compute_credits l))]"

text \<open>\<open>d[k]\<close>, which raises \<open>KeyError\<close>, and \<open>float(v)\<close>.\<close>

definition item_of :: "jdict \<Rightarrow> string \<Rightarrow> exn + json" where
  "item_of d k = (case map_of d k of None \<Rightarrow> Inl (KeyError k) | Some v \<Rightarrow> Inr v)"

fun py_float :: "(string \<Rightarrow> rat option) \<Rightarrow> json \<Rightarrow> exn + rat" where
  "py_float parse_float (JInt i) = float_of_int i"
| "py_float parse_float (JBool b) = Inr (if b then 1 else 0)"
| "py_float parse_float (JFloat q) = Inr q"
| "py_float parse_float (JStr s) =
     (case parse_float s of Some q \<Rightarrow> Inr q | None \<Rightarrow> Inl (ValueError ''could not convert string to float''))"
| "py_float parse_float _ = Inl TypeError"

definition budget_violation :: "string \<Rightarrow> bool \<Rightarrow> json \<Rightarrow> json \<Rightarrow> jdict" where
  "budget_violation field exceeds requested maximum =
     (if exceeds then [(field, JObj [(''requested'', requested), (''limit'', maximum)])] else [])"

definition validate_budget :: "(string \<Rightarrow> rat option) \<Rightarrow> runtime_limits \<Rightarrow> jdict \<Rightarrow> exn + unit" where
  "validate_budget parse_float l budget =
     exn_bind (exn_bind (item_of budget ''max_trials'') py_int) (\<lambda>trials.
     exn_bind (exn_bind (item_of budget ''max_wall_time_seconds'') py_int) (\<lambda>wall.
     exn_bind (exn_bind (item_of budget ''max_compute_credits'') (py_float parse_float)) (\<lambda>credits.
     let violations =
           budget_violation ''max_trials'' (trials > max_trials_per_run l) (JInt trials) (JInt (max_trials_per_run l)) @
           budget_violation ''max_wall_time_seconds'' (wall > max_wall_time_seconds l) (JInt wall)
             (JInt (max_wall_time_seconds l)) @
           budget_violation ''max_compute_credits'' (credits > max_compute_credits l) (JFloat credits)
             (JFloat (max_compute_credits l))
     in if violations \<noteq> []
        then Inl (APIProblem 422 ''budget_limit_exceeded'' ''Run budget exceeds this service profile''
               [(''violations'', JObj violations), (''runtime_limits'', JObj (manifest l))])
        else Inr ())))"

section \<open>Correctness\<close>

text \<open>
  A budget is accepted exactly if every figure is within the limits of the profile;
  otherwise the answer is a 422 that reports each violated field with the request and the
  limit, and only those.
\<close>

theorem budget_check_exact:
  assumes "item_of budget ''max_trials'' = Inr a" and "py_int a = Inr trials"
    and "item_of budget ''max_wall_time_seconds'' = Inr b" and "py_int b = Inr wall"
    and "item_of budget ''max_compute_credits'' = Inr c" and "py_float parse_float c = Inr credits"
  shows "(validate_budget parse_float l budget = Inr () \<longleftrightarrow>
      trials \<le> max_trials_per_run l \<and> wall \<le> max_wall_time_seconds l \<and> credits \<le> max_compute_credits l) \<and>
    (validate_budget parse_float l budget \<noteq> Inr () \<longrightarrow>
      (\<exists>violations. validate_budget parse_float l budget =
         Inl (APIProblem 422 ''budget_limit_exceeded'' ''Run budget exceeds this service profile''
           [(''violations'', JObj violations), (''runtime_limits'', JObj (manifest l))]) \<and>
       (has_key violations ''max_trials'' \<longleftrightarrow> trials > max_trials_per_run l) \<and>
       (has_key violations ''max_wall_time_seconds'' \<longleftrightarrow> wall > max_wall_time_seconds l) \<and>
       (has_key violations ''max_compute_credits'' \<longleftrightarrow> credits > max_compute_credits l)))"
  using assms by (auto simp: validate_budget_def Let_def budget_violation_def has_key_def)

text \<open>
  The environment cannot configure a nonsensical limit. Limits that are read from the
  environment are positive, the wall time is at least a minute, the credits are not negative.
\<close>

theorem limits_from_env_sane:
  assumes "limits_from_env parse_float source = Inr l"
  shows "0 < max_dataset_bytes l \<and> 0 < max_upload_part_bytes l \<and> 0 < max_active_runs_per_tenant l \<and>
    0 < max_storage_bytes_per_tenant l \<and> 0 < max_trials_per_run l \<and> 60 \<le> max_wall_time_seconds l \<and>
    0 \<le> max_compute_credits l"
proof -
  have int: "env_int source n d m = Inr v \<Longrightarrow> m \<le> d \<Longrightarrow> m \<le> v" for n d m v
    by (auto simp: env_int_def split: option.splits if_splits)
  have float: "env_float parse_float source n d = Inr v \<Longrightarrow> 0 \<le> d \<Longrightarrow> 0 \<le> v" for n d v
    by (auto simp: env_float_def split: option.splits if_splits)
  let ?d = default_limits
  obtain a b c e f g h where
    "env_int source ''AUTOML_MAX_DATASET_BYTES'' (max_dataset_bytes ?d) 1 = Inr a"
    "env_int source ''AUTOML_MAX_UPLOAD_PART_BYTES'' (max_upload_part_bytes ?d) 1 = Inr b"
    "env_int source ''AUTOML_MAX_ACTIVE_RUNS_PER_TENANT'' (max_active_runs_per_tenant ?d) 1 = Inr c"
    "env_int source ''AUTOML_MAX_STORAGE_BYTES_PER_TENANT'' (max_storage_bytes_per_tenant ?d) 1 = Inr e"
    "env_int source ''AUTOML_MAX_TRIALS_PER_RUN'' (max_trials_per_run ?d) 1 = Inr f"
    "env_int source ''AUTOML_MAX_WALL_TIME_SECONDS'' (max_wall_time_seconds ?d) 60 = Inr g"
    "env_float parse_float source ''AUTOML_MAX_COMPUTE_CREDITS'' (max_compute_credits ?d) = Inr h"
    and l: "l = \<lparr>max_dataset_bytes = a, max_upload_part_bytes = b, max_active_runs_per_tenant = c,
                max_storage_bytes_per_tenant = e, max_trials_per_run = f, max_wall_time_seconds = g,
                max_compute_credits = h\<rparr>"
    using assms by (auto simp: limits_from_env_def exn_bind_Inr Let_def)
  from this(1-6) [THEN int] this(7) [THEN float] show ?thesis
    by (simp add: l default_limits_def)
qed

end
