(* ===== verification/Workflow_Rules.thy ===== *)
theory Workflow_Rules
  imports Store_Ops Auth Runtime_Limits
begin

text \<open>
  The rules of the workflow service (workflow.py) that do not change the state: the public
  views of a resource, the visibility of resources to a principal, the tenant's quotas, who may
  answer a decision packet and with what, and the actions offered to an agent.

  The questions of a packet are dictionaries with string identifiers, as the service creates
  them, and an answer is a pair of an identifier and a value, as the request model demands. The
  times a function takes are arguments.
\<close>

section \<open>Public views\<close>

definition run_public_fields :: "string list" where
  "run_public_fields =
     [''api_version'', ''run_id'', ''dataset_version_id'', ''phase'', ''status'', ''outcome'', ''plan_version'',
      ''run_revision'', ''snapshot_seq'', ''retained_from_seq'', ''contract_versions'', ''progress'', ''stages'',
      ''blocking'', ''latest_output_refs'', ''available_actions'', ''budget_usage'', ''created_at'',
      ''updated_at'', ''links'', ''callback_uri'', ''callback_url'', ''webhook_endpoint_ids'']"

definition only_keys :: "string list \<Rightarrow> jdict \<Rightarrow> jdict" where
  "only_keys ks d = filter (\<lambda>(k, v). k \<in> set ks) d"

definition public_run :: "jdict \<Rightarrow> jdict" where
  "public_run run =
     (let public = only_keys run_public_fields run;
          callback_uri = dget_or run ''callback_uri'' (dget run ''callback_url'')
      in if callback_uri \<noteq> JNull \<or> has_key run ''callback_uri'' \<or> has_key run ''callback_url''
         then dput ''callback_url'' callback_uri (dput ''callback_uri'' callback_uri public)
         else public)"

definition page :: "jdict list \<Rightarrow> int option \<Rightarrow> jdict" where
  "page items high_watermark =
     [(''items'', JArr (map JObj items)),
      (''page'', JObj [(''next_cursor'', JNull), (''has_more'', JBool False),
        (''high_watermark'', JInt (case high_watermark of None \<Rightarrow> int (length items) | Some n \<Rightarrow> n))])]"

definition phases :: "string list" where
  "phases = [''INGEST'', ''PROFILE'', ''PLAN'', ''TRAIN'', ''EVALUATE'', ''PACKAGE'']"

definition stage :: "string \<Rightarrow> string \<Rightarrow> string \<Rightarrow> string list \<Rightarrow> string \<Rightarrow> jdict" where
  "stage now active_phase active_status completed phase =
     (let (status, percent, started, ended) =
            (if phase \<in> set completed then (''COMPLETED'', 100, JStr now, JStr now)
             else if phase = active_phase
             then (if active_status = ''WAITING_USER'' \<or> active_status = ''PAUSED'' then ''WAITING'' else ''RUNNING'',
                   35, JStr now, JNull)
             else (''PENDING'', 0, JNull, JNull))
      in [(''phase'', JStr phase), (''status'', JStr status), (''progress_percent'', JFloat percent),
          (''started_at'', started), (''completed_at'', ended), (''message'', JStr (py_lower phase @ '' stage'')),
          (''latest_output_refs'', JArr [])])"

definition stages :: "string \<Rightarrow> string \<Rightarrow> string \<Rightarrow> string list \<Rightarrow> json" where
  "stages now active_phase active_status completed =
     JArr (map (\<lambda>p. JObj (stage now active_phase active_status completed p)) phases)"

definition output_ref :: "py_env \<Rightarrow> jdict \<Rightarrow> exn + json" where
  "output_ref env output =
     exn_bind (item_of output ''output_id'') (\<lambda>i.
     exn_bind (item_of output ''type'') (\<lambda>t.
     exn_bind (item_of output ''state'') (\<lambda>st.
     exn_bind (item_of output ''run_id'') (\<lambda>r.
       Inr (JObj [(''output_id'', i), (''type'', t), (''state'', st),
         (''href'', JStr (''/v1/runs/'' @ py_str env r @ ''/outputs/'' @ py_str env i))])))))"

text \<open>\<open>int(percent // 20)\<close>.\<close>

definition progress :: "rat \<Rightarrow> string \<Rightarrow> string \<Rightarrow> json" where
  "progress percent code title =
     JObj [(''plan_version'', JInt 1), (''percent'', JFloat percent), (''estimate_revision'', JInt 1),
       (''completed_steps'', JInt \<lfloor>percent / 20\<rfloor>), (''total_steps'', JInt 5),
       (''current_step'', JObj [(''code'', JStr code), (''title'', JStr title), (''message'', JStr title)]),
       (''eta_seconds'', JNull)]"

definition run_links :: "string \<Rightarrow> json" where
  "run_links run_id =
     JObj [(''self'', JStr (''/v1/runs/'' @ run_id)), (''events'', JStr (''/v1/runs/'' @ run_id @ ''/events'')),
       (''outputs'', JStr (''/v1/runs/'' @ run_id @ ''/outputs'')),
       (''result'', JStr (''/v1/runs/'' @ run_id @ ''/result''))]"

definition dicts :: "json \<Rightarrow> exn + jdict list" where
  "dicts v = (case v of
      JArr xs \<Rightarrow> traverse (\<lambda>x. case x of JObj d \<Rightarrow> Inr d | _ \<Rightarrow> Inl TypeError) xs
    | _ \<Rightarrow> Inl TypeError)"

definition canceled_stage :: "string \<Rightarrow> jdict \<Rightarrow> exn + json" where
  "canceled_stage canceled_at item =
     exn_bind (item_of item ''status'') (\<lambda>status.
       Inr (JObj (if status = JStr ''COMPLETED'' \<or> status = JStr ''SKIPPED'' then item
         else dupdate item [(''status'', JStr ''CANCELED''), (''completed_at'', JStr canceled_at),
                (''message'', JStr ''Canceled by user request'')])))"

definition canceled_stages :: "string \<Rightarrow> json \<Rightarrow> exn + json" where
  "canceled_stages canceled_at v =
     exn_bind (dicts v) (\<lambda>ds. exn_bind (traverse (canceled_stage canceled_at) ds) (\<lambda>xs. Inr (JArr xs)))"

definition without_tenant :: "jdict \<Rightarrow> jdict" where
  "without_tenant d = filter (\<lambda>(k, v). k \<noteq> ''tenant_id'') d"

definition public_command :: "jdict \<Rightarrow> jdict" where
  "public_command command = without_tenant command"

definition public_dataset_version :: "jdict \<Rightarrow> jdict" where
  "public_dataset_version version =
     filter (\<lambda>(k, v). v \<noteq> JNull)
       (only_keys [''dataset_id'', ''dataset_version_id'', ''status'', ''revision'', ''media_type'', ''size_bytes'',
          ''sha256'', ''validation_issues'', ''created_at'', ''updated_at''] version)"

section \<open>Visibility\<close>

definition not_found :: exn where
  "not_found = APIProblem 404 ''not_found'' ''Resource not found'' []"

definition owned :: "jdict option \<Rightarrow> principal \<Rightarrow> exn + jdict" where
  "owned resource p =
     (case resource of
        None \<Rightarrow> Inl not_found
      | Some r \<Rightarrow> if py_eq (dget r ''tenant_id'') (JStr (tenant_id p)) then Inr r else Inl not_found)"

section \<open>Quotas\<close>

fun sum_exn :: "(exn + int) list \<Rightarrow> exn + int" where
  "sum_exn [] = Inr 0"
| "sum_exn (x # xs) = exn_bind x (\<lambda>a. exn_bind (sum_exn xs) (\<lambda>b. Inr (a + b)))"

definition of_tenant :: "string \<Rightarrow> jdict list \<Rightarrow> jdict list" where
  "of_tenant t xs = filter (\<lambda>d. py_eq (dget d ''tenant_id'') (JStr t)) xs"

definition size_of_resource :: "jdict \<Rightarrow> exn + int" where
  "size_of_resource d = py_int (py_or (dget d ''size_bytes'') (JInt 0))"

definition tenant_storage_bytes :: "string \<Rightarrow> (store, int) py" where
  "tenant_storage_bytes t =
     seq (list_dataset_versions None) (\<lambda>versions.
     seq (list_artifacts None) (\<lambda>artifacts.
     seq (lift (sum_exn (map size_of_resource (of_tenant t versions)))) (\<lambda>dataset_bytes.
     seq (lift (sum_exn (map size_of_resource (of_tenant t artifacts)))) (\<lambda>artifact_bytes.
       ret (dataset_bytes + artifact_bytes)))))"

definition tenant_active_run_count :: "string \<Rightarrow> (store, int) py" where
  "tenant_active_run_count t =
     seq list_runs (\<lambda>runs.
       ret (int (length (filter (\<lambda>r. \<not> py_eq (dget r ''status'') (JStr ''TERMINAL'')) (of_tenant t runs)))))"

definition enforce_dataset_limits :: "runtime_limits \<Rightarrow> principal \<Rightarrow> jdict \<Rightarrow> (store, unit) py" where
  "enforce_dataset_limits l p request =
     seq (lift (exn_bind (item_of request ''size_bytes'') py_int)) (\<lambda>size_bytes.
     seq (fail_if (size_bytes > max_dataset_bytes l)
            (APIProblem 413 ''dataset_too_large'' ''Dataset is too large''
              [(''runtime_limits'', JObj (manifest l))])) (\<lambda>_.
     seq (tenant_storage_bytes (tenant_id p)) (\<lambda>storage_used.
       fail_if (storage_used + size_bytes > max_storage_bytes_per_tenant l)
         (APIProblem 429 ''tenant_storage_limit_exceeded'' ''Tenant storage limit exceeded''
           [(''storage_bytes_used'', JInt storage_used), (''requested_bytes'', JInt size_bytes),
            (''runtime_limits'', JObj (manifest l))]))))"

definition budget_of :: "jdict \<Rightarrow> exn + jdict" where
  "budget_of request =
     exn_bind (item_of request ''budget'') (\<lambda>b. case b of JObj d \<Rightarrow> Inr d | _ \<Rightarrow> Inl TypeError)"

definition enforce_run_limits ::
  "(string \<Rightarrow> rat option) \<Rightarrow> runtime_limits \<Rightarrow> principal \<Rightarrow> jdict \<Rightarrow> (store, unit) py" where
  "enforce_run_limits parse_float l p request =
     seq (lift (exn_bind (budget_of request) (validate_budget parse_float l))) (\<lambda>_.
     seq (tenant_active_run_count (tenant_id p)) (\<lambda>active.
       fail_if (active \<ge> max_active_runs_per_tenant l)
         (APIProblem 429 ''active_run_limit_exceeded'' ''Active Run limit exceeded''
           [(''active_runs'', JInt active), (''runtime_limits'', JObj (manifest l))])))"

section \<open>Who may answer\<close>

definition require_external_agent_policy :: "jdict \<Rightarrow> exn + unit" where
  "require_external_agent_policy run =
     (case dget_or run ''policy'' (JObj []) of
        JObj policy \<Rightarrow>
          if dget policy ''allow_external_llm'' = JBool True then Inr ()
          else Inl (APIProblem 403 ''external_agent_access_denied'' ''External agent access is disabled'' [])
      | _ \<Rightarrow> Inl (AttributeErr ''get''))"

definition resolution_policy :: "jdict \<Rightarrow> json" where
  "resolution_policy packet = dget_or packet ''resolution_policy'' (JStr ''HUMAN_REQUIRED'')"

definition enforce_decision_actor :: "jdict \<Rightarrow> principal \<Rightarrow> exn + unit" where
  "enforce_decision_actor packet p =
     (if actor_type p = ''development'' then Inr ()
      else if resolution_policy packet = JStr ''HUMAN_REQUIRED'' \<and> actor_type p \<noteq> ''human''
      then Inl (APIProblem 403 ''human_decision_required'' ''Human decision required'' [])
      else if resolution_policy packet = JStr ''APPROVAL_REQUIRED''
      then Inl (APIProblem 403 ''approval_required'' ''Approval required'' [])
      else Inr ())"

text \<open>\<open>type(a) is type(b) and a == b\<close>.\<close>

definition same_value :: "json \<Rightarrow> json \<Rightarrow> bool" where
  "same_value a b \<longleftrightarrow> type_of a = type_of b \<and> py_eq a b"

fun remove_match :: "json \<Rightarrow> json list \<Rightarrow> json list option" where
  "remove_match v [] = None"
| "remove_match v (c # cs) = (if same_value v c then Some cs else map_option (Cons c) (remove_match v cs))"

fun match_all :: "json list \<Rightarrow> json list \<Rightarrow> bool" where
  "match_all [] remaining = (remaining = [])"
| "match_all (v # vs) remaining =
     (case remove_match v remaining of None \<Rightarrow> False | Some rest \<Rightarrow> match_all vs rest)"

definition same_value_multiset :: "json list \<Rightarrow> json list \<Rightarrow> bool" where
  "same_value_multiset left right \<longleftrightarrow> length left = length right \<and> match_all left right"

definition questions_of :: "jdict \<Rightarrow> exn + jdict list" where
  "questions_of packet = dicts (dget_or packet ''questions'' (JArr []))"

definition question_id :: "jdict \<Rightarrow> exn + string" where
  "question_id q =
     exn_bind (item_of q ''question_id'') (\<lambda>v. case v of JStr s \<Rightarrow> Inr s | _ \<Rightarrow> Inl TypeError)"

definition recommended :: "jdict \<Rightarrow> json \<Rightarrow> bool" where
  "recommended q supplied =
     (let recommendation = dget q ''recommendation''
      in if dget q ''selection_mode'' = JStr ''MULTIPLE''
         then (case (supplied, recommendation) of
                 (JArr xs, JArr ys) \<Rightarrow> same_value_multiset xs ys | _ \<Rightarrow> False)
         else same_value supplied recommendation)"

fun check_recommendations :: "jdict \<Rightarrow> jdict list \<Rightarrow> exn + unit" where
  "check_recommendations answers [] = Inr ()"
| "check_recommendations answers (q # qs) =
     exn_bind (question_id q) (\<lambda>i.
       if recommended q (dget answers i) then check_recommendations answers qs
       else Inl (APIProblem 422 ''agent_answer_must_use_recommendation''
                  ''Agent answer must use the recommendation'' []))"

definition enforce_agent_recommendations :: "jdict \<Rightarrow> principal \<Rightarrow> jdict \<Rightarrow> exn + unit" where
  "enforce_agent_recommendations packet p answers =
     (if actor_type p \<noteq> ''agent'' \<and> actor_type p \<noteq> ''service'' then Inr ()
      else if resolution_policy packet \<noteq> JStr ''AGENT_ALLOWED'' then Inr ()
      else exn_bind (questions_of packet) (check_recommendations answers))"

section \<open>What may be answered\<close>

definition selection_mode :: "jdict \<Rightarrow> json" where
  "selection_mode q =
     py_or (dget q ''selection_mode'')
       (if py_truthy (dget q ''options'') then JStr ''SINGLE'' else JStr ''FREEFORM'')"

definition invalid_answer :: "string \<Rightarrow> exn" where
  "invalid_answer title = APIProblem 422 ''invalid_answer'' title []"

definition selections :: "jdict \<Rightarrow> json \<Rightarrow> exn + json list" where
  "selections q v =
     (if selection_mode q = JStr ''MULTIPLE''
      then (case v of JArr xs \<Rightarrow> Inr xs | _ \<Rightarrow> Inl (invalid_answer ''Invalid selection format''))
      else (case v of JArr xs \<Rightarrow> Inl (invalid_answer ''Invalid selection format'') | _ \<Rightarrow> Inr [v]))"

definition offered :: "jdict list \<Rightarrow> json \<Rightarrow> bool" where
  "offered options v = list_ex (\<lambda>opt. same_value v (dget opt ''value'')) options"

definition check_answer :: "jdict \<Rightarrow> json \<Rightarrow> exn + unit" where
  "check_answer q v =
     exn_bind (py_int (dget_or q ''min_selections'' (JInt 1))) (\<lambda>low.
     exn_bind (py_int (dget_or q ''max_selections'' (JInt 1))) (\<lambda>high.
     exn_bind (selections q v) (\<lambda>vs.
     if \<not> (low \<le> int (length vs) \<and> int (length vs) \<le> high)
     then Inl (invalid_answer ''Invalid selection count'')
     else exn_bind (dicts (py_or (dget q ''options'') (JArr []))) (\<lambda>options.
          if options \<noteq> [] \<and> \<not> list_all (offered options) vs
          then Inl (invalid_answer ''Selection is not available'') else Inr ()))))"

fun check_answers :: "jdict \<Rightarrow> jdict list \<Rightarrow> exn + unit" where
  "check_answers answers [] = Inr ()"
| "check_answers answers (q # qs) =
     exn_bind (question_id q) (\<lambda>i.
     exn_bind (item_of answers i) (\<lambda>v.
     exn_bind (check_answer q v) (\<lambda>_. check_answers answers qs)))"

text \<open>\<open>{item["question_id"]: item["value"] for item in answers}\<close>: the last answer wins.\<close>

definition answer_by_id :: "(string \<times> json) list \<Rightarrow> jdict" where
  "answer_by_id answers = dupdate [] answers"

definition validate_packet_answers :: "jdict \<Rightarrow> (string \<times> json) list \<Rightarrow> exn + jdict" where
  "validate_packet_answers packet answers =
     exn_bind (questions_of packet) (\<lambda>questions.
     exn_bind (traverse question_id questions) (\<lambda>ids.
     let by_id = answer_by_id answers; required = remdups ids
     in if length answers \<noteq> length by_id \<or> length by_id \<noteq> length required \<or> fst ` set by_id \<noteq> set required
        then Inl (APIProblem 422 ''incomplete_wait_set'' ''Answer the complete wait-set'' [])
        else exn_bind (check_answers by_id questions) (\<lambda>_. Inr by_id)))"

section \<open>Actions offered to an agent\<close>

definition run_action :: "string \<Rightarrow> string \<Rightarrow> string \<Rightarrow> string \<Rightarrow> json \<Rightarrow> jdict" where
  "run_action action operation_id path run_id if_match =
     [(''action'', JStr action), (''operation_id'', JStr operation_id), (''method'', JStr ''POST''),
      (''href'', JStr (''/v1/runs/'' @ run_id @ '':'' @ path)), (''idempotency_key_required'', JBool True),
      (''if_match'', if_match), (''request_schema_ref'', JNull)]"

definition quoted_value :: "py_env \<Rightarrow> json \<Rightarrow> json" where
  "quoted_value env v = JStr ([char_of (34 :: nat)] @ py_str env v @ [char_of (34 :: nat)])"

definition if_match_of :: "py_env \<Rightarrow> string \<Rightarrow> json \<Rightarrow> json" where
  "if_match_of env scope v =
     JObj [(''header'', JStr ''If-Match''), (''scope'', JStr scope), (''value'', quoted_value env v)]"

definition answer_action :: "py_env \<Rightarrow> string \<Rightarrow> jdict \<Rightarrow> exn + jdict" where
  "answer_action env run_id packet =
     exn_bind (item_of packet ''wait_set_id'') (\<lambda>w.
     exn_bind (item_of packet ''wait_set_revision'') (\<lambda>r.
       Inr [(''action'', JStr ''ANSWER''), (''operation_id'', JStr ''answerDecisionPacket''), (''method'', JStr ''POST''),
            (''href'', JStr (''/v1/runs/'' @ run_id @ ''/decision-packets/'' @ py_str env w @ '':answer'')),
            (''idempotency_key_required'', JBool True), (''if_match'', if_match_of env ''WAIT_SET_REVISION'' r),
            (''request_schema_ref'', JStr ''#/components/schemas/AnswerDecisionPacketRequest'')]))"

definition agent_action_items :: "py_env \<Rightarrow> jdict \<Rightarrow> jdict list \<Rightarrow> exn + jdict list" where
  "agent_action_items env run open_packets =
     exn_bind (item_of run ''run_id'') (\<lambda>rid.
     exn_bind (py_set (dget_or run ''available_actions'' (JArr []))) (\<lambda>available.
     let run_id = py_str env rid; offers = (\<lambda>a. JStr a \<in> set available);
         revision = item_of run ''run_revision''
     in exn_bind (if offers ''ANSWER''
                  then traverse (answer_action env run_id)
                         (filter (\<lambda>p. resolution_policy p = JStr ''AGENT_ALLOWED'') open_packets)
                  else Inr []) (\<lambda>answers.
        exn_bind (if offers ''PAUSE'' then exn_bind revision (\<lambda>r.
                    Inr [run_action ''PAUSE'' ''pauseRun'' ''pause'' run_id (if_match_of env ''RUN_REVISION'' r)])
                  else Inr []) (\<lambda>pauses.
        exn_bind (if offers ''RESUME'' then exn_bind revision (\<lambda>r.
                    Inr [run_action ''RESUME'' ''resumeRun'' ''resume'' run_id (if_match_of env ''RUN_REVISION'' r)])
                  else Inr []) (\<lambda>resumes.
          Inr (answers @ pauses @ resumes @
            (if offers ''CANCEL'' then [run_action ''CANCEL'' ''cancelRun'' ''cancel'' run_id JNull] else [])))))))"

end
