(* ===== verification/Backends.thy ===== *)
theory Backends
  imports Workflow_Rules
begin

text \<open>
  The registry of AutoML backends (backends/registry.py, backends/base.py): the descriptors of the
  three adapters, how they say whether they are ready, and the resolution of a request to a
  backend that can serve it. Training itself runs third-party libraries and is not modelled.

  The descriptor of an adapter is computed from its surroundings whenever it is read: what the
  package metadata and the import system say are arguments, as are the environment variables and
  \<open>is_file\<close>, which stands for \<open>Path(p).expanduser().is_file()\<close>. A registry holds the descriptors
  that its adapters show now.
\<close>

section \<open>Descriptors\<close>

record backend_capabilities =
  task_types :: "string list"
  media_types :: "string list"
  supports_categorical_features :: bool
  supports_missing_values :: bool
  supports_probability_predictions :: bool
  supports_cross_validation :: bool
  supports_sealed_holdout :: bool
  supports_cpu :: bool
  supports_gpu :: bool
  capability_limits :: "(string \<times> int) list"
  runtime_requirements :: "string list"
  required_attributions :: "string list"

definition capabilities_for :: "string list \<Rightarrow> backend_capabilities" where
  "capabilities_for ts =
     \<lparr>task_types = ts, media_types = [''text/csv'', ''application/vnd.apache.parquet''],
      supports_categorical_features = True, supports_missing_values = True,
      supports_probability_predictions = True, supports_cross_validation = True,
      supports_sealed_holdout = True, supports_cpu = True, supports_gpu = False,
      capability_limits = [], runtime_requirements = [], required_attributions = []\<rparr>"

abbreviation strs :: "string list \<Rightarrow> json" where
  "strs xs \<equiv> JArr (map JStr xs)"

definition capabilities_dict :: "backend_capabilities \<Rightarrow> jdict" where
  "capabilities_dict c =
     [(''task_types'', strs (task_types c)), (''media_types'', strs (media_types c)),
      (''supports_categorical_features'', JBool (supports_categorical_features c)),
      (''supports_missing_values'', JBool (supports_missing_values c)),
      (''supports_probability_predictions'', JBool (supports_probability_predictions c)),
      (''supports_cross_validation'', JBool (supports_cross_validation c)),
      (''supports_sealed_holdout'', JBool (supports_sealed_holdout c)),
      (''supports_cpu'', JBool (supports_cpu c)), (''supports_gpu'', JBool (supports_gpu c)),
      (''limits'', JObj (map (\<lambda>(k, n). (k, JInt n)) (capability_limits c))),
      (''runtime_requirements'', strs (runtime_requirements c)),
      (''required_attributions'', strs (required_attributions c))]"

record backend_descriptor =
  backend_id :: string
  display_name :: string
  engine_version :: string
  backend_version :: "string option"
  available :: bool
  capabilities :: backend_capabilities
  artifact_kind :: string
  artifact_media_type :: string
  artifact_serialization :: string
  deterministic :: bool
  installed :: bool
  optional_dependency :: "string option"
  unavailable_reason :: "string option"

text \<open>\<open>__post_init__\<close>: the descriptors that can be constructed.\<close>

definition checked_descriptor :: "backend_descriptor \<Rightarrow> exn + backend_descriptor" where
  "checked_descriptor d =
     (if backend_id d = [] \<or> py_lower (py_strip (backend_id d)) \<noteq> backend_id d
      then Inl (ValueError ''backend_id must be a non-empty lowercase identifier'')
      else if available d \<and> unavailable_reason d \<noteq> None
      then Inl (ValueError ''an available backend cannot have unavailable_reason'')
      else if available d \<and> \<not> installed d
      then Inl (ValueError ''an available backend must be installed'')
      else if \<not> available d \<and> (unavailable_reason d = None \<or> unavailable_reason d = Some [])
      then Inl (ValueError ''an unavailable backend must explain unavailable_reason'')
      else Inr d)"

definition descriptor_status :: "backend_descriptor \<Rightarrow> string" where
  "descriptor_status d = (if available d then ''AVAILABLE'' else ''UNAVAILABLE'')"

definition optional_str :: "string option \<Rightarrow> json" where
  "optional_str v = (case v of None \<Rightarrow> JNull | Some s \<Rightarrow> JStr s)"

definition descriptor_dict :: "backend_descriptor \<Rightarrow> jdict" where
  "descriptor_dict d =
     [(''backend_id'', JStr (backend_id d)), (''display_name'', JStr (display_name d)),
      (''engine_version'', JStr (engine_version d)), (''backend_version'', optional_str (backend_version d)),
      (''status'', JStr (descriptor_status d)), (''installed'', JBool (installed d)),
      (''available'', JBool (available d)), (''optional_dependency'', optional_str (optional_dependency d)),
      (''unavailable_reason'', optional_str (unavailable_reason d)),
      (''capabilities'', JObj (capabilities_dict (capabilities d))),
      (''artifact'', JObj [(''kind'', JStr (artifact_kind d)), (''media_type'', JStr (artifact_media_type d)),
         (''serialization'', JStr (artifact_serialization d))]),
      (''deterministic'', JBool (deterministic d)), (''production_eligible'', JBool False)]"

section \<open>The three adapters\<close>

definition both_tasks :: "string list" where
  "both_tasks = [''BINARY_CLASSIFICATION'', ''REGRESSION'']"

definition sklearn_descriptor :: "string \<Rightarrow> exn + backend_descriptor" where
  "sklearn_descriptor version =
     checked_descriptor
       \<lparr>backend_id = ''sklearn'', display_name = ''scikit-learn bounded search'',
        engine_version = ''tabular-sklearn.v1'', backend_version = Some version, available = True,
        capabilities = capabilities_for both_tasks, artifact_kind = ''SKLEARN_JOBLIB'',
        artifact_media_type = ''application/octet-stream'', artifact_serialization = ''joblib'',
        deterministic = True, installed = True, optional_dependency = None, unavailable_reason = None\<rparr>"

text \<open>\<open>version\<close> is what the package metadata report, \<open>importable\<close> what \<open>find_spec\<close> finds.\<close>

definition autogluon_descriptor :: "string option \<Rightarrow> bool \<Rightarrow> exn + backend_descriptor" where
  "autogluon_descriptor version importable =
     (let ready = version \<noteq> None \<and> importable
      in checked_descriptor
       \<lparr>backend_id = ''autogluon'', display_name = ''AutoGluon Tabular bounded model selection'',
        engine_version = ''tabular-autogluon.v1'', backend_version = version, available = ready,
        capabilities = (capabilities_for both_tasks)
          \<lparr>supports_cross_validation := False, supports_gpu := False,
           capability_limits := [(''default_time_limit_seconds'', 20), (''max_configured_time_limit_seconds'', 3600),
             (''default_num_cpus'', 1), (''default_num_gpus'', 0)],
           runtime_requirements :=
             [''Bounded by RunBudget.max_wall_time_seconds with packaging reserve'',
              ''Writable AUTOML_BACKEND_WORK_DIR for predictor directories'',
              ''Default portfolio uses RF, XT, and LR without native booster add-ons'']\<rparr>,
        artifact_kind = ''AUTOGLUON_PREDICTOR_TAR_GZ'', artifact_media_type = ''application/gzip'',
        artifact_serialization = ''autogluon_predictor_tar_gz'', deterministic = False, installed = ready,
        optional_dependency = None,
        unavailable_reason = (if ready then None else Some ''STANDARD_DEPENDENCY_NOT_INSTALLED'')\<rparr>)"

text \<open>\<open>os.environ.get(name, dflt).strip()\<close>.\<close>

definition env_str :: "(string \<times> string) list \<Rightarrow> string \<Rightarrow> string \<Rightarrow> string" where
  "env_str source name dflt = py_strip (case map_of source name of None \<Rightarrow> dflt | Some v \<Rightarrow> v)"

definition enabled_flag :: "string option \<Rightarrow> bool" where
  "enabled_flag value =
     (py_lower (py_strip (case value of None \<Rightarrow> [] | Some v \<Rightarrow> v)) \<in> {''1'', ''true'', ''yes'', ''on''})"

definition model_source :: "(string \<times> string) list \<Rightarrow> string" where
  "model_source source =
     (let v = py_lower (env_str source ''AUTOML_TABPFN_MODEL_SOURCE'' ''auto'') in if v = [] then ''auto'' else v)"

definition public_v2_paths :: "(string \<times> string) list \<Rightarrow> (string \<times> string) list" where
  "public_v2_paths source =
     (let configured = env_str source ''TABPFN_MODEL_CACHE_DIR'' ''~/.cache/tabpfn'';
          cache = (if configured = [] then ''~/.cache/tabpfn'' else configured)
      in [(''BINARY_CLASSIFICATION'', cache @ ''/tabpfn-v2-classifier.ckpt''),
          (''REGRESSION'', cache @ ''/tabpfn-v2-regressor.ckpt'')])"

text \<open>Whether the model is accessible, and whether local paths were expected.\<close>

definition model_access_status :: "(string \<Rightarrow> bool) \<Rightarrow> (string \<times> string) list \<Rightarrow> string \<Rightarrow> bool \<times> bool" where
  "model_access_status is_file source model =
     (let classifier = env_str source ''AUTOML_TABPFN_CLASSIFIER_MODEL_PATH'' [];
          regressor = env_str source ''AUTOML_TABPFN_REGRESSOR_MODEL_PATH'' [];
          configured = env_str source ''AUTOML_TABPFN_MODEL_PATH'' []
      in if model = ''public-v2'' then (list_all (\<lambda>(task, p). is_file p) (public_v2_paths source), True)
         else if classifier \<noteq> [] \<or> regressor \<noteq> []
         then (list_all (\<lambda>p. p \<noteq> [] \<and> is_file p) [classifier, regressor], True)
         else if configured \<noteq> [] then (is_file configured, True)
         else (env_str source ''TABPFN_TOKEN'' [] \<noteq> [], False))"

text \<open>The path handed to the library, before \<open>expanduser\<close>; \<open>auto\<close> lets it choose.\<close>

definition model_path_for_task :: "(string \<times> string) list \<Rightarrow> string \<Rightarrow> string \<Rightarrow> exn + string" where
  "model_path_for_task source task model =
     (if model = ''public-v2''
      then (case map_of (public_v2_paths source) task of None \<Rightarrow> Inl (KeyError task) | Some p \<Rightarrow> Inr p)
      else let own = env_str source (if task = ''BINARY_CLASSIFICATION'' then ''AUTOML_TABPFN_CLASSIFIER_MODEL_PATH''
                        else ''AUTOML_TABPFN_REGRESSOR_MODEL_PATH'') [];
               configured = (if own = [] then env_str source ''AUTOML_TABPFN_MODEL_PATH'' [] else own)
           in Inr (if configured \<noteq> [] then configured else ''auto''))"

definition tabpfn_problem :: "bool \<Rightarrow> bool \<Rightarrow> string \<Rightarrow> bool \<Rightarrow> bool \<Rightarrow> string option" where
  "tabpfn_problem is_installed license_accepted model access local_paths_expected =
     (if \<not> is_installed then Some ''STANDARD_DEPENDENCY_NOT_INSTALLED''
      else if \<not> license_accepted then Some ''MODEL_LICENSE_NOT_ACCEPTED''
      else if model \<noteq> ''auto'' \<and> model \<noteq> ''public-v2'' then Some ''MODEL_SOURCE_INVALID''
      else if local_paths_expected \<and> \<not> access then Some ''MODEL_PATH_NOT_FOUND''
      else if \<not> access then Some ''MODEL_ACCESS_NOT_CONFIGURED''
      else None)"

definition tabpfn_descriptor ::
  "(string \<Rightarrow> bool) \<Rightarrow> (string \<times> string) list \<Rightarrow> string option \<Rightarrow> bool \<Rightarrow> exn + backend_descriptor" where
  "tabpfn_descriptor is_file source version importable =
     (let is_installed = (version \<noteq> None \<and> importable);
          license_accepted = enabled_flag (map_of source ''AUTOML_TABPFN_LICENSE_ACCEPTED'');
          model = model_source source;
          (access, local_paths_expected) = model_access_status is_file source model
      in checked_descriptor
       \<lparr>backend_id = ''tabpfn'', display_name = ''TabPFN local small-data backend'',
        engine_version = ''tabular-tabpfn.v1'', backend_version = version,
        available = (is_installed \<and> license_accepted \<and> access),
        capabilities = (capabilities_for both_tasks)
          \<lparr>supports_gpu := True,
           capability_limits := [(''max_cpu_rows'', 1000), (''max_gpu_rows'', 100000), (''max_features'', 2000)],
           runtime_requirements :=
             [''Operator acceptance of the selected TabPFN model-weight license'',
              ''public-v2 cache, TABPFN_TOKEN, or configured checkpoint paths'',
              ''Writable model cache; only data-free evaluation metadata is downloadable'',
              ''GPU recommended; CPU execution is limited to small datasets'',
              ''Wall-time deadline is cooperative between folds, not a hard fit interruption''],
           required_attributions := [''Built with PriorLabs-TabPFN'']\<rparr>,
        artifact_kind = ''TABPFN_EVALUATION_METADATA'', artifact_media_type = ''application/json'',
        artifact_serialization = ''json'', deterministic = False, installed = is_installed,
        optional_dependency = None,
        unavailable_reason = tabpfn_problem is_installed license_accepted model access local_paths_expected\<rparr>)"

section \<open>The registry\<close>

record registry =
  default_backend_id :: string
  registered :: "(string \<times> backend_descriptor) list"

definition normalize_backend_id :: "json \<Rightarrow> exn + string" where
  "normalize_backend_id v =
     (case v of
        JNull \<Rightarrow> Inr ''sklearn''
      | JStr s \<Rightarrow>
          if py_lower (py_strip s) = [] then Inl (BackendErr ''BACKEND_NOT_FOUND'' [(''backend_id'', JStr s)])
          else Inr (py_lower (py_strip s))
      | _ \<Rightarrow> Inl (BackendErr ''BACKEND_NOT_FOUND'' [(''backend_id'', v)]))"

definition new_registry :: "json \<Rightarrow> exn + registry" where
  "new_registry default_id =
     exn_bind (normalize_backend_id default_id) (\<lambda>i. Inr \<lparr>default_backend_id = i, registered = []\<rparr>)"

definition register :: "backend_descriptor \<Rightarrow> bool \<Rightarrow> (registry, unit) py" where
  "register descriptor replace =
     seq (lift (normalize_backend_id (JStr (backend_id descriptor)))) (\<lambda>i.
     seq (gets (\<lambda>r. has_key (registered r) i)) (\<lambda>known.
     seq (fail_if (known \<and> \<not> replace) (BackendErr ''BACKEND_REGISTRATION_CONFLICT'' [(''backend_id'', JStr i)])) (\<lambda>_.
       modify (registered_update (dput i descriptor)))))"

definition get_backend :: "registry \<Rightarrow> json \<Rightarrow> exn + backend_descriptor" where
  "get_backend r requested =
     exn_bind (normalize_backend_id (if requested = JNull then JStr (default_backend_id r) else requested)) (\<lambda>i.
       case map_of (registered r) i of
         Some d \<Rightarrow> Inr d
       | None \<Rightarrow> Inl (BackendErr ''BACKEND_NOT_FOUND''
                    [(''backend_id'', JStr i), (''known_backend_ids'', strs (sort (map fst (registered r))))]))"

definition require_available :: "registry \<Rightarrow> json \<Rightarrow> exn + backend_descriptor" where
  "require_available r requested =
     exn_bind (get_backend r requested) (\<lambda>d.
       if \<not> available d
       then Inl (BackendErr ''BACKEND_UNAVAILABLE''
              [(''backend_id'', JStr (backend_id d)), (''optional_dependency'', optional_str (optional_dependency d)),
               (''reason'', optional_str (unavailable_reason d))])
       else Inr d)"

text \<open>\<open>value.lower().strip() if value else None\<close>, then the two short names.\<close>

definition normalize_media_type :: "json \<Rightarrow> exn + string option" where
  "normalize_media_type v =
     (if \<not> py_truthy v then Inr None
      else case v of
        JStr s \<Rightarrow>
          (let m = py_strip (py_lower s)
           in Inr (Some (if m = ''csv'' then ''text/csv''
                         else if m = ''parquet'' then ''application/vnd.apache.parquet'' else m)))
      | _ \<Rightarrow> Inl (AttributeErr ''lower''))"

definition py_upper :: "string \<Rightarrow> string" where
  "py_upper s = map (\<lambda>c. if is_lower c then char_of (code_of c - 32) else c) s"

definition normalize_task_type :: "py_env \<Rightarrow> json \<Rightarrow> string option" where
  "normalize_task_type env v = (if v = JNull then None else Some (py_strip (py_upper (py_str env v))))"

definition supports :: "string list \<Rightarrow> string option \<Rightarrow> bool" where
  "supports xs v = (case v of None \<Rightarrow> True | Some s \<Rightarrow> s = [] \<or> s \<in> set xs)"

definition validate_request ::
  "py_env \<Rightarrow> registry \<Rightarrow> json \<Rightarrow> json \<Rightarrow> json \<Rightarrow> exn + backend_descriptor" where
  "validate_request env r requested task_type media_type =
     exn_bind (require_available r requested) (\<lambda>d.
     exn_bind (normalize_media_type media_type) (\<lambda>media.
     let task = normalize_task_type env task_type
     in if \<not> supports (media_types (capabilities d)) media
        then Inl (BackendErr ''BACKEND_MEDIA_TYPE_UNSUPPORTED''
               [(''backend_id'', JStr (backend_id d)), (''media_type'', optional_str media),
                (''supported_media_types'', strs (media_types (capabilities d)))])
        else if \<not> supports (task_types (capabilities d)) task
        then Inl (BackendErr ''BACKEND_TASK_UNSUPPORTED''
               [(''backend_id'', JStr (backend_id d)), (''task_type'', optional_str task),
                (''supported_task_types'', strs (task_types (capabilities d)))])
        else Inr d))"

definition descriptors :: "registry \<Rightarrow> backend_descriptor list" where
  "descriptors r = map snd (sort_key fst (registered r))"

definition backend_status :: "registry \<Rightarrow> jdict list" where
  "backend_status r = map descriptor_dict (descriptors r)"

text \<open>The service's registry: the built-in adapter and the two others, whose modules are part of it.\<close>

definition build_default_registry :: "backend_descriptor list \<Rightarrow> exn + registry" where
  "build_default_registry adapters =
     exn_bind (new_registry (JStr ''sklearn'')) (\<lambda>r.
       case each (\<lambda>d. register d False) adapters r of (Inl e, _) \<Rightarrow> Inl e | (Inr _, r') \<Rightarrow> Inr r')"

section \<open>The backend of a run\<close>

text \<open>\<open>_require_requested_backend\<close> of workflow.py: the failures become answers of the API.\<close>

definition backend_problem :: "exn \<Rightarrow> exn" where
  "backend_problem e =
     (case e of
        BackendErr code context \<Rightarrow>
          if code = ''BACKEND_NOT_FOUND''
          then APIProblem 422 ''backend_not_found'' ''AutoML backend not found'' context
          else if code = ''BACKEND_UNAVAILABLE''
          then APIProblem 409 ''backend_unavailable'' ''AutoML backend unavailable'' context
          else if code = ''BACKEND_TASK_UNSUPPORTED'' \<or> code = ''BACKEND_MEDIA_TYPE_UNSUPPORTED''
          then APIProblem 422 (py_lower code) ''AutoML backend capability unsupported'' context
          else e
      | _ \<Rightarrow> e)"

definition object_or_empty :: "json \<Rightarrow> exn + jdict" where
  "object_or_empty v =
     (case py_or v (JObj []) of JObj d \<Rightarrow> Inr d | _ \<Rightarrow> Inl (AttributeErr ''get''))"

definition require_requested_backend :: "py_env \<Rightarrow> registry \<Rightarrow> jdict \<Rightarrow> json \<Rightarrow> exn + jdict" where
  "require_requested_backend env r request media_type =
     exn_bind (object_or_empty (dget request ''objective'')) (\<lambda>objective.
       case validate_request env r (py_or (dget objective ''backend_id'') (JStr (default_backend_id r)))
              (dget objective ''task_type'') media_type of
         Inl e \<Rightarrow> Inl (backend_problem e)
       | Inr d \<Rightarrow> Inr (descriptor_dict d))"

section \<open>Correctness\<close>

definition tabpfn_installed :: "string option \<Rightarrow> bool \<Rightarrow> bool" where
  "tabpfn_installed version importable \<longleftrightarrow> version \<noteq> None \<and> importable"

definition tabpfn_licensed :: "(string \<times> string) list \<Rightarrow> bool" where
  "tabpfn_licensed source = enabled_flag (map_of source ''AUTOML_TABPFN_LICENSE_ACCEPTED'')"

definition tabpfn_accessible :: "(string \<Rightarrow> bool) \<Rightarrow> (string \<times> string) list \<Rightarrow> bool" where
  "tabpfn_accessible is_file source = fst (model_access_status is_file source (model_source source))"

definition tabpfn_ready ::
  "(string \<Rightarrow> bool) \<Rightarrow> (string \<times> string) list \<Rightarrow> string option \<Rightarrow> bool \<Rightarrow> bool" where
  "tabpfn_ready is_file source version importable \<longleftrightarrow>
     tabpfn_installed version importable \<and> tabpfn_licensed source \<and> tabpfn_accessible is_file source"

text \<open>
  The descriptor of the TabPFN adapter is defined unless the environment names an unknown
  model source while everything else is ready: then reading it raises. Where it is defined, it
  says \<open>available\<close> exactly if the library is installed and importable, the licence accepted and the
  model accessible, and otherwise names the first requirement that is missing.
\<close>

theorem tabpfn_descriptor_defined:
  "case tabpfn_descriptor is_file source version importable of
      Inr d \<Rightarrow>
        \<not> (tabpfn_ready is_file source version importable \<and> model_source source \<notin> {''auto'', ''public-v2''}) \<and>
        backend_id d = ''tabpfn'' \<and>
        (available d \<longleftrightarrow> tabpfn_ready is_file source version importable) \<and>
        (unavailable_reason d = None \<longleftrightarrow> available d) \<and>
        (unavailable_reason d = Some ''STANDARD_DEPENDENCY_NOT_INSTALLED'' \<longleftrightarrow>
          \<not> tabpfn_installed version importable) \<and>
        (unavailable_reason d = Some ''MODEL_LICENSE_NOT_ACCEPTED'' \<longleftrightarrow>
          tabpfn_installed version importable \<and> \<not> tabpfn_licensed source)
    | Inl e \<Rightarrow>
        tabpfn_ready is_file source version importable \<and> model_source source \<notin> {''auto'', ''public-v2''} \<and>
        e = ValueError ''an available backend cannot have unavailable_reason''"
proof -
  have name: "py_lower (py_strip ''tabpfn'') = ''tabpfn''" by code_simp
  obtain access local_paths where "model_access_status is_file source (model_source source) = (access, local_paths)"
    by force
  then show ?thesis
    unfolding tabpfn_descriptor_def Let_def
    by (simp add: checked_descriptor_def name tabpfn_problem_def tabpfn_ready_def tabpfn_installed_def
        tabpfn_licensed_def tabpfn_accessible_def)
qed

text \<open>
  A run gets a backend exactly if one with its identifier is registered, ready, and lists the
  media type and the task among its capabilities; the caller sees that backend's descriptor.
  Otherwise the request is answered by a problem: 409 if the backend is there but not ready, 422
  if it is unknown or cannot serve the request.
\<close>

theorem backend_selection_exact:
  assumes objective: "object_or_empty (dget request ''objective'') = Inr objective"
    and requested: "normalize_backend_id (py_or (dget objective ''backend_id'') (JStr (default_backend_id r))) = Inr i"
    and media: "normalize_media_type media_type = Inr media"
    and default: "default_backend_id r \<noteq> []"
  shows "(case require_requested_backend env r request media_type of
      Inr b \<Rightarrow> \<exists>d. map_of (registered r) i = Some d \<and> available d \<and> supports (media_types (capabilities d)) media \<and>
        supports (task_types (capabilities d)) (normalize_task_type env (dget objective ''task_type'')) \<and>
        b = descriptor_dict d
    | Inl e \<Rightarrow> (\<exists>d context. map_of (registered r) i = Some d \<and> \<not> available d \<and>
          e = APIProblem 409 ''backend_unavailable'' ''AutoML backend unavailable'' context) \<or>
        (map_of (registered r) i = None \<and>
          (\<exists>context. e = APIProblem 422 ''backend_not_found'' ''AutoML backend not found'' context)) \<or>
        (\<exists>d code context. map_of (registered r) i = Some d \<and> available d \<and>
          \<not> (supports (media_types (capabilities d)) media \<and>
             supports (task_types (capabilities d)) (normalize_task_type env (dget objective ''task_type''))) \<and>
          e = APIProblem 422 code ''AutoML backend capability unsupported'' context))"
proof -
  let ?id = "py_or (dget objective ''backend_id'') (JStr (default_backend_id r))"
  have "?id \<noteq> JNull" using default by (auto simp: py_or_def)
  then have found: "get_backend r ?id =
      (case map_of (registered r) i of
         Some d \<Rightarrow> Inr d
       | None \<Rightarrow> Inl (BackendErr ''BACKEND_NOT_FOUND''
                    [(''backend_id'', JStr i), (''known_backend_ids'', strs (sort (map fst (registered r))))]))"
    using requested by (simp add: get_backend_def)
  show ?thesis
    unfolding require_requested_backend_def objective
    by (simp add: validate_request_def require_available_def found media Let_def backend_problem_def
        split: option.split)
qed

end
