(* ===== verification/Storage.thy ===== *)
theory Storage
  imports Security
begin

text \<open>
  The blob store (storage.py): uploads in parts, published dataset sources and artifacts, and
  signed download tickets; and the synthetic store that keeps no bytes.

  The state of \<open>LocalBlobStore\<close> is its directory: an association list from paths below the root,
  as lists of components, to contents. Writing goes to a temporary name and is completed by
  \<open>os.replace\<close>, or the temporary file is removed, so each operation has written its file or not;
  directories are implicit. SHA-256 is the argument \<open>digest\<close> (hexadecimal), and the random
  ticket identifier an argument. There are no symbolic links below the root.
\<close>

section \<open>Paths\<close>

type_synonym path = "string list"

type_synonym files = "(path \<times> string) list"

record blob_info =
  bi_key :: string
  bi_size_bytes :: int
  bi_sha256 :: string
  bi_etag :: string

record local_config =
  lc_root :: path
  lc_ticket_secret :: string
  lc_max_upload_part_bytes :: "int option"

definition safe_component :: "string \<Rightarrow> string \<Rightarrow> exn + string" where
  "safe_component value field =
     (if value = [] \<or> value = ''.'' \<or> value = ''..'' then Inl (ValueError (field @ '' must not be empty''))
      else if \<not> list_all base64url_char value
      then Inl (ValueError (field @ '' contains unsupported characters''))
      else Inr value)"

definition etag_of :: "string \<Rightarrow> string" where
  "etag_of sha256 = [char_of (34 :: nat)] @ sha256 @ [char_of (34 :: nat)]"

definition upload_url :: "string \<Rightarrow> string \<Rightarrow> string \<Rightarrow> int \<Rightarrow> string" where
  "upload_url public_base_url dataset_version_id upload_id part_number =
     py_rstrip (CHR ''/'') public_base_url @ ''/v1/dataset-versions/'' @ dataset_version_id @ ''/upload-parts/''
       @ int_str part_number @ ''?upload_id='' @ upload_id"

definition upload_part_path :: "string \<Rightarrow> string \<Rightarrow> string \<Rightarrow> int \<Rightarrow> exn + path" where
  "upload_part_path tenant_id dataset_version_id upload_id part_number =
     exn_bind (safe_component tenant_id ''tenant_id'') (\<lambda>tenant.
     exn_bind (safe_component dataset_version_id ''dataset_version_id'') (\<lambda>version.
     exn_bind (safe_component upload_id ''upload_id'') (\<lambda>upload.
     if part_number < 1 then Inl (ValueError ''part_number must be positive'')
     else Inr [''uploads'', tenant, version, upload, ''part-'' @ pad_str 5 (nat part_number)])))"

text \<open>\<open>path.resolve().relative_to(root).as_posix()\<close>.\<close>

fun join_path :: "path \<Rightarrow> string" where
  "join_path [] = []"
| "join_path [c] = c"
| "join_path (c # cs) = c @ ''/'' @ join_path cs"

definition hash_file :: "(string \<Rightarrow> string) \<Rightarrow> string \<Rightarrow> blob_info" where
  "hash_file digest content =
     \<lparr>bi_key = [], bi_size_bytes = int (length content), bi_sha256 = digest content,
      bi_etag = etag_of (digest content)\<rparr>"

definition info_of :: "(string \<Rightarrow> string) \<Rightarrow> path \<Rightarrow> string \<Rightarrow> blob_info" where
  "info_of digest destination content = (hash_file digest content)\<lparr>bi_key := join_path destination\<rparr>"

definition write_file :: "path \<Rightarrow> string \<Rightarrow> (files, unit) py" where
  "write_file p content = modify (AList.update p content)"

section \<open>Uploads\<close>

text \<open>What the request body yields: bytes, something else, or an exception.\<close>

datatype chunk = Bytes string | NotBytes | Broken exn

fun read_chunks :: "int option \<Rightarrow> string \<Rightarrow> chunk list \<Rightarrow> exn + string" where
  "read_chunks maximum received [] = Inr received"
| "read_chunks maximum received (Broken e # cs) = Inl e"
| "read_chunks maximum received (NotBytes # cs) = Inl TypeError"
| "read_chunks maximum received (Bytes b # cs) =
     (if b = [] then read_chunks maximum received cs
      else if (case maximum of None \<Rightarrow> False | Some n \<Rightarrow> int (length received + length b) > n)
      then Inl (BlobSizeLimit ''upload part exceeds the configured service limit'')
      else read_chunks maximum (received @ b) cs)"

definition put_upload_part ::
  "local_config \<Rightarrow> (string \<Rightarrow> string) \<Rightarrow> string \<Rightarrow> string \<Rightarrow> string \<Rightarrow> int \<Rightarrow> chunk list
     \<Rightarrow> (files, blob_info) py" where
  "put_upload_part cfg digest tenant_id dataset_version_id upload_id part_number chunks =
     seq (lift (upload_part_path tenant_id dataset_version_id upload_id part_number)) (\<lambda>destination.
     seq (lift (read_chunks (lc_max_upload_part_bytes cfg) [] chunks)) (\<lambda>content.
     seq (write_file destination content) (\<lambda>_. ret (info_of digest destination content))))"

definition item_int :: "jdict \<Rightarrow> string \<Rightarrow> exn + int" where
  "item_int d k = (case map_of d k of None \<Rightarrow> Inl (KeyError k) | Some v \<Rightarrow> py_int v)"

definition numbered_parts :: "jdict list \<Rightarrow> exn + (int \<times> jdict) list" where
  "numbered_parts parts =
     exn_bind (traverse (\<lambda>p. exn_bind (item_int p ''part_number'') (\<lambda>n. Inr (n, p))) parts) (\<lambda>ps.
       Inr (sort_key fst ps))"

text \<open>The loop over the supplied parts; the result is what was written to the temporary file.\<close>

fun assemble ::
  "(string \<Rightarrow> string) \<Rightarrow> string \<Rightarrow> string \<Rightarrow> string \<Rightarrow> files \<Rightarrow> (int \<times> jdict) list \<Rightarrow> exn + string" where
  "assemble digest tenant_id dataset_version_id upload_id fs [] = Inr []"
| "assemble digest tenant_id dataset_version_id upload_id fs ((n, p) # ps) =
     exn_bind (upload_part_path tenant_id dataset_version_id upload_id n) (\<lambda>source.
     case map_of fs source of
       None \<Rightarrow> Inl (BlobNotFound (''upload part '' @ int_str n @ '' is missing''))
     | Some content \<Rightarrow>
         if dget p ''etag'' \<noteq> JStr (bi_etag (hash_file digest content))
         then Inl (BlobIntegrity (''upload part '' @ int_str n @ '' ETag does not match''))
         else exn_bind (assemble digest tenant_id dataset_version_id upload_id fs ps) (\<lambda>rest.
                Inr (content @ rest)))"

definition publish ::
  "(string \<Rightarrow> string) \<Rightarrow> path \<Rightarrow> string \<Rightarrow> int \<Rightarrow> string \<Rightarrow> (files, blob_info) py" where
  "publish digest destination content expected_size expected_sha256 =
     seq (fail_if (int (length content) \<noteq> expected_size)
            (BlobIntegrity (''uploaded size is '' @ int_str (int (length content)) @ '' bytes, expected ''
               @ int_str expected_size @ '' bytes''))) (\<lambda>_.
     seq (fail_if (list_ex (\<lambda>c. 128 \<le> code_of c) expected_sha256) TypeError) (\<lambda>_.
     seq (fail_if (digest content \<noteq> expected_sha256)
            (BlobIntegrity ''uploaded SHA-256 does not match the declaration'')) (\<lambda>_.
     seq (write_file destination content) (\<lambda>_.
       ret \<lparr>bi_key = join_path destination, bi_size_bytes = int (length content),
            bi_sha256 = expected_sha256, bi_etag = etag_of expected_sha256\<rparr>))))"

definition finalize_upload ::
  "(string \<Rightarrow> string) \<Rightarrow> string \<Rightarrow> string \<Rightarrow> string \<Rightarrow> jdict list \<Rightarrow> int \<Rightarrow> string \<Rightarrow> (files, blob_info) py" where
  "finalize_upload digest tenant_id dataset_version_id upload_id parts expected_size expected_sha256 =
     seq (lift (numbered_parts parts)) (\<lambda>supplied.
     seq (fail_if (supplied = [] \<or> map fst supplied \<noteq> [1..int (length supplied)])
            (BlobIntegrity ''upload parts must be contiguous and start at one'')) (\<lambda>_.
     seq (lift (safe_component tenant_id ''tenant_id'')) (\<lambda>tenant.
     seq (lift (safe_component dataset_version_id ''dataset_version_id'')) (\<lambda>version.
     let destination = [''datasets'', tenant, version, ''source''] in
     seq (gets (\<lambda>fs. map_of fs destination)) (\<lambda>existing.
       case existing of
         Some content \<Rightarrow>
           if int (length content) = expected_size \<and> digest content = expected_sha256
           then ret (info_of digest destination content)
           else raise (BlobIntegrity ''an immutable dataset object already exists with other bytes'')
       | None \<Rightarrow>
           seq (gets (\<lambda>fs. assemble digest tenant_id dataset_version_id upload_id fs supplied)) (\<lambda>assembled.
           seq (lift assembled) (\<lambda>content.
             publish digest destination content expected_size expected_sha256)))))))"

section \<open>Artifacts\<close>

definition put_artifact ::
  "(string \<Rightarrow> string) \<Rightarrow> string \<Rightarrow> string \<Rightarrow> string \<Rightarrow> string \<Rightarrow> (files, blob_info) py" where
  "put_artifact digest tenant_id run_id artifact_id content =
     seq (lift (safe_component tenant_id ''tenant_id'')) (\<lambda>tenant.
     seq (lift (safe_component run_id ''run_id'')) (\<lambda>run.
     seq (lift (safe_component artifact_id ''artifact_id'')) (\<lambda>artifact.
     let destination = [''artifacts'', tenant, run, artifact] in
     seq (gets (\<lambda>fs. map_of fs destination)) (\<lambda>existing.
       case existing of
         Some current \<Rightarrow>
           if digest current \<noteq> digest content
           then raise (BlobIntegrity ''an immutable artifact already exists with other bytes'')
           else ret (info_of digest destination current)
       | None \<Rightarrow>
           seq (write_file destination content) (\<lambda>_. ret (info_of digest destination content))))))"

section \<open>Keys\<close>

text \<open>
  \<open>(root / key).resolve()\<close> without symbolic links: an absolute key replaces the root, empty
  components and dots are skipped, and two dots go up, at the top to the top itself.
\<close>

fun resolve :: "path \<Rightarrow> string list \<Rightarrow> path" where
  "resolve p [] = p"
| "resolve p (c # cs) =
     resolve (if c = [] \<or> c = ''.'' then p else if c = ''..'' then butlast p else p @ [c]) cs"

definition resolve_key :: "path \<Rightarrow> string \<Rightarrow> path" where
  "resolve_key start key =
     resolve (case key of c # _ \<Rightarrow> (if c = CHR ''/'' then [] else start) | [] \<Rightarrow> start) (py_split (CHR ''/'') key)"

text \<open>The result is the path below the root.\<close>

definition path_for_key :: "local_config \<Rightarrow> string \<Rightarrow> (files, path) py" where
  "path_for_key cfg key =
     (let candidate = resolve_key (lc_root cfg) key; below = drop (length (lc_root cfg)) candidate
      in if take (length (lc_root cfg)) candidate \<noteq> lc_root cfg
         then raise (BlobNotFound ''blob key escapes the configured root'')
         else seq (gets (\<lambda>fs. has_key fs below)) (\<lambda>is_file.
                if \<not> is_file then raise (BlobNotFound ''blob does not exist'') else ret below))"

definition delete_key :: "local_config \<Rightarrow> string \<Rightarrow> (files, bool) py" where
  "delete_key cfg key fs =
     (case path_for_key cfg key fs of
        (Inl (BlobNotFound _), fs') \<Rightarrow> (Inr False, fs')
      | (Inl e, fs') \<Rightarrow> (Inl e, fs')
      | (Inr p, fs') \<Rightarrow> (Inr True, dpop p fs'))"

definition remove_tree :: "path \<Rightarrow> files \<Rightarrow> files" where
  "remove_tree directory fs = filter (\<lambda>(p, _). take (length directory) p \<noteq> directory) fs"

definition delete_dataset_version :: "string \<Rightarrow> string \<Rightarrow> (files, unit) py" where
  "delete_dataset_version tenant_id dataset_version_id =
     seq (lift (safe_component tenant_id ''tenant_id'')) (\<lambda>tenant.
     seq (lift (safe_component dataset_version_id ''dataset_version_id'')) (\<lambda>version.
       modify (\<lambda>fs. remove_tree [''datasets'', tenant, version] (remove_tree [''uploads'', tenant, version] fs))))"

section \<open>Download tickets\<close>

definition ticket_payload :: "string \<Rightarrow> string \<Rightarrow> string \<Rightarrow> string \<Rightarrow> int \<Rightarrow> jdict" where
  "ticket_payload ticket_id artifact_id tenant_id etag expires_at =
     [(''v'', JInt 1), (''ticket_id'', JStr ticket_id), (''artifact_id'', JStr artifact_id),
      (''tenant_id'', JStr tenant_id), (''etag'', JStr etag), (''exp'', JInt expires_at)]"

definition create_download_token ::
  "crypto \<Rightarrow> (json \<Rightarrow> string) \<Rightarrow> local_config \<Rightarrow> string \<Rightarrow> string \<Rightarrow> string \<Rightarrow> string \<Rightarrow> int \<Rightarrow> string" where
  "create_download_token cr dumps cfg ticket_id artifact_id tenant_id etag expires_at =
     (let payload = dumps (canon (JObj (ticket_payload ticket_id artifact_id tenant_id etag expires_at)))
      in py_rstrip (CHR ''='') (b64_encode (payload @ hmac_sha256 cr (lc_ticket_secret cfg) payload)))"

text \<open>Everything inside the \<open>try\<close> is one kind of failure; \<open>isinstance(True, int)\<close> holds.\<close>

definition invalid_ticket :: exn where
  "invalid_ticket = InvalidTicket ''download ticket is invalid''"

definition ticket_expiry :: "jdict \<Rightarrow> int option" where
  "ticket_expiry value =
     (case dget value ''exp'' of JInt n \<Rightarrow> Some n | JBool b \<Rightarrow> Some (if b then 1 else 0) | _ \<Rightarrow> None)"

definition verify_download_token :: "crypto \<Rightarrow> local_config \<Rightarrow> int \<Rightarrow> string \<Rightarrow> exn + jdict" where
  "verify_download_token cr cfg now token =
     (if list_ex (\<lambda>c. 128 \<le> code_of c) token then Inl invalid_ticket
      else case b64_decode False (b64_pad token) of
             None \<Rightarrow> Inl invalid_ticket
           | Some combined \<Rightarrow>
               if length combined \<le> 32 then Inl invalid_ticket
               else let payload = take (length combined - 32) combined;
                        supplied = drop (length combined - 32) combined
                    in if supplied \<noteq> hmac_sha256 cr (lc_ticket_secret cfg) payload then Inl invalid_ticket
                       else case loads cr payload of
                              Some (JObj value) \<Rightarrow>
                                if \<not> py_eq (dget value ''v'') (JInt 1) then Inl invalid_ticket
                                else (case ticket_expiry value of
                                        None \<Rightarrow> Inl invalid_ticket
                                      | Some t \<Rightarrow>
                                          if t < now then Inl (ExpiredTicket ''download ticket has expired'')
                                          else Inr value)
                            | _ \<Rightarrow> Inl invalid_ticket)"

section \<open>The synthetic store\<close>

definition synthetic_upload_url :: "string \<Rightarrow> string \<Rightarrow> string \<Rightarrow> int \<Rightarrow> string" where
  "synthetic_upload_url public_base_url dataset_version_id upload_id part_number =
     ''https://uploads.invalid/'' @ dataset_version_id @ ''/'' @ upload_id @ ''/'' @ int_str part_number"

definition synthetic_put_upload_part :: "exn + blob_info" where
  "synthetic_put_upload_part = Inl (BlobErr ''the synthetic blob store does not accept bytes'')"

definition synthetic_finalize_upload :: "string \<Rightarrow> int \<Rightarrow> string \<Rightarrow> exn + blob_info" where
  "synthetic_finalize_upload dataset_version_id expected_size expected_sha256 =
     Inr \<lparr>bi_key = ''synthetic/'' @ dataset_version_id, bi_size_bytes = expected_size,
          bi_sha256 = expected_sha256, bi_etag = etag_of expected_sha256\<rparr>"

definition synthetic_put_artifact ::
  "(string \<Rightarrow> string) \<Rightarrow> string \<Rightarrow> string \<Rightarrow> string \<Rightarrow> string \<Rightarrow> exn + blob_info" where
  "synthetic_put_artifact digest tenant_id run_id artifact_id content =
     Inr \<lparr>bi_key = ''synthetic/'' @ tenant_id @ ''/'' @ run_id @ ''/'' @ artifact_id,
          bi_size_bytes = int (length content), bi_sha256 = digest content,
          bi_etag = etag_of (digest content)\<rparr>"

definition synthetic_path_for_key :: "py_env \<Rightarrow> string \<Rightarrow> exn + path" where
  "synthetic_path_for_key env key =
     Inl (BlobNotFound (''synthetic blob '' @ repr_of env (JStr key) @ '' has no bytes''))"

definition synthetic_verify_download_token :: "py_env \<Rightarrow> string \<Rightarrow> exn + jdict" where
  "synthetic_verify_download_token env token =
     Inl (InvalidTicket (''synthetic ticket '' @ repr_of env (JStr token) @ '' cannot be downloaded''))"

definition synthetic_download_token :: "string \<Rightarrow> string" where
  "synthetic_download_token artifact_id = ''synthetic-'' @ artifact_id"

end
