(* ===== verification/Store_Events.thy ===== *)
theory Store_Events
  imports Store_Ops
begin

text \<open>
  The event log of a run and the webhook outbox fed by it (store.py): \<open>append_event\<close>,
  \<open>mutate_run_with_event\<close>, \<open>finalize_run_with_result\<close> and \<open>get_events\<close>. The run that
  \<open>_append_event_locked\<close> holds is the stored dictionary itself, so its \<open>snapshot_seq\<close> is
  written into the table. Waking the waiters (asyncio conditions) is not modelled.
\<close>

section \<open>Appending one event\<close>

text \<open>
  The last part of \<open>_append_event_locked\<close>: the next sequence number, the default revision,
  the log, the index by identifier, and the run's \<open>snapshot_seq\<close>.
\<close>

definition store_event :: "string \<Rightarrow> jdict \<Rightarrow> string \<Rightarrow> jdict \<Rightarrow> (store, jdict \<times> bool) py" where
  "store_event run_id run event_id event =
     seq (need_sub st_events run_id) (\<lambda>_.
     seq (gets (\<lambda>s. case map_of (st_events s) run_id of None \<Rightarrow> [] | Some es \<Rightarrow> es)) (\<lambda>log.
       let next_seq = JInt (int (length log) + 1);
           stored = dset_default ''run_revision'' (dget_or run ''run_revision'' (JInt 1))
                      (dput ''seq'' next_seq event)
       in seq (modify (st_events_update (dput run_id (log @ [stored])))) (\<lambda>_.
          seq (need_sub st_event_ids run_id) (\<lambda>_.
          seq (modify (in_sub st_event_ids_update run_id (dput event_id stored))) (\<lambda>_.
          seq (put_run run_id (dput ''snapshot_seq'' next_seq run)) (\<lambda>_.
            ret (stored, True)))))))"

text \<open>
  A known identifier: the supplied event must equal the stored one up to \<open>seq\<close> (and
  \<open>run_revision\<close> where it names none), and nothing is appended.
\<close>

definition replay_event :: "string \<Rightarrow> jdict \<Rightarrow> jdict \<Rightarrow> (store, jdict \<times> bool) py" where
  "replay_event event_id event existing =
     (case map_of existing ''seq'' of
        None \<Rightarrow> raise (KeyError ''seq'')
      | Some n \<Rightarrow>
          let comparable = dset_default ''run_revision'' (dget existing ''run_revision'')
                             (dput ''seq'' n event)
          in if \<not> py_eq (JObj comparable) (JObj existing)
             then raise (ResourceAlreadyExists ''event'' event_id)
             else ret (existing, False))"

definition append_event_locked :: "string \<Rightarrow> jdict \<Rightarrow> (store, jdict \<times> bool) py" where
  "append_event_locked run_id value =
     seq (current_run run_id) (\<lambda>run.
     let supplied = dget value ''run_id''; event = dput ''run_id'' (JStr run_id) value
     in seq (fail_if (supplied \<noteq> JNull \<and> \<not> py_eq supplied (JStr run_id))
               (ValueError ''event.run_id does not match its parent run'')) (\<lambda>_.
        case dget event ''event_id'' of
          JNull \<Rightarrow>
            seq (new_id_of_kind ''event'') (\<lambda>event_id.
              store_event run_id run event_id (dput ''event_id'' (JStr event_id) event))
        | JStr event_id \<Rightarrow>
            if event_id = [] then raise (ValueError ''event.event_id must be a non-empty string'')
            else seq (need_sub st_event_ids run_id) (\<lambda>_.
                 seq (gets (\<lambda>s. map_of (sub st_event_ids run_id s) event_id)) (\<lambda>existing.
                   case existing of
                     Some ex \<Rightarrow> replay_event event_id event ex
                   | None \<Rightarrow> store_event run_id run event_id event))
        | _ \<Rightarrow> raise (ValueError ''event.event_id must be a non-empty string'')))"

section \<open>The webhook outbox\<close>

definition pending_delivery :: "json \<Rightarrow> string \<Rightarrow> jdict \<Rightarrow> jdict" where
  "pending_delivery tenant_id run_id event =
     [(''tenant_id'', tenant_id),
      (''event_id'', dget event ''event_id''),
      (''event_type'', dget event ''type''),
      (''run_id'', JStr run_id),
      (''status'', JStr ''PENDING''),
      (''attempt_count'', JInt 0),
      (''first_attempt_at'', JNull),
      (''next_attempt_at'', dget event ''occurred_at''),
      (''last_response_status'', JNull),
      (''last_problem'', JNull),
      (''created_at'', dget event ''occurred_at''),
      (''delivered_at'', JNull),
      (''exhausted_at'', JNull),
      (''redeliver_until'', JNull)]"

text \<open>The filters of the loop body, in its order; a \<open>continue\<close> is \<open>ret ()\<close>.\<close>

definition subscribed :: "jdict \<Rightarrow> json \<Rightarrow> exn + bool" where
  "subscribed endpoint event_type =
     (case py_set (py_or (dget endpoint ''event_types'') (JArr [])) of
        Inl e \<Rightarrow> Inl e
      | Inr event_types \<Rightarrow>
          if list_ex (\<lambda>x. py_eq x (JStr ''*'')) event_types then Inr True
          else in_set event_type event_types)"

definition enqueue :: "string \<Rightarrow> json \<Rightarrow> string \<Rightarrow> jdict \<Rightarrow> (store, unit) py" where
  "enqueue endpoint_id tenant_id run_id event =
     seq (ensure_sub st_webhook_deliveries_update endpoint_id) (\<lambda>_.
     seq (gets (sub st_webhook_deliveries endpoint_id)) (\<lambda>deliveries.
       if list_ex (\<lambda>p. py_eq (dget (snd p) ''event_id'') (dget event ''event_id'')) deliveries
       then ret ()
       else seq (insert_delivery endpoint_id (pending_delivery tenant_id run_id event)) (\<lambda>_. ret ())))"

definition deliver_to :: "py_env \<Rightarrow> json \<Rightarrow> string \<Rightarrow> jdict \<Rightarrow> json \<Rightarrow> (store, unit) py" where
  "deliver_to env tenant_id run_id event endpoint_ref =
     seq (gets (\<lambda>s. map_of (st_webhook_endpoints s) (py_str env endpoint_ref))) (\<lambda>found.
       case found of
         None \<Rightarrow> ret ()
       | Some endpoint \<Rightarrow>
           if \<not> py_eq (dget endpoint ''tenant_id'') tenant_id
              \<or> py_eq (dget endpoint ''status'') (JStr ''DISABLED'')
           then ret ()
           else seq (lift (subscribed endpoint (dget event ''type''))) (\<lambda>wanted.
             if \<not> wanted then ret ()
             else case map_of endpoint ''webhook_endpoint_id'' of
               None \<Rightarrow> raise (KeyError ''webhook_endpoint_id'')
             | Some own_id \<Rightarrow> enqueue (py_str env own_id) tenant_id run_id event))"

definition append_webhook_deliveries_locked :: "py_env \<Rightarrow> jdict \<Rightarrow> (store, unit) py" where
  "append_webhook_deliveries_locked env event =
     (let run_id = py_str env (dget event ''run_id'')
      in seq (gets (\<lambda>s. map_of (st_runs s) run_id)) (\<lambda>found.
         case found of
           None \<Rightarrow> raise (KeyError run_id)
         | Some run \<Rightarrow>
             seq (lift (py_set (py_or (dget run ''webhook_endpoint_ids'') (JArr [])))) (\<lambda>selected.
               each (deliver_to env (dget run ''tenant_id'') run_id event)
                 (set_iter env selected))))"

text \<open>\<open>if created: self._append_webhook_deliveries_locked(event)\<close>, shared by the callers.\<close>

definition append_with_outbox :: "py_env \<Rightarrow> string \<Rightarrow> jdict \<Rightarrow> (store, jdict) py" where
  "append_with_outbox env run_id value =
     seq (append_event_locked run_id value) (\<lambda>r.
       if snd r
       then seq (append_webhook_deliveries_locked env (fst r)) (\<lambda>_. ret (fst r))
       else ret (fst r))"

section \<open>The public operations\<close>

definition append_event :: "py_env \<Rightarrow> string \<Rightarrow> jdict \<Rightarrow> (store, jdict) py" where
  "append_event env run_id value = append_with_outbox env run_id value"

text \<open>The event of a mutation carries the revision that the run has after it.\<close>

definition with_revision :: "jdict \<Rightarrow> jdict \<Rightarrow> exn + jdict" where
  "with_revision run event =
     (case map_of run ''run_revision'' of
        None \<Rightarrow> Inl (KeyError ''run_revision'')
      | Some r \<Rightarrow> Inr (dput ''run_revision'' r event))"

definition mutate_run_with_event ::
  "py_env \<Rightarrow> string \<Rightarrow> jdict \<Rightarrow> jdict \<Rightarrow> int option \<Rightarrow> bool \<Rightarrow> (store, jdict \<times> jdict) py" where
  "mutate_run_with_event env run_id updates event expected_revision bump_revision =
     seq (current_run run_id) (\<lambda>current.
     seq (check_revision current expected_revision) (\<lambda>revision.
     let item = bumped bump_revision revision
                  (dupdate current (protect_run (dpop ''run_id'' updates)))
     in seq (put_run run_id item) (\<lambda>_.
        seq (lift (with_revision item event)) (\<lambda>event_value.
        seq (append_with_outbox env run_id event_value) (\<lambda>stored_event.
        seq (current_run run_id) (\<lambda>stored_run.
          ret (stored_run, stored_event)))))))"

definition finalize_run_with_result ::
  "py_env \<Rightarrow> string \<Rightarrow> jdict \<Rightarrow> jdict \<Rightarrow> jdict list \<Rightarrow> int option
     \<Rightarrow> (store, jdict \<times> jdict \<times> jdict list) py" where
  "finalize_run_with_result env run_id result run_updates events expected_revision =
     seq (current_run run_id) (\<lambda>current.
     seq (check_revision current expected_revision) (\<lambda>revision.
     seq (prepare_result run_id result) (\<lambda>stored_result.
     seq (store_result run_id stored_result) (\<lambda>_.
     seq (lift (patch_without_id ''run'' ''run_id'' run_id run_updates)) (\<lambda>patch.
     let item = bumped True revision (dupdate current (protect_run patch))
     in seq (put_run run_id item) (\<lambda>_.
        seq (collect (\<lambda>value.
               seq (lift (with_revision item value)) (\<lambda>event_value.
                 append_with_outbox env run_id event_value)) events) (\<lambda>stored_events.
        seq (current_run run_id) (\<lambda>stored_run.
          ret (stored_run, stored_result, stored_events)))))))))"

section \<open>Reading the log\<close>

definition event_selected :: "int \<Rightarrow> string list option \<Rightarrow> jdict \<Rightarrow> exn + bool" where
  "event_selected after_seq types event =
     (case map_of event ''seq'' of
        None \<Rightarrow> Inl (KeyError ''seq'')
      | Some n \<Rightarrow>
          (case num_of n of
             None \<Rightarrow> Inl TypeError
           | Some q \<Rightarrow>
               if \<not> of_int after_seq < q then Inr False
               else (case types of
                       None \<Rightarrow> Inr True
                     | Some ts \<Rightarrow> in_set (dget event ''type'') (map JStr ts))))"

fun select_events :: "int \<Rightarrow> string list option \<Rightarrow> jdict list \<Rightarrow> exn + jdict list" where
  "select_events after_seq types [] = Inr []"
| "select_events after_seq types (e # es) =
     (case event_selected after_seq types e of
        Inl x \<Rightarrow> Inl x
      | Inr b \<Rightarrow>
          (case select_events after_seq types es of
             Inl x \<Rightarrow> Inl x
           | Inr rest \<Rightarrow> Inr (if b then e # rest else rest)))"

definition get_events ::
  "string \<Rightarrow> int \<Rightarrow> int option \<Rightarrow> string list option \<Rightarrow> (store, jdict list) py" where
  "get_events run_id after_seq limit types =
     seq (fail_if (after_seq < 0) (ValueError ''after_seq must be non-negative'')) (\<lambda>_.
     seq (fail_if (case limit of None \<Rightarrow> False | Some n \<Rightarrow> n < 1)
            (ValueError ''limit must be positive'')) (\<lambda>_.
     seq (require_run run_id) (\<lambda>_.
     seq (need_sub st_events run_id) (\<lambda>_.
     seq (gets (\<lambda>s. case map_of (st_events s) run_id of None \<Rightarrow> [] | Some es \<Rightarrow> es)) (\<lambda>log.
     seq (lift (select_events after_seq types log)) (\<lambda>selected.
       ret (case limit of None \<Rightarrow> selected | Some n \<Rightarrow> take (nat n) selected)))))))"

end
