(* ===== verification/Workflow_Service.thy ===== *)
theory Workflow_Service
  imports Backends Storage Store_Events
begin

text \<open>
  The workflow service (workflow.py), first part: its state, datasets and the creation of a run.

  A request changes the \<open>world\<close>: the store, the files of the blob store, and a counter of the
  readings of the clock and the random source, so that each reading is a new one. A request's body is the
  dictionary of a validated request model, so its fields are there with their types. The visibility
  lock makes a request one step; the operations that do not take it are steps here too. What the
  service is configured with is the record \<open>workflow_service\<close>; \<open>blob_store\<close> is the protocol of
  \<open>storage.py\<close>, of which \<open>local_blobs\<close> and \<open>synthetic_blobs\<close> are the two implementations.
\<close>

section \<open>The service and its state\<close>

record blob_store =
  bs_durable :: bool
  bs_upload_url :: "string \<Rightarrow> string \<Rightarrow> string \<Rightarrow> int \<Rightarrow> string"
  bs_put_upload_part :: "string \<Rightarrow> string \<Rightarrow> string \<Rightarrow> int \<Rightarrow> chunk list \<Rightarrow> (files, blob_info) py"
  bs_finalize_upload ::
    "string \<Rightarrow> string \<Rightarrow> string \<Rightarrow> jdict list \<Rightarrow> int \<Rightarrow> string \<Rightarrow> (files, blob_info) py"
  bs_put_artifact :: "string \<Rightarrow> string \<Rightarrow> string \<Rightarrow> string \<Rightarrow> (files, blob_info) py"
  bs_delete_key :: "string \<Rightarrow> (files, bool) py"
  bs_delete_dataset_version :: "string \<Rightarrow> string \<Rightarrow> (files, unit) py"
  bs_path_for_key :: "string \<Rightarrow> (files, path) py"
  bs_download_token :: "string \<Rightarrow> string \<Rightarrow> string \<Rightarrow> string \<Rightarrow> int \<Rightarrow> string"
  bs_verify_download_token :: "int \<Rightarrow> string \<Rightarrow> exn + jdict"

definition local_blobs ::
  "crypto \<Rightarrow> (json \<Rightarrow> string) \<Rightarrow> (string \<Rightarrow> string) \<Rightarrow> local_config \<Rightarrow> blob_store" where
  "local_blobs cr dumps digest cfg =
     \<lparr>bs_durable = True, bs_upload_url = upload_url,
      bs_put_upload_part = put_upload_part cfg digest,
      bs_finalize_upload = finalize_upload digest,
      bs_put_artifact = put_artifact digest,
      bs_delete_key = delete_key cfg,
      bs_delete_dataset_version = delete_dataset_version,
      bs_path_for_key = path_for_key cfg,
      bs_download_token = (\<lambda>random. create_download_token cr dumps cfg (''tkt_'' @ random)),
      bs_verify_download_token = verify_download_token cr cfg\<rparr>"

definition synthetic_blobs :: "py_env \<Rightarrow> (string \<Rightarrow> string) \<Rightarrow> blob_store" where
  "synthetic_blobs env digest =
     \<lparr>bs_durable = False, bs_upload_url = synthetic_upload_url,
      bs_put_upload_part = (\<lambda>t v u n cs. lift synthetic_put_upload_part),
      bs_finalize_upload = (\<lambda>t v u ps n sha. lift (synthetic_finalize_upload v n sha)),
      bs_put_artifact = (\<lambda>t r a content. lift (synthetic_put_artifact digest t r a content)),
      bs_delete_key = (\<lambda>key. ret False),
      bs_delete_dataset_version = (\<lambda>t v. ret ()),
      bs_path_for_key = (\<lambda>key. lift (synthetic_path_for_key env key)),
      bs_download_token = (\<lambda>random a t e x. synthetic_download_token a),
      bs_verify_download_token = (\<lambda>now token. synthetic_verify_download_token env token)\<rparr>"

record workflow_service =
  sv_env :: py_env
  sv_clock :: "nat \<Rightarrow> rat"
  sv_iso :: "rat \<Rightarrow> string"
  sv_random :: "nat \<Rightarrow> string"
  sv_parse_float :: "string \<Rightarrow> rat option"
  sv_limits :: runtime_limits
  sv_registry :: registry
  sv_blobs :: blob_store

record world =
  w_store :: store
  w_files :: files
  w_reads :: nat

definition in_store :: "(store, 'a) py \<Rightarrow> (world, 'a) py" where
  "in_store m w = (case m (w_store w) of (r, s) \<Rightarrow> (r, w\<lparr>w_store := s\<rparr>))"

definition in_files :: "(files, 'a) py \<Rightarrow> (world, 'a) py" where
  "in_files m w = (case m (w_files w) of (r, fs) \<Rightarrow> (r, w\<lparr>w_files := fs\<rparr>))"

text \<open>\<open>utcnow()\<close>, \<open>iso_now()\<close> and \<open>(utcnow() + timedelta(seconds=n)).isoformat()\<close>.\<close>

definition utcnow :: "workflow_service \<Rightarrow> (world, rat) py" where
  "utcnow sv w = (Inr (sv_clock sv (w_reads w)), w\<lparr>w_reads := Suc (w_reads w)\<rparr>)"

definition iso_in :: "workflow_service \<Rightarrow> rat \<Rightarrow> (world, string) py" where
  "iso_in sv seconds = seq (utcnow sv) (\<lambda>t. ret (sv_iso sv (t + seconds)))"

definition iso_now :: "workflow_service \<Rightarrow> (world, string) py" where
  "iso_now sv = iso_in sv 0"

definition random_hex :: "workflow_service \<Rightarrow> (world, string) py" where
  "random_hex sv w = (Inr (sv_random sv (w_reads w)), w\<lparr>w_reads := Suc (w_reads w)\<rparr>)"

text \<open>A field that the service uses as a string.\<close>

definition string_of :: "jdict \<Rightarrow> string \<Rightarrow> exn + string" where
  "string_of d k = exn_bind (item_of d k) (\<lambda>v. case v of JStr s \<Rightarrow> Inr s | _ \<Rightarrow> Inl TypeError)"

definition int_of :: "jdict \<Rightarrow> string \<Rightarrow> exn + int" where
  "int_of d k = exn_bind (item_of d k) py_int"

section \<open>Datasets\<close>

definition upload_part :: "workflow_service \<Rightarrow> string \<Rightarrow> string \<Rightarrow> string \<Rightarrow> int \<Rightarrow> string \<Rightarrow> json" where
  "upload_part sv public_base_url dataset_version_id upload_id part_number expires_at =
     JObj [(''part_number'', JInt part_number),
       (''url'', JStr (bs_upload_url (sv_blobs sv) public_base_url dataset_version_id upload_id part_number)),
       (''expires_at'', JStr expires_at),
       (''required_headers'', JObj [(''x-automl-upload-part'', JStr (int_str part_number))])]"

definition new_dataset :: "principal \<Rightarrow> jdict \<Rightarrow> string \<Rightarrow> exn + jdict" where
  "new_dataset p request now =
     exn_bind (item_of request ''name'') (\<lambda>name.
       Inr [(''tenant_id'', JStr (tenant_id p)), (''name'', name),
            (''retention_days'', py_or (dget request ''retention_days'') (JInt 30)), (''created_at'', JStr now)])"

definition new_version :: "principal \<Rightarrow> jdict \<Rightarrow> string \<Rightarrow> string \<Rightarrow> string \<Rightarrow> exn + jdict" where
  "new_version p request upload_id expires_at now =
     exn_bind (item_of request ''media_type'') (\<lambda>media_type.
     exn_bind (item_of request ''size_bytes'') (\<lambda>size_bytes.
     exn_bind (item_of request ''filename'') (\<lambda>filename.
       Inr [(''tenant_id'', JStr (tenant_id p)), (''status'', JStr ''UPLOADING''), (''revision'', JInt 1),
            (''media_type'', media_type), (''size_bytes'', size_bytes), (''filename'', filename),
            (''upload_id'', JStr upload_id), (''upload_expires_at'', JStr expires_at), (''sha256'', JNull),
            (''validation_issues'', JArr []), (''created_at'', JStr now), (''updated_at'', JStr now)])))"

definition svc_create_dataset :: "workflow_service \<Rightarrow> principal \<Rightarrow> jdict \<Rightarrow> string \<Rightarrow> (world, jdict) py" where
  "svc_create_dataset sv p request public_base_url =
     seq (in_store (enforce_dataset_limits (sv_limits sv) p request)) (\<lambda>_.
     seq (iso_now sv) (\<lambda>now.
     seq (in_store (new_id ''upload'')) (\<lambda>upload_id.
     seq (iso_in sv 3600) (\<lambda>expires_at.
     seq (lift (new_dataset p request now)) (\<lambda>dataset_value.
     seq (lift (new_version p request upload_id expires_at now)) (\<lambda>version_value.
     seq (in_store (create_dataset_with_version dataset_value version_value)) (\<lambda>(dataset, version).
     seq (lift (item_of dataset ''dataset_id'')) (\<lambda>dataset_id.
     seq (lift (string_of version ''dataset_version_id'')) (\<lambda>dataset_version_id.
     seq (lift (item_of version ''status'')) (\<lambda>status.
       ret [(''dataset_id'', dataset_id), (''dataset_version_id'', JStr dataset_version_id), (''status'', status),
            (''upload_id'', JStr upload_id), (''expires_at'', JStr expires_at),
            (''parts'', JArr [upload_part sv public_base_url dataset_version_id upload_id 1 expires_at])]))))))))))"

definition upload_not_active :: exn where
  "upload_not_active = APIProblem 409 ''upload_not_active'' ''Upload is not active'' []"

definition require_uploading :: "jdict \<Rightarrow> json \<Rightarrow> exn + unit" where
  "require_uploading version upload_id =
     exn_bind (item_of version ''status'') (\<lambda>status.
       if status \<noteq> JStr ''UPLOADING'' then Inl upload_not_active
       else exn_bind (item_of version ''upload_id'') (\<lambda>current.
              if \<not> py_eq upload_id current then Inl upload_not_active else Inr ()))"

definition owned_version :: "principal \<Rightarrow> string \<Rightarrow> (world, jdict) py" where
  "owned_version p dataset_version_id =
     seq (in_store (get_dataset_version dataset_version_id)) (\<lambda>found. lift (owned found p))"

definition part_numbers :: "jdict \<Rightarrow> exn + int list" where
  "part_numbers request =
     exn_bind (item_of request ''part_numbers'') (\<lambda>v.
     exn_bind (py_iter v) (\<lambda>xs.
     exn_bind (traverse py_int xs) (\<lambda>ns. Inr (sort ns))))"

definition sign_upload_parts :: "workflow_service \<Rightarrow> principal \<Rightarrow> string \<Rightarrow> jdict \<Rightarrow> string \<Rightarrow> (world, jdict) py" where
  "sign_upload_parts sv p dataset_version_id request public_base_url =
     seq (owned_version p dataset_version_id) (\<lambda>version.
     seq (lift (item_of request ''upload_id'')) (\<lambda>upload_id.
     seq (lift (require_uploading version upload_id)) (\<lambda>_.
     seq (iso_in sv 900) (\<lambda>expires_at.
     seq (lift (string_of version ''upload_id'')) (\<lambda>upload_id.
     seq (lift (part_numbers request)) (\<lambda>numbers.
       ret [(''upload_id'', JStr upload_id), (''expires_at'', JStr expires_at),
            (''parts'', JArr (map (\<lambda>n. upload_part sv public_base_url dataset_version_id upload_id n expires_at)
               numbers))]))))))"

text \<open>The subclasses of \<open>BlobStoreError\<close>; the message of an error is left out of the answer.\<close>

fun blob_error :: "exn \<Rightarrow> bool" where
  "blob_error (BlobIntegrity _) = True"
| "blob_error (BlobNotFound _) = True"
| "blob_error (BlobSizeLimit _) = True"
| "blob_error (BlobErr _) = True"
| "blob_error (InvalidTicket _) = True"
| "blob_error (ExpiredTicket _) = True"
| "blob_error _ = False"

fun size_limit_error :: "exn \<Rightarrow> bool" where
  "size_limit_error (BlobSizeLimit _) = True"
| "size_limit_error _ = False"

definition except :: "(exn \<Rightarrow> exn) \<Rightarrow> ('s, 'a) py \<Rightarrow> ('s, 'a) py" where
  "except handler m s = (case m s of (Inl e, s') \<Rightarrow> (Inl (handler e), s') | (Inr x, s') \<Rightarrow> (Inr x, s'))"

definition upload_problem :: "workflow_service \<Rightarrow> exn \<Rightarrow> exn" where
  "upload_problem sv e =
     (if size_limit_error e
      then APIProblem 413 ''upload_part_too_large'' ''Upload part is too large''
             [(''runtime_limits'', JObj (manifest (sv_limits sv)))]
      else if blob_error e then APIProblem 422 ''upload_failed'' ''Upload failed'' []
      else e)"

definition svc_put_upload_part ::
  "workflow_service \<Rightarrow> principal \<Rightarrow> string \<Rightarrow> string \<Rightarrow> int \<Rightarrow> chunk list \<Rightarrow> (world, blob_info) py" where
  "svc_put_upload_part sv p dataset_version_id upload_id part_number chunks =
     seq (owned_version p dataset_version_id) (\<lambda>version.
     seq (lift (require_uploading version (JStr upload_id))) (\<lambda>_.
     seq (case dget version ''upload_expires_at'' of
            JStr expires_at \<Rightarrow>
              seq (iso_now sv) (\<lambda>now.
                fail_if (expires_at < now) (APIProblem 410 ''upload_expired'' ''Upload session expired'' []))
          | _ \<Rightarrow> ret ()) (\<lambda>_.
       except (upload_problem sv)
         (in_files (bs_put_upload_part (sv_blobs sv) (tenant_id p) dataset_version_id upload_id part_number chunks)))))"

definition integrity_problem :: "exn \<Rightarrow> exn" where
  "integrity_problem e =
     (if blob_error e then APIProblem 422 ''upload_integrity_failed'' ''Upload integrity validation failed'' []
      else e)"

definition finalize_dataset :: "workflow_service \<Rightarrow> principal \<Rightarrow> string \<Rightarrow> jdict \<Rightarrow> (world, jdict) py" where
  "finalize_dataset sv p dataset_version_id request =
     seq (owned_version p dataset_version_id) (\<lambda>version.
     seq (lift (item_of version ''status'')) (\<lambda>status.
     seq (lift (string_of request ''sha256'')) (\<lambda>sha256.
     if status = JStr ''READY'' \<and> dget version ''sha256'' = JStr sha256
     then ret (public_dataset_version version)
     else seq (lift (string_of request ''upload_id'')) (\<lambda>upload_id.
          seq (lift (require_uploading version (JStr upload_id))) (\<lambda>_.
          seq (lift (exn_bind (item_of request ''parts'') dicts)) (\<lambda>parts.
          seq (lift (int_of version ''size_bytes'')) (\<lambda>size_bytes.
          seq (except integrity_problem
                 (in_files (bs_finalize_upload (sv_blobs sv) (tenant_id p) dataset_version_id upload_id parts
                    size_bytes sha256))) (\<lambda>blob.
          seq (lift (int_of version ''revision'')) (\<lambda>revision.
          seq (iso_now sv) (\<lambda>now.
          seq (in_store (update_dataset_version dataset_version_id
                 [(''status'', JStr ''READY''), (''revision'', JInt (revision + 1)), (''sha256'', JStr sha256),
                  (''blob_key'', JStr (bi_key blob)), (''updated_at'', JStr now)])) (\<lambda>updated.
            ret (public_dataset_version updated))))))))))))"

definition svc_get_dataset_version :: "principal \<Rightarrow> string \<Rightarrow> (world, jdict) py" where
  "svc_get_dataset_version p dataset_version_id =
     seq (owned_version p dataset_version_id) (\<lambda>version.
     seq (fail_if (dget version ''status'' = JStr ''DELETED'')
            (APIProblem 404 ''not_found'' ''Dataset version not found'' [])) (\<lambda>_.
       ret (public_dataset_version version)))"

section \<open>The webhooks of a run\<close>

definition endpoints_by_id :: "py_env \<Rightarrow> jdict list \<Rightarrow> exn + (string \<times> jdict) list" where
  "endpoints_by_id env endpoints =
     exn_bind (traverse (\<lambda>e. exn_bind (item_of e ''webhook_endpoint_id'') (\<lambda>v. Inr (py_str env v, e))) endpoints)
       (\<lambda>pairs. Inr (fold (\<lambda>(k, e). dput k e) pairs []))"

definition callback_types :: "string list" where
  "callback_types = [''run.stage_completed.v1'', ''run.failed.v1'', ''run.canceled.v1'']"

definition callback_mismatch :: exn where
  "callback_mismatch = APIProblem 422 ''callback_endpoint_mismatch'' ''Callback endpoint does not match'' []"

text \<open>The endpoint of the callback URL; \<open>uri\<close> says that it was given as \<open>callback_uri\<close>.\<close>

definition callback_endpoint :: "py_env \<Rightarrow> jdict list \<Rightarrow> bool \<Rightarrow> string \<Rightarrow> exn + string" where
  "callback_endpoint env endpoints uri url =
     (case filter (\<lambda>e. py_str env (dget e ''url'') = url \<and> dget e ''status'' = JStr ''ACTIVE'') endpoints of
        [] \<Rightarrow> Inl (APIProblem 422 ''callback_endpoint_not_registered'' ''Callback endpoint is not registered'' [])
      | e # e' # _ \<Rightarrow> Inl (APIProblem 409 ''callback_endpoint_ambiguous'' ''Callback endpoint is ambiguous'' [])
      | [e] \<Rightarrow>
          exn_bind (if uri
            then exn_bind (py_set (py_or (dget e ''event_types'') (JArr []))) (\<lambda>types.
                   let missing = sort (filter (\<lambda>t. JStr t \<notin> set types) callback_types)
                   in if JStr ''*'' \<notin> set types \<and> missing \<noteq> []
                      then Inl (APIProblem 422 ''callback_event_types_incomplete''
                             ''Callback event subscription is incomplete'' [(''missing_event_types'', strs missing)])
                      else Inr ())
            else Inr ()) (\<lambda>_.
          exn_bind (item_of e ''webhook_endpoint_id'') (\<lambda>v. Inr (py_str env v))))"

definition resolve_run_webhooks ::
  "py_env \<Rightarrow> principal \<Rightarrow> jdict \<Rightarrow> (store, string option \<times> string list) py" where
  "resolve_run_webhooks env p request =
     (let uri = dget request ''callback_uri''; url = dget request ''callback_url'';
          chosen = (if uri \<noteq> JNull then uri else url);
          normalized = (if chosen = JNull then None else Some (py_str env chosen))
      in seq (fail_if (uri \<noteq> JNull \<and> url \<noteq> JNull \<and> py_str env uri \<noteq> py_str env url) callback_mismatch) (\<lambda>_.
         seq (lift (py_iter (py_or (dget request ''webhook_endpoint_ids'') (JArr [])))) (\<lambda>ids.
         let requested = remdups (map (py_str env) ids)
         in seq (list_webhook_endpoints (Some (tenant_id p))) (\<lambda>endpoints.
         seq (lift (endpoints_by_id env endpoints)) (\<lambda>by_id.
         let missing = sort (filter (\<lambda>i. \<not> has_key by_id i) requested);
             inactive = sort (filter (\<lambda>i. case map_of by_id i of
                            None \<Rightarrow> False | Some e \<Rightarrow> dget e ''status'' \<noteq> JStr ''ACTIVE'') requested)
         in seq (fail_if (missing \<noteq> []) (APIProblem 422 ''webhook_endpoint_not_found'' ''Webhook endpoint not found''
                   [(''webhook_endpoint_ids'', strs missing)])) (\<lambda>_.
         seq (fail_if (inactive \<noteq> []) (APIProblem 409 ''webhook_endpoint_not_active''
                ''Webhook endpoint is not active'' [(''webhook_endpoint_ids'', strs inactive)])) (\<lambda>_.
           case normalized of
             None \<Rightarrow> ret (None, sort requested)
           | Some u \<Rightarrow>
               seq (lift (callback_endpoint env endpoints (uri \<noteq> JNull) u)) (\<lambda>own.
               seq (fail_if (requested \<noteq> [] \<and> set requested \<noteq> {own}) callback_mismatch) (\<lambda>_.
                 ret (Some u, [own]))))))))))"

section \<open>Events and outputs of a run\<close>

definition run_href :: "string \<Rightarrow> string" where
  "run_href run_id = ''/v1/runs/'' @ run_id"

definition emit :: "workflow_service \<Rightarrow> jdict \<Rightarrow> string \<Rightarrow> jdict \<Rightarrow> (world, jdict) py" where
  "emit sv run event_type payload =
     seq (lift (string_of run ''run_id'')) (\<lambda>run_id.
     seq (in_store (new_id ''event'')) (\<lambda>event_id.
     seq (lift (int_of run ''snapshot_seq'')) (\<lambda>snapshot_seq.
     seq (lift (item_of run ''run_revision'')) (\<lambda>run_revision.
     seq (iso_now sv) (\<lambda>occurred_at.
     seq (in_store (append_event (sv_env sv) run_id
            [(''event_id'', JStr event_id), (''run_id'', JStr run_id), (''seq'', JInt (snapshot_seq + 1)),
             (''run_revision'', run_revision), (''schema_version'', JStr ''1.0''),
             (''occurred_at'', JStr occurred_at), (''type'', JStr event_type), (''payload'', JObj payload),
             (''links'', JObj [(''run'', JStr (run_href run_id))])])) (\<lambda>event.
     seq (lift (item_of event ''seq'')) (\<lambda>seq_no.
     seq (iso_now sv) (\<lambda>now.
       in_store (update_run run_id [(''snapshot_seq'', seq_no), (''updated_at'', JStr now)] None False)))))))))"

text \<open>\<open>event.get("payload", {}).get("phase") == phase\<close>, for some event of the log.\<close>

fun stage_completed :: "string \<Rightarrow> jdict list \<Rightarrow> exn + bool" where
  "stage_completed phase [] = Inr False"
| "stage_completed phase (e # es) =
     (case dget_or e ''payload'' (JObj []) of
        JObj d \<Rightarrow> if dget d ''phase'' = JStr phase then Inr True else stage_completed phase es
      | _ \<Rightarrow> Inl (AttributeErr ''get''))"

definition progress_by_phase :: "(string \<times> rat) list" where
  "progress_by_phase =
     [(''INGEST'', 10), (''PROFILE'', 30), (''PLAN'', 45), (''TRAIN'', 75), (''EVALUATE'', 90), (''PACKAGE'', 100)]"

definition complete_stage ::
  "workflow_service \<Rightarrow> jdict \<Rightarrow> string \<Rightarrow> string option \<Rightarrow> json list \<Rightarrow> bool option \<Rightarrow> string option
     \<Rightarrow> (world, jdict) py" where
  "complete_stage sv run phase next_phase output_refs next_stage_ready reason =
     seq (lift (string_of run ''run_id'')) (\<lambda>run_id.
     seq (in_store (get_events run_id 0 None (Some [''run.stage_completed.v1'']))) (\<lambda>existing.
     seq (lift (stage_completed phase existing)) (\<lambda>finished.
     if finished
     then seq (in_store (get_run run_id)) (\<lambda>current.
            ret (case current of None \<Rightarrow> run | Some r \<Rightarrow> if r = [] then run else r))
     else seq (iso_now sv) (\<lambda>completed_at.
          case map_of progress_by_phase phase of
            None \<Rightarrow> raise (KeyError phase)
          | Some percent \<Rightarrow>
              emit sv run ''run.stage_completed.v1''
                [(''phase'', JStr phase), (''status'', JStr ''COMPLETED''), (''completed_at'', JStr completed_at),
                 (''progress_percent'', JFloat percent), (''output_refs'', JArr output_refs),
                 (''next_phase'', optional_str next_phase),
                 (''next_stage_ready'', JBool (case next_stage_ready of None \<Rightarrow> next_phase \<noteq> None | Some b \<Rightarrow> b)),
                 (''reason'', optional_str reason)]))))"

definition policy_version :: "jdict \<Rightarrow> exn + json" where
  "policy_version run =
     (case dget_or run ''contract_versions'' (JObj []) of
        JObj d \<Rightarrow> Inr (dget_or d ''policy_version'' (JStr ''policy.m1''))
      | _ \<Rightarrow> Inl (AttributeErr ''get''))"

definition output_lineage :: "jdict \<Rightarrow> jdict \<Rightarrow> exn + jdict" where
  "output_lineage run lineage =
     exn_bind (item_of run ''dataset_version_id'') (\<lambda>dataset_version_id.
     exn_bind (policy_version run) (\<lambda>policy.
       Inr (dupdate
         [(''dataset_version_id'', dataset_version_id), (''task_spec_output_id'', dget run ''task_spec_output_id''),
          (''split_manifest_output_id'', dget run ''split_manifest_output_id''), (''policy_version'', policy),
          (''method_version'', dget_or run ''method_version'' (JStr ''synthetic.v1'')),
          (''parent_refs'', JArr []), (''evidence_refs'', JArr [])] lineage)))"

definition other_refs :: "jdict \<Rightarrow> string \<Rightarrow> exn + json list" where
  "other_refs run output_type =
     exn_bind (dicts (dget_or run ''latest_output_refs'' (JArr []))) (\<lambda>refs.
     exn_bind (traverse (\<lambda>r. exn_bind (item_of r ''type'') (\<lambda>t. Inr (t, r))) refs) (\<lambda>typed.
       Inr (map (\<lambda>(t, r). JObj r) (filter (\<lambda>(t, r). t \<noteq> JStr output_type) typed))))"

definition commit_output_with ::
  "workflow_service \<Rightarrow> jdict \<Rightarrow> string \<Rightarrow> string \<Rightarrow> jdict \<Rightarrow> jdict \<Rightarrow> json list \<Rightarrow> jdict
     \<Rightarrow> (world, jdict \<times> jdict) py" where
  "commit_output_with sv run output_type phase summary payload artifact_refs own_lineage =
     seq (in_store (new_id ''output'')) (\<lambda>output_id.
     seq (lift (output_lineage run own_lineage)) (\<lambda>lineage.
     seq (lift (string_of run ''run_id'')) (\<lambda>run_id.
     seq (lift (item_of run ''tenant_id'')) (\<lambda>tenant.
     seq (lift (item_of run ''run_revision'')) (\<lambda>run_revision.
     seq (lift (int_of run ''snapshot_seq'')) (\<lambda>snapshot_seq.
     seq (iso_now sv) (\<lambda>created_at.
     seq (in_store (create_output run_id
            [(''output_id'', JStr output_id), (''tenant_id'', tenant), (''schema_version'', JStr ''1.0''),
             (''run_id'', JStr run_id), (''run_revision'', run_revision), (''created_seq'', JInt (snapshot_seq + 1)),
             (''phase'', JStr phase), (''state'', JStr ''FINAL''), (''type'', JStr output_type),
             (''summary'', JObj summary), (''payload'', JObj payload), (''lineage'', JObj lineage),
             (''artifact_refs'', JArr artifact_refs), (''supersedes'', JNull), (''created_at'', JStr created_at)]))
       (\<lambda>output.
     seq (lift (output_ref (sv_env sv) output)) (\<lambda>ref.
     seq (emit sv run ''output.committed.v1'' [(''output'', ref)]) (\<lambda>run.
     seq (lift (other_refs run output_type)) (\<lambda>refs.
     seq (in_store (update_run run_id [(''latest_output_refs'', JArr (refs @ [ref]))] None False)) (\<lambda>run.
       ret (output, run)))))))))))))"

text \<open>Most outputs have no lineage of their own.\<close>

definition commit_output ::
  "workflow_service \<Rightarrow> jdict \<Rightarrow> string \<Rightarrow> string \<Rightarrow> jdict \<Rightarrow> jdict \<Rightarrow> json list \<Rightarrow> (world, jdict \<times> jdict) py" where
  "commit_output sv run output_type phase summary payload artifact_refs =
     commit_output_with sv run output_type phase summary payload artifact_refs []"

end
