(* ===== verification/Workflow_Runs.thy ===== *)
theory Workflow_Runs
  imports Workflow_Service
begin

text \<open>
  The workflow service (workflow.py), second part: the creation of a run, which takes it to the
  first question for its user; the answer to that question, which takes it to its end; the
  commands that pause, resume and cancel a run.
\<close>

section \<open>The creation of a run\<close>

definition no_blocking :: json where
  "no_blocking = JObj [(''decision_packet_ids'', JArr []), (''approval_ids'', JArr [])]"

definition budget_usage :: "jdict \<Rightarrow> exn + json" where
  "budget_usage budget =
     exn_bind (item_of budget ''max_compute_credits'') (\<lambda>credits.
     exn_bind (item_of budget ''max_trials'') (\<lambda>trials.
     exn_bind (item_of budget ''max_wall_time_seconds'') (\<lambda>wall.
     exn_bind (item_of budget ''max_llm_tokens'') (\<lambda>tokens.
       Inr (JObj (map (\<lambda>(k, v). (k, JObj [(''used'', JInt 0), (''limit'', v)]))
         [(''compute_credits'', credits), (''trials'', trials), (''wall_time_seconds'', wall),
          (''llm_tokens'', tokens)]))))))"

definition contract_versions :: json where
  "contract_versions =
     JObj [(''event_schema'', JStr ''1.0''), (''output_schema'', JStr ''1.0''), (''policy_version'', JStr ''policy.m1''),
       (''tool_versions'', JObj [(''synthetic_profiler'', JStr ''1.0'')])]"

definition initial_run ::
  "principal \<Rightarrow> jdict \<Rightarrow> string \<Rightarrow> string \<Rightarrow> json \<Rightarrow> json \<Rightarrow> json \<Rightarrow> json \<Rightarrow> string option \<Rightarrow> string list
     \<Rightarrow> exn + jdict" where
  "initial_run p request run_id now dataset_version_id stage_list usage backend callback_uri endpoint_ids =
     exn_bind (item_of request ''autonomy'') (\<lambda>autonomy.
     exn_bind (item_of request ''objective'') (\<lambda>objective.
     exn_bind (item_of request ''policy'') (\<lambda>policy.
       Inr [(''run_id'', JStr run_id), (''tenant_id'', JStr (tenant_id p)), (''api_version'', JStr ''v1''),
         (''dataset_version_id'', dataset_version_id), (''phase'', JStr ''INGEST''), (''status'', JStr ''QUEUED''),
         (''outcome'', JNull), (''plan_version'', JInt 1), (''run_revision'', JInt 1), (''snapshot_seq'', JInt 0),
         (''retained_from_seq'', JInt 1), (''contract_versions'', contract_versions),
         (''progress'', progress 0 ''QUEUED'' ''Run accepted''), (''stages'', stage_list), (''blocking'', no_blocking),
         (''latest_output_refs'', JArr []), (''available_actions'', strs [''CANCEL'']), (''budget_usage'', usage),
         (''created_at'', JStr now), (''updated_at'', JStr now), (''links'', run_links run_id),
         (''autonomy'', autonomy), (''objective'', objective), (''backend_id'', backend), (''policy'', policy),
         (''callback_uri'', optional_str callback_uri), (''callback_url'', optional_str callback_uri),
         (''webhook_endpoint_ids'', strs endpoint_ids)])))"

definition now_stages :: "workflow_service \<Rightarrow> string \<Rightarrow> string \<Rightarrow> string list \<Rightarrow> (world, json) py" where
  "now_stages sv active_phase active_status completed =
     seq (iso_now sv) (\<lambda>now. ret (stages now active_phase active_status completed))"

text \<open>From the request to the stored run: the quotas, the dataset, the backend, the webhooks.\<close>

definition admit_run :: "workflow_service \<Rightarrow> principal \<Rightarrow> jdict \<Rightarrow> (world, jdict) py" where
  "admit_run sv p request =
     seq (in_store (enforce_run_limits (sv_parse_float sv) (sv_limits sv) p request)) (\<lambda>_.
     seq (lift (string_of request ''dataset_version_id'')) (\<lambda>wanted.
     seq (owned_version p wanted) (\<lambda>version.
     seq (lift (item_of version ''status'')) (\<lambda>status.
     seq (fail_if (status \<noteq> JStr ''READY'') (APIProblem 409 ''dataset_not_ready'' ''Dataset is not ready'' [])) (\<lambda>_.
     seq (lift (require_requested_backend (sv_env sv) (sv_registry sv) request (dget version ''media_type'')))
       (\<lambda>backend.
     seq (in_store (resolve_run_webhooks (sv_env sv) p request)) (\<lambda>(callback_uri, endpoint_ids).
     seq (in_store (new_id ''run'')) (\<lambda>run_id.
     seq (iso_now sv) (\<lambda>now.
     seq (lift (budget_of request)) (\<lambda>budget.
     seq (lift (item_of version ''dataset_version_id'')) (\<lambda>dataset_version_id.
     seq (now_stages sv ''INGEST'' ''RUNNING'' []) (\<lambda>stage_list.
     seq (lift (budget_usage budget)) (\<lambda>usage.
     seq (lift (item_of backend ''backend_id'')) (\<lambda>backend_id.
     seq (lift (initial_run p request run_id now dataset_version_id stage_list usage backend_id callback_uri
            endpoint_ids)) (\<lambda>value.
       in_store (create_run value))))))))))))))))"

definition profile_summary :: jdict where
  "profile_summary =
     [(''code'', JStr ''SYNTHETIC_PROFILE_READY''), (''message'', JStr ''Milestone 1 metadata profile is ready.''),
      (''severity'', JStr ''INFO'')]"

definition profile_payload :: jdict where
  "profile_payload =
     [(''kind'', JStr ''DATA_QUALITY_REPORT''), (''row_count'', JInt 0), (''column_count'', JInt 0),
      (''quality_score'', JInt 100), (''issues'', JArr [])]"

text \<open>The stages INGEST and PROFILE; the result is the quality report and the run after it.\<close>

definition ingest_and_profile :: "workflow_service \<Rightarrow> string \<Rightarrow> (world, jdict \<times> jdict) py" where
  "ingest_and_profile sv run_id =
     seq (now_stages sv ''PROFILE'' ''RUNNING'' [''INGEST'']) (\<lambda>stage_list.
     seq (iso_now sv) (\<lambda>now.
     seq (in_store (update_run run_id
            [(''phase'', JStr ''PROFILE''), (''status'', JStr ''RUNNING''),
             (''progress'', progress 15 ''PROFILE'' ''Synthetic profile committed''), (''stages'', stage_list),
             (''updated_at'', JStr now)] None False)) (\<lambda>run.
     seq (complete_stage sv run ''INGEST'' (Some ''PROFILE'') [] None None) (\<lambda>run.
     seq (emit sv run ''run.phase_changed.v1''
            [(''previous_phase'', JStr ''INGEST''), (''phase'', JStr ''PROFILE''), (''status'', JStr ''RUNNING'')]) (\<lambda>run.
     seq (commit_output sv run ''DATA_QUALITY_REPORT'' ''PROFILE'' profile_summary profile_payload [])
       (\<lambda>(quality_output, run).
     seq (lift (output_ref (sv_env sv) quality_output)) (\<lambda>ref.
     seq (complete_stage sv run ''PROFILE'' (Some ''PLAN'') [ref] (Some False) (Some ''USER_INPUT_REQUIRED'')) (\<lambda>run.
       ret (quality_output, run)))))))))"

definition target_question :: json where
  "target_question =
     JObj [(''question_id'', JStr ''q_target''),
       (''prompt'', JStr ''Which column should the synthetic workflow treat as the target?''),
       (''answer_schema'', JObj [(''type'', JStr ''string''), (''minLength'', JInt 1)]),
       (''selection_mode'', JStr ''FREEFORM''), (''min_selections'', JInt 1), (''max_selections'', JInt 1),
       (''options'', JArr []), (''recommendation'', JNull),
       (''recommendation_reason'', JStr ''Milestone 1 never guesses a target column.'')]"

definition target_packet ::
  "principal \<Rightarrow> string \<Rightarrow> string \<Rightarrow> string \<Rightarrow> json \<Rightarrow> json \<Rightarrow> string \<Rightarrow> string \<Rightarrow> jdict" where
  "target_packet p run_id packet_id wait_set_id run_revision evidence created_at expires_at =
     [(''decision_packet_id'', JStr packet_id), (''wait_set_id'', JStr wait_set_id), (''wait_set_revision'', JInt 1),
      (''run_id'', JStr run_id), (''tenant_id'', JStr (tenant_id p)), (''run_revision'', run_revision),
      (''status'', JStr ''OPEN''), (''kind'', JStr ''CLARIFICATION''),
      (''reason'', JStr ''A target column cannot be inferred safely from metadata alone.''),
      (''blocking'', JBool True), (''resolution_policy'', JStr ''HUMAN_REQUIRED''),
      (''questions'', JArr [target_question]), (''evidence_refs'', JArr [evidence]),
      (''created_at'', JStr created_at), (''expires_at'', JStr expires_at)]"

definition ask_for_target :: "workflow_service \<Rightarrow> principal \<Rightarrow> string \<Rightarrow> jdict \<Rightarrow> jdict \<Rightarrow> (world, jdict) py" where
  "ask_for_target sv p run_id quality_output run =
     seq (in_store (new_id ''decision_packet'')) (\<lambda>packet_id.
     seq (in_store (new_id ''wait_set'')) (\<lambda>wait_set_id.
     seq (now_stages sv ''PLAN'' ''WAITING_USER'' [''INGEST'', ''PROFILE'']) (\<lambda>stage_list.
     seq (lift (output_ref (sv_env sv) quality_output)) (\<lambda>ref.
     seq (iso_now sv) (\<lambda>now.
     seq (lift (int_of run ''run_revision'')) (\<lambda>revision.
     seq (in_store (update_run run_id
            [(''phase'', JStr ''PLAN''), (''status'', JStr ''WAITING_USER''),
             (''progress'', progress 35 ''WAITING_USER'' ''Target column required''), (''stages'', stage_list),
             (''blocking'', JObj [(''decision_packet_ids'', strs [packet_id]), (''approval_ids'', JArr [])]),
             (''latest_output_refs'', JArr [ref]), (''available_actions'', strs [''ANSWER'', ''PAUSE'', ''CANCEL'']),
             (''updated_at'', JStr now)] (Some revision) True)) (\<lambda>run.
     seq (lift (item_of run ''run_revision'')) (\<lambda>run_revision.
     seq (lift (item_of quality_output ''output_id'')) (\<lambda>evidence.
     seq (iso_now sv) (\<lambda>created_at.
     seq (iso_in sv 86400) (\<lambda>expires_at.
     seq (in_store (create_decision_packet run_id
            (target_packet p run_id packet_id wait_set_id run_revision evidence created_at expires_at))) (\<lambda>packet.
     seq (emit sv run ''run.phase_changed.v1''
            [(''previous_phase'', JStr ''PROFILE''), (''phase'', JStr ''PLAN''), (''status'', JStr ''WAITING_USER'')])
       (\<lambda>run.
     seq (lift (item_of packet ''decision_packet_id'')) (\<lambda>packet_ref.
     seq (lift (item_of packet ''wait_set_id'')) (\<lambda>wait_set_ref.
       emit sv run ''decision_packet.requested.v1''
         [(''decision_packet_id'', packet_ref), (''wait_set_id'', wait_set_ref),
          (''href'', JStr (run_href run_id @ ''/decision-packets''))])))))))))))))))"

definition svc_create_run :: "workflow_service \<Rightarrow> principal \<Rightarrow> jdict \<Rightarrow> (world, jdict) py" where
  "svc_create_run sv p request =
     seq (admit_run sv p request) (\<lambda>run.
     seq (lift (string_of run ''run_id'')) (\<lambda>run_id.
     seq (ingest_and_profile sv run_id) (\<lambda>(quality_output, run).
     seq (ask_for_target sv p run_id quality_output run) (\<lambda>run.
       ret (public_run run)))))"

section \<open>The answer\<close>

definition answer_pair :: "jdict \<Rightarrow> exn + (string \<times> json)" where
  "answer_pair d =
     exn_bind (string_of d ''question_id'') (\<lambda>i. exn_bind (item_of d ''value'') (\<lambda>v. Inr (i, v)))"

definition owned_run :: "principal \<Rightarrow> string \<Rightarrow> (world, jdict) py" where
  "owned_run p run_id = seq (in_store (get_run run_id)) (\<lambda>found. lift (owned found p))"

definition stale_wait_set :: "json \<Rightarrow> string \<Rightarrow> exn" where
  "stale_wait_set current run_id =
     APIProblem 412 ''stale_revision'' ''Decision packet changed''
       [(''current_wait_set_revision'', current),
        (''recovery'', JObj [(''action'', JStr ''LIST_DECISION_PACKETS''),
           (''href'', JStr (run_href run_id @ ''/decision-packets?status=OPEN''))])]"

text \<open>All checks of an answer; the result is the packet, the run and the chosen column.\<close>

definition check_answer_request ::
  "principal \<Rightarrow> string \<Rightarrow> string \<Rightarrow> int \<Rightarrow> jdict \<Rightarrow> (world, jdict \<times> jdict \<times> string) py" where
  "check_answer_request p run_id wait_set_id wait_set_revision request =
     seq (owned_run p run_id) (\<lambda>run.
     seq (in_store (get_decision_packet_by_wait_set run_id wait_set_id)) (\<lambda>found.
     seq (lift (owned found p)) (\<lambda>packet.
     seq (lift (item_of packet ''run_id'')) (\<lambda>owner.
     seq (fail_if (owner \<noteq> JStr run_id) not_found) (\<lambda>_.
     seq (lift (item_of packet ''wait_set_revision'')) (\<lambda>current.
     seq (fail_if (\<not> py_eq current (JInt wait_set_revision)) (stale_wait_set current run_id)) (\<lambda>_.
     seq (lift (item_of packet ''status'')) (\<lambda>packet_status.
     seq (lift (item_of run ''status'')) (\<lambda>run_status.
     seq (fail_if (packet_status \<noteq> JStr ''OPEN'' \<or> run_status \<noteq> JStr ''WAITING_USER'')
            (APIProblem 409 ''decision_packet_not_open'' ''Decision packet is not open'' [])) (\<lambda>_.
     seq (lift (enforce_decision_actor packet p)) (\<lambda>_.
     seq (lift (exn_bind (item_of request ''answers'') dicts)) (\<lambda>items.
     seq (lift (traverse answer_pair items)) (\<lambda>answers.
     seq (lift (validate_packet_answers packet answers)) (\<lambda>by_id.
     seq (lift (enforce_agent_recommendations packet p by_id)) (\<lambda>_.
     seq (lift (item_of by_id ''q_target'')) (\<lambda>target.
       case target of
         JStr column \<Rightarrow>
           if py_strip column = [] then raise (invalid_answer ''Invalid target column'')
           else ret (packet, run, column)
       | _ \<Rightarrow> raise (invalid_answer ''Invalid target column'')))))))))))))))))"

definition new_command :: "workflow_service \<Rightarrow> principal \<Rightarrow> string \<Rightarrow> string \<Rightarrow> (world, jdict) py" where
  "new_command sv p run_id command_type =
     seq (iso_now sv) (\<lambda>submitted_at.
       in_store (create_command (sv_env sv)
         [(''tenant_id'', JStr (tenant_id p)), (''run_id'', JStr run_id), (''type'', JStr command_type),
          (''status'', JStr ''RUNNING''), (''submitted_at'', JStr submitted_at), (''completed_at'', JNull),
          (''resulting_run_revision'', JNull), (''problem'', JNull)]))"

definition finish_command :: "workflow_service \<Rightarrow> string \<Rightarrow> jdict \<Rightarrow> jdict \<Rightarrow> (world, jdict) py" where
  "finish_command sv run_id command run =
     seq (lift (string_of command ''command_id'')) (\<lambda>command_id.
     seq (iso_now sv) (\<lambda>completed_at.
     seq (lift (item_of run ''run_revision'')) (\<lambda>run_revision.
     seq (in_store (update_command command_id
            [(''status'', JStr ''SUCCEEDED''), (''completed_at'', JStr completed_at),
             (''resulting_run_revision'', run_revision),
             (''links'', JObj [(''self'', JStr (''/v1/commands/'' @ command_id)), (''run'', JStr (run_href run_id))])]))
       (\<lambda>updated.
       ret (public_command updated)))))"

definition accept_answer ::
  "workflow_service \<Rightarrow> string \<Rightarrow> int \<Rightarrow> jdict \<Rightarrow> jdict \<Rightarrow> (world, jdict) py" where
  "accept_answer sv run_id wait_set_revision packet run =
     seq (lift (string_of packet ''decision_packet_id'')) (\<lambda>packet_id.
     seq (in_store (update_decision_packet run_id packet_id
            [(''status'', JStr ''ANSWERED''), (''wait_set_revision'', JInt (wait_set_revision + 1))])) (\<lambda>_.
     seq (iso_now sv) (\<lambda>now.
     seq (lift (int_of run ''run_revision'')) (\<lambda>revision.
     seq (in_store (update_run run_id
            [(''status'', JStr ''RUNNING''), (''phase'', JStr ''PLAN''), (''blocking'', no_blocking),
             (''available_actions'', strs [''PAUSE'', ''CANCEL'']),
             (''progress'', progress 50 ''PLAN'' ''Task specification confirmed''), (''updated_at'', JStr now)]
            (Some revision) True)) (\<lambda>run.
       emit sv run ''run.phase_changed.v1''
         [(''previous_phase'', JStr ''PLAN''), (''phase'', JStr ''PLAN''), (''status'', JStr ''RUNNING'')])))))"

definition task_type_of :: "jdict \<Rightarrow> json" where
  "task_type_of objective = py_or (dget objective ''task_type'') (JStr ''BINARY_CLASSIFICATION'')"

definition task_payload :: "jdict \<Rightarrow> string \<Rightarrow> jdict" where
  "task_payload objective column =
     (let task_type = task_type_of objective; binary = (task_type = JStr ''BINARY_CLASSIFICATION'')
      in [(''kind'', JStr ''TASK_SPEC''), (''task_type'', task_type), (''target_column_id'', JStr (py_strip column)),
          (''positive_class'', JNull),
          (''primary_metric'', py_or (dget objective ''primary_metric'')
             (JStr (if binary then ''average_precision'' else ''rmse''))),
          (''guardrail_metrics'', JArr []),
          (''split_strategy'', JStr (if binary then ''STRATIFIED_HOLDOUT'' else ''RANDOM_HOLDOUT'')),
          (''confidence'', JFloat 1), (''assumptions'', strs [''Milestone 1 uses synthetic execution only.'']),
          (''confirmed_by'', JStr ''USER'')])"

definition commit_task_spec :: "workflow_service \<Rightarrow> jdict \<Rightarrow> string \<Rightarrow> (world, jdict \<times> jdict) py" where
  "commit_task_spec sv run column =
     (case dget_or run ''objective'' (JObj []) of
        JObj objective \<Rightarrow>
          commit_output sv run ''TASK_SPEC'' ''PLAN''
            [(''code'', JStr ''TASK_SPEC_CONFIRMED''), (''message'', JStr ''The user confirmed the target column.''),
             (''severity'', JStr ''INFO'')] (task_payload objective column) []
      | _ \<Rightarrow> raise (AttributeErr ''get''))"

definition report_content :: "string \<Rightarrow> string" where
  "report_content run_id = ''synthetic report for '' @ run_id @ [char_of (10 :: nat)]"

definition artifact_value ::
  "principal \<Rightarrow> string \<Rightarrow> string \<Rightarrow> blob_info \<Rightarrow> string \<Rightarrow> json \<Rightarrow> json \<Rightarrow> jdict" where
  "artifact_value p run_id artifact_id blob created_at dataset_version_id task_output_id =
     [(''artifact_id'', JStr artifact_id), (''tenant_id'', JStr (tenant_id p)), (''run_id'', JStr run_id),
      (''output_id'', JNull), (''kind'', JStr ''RUN_REPORT_JSON''), (''media_type'', JStr ''application/json''),
      (''size_bytes'', JInt (bi_size_bytes blob)), (''sha256'', JStr (bi_sha256 blob)),
      (''href'', JStr (''/v1/artifacts/'' @ artifact_id)), (''state'', JStr ''COMMITTED''),
      (''etag'', JStr (bi_etag blob)), (''supports_range'', JBool True), (''blob_key'', JStr (bi_key blob)),
      (''created_at'', JStr created_at),
      (''lineage'', JObj [(''dataset_version_id'', dataset_version_id), (''task_spec_output_id'', task_output_id),
         (''split_manifest_output_id'', JNull), (''policy_version'', JStr ''policy.m1''),
         (''method_version'', JStr ''synthetic.v1''), (''parent_refs'', JArr []),
         (''evidence_refs'', JArr [task_output_id])])]"

definition artifact_ref :: "jdict \<Rightarrow> exn + json" where
  "artifact_ref artifact =
     exn_bind (traverse (\<lambda>k. exn_bind (item_of artifact k) (\<lambda>v. Inr (k, v)))
       [''artifact_id'', ''kind'', ''media_type'', ''size_bytes'', ''sha256'', ''href'']) (\<lambda>d. Inr (JObj d))"

text \<open>The report: its bytes, its artifact and the output that refers to it.\<close>

definition commit_report :: "workflow_service \<Rightarrow> principal \<Rightarrow> string \<Rightarrow> jdict \<Rightarrow> jdict \<Rightarrow> (world, jdict \<times> jdict) py" where
  "commit_report sv p run_id task_output run =
     seq (in_store (new_id ''artifact'')) (\<lambda>artifact_id.
     seq (in_files (bs_put_artifact (sv_blobs sv) (tenant_id p) run_id artifact_id (report_content run_id))) (\<lambda>blob.
     seq (iso_now sv) (\<lambda>created_at.
     seq (lift (item_of run ''dataset_version_id'')) (\<lambda>dataset_version_id.
     seq (lift (item_of task_output ''output_id'')) (\<lambda>task_output_id.
     seq (in_store (create_artifact (sv_env sv)
            (artifact_value p run_id artifact_id blob created_at dataset_version_id task_output_id))) (\<lambda>artifact.
     seq (lift (artifact_ref artifact)) (\<lambda>ref.
     seq (commit_output sv run ''RUN_REPORT'' ''PACKAGE''
            [(''code'', JStr ''SYNTHETIC_RUN_COMPLETE''),
             (''message'', JStr ''The Milestone 1 workflow completed without training a model.''),
             (''severity'', JStr ''INFO'')]
            [(''kind'', JStr ''RUN_REPORT''), (''summary'', JStr ''Synthetic workflow completed.''),
             (''recommendation'', JStr ''Proceed to the deterministic ML baseline milestone.''),
             (''evidence_refs'', JArr [task_output_id])] [ref]) (\<lambda>(report_output, run).
     seq (lift (item_of report_output ''output_id'')) (\<lambda>report_output_id.
     seq (in_store (update_artifact artifact_id [(''output_id'', report_output_id)])) (\<lambda>_.
       ret (report_output, run)))))))))))"

definition output_refs :: "py_env \<Rightarrow> jdict list \<Rightarrow> exn + json" where
  "output_refs env outputs = exn_bind (traverse (output_ref env) outputs) (\<lambda>refs. Inr (JArr refs))"

definition success_result :: "string \<Rightarrow> string \<Rightarrow> json \<Rightarrow> json \<Rightarrow> string \<Rightarrow> jdict" where
  "success_result manifest_id run_id refs report_output_id completed_at =
     [(''result_manifest_id'', JStr manifest_id), (''run_id'', JStr run_id), (''outcome'', JStr ''SUCCEEDED''),
      (''model_disposition'', JStr ''NO_ELIGIBLE_MODEL''),
      (''summary'', JStr ''Milestone 1 completed; model training is intentionally disabled.''),
      (''output_refs'', refs), (''partial'', JBool False), (''eligible_model'', JNull),
      (''reason'', JObj [(''code'', JStr ''MILESTONE_1_NO_TRAINING''),
         (''message'', JStr ''This skeleton validates orchestration and API contracts only.''),
         (''retriable'', JBool False), (''failed_gates'', JArr []), (''evidence_refs'', JArr [report_output_id]),
         (''remediation'', strs [''Implement the deterministic baseline milestone.''])]),
      (''completed_at'', JStr completed_at)]"

definition run_event :: "string \<Rightarrow> string \<Rightarrow> string \<Rightarrow> jdict \<Rightarrow> jdict" where
  "run_event run_id occurred_at event_type payload =
     [(''schema_version'', JStr ''1.0''), (''occurred_at'', JStr occurred_at), (''type'', JStr event_type),
      (''payload'', JObj payload), (''links'', JObj [(''run'', JStr (run_href run_id))])]"

definition stage_event ::
  "string \<Rightarrow> string \<Rightarrow> string \<Rightarrow> rat \<Rightarrow> json list \<Rightarrow> string option \<Rightarrow> string option \<Rightarrow> jdict" where
  "stage_event run_id completed_at phase percent refs next_phase reason =
     run_event run_id completed_at ''run.stage_completed.v1''
       [(''phase'', JStr phase), (''status'', JStr ''COMPLETED''), (''completed_at'', JStr completed_at),
        (''progress_percent'', JFloat percent), (''output_refs'', JArr refs),
        (''next_phase'', optional_str next_phase), (''next_stage_ready'', JBool (next_phase \<noteq> None)),
        (''reason'', optional_str reason)]"

definition completion_events :: "string \<Rightarrow> string \<Rightarrow> json \<Rightarrow> json \<Rightarrow> jdict list" where
  "completion_events run_id completed_at task_ref report_ref =
     [stage_event run_id completed_at ''PLAN'' 45 [task_ref] (Some ''TRAIN'') None,
      stage_event run_id completed_at ''TRAIN'' 75 [] (Some ''EVALUATE'') None,
      stage_event run_id completed_at ''EVALUATE'' 90 [] (Some ''PACKAGE'') None,
      stage_event run_id completed_at ''PACKAGE'' 100 [report_ref] None (Some ''WORKFLOW_COMPLETED''),
      run_event run_id completed_at ''run.completed.v1''
        [(''outcome'', JStr ''SUCCEEDED''), (''result_href'', JStr (run_href run_id @ ''/result''))]]"

definition complete_run ::
  "workflow_service \<Rightarrow> string \<Rightarrow> jdict \<Rightarrow> jdict \<Rightarrow> jdict \<Rightarrow> (world, jdict) py" where
  "complete_run sv run_id task_output report_output run =
     seq (in_store (list_outputs run_id)) (\<lambda>all_outputs.
     seq (iso_now sv) (\<lambda>completed_at.
     seq (in_store (new_id ''result'')) (\<lambda>manifest_id.
     seq (lift (output_refs (sv_env sv) all_outputs)) (\<lambda>refs.
     seq (lift (item_of report_output ''output_id'')) (\<lambda>report_output_id.
     seq (now_stages sv ''PACKAGE'' ''RUNNING'' phases) (\<lambda>stage_list.
     seq (lift (output_ref (sv_env sv) report_output)) (\<lambda>report_ref.
     seq (lift (output_ref (sv_env sv) task_output)) (\<lambda>task_ref.
     seq (lift (int_of run ''run_revision'')) (\<lambda>revision.
     seq (in_store (finalize_run_with_result (sv_env sv) run_id
            (success_result manifest_id run_id refs report_output_id completed_at)
            [(''phase'', JStr ''PACKAGE''), (''status'', JStr ''TERMINAL''), (''outcome'', JStr ''SUCCEEDED''),
             (''progress'', progress 100 ''COMPLETED'' ''Run completed''), (''stages'', stage_list),
             (''blocking'', no_blocking), (''available_actions'', JArr []),
             (''latest_output_refs'', JArr [report_ref]), (''updated_at'', JStr completed_at)]
            (completion_events run_id completed_at task_ref report_ref) (Some revision))) (\<lambda>(run, _, _).
       ret run))))))))))"

definition answer ::
  "workflow_service \<Rightarrow> principal \<Rightarrow> string \<Rightarrow> string \<Rightarrow> int \<Rightarrow> jdict \<Rightarrow> (world, jdict) py" where
  "answer sv p run_id wait_set_id wait_set_revision request =
     seq (check_answer_request p run_id wait_set_id wait_set_revision request) (\<lambda>(packet, run, column).
     seq (new_command sv p run_id ''ANSWER'') (\<lambda>command.
     seq (accept_answer sv run_id wait_set_revision packet run) (\<lambda>run.
     seq (commit_task_spec sv run column) (\<lambda>(task_output, run).
     seq (commit_report sv p run_id task_output run) (\<lambda>(report_output, run).
     seq (complete_run sv run_id task_output report_output run) (\<lambda>run.
       finish_command sv run_id command run))))))"

section \<open>Pause, resume and cancel\<close>

text \<open>The guards of \<open>_control\<close>, on the run.\<close>

definition check_control :: "jdict \<Rightarrow> string \<Rightarrow> int option \<Rightarrow> exn + unit" where
  "check_control run command_type revision =
     exn_bind (item_of run ''run_revision'') (\<lambda>current.
     exn_bind (item_of run ''status'') (\<lambda>status.
     if (case revision of None \<Rightarrow> False | Some r \<Rightarrow> \<not> py_eq current (JInt r))
     then Inl (APIProblem 412 ''stale_revision'' ''Run changed'' [(''current_run_revision'', current)])
     else if status = JStr ''TERMINAL'' then Inl (APIProblem 409 ''run_terminal'' ''Run is terminal'' [])
     else exn_bind (exn_bind (item_of run ''available_actions'') py_iter) (\<lambda>actions.
          if JStr command_type \<notin> set actions
          then Inl (APIProblem 409 ''command_not_available'' ''Command is not available'' [])
          else if command_type = ''RESUME'' \<and> status \<noteq> JStr ''PAUSED''
          then Inl (APIProblem 409 ''run_not_paused'' ''Run is not paused'' [])
          else if command_type = ''PAUSE'' \<and> status = JStr ''PAUSED''
          then Inl (APIProblem 409 ''run_already_paused'' ''Run is paused'' [])
          else Inr ())))"

definition is_open :: "jdict \<Rightarrow> exn + bool" where
  "is_open packet = exn_bind (item_of packet ''status'') (\<lambda>st. Inr (st = JStr ''OPEN''))"

fun any_open :: "jdict list \<Rightarrow> exn + bool" where
  "any_open [] = Inr False"
| "any_open (q # qs) = exn_bind (is_open q) (\<lambda>b. if b then Inr True else any_open qs)"

definition supersede :: "string \<Rightarrow> jdict \<Rightarrow> (world, unit) py" where
  "supersede run_id packet =
     seq (lift (is_open packet)) (\<lambda>b.
       if \<not> b then ret ()
       else seq (lift (string_of packet ''decision_packet_id'')) (\<lambda>packet_id.
            seq (lift (int_of packet ''wait_set_revision'')) (\<lambda>revision.
            seq (in_store (update_decision_packet run_id packet_id
                   [(''status'', JStr ''SUPERSEDED''), (''wait_set_revision'', JInt (revision + 1))])) (\<lambda>_.
              ret ()))))"

definition cancel_result :: "string \<Rightarrow> string \<Rightarrow> json \<Rightarrow> string \<Rightarrow> jdict" where
  "cancel_result manifest_id run_id refs completed_at =
     [(''result_manifest_id'', JStr manifest_id), (''run_id'', JStr run_id), (''outcome'', JStr ''CANCELED''),
      (''model_disposition'', JStr ''INCOMPLETE''), (''summary'', JStr ''The Run was canceled by the user.''),
      (''output_refs'', refs), (''partial'', JBool True), (''eligible_model'', JNull),
      (''reason'', JObj [(''code'', JStr ''USER_CANCELED''),
         (''message'', JStr ''Cancellation was requested through the public API.''), (''retriable'', JBool False),
         (''failed_gates'', JArr []), (''evidence_refs'', JArr []),
         (''remediation'', strs [''Create a new Run to start over.''])]),
      (''completed_at'', JStr completed_at)]"

definition cancel_run :: "workflow_service \<Rightarrow> string \<Rightarrow> jdict \<Rightarrow> (world, jdict) py" where
  "cancel_run sv run_id run =
     seq (in_store (list_decision_packets run_id)) (\<lambda>packets.
     seq (each (supersede run_id) packets) (\<lambda>_.
     seq (in_store (list_outputs run_id)) (\<lambda>outputs.
     seq (iso_now sv) (\<lambda>completed_at.
     seq (in_store (new_id ''result'')) (\<lambda>manifest_id.
     seq (lift (output_refs (sv_env sv) outputs)) (\<lambda>refs.
     seq (lift (item_of run ''stages'')) (\<lambda>old_stages.
     seq (iso_now sv) (\<lambda>canceled_at.
     seq (lift (canceled_stages canceled_at old_stages)) (\<lambda>stage_list.
     seq (lift (item_of run ''phase'')) (\<lambda>phase.
     seq (lift (int_of run ''run_revision'')) (\<lambda>revision.
     seq (in_store (finalize_run_with_result (sv_env sv) run_id
            (cancel_result manifest_id run_id refs completed_at)
            [(''status'', JStr ''TERMINAL''), (''outcome'', JStr ''CANCELED''), (''available_actions'', JArr []),
             (''blocking'', no_blocking), (''stages'', stage_list), (''updated_at'', JStr completed_at)]
            [run_event run_id completed_at ''run.canceled.v1''
               [(''outcome'', JStr ''CANCELED''), (''result_href'', JStr (run_href run_id @ ''/result'')),
                (''phase'', phase)]] (Some revision))) (\<lambda>(run, _, _).
       ret run))))))))))))"

definition switch_run :: "workflow_service \<Rightarrow> string \<Rightarrow> jdict \<Rightarrow> string \<Rightarrow> string list \<Rightarrow> (world, jdict) py" where
  "switch_run sv run_id run new_status actions =
     seq (lift (item_of run ''blocking'')) (\<lambda>blocking.
     seq (lift (item_of run ''stages'')) (\<lambda>stage_list.
     seq (iso_now sv) (\<lambda>now.
     seq (lift (int_of run ''run_revision'')) (\<lambda>revision.
     seq (in_store (update_run run_id
            [(''status'', JStr new_status), (''outcome'', JNull), (''available_actions'', strs actions),
             (''blocking'', blocking), (''stages'', stage_list), (''updated_at'', JStr now)]
            (Some revision) True)) (\<lambda>run.
     seq (lift (item_of run ''phase'')) (\<lambda>phase.
       emit sv run ''run.phase_changed.v1''
         [(''previous_phase'', phase), (''phase'', phase), (''status'', JStr new_status)]))))))"

definition resumed :: "bool \<Rightarrow> string \<times> string list" where
  "resumed open_packets =
     (if open_packets then (''WAITING_USER'', [''ANSWER'', ''PAUSE'', ''CANCEL'']) else (''RUNNING'', [''PAUSE'', ''CANCEL'']))"

definition control :: "workflow_service \<Rightarrow> principal \<Rightarrow> string \<Rightarrow> string \<Rightarrow> int option \<Rightarrow> (world, jdict) py" where
  "control sv p run_id command_type revision =
     seq (owned_run p run_id) (\<lambda>run.
     seq (lift (check_control run command_type revision)) (\<lambda>_.
     seq (new_command sv p run_id command_type) (\<lambda>command.
     seq (if command_type = ''PAUSE'' then switch_run sv run_id run ''PAUSED'' [''RESUME'', ''CANCEL'']
          else if command_type = ''RESUME''
          then seq (in_store (list_decision_packets run_id)) (\<lambda>packets.
               seq (lift (any_open packets)) (\<lambda>open_packets.
                 case resumed open_packets of (new_status, actions) \<Rightarrow> switch_run sv run_id run new_status actions))
          else cancel_run sv run_id run) (\<lambda>run.
       finish_command sv run_id command run))))"

definition pause :: "workflow_service \<Rightarrow> principal \<Rightarrow> string \<Rightarrow> int \<Rightarrow> (world, jdict) py" where
  "pause sv p run_id revision = control sv p run_id ''PAUSE'' (Some revision)"

definition resume :: "workflow_service \<Rightarrow> principal \<Rightarrow> string \<Rightarrow> int \<Rightarrow> (world, jdict) py" where
  "resume sv p run_id revision = control sv p run_id ''RESUME'' (Some revision)"

definition cancel :: "workflow_service \<Rightarrow> principal \<Rightarrow> string \<Rightarrow> (world, jdict) py" where
  "cancel sv p run_id = control sv p run_id ''CANCEL'' None"

end
