(* ===== verification/Workflow.thy ===== *)
theory Workflow
  imports Workflow_Runs
begin

text \<open>
  The workflow service (workflow.py), third part: what it shows of runs, decision packets,
  commands, results, outputs and artifacts, the context and the actions of an agent, and download
  tickets. \<open>workflow_op\<close> names every request with its arguments, and \<open>serve\<close> performs it.
\<close>

section \<open>Runs\<close>

definition svc_get_run :: "principal \<Rightarrow> string \<Rightarrow> (world, jdict) py" where
  "svc_get_run p run_id = seq (owned_run p run_id) (\<lambda>run. ret (public_run run))"

definition svc_list_runs :: "principal \<Rightarrow> (world, jdict list) py" where
  "svc_list_runs p =
     seq (in_store list_runs) (\<lambda>runs. ret (map public_run (of_tenant (tenant_id p) runs)))"

text \<open>\<open>status is None or packet["status"] == status\<close>.\<close>

fun with_status :: "string option \<Rightarrow> jdict list \<Rightarrow> exn + jdict list" where
  "with_status None ps = Inr ps"
| "with_status (Some st) [] = Inr []"
| "with_status (Some st) (q # qs) =
     exn_bind (item_of q ''status'') (\<lambda>v.
     exn_bind (with_status (Some st) qs) (\<lambda>rest. Inr (if v = JStr st then q # rest else rest)))"

definition svc_list_decision_packets :: "principal \<Rightarrow> string \<Rightarrow> string option \<Rightarrow> (world, jdict list) py" where
  "svc_list_decision_packets p run_id status =
     seq (owned_run p run_id) (\<lambda>_.
     seq (in_store (list_decision_packets run_id)) (\<lambda>packets.
     seq (lift (with_status status (of_tenant (tenant_id p) packets))) (\<lambda>selected.
       ret (map without_tenant selected))))"

section \<open>What an agent sees\<close>

definition open_packets :: "principal \<Rightarrow> jdict list \<Rightarrow> jdict list" where
  "open_packets p packets =
     filter (\<lambda>q. dget q ''status'' = JStr ''OPEN'') (of_tenant (tenant_id p) packets)"

text \<open>The sort key of an output: its sequence number, then its identifier.\<close>

definition output_key :: "py_env \<Rightarrow> jdict \<Rightarrow> exn + ((int \<times> string) \<times> jdict)" where
  "output_key env output =
     exn_bind (py_int (dget_or output ''created_seq'' (JInt 0))) (\<lambda>n.
     exn_bind (item_of output ''output_id'') (\<lambda>i. Inr ((n, py_str env i), output)))"

definition key_le :: "int \<times> string \<Rightarrow> int \<times> string \<Rightarrow> bool" where
  "key_le a b \<longleftrightarrow> fst a < fst b \<or> (fst a = fst b \<and> snd a \<le> snd b)"

fun insert_output :: "(int \<times> string) \<times> jdict \<Rightarrow> ((int \<times> string) \<times> jdict) list \<Rightarrow> ((int \<times> string) \<times> jdict) list" where
  "insert_output x [] = [x]"
| "insert_output x (y # ys) = (if key_le (fst x) (fst y) then x # y # ys else y # insert_output x ys)"

definition in_order :: "py_env \<Rightarrow> jdict list \<Rightarrow> exn + jdict list" where
  "in_order env outputs =
     exn_bind (traverse (output_key env) outputs) (\<lambda>ks. Inr (map snd (foldr insert_output ks [])))"

text \<open>\<open>xs[-n:]\<close>, which is everything for zero.\<close>

definition last_n :: "int \<Rightarrow> 'a list \<Rightarrow> 'a list" where
  "last_n n xs =
     (if n = 0 then xs else if 0 < n then drop (length xs - nat n) xs else drop (nat (- n)) xs)"

definition agent_context_dict ::
  "string \<Rightarrow> jdict \<Rightarrow> jdict \<Rightarrow> jdict list \<Rightarrow> json list \<Rightarrow> bool \<Rightarrow> int \<Rightarrow> bool \<Rightarrow> jdict" where
  "agent_context_dict run_id run objective packets refs truncated after_seq result_available =
     [(''schema_version'', JStr ''1.0''), (''run'', JObj (public_run run)), (''objective'', JObj objective),
      (''open_decision_packets'', JArr (map (\<lambda>q. JObj (without_tenant q)) packets)),
      (''recent_output_refs'', JArr refs), (''output_refs_truncated'', JBool truncated),
      (''event_checkpoint'', JObj [(''after_seq'', JInt after_seq),
         (''events_href'', JStr (run_href run_id @ ''/events''))]),
      (''result_available'', JBool result_available), (''contains_raw_dataset_rows'', JBool False),
      (''may_include_dataset_derived_values'', JBool True), (''dataset_derived_text_trust'', JStr ''UNTRUSTED''),
      (''actions_href'', JStr (run_href run_id @ ''/agent-actions'')),
      (''links'', JObj [(''run'', JStr (run_href run_id)), (''events'', JStr (run_href run_id @ ''/events'')),
         (''outputs'', JStr (run_href run_id @ ''/outputs'')), (''result'', JStr (run_href run_id @ ''/result''))])]"

definition get_agent_context :: "workflow_service \<Rightarrow> principal \<Rightarrow> string \<Rightarrow> int \<Rightarrow> (world, jdict) py" where
  "get_agent_context sv p run_id output_limit =
     seq (owned_run p run_id) (\<lambda>run.
     seq (lift (require_external_agent_policy run)) (\<lambda>_.
     seq (in_store (list_decision_packets run_id)) (\<lambda>packets.
     seq (in_store (list_outputs run_id)) (\<lambda>outputs.
     seq (lift (in_order (sv_env sv) (of_tenant (tenant_id p) outputs))) (\<lambda>visible.
     let selected = last_n output_limit visible in
     seq (in_store (get_result run_id)) (\<lambda>result.
     seq (lift (object_or_empty (py_or (dget run ''resolved_inputs'') (dget run ''objective'')))) (\<lambda>objective.
     seq (lift (traverse (output_ref (sv_env sv)) selected)) (\<lambda>refs.
     seq (lift (int_of run ''snapshot_seq'')) (\<lambda>after_seq.
       ret (agent_context_dict run_id run objective (open_packets p packets) refs
              (length visible > length selected) after_seq
              (dget run ''status'' = JStr ''TERMINAL'' \<and> result \<noteq> None)))))))))))"

definition get_agent_actions :: "workflow_service \<Rightarrow> principal \<Rightarrow> string \<Rightarrow> (world, jdict) py" where
  "get_agent_actions sv p run_id =
     seq (owned_run p run_id) (\<lambda>run.
     seq (lift (require_external_agent_policy run)) (\<lambda>_.
     seq (in_store (list_decision_packets run_id)) (\<lambda>packets.
     seq (lift (item_of run ''run_revision'')) (\<lambda>run_revision.
     seq (lift (agent_action_items (sv_env sv) run (open_packets p packets))) (\<lambda>items.
       ret [(''schema_version'', JStr ''1.0''), (''run_id'', JStr run_id), (''run_revision'', run_revision),
            (''items'', JArr (map JObj items))])))))"

section \<open>Commands, results, outputs and artifacts\<close>

definition svc_get_command :: "principal \<Rightarrow> string \<Rightarrow> (world, jdict) py" where
  "svc_get_command p command_id =
     seq (in_store (get_command command_id)) (\<lambda>found.
     seq (lift (owned found p)) (\<lambda>command. ret (public_command command)))"

definition svc_get_result :: "principal \<Rightarrow> string \<Rightarrow> (world, jdict) py" where
  "svc_get_result p run_id =
     seq (owned_run p run_id) (\<lambda>run.
     seq (in_store (get_result run_id)) (\<lambda>result.
     seq (lift (item_of run ''status'')) (\<lambda>status.
       case result of
         Some r \<Rightarrow>
           if status \<noteq> JStr ''TERMINAL''
           then raise (APIProblem 409 ''run_not_terminal'' ''Run is not terminal'' [])
           else ret r
       | None \<Rightarrow> raise (APIProblem 409 ''run_not_terminal'' ''Run is not terminal'' []))))"

definition svc_list_outputs :: "principal \<Rightarrow> string \<Rightarrow> (world, jdict list) py" where
  "svc_list_outputs p run_id =
     seq (owned_run p run_id) (\<lambda>_.
     seq (in_store (list_outputs run_id)) (\<lambda>outputs. ret (map without_tenant outputs)))"

definition svc_get_output :: "principal \<Rightarrow> string \<Rightarrow> string \<Rightarrow> (world, jdict) py" where
  "svc_get_output p run_id output_id =
     seq (owned_run p run_id) (\<lambda>_.
     seq (in_store (get_output run_id output_id)) (\<lambda>found.
     seq (lift (owned found p)) (\<lambda>output. ret (without_tenant output))))"

definition artifact_gone :: exn where
  "artifact_gone = APIProblem 410 ''artifact_gone'' ''Artifact is unavailable'' []"

definition owned_artifact :: "principal \<Rightarrow> string \<Rightarrow> (world, jdict) py" where
  "owned_artifact p artifact_id =
     seq (in_store (get_artifact artifact_id)) (\<lambda>found. lift (owned found p))"

definition svc_get_artifact :: "principal \<Rightarrow> string \<Rightarrow> (world, jdict) py" where
  "svc_get_artifact p artifact_id =
     seq (owned_artifact p artifact_id) (\<lambda>artifact.
     seq (fail_if (dget artifact ''state'' \<noteq> JStr ''COMMITTED'') artifact_gone) (\<lambda>_.
       ret (without_tenant artifact)))"

definition ticket_dict ::
  "string \<Rightarrow> string \<Rightarrow> string \<Rightarrow> string \<Rightarrow> jdict \<Rightarrow> exn + jdict" where
  "ticket_dict ticket_id artifact_id url expires_at artifact =
     exn_bind (item_of artifact ''etag'') (\<lambda>etag.
     exn_bind (item_of artifact ''sha256'') (\<lambda>sha256.
     exn_bind (item_of artifact ''size_bytes'') (\<lambda>size_bytes.
     exn_bind (item_of artifact ''supports_range'') (\<lambda>supports_range.
       Inr [(''ticket_id'', JStr ticket_id), (''artifact_id'', JStr artifact_id), (''url'', JStr url),
            (''expires_in_seconds'', JInt 900), (''expires_at'', JStr expires_at),
            (''required_headers'', JObj [(''If-Match'', etag)]), (''etag'', etag), (''sha256'', sha256),
            (''size_bytes'', size_bytes), (''supports_range'', supports_range)]))))"

definition create_download_ticket :: "workflow_service \<Rightarrow> principal \<Rightarrow> string \<Rightarrow> string \<Rightarrow> (world, jdict) py" where
  "create_download_ticket sv p artifact_id public_base_url =
     seq (owned_artifact p artifact_id) (\<lambda>artifact.
     seq (lift (item_of artifact ''state'')) (\<lambda>state.
     seq (fail_if (state \<noteq> JStr ''COMMITTED'') artifact_gone) (\<lambda>_.
     seq (in_store (new_id ''ticket'')) (\<lambda>ticket_id.
     seq (utcnow sv) (\<lambda>now.
     seq (lift (string_of artifact ''etag'')) (\<lambda>etag.
     seq (random_hex sv) (\<lambda>random.
     let token = bs_download_token (sv_blobs sv) random artifact_id (tenant_id p) etag (\<lfloor>now\<rfloor> + 900);
         url = (if bs_durable (sv_blobs sv)
                then py_rstrip (CHR ''/'') public_base_url @ ''/v1/artifact-downloads/'' @ token
                else ''https://downloads.invalid/tickets/'' @ ticket_id)
     in seq (iso_in sv 900) (\<lambda>expires_at.
          lift (ticket_dict ticket_id artifact_id url expires_at artifact)))))))))"

section \<open>Requests\<close>

datatype workflow_op =
    W_CreateDataset jdict string
  | W_SignUploadParts string jdict string
  | W_PutUploadPart string string int "chunk list"
  | W_FinalizeDataset string jdict
  | W_GetDatasetVersion string
  | W_CreateRun jdict
  | W_GetRun string
  | W_ListRuns
  | W_ListDecisionPackets string "string option"
  | W_GetAgentContext string int
  | W_GetAgentActions string
  | W_Answer string string int jdict
  | W_Pause string int
  | W_Resume string int
  | W_Cancel string
  | W_GetCommand string
  | W_GetResult string
  | W_ListOutputs string
  | W_GetOutput string string
  | W_GetArtifact string
  | W_CreateDownloadTicket string string

definition as_unit :: "('s, 'a) py \<Rightarrow> ('s, unit) py" where
  "as_unit m = seq m (\<lambda>_. ret ())"

fun serve :: "workflow_service \<Rightarrow> principal \<Rightarrow> workflow_op \<Rightarrow> (world, unit) py" where
  "serve sv p (W_CreateDataset r b) = as_unit (svc_create_dataset sv p r b)"
| "serve sv p (W_SignUploadParts v r b) = as_unit (sign_upload_parts sv p v r b)"
| "serve sv p (W_PutUploadPart v u n cs) = as_unit (svc_put_upload_part sv p v u n cs)"
| "serve sv p (W_FinalizeDataset v r) = as_unit (finalize_dataset sv p v r)"
| "serve sv p (W_GetDatasetVersion v) = as_unit (svc_get_dataset_version p v)"
| "serve sv p (W_CreateRun r) = as_unit (svc_create_run sv p r)"
| "serve sv p (W_GetRun r) = as_unit (svc_get_run p r)"
| "serve sv p W_ListRuns = as_unit (svc_list_runs p)"
| "serve sv p (W_ListDecisionPackets r st) = as_unit (svc_list_decision_packets p r st)"
| "serve sv p (W_GetAgentContext r n) = as_unit (get_agent_context sv p r n)"
| "serve sv p (W_GetAgentActions r) = as_unit (get_agent_actions sv p r)"
| "serve sv p (W_Answer r ws n a) = as_unit (answer sv p r ws n a)"
| "serve sv p (W_Pause r n) = as_unit (pause sv p r n)"
| "serve sv p (W_Resume r n) = as_unit (resume sv p r n)"
| "serve sv p (W_Cancel r) = as_unit (cancel sv p r)"
| "serve sv p (W_GetCommand c) = as_unit (svc_get_command p c)"
| "serve sv p (W_GetResult r) = as_unit (svc_get_result p r)"
| "serve sv p (W_ListOutputs r) = as_unit (svc_list_outputs p r)"
| "serve sv p (W_GetOutput r i) = as_unit (svc_get_output p r i)"
| "serve sv p (W_GetArtifact a) = as_unit (svc_get_artifact p a)"
| "serve sv p (W_CreateDownloadTicket a b) = as_unit (create_download_ticket sv p a b)"

end
