(* ===== verification/Store_Collections.thy ===== *)
theory Store_Collections
  imports Store_Ops
begin

text \<open>
  The contract of a keyed collection of the store, as a locale: \<open>get\<close> reads the collection
  from the state, \<open>upd\<close> changes it, and both leave the identifier counters alone. Inside,
  what the operations \<open>create_locked\<close>, \<open>get_locked\<close> and \<open>update_locked\<close> promise is proved
  once; the interpretations give it for each table of the store.
\<close>

section \<open>The three helpers, by outcome\<close>

lemma apply_fixed_Inr:
  "apply_fixed resource fixed item = Inr item' \<Longrightarrow> distinct (map fst fixed) \<Longrightarrow>
     (\<forall>f v. map_of fixed f = Some v \<longrightarrow> map_of item' f = Some v) \<and>
     (\<forall>f. f \<notin> fst ` set fixed \<longrightarrow> map_of item' f = map_of item f)"
proof (induction fixed arbitrary: item)
  case Nil
  then show ?case by simp
next
  case (Cons p fixed)
  obtain f v where p: "p = (f, v)" by (cases p)
  from Cons.prems have rest: "apply_fixed resource fixed (dput f v item) = Inr item'"
    by (auto simp: p Let_def split: if_splits)
  from Cons.IH [OF rest] Cons.prems(2) show ?case
    by (auto simp: p)
qed

lemma new_id_locked_Inr: "\<exists>rid. new_id_locked p s = (Inr rid, post (new_id_locked p) s)"
  by (simp add: new_id_locked_def Let_def)

lemma format_id_nonempty [simp]: "format_id p n \<noteq> []"
  by (simp add: format_id_def)

text \<open>The condition under which an item enters a collection.\<close>

definition creatable ::
  "string \<Rightarrow> (string \<times> json) list \<Rightarrow> jdict \<Rightarrow> coll \<Rightarrow> string \<Rightarrow> jdict \<Rightarrow> bool" where
  "creatable id_field fixed value c rid item \<longleftrightarrow>
     rid \<noteq> [] \<and> dget item id_field = JStr rid \<and> \<not> has_key c rid \<and>
     (\<forall>f v. map_of fixed f = Some v \<longrightarrow> f \<noteq> id_field \<longrightarrow> map_of item f = Some v) \<and>
     (\<forall>f. f \<notin> fst ` set fixed \<longrightarrow> f \<noteq> id_field \<longrightarrow> map_of item f = map_of value f)"

lemma with_id_triple:
  assumes step: "\<And>s p. P s \<Longrightarrow> P (post (new_id_locked p) s)"
  shows "triple P (with_id id_field kind item)
           (\<lambda>item' s. P s \<and> (\<forall>f. f \<noteq> id_field \<longrightarrow> map_of item' f = map_of item f)) P"
proof -
  have "triple P (new_id_of_kind kind) (\<lambda>_. P) P"
    unfolding new_id_of_kind_def triple_def
  proof (intro allI impI)
    fix s assume "P s"
    then show "case (case map_of id_prefixes kind of None \<Rightarrow> raise (KeyError kind)
                 | Some p \<Rightarrow> new_id_locked p) s of
                 (Inl _, t) \<Rightarrow> P t | (Inr _, t) \<Rightarrow> P t"
      by (cases "map_of id_prefixes kind") (auto simp: py_run case_prod_beta step)
  qed
  from this show ?thesis
    unfolding with_id_def
    by (cases "dget item id_field = JNull")
       (auto simp: triple_def py_run split: prod.splits sum.splits)
qed

lemma insert_new_triple:
  assumes ins: "\<And>s rid. P s \<Longrightarrow> rid \<noteq> [] \<Longrightarrow> dget item id_field = JStr rid \<Longrightarrow>
                 \<not> has_key (get s) rid \<Longrightarrow> Q item (upd (dput rid item) s)"
  shows "triple P (insert_new get upd id_field resource item) Q P"
  using assms unfolding insert_new_def
  by (auto simp: triple_def py_run split: json.splits)

text \<open>
  What \<open>create_locked\<close> does to a property of the state that survives drawing identifiers:
  it raises and keeps the property, or inserts an item that fits.
\<close>

lemma create_locked_triple:
  assumes step: "\<And>s p. P s \<Longrightarrow> P (post (new_id_locked p) s)"
    and ins: "\<And>s rid item. P s \<Longrightarrow> creatable id_field fixed value (get s) rid item \<Longrightarrow>
                Q item (upd (dput rid item) s)"
    and fixed: "distinct (map fst fixed)"
  shows "triple P (create_locked get upd id_field kind resource fixed value) Q P"
  unfolding create_locked_def
proof (rule triple_seq)
  show "triple P (lift (apply_fixed resource fixed value))
          (\<lambda>item s. P s \<and> apply_fixed resource fixed value = Inr item) P"
    by (rule triple_lift) auto
next
  fix item
  show "triple (\<lambda>s. P s \<and> apply_fixed resource fixed value = Inr item)
          (seq (with_id id_field kind item) (insert_new get upd id_field resource)) Q P"
  proof (rule triple_pre)
    fix s0 assume s0: "P s0 \<and> apply_fixed resource fixed value = Inr item"
    note item = apply_fixed_Inr [OF conjunct2 [OF s0] fixed]
    have "triple P (seq (with_id id_field kind item) (insert_new get upd id_field resource)) Q P"
    proof (rule triple_seq, rule with_id_triple)
      show "P s \<Longrightarrow> P (post (new_id_locked p) s)" for s p by (rule step)
    next
      fix item'
      show "triple (\<lambda>s. P s \<and> (\<forall>f. f \<noteq> id_field \<longrightarrow> map_of item' f = map_of item f))
              (insert_new get upd id_field resource item') Q P"
      proof (rule triple_pre)
        fix s1 assume s1: "P s1 \<and> (\<forall>f. f \<noteq> id_field \<longrightarrow> map_of item' f = map_of item f)"
        have "triple P (insert_new get upd id_field resource item') Q P"
          by (rule insert_new_triple, rule ins) (use item s1 in \<open>auto simp: creatable_def\<close>)
        then show "triple (\<lambda>t. t = s1) (insert_new get upd id_field resource item') Q P"
          by (rule triple_weaken) (use s1 in auto)
      qed
    qed
    then show "triple (\<lambda>t. t = s0)
        (seq (with_id id_field kind item) (insert_new get upd id_field resource)) Q P"
      by (rule triple_weaken) (use s0 in auto)
  qed
qed

text \<open>Creation does not touch a part of the state that its table and the counters leave alone.\<close>

lemma create_frame:
  assumes "\<And>f s. h (upd f s) = h s" and "\<And>g s. h (st_id_counters_update g s) = h s"
    and "distinct (map fst fixed)"
  shows "h (post (create_locked get upd id_field kind resource fixed value) s) = h s"
proof -
  have "triple (\<lambda>t. h t = h s) (create_locked get upd id_field kind resource fixed value)
          (\<lambda>_ t. h t = h s) (\<lambda>t. h t = h s)"
    by (rule create_locked_triple) (use assms in \<open>auto simp: new_id_locked_def Let_def\<close>)
  from triple_post [OF this] show ?thesis by simp
qed

lemma update_locked_run:
  "update_locked get upd id_field resource rid updates s =
     (case map_of (get s) rid of
        None \<Rightarrow> (Inl (ResourceNotFound resource rid), s)
      | Some current \<Rightarrow>
          (case patch_without_id resource id_field rid updates of
             Inl e \<Rightarrow> (Inl e, s)
           | Inr patch \<Rightarrow>
               (Inr (dupdate current patch), upd (dput rid (dupdate current patch)) s)))"
  by (auto simp: update_locked_def py_run Let_def split: option.splits sum.splits)

lemma patch_without_id_Inr:
  "patch_without_id resource id_field rid updates = Inr patch \<Longrightarrow> patch = dpop id_field updates"
  by (auto simp: patch_without_id_def split: if_splits)

lemma map_of_patched_id [simp]:
  "map_of (dupdate current (dpop f updates)) f = map_of current f"
  by (rule map_of_dupdate_other) simp

lemma map_of_patched_other:
  "f \<notin> fst ` set updates \<Longrightarrow> map_of (dupdate current (dpop g updates)) f = map_of current f"
  by (rule map_of_dupdate_other) (metis (no_types, lifting) delete_keys image_eqI image_iff list.set_map
      notin_set_remove1 removeAll_filter_not_eq filter_is_subset subsetD)

section \<open>Keyed collections\<close>

text \<open>Every item is filed under the identifier it carries, and under no other.\<close>

definition keyed :: "string \<Rightarrow> coll \<Rightarrow> bool" where
  "keyed f c \<longleftrightarrow> distinct (map fst c) \<and>
     (\<forall>k item. map_of c k = Some item \<longrightarrow> k \<noteq> [] \<and> dget item f = JStr k)"

lemma keyed_Nil [simp]: "keyed f []"
  by (simp add: keyed_def)

lemma keyed_dput [intro]:
  "keyed f c \<Longrightarrow> k \<noteq> [] \<Longrightarrow> dget item f = JStr k \<Longrightarrow> keyed f (dput k item c)"
  by (auto simp: keyed_def)

lemma keyed_creatable [intro]:
  "keyed f c \<Longrightarrow> creatable f fixed value c k item \<Longrightarrow> keyed f (dput k item c)"
  by (auto simp: creatable_def)

lemma keyed_patched [intro]:
  "keyed f c \<Longrightarrow> map_of c k = Some item \<Longrightarrow> keyed f (dput k (dupdate item (dpop f patch)) c)"
  by (rule keyed_dput) (auto simp: keyed_def dget_def)

section \<open>The contract\<close>

locale collection =
  fixes get :: "store \<Rightarrow> coll"
    and upd :: "(coll \<Rightarrow> coll) \<Rightarrow> store \<Rightarrow> store"
    and ok :: "store \<Rightarrow> bool"
  assumes get_upd: "ok s \<Longrightarrow> get (upd f s) = f (get s)"
    and ok_upd: "ok s \<Longrightarrow> ok (upd f s)"
    and counters_upd: "st_id_counters (upd f s) = st_id_counters s"
    and get_counters: "get (st_id_counters_update g s) = get s"
    and ok_counters: "ok (st_id_counters_update g s) = ok s"
begin

lemma get_new_id: "get (post (new_id_locked p) s) = get s"
  and ok_new_id: "ok (post (new_id_locked p) s) = ok s"
  using get_counters [of "\<lambda>_. c" s for c] ok_counters [of "\<lambda>_. c" s for c]
  by (simp_all add: new_id_locked_def Let_def)

text \<open>
  A successful creation appends exactly one item, filed under its own identifier, and reads
  back as what was returned; every other entry is as before.
\<close>

lemma create_Inr:
  assumes run: "create_locked get upd id_field kind resource fixed value s = (Inr item, s')"
    and "distinct (map fst fixed)" and "ok s"
  shows "\<exists>rid. creatable id_field fixed value (get s) rid item \<and> get s' = get s @ [(rid, item)]
           \<and> ok s'"
proof -
  let ?P = "\<lambda>t. get t = get s \<and> ok t"
  let ?Q = "\<lambda>x t. \<exists>rid. creatable id_field fixed value (get s) rid x
                   \<and> get t = get s @ [(rid, x)] \<and> ok t"
  have "triple ?P (create_locked get upd id_field kind resource fixed value) ?Q ?P"
    by (rule create_locked_triple)
       (use assms(2) in \<open>auto simp: get_upd ok_upd creatable_def dput_fresh get_new_id ok_new_id\<close>)
  from triple_Inr [OF this _ run] show ?thesis using assms(3) by simp
qed

text \<open>A refused creation leaves the collection as it was.\<close>

lemma create_Inl:
  assumes run: "create_locked get upd id_field kind resource fixed value s = (Inl e, s')"
    and "distinct (map fst fixed)" and "ok s"
  shows "get s' = get s \<and> ok s'"
proof -
  let ?P = "\<lambda>t. get t = get s \<and> ok t"
  have "triple ?P (create_locked get upd id_field kind resource fixed value) (\<lambda>_ _. True) ?P"
    by (rule create_locked_triple) (use assms(2) in \<open>auto simp: get_new_id ok_new_id\<close>)
  from triple_Inl [OF this _ run] show ?thesis using assms(3) by simp
qed

lemma get_after_create:
  assumes "create_locked get upd id_field kind resource fixed value s = (Inr item, s')"
    and "distinct (map fst fixed)" and "ok s" and "dget item id_field = JStr rid"
  shows "get_locked get rid s' = (Inr (Some item), s')"
    and "k \<noteq> rid \<Longrightarrow> get_locked get k s' = (Inr (map_of (get s) k), s')"
  using create_Inr [OF assms(1-3)] assms(4)
  by (auto simp: get_locked_def py_run creatable_def has_key_def map_add_def split: option.splits)

text \<open>A second creation under a used identifier is refused and changes nothing.\<close>

lemma create_twice:
  assumes "has_key (get s) rid" and "map_of value id_field = Some (JStr rid)" and "rid \<noteq> []"
  shows "create_locked get upd id_field kind resource [] value s
           = (Inl (ResourceAlreadyExists resource rid), s)"
  using assms
  by (simp add: create_locked_def with_id_def insert_new_def py_run dget_def)

text \<open>
  An update reads back as what was returned, keeps the identifier, keeps every key in its
  place and leaves the other items alone; an update of a missing item is refused.
\<close>

lemma update_Inr:
  assumes "update_locked get upd id_field resource rid updates s = (Inr item, s')" and "ok s"
  shows "get s' = dput rid item (get s)"
    and "map fst (get s') = map fst (get s)"
    and "\<exists>current. map_of (get s) rid = Some current \<and>
           item = dupdate current (dpop id_field updates) \<and>
           map_of item id_field = map_of current id_field"
  using assms
  by (auto simp: update_locked_run get_upd update_keys has_key_iff dest!: patch_without_id_Inr
           split: option.splits sum.splits) (force dest: map_of_SomeD)+

lemma update_Inl:
  "update_locked get upd id_field resource rid updates s = (Inl e, s') \<Longrightarrow> s' = s"
  by (auto simp: update_locked_run split: option.splits sum.splits)

lemma get_after_update:
  assumes "update_locked get upd id_field resource rid updates s = (Inr item, s')" and "ok s"
  shows "get_locked get rid s' = (Inr (Some item), s')"
    and "k \<noteq> rid \<Longrightarrow> get_locked get k s' = (Inr (map_of (get s) k), s')"
  using update_Inr(1) [OF assms] by (auto simp: get_locked_def py_run)

lemma update_missing:
  "map_of (get s) rid = None \<Longrightarrow>
     update_locked get upd id_field resource rid updates s
       = (Inl (ResourceNotFound resource rid), s)"
  by (simp add: update_locked_run)

end

section \<open>The tables of the store\<close>

interpretation datasets: collection st_datasets st_datasets_update "\<lambda>_. True"
  by unfold_locales simp_all

interpretation versions: collection st_dataset_versions st_dataset_versions_update "\<lambda>_. True"
  by unfold_locales simp_all

interpretation runs: collection st_runs st_runs_update "\<lambda>_. True"
  by unfold_locales simp_all

interpretation commands: collection st_commands st_commands_update "\<lambda>_. True"
  by unfold_locales simp_all

interpretation artifacts: collection st_artifacts st_artifacts_update "\<lambda>_. True"
  by unfold_locales simp_all

interpretation model_table: collection st_models st_models_update "\<lambda>_. True"
  by unfold_locales simp_all

interpretation endpoints: collection st_webhook_endpoints st_webhook_endpoints_update "\<lambda>_. True"
  by unfold_locales simp_all

interpretation deletions: collection st_deletions st_deletions_update "\<lambda>_. True"
  by unfold_locales simp_all

text \<open>
  A table that holds one collection per run or per endpoint: each of its entries that
  exists satisfies the contract.
\<close>

lemma has_key_alter [simp]: "has_key (alter k f t) j = has_key t j"
  by (auto simp: alter_def has_key_def split: option.splits)

lemma map_of_alter:
  "map_of (alter k f t) j = (if j = k then map_option f (map_of t k) else map_of t j)"
  by (auto simp: alter_def split: option.splits)

lemma distinct_alter [simp]: "distinct (map fst t) \<Longrightarrow> distinct (map fst (alter k f t))"
  by (auto simp: alter_def split: option.splits)

locale nested_table =
  fixes tab :: "store \<Rightarrow> nested" and tab_upd :: "(nested \<Rightarrow> nested) \<Rightarrow> store \<Rightarrow> store"
  assumes tab_upd: "tab (tab_upd g s) = g (tab s)"
    and counters_tab_upd: "st_id_counters (tab_upd g s) = st_id_counters s"
    and tab_counters: "tab (st_id_counters_update h s) = tab s"
begin

lemma has_key_in_sub [simp]: "has_key (tab (in_sub tab_upd k f s)) j = has_key (tab s) j"
  by (simp add: in_sub_def tab_upd)

lemma sub_in_sub: "has_key (tab s) k \<Longrightarrow> sub tab k (in_sub tab_upd k f s) = f (sub tab k s)"
  by (auto simp: sub_def in_sub_def alter_def tab_upd has_key_def split: option.splits)

lemma sub_in_sub_other: "j \<noteq> k \<Longrightarrow> sub tab j (in_sub tab_upd k f s) = sub tab j s"
  by (auto simp: sub_def in_sub_def alter_def tab_upd split: option.splits)

lemma ensure_sub_existing:
  assumes "has_key (tab s) k" shows "tab (post (ensure_sub tab_upd k) s) = tab s"
  using assms by (simp add: ensure_sub_def py_run tab_upd dset_default_def)

end

sublocale nested_table \<subseteq> entry: collection "sub tab k" "in_sub tab_upd k" "\<lambda>s. has_key (tab s) k" for k
proof (unfold_locales, goal_cases)
  case (1 s f) then show ?case by (rule sub_in_sub)
next
  case (2 s f) then show ?case by simp
next
  case (3 f s) show ?case by (simp add: in_sub_def counters_tab_upd)
next
  case (4 g s) show ?case by (simp add: sub_def tab_counters)
next
  case (5 g s) show ?case by (simp add: tab_counters)
qed

interpretation outputs: nested_table st_outputs st_outputs_update
  by unfold_locales simp_all

interpretation packets: nested_table st_decision_packets st_decision_packets_update
  by unfold_locales simp_all

interpretation approvals: nested_table st_approvals st_approvals_update
  by unfold_locales simp_all

interpretation deliveries: nested_table st_webhook_deliveries st_webhook_deliveries_update
  by unfold_locales simp_all

end
