(* ===== verification/Store_Idempotency.thy ===== *)
theory Store_Idempotency
  imports Store_Ops
begin

text \<open>
  Idempotency reservation and replay (store.py): \<open>begin_idempotent_request\<close>,
  \<open>get_idempotency\<close>, \<open>complete_idempotent_request\<close> and \<open>abort_idempotent_request\<close>. Waiting
  for a concurrent request (\<open>wait_for_idempotent_response\<close>) polls \<open>get_idempotency\<close> and is
  not modelled.
\<close>

datatype idem_state = NEW | IN_PROGRESS | REPLAY | CONFLICT | MISS

record idem_decision =
  state :: idem_state
  asked_fingerprint :: string
  replayed :: "stored_response option"
  existing_fingerprint :: "string option"

definition decision :: "idem_state \<Rightarrow> string \<Rightarrow> idem_decision" where
  "decision st fp =
     \<lparr>state = st, asked_fingerprint = fp, replayed = None, existing_fingerprint = None\<rparr>"

definition idempotency_identity ::
  "string \<Rightarrow> string \<Rightarrow> string \<Rightarrow> exn + (string \<times> string)" where
  "idempotency_identity operation key fp =
     (if operation = [] then Inl (ValueError ''operation must not be empty'')
      else if key = [] then Inl (ValueError ''idempotency key must not be empty'')
      else if fp = [] then Inl (ValueError ''request fingerprint must not be empty'')
      else Inr (operation, key))"

definition idempotency_decision :: "idem_record \<Rightarrow> string \<Rightarrow> idem_decision" where
  "idempotency_decision rec fp =
     (if request_fingerprint rec \<noteq> fp
      then (decision CONFLICT fp)\<lparr>existing_fingerprint := Some (request_fingerprint rec)\<rparr>
      else case response rec of
             None \<Rightarrow> decision IN_PROGRESS fp
           | Some r \<Rightarrow> (decision REPLAY fp)\<lparr>replayed := Some r\<rparr>)"

definition idem_lookup :: "string \<times> string \<Rightarrow> (store, idem_record option) py" where
  "idem_lookup ident = gets (\<lambda>s. map_of (st_idempotency s) ident)"

definition idem_put :: "string \<times> string \<Rightarrow> idem_record \<Rightarrow> (store, unit) py" where
  "idem_put ident rec = modify (st_idempotency_update (AList.update ident rec))"

definition begin_idempotent_request ::
  "string \<Rightarrow> string \<Rightarrow> string \<Rightarrow> (store, idem_decision) py" where
  "begin_idempotent_request operation key fp =
     seq (lift (idempotency_identity operation key fp)) (\<lambda>ident.
     seq (idem_lookup ident) (\<lambda>found.
       case found of
         None \<Rightarrow>
           seq (idem_put ident \<lparr>request_fingerprint = fp, response = None\<rparr>) (\<lambda>_.
             ret (decision NEW fp))
       | Some rec \<Rightarrow> ret (idempotency_decision rec fp)))"

definition get_idempotency ::
  "string \<Rightarrow> string \<Rightarrow> string \<Rightarrow> (store, idem_decision) py" where
  "get_idempotency operation key fp =
     seq (lift (idempotency_identity operation key fp)) (\<lambda>ident.
     seq (idem_lookup ident) (\<lambda>found.
       case found of
         None \<Rightarrow> ret (decision MISS fp)
       | Some rec \<Rightarrow> ret (idempotency_decision rec fp)))"

definition complete_idempotent_request ::
  "string \<Rightarrow> string \<Rightarrow> string \<Rightarrow> stored_response \<Rightarrow> (store, stored_response) py" where
  "complete_idempotent_request operation key fp resp =
     seq (lift (idempotency_identity operation key fp)) (\<lambda>ident.
     seq (idem_lookup ident) (\<lambda>found.
     seq (case found of
            None \<Rightarrow>
              (let rec = \<lparr>request_fingerprint = fp, response = None\<rparr>
               in seq (idem_put ident rec) (\<lambda>_. ret rec))
          | Some rec \<Rightarrow> ret rec) (\<lambda>rec.
     seq (fail_if (request_fingerprint rec \<noteq> fp)
            (IdempotencyConflict operation key fp (request_fingerprint rec))) (\<lambda>_.
       case response rec of
         Some r \<Rightarrow> ret r
       | None \<Rightarrow>
           seq (idem_put ident (rec\<lparr>response := Some resp\<rparr>)) (\<lambda>_. ret resp)))))"

definition abort_idempotent_request ::
  "string \<Rightarrow> string \<Rightarrow> string \<Rightarrow> (store, bool) py" where
  "abort_idempotent_request operation key fp =
     seq (lift (idempotency_identity operation key fp)) (\<lambda>ident.
     seq (idem_lookup ident) (\<lambda>found.
       case found of
         None \<Rightarrow> ret False
       | Some rec \<Rightarrow>
           seq (fail_if (request_fingerprint rec \<noteq> fp)
                  (IdempotencyConflict operation key fp (request_fingerprint rec))) (\<lambda>_.
           if response rec \<noteq> None then ret False
           else seq (modify (st_idempotency_update (AList.delete ident))) (\<lambda>_. ret True))))"

section \<open>Clearing the store\<close>

text \<open>\<open>reset\<close> clears every table and the counters (and wakes the waiters, not modelled).\<close>

definition reset :: "(store, unit) py" where
  "reset =
     modify (\<lambda>s. s\<lparr>st_id_counters := [], st_datasets := [], st_dataset_versions := [],
       st_runs := [], st_events := [], st_event_ids := [], st_outputs := [],
       st_decision_packets := [], st_commands := [], st_results := [], st_artifacts := [],
       st_approvals := [], st_models := [], st_webhook_endpoints := [],
       st_webhook_deliveries := [], st_deletions := [], st_idempotency := []\<rparr>)"

lemma reset_run: "reset s = (Inr (), empty_store)"
  by (simp add: reset_def py_run empty_store_def)

end
