(* ===== verification/Store_Invariant.thy ===== *)
theory Store_Invariant
  imports Store_Collections Store_Events Store_Idempotency
begin

text \<open>
  The well-formedness of the whole store: every resource is filed under the identifier it
  carries, every child under a parent that exists, and every run has its log, its index and
  its three collections, so that no operation meets a missing entry. \<open>store_op\<close> lists the
  mutating operations of \<open>InMemoryStore\<close>; each of them keeps well-formedness, whether it
  returns or raises.
\<close>

section \<open>Well-formedness\<close>

definition same_keys :: "('k \<times> 'a) list \<Rightarrow> ('k \<times> 'b) list \<Rightarrow> bool" where
  "same_keys a b \<longleftrightarrow> (\<forall>k. has_key b k \<longleftrightarrow> has_key a k)"

definition children_keyed :: "string \<Rightarrow> string \<Rightarrow> nested \<Rightarrow> bool" where
  "children_keyed f parent t \<longleftrightarrow> distinct (map fst t) \<and>
     (\<forall>p c. map_of t p = Some c \<longrightarrow>
        keyed f c \<and> (\<forall>k item. map_of c k = Some item \<longrightarrow> dget item parent = JStr p))"

definition versions_owned :: "coll \<Rightarrow> coll \<Rightarrow> bool" where
  "versions_owned ds vs \<longleftrightarrow>
     (\<forall>k v. map_of vs k = Some v \<longrightarrow> (\<exists>d. map_of v ''dataset_id'' = Some (JStr d) \<and> has_key ds d))"

definition results_owned :: "coll \<Rightarrow> coll \<Rightarrow> bool" where
  "results_owned rs results \<longleftrightarrow>
     (\<forall>k r. map_of results k = Some r \<longrightarrow> dget r ''run_id'' = JStr k \<and> has_key rs k)"

definition keys_within :: "(string \<times> 'a) list \<Rightarrow> (string \<times> 'b) list \<Rightarrow> bool" where
  "keys_within a b \<longleftrightarrow> (\<forall>k. has_key a k \<longrightarrow> has_key b k)"

definition wf_store :: "store \<Rightarrow> bool" where
  "wf_store s \<longleftrightarrow>
     keyed ''dataset_id'' (st_datasets s) \<and>
     keyed ''dataset_version_id'' (st_dataset_versions s) \<and>
     versions_owned (st_datasets s) (st_dataset_versions s) \<and>
     keyed ''run_id'' (st_runs s) \<and>
     same_keys (st_runs s) (st_events s) \<and>
     same_keys (st_runs s) (st_event_ids s) \<and>
     same_keys (st_runs s) (st_outputs s) \<and>
     same_keys (st_runs s) (st_decision_packets s) \<and>
     same_keys (st_runs s) (st_approvals s) \<and>
     children_keyed ''output_id'' ''run_id'' (st_outputs s) \<and>
     children_keyed ''decision_packet_id'' ''run_id'' (st_decision_packets s) \<and>
     children_keyed ''approval_id'' ''run_id'' (st_approvals s) \<and>
     keyed ''command_id'' (st_commands s) \<and>
     results_owned (st_runs s) (st_results s) \<and>
     keyed ''artifact_id'' (st_artifacts s) \<and>
     keyed ''model_id'' (st_models s) \<and>
     keyed ''webhook_endpoint_id'' (st_webhook_endpoints s) \<and>
     children_keyed ''delivery_id'' ''webhook_endpoint_id'' (st_webhook_deliveries s) \<and>
     keys_within (st_webhook_deliveries s) (st_webhook_endpoints s) \<and>
     keyed ''deletion_id'' (st_deletions s)"

lemma wf_empty_store: "wf_store empty_store"
  by (simp add: wf_store_def empty_store_def same_keys_def children_keyed_def versions_owned_def
      results_owned_def keys_within_def has_key_def)

text \<open>What the parts of the invariant know about updates of the tables.\<close>

lemma same_keys_dput [intro]: "same_keys a b \<Longrightarrow> has_key a k \<Longrightarrow> same_keys a (dput k x b)"
  by (auto simp: same_keys_def)

lemma same_keys_dput_left [intro]: "same_keys a b \<Longrightarrow> has_key a k \<Longrightarrow> same_keys (dput k x a) b"
  by (auto simp: same_keys_def)

lemma same_keys_dput_both [intro]: "same_keys a b \<Longrightarrow> same_keys (dput k x a) (dput k y b)"
  by (auto simp: same_keys_def)

lemma same_keys_alter [intro]: "same_keys a b \<Longrightarrow> same_keys a (alter k f b)"
  by (auto simp: same_keys_def)

lemma children_keyed_alter [intro]:
  assumes "children_keyed f parent t"
    and "\<And>c. map_of t p = Some c \<Longrightarrow> keyed f c \<Longrightarrow> keyed f (g c)"
    and "\<And>c k item. map_of t p = Some c \<Longrightarrow> map_of (g c) k = Some item \<Longrightarrow>
           map_of c k = Some item \<or> dget item parent = JStr p"
  shows "children_keyed f parent (alter p g t)"
  using assms unfolding children_keyed_def
  by (auto simp: map_of_alter split: if_splits) blast+

lemma children_keyed_dput_Nil [intro]:
  "children_keyed f parent t \<Longrightarrow> children_keyed f parent (dput p [] t)"
  by (auto simp: children_keyed_def)

lemma children_keyed_default [intro]:
  "children_keyed f parent t \<Longrightarrow> children_keyed f parent (dset_default p [] t)"
  by (auto simp: dset_default_def)

lemma keys_within_default [intro]:
  "keys_within a b \<Longrightarrow> has_key b k \<Longrightarrow> keys_within (dset_default k x a) b"
  by (auto simp: keys_within_def dset_default_def)

lemma keys_within_right [intro]: "keys_within a b \<Longrightarrow> keys_within a (dput k x b)"
  by (auto simp: keys_within_def)

lemma keys_within_alter [intro]: "keys_within a b \<Longrightarrow> keys_within (alter k f a) b"
  by (auto simp: keys_within_def)

lemma versions_owned_left [intro]: "versions_owned ds vs \<Longrightarrow> versions_owned (dput k x ds) vs"
  by (fastforce simp: versions_owned_def)

lemma versions_owned_dput [intro]:
  "versions_owned ds vs \<Longrightarrow> map_of v ''dataset_id'' = Some (JStr d) \<Longrightarrow> has_key ds d \<Longrightarrow>
     versions_owned ds (dput k v vs)"
  by (auto simp: versions_owned_def)

lemma results_owned_left [intro]: "results_owned rs t \<Longrightarrow> results_owned (dput k x rs) t"
  by (auto simp: results_owned_def)

lemma results_owned_dput [intro]:
  "results_owned rs t \<Longrightarrow> dget r ''run_id'' = JStr k \<Longrightarrow> has_key rs k \<Longrightarrow>
     results_owned rs (dput k r t)"
  by (auto simp: results_owned_def)

section \<open>Preservation by the helpers\<close>

lemma wf_new_id [simp]: "wf_store (post (new_id_locked p) s) = wf_store s"
  by (simp add: new_id_locked_def Let_def wf_store_def)

lemma wf_new_id_of_kind [intro, simp]: "keeps wf_store (new_id_of_kind kind)"
  by (auto simp: new_id_of_kind_def keeps_def py_run split: option.splits)

lemma wf_with_key: "has_key (st_runs s) r \<Longrightarrow> wf_store s \<Longrightarrow>
    has_key (st_events s) r \<and> has_key (st_event_ids s) r \<and> has_key (st_outputs s) r \<and>
    has_key (st_decision_packets s) r \<and> has_key (st_approvals s) r"
  by (simp add: wf_store_def same_keys_def)

lemma keeps_create:
  assumes "\<And>s rid item. wf_store s \<Longrightarrow> creatable id_field fixed value (get s) rid item \<Longrightarrow>
             wf_store (upd (dput rid item) s)"
    and "distinct (map fst fixed)"
  shows "keeps wf_store (create_locked get upd id_field kind resource fixed value)"
  unfolding keeps_iff_triple by (rule create_locked_triple) (use assms in auto)

lemma keeps_update:
  assumes "\<And>s current. wf_store s \<Longrightarrow> map_of (get s) rid = Some current \<Longrightarrow>
             py_eq (dget_or updates id_field (JStr rid)) (JStr rid) \<Longrightarrow>
             wf_store (upd (dput rid (dupdate current (dpop id_field updates))) s)"
  shows "keeps wf_store (update_locked get upd id_field resource rid updates)"
  by (rule keepsI)
     (use assms in \<open>auto simp: update_locked_run patch_without_id_def split: option.splits sum.splits if_splits\<close>)

lemma keeps_require_run:
  assumes "\<And>s. P s \<Longrightarrow> has_key (st_runs s) r \<Longrightarrow> P (post m s)"
  shows "keeps P (seq (require_run r) (\<lambda>_. m))"
  by (rule keepsI) (use assms in \<open>auto simp: require_run_def py_run\<close>)

lemma keeps_require_run_simple: "keeps P m \<Longrightarrow> keeps P (seq (require_run r) (\<lambda>_. m))"
  by (rule keeps_require_run) (rule keepsD)

lemma pure_require [intro!, simp]:
  "pure_read (require_run r)" "pure_read (need_sub tab k)" "pure_read (current_run r)"
  "pure_read (check_revision run e)" "pure_read (optional_run env item)"
  "pure_read (require_endpoint w)" "pure_read (get_locked get k)" "pure_read (list_of get)"
  by (auto simp: require_run_def need_sub_def current_run_def check_revision_def
      optional_run_def require_endpoint_def get_locked_def list_of_def
      split: json.splits option.splits intro!: pure_read_seq)

lemma keeps_reads [intro!, simp]:
  "keeps P (require_run r)" "keeps P (need_sub tab k)" "keeps P (current_run r)"
  "keeps P (check_revision run e)" "keeps P (optional_run env item)"
  "keeps P (require_endpoint w)" "keeps P (get_locked get k)" "keeps P (list_of get)"
  by (simp_all add: pure_read_keeps)

section \<open>Preservation by the operations on the tables\<close>

lemma wf_create_flat:
  "keeps wf_store (create_dataset value)"
  "keeps wf_store (create_webhook_endpoint value)"
  "keeps wf_store (create_deletion value)"
  unfolding create_dataset_def create_webhook_endpoint_def create_deletion_def
  by (rule keeps_create; auto simp: wf_store_def)+

lemma wf_create_of_run:
  "keeps wf_store (create_command env value)"
  "keeps wf_store (create_artifact env value)"
  "keeps wf_store (create_model env value)"
  unfolding create_command_def create_artifact_def create_model_def
  by (rule keeps_seq, simp, rule keeps_create; auto simp: wf_store_def)+

lemma wf_update_flat:
  "keeps wf_store (update_dataset k updates)"
  "keeps wf_store (update_command k updates)"
  "keeps wf_store (update_artifact k updates)"
  "keeps wf_store (update_webhook_endpoint k updates)"
  "keeps wf_store (update_deletion k updates)"
  unfolding update_dataset_def update_command_def update_artifact_def
    update_webhook_endpoint_def update_deletion_def
  by (rule keeps_update; auto simp: wf_store_def)+

lemma wf_insert_version:
  assumes "wf_store s" and "has_key (st_datasets s) d"
  shows "wf_store (post (insert_version (JStr d) value) s)"
proof -
  have "triple (\<lambda>s. wf_store s \<and> has_key (st_datasets s) d) (insert_version (JStr d) value)
          (\<lambda>_ s. wf_store s \<and> has_key (st_datasets s) d) (\<lambda>s. wf_store s \<and> has_key (st_datasets s) d)"
    unfolding insert_version_def
    by (rule create_locked_triple)
       (auto simp: wf_store_def creatable_def new_id_locked_def Let_def)
  from triple_post [OF this] assms show ?thesis by simp
qed

lemma wf_create_dataset_version: "keeps wf_store (create_dataset_version d value)"
  by (rule keepsI) (auto simp: create_dataset_version_def py_run wf_insert_version)

lemma dataset_version_frames:
  "st_dataset_versions (post (create_dataset value) s) = st_dataset_versions s"
  "st_datasets (post (insert_version d value) s) = st_datasets s"
  by (simp_all add: create_dataset_def insert_version_def create_frame)

lemma keeps_create_dataset_with_version:
  assumes "keeps P (create_dataset d)" and "\<And>k. keeps P (insert_version k v)"
    and "\<And>k s. P s \<Longrightarrow> P (st_datasets_update (dpop k) s)"
  shows "keeps P (create_dataset_with_version d v)"
  unfolding create_dataset_with_version_def
proof (rule keeps_seq)
  show "keeps P (create_dataset d)" by (rule assms)
  show "keeps P (\<lambda>t. case insert_version (dget x ''dataset_id'') v t of
       (Inl e, s') \<Rightarrow> (case dget x ''dataset_id'' of
            JStr k \<Rightarrow> (Inl e, st_datasets_update (dpop k) s') | _ \<Rightarrow> (Inl e, s'))
     | (Inr v, s') \<Rightarrow> (Inr (x, v), s'))" for x
    using assms(2) [of "dget x ''dataset_id''"] assms(3)
    by (fastforce simp: keeps_def split: prod.split sum.split json.split)
qed

text \<open>
  Creating a dataset with its first version: the dataset is refused; or the version is
  refused and the dataset removed again, which restores the two tables; or both are there.
\<close>

lemma create_dataset_with_version_cases:
  assumes wf: "wf_store s"
  obtains (dataset_refused) e s1 where "create_dataset ds s = (Inl e, s1)"
      and "create_dataset_with_version ds v s = (Inl e, s1)"
  | (version_refused) e s2 where
      "create_dataset_with_version ds v s = (Inl e, st_datasets_update (\<lambda>_. st_datasets s) s2)"
      and "wf_store s2" and "st_dataset_versions s2 = st_dataset_versions s"
  | (created) d ver s2 where "create_dataset_with_version ds v s = (Inr (d, ver), s2)"
      and "wf_store s2" and "dget ver ''dataset_id'' = dget d ''dataset_id''"
proof -
  obtain r s1 where run: "create_dataset ds s = (r, s1)" by fastforce
  show thesis
  proof (cases r)
    case (Inl e)
    with run dataset_refused show thesis by (simp add: create_dataset_with_version_def seq_def)
  next
    case (Inr c)
    note ok = run [unfolded Inr create_dataset_def]
    obtain d where d: "dget c ''dataset_id'' = JStr d" "\<not> has_key (st_datasets s) d"
      and s1: "st_datasets s1 = st_datasets s @ [(d, c)]"
      using datasets.create_Inr [OF ok] by (auto simp: creatable_def)
    have vs1: "st_dataset_versions s1 = st_dataset_versions s"
      using dataset_version_frames(1) [of ds s] run by simp
    have "wf_store s1" and "has_key (st_datasets s1) d"
      using keepsD [OF wf_create_flat(1) wf, of ds] run by (simp_all add: s1 has_key_iff)
    note wf2 = wf_insert_version [OF this, of v]
    obtain r2 s2 where ver: "insert_version (JStr d) v s1 = (r2, s2)" by fastforce
    show thesis
    proof (cases r2)
      case (Inl e)
      note bad = ver [unfolded Inl insert_version_def]
      have "st_datasets s2 = st_datasets s1"
        using dataset_version_frames(2) [of "JStr d" v s1] ver by simp
      then have "dpop d (st_datasets s2) = st_datasets s"
        using d(2) by (metis s1 dput_fresh dpop_dput_fresh)
      then show thesis
        using version_refused [of e s2] versions.create_Inl [OF bad] wf2 run Inr d(1) ver Inl vs1
        by (simp add: create_dataset_with_version_def seq_def)
    next
      case (Inr x)
      then show thesis
        using created [of c x s2] versions.create_Inr [OF ver [unfolded Inr insert_version_def]]
          wf2 run \<open>r = Inr c\<close> d(1) ver
        by (auto simp: create_dataset_with_version_def seq_def creatable_def dget_def)
    qed
  qed
qed

lemma wf_create_dataset_with_version: "keeps wf_store (create_dataset_with_version ds v)"
proof (rule keepsI)
  fix s assume wf: "wf_store s"
  show "wf_store (post (create_dataset_with_version ds v) s)"
    using wf
  proof (cases rule: create_dataset_with_version_cases [where ds = ds and v = v])
    case (dataset_refused e s1)
    with keepsD [OF wf_create_flat(1) wf, of ds] show ?thesis by simp
  next
    case (version_refused e s2)
    with wf show ?thesis by (simp add: wf_store_def)
  next
    case (created d ver s2)
    then show ?thesis by simp
  qed
qed

lemma py_dict_value:
  assumes "distinct (map fst updates)" and "map_of current f = Some (JStr x)"
    and "py_eq (dget_or updates f (JStr x)) (JStr x)" and "f \<noteq> g"
  shows "map_of (dupdate current (dpop g updates)) f = Some (JStr x)"
proof -
  have "distinct (map fst (dpop g updates))"
    using assms(1) by (rule distinct_delete)
  moreover have "map_of (dpop g updates) f = map_of updates f"
    using assms(4) by simp
  ultimately show ?thesis
    using assms(2,3) by (auto simp: map_of_dupdate_distinct dget_or_def split: option.splits)
qed

lemma wf_update_dataset_version:
  assumes "distinct (map fst updates)"
  shows "keeps wf_store (update_dataset_version k updates)"
proof (rule keepsI)
  fix s assume wf: "wf_store s"
  show "wf_store (post (update_dataset_version k updates) s)"
  proof (cases "map_of (st_dataset_versions s) k")
    case None
    with wf show ?thesis by (simp add: update_dataset_version_def py_run)
  next
    case (Some v)
    with wf obtain d where d: "map_of v ''dataset_id'' = Some (JStr d)" "has_key (st_datasets s) d"
      by (auto simp: wf_store_def versions_owned_def)
    show ?thesis
      using wf Some d py_dict_value [OF assms d(1), of "''dataset_version_id''"]
      by (auto simp: update_dataset_version_def py_run update_locked_run wf_store_def
            split: option.splits sum.splits dest!: patch_without_id_Inr)
  qed
qed

text \<open>The five entries a new run gets.\<close>

definition add_run_tables :: "string \<Rightarrow> store \<Rightarrow> store" where
  "add_run_tables r s =
     st_approvals_update (dput r []) (st_decision_packets_update (dput r [])
       (st_outputs_update (dput r []) (st_event_ids_update (dput r [])
         (st_events_update (dput r []) s))))"

abbreviation run_defaults :: "jdict \<Rightarrow> jdict" where
  "run_defaults value \<equiv>
     dset_default ''snapshot_seq'' (JInt 0) (dset_default ''run_revision'' (JInt 1) value)"

lemma create_run_triple:
  assumes step: "\<And>s p. P s \<Longrightarrow> P (post (new_id_locked p) s)"
    and ins: "\<And>s r item. P s \<Longrightarrow> creatable ''run_id'' [] (run_defaults value) (st_runs s) r item \<Longrightarrow>
                Q item (add_run_tables r (st_runs_update (dput r item) s))"
  shows "triple P (create_run value) Q P"
  unfolding create_run_def Let_def
proof (rule triple_seq)
  let ?R = "\<lambda>item t. \<exists>r. dget item ''run_id'' = JStr r \<and> Q item (add_run_tables r t)"
  show "triple P (create_locked st_runs st_runs_update ''run_id'' ''run'' ''run'' [] (run_defaults value))
          ?R P"
    by (rule create_locked_triple) (auto simp: creatable_def intro: ins step)
  show "triple (?R created)
      (case dget created ''run_id'' of
           JStr run_id \<Rightarrow>
             seq (modify (st_events_update (dput run_id []))) (\<lambda>_.
             seq (modify (st_event_ids_update (dput run_id []))) (\<lambda>_.
             seq (modify (st_outputs_update (dput run_id []))) (\<lambda>_.
             seq (modify (st_decision_packets_update (dput run_id []))) (\<lambda>_.
             seq (modify (st_approvals_update (dput run_id []))) (\<lambda>_.
             ret created)))))
         | _ \<Rightarrow> raise (KeyError ''run_id'')) Q P" for created
    by (auto simp: triple_def py_run add_run_tables_def)
qed

lemma wf_add_run:
  assumes "wf_store s" and "creatable ''run_id'' [] value (st_runs s) r item"
  shows "wf_store (add_run_tables r (st_runs_update (dput r item) s))"
  using assms by (auto simp: wf_store_def add_run_tables_def creatable_def)

lemma wf_create_run: "keeps wf_store (create_run value)"
  unfolding keeps_iff_triple
  by (rule create_run_triple) (auto intro: wf_add_run)

lemma keyed_entry: "keyed f c \<Longrightarrow> map_of c k = Some item \<Longrightarrow> k \<noteq> [] \<and> map_of item f = Some (JStr k)"
  by (force simp: keyed_def dget_def split: option.splits)

lemma keyed_nonempty: "keyed f c \<Longrightarrow> has_key c k \<Longrightarrow> k \<noteq> []"
  by (auto simp: has_key_def dest: keyed_entry)

lemma wf_put_run:
  "wf_store s \<Longrightarrow> has_key (st_runs s) r \<Longrightarrow> dget item ''run_id'' = JStr r \<Longrightarrow>
     wf_store (st_runs_update (dput r item) s)"
  using keyed_nonempty [of "''run_id''" "st_runs s" r] by (auto simp: wf_store_def)

lemma map_of_protected:
  "map_of (dupdate current (protect_run (dpop ''run_id'' updates))) ''run_id''
     = map_of current ''run_id''"
  "map_of (dupdate current (protect_run (dpop ''run_id'' updates))) ''snapshot_seq''
     = map_of current ''snapshot_seq''"
  "map_of (dupdate current (protect_run (dpop ''run_id'' updates))) ''run_revision''
     = map_of current ''run_revision''"
  by (rule map_of_dupdate_other, simp add: protect_run_def)+

lemma current_run_triple:
  "(\<And>s. P s \<Longrightarrow> E s) \<Longrightarrow>
     triple P (current_run r) (\<lambda>run s. P s \<and> map_of (st_runs s) r = Some run) E"
  by (auto simp: triple_def current_run_def py_run split: option.splits)

lemma check_revision_triple: "(\<And>s. P s \<Longrightarrow> E s) \<Longrightarrow> triple P (check_revision run e) (\<lambda>_. P) E"
  by (auto simp: triple_def check_revision_def py_run split: option.splits sum.splits)

lemma map_of_bumped [simp]:
  "f \<noteq> ''run_revision'' \<Longrightarrow> map_of (bumped b n item) f = map_of item f"
  by (simp add: bumped_def)

lemma wf_run_id: "wf_store s \<Longrightarrow> map_of (st_runs s) r = Some run \<Longrightarrow>
    r \<noteq> [] \<and> map_of run ''run_id'' = Some (JStr r)"
  by (rule keyed_entry) (simp_all add: wf_store_def)

text \<open>A run's patch leaves the three protected fields alone, but for the bump.\<close>

lemma wf_patch_run:
  assumes "wf_store s" and "map_of (st_runs s) r = Some current"
  shows "wf_store (st_runs_update
           (dput r (bumped b n (dupdate current (protect_run (dpop ''run_id'' updates))))) s)"
  using wf_run_id [OF assms]
  by (intro wf_put_run) (auto simp: assms has_key_def dget_def map_of_protected)

lemma wf_update_run: "keeps wf_store (update_run r updates e b)"
  unfolding keeps_iff_triple update_run_def
proof (rule triple_seq, rule current_run_triple)
  fix run
  let ?P = "\<lambda>s. wf_store s \<and> map_of (st_runs s) r = Some run"
  show "triple ?P
      (seq (check_revision run e) (\<lambda>revision.
       seq (lift (patch_without_id ''run'' ''run_id'' r updates)) (\<lambda>patch.
         let item = bumped b revision (dupdate run (protect_run patch))
         in seq (put_run r item) (\<lambda>_. ret item)))) (\<lambda>_. wf_store) wf_store"
    by (rule triple_seq, rule check_revision_triple, simp, rule triple_seq, rule triple_lift_eq,
        simp)
       (auto simp: triple_def put_run_def py_run Let_def wf_patch_run dest!: patch_without_id_Inr)
qed simp

section \<open>Preservation by the operations on the collections of a run\<close>

lemma children_create:
  assumes "children_keyed f parent t"
    and "\<And>c. map_of t p = Some c \<Longrightarrow> k \<noteq> [] \<and> dget item f = JStr k \<and> dget item parent = JStr p"
  shows "children_keyed f parent (alter p (dput k item) t)"
  by (rule children_keyed_alter [OF assms(1)]) (use assms(2) in \<open>auto split: if_splits\<close>)

lemma children_entry:
  assumes "children_keyed f parent t" and "map_of t p = Some c" and "map_of c k = Some item"
  shows "k \<noteq> [] \<and> map_of item f = Some (JStr k) \<and> map_of item parent = Some (JStr p)"
proof -
  have "keyed f c" and "dget item parent = JStr p"
    using assms by (simp_all only: children_keyed_def)
  with keyed_entry [OF this(1) assms(3)] show ?thesis
    by (simp add: dget_def split: option.splits)
qed

lemma children_update:
  assumes "children_keyed f parent t" and "map_of (case map_of t p of None \<Rightarrow> [] | Some c \<Rightarrow> c) k = Some current"
    and "distinct (map fst updates)" and "py_eq (dget_or updates parent (JStr p)) (JStr p)"
    and "f \<noteq> parent"
  shows "children_keyed f parent (alter p (dput k (dupdate current (dpop f updates))) t)"
proof (rule children_create [OF assms(1)])
  fix c assume c: "map_of t p = Some c"
  with assms(2) have "map_of c k = Some current" by simp
  from children_entry [OF assms(1) c this] assms(3-5)
  show "k \<noteq> [] \<and> dget (dupdate current (dpop f updates)) f = JStr k
          \<and> dget (dupdate current (dpop f updates)) parent = JStr p"
    using py_dict_value [OF assms(3), of current parent p f] by (simp add: dget_def)
qed

lemma creatable_parent:
  "creatable f [(parent, JStr p)] value c k item \<Longrightarrow> f \<noteq> parent \<Longrightarrow>
     k \<noteq> [] \<and> dget item f = JStr k \<and> dget item parent = JStr p"
  by (auto simp: creatable_def dget_def)

lemma wf_create_output: "keeps wf_store (create_output r value)"
  unfolding create_output_def
  by (intro keeps_seq keeps_reads keeps_create)
     (auto simp: wf_store_def in_sub_def intro!: children_create dest: creatable_parent)

lemma wf_create_decision_packet: "keeps wf_store (create_decision_packet r value)"
  unfolding create_decision_packet_def
  by (intro keeps_seq keeps_reads wf_new_id_of_kind keeps_create)
     (auto simp: wf_store_def in_sub_def intro!: children_create dest: creatable_parent)

lemma ensure_approvals_id:
  "has_key (st_approvals s) r \<Longrightarrow> st_approvals_update (dset_default r []) s = s"
  by (cases s) (simp add: dset_default_def)

lemma seq_ensure_approvals:
  "wf_store s \<Longrightarrow> has_key (st_runs s) r \<Longrightarrow>
     seq (ensure_sub st_approvals_update r) (\<lambda>_. m) s = m s"
  using wf_with_key [of s r] by (simp add: ensure_sub_def py_run ensure_approvals_id)

lemma wf_create_approval: "keeps wf_store (create_approval r value)"
proof -
  have "keeps wf_store (create_locked (sub st_approvals r) (in_sub st_approvals_update r)
          ''approval_id'' ''approval'' ''approval'' [(''run_id'', JStr r)] value)"
    by (rule keeps_create)
       (auto simp: wf_store_def in_sub_def intro!: children_create dest: creatable_parent)
  then show ?thesis
    unfolding create_approval_def
    by (intro keeps_require_run) (simp add: seq_ensure_approvals keepsD)
qed

lemma wf_update_approval:
  assumes "distinct (map fst updates)"
  shows "keeps wf_store (update_approval r k updates)"
  unfolding update_approval_def
proof (rule keeps_require_run)
  fix s assume wf: "wf_store s" and run: "has_key (st_runs s) r"
  let ?m = "update_locked (sub st_approvals r) (in_sub st_approvals_update r)
              ''approval_id'' ''approval'' k updates"
  show "wf_store (post (if \<not> py_eq (dget_or updates ''run_id'' (JStr r)) (JStr r)
          then raise (ValueError ''approval.run_id cannot be changed'')
          else seq (ensure_sub st_approvals_update r) (\<lambda>_. ?m)) s)"
  proof (cases "py_eq (dget_or updates ''run_id'' (JStr r)) (JStr r)")
    case True
    have "keeps wf_store ?m"
      by (rule keeps_update)
         (use assms True in \<open>auto simp: wf_store_def in_sub_def sub_def intro!: children_update\<close>)
    with True wf run show ?thesis by (simp add: seq_ensure_approvals keepsD)
  qed (use wf in \<open>simp add: py_run\<close>)
qed

lemma wf_update_decision_packet:
  assumes "distinct (map fst updates)"
  shows "keeps wf_store (update_decision_packet r k updates)"
proof (cases "py_eq (dget_or updates ''run_id'' (JStr r)) (JStr r)")
  case True
  then show ?thesis
    unfolding update_decision_packet_def
    by (intro keeps_seq keeps_reads)
       (use assms in \<open>auto split: option.splits simp: wf_store_def in_sub_def sub_def
          intro!: keeps_update children_update\<close>)
next
  case False
  then show ?thesis
    unfolding update_decision_packet_def
    by (intro keeps_seq keeps_reads) (auto split: option.splits)
qed

section \<open>Preservation by the webhook deliveries\<close>

lemma keeps_require_endpoint:
  assumes "\<And>s. P s \<Longrightarrow> has_key (st_webhook_endpoints s) e \<Longrightarrow> P (post m s)"
  shows "keeps P (seq (require_endpoint e) (\<lambda>_. m))"
  by (rule keepsI) (use assms in \<open>auto simp: require_endpoint_def py_run\<close>)

lemma wf_ensure_deliveries:
  assumes "wf_store s" and "has_key (st_webhook_endpoints s) e"
  shows "wf_store (st_webhook_deliveries_update (dset_default e []) s)"
  using assms by (auto simp: wf_store_def)

lemma wf_seq_ensure_deliveries:
  assumes "keeps wf_store m" and "wf_store s" and "has_key (st_webhook_endpoints s) e"
  shows "wf_store (post (seq (ensure_sub st_webhook_deliveries_update e) (\<lambda>_. m)) s)"
  using keepsD [OF assms(1) wf_ensure_deliveries [OF assms(2,3)]]
  by (simp add: ensure_sub_def py_run)

lemma wf_insert_delivery: "keeps wf_store (insert_delivery e value)"
  unfolding insert_delivery_def
  by (rule keeps_create)
     (auto simp: wf_store_def in_sub_def intro!: children_create dest: creatable_parent)

lemma wf_create_webhook_delivery: "keeps wf_store (create_webhook_delivery e value)"
  unfolding create_webhook_delivery_def
  by (rule keeps_require_endpoint) (rule wf_seq_ensure_deliveries [OF wf_insert_delivery])

lemma wf_update_webhook_delivery:
  assumes "distinct (map fst updates)"
  shows "keeps wf_store (update_webhook_delivery e k updates)"
  unfolding update_webhook_delivery_def
proof (rule keeps_require_endpoint)
  fix s assume wf: "wf_store s" and key: "has_key (st_webhook_endpoints s) e"
  let ?m = "update_locked (sub st_webhook_deliveries e) (in_sub st_webhook_deliveries_update e)
              ''delivery_id'' ''webhook_delivery'' k updates"
  show "wf_store (post (if \<not> py_eq (dget_or updates ''webhook_endpoint_id'' (JStr e)) (JStr e)
          then raise (ValueError ''webhook_delivery.webhook_endpoint_id cannot be changed'')
          else seq (ensure_sub st_webhook_deliveries_update e) (\<lambda>_. ?m)) s)"
  proof (cases "py_eq (dget_or updates ''webhook_endpoint_id'' (JStr e)) (JStr e)")
    case True
    have "keeps wf_store ?m"
      by (rule keeps_update)
         (use assms True in \<open>auto simp: wf_store_def in_sub_def sub_def intro!: children_update\<close>)
    with True wf key show ?thesis by (simp add: wf_seq_ensure_deliveries)
  qed (use wf in \<open>simp add: py_run\<close>)
qed

text \<open>The reads that create a missing entry.\<close>

lemma wf_reads_with_default:
  "keeps wf_store (get_approval r k)" "keeps wf_store (list_approvals r)"
  "keeps wf_store (get_webhook_delivery e k)" "keeps wf_store (list_webhook_deliveries e)"
  unfolding get_approval_def list_approvals_def get_webhook_delivery_def list_webhook_deliveries_def
  by (auto intro!: keeps_require_run keeps_require_endpoint wf_seq_ensure_deliveries
      simp: seq_ensure_approvals keepsD)

section \<open>Preservation by results, events and idempotency records\<close>

lemma new_id_tables [simp]:
  "st_runs (post (new_id_locked p) s) = st_runs s"
  "st_events (post (new_id_locked p) s) = st_events s"
  "st_event_ids (post (new_id_locked p) s) = st_event_ids s"
  by (simp_all add: new_id_locked_def Let_def)

lemma prepare_result_triple:
  assumes "\<And>s. P s \<Longrightarrow> P (post (new_id_locked ''res'') s)" and "\<And>s. P s \<Longrightarrow> E s"
  shows "triple P (prepare_result r value)
           (\<lambda>result s. P s \<and> map_of result ''run_id'' = Some (JStr r)) E"
  using assms
  by (auto simp: prepare_result_def triple_def py_run Let_def new_id_of_kind_def id_prefixes_def
      dset_default_def has_key_def split: prod.splits sum.splits) (metis snd_conv)+

lemma store_result_triple:
  assumes "\<And>s. P s \<Longrightarrow> Q (st_results_update (dput r result) s)" and "\<And>s. P s \<Longrightarrow> E s"
  shows "triple P (store_result r result) (\<lambda>_. Q) E"
  using assms by (auto simp: store_result_def triple_def py_run split: option.splits)

lemma wf_put_result:
  "wf_store s \<Longrightarrow> has_key (st_runs s) r \<Longrightarrow> map_of result ''run_id'' = Some (JStr r) \<Longrightarrow>
     wf_store (st_results_update (dput r result) s)"
  by (auto simp: wf_store_def dget_def)

lemma wf_set_result: "keeps wf_store (set_result r value)"
proof -
  let ?P = "\<lambda>s. wf_store s \<and> has_key (st_runs s) r"
  have "triple ?P (seq (prepare_result r value) (\<lambda>result.
           seq (store_result r result) (\<lambda>_. ret result))) (\<lambda>_. wf_store) wf_store"
    by (rule triple_seq, rule prepare_result_triple)
       (auto intro!: triple_seq store_result_triple [where Q = wf_store] triple_ret wf_put_result)
  then show ?thesis
    unfolding set_result_def by (auto intro: keeps_require_run triple_post)
qed

text \<open>The run in the table when an event is stored, and what storing does to the tables.\<close>

definition log_of :: "store \<Rightarrow> string \<Rightarrow> jdict list" where
  "log_of s r = (case map_of (st_events s) r of None \<Rightarrow> [] | Some es \<Rightarrow> es)"

definition stored_form :: "store \<Rightarrow> string \<Rightarrow> jdict \<Rightarrow> jdict \<Rightarrow> jdict" where
  "stored_form s r run event =
     dset_default ''run_revision'' (dget_or run ''run_revision'' (JInt 1))
       (dput ''seq'' (JInt (int (length (log_of s r)) + 1)) event)"

definition after_event :: "string \<Rightarrow> jdict \<Rightarrow> string \<Rightarrow> jdict \<Rightarrow> store \<Rightarrow> store" where
  "after_event r run eid stored s =
     st_runs_update (dput r (dput ''snapshot_seq'' (JInt (int (length (log_of s r)) + 1)) run))
       (st_event_ids_update (alter r (dput eid stored))
         (st_events_update (dput r (log_of s r @ [stored])) s))"

lemma stored_form_new_id [simp]:
  "log_of (post (new_id_locked p) s) r = log_of s r"
  "stored_form (post (new_id_locked p) s) r run event = stored_form s r run event"
  by (simp_all add: log_of_def stored_form_def)

lemma store_event_run:
  assumes "has_key (st_events s) r" and "has_key (st_event_ids s) r"
  shows "store_event r run eid event s =
     (Inr (stored_form s r run event, True),
      after_event r run eid (stored_form s r run event) s)"
  using assms
  by (simp add: store_event_def need_sub_def py_run Let_def in_sub_def put_run_def log_of_def
      stored_form_def after_event_def)

lemma wf_after_event:
  assumes "wf_store s" and "map_of (st_runs s) r = Some run"
  shows "wf_store (after_event r run eid stored s)"
proof -
  have "has_key (st_runs s) r" using assms(2) by (simp add: has_key_def)
  with assms wf_run_id [OF assms] show ?thesis
    by (auto simp: after_event_def wf_store_def dget_def)
qed

text \<open>
  Appending to the log, for any property that survives drawing an identifier: it raises and
  keeps the property, returns a known event and keeps it, or stores a new one.
\<close>

lemma append_event_locked_triple:
  assumes step: "\<And>s. P s \<Longrightarrow> P (post (new_id_locked ''evt'') s)"
    and wf: "\<And>s. P s \<Longrightarrow> wf_store s"
    and known: "\<And>s run eid ex. P s \<Longrightarrow> map_of (st_runs s) r = Some run \<Longrightarrow>
          map_of (sub st_event_ids r s) eid = Some ex \<Longrightarrow> eid \<noteq> [] \<Longrightarrow>
          map_of value ''event_id'' = Some (JStr eid) \<Longrightarrow>
          replay_event eid (dput ''run_id'' (JStr r) value) ex s = (Inr (ex, False), s) \<Longrightarrow>
          Q (ex, False) s"
    and given: "\<And>s run eid. P s \<Longrightarrow> map_of (st_runs s) r = Some run \<Longrightarrow>
          map_of (sub st_event_ids r s) eid = None \<Longrightarrow> eid \<noteq> [] \<Longrightarrow>
          map_of value ''event_id'' = Some (JStr eid) \<Longrightarrow>
          Q (stored_form s r run (dput ''run_id'' (JStr r) value), True)
            (after_event r run eid (stored_form s r run (dput ''run_id'' (JStr r) value)) s)"
    and drawn: "\<And>s run eid. P s \<Longrightarrow> map_of (st_runs s) r = Some run \<Longrightarrow>
          fst (new_id_locked ''evt'' s) = Inr eid \<Longrightarrow>
          Q (stored_form s r run (dput ''event_id'' (JStr eid) (dput ''run_id'' (JStr r) value)), True)
            (after_event r run eid
               (stored_form s r run (dput ''event_id'' (JStr eid) (dput ''run_id'' (JStr r) value)))
               (post (new_id_locked ''evt'') s))"
  shows "triple P (append_event_locked r value) Q P"
proof (rule triple_pre)
  fix s assume P: "P s"
  note wf_s = wf [OF P]
  show "triple (\<lambda>t. t = s) (append_event_locked r value) Q P"
  proof (cases "map_of (st_runs s) r")
    case None
    with P show ?thesis by (simp add: triple_def append_event_locked_def current_run_def py_run)
  next
    case (Some run)
    then have key: "has_key (st_runs s) r" by (simp add: has_key_def)
    let ?event = "dput ''run_id'' (JStr r) value"
    have start: "append_event_locked r value s =
       (if dget value ''run_id'' \<noteq> JNull \<and> \<not> py_eq (dget value ''run_id'') (JStr r)
        then (Inl (ValueError ''event.run_id does not match its parent run''), s)
        else (case dget value ''event_id'' of
          JNull \<Rightarrow> store_event r run (projr (fst (new_id_locked ''evt'' s)))
            (dput ''event_id'' (JStr (projr (fst (new_id_locked ''evt'' s)))) ?event)
            (post (new_id_locked ''evt'') s)
        | JStr eid \<Rightarrow>
            if eid = [] then (Inl (ValueError ''event.event_id must be a non-empty string''), s)
            else (case map_of (sub st_event_ids r s) eid of
                    Some ex \<Rightarrow> replay_event eid ?event ex s
                  | None \<Rightarrow> store_event r run eid ?event s)
        | _ \<Rightarrow> (Inl (ValueError ''event.event_id must be a non-empty string''), s)))"
      using Some wf_with_key [OF key wf_s]
      by (simp add: append_event_locked_def current_run_def py_run Let_def need_sub_def
          new_id_of_kind_def id_prefixes_def new_id_locked_def split: json.split option.split)
    show ?thesis
    proof (cases "dget value ''event_id''")
      case JNull
      obtain eid where eid: "fst (new_id_locked ''evt'' s) = Inr eid"
        using new_id_locked_Inr [of "''evt''" s] by (metis fst_conv)
      have "has_key (st_events (post (new_id_locked ''evt'') s)) r"
        and "has_key (st_event_ids (post (new_id_locked ''evt'') s)) r"
        using wf_with_key [OF key wf_s] by simp_all
      from store_event_run [OF this] show ?thesis
        using drawn [OF P Some eid] P by (simp add: triple_def start JNull eid)
    next
      case (JStr eid)
      have "has_key (st_events s) r" and "has_key (st_event_ids s) r"
        using wf_with_key [OF key wf_s] by simp_all
      note stored = store_event_run [OF this]
      have "map_of value ''event_id'' = Some (JStr eid)"
        using JStr by (simp add: dget_def split: option.splits)
      then show ?thesis
        using P given [OF P Some, of eid] known [OF P Some, of eid] stored
        by (auto simp: triple_def start JStr replay_event_def py_run Let_def split: option.split)
    qed (use P in \<open>simp_all add: triple_def start\<close>)
  qed
qed

lemma wf_append_event_locked: "keeps wf_store (append_event_locked r value)"
  unfolding keeps_iff_triple by (rule append_event_locked_triple) (auto intro: wf_after_event)

lemma wf_endpoint_id: "wf_store s \<Longrightarrow> map_of (st_webhook_endpoints s) e = Some endpoint \<Longrightarrow>
    map_of endpoint ''webhook_endpoint_id'' = Some (JStr e)"
  by (auto simp: wf_store_def dest: keyed_entry)

lemma wf_enqueue:
  assumes "wf_store s" and "has_key (st_webhook_endpoints s) e"
  shows "wf_store (post (enqueue e tenant r event) s)"
  unfolding enqueue_def
  by (rule wf_seq_ensure_deliveries [OF _ assms])
     (auto intro!: keeps_seq wf_insert_delivery)

lemma wf_deliver_to: "keeps wf_store (deliver_to env tenant r event ref)"
proof (rule keepsI)
  fix s assume wf: "wf_store s"
  show "wf_store (post (deliver_to env tenant r event ref) s)"
  proof (cases "map_of (st_webhook_endpoints s) (py_str env ref)")
    case None
    with wf show ?thesis by (simp add: deliver_to_def py_run)
  next
    case (Some endpoint)
    moreover have "has_key (st_webhook_endpoints s) (py_str env ref)"
      using Some by (simp add: has_key_def)
    ultimately show ?thesis
      using wf wf_endpoint_id [OF wf Some] wf_enqueue [OF wf, of "py_str env ref" tenant r event]
      by (auto simp: deliver_to_def py_run split: sum.split)
  qed
qed

lemma wf_append_webhook_deliveries: "keeps wf_store (append_webhook_deliveries_locked env event)"
  unfolding append_webhook_deliveries_locked_def Let_def
  by (auto intro!: keeps_seq keeps_each wf_deliver_to split: option.split)

lemma wf_append_with_outbox: "keeps wf_store (append_with_outbox env r value)"
  unfolding append_with_outbox_def
  by (auto intro!: keeps_seq wf_append_event_locked wf_append_webhook_deliveries)

lemma wf_append_event: "keeps wf_store (append_event env r value)"
  unfolding append_event_def by (rule wf_append_with_outbox)

lemma put_run_triple:
  assumes "\<And>s. P s \<Longrightarrow> Q () (st_runs_update (dput r item) s)"
  shows "triple P (put_run r item) Q E"
  unfolding put_run_def by (rule triple_modify) (rule assms)

lemma wf_mutate_run_with_event: "keeps wf_store (mutate_run_with_event env r updates event e b)"
  unfolding keeps_iff_triple mutate_run_with_event_def Let_def
  apply (rule triple_seq, rule current_run_triple, simp)
  apply (rule triple_seq, rule check_revision_triple, simp)
  apply (rule triple_seq, rule put_run_triple [where Q = "\<lambda>_. wf_store"], rule wf_patch_run, simp, simp)
  apply (fold keeps_iff_triple)
  apply (auto intro!: keeps_seq wf_append_with_outbox)
  done

lemma wf_finalize_run_with_result:
  "keeps wf_store (finalize_run_with_result env r result updates events e)"
  unfolding keeps_iff_triple finalize_run_with_result_def Let_def
  apply (rule triple_seq, rule current_run_triple, simp)
  apply (rule triple_seq, rule check_revision_triple, simp)
  apply (rule triple_seq, rule prepare_result_triple, simp, simp)
  apply (rule triple_seq, rule store_result_triple
      [where Q = "\<lambda>s. wf_store s \<and> map_of (st_runs s) r = Some run" for run])
  apply (simp add: wf_put_result has_key_def, simp)
  apply (rule triple_seq, rule triple_lift_eq, simp)
  apply (rule triple_seq, rule put_run_triple [where Q = "\<lambda>_. wf_store"])
  apply (auto intro: wf_patch_run dest!: patch_without_id_Inr) [1]
  apply (fold keeps_iff_triple)
  apply (auto intro!: keeps_seq keeps_collect wf_append_with_outbox)
  done

lemma wf_idempotency [simp]: "wf_store (st_idempotency_update f s) = wf_store s"
  by (simp add: wf_store_def)

lemma wf_idem_put: "keeps wf_store (idem_put ident rec)"
  unfolding idem_put_def by (rule keeps_modify) simp

lemma wf_idempotency_ops:
  "keeps wf_store (begin_idempotent_request operation key fp)"
  "keeps wf_store (complete_idempotent_request operation key fp resp)"
  "keeps wf_store (abort_idempotent_request operation key fp)"
  unfolding begin_idempotent_request_def complete_idempotent_request_def
    abort_idempotent_request_def idem_lookup_def Let_def
  by (auto intro!: keeps_seq wf_idem_put keeps_modify split: option.split)

lemma wf_new_id_public: "keeps wf_store (new_id kind)"
  unfolding new_id_def Let_def by (rule keepsI) (simp add: py_run)

lemma wf_reset: "keeps wf_store reset"
  by (simp add: keeps_def reset_run wf_empty_store)

end
