(* ===== verification/Store_Steps.thy ===== *)
theory Store_Steps
  imports Store_Invariant
begin

text \<open>
  The mutating operations of \<open>InMemoryStore\<close> as steps: \<open>store_op\<close> names each operation with
  its arguments, \<open>exec_op\<close> performs it, \<open>run_op\<close> is the state it leaves (returned or
  raised), \<open>op_ok\<close> the conditions on its arguments, and \<open>reachable\<close> the states a sequence of operations leads
  to. Every reachable state is well-formed.
\<close>

datatype store_op =
    NewId string
  | Reset
  | CreateDataset jdict
  | UpdateDataset string jdict
  | CreateDatasetVersion string jdict
  | CreateDatasetWithVersion jdict jdict
  | UpdateDatasetVersion string jdict
  | CreateRun jdict
  | UpdateRun string jdict "int option" bool
  | AppendEvent string jdict
  | MutateRunWithEvent string jdict jdict "int option" bool
  | FinalizeRunWithResult string jdict jdict "jdict list" "int option"
  | CreateOutput string jdict
  | CreateDecisionPacket string jdict
  | UpdateDecisionPacket string string jdict
  | CreateCommand jdict
  | UpdateCommand string jdict
  | SetResult string jdict
  | CreateArtifact jdict
  | UpdateArtifact string jdict
  | CreateApproval string jdict
  | GetApproval string string
  | UpdateApproval string string jdict
  | ListApprovals string
  | CreateModel jdict
  | CreateWebhookEndpoint jdict
  | UpdateWebhookEndpoint string jdict
  | CreateWebhookDelivery string jdict
  | GetWebhookDelivery string string
  | UpdateWebhookDelivery string string jdict
  | ListWebhookDeliveries string
  | CreateDeletion jdict
  | UpdateDeletion string jdict
  | BeginIdempotent string string string
  | CompleteIdempotent string string string stored_response
  | AbortIdempotent string string string

text \<open>An operation for its effect: it returns nothing, or raises.\<close>

definition void :: "(store, 'a) py \<Rightarrow> (store, unit) py" where
  "void m = seq m (\<lambda>_. ret ())"

lemma post_void [simp]: "post (void m) s = post m s"
  by (auto simp: void_def py_run split: prod.split sum.split)

fun exec_op :: "py_env \<Rightarrow> store_op \<Rightarrow> (store, unit) py" where
  "exec_op env (NewId kind) = void (new_id kind)"
| "exec_op env Reset = void reset"
| "exec_op env (CreateDataset v) = void (create_dataset v)"
| "exec_op env (UpdateDataset k u) = void (update_dataset k u)"
| "exec_op env (CreateDatasetVersion d v) = void (create_dataset_version d v)"
| "exec_op env (CreateDatasetWithVersion d v) = void (create_dataset_with_version d v)"
| "exec_op env (UpdateDatasetVersion k u) = void (update_dataset_version k u)"
| "exec_op env (CreateRun v) = void (create_run v)"
| "exec_op env (UpdateRun r u e b) = void (update_run r u e b)"
| "exec_op env (AppendEvent r v) = void (append_event env r v)"
| "exec_op env (MutateRunWithEvent r u v e b) = void (mutate_run_with_event env r u v e b)"
| "exec_op env (FinalizeRunWithResult r v u vs e) = void (finalize_run_with_result env r v u vs e)"
| "exec_op env (CreateOutput r v) = void (create_output r v)"
| "exec_op env (CreateDecisionPacket r v) = void (create_decision_packet r v)"
| "exec_op env (UpdateDecisionPacket r k u) = void (update_decision_packet r k u)"
| "exec_op env (CreateCommand v) = void (create_command env v)"
| "exec_op env (UpdateCommand k u) = void (update_command k u)"
| "exec_op env (SetResult r v) = void (set_result r v)"
| "exec_op env (CreateArtifact v) = void (create_artifact env v)"
| "exec_op env (UpdateArtifact k u) = void (update_artifact k u)"
| "exec_op env (CreateApproval r v) = void (create_approval r v)"
| "exec_op env (GetApproval r k) = void (get_approval r k)"
| "exec_op env (UpdateApproval r k u) = void (update_approval r k u)"
| "exec_op env (ListApprovals r) = void (list_approvals r)"
| "exec_op env (CreateModel v) = void (create_model env v)"
| "exec_op env (CreateWebhookEndpoint v) = void (create_webhook_endpoint v)"
| "exec_op env (UpdateWebhookEndpoint k u) = void (update_webhook_endpoint k u)"
| "exec_op env (CreateWebhookDelivery e v) = void (create_webhook_delivery e v)"
| "exec_op env (GetWebhookDelivery e k) = void (get_webhook_delivery e k)"
| "exec_op env (UpdateWebhookDelivery e k u) = void (update_webhook_delivery e k u)"
| "exec_op env (ListWebhookDeliveries e) = void (list_webhook_deliveries e)"
| "exec_op env (CreateDeletion v) = void (create_deletion v)"
| "exec_op env (UpdateDeletion k u) = void (update_deletion k u)"
| "exec_op env (BeginIdempotent op k fp) = void (begin_idempotent_request op k fp)"
| "exec_op env (CompleteIdempotent op k fp r) = void (complete_idempotent_request op k fp r)"
| "exec_op env (AbortIdempotent op k fp) = void (abort_idempotent_request op k fp)"

definition run_op :: "py_env \<Rightarrow> store_op \<Rightarrow> store \<Rightarrow> store" where
  "run_op env op s = post (exec_op env op) s"

text \<open>
  Conditions on the arguments. A patch is a dictionary, so its keys are distinct. The
  callers of \<open>create_run\<close> pass \<open>snapshot_seq\<close> zero or none (workflow.py,
  durable_workflow.py). An event identifier that the caller supplies is its own or was drawn
  from \<open>new_id\<close> before: it does not anticipate a number the counter has still to reach.
\<close>

definition counter :: "string \<Rightarrow> store \<Rightarrow> nat" where
  "counter p s = (case map_of (st_id_counters s) p of None \<Rightarrow> 0 | Some n \<Rightarrow> n)"

definition not_ahead :: "store \<Rightarrow> string \<Rightarrow> bool" where
  "not_ahead s eid \<longleftrightarrow> (\<forall>n. eid = format_id ''evt'' n \<longrightarrow> n \<le> counter ''evt'' s)"

definition event_ok :: "store \<Rightarrow> jdict \<Rightarrow> bool" where
  "event_ok s v \<longleftrightarrow> (\<forall>eid. map_of v ''event_id'' = Some (JStr eid) \<longrightarrow> not_ahead s eid)"

fun op_ok :: "store \<Rightarrow> store_op \<Rightarrow> bool" where
  "op_ok s (UpdateDatasetVersion k u) = distinct (map fst u)"
| "op_ok s (CreateRun v) = (dget_or v ''snapshot_seq'' (JInt 0) = JInt 0)"
| "op_ok s (AppendEvent r v) = event_ok s v"
| "op_ok s (MutateRunWithEvent r u v e b) = event_ok s v"
| "op_ok s (FinalizeRunWithResult r v u vs e) = list_all (event_ok s) vs"
| "op_ok s (UpdateDecisionPacket r k u) = distinct (map fst u)"
| "op_ok s (UpdateApproval r k u) = distinct (map fst u)"
| "op_ok s (UpdateWebhookDelivery e k u) = distinct (map fst u)"
| "op_ok s _ = True"

inductive reachable :: "py_env \<Rightarrow> store \<Rightarrow> bool" for env where
  start: "reachable env empty_store"
| step: "reachable env s \<Longrightarrow> op_ok s op \<Longrightarrow> reachable env (run_op env op s)"

lemmas wf_operations =
  wf_new_id_public wf_reset wf_create_flat wf_create_of_run wf_update_flat
  wf_create_dataset_version wf_create_dataset_with_version wf_update_dataset_version
  wf_create_run wf_update_run wf_append_event wf_mutate_run_with_event
  wf_finalize_run_with_result wf_create_output wf_create_decision_packet
  wf_update_decision_packet wf_set_result wf_create_approval wf_update_approval
  wf_reads_with_default wf_create_webhook_delivery wf_update_webhook_delivery
  wf_idempotency_ops

lemma wf_run_op: "wf_store s \<Longrightarrow> op_ok s op \<Longrightarrow> wf_store (run_op env op s)"
  by (cases op) (simp_all add: run_op_def wf_operations [THEN keepsD])

lemma wf_reachable: "reachable env s \<Longrightarrow> wf_store s"
  by (induction rule: reachable.induct) (auto intro: wf_empty_store wf_run_op)

end
