(* ===== verification/Sqlite_State.thy ===== *)
theory Sqlite_State
  imports Py_Json Store_Steps
begin

text \<open>
  \<open>SqliteStore\<close> (persistence.py): the in-memory store, its checkpoint on disk and the rows of
  the table \<open>execution_job\<close>, with the serialisation, the restart and the durable form of
  every mutation. SQLite itself is not modelled: a transaction applies its changes or, when a
  statement raises, none; the argument \<open>fault\<close> of a write is the exception that SQLite
  raises for it, if any. The locks make every operation one step.
\<close>

section \<open>State\<close>

datatype job_status = READY | RETRY | LEASED | WAITING | COMPLETED | DEAD

record job =
  job_run_id :: string
  workflow_step :: string
  job_status :: job_status
  checkpoint :: jdict
  attempt :: int
  max_attempts :: int
  available_at :: "rat option"
  lease_owner :: "string option"
  lease_expires_at :: "rat option"
  lease_generation :: int
  control_epoch :: int
  last_error :: "string option"
  created_at :: string
  updated_at :: string

record sqlite =
  mem :: store
  disk :: "(int \<times> json) option"
  job_rows :: "(string \<times> job) list"
  closed :: bool

definition on_mem :: "(store, 'a) py \<Rightarrow> (sqlite, 'a) py" where
  "on_mem m s = (case m (mem s) of (r, t) \<Rightarrow> (r, s\<lparr>mem := t\<rparr>))"

definition ensure_open :: "(sqlite, unit) py" where
  "ensure_open s = (if closed s then (Inl (RuntimeErr ''SqliteStore is closed''), s) else (Inr (), s))"

text \<open>\<open>BEGIN IMMEDIATE\<close>, the body, and \<open>COMMIT\<close>, or \<open>ROLLBACK\<close> when the body raises.\<close>

definition transaction :: "(sqlite, 'a) py \<Rightarrow> (sqlite, 'a) py" where
  "transaction m =
     seq ensure_open (\<lambda>_ s.
       case m s of
         (Inl e, t) \<Rightarrow> (Inl e, t\<lparr>disk := disk s, job_rows := job_rows s\<rparr>)
       | (Inr x, t) \<Rightarrow> (Inr x, t))"

section \<open>The snapshot\<close>

definition table_json :: "coll \<Rightarrow> json" where
  "table_json c = JObj (map (\<lambda>(k, v). (k, JObj v)) c)"

definition nested_json :: "nested \<Rightarrow> json" where
  "nested_json t = JObj (map (\<lambda>(k, c). (k, table_json c)) t)"

definition log_json :: "jdict list \<Rightarrow> json" where
  "log_json es = JArr (map JObj es)"

definition events_json :: "(string \<times> jdict list) list \<Rightarrow> json" where
  "events_json t = JObj (map (\<lambda>(k, es). (k, log_json es)) t)"

definition counters_json :: "(string \<times> nat) list \<Rightarrow> json" where
  "counters_json t = JObj (map (\<lambda>(k, n). (k, JInt (int n))) t)"

definition headers_json :: "(string \<times> string) list \<Rightarrow> json" where
  "headers_json t = JObj (map (\<lambda>(k, h). (k, JStr h)) t)"

definition response_json :: "stored_response option \<Rightarrow> json" where
  "response_json r =
     (case r of
        None \<Rightarrow> JNull
      | Some resp \<Rightarrow>
          JObj [(''status_code'', JInt (status_code resp)), (''body'', body resp),
                (''headers'', headers_json (headers resp))])"

definition idempotency_json :: "(string \<times> string) \<times> idem_record \<Rightarrow> json" where
  "idempotency_json p =
     JObj [(''operation'', JStr (fst (fst p))), (''key'', JStr (snd (fst p))),
           (''request_fingerprint'', JStr (request_fingerprint (snd p))),
           (''response'', response_json (response (snd p)))]"

definition serialize_state :: "store \<Rightarrow> json" where
  "serialize_state s =
     JObj [(''snapshot_version'', JInt 1),
           (''id_counters'', counters_json (st_id_counters s)),
           (''datasets'', table_json (st_datasets s)),
           (''dataset_versions'', table_json (st_dataset_versions s)),
           (''runs'', table_json (st_runs s)),
           (''events'', events_json (st_events s)),
           (''outputs'', nested_json (st_outputs s)),
           (''decision_packets'', nested_json (st_decision_packets s)),
           (''commands'', table_json (st_commands s)),
           (''results'', table_json (st_results s)),
           (''artifacts'', table_json (st_artifacts s)),
           (''approvals'', nested_json (st_approvals s)),
           (''models'', table_json (st_models s)),
           (''webhook_endpoints'', table_json (st_webhook_endpoints s)),
           (''webhook_deliveries'', nested_json (st_webhook_deliveries s)),
           (''deletions'', table_json (st_deletions s)),
           (''idempotency'', JArr (map idempotency_json (st_idempotency s)))]"

section \<open>Restoring\<close>

text \<open>
  The tables are typed here, so a snapshot of another shape, which \<open>_serialize_state\<close> never
  produces, is a \<open>TypeError\<close>.
\<close>

fun traverse :: "('a \<Rightarrow> exn + 'b) \<Rightarrow> 'a list \<Rightarrow> exn + 'b list" where
  "traverse f [] = Inr []"
| "traverse f (x # xs) =
     (case f x of
        Inl e \<Rightarrow> Inl e
      | Inr y \<Rightarrow> (case traverse f xs of Inl e \<Rightarrow> Inl e | Inr ys \<Rightarrow> Inr (y # ys)))"

definition keyed_by :: "(json \<Rightarrow> exn + 'b) \<Rightarrow> json \<Rightarrow> exn + (string \<times> 'b) list" where
  "keyed_by f v =
     (case v of
        JObj d \<Rightarrow> traverse (\<lambda>(k, x). case f x of Inl e \<Rightarrow> Inl e | Inr y \<Rightarrow> Inr (k, y)) d
      | _ \<Rightarrow> Inl TypeError)"

fun as_dict :: "json \<Rightarrow> exn + jdict" where
  "as_dict (JObj d) = Inr d"
| "as_dict _ = Inl TypeError"

fun as_nat :: "json \<Rightarrow> exn + nat" where
  "as_nat (JInt i) = (if 0 \<le> i then Inr (nat i) else Inl TypeError)"
| "as_nat _ = Inl TypeError"

fun as_str :: "json \<Rightarrow> exn + string" where
  "as_str (JStr s) = Inr s"
| "as_str _ = Inl TypeError"

fun as_log :: "json \<Rightarrow> exn + jdict list" where
  "as_log (JArr xs) = traverse as_dict xs"
| "as_log _ = Inl TypeError"

definition item :: "jdict \<Rightarrow> string \<Rightarrow> exn + json" where
  "item d k = (case map_of d k of None \<Rightarrow> Inl (KeyError k) | Some v \<Rightarrow> Inr v)"

definition load_table ::
  "jdict \<Rightarrow> string \<Rightarrow> (json \<Rightarrow> exn + 'b) \<Rightarrow> ('b \<Rightarrow> store \<Rightarrow> store) \<Rightarrow> (store, unit) py" where
  "load_table snapshot key parse put =
     seq (lift (parse (dget_or snapshot key (JObj [])))) (\<lambda>c. modify (put c))"

text \<open>\<open>{event["event_id"]: event for event in events}\<close>.\<close>

fun index_events :: "jdict list \<Rightarrow> coll \<Rightarrow> exn + coll" where
  "index_events [] idx = Inr idx"
| "index_events (e # es) idx =
     (case item e ''event_id'' of
        Inl x \<Rightarrow> Inl x
      | Inr v \<Rightarrow> (case as_str v of Inl x \<Rightarrow> Inl x | Inr k \<Rightarrow> index_events es (dput k e idx)))"

definition restore_response :: "json \<Rightarrow> exn + stored_response option" where
  "restore_response v =
     (if v = JNull then Inr None
      else case as_dict v of
        Inl e \<Rightarrow> Inl e
      | Inr d \<Rightarrow>
          (case item d ''status_code'' of Inl e \<Rightarrow> Inl e | Inr code \<Rightarrow>
           case py_int code of Inl e \<Rightarrow> Inl e | Inr n \<Rightarrow>
           case item d ''body'' of Inl e \<Rightarrow> Inl e | Inr b \<Rightarrow>
           case item d ''headers'' of Inl e \<Rightarrow> Inl e | Inr hs \<Rightarrow>
           case keyed_by as_str hs of Inl e \<Rightarrow> Inl e | Inr h \<Rightarrow>
             Inr (Some \<lparr>status_code = n, body = b, headers = h\<rparr>)))"

definition restore_idempotency :: "json \<Rightarrow> exn + ((string \<times> string) \<times> idem_record)" where
  "restore_idempotency v =
     (case as_dict v of Inl e \<Rightarrow> Inl e | Inr d \<Rightarrow>
      case restore_response (dget d ''response'') of Inl e \<Rightarrow> Inl e | Inr r \<Rightarrow>
      case item d ''request_fingerprint'' of Inl e \<Rightarrow> Inl e | Inr fp \<Rightarrow>
      case item d ''operation'' of Inl e \<Rightarrow> Inl e | Inr op \<Rightarrow>
      case item d ''key'' of Inl e \<Rightarrow> Inl e | Inr k \<Rightarrow>
      case as_str fp of Inl e \<Rightarrow> Inl e | Inr fp' \<Rightarrow>
      case as_str op of Inl e \<Rightarrow> Inl e | Inr op' \<Rightarrow>
      case as_str k of Inl e \<Rightarrow> Inl e | Inr k' \<Rightarrow>
        Inr ((op', k'), \<lparr>request_fingerprint = fp', response = r\<rparr>))"

definition restore_tables :: "jdict \<Rightarrow> (store, unit) py" where
  "restore_tables d =
     seq (load_table d ''id_counters'' (keyed_by as_nat) (\<lambda>c. st_id_counters_update (\<lambda>_. c))) (\<lambda>_.
     seq (load_table d ''datasets'' (keyed_by as_dict) (\<lambda>c. st_datasets_update (\<lambda>_. c))) (\<lambda>_.
     seq (load_table d ''dataset_versions'' (keyed_by as_dict) (\<lambda>c. st_dataset_versions_update (\<lambda>_. c))) (\<lambda>_.
     seq (load_table d ''runs'' (keyed_by as_dict) (\<lambda>c. st_runs_update (\<lambda>_. c))) (\<lambda>_.
     seq (load_table d ''events'' (keyed_by as_log) (\<lambda>c. st_events_update (\<lambda>_. c))) (\<lambda>_.
     seq (load_table d ''outputs'' (keyed_by (keyed_by as_dict)) (\<lambda>c. st_outputs_update (\<lambda>_. c))) (\<lambda>_.
     seq (load_table d ''decision_packets'' (keyed_by (keyed_by as_dict))
            (\<lambda>c. st_decision_packets_update (\<lambda>_. c))) (\<lambda>_.
     seq (load_table d ''commands'' (keyed_by as_dict) (\<lambda>c. st_commands_update (\<lambda>_. c))) (\<lambda>_.
     seq (load_table d ''results'' (keyed_by as_dict) (\<lambda>c. st_results_update (\<lambda>_. c))) (\<lambda>_.
     seq (load_table d ''artifacts'' (keyed_by as_dict) (\<lambda>c. st_artifacts_update (\<lambda>_. c))) (\<lambda>_.
     seq (load_table d ''approvals'' (keyed_by (keyed_by as_dict)) (\<lambda>c. st_approvals_update (\<lambda>_. c))) (\<lambda>_.
     seq (load_table d ''models'' (keyed_by as_dict) (\<lambda>c. st_models_update (\<lambda>_. c))) (\<lambda>_.
     seq (load_table d ''webhook_endpoints'' (keyed_by as_dict)
            (\<lambda>c. st_webhook_endpoints_update (\<lambda>_. c))) (\<lambda>_.
     seq (load_table d ''webhook_deliveries'' (keyed_by (keyed_by as_dict))
            (\<lambda>c. st_webhook_deliveries_update (\<lambda>_. c))) (\<lambda>_.
          load_table d ''deletions'' (keyed_by as_dict) (\<lambda>c. st_deletions_update (\<lambda>_. c))))))))))))))))"

definition restore_indexes :: "jdict \<Rightarrow> (store, unit) py" where
  "restore_indexes d =
     seq (modify (\<lambda>s. st_approvals_update (fold (\<lambda>r. dset_default r []) (map fst (st_runs s))) s)) (\<lambda>_.
     seq (gets (\<lambda>s. traverse (\<lambda>(r, es). case index_events es [] of
                                Inl e \<Rightarrow> Inl e | Inr idx \<Rightarrow> Inr (r, idx)) (st_events s))) (\<lambda>built.
     seq (lift built) (\<lambda>indexes.
     seq (modify (st_event_ids_update (\<lambda>_. indexes))) (\<lambda>_.
     seq (modify (st_idempotency_update (\<lambda>_. []))) (\<lambda>_.
       case dget_or d ''idempotency'' (JArr []) of
         JArr items \<Rightarrow>
           each (\<lambda>v. seq (lift (restore_idempotency v)) (\<lambda>p. idem_put (fst p) (snd p))) items
       | _ \<Rightarrow> raise TypeError)))))"

definition restore_state :: "jdict \<Rightarrow> (store, unit) py" where
  "restore_state d =
     seq (fail_if (\<not> py_eq (dget d ''snapshot_version'') (JInt 1))
            (RuntimeErr ''unsupported SQLite Store checkpoint version'')) (\<lambda>_.
     seq (restore_tables d) (\<lambda>_. restore_indexes d))"

section \<open>The checkpoint\<close>

definition load_checkpoint :: "(sqlite, jdict option) py" where
  "load_checkpoint =
     seq (gets disk) (\<lambda>row.
       case row of
         None \<Rightarrow> ret None
       | Some (version, payload) \<Rightarrow>
           if version \<noteq> 1 then raise (RuntimeErr ''unsupported SQLite Store schema version'')
           else case payload of
             JObj d \<Rightarrow> ret (Some d)
           | _ \<Rightarrow> raise (RuntimeErr ''invalid SQLite Store checkpoint''))"

definition write_checkpoint :: "exn option \<Rightarrow> json \<Rightarrow> bool \<Rightarrow> (sqlite, unit) py" where
  "write_checkpoint fault snapshot clear_jobs =
     transaction
       (seq (case fault of None \<Rightarrow> ret () | Some e \<Rightarrow> raise e) (\<lambda>_.
        seq (modify (disk_update (\<lambda>_. Some (1, canon snapshot)))) (\<lambda>_.
          if clear_jobs then modify (job_rows_update (\<lambda>_. [])) else ret ())))"

text \<open>\<open>try: m except Exception: h; raise\<close>.\<close>

definition on_error :: "('s, 'a) py \<Rightarrow> ('s, unit) py \<Rightarrow> ('s, 'a) py" where
  "on_error m h s =
     (case m s of
        (Inr x, t) \<Rightarrow> (Inr x, t)
      | (Inl e, t) \<Rightarrow> seq h (\<lambda>_. raise e) t)"

fun restore_json :: "json \<Rightarrow> (store, unit) py" where
  "restore_json (JObj d) = restore_state d"
| "restore_json _ = raise TypeError"

definition save_or_restore :: "exn option \<Rightarrow> bool \<Rightarrow> json \<Rightarrow> (sqlite, unit) py" where
  "save_or_restore fault clear_jobs before =
     on_error
       (seq (gets (\<lambda>s. serialize_state (mem s))) (\<lambda>now. write_checkpoint fault now clear_jobs))
       (on_mem (restore_json before))"

text \<open>\<open>_durable_mutation\<close>, and the bodies of \<open>new_id\<close> and \<open>reset\<close>, which repeat it.\<close>

definition durable_mutation :: "exn option \<Rightarrow> bool \<Rightarrow> (store, 'a) py \<Rightarrow> (sqlite, 'a) py" where
  "durable_mutation fault clear_jobs m =
     seq ensure_open (\<lambda>_.
     seq (gets (\<lambda>s. serialize_state (mem s))) (\<lambda>before.
     seq (on_mem m) (\<lambda>result.
     seq (save_or_restore fault clear_jobs before) (\<lambda>_. ret result))))"

text \<open>
  The public operations: the overridden ones are durable, \<open>reset\<close> clears the jobs too, and
  the reads that create a missing entry are inherited, so they only touch the memory.
\<close>

fun durable_op :: "py_env \<Rightarrow> exn option \<Rightarrow> store_op \<Rightarrow> (sqlite, unit) py" where
  "durable_op env fault Reset = durable_mutation fault True (exec_op env Reset)"
| "durable_op env fault (GetApproval r k) = on_mem (exec_op env (GetApproval r k))"
| "durable_op env fault (ListApprovals r) = on_mem (exec_op env (ListApprovals r))"
| "durable_op env fault (GetWebhookDelivery e k) = on_mem (exec_op env (GetWebhookDelivery e k))"
| "durable_op env fault (ListWebhookDeliveries e) = on_mem (exec_op env (ListWebhookDeliveries e))"
| "durable_op env fault op = durable_mutation fault False (exec_op env op)"

text \<open>The constructor on an existing database, and \<open>close\<close>.\<close>

definition open_store :: "exn option \<Rightarrow> (int \<times> json) option \<Rightarrow> (string \<times> job) list \<Rightarrow> (exn + unit) \<times> sqlite" where
  "open_store fault saved rows =
     seq load_checkpoint (\<lambda>snapshot.
       case snapshot of
         None \<Rightarrow> seq (gets (\<lambda>s. serialize_state (mem s))) (\<lambda>now. write_checkpoint fault now False)
       | Some d \<Rightarrow> on_mem (restore_state d))
     \<lparr>mem = empty_store, disk = saved, job_rows = rows, closed = False\<rparr>"

definition close :: "exn option \<Rightarrow> (sqlite, unit) py" where
  "close fault =
     seq (gets closed) (\<lambda>already.
       if already then ret ()
       else seq (gets (\<lambda>s. serialize_state (mem s))) (\<lambda>now.
            seq (write_checkpoint fault now False) (\<lambda>_.
              modify (closed_update (\<lambda>_. True)))))"

end
