(* ===== verification/Jobs.thy ===== *)
theory Jobs
  imports Sqlite_State "HOL-Library.Product_Lexorder"
begin

text \<open>
  The execution jobs of \<open>SqliteStore\<close> (persistence.py): a job is created \<open>READY\<close>, leased by
  one worker at a time, and moved on under a fence, the pair of its lease generation and
  control epoch. SQLite's part is a parameter: \<open>clk i\<close> is the value of \<open>julianday('now')\<close> in
  the \<open>i\<close>-th statement of a transaction that reads it, \<open>deadline t d\<close> the real number that
  \<open>t + (d / 86400.0)\<close> evaluates to there, and \<open>stamp\<close> the text that \<open>strftime\<close> makes of a
  time. Comparisons with \<open>NULL\<close> are false.
\<close>

section \<open>Rows\<close>

record sql_env =
  deadline :: "rat \<Rightarrow> rat \<Rightarrow> rat"
  stamp :: "rat \<Rightarrow> string"

type_synonym clock = "nat \<Rightarrow> rat"

fun status_text :: "job_status \<Rightarrow> string" where
  "status_text READY = ''READY''"
| "status_text RETRY = ''RETRY''"
| "status_text LEASED = ''LEASED''"
| "status_text WAITING = ''WAITING''"
| "status_text COMPLETED = ''COMPLETED''"
| "status_text DEAD = ''DEAD''"

definition find_job :: "string \<Rightarrow> (sqlite, job option) py" where
  "find_job run_id = gets (\<lambda>s. map_of (job_rows s) run_id)"

text \<open>\<open>UPDATE execution_job SET ... WHERE run_id = ?\<close>, then the row is read back.\<close>

definition save_job :: "string \<Rightarrow> job \<Rightarrow> (sqlite, job) py" where
  "save_job run_id j = seq (modify (job_rows_update (dput run_id j))) (\<lambda>_. ret j)"

section \<open>Creating and waking\<close>

definition new_job :: "sql_env \<Rightarrow> rat \<Rightarrow> string \<Rightarrow> string \<Rightarrow> jdict \<Rightarrow> int \<Rightarrow> int \<Rightarrow> job" where
  "new_job sql now run_id step data max_att epoch =
     \<lparr>job_run_id = run_id, workflow_step = step, job_status = READY, checkpoint = canon_dict data,
      attempt = 0, max_attempts = max_att, available_at = Some now, lease_owner = None,
      lease_expires_at = None, lease_generation = 0, control_epoch = epoch, last_error = None,
      created_at = stamp sql now, updated_at = stamp sql now\<rparr>"

definition create_execution_job ::
  "sql_env \<Rightarrow> clock \<Rightarrow> string \<Rightarrow> string \<Rightarrow> jdict \<Rightarrow> int \<Rightarrow> int \<Rightarrow> (sqlite, job) py" where
  "create_execution_job sql clk run_id step data max_att epoch =
     seq (fail_if (step = []) (ValueError ''workflow_step must not be empty'')) (\<lambda>_.
     seq (fail_if (max_att < 1) (ValueError ''max_attempts must be positive'')) (\<lambda>_.
     seq (fail_if (epoch < 0) (ValueError ''control_epoch must be non-negative'')) (\<lambda>_.
     seq (gets (\<lambda>s. has_key (st_runs (mem s)) run_id)) (\<lambda>known.
     seq (fail_if (\<not> known) (ResourceNotFound ''run'' run_id)) (\<lambda>_.
       transaction
         (seq (find_job run_id) (\<lambda>row.
            case row of
              Some _ \<Rightarrow> raise (ResourceAlreadyExists ''execution_job'' run_id)
            | None \<Rightarrow> save_job run_id (new_job sql (clk 0) run_id step data max_att epoch))))))))"

definition get_execution_job :: "string \<Rightarrow> (sqlite, job option) py" where
  "get_execution_job run_id = seq ensure_open (\<lambda>_. find_job run_id)"

definition wake_execution_job :: "sql_env \<Rightarrow> clock \<Rightarrow> string \<Rightarrow> (sqlite, job) py" where
  "wake_execution_job sql clk run_id =
     transaction
       (seq (find_job run_id) (\<lambda>row.
          case row of
            None \<Rightarrow> raise (ResourceNotFound ''execution_job'' run_id)
          | Some j \<Rightarrow>
              if job_status j \<in> {COMPLETED, DEAD}
              then raise (StoreErr (''cannot wake terminal execution job '' @ run_id))
              else save_job run_id
                (j\<lparr>job_status := READY, available_at := Some (clk 0), lease_owner := None,
                   lease_expires_at := None, control_epoch := control_epoch j + 1, attempt := 0,
                   updated_at := stamp sql (clk 0)\<rparr>)))"

section \<open>Claiming\<close>

definition expired :: "rat \<Rightarrow> job \<Rightarrow> bool" where
  "expired now j \<longleftrightarrow> job_status j = LEASED \<and>
     (case lease_expires_at j of None \<Rightarrow> False | Some t \<Rightarrow> t \<le> now)"

definition live :: "rat \<Rightarrow> job \<Rightarrow> bool" where
  "live now j \<longleftrightarrow> job_status j = LEASED \<and>
     (case lease_expires_at j of None \<Rightarrow> False | Some t \<Rightarrow> now < t)"

definition bury :: "sql_env \<Rightarrow> rat \<Rightarrow> job \<Rightarrow> job" where
  "bury sql now j =
     (if expired now j \<and> max_attempts j \<le> attempt j
      then j\<lparr>job_status := DEAD, lease_owner := None, lease_expires_at := None,
             last_error := Some (case last_error j of
                                   Some e \<Rightarrow> e | None \<Rightarrow> ''lease expired at max attempts''),
             updated_at := stamp sql now\<rparr>
      else j)"

definition claimable :: "rat \<Rightarrow> job \<Rightarrow> bool" where
  "claimable now j \<longleftrightarrow> attempt j < max_attempts j \<and>
     (job_status j \<in> {READY, RETRY} \<and>
        (case available_at j of None \<Rightarrow> False | Some t \<Rightarrow> t \<le> now)
      \<or> expired now j)"

text \<open>
  \<open>ORDER BY COALESCE(available_at, lease_expires_at), created_at, run_id\<close>; a claimable row has
  one of the two times (the last default is never used for it).
\<close>

definition due :: "job \<Rightarrow> rat" where
  "due j = (case available_at j of
              Some t \<Rightarrow> t
            | None \<Rightarrow> (case lease_expires_at j of Some t \<Rightarrow> t | None \<Rightarrow> 0))"

definition claim_key :: "job \<Rightarrow> rat \<times> string \<times> string" where
  "claim_key j = (due j, created_at j, job_run_id j)"

definition next_claim :: "rat \<Rightarrow> (string \<times> job) list \<Rightarrow> (string \<times> job) option" where
  "next_claim now rows =
     (case sort_key (\<lambda>p. claim_key (snd p)) (filter (\<lambda>p. claimable now (snd p)) rows) of
        [] \<Rightarrow> None
      | p # _ \<Rightarrow> Some p)"

definition lease :: "sql_env \<Rightarrow> rat \<Rightarrow> string \<Rightarrow> rat \<Rightarrow> job \<Rightarrow> job" where
  "lease sql now worker seconds j =
     j\<lparr>job_status := LEASED, attempt := attempt j + 1, lease_owner := Some worker,
       lease_expires_at := Some (deadline sql now seconds),
       lease_generation := lease_generation j + 1, updated_at := stamp sql now\<rparr>"

definition claim_execution_job ::
  "sql_env \<Rightarrow> clock \<Rightarrow> string \<Rightarrow> rat \<Rightarrow> (sqlite, job option) py" where
  "claim_execution_job sql clk worker seconds =
     seq (fail_if (worker = []) (ValueError ''worker_id must not be empty'')) (\<lambda>_.
     seq (fail_if (seconds \<le> 0) (ValueError ''lease_seconds must be positive'')) (\<lambda>_.
       transaction
         (seq (modify (job_rows_update (map (\<lambda>(k, j). (k, bury sql (clk 0) j))))) (\<lambda>_.
          seq (gets (\<lambda>s. list_ex (\<lambda>p. live (clk 1) (snd p)) (job_rows s))) (\<lambda>active.
            if active then ret None
            else seq (gets (\<lambda>s. next_claim (clk 2) (job_rows s))) (\<lambda>row.
              case row of
                None \<Rightarrow> ret None
              | Some (run_id, j) \<Rightarrow>
                  seq (save_job run_id (lease sql (clk 3) worker seconds j)) (\<lambda>claimed.
                    ret (Some claimed))))))))"

section \<open>Transitions under the fence\<close>

definition require_job_fence :: "rat \<Rightarrow> string \<Rightarrow> int \<Rightarrow> int \<Rightarrow> (sqlite, job) py" where
  "require_job_fence now run_id gen epoch =
     seq (find_job run_id) (\<lambda>row.
       case row of
         None \<Rightarrow> raise (ResourceNotFound ''execution_job'' run_id)
       | Some j \<Rightarrow>
           let stale = raise (JobFence run_id gen epoch (lease_generation j) (control_epoch j)
                                (status_text (job_status j)))
           in if job_status j \<noteq> LEASED \<or> lease_generation j \<noteq> gen \<or> control_epoch j \<noteq> epoch
              then stale
              else case lease_expires_at j of
                None \<Rightarrow> raise TypeError
              | Some t \<Rightarrow> if t \<le> now then stale else ret j)"

definition renew_execution_job ::
  "sql_env \<Rightarrow> clock \<Rightarrow> string \<Rightarrow> int \<Rightarrow> int \<Rightarrow> rat \<Rightarrow> (sqlite, job) py" where
  "renew_execution_job sql clk run_id gen epoch seconds =
     seq (fail_if (seconds \<le> 0) (ValueError ''lease_seconds must be positive'')) (\<lambda>_.
       transaction
         (seq (require_job_fence (clk 0) run_id gen epoch) (\<lambda>j.
            save_job run_id (j\<lparr>lease_expires_at := Some (deadline sql (clk 1) seconds),
                               updated_at := stamp sql (clk 1)\<rparr>))))"

definition checkpoint_execution_job ::
  "sql_env \<Rightarrow> clock \<Rightarrow> string \<Rightarrow> int \<Rightarrow> int \<Rightarrow> string \<Rightarrow> jdict \<Rightarrow> string \<Rightarrow> (sqlite, job) py" where
  "checkpoint_execution_job sql clk run_id gen epoch step data next_status =
     seq (fail_if (next_status \<noteq> ''READY'' \<and> next_status \<noteq> ''WAITING'')
            (ValueError ''next_status must be READY or WAITING'')) (\<lambda>_.
     seq (fail_if (step = []) (ValueError ''workflow_step must not be empty'')) (\<lambda>_.
       transaction
         (seq (require_job_fence (clk 0) run_id gen epoch) (\<lambda>j.
            save_job run_id
              (j\<lparr>workflow_step := step, checkpoint := canon_dict data,
                 job_status := (if next_status = ''READY'' then READY else WAITING),
                 attempt := 0,
                 available_at := (if next_status = ''READY'' then Some (clk 1) else None),
                 lease_owner := None, lease_expires_at := None, last_error := None,
                 updated_at := stamp sql (clk 1)\<rparr>)))))"

definition complete_execution_job ::
  "sql_env \<Rightarrow> clock \<Rightarrow> string \<Rightarrow> int \<Rightarrow> int \<Rightarrow> (sqlite, job) py" where
  "complete_execution_job sql clk run_id gen epoch =
     transaction
       (seq (require_job_fence (clk 0) run_id gen epoch) (\<lambda>j.
          save_job run_id
            (j\<lparr>job_status := COMPLETED, available_at := None, lease_owner := None,
               lease_expires_at := None, updated_at := stamp sql (clk 1)\<rparr>)))"

definition retry_execution_job ::
  "sql_env \<Rightarrow> clock \<Rightarrow> string \<Rightarrow> int \<Rightarrow> int \<Rightarrow> rat \<Rightarrow> string \<Rightarrow> (sqlite, job) py" where
  "retry_execution_job sql clk run_id gen epoch delay err =
     seq (fail_if (delay < 0) (ValueError ''delay_seconds must be non-negative'')) (\<lambda>_.
       transaction
         (seq (require_job_fence (clk 0) run_id gen epoch) (\<lambda>j.
            let terminal = max_attempts j \<le> attempt j
            in save_job run_id
                 (j\<lparr>job_status := (if terminal then DEAD else RETRY),
                    available_at := (if terminal then None else Some (deadline sql (clk 1) delay)),
                    lease_owner := None, lease_expires_at := None, last_error := Some err,
                    updated_at := stamp sql (clk 1)\<rparr>))))"

end
