(* ===== verification/Job_Laws.thy ===== *)
theory Job_Laws
  imports Jobs
begin

text \<open>
  The job table as a state machine. \<open>job_step\<close> is one operation on it with the clock
  readings it makes, \<open>job_reachable\<close> the states that sequences of operations lead to as
  time goes on; the invariant of the rows, the exclusiveness of leases and the fence are
  proved over them.
\<close>

section \<open>Steps\<close>

datatype job_op =
    CreateJob string string jdict int int
  | WakeJob string
  | ClaimJob string rat
  | RenewJob string int int rat
  | CheckpointJob string int int string jdict string
  | CompleteJob string int int
  | RetryJob string int int rat string

fun exec_job :: "sql_env \<Rightarrow> clock \<Rightarrow> job_op \<Rightarrow> (sqlite, job option) py" where
  "exec_job sql clk (CreateJob r step d m e) = seq (create_execution_job sql clk r step d m e) (\<lambda>j. ret (Some j))"
| "exec_job sql clk (WakeJob r) = seq (wake_execution_job sql clk r) (\<lambda>j. ret (Some j))"
| "exec_job sql clk (ClaimJob w n) = claim_execution_job sql clk w n"
| "exec_job sql clk (RenewJob r g e n) = seq (renew_execution_job sql clk r g e n) (\<lambda>j. ret (Some j))"
| "exec_job sql clk (CheckpointJob r g e step d st) =
     seq (checkpoint_execution_job sql clk r g e step d st) (\<lambda>j. ret (Some j))"
| "exec_job sql clk (CompleteJob r g e) = seq (complete_execution_job sql clk r g e) (\<lambda>j. ret (Some j))"
| "exec_job sql clk (RetryJob r g e n err) =
     seq (retry_execution_job sql clk r g e n err) (\<lambda>j. ret (Some j))"

text \<open>
  What each operation does to the rows, by what the table holds: a claim buries, then maybe
  leases; the others write one row or leave the table alone.
\<close>

inductive row_step :: "sql_env \<Rightarrow> clock \<Rightarrow> (string \<times> job) list \<Rightarrow> (string \<times> job) list \<Rightarrow> bool"
  for sql clk where
  same: "row_step sql clk rows rows"
| created: "map_of rows r = None \<Longrightarrow> 1 \<le> m \<Longrightarrow> 0 \<le> e \<Longrightarrow>
    row_step sql clk rows (dput r (new_job sql (clk 0) r step d m e) rows)"
| woken: "map_of rows r = Some j \<Longrightarrow> job_status j \<notin> {COMPLETED, DEAD} \<Longrightarrow>
    row_step sql clk rows (dput r
      (j\<lparr>job_status := READY, available_at := Some (clk 0), lease_owner := None,
         lease_expires_at := None, control_epoch := control_epoch j + 1, attempt := 0,
         updated_at := stamp sql (clk 0)\<rparr>) rows)"
| buried: "row_step sql clk rows (map (\<lambda>(k, j). (k, bury sql (clk 0) j)) rows)"
| claimed: "rows' = map (\<lambda>(k, j). (k, bury sql (clk 0) j)) rows \<Longrightarrow>
    \<forall>p \<in> set rows'. \<not> live (clk 1) (snd p) \<Longrightarrow> next_claim (clk 2) rows' = Some (r, j) \<Longrightarrow>
    worker \<noteq> [] \<Longrightarrow> 0 < n \<Longrightarrow> row_step sql clk rows (dput r (lease sql (clk 3) worker n j) rows')"
| renewed: "map_of rows r = Some j \<Longrightarrow> live (clk 0) j \<Longrightarrow> 0 < n \<Longrightarrow>
    row_step sql clk rows (dput r
      (j\<lparr>lease_expires_at := Some (deadline sql (clk 1) n), updated_at := stamp sql (clk 1)\<rparr>) rows)"
| checkpointed: "map_of rows r = Some j \<Longrightarrow> live (clk 0) j \<Longrightarrow>
    row_step sql clk rows (dput r
      (j\<lparr>workflow_step := step, checkpoint := canon_dict d,
         job_status := (if st = ''READY'' then READY else WAITING), attempt := 0,
         available_at := (if st = ''READY'' then Some (clk 1) else None),
         lease_owner := None, lease_expires_at := None, last_error := None,
         updated_at := stamp sql (clk 1)\<rparr>) rows)"
| completed: "map_of rows r = Some j \<Longrightarrow> live (clk 0) j \<Longrightarrow>
    row_step sql clk rows (dput r
      (j\<lparr>job_status := COMPLETED, available_at := None, lease_owner := None,
         lease_expires_at := None, updated_at := stamp sql (clk 1)\<rparr>) rows)"
| retried: "map_of rows r = Some j \<Longrightarrow> live (clk 0) j \<Longrightarrow> terminal = (max_attempts j \<le> attempt j) \<Longrightarrow>
    row_step sql clk rows (dput r
      (j\<lparr>job_status := (if terminal then DEAD else RETRY),
         available_at := (if terminal then None else Some (deadline sql (clk 1) delay)),
         lease_owner := None, lease_expires_at := None, last_error := Some err,
         updated_at := stamp sql (clk 1)\<rparr>) rows)"

lemma transaction_rows:
  assumes "\<And>x u. body' (t::sqlite) = (Inr x, u) \<Longrightarrow> R (job_rows u)" and "R (job_rows t)"
  shows "R (job_rows (post (transaction body') t))"
  using assms
  by (auto simp: transaction_def ensure_open_def seq_def split: prod.split sum.split)

lemma guard_rows:
  assumes "\<not> c \<Longrightarrow> R (job_rows (post (f ()) s))" and "R (job_rows s)"
  shows "R (job_rows (post (seq (fail_if c e) f) s))"
  using assms by (simp add: py_run)

lemma gets_rows: "R (job_rows (post (f (g s)) s)) \<Longrightarrow> R (job_rows (post (seq (gets g) f) s))"
  by (simp add: py_run)

lemma require_job_fence_Inr:
  "require_job_fence now r g e s = (Inr j, t) \<longleftrightarrow>
     t = s \<and> map_of (job_rows s) r = Some j \<and> live now j \<and> lease_generation j = g \<and> control_epoch j = e"
  by (auto simp: require_job_fence_def find_job_def py_run live_def Let_def split: option.splits if_splits)

lemma post_seq_ret [simp]: "post (seq m (\<lambda>x. ret (f x))) s = post m s"
  by (auto simp: py_run split: prod.split sum.split)

lemma exec_job_row_step: "row_step sql clk (job_rows s) (job_rows (post (exec_job sql clk op) s))"
proof -
  let ?R = "row_step sql clk (job_rows s)"
  note rules = guard_rows [where R = ?R] gets_rows [where R = ?R] transaction_rows [where R = ?R]
    row_step.same
  note run = find_job_def save_job_def py_run require_job_fence_Inr
  show ?thesis
  proof (cases op)
    case (CreateJob r step d m e)
    show ?thesis
      unfolding CreateJob exec_job.simps post_seq_ret create_execution_job_def
      by (intro rules) (auto simp: run split: option.splits intro!: row_step.created)
  next
    case (WakeJob r)
    show ?thesis
      unfolding WakeJob exec_job.simps post_seq_ret wake_execution_job_def
      by (intro rules) (auto simp: run split: option.splits if_splits intro: row_step.woken)
  next
    case (ClaimJob w n)
    show ?thesis
      unfolding ClaimJob exec_job.simps claim_execution_job_def
      by (intro rules)
         (auto simp: run list_ex_iff split: option.splits if_splits
           intro: row_step.buried intro!: row_step.claimed [OF refl], fastforce)
  next
    case (RenewJob r g e n)
    show ?thesis
      unfolding RenewJob exec_job.simps post_seq_ret renew_execution_job_def
      by (intro rules) (auto simp: run split: prod.splits sum.splits intro!: row_step.renewed [simplified])
  next
    case (CheckpointJob r g e step d st)
    show ?thesis
      unfolding CheckpointJob exec_job.simps post_seq_ret checkpoint_execution_job_def
      by (intro rules) (auto simp: run split: prod.splits sum.splits intro!: row_step.checkpointed [simplified])
  next
    case (CompleteJob r g e)
    show ?thesis
      unfolding CompleteJob exec_job.simps post_seq_ret complete_execution_job_def
      by (intro rules) (auto simp: run split: prod.splits sum.splits intro!: row_step.completed [simplified])
  next
    case (RetryJob r g e n err)
    show ?thesis
      unfolding RetryJob exec_job.simps post_seq_ret retry_execution_job_def
      by (intro rules) (auto simp: run Let_def split: prod.splits sum.splits intro!: row_step.retried [simplified])
  qed
qed

section \<open>The invariant of a row\<close>

definition job_ok :: "string \<Rightarrow> job \<Rightarrow> bool" where
  "job_ok k j \<longleftrightarrow> job_run_id j = k \<and> 0 \<le> attempt j \<and> attempt j \<le> max_attempts j \<and> 1 \<le> max_attempts j \<and>
     0 \<le> lease_generation j \<and> 0 \<le> control_epoch j \<and>
     (lease_owner j \<noteq> None \<longleftrightarrow> job_status j = LEASED) \<and>
     (lease_expires_at j \<noteq> None \<longleftrightarrow> job_status j = LEASED) \<and>
     (job_status j \<in> {READY, RETRY} \<longrightarrow> available_at j \<noteq> None) \<and>
     (job_status j \<in> {WAITING, COMPLETED} \<longrightarrow> available_at j = None) \<and>
     (job_status j = READY \<longrightarrow> attempt j = 0) \<and>
     (job_status j = RETRY \<longrightarrow> attempt j < max_attempts j) \<and>
     (job_status j = LEASED \<longrightarrow> 1 \<le> attempt j)"

definition jobs_ok :: "(string \<times> job) list \<Rightarrow> bool" where
  "jobs_ok rows \<longleftrightarrow> distinct (map fst rows) \<and> (\<forall>k j. map_of rows k = Some j \<longrightarrow> job_ok k j)"

lemma jobs_ok_dput [intro]: "jobs_ok rows \<Longrightarrow> job_ok k j \<Longrightarrow> jobs_ok (dput k j rows)"
  by (simp add: jobs_ok_def)

lemma map_of_bury:
  "map_of (map (\<lambda>(k, j). (k, bury sql now j)) rows) k = map_option (bury sql now) (map_of rows k)"
  by (induction rows) auto

lemma job_ok_bury: "job_ok k j \<Longrightarrow> job_ok k (bury sql now j)"
  by (auto simp: job_ok_def bury_def expired_def)

lemma jobs_ok_bury: "jobs_ok rows \<Longrightarrow> jobs_ok (map (\<lambda>(k, j). (k, bury sql now j)) rows)"
  by (auto simp: jobs_ok_def map_of_bury job_ok_bury case_prod_unfold comp_def)

lemma next_claim_Some:
  assumes "next_claim now rows = Some (r, j)"
  shows "(r, j) \<in> set rows" and "claimable now j"
    and "(k, i) \<in> set rows \<Longrightarrow> claimable now i \<Longrightarrow> claim_key j \<le> claim_key i"
proof -
  let ?cands = "filter (\<lambda>p. claimable now (snd p)) rows"
  let ?sorted = "sort_key (\<lambda>p. claim_key (snd p)) ?cands"
  obtain rest where s: "?sorted = (r, j) # rest"
    using assms by (auto simp: next_claim_def split: list.splits)
  then have "(r, j) \<in> set ?cands" by (metis list.set_intros(1) set_sort)
  then show "(r, j) \<in> set rows" and "claimable now j" by auto
  have "sorted (map (\<lambda>p. claim_key (snd p)) ?sorted)" by (rule sorted_sort_key)
  then have "\<forall>p \<in> set ?sorted. claim_key j \<le> claim_key (snd p)"
    unfolding s by auto
  then show "(k, i) \<in> set rows \<Longrightarrow> claimable now i \<Longrightarrow> claim_key j \<le> claim_key i"
    by auto
qed

lemma sort_key_Nil: "sort_key f xs = [] \<longleftrightarrow> xs = []"
  by (metis length_0_conv length_sort)

lemma next_claim_None: "next_claim now rows = None \<longleftrightarrow> (\<forall>p \<in> set rows. \<not> claimable now (snd p))"
proof -
  have "next_claim now rows = None \<longleftrightarrow>
      sort_key (\<lambda>p. claim_key (snd p)) (filter (\<lambda>p. claimable now (snd p)) rows) = []"
    by (simp add: next_claim_def split: list.split)
  then show ?thesis by (simp add: sort_key_Nil filter_empty_conv)
qed

lemma jobs_ok_row: "jobs_ok rows \<Longrightarrow> map_of rows r = Some j \<Longrightarrow> job_ok r j"
  by (simp add: jobs_ok_def)

lemma jobs_ok_entry: "jobs_ok rows \<Longrightarrow> (r, j) \<in> set rows \<Longrightarrow> map_of rows r = Some j \<and> job_ok r j"
  by (auto simp: jobs_ok_def)

lemma job_ok_lease:
  assumes "job_ok k j" and "claimable now j" shows "job_ok k (lease sql t w n j)"
  using assms by (auto simp: job_ok_def lease_def claimable_def)

lemma row_step_jobs_ok:
  assumes "row_step sql clk rows rows'" and "jobs_ok rows"
  shows "jobs_ok rows'"
  using assms
proof (induction rule: row_step.induct)
  case (claimed rows' rows r j worker n)
  have ok: "jobs_ok rows'" using claimed by (simp add: jobs_ok_bury)
  from jobs_ok_entry [OF ok next_claim_Some(1) [OF claimed(3)]] next_claim_Some(2) [OF claimed(3)]
  show ?case using ok by (auto intro: job_ok_lease)
next
  case (buried rows) then show ?case by (rule jobs_ok_bury)
next
  case same then show ?case .
next
  case created then show ?case by (auto simp: job_ok_def new_job_def)
qed (frule (1) jobs_ok_row, rule jobs_ok_dput, assumption, auto simp: job_ok_def live_def)+

section \<open>Reachable tables\<close>

text \<open>
  A state of the database with the time up to which its operations have run. The resources
  may change in between (\<open>other\<close>): a durable mutation keeps the rows, \<open>reset\<close> deletes them.
\<close>

inductive job_reachable :: "sql_env \<Rightarrow> rat \<Rightarrow> sqlite \<Rightarrow> bool" for sql where
  start: "job_rows s = [] \<Longrightarrow> job_reachable sql t s"
| other: "job_reachable sql t s \<Longrightarrow> job_rows s' = job_rows s \<or> job_rows s' = [] \<Longrightarrow>
    job_reachable sql t s'"
| op: "job_reachable sql t s \<Longrightarrow> mono clk \<Longrightarrow> t \<le> clk 0 \<Longrightarrow>
    job_reachable sql (clk 3) (post (exec_job sql clk op) s)"

definition exclusive :: "rat \<Rightarrow> (string \<times> job) list \<Rightarrow> bool" where
  "exclusive now rows \<longleftrightarrow>
     (\<forall>k1 k2 j1 j2. map_of rows k1 = Some j1 \<longrightarrow> map_of rows k2 = Some j2 \<longrightarrow>
        live now j1 \<longrightarrow> live now j2 \<longrightarrow> k1 = k2)"

lemma live_earlier: "live t j \<Longrightarrow> u \<le> t \<Longrightarrow> live u j"
  by (auto simp: live_def split: option.splits)

lemma exclusive_later: "exclusive t rows \<Longrightarrow> t \<le> u \<Longrightarrow> exclusive u rows"
  unfolding exclusive_def using live_earlier by blast

text \<open>A row that is no longer leased, or was not leased before it is written live.\<close>

lemma exclusive_dput_dead:
  "exclusive t rows \<Longrightarrow> \<not> live t j \<Longrightarrow> exclusive t (dput r j rows)"
  by (auto simp: exclusive_def split: if_splits)

lemma exclusive_dput_live:
  "exclusive t rows \<Longrightarrow> map_of rows r = Some i \<Longrightarrow> live t i \<Longrightarrow> exclusive t (dput r j rows)"
  unfolding exclusive_def by (auto split: if_splits)

lemma live_bury: "live t (bury sql u j) \<Longrightarrow> live t j"
  by (auto simp: bury_def live_def split: if_splits)

lemma row_step_exclusive:
  assumes "row_step sql clk rows rows'" and "mono clk" and "exclusive (clk 0) rows"
    and "distinct (map fst rows)"
  shows "exclusive (clk 3) rows'"
  using assms
proof (induction rule: row_step.induct)
  case (buried rows)
  then have "exclusive (clk 0) (map (\<lambda>(k, j). (k, bury sql (clk 0) j)) rows)"
    unfolding exclusive_def map_of_bury by (auto dest!: live_bury)
  then show ?case by (rule exclusive_later) (simp add: monoD [OF buried(1)])
next
  case (claimed rows' rows r j worker n)
  have "\<not> live (clk 3) i" if "map_of rows' k = Some i" for k i
    using claimed(2) map_of_SomeD [OF that] live_earlier [of "clk 3" i "clk 1"]
      monoD [OF claimed(6), of 1 3] by fastforce
  then show ?case by (auto simp: exclusive_def split: if_splits)
next
  case (same rows) then show ?case by (auto intro: exclusive_later monoD)
next
  case (created rows r m e step d)
  have "exclusive (clk 0) (dput r (new_job sql (clk 0) r step d m e) rows)"
    using created by (intro exclusive_dput_dead) (simp_all add: new_job_def live_def)
  then show ?case by (rule exclusive_later) (simp add: monoD [OF created(4)])
next
  case (woken rows r j)
  have le: "clk 0 \<le> clk 3" by (rule monoD [OF woken(3)]) simp
  show ?case using exclusive_later [OF woken(4) le] by (rule exclusive_dput_dead) (simp add: live_def)
next
  case (renewed rows r j n)
  have le: "clk 0 \<le> clk 3" by (rule monoD [OF renewed(4)]) simp
  show ?case using exclusive_dput_live [OF renewed(5,1,2)] le by (rule exclusive_later)
next
  case (checkpointed rows r j st step d)
  have le: "clk 0 \<le> clk 3" by (rule monoD [OF checkpointed(3)]) simp
  show ?case using exclusive_later [OF checkpointed(4) le] by (rule exclusive_dput_dead) (simp add: live_def)
next
  case (completed rows r j)
  have le: "clk 0 \<le> clk 3" by (rule monoD [OF completed(3)]) simp
  show ?case using exclusive_later [OF completed(4) le] by (rule exclusive_dput_dead) (simp add: live_def)
next
  case (retried rows r j terminal delay err)
  have le: "clk 0 \<le> clk 3" by (rule monoD [OF retried(4)]) simp
  show ?case using exclusive_later [OF retried(5) le] by (rule exclusive_dput_dead) (simp add: live_def)
qed

lemma job_invariant:
  "job_reachable sql t s \<Longrightarrow> jobs_ok (job_rows s) \<and> exclusive t (job_rows s)"
proof (induction rule: job_reachable.induct)
  case (start s t)
  then show ?case by (simp add: jobs_ok_def exclusive_def)
next
  case (other t s s')
  then show ?case by (auto simp: jobs_ok_def exclusive_def)
next
  case (op t s clk op)
  have step: "row_step sql clk (job_rows s) (job_rows (post (exec_job sql clk op) s))"
    by (rule exec_job_row_step)
  have "exclusive (clk 0) (job_rows s)" and "distinct (map fst (job_rows s))"
    using op exclusive_later by (auto simp: jobs_ok_def)
  with row_step_exclusive [OF step op(2)] row_step_jobs_ok [OF step] op.IH show ?case by blast
qed

text \<open>
  C1. At most one live lease. In every reachable state, two jobs whose leases have not
  expired at the present time are the same job, whatever sequence of claims, renewals,
  checkpoints, retries and wake-ups by whichever workers led there.
\<close>

theorem at_most_one_live_lease:
  assumes "job_reachable sql t s" and "t \<le> now"
    and "map_of (job_rows s) r1 = Some j1" and "live now j1"
    and "map_of (job_rows s) r2 = Some j2" and "live now j2"
  shows "r1 = r2 \<and> j1 = j2"
proof -
  have "r1 = r2"
    using exclusive_later [OF conjunct2 [OF job_invariant [OF assms(1)]] assms(2)] assms(3-6)
    unfolding exclusive_def by blast
  with assms show ?thesis by simp
qed

text \<open>
  The rows stay consistent. In every reachable state each job is filed under its run,
  has between 0 and \<open>max_attempts\<close> attempts, carries an owner and an expiry exactly while
  \<open>LEASED\<close>, is available exactly when it says so, and is \<open>RETRY\<close> only with attempts left.
\<close>

theorem job_rows_consistent:
  assumes "job_reachable sql t s" and "map_of (job_rows s) r = Some j"
  shows "job_ok r j"
  using job_invariant [OF assms(1)] assms(2) by (simp add: jobs_ok_def)

section \<open>The fence\<close>

text \<open>
  What a claim of generation \<open>g\<close> by a worker leaves true of the row from then on: a later
  lease has a larger generation, and as long as the generation is \<open>g\<close> a lease is that
  worker's.
\<close>

definition owns :: "string \<Rightarrow> int \<Rightarrow> job \<Rightarrow> bool" where
  "owns worker g j \<longleftrightarrow> g \<le> lease_generation j \<and>
     (lease_generation j = g \<longrightarrow> job_status j = LEASED \<longrightarrow> lease_owner j = Some worker)"

lemma bury_generation [simp]: "lease_generation (bury sql t j) = lease_generation j"
  by (simp add: bury_def)

lemma owns_bury: "owns w g j \<Longrightarrow> owns w g (bury sql t j)"
  by (auto simp: owns_def bury_def)

lemma row_step_owns:
  assumes "row_step sql clk rows rows'" and "map_of rows r = Some j" and "owns w g j"
    and "jobs_ok rows"
  shows "\<exists>j'. map_of rows' r = Some j' \<and> owns w g j'"
  using assms
proof (induction rule: row_step.induct)
  case (claimed rows' rows q i worker n)
  have "jobs_ok rows'" using claimed by (simp add: jobs_ok_bury)
  from jobs_ok_entry [OF this next_claim_Some(1) [OF claimed(3)]]
  have i: "map_of rows' q = Some i" by simp
  have "map_of rows' r = Some (bury sql (clk 0) j)" using claimed by (simp add: map_of_bury)
  moreover have "g \<le> lease_generation j" using claimed(7) by (simp add: owns_def)
  ultimately show ?case
    using i owns_bury [OF claimed(7)] by (auto simp: owns_def lease_def)
next
  case (buried rows)
  then show ?case by (auto simp: map_of_bury owns_bury)
qed (auto simp: owns_def live_def)

inductive later :: "sql_env \<Rightarrow> sqlite \<Rightarrow> sqlite \<Rightarrow> bool" for sql where
  now: "later sql s s"
| resources: "later sql s t \<Longrightarrow> job_rows u = job_rows t \<Longrightarrow> later sql s u"
| jobs: "later sql s t \<Longrightarrow> later sql s (post (exec_job sql clk op) t)"

lemma later_owns:
  assumes "later sql s t" and "jobs_ok (job_rows s)" and "map_of (job_rows s) r = Some j" and "owns w g j"
  shows "jobs_ok (job_rows t) \<and> (\<exists>j'. map_of (job_rows t) r = Some j' \<and> owns w g j')"
  using assms
proof (induction rule: later.induct)
  case (jobs s t clk op)
  have step: "row_step sql clk (job_rows t) (job_rows (post (exec_job sql clk op) t))"
    by (rule exec_job_row_step)
  with jobs row_step_owns [OF step] row_step_jobs_ok [OF step] show ?case by blast
qed auto

lemma claim_Some:
  assumes "claim_execution_job sql clk w n s = (Inr (Some j), s')"
  shows "\<exists>i rows. rows = map (\<lambda>(k, j). (k, bury sql (clk 0) j)) (job_rows s) \<and>
     (\<forall>p \<in> set rows. \<not> live (clk 1) (snd p)) \<and>
     next_claim (clk 2) rows = Some (fst (the (next_claim (clk 2) rows)), i) \<and>
     j = lease sql (clk 3) w n i \<and> w \<noteq> [] \<and> 0 < n \<and>
     s' = s\<lparr>job_rows := dput (fst (the (next_claim (clk 2) rows))) j rows\<rparr>"
  using assms
  by (auto simp: claim_execution_job_def transaction_def ensure_open_def save_job_def py_run list_ex_iff
      split: prod.splits sum.splits if_splits option.splits)

lemma claim_row:
  assumes "jobs_ok (job_rows s)" and "claim_execution_job sql clk w n s = (Inr (Some j), s')"
  shows "map_of (job_rows s') (job_run_id j) = Some j \<and> job_ok (job_run_id j) j \<and> lease_owner j = Some w"
proof -
  from claim_Some [OF assms(2)] obtain i r rows where
    rows: "rows = map (\<lambda>(k, j). (k, bury sql (clk 0) j)) (job_rows s)"
    and next_row: "next_claim (clk 2) rows = Some (r, i)" and j: "j = lease sql (clk 3) w n i"
    and s': "s' = s\<lparr>job_rows := dput r j rows\<rparr>"
    by auto
  have ok: "job_ok r i" "claimable (clk 2) i"
    using jobs_ok_entry [OF _ next_claim_Some(1) [OF next_row]] jobs_ok_bury [OF assms(1)] rows
      next_claim_Some(2) [OF next_row] by auto
  have "job_ok r j" unfolding j by (rule job_ok_lease) (fact ok)+
  then show ?thesis
    by (simp add: s') (simp add: j lease_def job_ok_def)
qed

text \<open>
  C2. A lease generation belongs to one worker. After a claim by a worker, whenever the
  fence lets the generation of that claim through, at any later time and under any epoch,
  the row is still leased by that worker: no one else ever acts under its token.
\<close>

theorem fence_admits_the_claimant_only:
  assumes "job_reachable sql t0 s" and "claim_execution_job sql clk w n s = (Inr (Some j), s1)"
    and "later sql s1 s2" and "require_job_fence now (job_run_id j) (lease_generation j) e s2 = (Inr j2, s3)"
  shows "lease_owner j2 = Some w \<and> job_status j2 = LEASED \<and> s3 = s2"
proof -
  have ok: "jobs_ok (job_rows s)" using job_invariant [OF assms(1)] by simp
  note row = claim_row [OF ok assms(2)]
  have "row_step sql clk (job_rows s) (job_rows (post (exec_job sql clk (ClaimJob w n)) s))"
    by (rule exec_job_row_step)
  then have "jobs_ok (job_rows s1)" using row_step_jobs_ok ok assms(2) by fastforce
  moreover have "owns w (lease_generation j) j" using row by (simp add: owns_def)
  ultimately show ?thesis
    using later_owns [OF assms(3)] row assms(4)
    by (fastforce simp: require_job_fence_Inr owns_def live_def)
qed

text \<open>A token that a claim or a wake-up has overtaken.\<close>

definition outdated :: "int \<Rightarrow> int \<Rightarrow> job \<Rightarrow> bool" where
  "outdated g e j \<longleftrightarrow> g < lease_generation j \<or> e < control_epoch j"

lemma bury_epoch [simp]: "control_epoch (bury sql t j) = control_epoch j"
  by (simp add: bury_def)

lemma row_step_outdated:
  assumes "row_step sql clk rows rows'" and "map_of rows r = Some j" and "outdated g e j"
    and "jobs_ok rows"
  shows "\<exists>j'. map_of rows' r = Some j' \<and> outdated g e j'"
  using assms
proof (induction rule: row_step.induct)
  case (claimed rows' rows q i worker n)
  have "jobs_ok rows'" using claimed by (simp add: jobs_ok_bury)
  from jobs_ok_entry [OF this next_claim_Some(1) [OF claimed(3)]]
  have i: "map_of rows' q = Some i" by simp
  have "map_of rows' r = Some (bury sql (clk 0) j)" using claimed by (simp add: map_of_bury)
  with i claimed(7) show ?case
    by (auto simp: outdated_def lease_def)
next
  case (buried rows)
  then show ?case by (auto simp: map_of_bury outdated_def)
qed (auto simp: outdated_def)

lemma later_outdated:
  assumes "later sql s t" and "jobs_ok (job_rows s)" and "map_of (job_rows s) r = Some j" and "outdated g e j"
  shows "jobs_ok (job_rows t) \<and> (\<exists>j'. map_of (job_rows t) r = Some j' \<and> outdated g e j')"
  using assms
proof (induction rule: later.induct)
  case (jobs s t clk op)
  have step: "row_step sql clk (job_rows t) (job_rows (post (exec_job sql clk op) t))"
    by (rule exec_job_row_step)
  with jobs row_step_outdated [OF step] row_step_jobs_ok [OF step] show ?case by blast
qed auto

lemma fenced_raise:
  assumes "\<not> closed s" and "require_job_fence now r g e s = (Inl x, s)"
  shows "transaction (seq (require_job_fence now r g e) f) s = (Inl x, s)"
  using assms by (simp add: transaction_def ensure_open_def seq_def)

text \<open>
  An overtaken worker can no longer touch the job. Once the row has a larger generation
  (another claim) or a larger epoch (a wake-up) than a token, then from that state on, after
  any further operations, renewing, checkpointing, completing and retrying under the token
  all raise \<open>JobFence\<close> and change nothing.
\<close>

theorem outdated_token_rejected:
  assumes "job_reachable sql t0 s" and "map_of (job_rows s) r = Some j" and "outdated g e j"
    and "later sql s s2" and "\<not> closed s2" and "0 < n" and "0 \<le> delay" and "step \<noteq> []"
  shows "\<exists>cg ce st. let stale = Inl (JobFence r g e cg ce st) in
    renew_execution_job sql clk r g e n s2 = (stale, s2) \<and>
    checkpoint_execution_job sql clk r g e step d ''READY'' s2 = (stale, s2) \<and>
    complete_execution_job sql clk r g e s2 = (stale, s2) \<and>
    retry_execution_job sql clk r g e delay err s2 = (stale, s2)"
proof -
  obtain j2 where j2: "map_of (job_rows s2) r = Some j2" "outdated g e j2"
    using later_outdated [OF assms(4) conjunct1 [OF job_invariant [OF assms(1)]] assms(2,3)] by blast
  let ?stale = "JobFence r g e (lease_generation j2) (control_epoch j2) (status_text (job_status j2))"
  have fence: "require_job_fence (clk 0) r g e s2 = (Inl ?stale, s2)"
    using j2 by (auto simp: require_job_fence_def find_job_def py_run Let_def outdated_def)
  have "renew_execution_job sql clk r g e n s2 = (Inl ?stale, s2)"
    "checkpoint_execution_job sql clk r g e step d ''READY'' s2 = (Inl ?stale, s2)"
    "complete_execution_job sql clk r g e s2 = (Inl ?stale, s2)"
    "retry_execution_job sql clk r g e delay err s2 = (Inl ?stale, s2)"
    using assms(5-8) fenced_raise [OF assms(5) fence]
    by (simp_all add: renew_execution_job_def checkpoint_execution_job_def complete_execution_job_def
        retry_execution_job_def seq_def fail_if_def)
  then show ?thesis by (auto simp: Let_def)
qed

section \<open>Attempts\<close>

lemma row_step_terminal:
  assumes "row_step sql clk rows rows'" and "map_of rows r = Some j"
    and "job_status j \<in> {COMPLETED, DEAD}" and "jobs_ok rows"
  shows "map_of rows' r = Some j"
  using assms
proof (induction rule: row_step.induct)
  case (buried rows)
  then show ?case by (auto simp: map_of_bury bury_def expired_def)
next
  case (claimed rows' rows q i worker n)
  have "jobs_ok rows'" using claimed by (simp add: jobs_ok_bury)
  from jobs_ok_entry [OF this next_claim_Some(1) [OF claimed(3)]]
  have i: "map_of rows' q = Some i" by simp
  have same: "map_of rows' r = Some j" using claimed by (auto simp: map_of_bury bury_def expired_def)
  have "q \<noteq> r"
    using i same next_claim_Some(2) [OF claimed(3)] claimed(7) by (auto simp: claimable_def expired_def)
  with same show ?case by simp
qed (auto simp: live_def)

text \<open>
  Finished jobs stay finished. A job that is \<open>COMPLETED\<close> or \<open>DEAD\<close> keeps exactly its
  row through every further job operation: it is never claimed, woken, retried or renewed.
\<close>

theorem terminal_jobs_final:
  assumes "job_reachable sql t0 s" and "map_of (job_rows s) r = Some j"
    and "job_status j \<in> {COMPLETED, DEAD}" and "later sql s s2"
  shows "map_of (job_rows s2) r = Some j"
proof -
  have "jobs_ok (job_rows s2) \<and> map_of (job_rows s2) r = Some j"
    using assms(4) assms(2) conjunct1 [OF job_invariant [OF assms(1)]]
  proof (induction rule: later.induct)
    case (jobs s t clk op)
    have "row_step sql clk (job_rows t) (job_rows (post (exec_job sql clk op) t))"
      by (rule exec_job_row_step)
    with jobs row_step_terminal [OF this] row_step_jobs_ok [OF this] assms(3) show ?case by blast
  qed auto
  then show ?thesis ..
qed

text \<open>
  Retries are bounded. A retry under a valid fence ends the job as \<open>DEAD\<close> exactly when
  its attempts are used up; otherwise it is \<open>RETRY\<close> with the same attempt count, not
  available before the delay is over, and the next claim of it counts one attempt more.
\<close>

theorem retry_is_bounded:
  assumes "job_reachable sql t0 s" and "retry_execution_job sql clk r g e delay err s = (Inr j', s')"
  shows "\<exists>j. map_of (job_rows s) r = Some j \<and> map_of (job_rows s') r = Some j' \<and>
    attempt j' = attempt j \<and> last_error j' = Some err \<and>
    (if attempt j = max_attempts j then job_status j' = DEAD
     else job_status j' = RETRY \<and> attempt j < max_attempts j \<and>
          available_at j' = Some (deadline sql (clk 1) delay)) \<and>
    attempt (lease sql t w n j') = attempt j' + 1"
proof -
  obtain j where j: "require_job_fence (clk 0) r g e s = (Inr j, s)"
    and j': "j' = j\<lparr>job_status := (if max_attempts j \<le> attempt j then DEAD else RETRY),
       available_at := (if max_attempts j \<le> attempt j then None else Some (deadline sql (clk 1) delay)),
       lease_owner := None, lease_expires_at := None, last_error := Some err,
       updated_at := stamp sql (clk 1)\<rparr>"
    and s': "s' = s\<lparr>job_rows := dput r j' (job_rows s)\<rparr>"
    using assms(2)
    by (auto simp: retry_execution_job_def transaction_def ensure_open_def save_job_def py_run Let_def
        require_job_fence_Inr split: prod.splits sum.splits if_splits)
  have row: "map_of (job_rows s) r = Some j" using j by (simp add: require_job_fence_Inr)
  have "attempt j \<le> max_attempts j"
    using jobs_ok_row [OF conjunct1 [OF job_invariant [OF assms(1)]] row] by (simp add: job_ok_def)
  with row j' s' show ?thesis by (simp add: lease_def)
qed

section \<open>Claiming\<close>

text \<open>
  A claim takes the job that has been due longest. When a claim returns a job, that job
  was claimable and, among all claimable rows after the expired ones without attempts left
  were buried, the first by due time, creation time and identifier; no other lease was
  live, and the claim is one more attempt under a new generation.
\<close>

theorem claim_takes_earliest:
  assumes "job_reachable sql t0 s" and "claim_execution_job sql clk w n s = (Inr (Some j), s')"
  defines "rows \<equiv> map (\<lambda>(k, j). (k, bury sql (clk 0) j)) (job_rows s)"
  shows "\<exists>i. map_of rows (job_run_id j) = Some i \<and> claimable (clk 2) i \<and>
    (\<forall>k i'. map_of rows k = Some i' \<longrightarrow> claimable (clk 2) i' \<longrightarrow> claim_key i \<le> claim_key i') \<and>
    (\<forall>k i'. map_of rows k = Some i' \<longrightarrow> \<not> live (clk 1) i') \<and>
    attempt j = attempt i + 1 \<and> lease_generation j = lease_generation i + 1 \<and>
    job_rows s' = dput (job_run_id j) j rows"
proof -
  have ok: "jobs_ok rows" using job_invariant [OF assms(1)] by (simp add: rows_def jobs_ok_bury)
  obtain i r where dead: "\<forall>p \<in> set rows. \<not> live (clk 1) (snd p)"
    and next_row: "next_claim (clk 2) rows = Some (r, i)" and j: "j = lease sql (clk 3) w n i"
    and s': "s' = s\<lparr>job_rows := dput r j rows\<rparr>"
    using claim_Some [OF assms(2)] by (auto simp: rows_def)
  have i: "map_of rows r = Some i" and "job_run_id i = r"
    using jobs_ok_entry [OF ok next_claim_Some(1) [OF next_row]] by (auto simp: job_ok_def)
  then have "job_run_id j = r" by (simp add: j lease_def)
  moreover have "claim_key i \<le> claim_key i'" if "map_of rows k = Some i'" "claimable (clk 2) i'" for k i'
    using next_claim_Some(3) [OF next_row map_of_SomeD [OF that(1)] that(2)] .
  moreover have "\<not> live (clk 1) i'" if "map_of rows k = Some i'" for k i'
    using dead map_of_SomeD [OF that] by fastforce
  ultimately show ?thesis
    using i next_claim_Some(2) [OF next_row] by (auto simp: s') (auto simp: j lease_def)
qed

text \<open>
  Work does not starve the workers. If the store is open, no lease is live and some row
  is claimable, a claim with valid arguments returns a job.
\<close>

theorem claim_finds_work:
  assumes "\<not> closed s" and "w \<noteq> []" and "0 < n"
    and "\<forall>p \<in> set (job_rows s). \<not> live (clk 1) (snd p)"
    and "(r, i) \<in> set (job_rows s)" and "claimable (clk 2) i"
  shows "\<exists>j s'. claim_execution_job sql clk w n s = (Inr (Some j), s')"
proof -
  let ?rows = "map (\<lambda>(k, j). (k, bury sql (clk 0) j)) (job_rows s)"
  have none: "\<not> list_ex (\<lambda>p. live (clk 1) (snd p)) ?rows"
    using assms(4) live_bury by (fastforce simp: list_ex_iff)
  have "bury sql (clk 0) i = i" using assms(6) by (auto simp: bury_def claimable_def)
  then have "(r, i) \<in> set ?rows" using assms(5) by force
  then have "next_claim (clk 2) ?rows \<noteq> None"
    using assms(6) unfolding next_claim_None by fastforce
  then obtain r' i' where "next_claim (clk 2) ?rows = Some (r', i')" by auto
  with assms(1-3) none show ?thesis
    by (simp add: claim_execution_job_def transaction_def ensure_open_def save_job_def py_run)
qed

end
