(* ===== verification/Worker.thy ===== *)
theory Worker
  imports Job_Laws
begin

text \<open>
  The local execution worker (worker.py): \<open>CheckpointResult\<close>, the constructor's checks,
  \<open>run_once\<close> with the heartbeat beside the handler, and the retry delay. The store is the
  record of the operations the worker calls, so the worker's lemmas need only their
  contract (\<open>fenced_store\<close>); \<open>sqlite_jobs\<close> is the instance the service uses.

  The handler is code of the caller and asyncio schedules it: a \<open>schedule\<close> lists what
  happens while the worker waits, in its order: a renewal by the heartbeat with its clock
  readings, a change of the state by anyone, or the end of the handler; a schedule that ends
  before the handler does is a cancelled wait. The polling loop, which repeats \<open>run_once\<close>, is
  not modelled.
\<close>

section \<open>Results\<close>

datatype worker_result =
    CheckpointResult string string jdict
  | CompleteResult

text \<open>\<open>CheckpointResult.__post_init__\<close>.\<close>

definition checkpoint_result :: "string \<Rightarrow> string \<Rightarrow> jdict \<Rightarrow> exn + worker_result" where
  "checkpoint_result next_step status data =
     (if next_step = [] then Inl (ValueError ''next_step must not be empty'')
      else if status \<noteq> ''READY'' \<and> status \<noteq> ''WAITING''
      then Inl (ValueError ''status must be READY or WAITING'')
      else Inr (CheckpointResult next_step status data))"

record worker =
  worker_id :: string
  lease_seconds :: rat
  poll_interval :: rat
  retry_base_seconds :: rat
  retry_max_seconds :: rat

definition new_worker :: "string \<Rightarrow> rat \<Rightarrow> rat \<Rightarrow> rat \<Rightarrow> rat \<Rightarrow> exn + worker" where
  "new_worker wid secs poll base cap =
     (if wid = [] then Inl (ValueError ''worker_id must not be empty'')
      else if secs \<le> 0 then Inl (ValueError ''lease_seconds must be positive'')
      else if poll < 0 then Inl (ValueError ''poll_interval must be non-negative'')
      else if base < 0 then Inl (ValueError ''retry_base_seconds must be non-negative'')
      else if cap < 0 then Inl (ValueError ''retry_max_seconds must be non-negative'')
      else Inr \<lparr>worker_id = wid, lease_seconds = secs, poll_interval = poll,
                retry_base_seconds = base, retry_max_seconds = cap\<rparr>)"

text \<open>
  \<open>2.0 ** n\<close> raises \<open>OverflowError\<close> from \<open>n = 1024\<close> on; below, the product with a power of two
  is exact, or infinite and then above the maximum.
\<close>

definition retry_delay :: "worker \<Rightarrow> int \<Rightarrow> rat" where
  "retry_delay w n =
     (if retry_base_seconds w = 0 \<or> retry_max_seconds w = 0 then 0
      else let k = nat (max 0 (n - 1))
           in if 1024 \<le> k then retry_max_seconds w
              else min (retry_max_seconds w) (retry_base_seconds w * 2 ^ k))"

section \<open>The store the worker uses\<close>

record 's job_store =
  js_claim :: "clock \<Rightarrow> string \<Rightarrow> rat \<Rightarrow> ('s, job option) py"
  js_renew :: "clock \<Rightarrow> string \<Rightarrow> int \<Rightarrow> int \<Rightarrow> rat \<Rightarrow> ('s, job) py"
  js_checkpoint :: "clock \<Rightarrow> string \<Rightarrow> int \<Rightarrow> int \<Rightarrow> string \<Rightarrow> jdict \<Rightarrow> string \<Rightarrow> ('s, job) py"
  js_complete :: "clock \<Rightarrow> string \<Rightarrow> int \<Rightarrow> int \<Rightarrow> ('s, job) py"
  js_retry :: "clock \<Rightarrow> string \<Rightarrow> int \<Rightarrow> int \<Rightarrow> rat \<Rightarrow> string \<Rightarrow> ('s, job) py"

definition sqlite_jobs :: "sql_env \<Rightarrow> sqlite job_store" where
  "sqlite_jobs sql =
     \<lparr>js_claim = claim_execution_job sql, js_renew = renew_execution_job sql,
      js_checkpoint = checkpoint_execution_job sql, js_complete = complete_execution_job sql,
      js_retry = retry_execution_job sql\<rparr>"

section \<open>The handler and its heartbeat\<close>

text \<open>How the handler ends: with a result, with another value, or with an exception.\<close>

datatype handler_end = Returned worker_result | NoResult | Raised exn

datatype 's event = Renew clock | Outside "'s \<Rightarrow> 's" | HandlerEnds handler_end

datatype wait_end = Ended handler_end | Cancelled

fun run_handler_with_lease_heartbeat ::
  "'s job_store \<Rightarrow> rat \<Rightarrow> string \<Rightarrow> int \<Rightarrow> int \<Rightarrow> 's event list \<Rightarrow> ('s, wait_end) py" where
  "run_handler_with_lease_heartbeat js secs r g e [] = ret Cancelled"
| "run_handler_with_lease_heartbeat js secs r g e (Renew clk # es) =
     seq (js_renew js clk r g e secs) (\<lambda>_. run_handler_with_lease_heartbeat js secs r g e es)"
| "run_handler_with_lease_heartbeat js secs r g e (Outside f # es) =
     seq (modify f) (\<lambda>_. run_handler_with_lease_heartbeat js secs r g e es)"
| "run_handler_with_lease_heartbeat js secs r g e (HandlerEnds x # es) = ret (Ended x)"

section \<open>One round\<close>

text \<open>
  The clauses of the \<open>try\<close> statement. \<open>describe\<close> is the text of an exception and \<open>on_dead\<close>
  the callback; \<open>Stopped\<close> is the \<open>CancelledError\<close> that \<open>run_once\<close> raises again.
\<close>

datatype round = Idle | Worked | Stopped

definition report_dead :: "(job \<Rightarrow> ('s, unit) py) option \<Rightarrow> job \<Rightarrow> ('s, unit) py" where
  "report_dead on_dead j =
     (case on_dead of Some f \<Rightarrow> (if job_status j = DEAD then f j else ret ()) | None \<Rightarrow> ret ())"

definition stop_job ::
  "'s job_store \<Rightarrow> (job \<Rightarrow> ('s, unit) py) option \<Rightarrow> clock \<Rightarrow> string \<Rightarrow> int \<Rightarrow> int \<Rightarrow> ('s, round) py" where
  "stop_job js on_dead clk r g e s =
     (case js_retry js clk r g e 0 ''CancelledError: worker stopped'' s of
        (Inl (JobFence _ _ _ _ _ _), t) \<Rightarrow> (Inr Stopped, t)
      | (Inl x, t) \<Rightarrow> (Inl x, t)
      | (Inr j, t) \<Rightarrow> seq (report_dead on_dead j) (\<lambda>_. ret Stopped) t)"

definition fail_job ::
  "'s job_store \<Rightarrow> (exn \<Rightarrow> string) \<Rightarrow> (job \<Rightarrow> ('s, unit) py) option \<Rightarrow> worker \<Rightarrow> clock
     \<Rightarrow> string \<Rightarrow> int \<Rightarrow> int \<Rightarrow> int \<Rightarrow> exn \<Rightarrow> ('s, round) py" where
  "fail_job js describe on_dead w clk r g e n x =
     (case x of
        JobFence _ _ _ _ _ _ \<Rightarrow> raise x
      | _ \<Rightarrow> seq (js_retry js clk r g e (retry_delay w n) (describe x)) (\<lambda>j.
             seq (report_dead on_dead j) (\<lambda>_. ret Worked)))"

definition settle_job ::
  "'s job_store \<Rightarrow> clock \<Rightarrow> string \<Rightarrow> int \<Rightarrow> int \<Rightarrow> worker_result \<Rightarrow> ('s, round) py" where
  "settle_job js clk r g e res =
     (case res of
        CompleteResult \<Rightarrow> seq (js_complete js clk r g e) (\<lambda>_. ret Worked)
      | CheckpointResult next_step status data \<Rightarrow>
          seq (js_checkpoint js clk r g e next_step data status) (\<lambda>_. ret Worked))"

definition run_once ::
  "'s job_store \<Rightarrow> (exn \<Rightarrow> string) \<Rightarrow> (job \<Rightarrow> ('s, unit) py) option \<Rightarrow> worker \<Rightarrow> clock \<Rightarrow> clock
     \<Rightarrow> (job \<Rightarrow> 's event list) \<Rightarrow> ('s, round) py" where
  "run_once js describe on_dead w clk clk' schedule =
     seq (js_claim js clk (worker_id w) (lease_seconds w)) (\<lambda>claimed.
       case claimed of
         None \<Rightarrow> ret Idle
       | Some j \<Rightarrow> (\<lambda>s.
           let r = job_run_id j; g = lease_generation j; e = control_epoch j
           in case run_handler_with_lease_heartbeat js (lease_seconds w) r g e (schedule j) s of
                (Inl x, t) \<Rightarrow> fail_job js describe on_dead w clk' r g e (attempt j) x t
              | (Inr Cancelled, t) \<Rightarrow> stop_job js on_dead clk' r g e t
              | (Inr (Ended (Raised x)), t) \<Rightarrow> fail_job js describe on_dead w clk' r g e (attempt j) x t
              | (Inr (Ended NoResult), t) \<Rightarrow>
                  fail_job js describe on_dead w clk' r g e (attempt j) TypeError t
              | (Inr (Ended (Returned res)), t) \<Rightarrow> settle_job js clk' r g e res t))"

section \<open>The retry delay\<close>

lemma retry_delay_bounds:
  assumes "0 \<le> retry_base_seconds w" and "0 \<le> retry_max_seconds w"
  shows "0 \<le> retry_delay w n \<and> retry_delay w n \<le> retry_max_seconds w"
  using assms by (auto simp: retry_delay_def Let_def)

lemma retry_delay_mono:
  assumes "0 \<le> retry_base_seconds w" and "0 \<le> retry_max_seconds w" and "m \<le> n"
  shows "retry_delay w m \<le> retry_delay w n"
proof -
  let ?k = "nat (max 0 (m - 1))" and ?l = "nat (max 0 (n - 1))"
  have "?k \<le> ?l" using assms(3) by (simp add: nat_mono)
  then have "(2::rat) ^ ?k \<le> 2 ^ ?l" by (rule power_increasing) simp
  then have "retry_base_seconds w * 2 ^ ?k \<le> retry_base_seconds w * 2 ^ ?l"
    using assms(1) by (rule mult_left_mono)
  with \<open>?k \<le> ?l\<close> show ?thesis
    using assms(2) by (auto simp: retry_delay_def Let_def min_def)
qed

lemma retry_delay_nth:
  "retry_delay w (int k + 1) =
     (if retry_base_seconds w = 0 \<or> retry_max_seconds w = 0 then 0
      else if 1024 \<le> k then retry_max_seconds w
      else min (retry_max_seconds w) (retry_base_seconds w * 2 ^ k))"
  by (simp add: retry_delay_def)

lemma retry_delay_doubles:
  assumes "k < 1023" and "retry_delay w (int k + 1) < retry_max_seconds w"
  shows "retry_delay w (int k + 1 + 1) = min (retry_max_seconds w) (2 * retry_delay w (int k + 1))"
proof (cases "retry_base_seconds w = 0 \<or> retry_max_seconds w = 0")
  case True
  then show ?thesis using assms(2) by (auto simp: retry_delay_def)
next
  case False
  let ?p = "retry_base_seconds w * 2 ^ k"
  have "retry_delay w (int k + 1) = ?p" using False assms by (auto simp: retry_delay_nth min_def split: if_splits)
  moreover have "retry_delay w (int k + 1 + 1) = min (retry_max_seconds w) (2 * ?p)"
    using retry_delay_nth [of w "Suc k"] False assms(1) by (simp add: mult.left_commute add.commute)
  ultimately show ?thesis by simp
qed

text \<open>
  The retry delay is an exponential backoff with a cap. For a worker that the
  constructor accepts it is never negative nor above the maximum, does not decrease with the
  attempts, is the base (or the maximum, if smaller) for the first attempt, and while it is
  below the maximum the next one is its double or the maximum. It therefore is a valid
  argument of \<open>retry_execution_job\<close>.
\<close>

theorem retry_delay_backoff:
  assumes "new_worker wid secs poll base cap = Inr w" and "1 \<le> n" and "n < 1024"
  shows "0 \<le> retry_delay w n \<and> retry_delay w n \<le> cap \<and>
    retry_delay w n \<le> retry_delay w (n + 1) \<and>
    retry_delay w 1 = min cap base \<and>
    (retry_delay w n < cap \<longrightarrow> retry_delay w (n + 1) = min cap (2 * retry_delay w n))"
proof -
  have w: "retry_base_seconds w = base" "retry_max_seconds w = cap" "0 \<le> base" "0 \<le> cap"
    using assms(1) by (auto simp: new_worker_def split: if_splits)
  define k where "k = nat (n - 1)"
  have n: "n = int k + 1" and "k < 1023"
    using assms(2,3) by (simp_all add: k_def)
  have "retry_delay w n < cap \<longrightarrow> retry_delay w (n + 1) = min cap (2 * retry_delay w n)"
    using retry_delay_doubles [OF \<open>k < 1023\<close>, of w] w unfolding n by simp
  moreover have "retry_delay w 1 = min cap base"
    using retry_delay_nth [of w 0] w by (auto simp: min_def)
  ultimately show ?thesis
    using w retry_delay_bounds [of w n] retry_delay_mono [of w n "n + 1"] by simp
qed

section \<open>The contract of a fenced store\<close>

text \<open>
  What the worker relies on: under a token that was overtaken (\<open>stale\<close>) each transition
  raises \<open>JobFence\<close> and changes nothing; a transition that returns leaves the job's row
  (\<open>row\<close>) without a lease.
\<close>

locale fenced_store =
  fixes js :: "'s job_store"
    and stale :: "'s \<Rightarrow> string \<Rightarrow> int \<Rightarrow> int \<Rightarrow> bool"
    and row :: "'s \<Rightarrow> string \<Rightarrow> job option"
  assumes stale_complete: "stale s r g e \<Longrightarrow>
      \<exists>a b c. js_complete js clk r g e s = (Inl (JobFence r g e a b c), s)"
    and stale_checkpoint: "stale s r g e \<Longrightarrow> step \<noteq> [] \<Longrightarrow> st = ''READY'' \<or> st = ''WAITING'' \<Longrightarrow>
      \<exists>a b c. js_checkpoint js clk r g e step d st s = (Inl (JobFence r g e a b c), s)"
    and stale_retry: "stale s r g e \<Longrightarrow> 0 \<le> delay \<Longrightarrow>
      \<exists>a b c. js_retry js clk r g e delay err s = (Inl (JobFence r g e a b c), s)"
    and stale_renew: "stale s r g e \<Longrightarrow> 0 < secs \<Longrightarrow>
      \<exists>a b c. js_renew js clk r g e secs s = (Inl (JobFence r g e a b c), s)"
    and complete_row: "js_complete js clk r g e s = (Inr j, t) \<Longrightarrow>
      row t r = Some j \<and> job_status j = COMPLETED"
    and checkpoint_row: "js_checkpoint js clk r g e step d st s = (Inr j, t) \<Longrightarrow>
      row t r = Some j \<and> workflow_step j = step \<and> attempt j = 0 \<and>
      job_status j = (if st = ''READY'' then READY else WAITING)"
    and retry_row: "js_retry js clk r g e delay err s = (Inr j, t) \<Longrightarrow>
      row t r = Some j \<and> job_status j \<in> {RETRY, DEAD} \<and> last_error j = Some err"
begin

lemma settle_stale:
  assumes "stale s r g e" and "\<And>n st d. res = CheckpointResult n st d \<Longrightarrow> checkpoint_result n st d = Inr res"
  shows "\<exists>a b c. settle_job js clk r g e res s = (Inl (JobFence r g e a b c), s)"
proof (cases res)
  case (CheckpointResult n st d)
  have "n \<noteq> []" and "st = ''READY'' \<or> st = ''WAITING''"
    using assms(2) [OF CheckpointResult] by (auto simp: checkpoint_result_def split: if_splits)
  from stale_checkpoint [OF assms(1) this, of clk d] CheckpointResult show ?thesis
    by (auto simp: settle_job_def py_run)
next
  case CompleteResult
  from stale_complete [OF assms(1), of clk] CompleteResult show ?thesis
    by (auto simp: settle_job_def py_run)
qed

lemma fail_stale:
  assumes "stale s r g e" and "0 \<le> retry_base_seconds w" and "0 \<le> retry_max_seconds w"
  shows "\<exists>r' g' e' a b c. fail_job js describe on_dead w clk r g e n x s = (Inl (JobFence r' g' e' a b c), s)"
  using stale_retry [OF assms(1), of "retry_delay w n" clk "describe x"] retry_delay_bounds [OF assms(2,3), of n]
  by (cases x) (auto simp: fail_job_def py_run)

lemma stop_stale:
  assumes "stale s r g e" shows "stop_job js on_dead clk r g e s = (Inr Stopped, s)"
  using stale_retry [OF assms, of 0 clk "''CancelledError: worker stopped''"] by (auto simp: stop_job_def)

text \<open>Ending a round under an overtaken token commits nothing.\<close>

lemma heartbeat_stale:
  assumes "stale s r g e" and "0 < secs"
  shows "\<exists>a b c. run_handler_with_lease_heartbeat js secs r g e (Renew clk # es) s
           = (Inl (JobFence r g e a b c), s)"
  using stale_renew [OF assms, of clk] by (auto simp: py_run)

text \<open>A settled round leaves the job as its result says.\<close>

lemma settle_row:
  assumes "settle_job js clk r g e res s = (Inr x, t)"
  shows "\<exists>j. row t r = Some j \<and> (case res of
      CompleteResult \<Rightarrow> job_status j = COMPLETED
    | CheckpointResult n st d \<Rightarrow> workflow_step j = n \<and> attempt j = 0 \<and>
        job_status j = (if st = ''READY'' then READY else WAITING))"
  using assms complete_row checkpoint_row
  by (fastforce simp: settle_job_def py_run split: worker_result.splits prod.splits sum.splits)

end

section \<open>The SQLite store keeps the contract\<close>

definition overtaken :: "sqlite \<Rightarrow> string \<Rightarrow> int \<Rightarrow> int \<Rightarrow> bool" where
  "overtaken s r g e \<longleftrightarrow> \<not> closed s \<and> (\<exists>j. map_of (job_rows s) r = Some j \<and> outdated g e j)"

lemma overtaken_fence:
  assumes "overtaken s r g e"
  shows "\<exists>a b c. require_job_fence now r g e s = (Inl (JobFence r g e a b c), s)"
  using assms by (auto simp: overtaken_def require_job_fence_def find_job_def py_run Let_def outdated_def)

lemma overtaken_transaction:
  assumes "overtaken s r g e"
  shows "\<exists>a b c. transaction (seq (require_job_fence now r g e) f) s = (Inl (JobFence r g e a b c), s)"
  using overtaken_fence [OF assms, of now] fenced_raise [of s now r g e _ f] assms
  by (auto simp: overtaken_def)

lemmas job_op_defs = renew_execution_job_def checkpoint_execution_job_def
  complete_execution_job_def retry_execution_job_def

interpretation sqlite_worker: fenced_store "sqlite_jobs sql" overtaken "\<lambda>s r. map_of (job_rows s) r" for sql
proof (unfold_locales, goal_cases)
  case (1 s r g e clk) then show ?case
    by (simp add: sqlite_jobs_def job_op_defs overtaken_transaction)
next
  case (2 s r g e step st clk d) then show ?case
    by (auto simp: sqlite_jobs_def job_op_defs seq_def [of "fail_if _ _"] fail_if_def overtaken_transaction)
next
  case (3 s r g e delay clk err) then show ?case
    by (simp add: sqlite_jobs_def job_op_defs seq_def [of "fail_if _ _"] fail_if_def overtaken_transaction)
next
  case (4 s r g e secs clk) then show ?case
    by (simp add: sqlite_jobs_def job_op_defs seq_def [of "fail_if _ _"] fail_if_def overtaken_transaction)
next
  case (5 clk r g e s j t) then show ?case
    by (auto simp: sqlite_jobs_def job_op_defs transaction_def ensure_open_def save_job_def py_run
        split: prod.splits sum.splits if_splits)
next
  case (6 clk r g e step d st s j t) then show ?case
    by (auto simp: sqlite_jobs_def job_op_defs transaction_def ensure_open_def save_job_def py_run
        split: prod.splits sum.splits if_splits)
next
  case (7 clk r g e delay err s j t) then show ?case
    by (auto simp: sqlite_jobs_def job_op_defs transaction_def ensure_open_def save_job_def py_run Let_def
        split: prod.splits sum.splits if_splits)
qed

section \<open>A round of the worker\<close>

lemma wait_returns:
  "run_handler_with_lease_heartbeat js secs r g e es s = (Inr (Ended x), t) \<Longrightarrow> HandlerEnds x \<in> set es"
proof (induction es arbitrary: s)
  case (Cons ev es)
  then show ?case by (cases ev) (auto simp: py_run split: prod.splits sum.splits)
qed (simp add: py_run)

text \<open>The results a handler can build: those its constructor accepts.\<close>

definition results_built :: "'s event list \<Rightarrow> bool" where
  "results_built es \<longleftrightarrow> (\<forall>n st d. HandlerEnds (Returned (CheckpointResult n st d)) \<in> set es \<longrightarrow>
     checkpoint_result n st d = Inr (CheckpointResult n st d))"

text \<open>
  C36. A worker that was overtaken commits nothing. Suppose that, when the wait of a round
  ends, in whatever way and after whatever interleaving of renewals and outside changes,
  the row has a newer generation or epoch than the worker's token. Then the round leaves the
  state exactly as the wait left it, and raises \<open>JobFence\<close>, or stops if it was cancelled.
\<close>

theorem overtaken_worker_commits_nothing:
  assumes "new_worker wid secs poll base cap = Inr w"
    and claim: "claim_execution_job sql clk wid secs s = (Inr (Some j), s1)"
    and wait: "run_handler_with_lease_heartbeat (sqlite_jobs sql) secs (job_run_id j) (lease_generation j)
          (control_epoch j) (schedule j) s1 = (out, t)"
    and over: "overtaken t (job_run_id j) (lease_generation j) (control_epoch j)"
    and built: "results_built (schedule j)"
  shows "\<exists>res. run_once (sqlite_jobs sql) describe on_dead w clk clk' schedule s = (res, t) \<and>
    ((\<exists>r g e a b c. res = Inl (JobFence r g e a b c)) \<or> (out = Inr Cancelled \<and> res = Inr Stopped))"
proof -
  have w: "worker_id w = wid" "lease_seconds w = secs" "0 \<le> retry_base_seconds w" "0 \<le> retry_max_seconds w"
    using assms(1) by (auto simp: new_worker_def split: if_splits)
  have js: "js_claim (sqlite_jobs sql) = claim_execution_job sql" by (simp add: sqlite_jobs_def)
  note round = run_once_def w js seq_def [of "claim_execution_job _ _ _ _"] claim Let_def wait
  note fail = sqlite_worker.fail_stale [OF over w(3,4), of sql describe on_dead clk' "attempt j"]
  show ?thesis
  proof (cases out)
    case (Inl x)
    with fail [of x] show ?thesis by (auto simp: round)
  next
    case (Inr ended)
    show ?thesis
    proof (cases ended)
      case Cancelled
      with Inr sqlite_worker.stop_stale [OF over, of sql on_dead clk'] show ?thesis by (simp add: round)
    next
      case (Ended x)
      have settle: "\<exists>a b c. settle_job (sqlite_jobs sql) clk' (job_run_id j) (lease_generation j)
          (control_epoch j) res t = (Inl (JobFence (job_run_id j) (lease_generation j) (control_epoch j) a b c), t)"
        if "x = Returned res" for res
      proof (rule sqlite_worker.settle_stale [OF over])
        fix n st d assume "res = CheckpointResult n st d"
        then show "checkpoint_result n st d = Inr res"
          using wait_returns [OF wait [unfolded Inr Ended]] that built by (simp add: results_built_def)
      qed
      show ?thesis
      proof (cases x)
        case (Returned res)
        from settle [OF this] Returned Inr Ended show ?thesis by (auto simp: round)
      next
        case NoResult
        with Inr Ended fail [of TypeError] show ?thesis by (auto simp: round)
      next
        case (Raised y)
        with Inr Ended fail [of y] show ?thesis by (auto simp: round)
      qed
    qed
  qed
qed

text \<open>
  A round that reports work has settled its job. If \<open>run_once\<close> returns true, the job it
  claimed is no longer leased: it is completed or at the next step as the handler's result
  says, or, after a failure, \<open>RETRY\<close> or \<open>DEAD\<close>; no round ends with its lease left behind.
\<close>

theorem worked_round_settles_job:
  assumes "run_once (sqlite_jobs sql) describe None w clk clk' schedule s = (Inr Worked, t)"
  shows "\<exists>j s1 j'. claim_execution_job sql clk (worker_id w) (lease_seconds w) s = (Inr (Some j), s1) \<and>
    map_of (job_rows t) (job_run_id j) = Some j' \<and> job_status j' \<noteq> LEASED"
proof -
  have js: "js_claim (sqlite_jobs sql) = claim_execution_job sql" by (simp add: sqlite_jobs_def)
  obtain j s1 where claim: "claim_execution_job sql clk (worker_id w) (lease_seconds w) s = (Inr (Some j), s1)"
    using assms by (auto simp: run_once_def js py_run split: prod.splits sum.splits option.splits)
  let ?r = "job_run_id j" and ?g = "lease_generation j" and ?e = "control_epoch j"
  have settled: "\<exists>j'. map_of (job_rows t) ?r = Some j' \<and> job_status j' \<noteq> LEASED"
    if "settle_job (sqlite_jobs sql) clk' ?r ?g ?e res u = (Inr Worked, t)" for res u
    using sqlite_worker.settle_row [OF that] by (cases res) (auto split: if_splits)
  have failed: "\<exists>j'. map_of (job_rows t) ?r = Some j' \<and> job_status j' \<noteq> LEASED"
    if "fail_job (sqlite_jobs sql) describe None w clk' ?r ?g ?e n x u = (Inr Worked, t)" for n x u
  proof -
    from that obtain j' where
      "js_retry (sqlite_jobs sql) clk' ?r ?g ?e (retry_delay w n) (describe x) u = (Inr j', t)"
      by (cases x) (auto simp: fail_job_def report_dead_def py_run split: prod.splits sum.splits)
    from sqlite_worker.retry_row [OF this] show ?thesis by auto
  qed
  have "\<exists>j'. map_of (job_rows t) ?r = Some j' \<and> job_status j' \<noteq> LEASED"
    using assms settled failed
    by (auto simp: run_once_def js seq_def [of "claim_execution_job _ _ _ _"] claim Let_def stop_job_def
        report_dead_def py_run split: prod.splits sum.splits wait_end.splits handler_end.splits exn.splits)
  with claim show ?thesis by blast
qed

end
