(* ===== verification/Durable_Steps.thy ===== *)
theory Durable_Steps
  imports Workflow Worker
begin

text \<open>
  The durable workflow (durable_workflow.py), first part: the questions it asks, the outputs and
  artifacts it publishes, and the sections of its execution steps that run under the visibility
  lock. What the learning engine computes is data: \<open>automl_result\<close>, the profile of a dataset and the
  snapshots of the stage callbacks.
\<close>

section \<open>What the engine returns\<close>

record visualization =
  vz_chart_type :: string
  vz_status :: string
  vz_content :: "string option"
  vz_sample_count :: int
  vz_failure_code :: "string option"

record automl_result =
  ar_task :: jdict
  ar_trials :: "json list"
  ar_evaluation :: jdict
  ar_model_metadata :: jdict
  ar_model_bytes :: string
  ar_report_bytes :: string
  ar_visualizations :: "visualization list"

definition artifact_kind_of :: "visualization \<Rightarrow> string" where
  "artifact_kind_of v = ''EVALUATION_'' @ vz_chart_type v @ ''_PNG''"

definition visualization_metadata :: "(string \<Rightarrow> string) \<Rightarrow> visualization \<Rightarrow> json \<Rightarrow> jdict" where
  "visualization_metadata digest v artifact_id =
     [(''chart_type'', JStr (vz_chart_type v)), (''status'', JStr (vz_status v)), (''artifact_id'', artifact_id),
      (''media_type'', case vz_content v of None \<Rightarrow> JNull | Some _ \<Rightarrow> JStr ''image/png''),
      (''source_partition'', JStr ''SEALED_HOLDOUT''), (''sample_count'', JInt (vz_sample_count v)),
      (''aggregate_only'', JBool True), (''contains_raw_rows'', JBool False),
      (''size_bytes'', case vz_content v of None \<Rightarrow> JNull | Some c \<Rightarrow> JInt (int (length c))),
      (''sha256'', case vz_content v of None \<Rightarrow> JNull | Some c \<Rightarrow> JStr (digest c)),
      (''failure_code'', optional_str (vz_failure_code v))]"

text \<open>
  The texts of the back-end errors, whose exceptions carry a code and a context in the model, and the
  code and text of an engine error (back-end errors are engine errors).
\<close>

definition backend_message :: "string \<Rightarrow> string" where
  "backend_message code =
     (if code = ''BACKEND_NOT_FOUND'' then ''The requested AutoML backend is not registered.''
      else if code = ''BACKEND_UNAVAILABLE'' then ''The requested AutoML backend is not ready in this runtime.''
      else if code = ''BACKEND_MEDIA_TYPE_UNSUPPORTED''
      then ''The selected backend does not support this dataset media type.''
      else ''The selected backend does not support this task type.'')"

fun engine_error :: "exn \<Rightarrow> (string \<times> string) option" where
  "engine_error (EngineErr code message) = Some (code, message)"
| "engine_error (BackendErr code context) = Some (code, backend_message code)"
| "engine_error _ = None"

record durable_service =
  ds_service :: workflow_service
  ds_digest :: "string \<Rightarrow> string"
  ds_dumps :: "json \<Rightarrow> string"
  ds_loads :: "string \<Rightarrow> json option"

section \<open>Small readers\<close>

text \<open>A value used as a dictionary: \<open>dict(v)\<close> or \<open>v[...]\<close>, and \<open>d.get(k, {}).get\<close>.\<close>

definition as_object :: "json \<Rightarrow> exn + jdict" where
  "as_object v = (case v of JObj d \<Rightarrow> Inr d | _ \<Rightarrow> Inl TypeError)"

definition object_at :: "jdict \<Rightarrow> string \<Rightarrow> exn + jdict" where
  "object_at d k = exn_bind (item_of d k) as_object"

definition object_get :: "jdict \<Rightarrow> string \<Rightarrow> exn + jdict" where
  "object_get d k = (case dget_or d k (JObj []) of JObj v \<Rightarrow> Inr v | _ \<Rightarrow> Inl (AttributeErr ''get''))"

definition items_at :: "jdict \<Rightarrow> string \<Rightarrow> exn + jdict list" where
  "items_at d k = exn_bind (item_of d k) dicts"

definition metric :: "(string \<Rightarrow> rat option) \<Rightarrow> json \<Rightarrow> json \<Rightarrow> exn + json" where
  "metric parse_float name v =
     exn_bind (py_float parse_float v) (\<lambda>q.
       Inr (JObj [(''name'', name), (''value'', JFloat q),
         (''direction'', JStr (if name \<in> JStr ` {''rmse'', ''mae'', ''log_loss''} then ''MINIMIZE'' else ''MAXIMIZE''))]))"

section \<open>Questions\<close>

definition column_names :: "jdict \<Rightarrow> exn + json list" where
  "column_names profile = exn_bind (items_at profile ''columns'') (traverse (\<lambda>c. item_of c ''name''))"

definition target_column_question :: "py_env \<Rightarrow> json list \<Rightarrow> jdict" where
  "target_column_question env columns =
     [(''question_id'', JStr ''q_target''), (''prompt'', JStr ''Which column is the prediction target?''),
      (''answer_schema'', JObj [(''type'', JStr ''string''), (''enum'', JArr columns)]),
      (''selection_mode'', JStr ''SINGLE''), (''min_selections'', JInt 1), (''max_selections'', JInt 1),
      (''options'', JArr (map (\<lambda>column. JObj
         [(''value'', column), (''label'', column),
          (''consequence'', JStr (''Train a model that predicts '' @ py_str env column @ ''.'')),
          (''risk'', JStr ''MEDIUM''),
          (''risk_reason'', JStr ''Choosing a different target changes the task definition and all reported metrics.'')])
         columns)),
      (''recommendation'', JNull),
      (''recommendation_reason'', JStr ''A target cannot be inferred safely from structure alone.'')]"

definition iid_question :: jdict where
  "iid_question =
     [(''question_id'', JStr ''q_iid''),
      (''prompt'', JStr ''Can rows be treated as independent and identically distributed?''),
      (''answer_schema'', JObj [(''type'', JStr ''boolean'')]),
      (''selection_mode'', JStr ''SINGLE''), (''min_selections'', JInt 1), (''max_selections'', JInt 1),
      (''options'', JArr
        [JObj [(''value'', JBool True), (''label'', JStr ''Yes''),
           (''consequence'', JStr ''Use grouped duplicate protection with a random holdout.''),
           (''risk'', JStr ''HIGH''),
           (''risk_reason'', JStr ''Treating dependent rows as IID can make evaluation optimistic.'')],
         JObj [(''value'', JBool False), (''label'', JStr ''No''),
           (''consequence'', JStr ''Pause because group/time splitting is not in this slice.''),
           (''risk'', JStr ''LOW''),
           (''risk_reason'', JStr ''The current execution backend will stop instead of using an unsafe split.'')]]),
      (''recommendation'', JNull),
      (''recommendation_reason'', JStr ''The dataset does not prove row independence.'')]"

definition initial_questions :: "py_env \<Rightarrow> jdict \<Rightarrow> jdict \<Rightarrow> exn + jdict list" where
  "initial_questions env run profile =
     exn_bind (object_get run ''resolved_inputs'') (\<lambda>objective.
     exn_bind (column_names profile) (\<lambda>columns.
       Inr ((if list_ex (py_eq (dget objective ''target_column'')) columns then []
             else [target_column_question env columns]) @
            (if dget objective ''iid_confirmed'' = JBool True then [] else [iid_question]))))"

definition conventional :: "py_env \<Rightarrow> json list \<Rightarrow> bool" where
  "conventional env classes \<longleftrightarrow>
     length classes = 2 \<and> set (map (\<lambda>v. py_strip (py_str env v)) classes) = {''0'', ''1''}"

definition recommended_class :: "py_env \<Rightarrow> json list \<Rightarrow> json" where
  "recommended_class env classes =
     (if conventional env classes
      then (case filter (\<lambda>v. py_strip (py_str env v) = ''1'') classes of [] \<Rightarrow> JNull | v # _ \<Rightarrow> v)
      else JNull)"

definition class_option :: "py_env \<Rightarrow> json \<Rightarrow> json \<Rightarrow> json" where
  "class_option env recommendation v =
     (let low = (recommendation \<noteq> JNull \<and> same_value v recommendation)
      in JObj [(''value'', v), (''label'', JStr (py_str env v)),
        (''consequence'', JStr (''Treat '' @ repr_of env v @ '' as the positive outcome.'')),
        (''risk'', JStr (if low then ''LOW'' else ''MEDIUM'')),
        (''risk_reason'', JStr
          (if low then ''This matches the conventional positive label for 0/1 targets.''
           else ''Class orientation changes precision/recall interpretation and threshold metrics.''))])"

definition positive_class_question :: "py_env \<Rightarrow> json list \<Rightarrow> jdict" where
  "positive_class_question env classes =
     (let recommendation = recommended_class env classes
      in [(''question_id'', JStr ''q_positive_class''), (''prompt'', JStr ''Which target value is the positive class?''),
        (''answer_schema'', JObj [(''type'', strs [''string'', ''number'', ''boolean'']), (''enum'', JArr classes)]),
        (''selection_mode'', JStr ''SINGLE''), (''min_selections'', JInt 1), (''max_selections'', JInt 1),
        (''options'', JArr (map (class_option env recommendation) classes)),
        (''recommendation'', recommendation),
        (''recommendation_reason'', JStr
          (if conventional env classes
           then ''The target labels are the conventional 0/1 encoding; 1 is the positive class.''
           else ''Class meaning is a business decision.''))])"

text \<open>Whether every recommended value is an option of low risk.\<close>

fun low_risk :: "jdict list \<Rightarrow> json list \<Rightarrow> bool" where
  "low_risk options [] = True"
| "low_risk options (v # vs) =
     (case filter (\<lambda>opt. same_value (dget opt ''value'') v) options of
        [] \<Rightarrow> False
      | opt # _ \<Rightarrow> dget opt ''risk'' = JStr ''LOW'' \<and> low_risk options vs)"

definition agent_may_answer :: "jdict \<Rightarrow> exn + bool" where
  "agent_may_answer question =
     (let recommendation = dget question ''recommendation'';
          values = (if dget question ''selection_mode'' = JStr ''MULTIPLE'' then recommendation else JArr [recommendation])
      in if recommendation = JNull then Inr False
         else case values of
           JArr vs \<Rightarrow>
             (if \<not> py_truthy (dget question ''options'') then Inr False
              else exn_bind (dicts (dget question ''options'')) (\<lambda>options. Inr (low_risk options vs)))
         | _ \<Rightarrow> Inr False)"

fun all_agent_answerable :: "jdict list \<Rightarrow> exn + bool" where
  "all_agent_answerable [] = Inr True"
| "all_agent_answerable (q # qs) =
     exn_bind (agent_may_answer q) (\<lambda>b. if b then all_agent_answerable qs else Inr False)"

definition decision_resolution_policy :: "jdict \<Rightarrow> jdict list \<Rightarrow> exn + string" where
  "decision_resolution_policy run questions =
     exn_bind (object_get run ''policy'') (\<lambda>policy.
       if dget policy ''allow_external_llm'' \<noteq> JBool True \<or>
          dget_or policy ''risk_tier'' (JStr ''STANDARD'') \<noteq> JStr ''STANDARD''
       then Inr ''HUMAN_REQUIRED''
       else exn_bind (all_agent_answerable questions) (\<lambda>b.
              Inr (if b then ''AGENT_ALLOWED'' else ''HUMAN_REQUIRED'')))"

section \<open>Outputs, artifacts and phases\<close>

text \<open>The loop over the outputs of a run; the payload is looked at only for a trial number.\<close>

fun first_output :: "string \<Rightarrow> int option \<Rightarrow> jdict list \<Rightarrow> exn + jdict option" where
  "first_output output_type trial [] = Inr None"
| "first_output output_type trial (x # xs) =
     (if dget x ''type'' \<noteq> JStr output_type then first_output output_type trial xs
      else case trial of
        None \<Rightarrow> Inr (Some x)
      | Some n \<Rightarrow> exn_bind (object_get x ''payload'') (\<lambda>payload.
            if py_eq (dget payload ''trial_number'') (JInt n) then Inr (Some x)
            else first_output output_type trial xs))"

definition output_for_type :: "string \<Rightarrow> string \<Rightarrow> int option \<Rightarrow> (store, jdict option) py" where
  "output_for_type run_id output_type trial =
     seq (list_outputs run_id) (\<lambda>outputs. lift (first_output output_type trial outputs))"

definition phase_index :: "string \<Rightarrow> int" where
  "phase_index p = (if p \<in> set phases then int (length (takeWhile (\<lambda>q. q \<noteq> p) phases)) else - 1)"

definition running_event :: "string \<Rightarrow> jdict \<Rightarrow> exn + bool" where
  "running_event p e =
     exn_bind (object_get e ''payload'') (\<lambda>payload.
       Inr (dget payload ''phase'' = JStr p \<and> dget payload ''status'' = JStr ''RUNNING''))"

fun any_running :: "string \<Rightarrow> jdict list \<Rightarrow> exn + bool" where
  "any_running p [] = Inr False"
| "any_running p (e # es) = exn_bind (running_event p e) (\<lambda>b. if b then Inr True else any_running p es)"

definition transition_running_phase ::
  "workflow_service \<Rightarrow> jdict \<Rightarrow> string \<Rightarrow> string \<Rightarrow> rat \<Rightarrow> string \<Rightarrow> string list \<Rightarrow> (world, jdict) py" where
  "transition_running_phase sv run previous_phase p percent message completed =
     seq (lift (string_of run ''run_id'')) (\<lambda>run_id.
     seq (if phase_index p \<le> phase_index (py_str (sv_env sv) (dget run ''phase'')) then ret run
          else seq (now_stages sv p ''RUNNING'' completed) (\<lambda>stage_list.
               seq (iso_now sv) (\<lambda>now.
                 in_store (update_run run_id
                   [(''phase'', JStr p), (''status'', JStr ''RUNNING''), (''execution_step'', JStr ''TRAIN''),
                    (''progress'', progress percent p message), (''stages'', stage_list),
                    (''updated_at'', JStr now)] None False)))) (\<lambda>updated.
     seq (in_store (get_events run_id 0 None (Some [''run.phase_changed.v1'']))) (\<lambda>phase_events.
     seq (lift (any_running p phase_events)) (\<lambda>announced.
     if announced then ret updated
     else emit sv updated ''run.phase_changed.v1''
            [(''previous_phase'', JStr previous_phase), (''phase'', JStr p), (''status'', JStr ''RUNNING'')]))))"

definition same_artifact :: "string \<Rightarrow> string \<Rightarrow> string \<Rightarrow> jdict \<Rightarrow> bool" where
  "same_artifact kind media_type sha artifact \<longleftrightarrow>
     dget artifact ''kind'' = JStr kind \<and> dget artifact ''media_type'' = JStr media_type \<and>
     dget artifact ''sha256'' = JStr sha \<and> dget artifact ''state'' = JStr ''COMMITTED''"

definition durable_artifact_value ::
  "jdict \<Rightarrow> json \<Rightarrow> string \<Rightarrow> string \<Rightarrow> string \<Rightarrow> string \<Rightarrow> blob_info \<Rightarrow> string \<Rightarrow> json \<Rightarrow> jdict" where
  "durable_artifact_value run tenant run_id artifact_id kind media_type blob made_at dataset_version_id =
     [(''artifact_id'', JStr artifact_id), (''tenant_id'', tenant), (''run_id'', JStr run_id),
      (''output_id'', JNull), (''kind'', JStr kind), (''media_type'', JStr media_type),
      (''size_bytes'', JInt (bi_size_bytes blob)), (''sha256'', JStr (bi_sha256 blob)),
      (''href'', JStr (''/v1/artifacts/'' @ artifact_id)), (''state'', JStr ''COMMITTED''),
      (''etag'', JStr (bi_etag blob)), (''supports_range'', JBool True), (''blob_key'', JStr (bi_key blob)),
      (''created_at'', JStr made_at),
      (''lineage'', JObj [(''dataset_version_id'', dataset_version_id),
         (''task_spec_output_id'', dget run ''task_spec_output_id''),
         (''split_manifest_output_id'', dget run ''split_manifest_output_id''),
         (''policy_version'', JStr ''policy.m2-local''),
         (''method_version'', dget_or run ''method_version'' (JStr ''tabular-sklearn.v1'')),
         (''parent_refs'', JArr []), (''evidence_refs'', JArr [])])]"

definition durable_artifact ::
  "durable_service \<Rightarrow> jdict \<Rightarrow> string \<Rightarrow> string \<Rightarrow> string \<Rightarrow> (world, jdict) py" where
  "durable_artifact ds run kind media_type content =
     (let sv = ds_service ds
      in seq (lift (string_of run ''run_id'')) (\<lambda>run_id.
         seq (in_store (list_artifacts (Some run_id))) (\<lambda>artifacts.
         case filter (same_artifact kind media_type (ds_digest ds content)) artifacts of
           a # _ \<Rightarrow> ret a
         | [] \<Rightarrow>
             seq (in_store (new_id ''artifact'')) (\<lambda>artifact_id.
             seq (lift (string_of run ''tenant_id'')) (\<lambda>tenant.
             seq (in_files (bs_put_artifact (sv_blobs sv) tenant run_id artifact_id content)) (\<lambda>blob.
             seq (iso_now sv) (\<lambda>created_at.
             seq (lift (item_of run ''dataset_version_id'')) (\<lambda>dataset_version_id.
               in_store (create_artifact (sv_env sv)
                 (durable_artifact_value run (JStr tenant) run_id artifact_id kind media_type blob created_at
                    dataset_version_id))))))))))"

section \<open>Asking for a decision\<close>

definition durable_packet ::
  "string \<Rightarrow> json \<Rightarrow> string \<Rightarrow> string \<Rightarrow> json \<Rightarrow> string \<Rightarrow> jdict list \<Rightarrow> json list \<Rightarrow> string \<Rightarrow> string \<Rightarrow> jdict" where
  "durable_packet run_id tenant packet_id wait_set_id run_revision policy questions evidence made_at expires_at =
     [(''decision_packet_id'', JStr packet_id), (''wait_set_id'', JStr wait_set_id), (''wait_set_revision'', JInt 1),
      (''run_id'', JStr run_id), (''tenant_id'', tenant), (''run_revision'', run_revision),
      (''status'', JStr ''OPEN''), (''kind'', JStr ''CLARIFICATION''),
      (''reason'', JStr ''Required task semantics cannot be derived safely from the uploaded table.''),
      (''blocking'', JBool True), (''resolution_policy'', JStr policy), (''questions'', JArr (map JObj questions)),
      (''evidence_refs'', JArr evidence), (''created_at'', JStr made_at), (''expires_at'', JStr expires_at)]"

definition request_decision :: "workflow_service \<Rightarrow> jdict \<Rightarrow> jdict list \<Rightarrow> json list \<Rightarrow> (world, unit) py" where
  "request_decision sv run questions evidence =
     seq (in_store (new_id ''decision_packet'')) (\<lambda>packet_id.
     seq (in_store (new_id ''wait_set'')) (\<lambda>wait_set_id.
     seq (lift (string_of run ''run_id'')) (\<lambda>run_id.
     seq (now_stages sv ''PLAN'' ''WAITING_USER'' [''INGEST'', ''PROFILE'']) (\<lambda>stage_list.
     seq (iso_now sv) (\<lambda>now.
     seq (lift (int_of run ''run_revision'')) (\<lambda>revision.
     seq (in_store (update_run run_id
            [(''phase'', JStr ''PLAN''), (''status'', JStr ''WAITING_USER''),
             (''progress'', progress 35 ''WAITING_USER'' ''Task information required''), (''stages'', stage_list),
             (''blocking'', JObj [(''decision_packet_ids'', strs [packet_id]), (''approval_ids'', JArr [])]),
             (''available_actions'', strs [''ANSWER'', ''PAUSE'', ''CANCEL'']), (''updated_at'', JStr now)]
            (Some revision) True)) (\<lambda>updated.
     seq (lift (item_of run ''tenant_id'')) (\<lambda>tenant.
     seq (lift (item_of updated ''run_revision'')) (\<lambda>run_revision.
     seq (lift (decision_resolution_policy run questions)) (\<lambda>policy.
     seq (iso_now sv) (\<lambda>created_at.
     seq (iso_in sv 86400) (\<lambda>expires_at.
     seq (in_store (create_decision_packet run_id
            (durable_packet run_id tenant packet_id wait_set_id run_revision policy questions evidence created_at
               expires_at))) (\<lambda>packet.
     seq (lift (item_of run ''phase'')) (\<lambda>previous.
     seq (emit sv updated ''run.phase_changed.v1''
            [(''previous_phase'', previous), (''phase'', JStr ''PLAN''), (''status'', JStr ''WAITING_USER'')]) (\<lambda>updated.
     seq (lift (item_of packet ''decision_packet_id'')) (\<lambda>packet_ref.
     seq (lift (item_of packet ''wait_set_id'')) (\<lambda>wait_set_ref.
     seq (emit sv updated ''decision_packet.requested.v1''
            [(''decision_packet_id'', packet_ref), (''wait_set_id'', wait_set_ref),
             (''href'', JStr (run_href run_id @ ''/decision-packets''))]) (\<lambda>_. ret ()))))))))))))))))))"

section \<open>A run that fails\<close>

definition failure_remediation :: json where
  "failure_remediation = strs [''Correct the dataset or task answers and create a new Run.'']"

definition failure_payload :: "string \<Rightarrow> string \<Rightarrow> string \<Rightarrow> bool \<Rightarrow> json list \<Rightarrow> jdict" where
  "failure_payload code p message retriable partial_ids =
     [(''kind'', JStr ''FAILURE_REPORT''), (''failure_code'', JStr code), (''phase'', JStr p),
      (''message'', JStr message), (''retriable'', JBool retriable), (''partial_output_ids'', JArr partial_ids),
      (''remediation'', failure_remediation)]"

definition failure_result :: "string \<Rightarrow> string \<Rightarrow> string \<Rightarrow> bool \<Rightarrow> json \<Rightarrow> json \<Rightarrow> string \<Rightarrow> jdict" where
  "failure_result run_id code message retriable refs evidence completed_at =
     [(''run_id'', JStr run_id), (''outcome'', JStr ''FAILED''), (''model_disposition'', JStr ''INCOMPLETE''),
      (''summary'', JStr message), (''output_refs'', refs), (''partial'', JBool True), (''eligible_model'', JNull),
      (''reason'', JObj [(''code'', JStr code), (''message'', JStr message), (''retriable'', JBool retriable),
         (''failed_gates'', strs [code]), (''evidence_refs'', JArr [evidence]),
         (''remediation'', failure_remediation)]),
      (''completed_at'', JStr completed_at)]"

text \<open>The report of the failure, unless the run has one, and the run it was written for.\<close>

definition failure_report ::
  "workflow_service \<Rightarrow> jdict \<Rightarrow> string \<Rightarrow> string \<Rightarrow> bool \<Rightarrow> (world, jdict \<times> jdict) py" where
  "failure_report sv run code message retriable =
     seq (lift (string_of run ''run_id'')) (\<lambda>run_id.
     seq (in_store (output_for_type run_id ''FAILURE_REPORT'' None)) (\<lambda>found.
       case found of
         Some x \<Rightarrow> ret (x, run)
       | None \<Rightarrow>
           seq (lift (string_of run ''phase'')) (\<lambda>p.
           seq (in_store (list_outputs run_id)) (\<lambda>outputs.
           seq (lift (traverse (\<lambda>x. item_of x ''output_id'') outputs)) (\<lambda>partial_ids.
             commit_output sv run ''FAILURE_REPORT'' p
               [(''code'', JStr code), (''message'', JStr message), (''severity'', JStr ''ERROR'')]
               (failure_payload code p message retriable partial_ids) [])))))"

definition fail_run :: "workflow_service \<Rightarrow> jdict \<Rightarrow> string \<Rightarrow> string \<Rightarrow> bool \<Rightarrow> (world, unit) py" where
  "fail_run sv run code message retriable =
     seq (failure_report sv run code message retriable) (\<lambda>(failure_output, run).
     seq (lift (string_of run ''run_id'')) (\<lambda>run_id.
     seq (in_store (list_outputs run_id)) (\<lambda>outputs.
     seq (iso_now sv) (\<lambda>completed_at.
     seq (lift (output_refs (sv_env sv) outputs)) (\<lambda>refs.
     seq (lift (item_of failure_output ''output_id'')) (\<lambda>evidence.
     seq (lift (output_ref (sv_env sv) failure_output)) (\<lambda>ref.
     seq (lift (int_of run ''run_revision'')) (\<lambda>revision.
     seq (lift (item_of run ''phase'')) (\<lambda>p.
     seq (in_store (finalize_run_with_result (sv_env sv) run_id
            (failure_result run_id code message retriable refs evidence completed_at)
            [(''status'', JStr ''TERMINAL''), (''outcome'', JStr ''FAILED''), (''execution_step'', JStr ''FAILED''),
             (''blocking'', no_blocking), (''available_actions'', JArr []), (''latest_output_refs'', JArr [ref]),
             (''updated_at'', JStr completed_at)]
            [run_event run_id completed_at ''run.failed.v1''
               [(''outcome'', JStr ''FAILED''), (''failure_code'', JStr code), (''retriable'', JBool retriable),
                (''result_href'', JStr (run_href run_id @ ''/result'')), (''phase'', p)]]
            (Some revision))) (\<lambda>_. ret ()))))))))))"

section \<open>The profile step and the resolved task\<close>

text \<open>The run as it is once the lock is held; a run that is gone or over ends the job.\<close>

definition with_open_run ::
  "string \<Rightarrow> (jdict \<Rightarrow> json \<Rightarrow> (world, worker_result) py) \<Rightarrow> (world, worker_result) py" where
  "with_open_run run_id act =
     seq (in_store (get_run run_id)) (\<lambda>found.
       case found of
         None \<Rightarrow> ret CompleteResult
       | Some current \<Rightarrow>
           seq (lift (item_of current ''status'')) (\<lambda>status.
             if status = JStr ''TERMINAL'' then ret CompleteResult else act current status))"

definition quality_payload :: "jdict \<Rightarrow> exn + jdict" where
  "quality_payload profile =
     exn_bind (item_of profile ''row_count'') (\<lambda>row_count.
     exn_bind (item_of profile ''column_count'') (\<lambda>column_count.
       Inr [(''kind'', JStr ''DATA_QUALITY_REPORT''), (''row_count'', row_count), (''column_count'', column_count),
            (''quality_score'', JInt 100), (''issues'', JArr [])]))"

definition commit_profile :: "workflow_service \<Rightarrow> string \<Rightarrow> jdict \<Rightarrow> (world, jdict \<times> jdict) py" where
  "commit_profile sv run_id profile =
     seq (now_stages sv ''PROFILE'' ''RUNNING'' [''INGEST'']) (\<lambda>stage_list.
     seq (iso_now sv) (\<lambda>now.
     seq (in_store (update_run run_id
            [(''phase'', JStr ''PROFILE''), (''status'', JStr ''RUNNING''), (''execution_step'', JStr ''PROFILE''),
             (''progress'', progress 15 ''PROFILE'' ''Dataset profile committed''), (''stages'', stage_list),
             (''updated_at'', JStr now)] None False)) (\<lambda>current.
     seq (complete_stage sv current ''INGEST'' (Some ''PROFILE'') [] None None) (\<lambda>current.
     seq (emit sv current ''run.phase_changed.v1''
            [(''previous_phase'', JStr ''INGEST''), (''phase'', JStr ''PROFILE''), (''status'', JStr ''RUNNING'')])
       (\<lambda>current.
     seq (lift (quality_payload profile)) (\<lambda>payload.
       commit_output sv current ''DATA_QUALITY_REPORT'' ''PROFILE''
         [(''code'', JStr ''PRE_SPLIT_PROFILE_READY''),
          (''message'', JStr ''Dataset structure was parsed without exposing row values.''),
          (''severity'', JStr ''INFO'')] payload []))))))"

definition queue_training :: "workflow_service \<Rightarrow> string \<Rightarrow> jdict \<Rightarrow> bool \<Rightarrow> (world, jdict) py" where
  "queue_training sv run_id extra bump =
     seq (iso_now sv) (\<lambda>now.
       in_store (update_run run_id
         ([(''phase'', JStr ''PLAN''), (''status'', JStr ''QUEUED''), (''execution_step'', JStr ''TRAIN''),
           (''progress'', progress 40 ''QUEUED'' ''Planning step queued''),
           (''available_actions'', strs [''PAUSE'', ''CANCEL''])] @ extra @ [(''updated_at'', JStr now)]) None bump))"

definition profile_section :: "workflow_service \<Rightarrow> string \<Rightarrow> jdict \<Rightarrow> (world, worker_result) py" where
  "profile_section sv run_id profile =
     with_open_run run_id (\<lambda>current status.
       seq (commit_profile sv run_id profile) (\<lambda>(quality_output, current).
       seq (in_store (update_run run_id
              [(''pre_split_profile'', JObj profile), (''execution_step'', JStr ''RESOLVE_TASK'')] None False)) (\<lambda>current.
       seq (lift (initial_questions (sv_env sv) current profile)) (\<lambda>questions.
       seq (lift (output_ref (sv_env sv) quality_output)) (\<lambda>ref.
       seq (complete_stage sv current ''PROFILE'' (Some ''PLAN'') [ref] (Some (questions = []))
              (if questions = [] then None else Some ''USER_INPUT_REQUIRED'')) (\<lambda>current.
       seq (lift (item_of quality_output ''output_id'')) (\<lambda>output_id.
         if questions \<noteq> []
         then seq (request_decision sv current questions [output_id]) (\<lambda>_.
              lift (checkpoint_result ''RESOLVE_TASK'' ''WAITING'' [(''profile_output_id'', output_id)]))
         else seq (queue_training sv run_id [] True) (\<lambda>_.
              lift (checkpoint_result ''TRAIN'' ''READY'' [(''profile_output_id'', output_id)])))))))))"

definition resolved_section :: "workflow_service \<Rightarrow> string \<Rightarrow> (world, worker_result) py" where
  "resolved_section sv run_id =
     with_open_run run_id (\<lambda>current status.
       let pending = dget current ''pending_command_id''
       in seq (queue_training sv run_id [(''pending_command_id'', JNull)] False) (\<lambda>current.
          seq (if \<not> py_truthy pending then ret ()
               else seq (iso_now sv) (\<lambda>now.
                    seq (lift (item_of current ''run_revision'')) (\<lambda>run_revision.
                    seq (lift (string_of [(''id'', pending)] ''id'')) (\<lambda>command_id.
                    seq (in_store (update_command command_id
                           [(''status'', JStr ''SUCCEEDED''), (''completed_at'', JStr now),
                            (''resulting_run_revision'', run_revision)])) (\<lambda>_. ret ()))))) (\<lambda>_.
            lift (checkpoint_result ''TRAIN'' ''READY'' [(''answers_applied'', JBool True)]))))"

section \<open>Publishing a stage of the engine\<close>

definition completed_phases :: "py_env \<Rightarrow> jdict list \<Rightarrow> exn + string list" where
  "completed_phases env stage_events =
     traverse (\<lambda>e. exn_bind (object_get e ''payload'') (\<lambda>payload. Inr (py_str env (dget payload ''phase''))))
       stage_events"

definition split_strategy :: "json \<Rightarrow> json" where
  "split_strategy task_type =
     JStr (if task_type = JStr ''BINARY_CLASSIFICATION'' then ''STRATIFIED_HOLDOUT'' else ''RANDOM_HOLDOUT'')"

definition durable_task_payload :: "jdict \<Rightarrow> backend_descriptor \<Rightarrow> jdict \<Rightarrow> exn + jdict" where
  "durable_task_payload run d task =
     exn_bind (item_of task ''task_type'') (\<lambda>task_type.
     exn_bind (object_at run ''resolved_inputs'') (\<lambda>resolved.
     exn_bind (item_of resolved ''target_column'') (\<lambda>target.
     exn_bind (item_of task ''primary_metric'') (\<lambda>primary.
       Inr [(''kind'', JStr ''TASK_SPEC''), (''backend_id'', JStr (backend_id d)),
         (''engine_version'', JStr (engine_version d)), (''task_type'', task_type), (''target_column_id'', target),
         (''positive_class'', dget task ''positive_class''), (''primary_metric'', primary),
         (''guardrail_metrics'', JArr []), (''split_strategy'', split_strategy task_type), (''confidence'', JFloat 1),
         (''assumptions'', strs [''Rows were explicitly confirmed as i.i.d.'']), (''confirmed_by'', JStr ''USER'')]))))"

definition split_payload :: "jdict \<Rightarrow> exn + jdict" where
  "split_payload split =
     exn_bind (item_of split ''strategy'') (\<lambda>strategy.
     exn_bind (item_of split ''train_rows'') (\<lambda>train_rows.
     exn_bind (item_of split ''validation_rows'') (\<lambda>validation_rows.
     exn_bind (item_of split ''test_rows'') (\<lambda>test_rows.
     exn_bind (item_of split ''leakage_checks'') (\<lambda>leakage_checks.
       Inr [(''kind'', JStr ''SPLIT_MANIFEST''), (''strategy'', strategy), (''train_rows'', train_rows),
         (''validation_rows'', validation_rows), (''test_rows'', test_rows),
         (''leakage_checks'', leakage_checks)])))))"

text \<open>The descriptor of the back end that the run names.\<close>

definition run_backend :: "workflow_service \<Rightarrow> jdict \<Rightarrow> exn + backend_descriptor" where
  "run_backend sv run = get_backend (sv_registry sv) (dget run ''backend_id'')"

definition task_output :: "workflow_service \<Rightarrow> string \<Rightarrow> jdict \<Rightarrow> jdict \<Rightarrow> (world, jdict \<times> jdict) py" where
  "task_output sv run_id run task =
     seq (in_store (output_for_type run_id ''TASK_SPEC'' None)) (\<lambda>found.
       case found of
         Some x \<Rightarrow> ret (x, run)
       | None \<Rightarrow>
           seq (lift (run_backend sv run)) (\<lambda>d.
           seq (lift (durable_task_payload run d task)) (\<lambda>payload.
             commit_output sv run ''TASK_SPEC'' ''PLAN''
               [(''code'', JStr ''TASK_SPEC_CONFIRMED''),
                (''message'', JStr ''The bounded tabular task specification is frozen.''),
                (''severity'', JStr ''INFO'')] payload [])))"

text \<open>The output an artifact belongs to is written back to the artifact.\<close>

definition attach :: "jdict \<Rightarrow> jdict \<Rightarrow> (world, unit) py" where
  "attach artifact output =
     seq (lift (string_of artifact ''artifact_id'')) (\<lambda>artifact_id.
     seq (lift (item_of output ''output_id'')) (\<lambda>output_id.
     seq (in_store (update_artifact artifact_id [(''output_id'', output_id)])) (\<lambda>_. ret ())))"

definition split_output ::
  "durable_service \<Rightarrow> string \<Rightarrow> jdict \<Rightarrow> jdict \<Rightarrow> json \<Rightarrow> (world, jdict \<times> jdict) py" where
  "split_output ds run_id run split task_output_id =
     seq (in_store (output_for_type run_id ''SPLIT_MANIFEST'' None)) (\<lambda>found.
       case found of
         Some x \<Rightarrow> ret (x, run)
       | None \<Rightarrow>
           seq (durable_artifact ds run ''SPLIT_MANIFEST_JSON'' ''application/json'' (ds_dumps ds (JObj split)))
             (\<lambda>artifact.
           seq (lift (split_payload split)) (\<lambda>payload.
           seq (lift (artifact_ref artifact)) (\<lambda>ref.
           seq (commit_output_with (ds_service ds) run ''SPLIT_MANIFEST'' ''PLAN''
                  [(''code'', JStr ''SPLIT_FROZEN''),
                   (''message'', JStr ''The development folds and sealed holdout are immutable.''),
                   (''severity'', JStr ''INFO'')] payload [ref] [(''task_spec_output_id'', task_output_id)])
             (\<lambda>(output, run).
           seq (attach artifact output) (\<lambda>_. ret (output, run)))))))"

definition note_output :: "string \<Rightarrow> string \<Rightarrow> json \<Rightarrow> (world, jdict) py" where
  "note_output run_id field output_id = in_store (update_run run_id [(field, output_id)] None False)"

definition publish_plan :: "durable_service \<Rightarrow> string \<Rightarrow> jdict \<Rightarrow> jdict \<Rightarrow> (world, jdict) py" where
  "publish_plan ds run_id run snapshot =
     (let sv = ds_service ds
      in seq (lift (object_at snapshot ''task'')) (\<lambda>task.
         seq (lift (object_at snapshot ''split'')) (\<lambda>split.
         seq (task_output sv run_id run task) (\<lambda>(t_output, run).
         seq (lift (item_of t_output ''output_id'')) (\<lambda>task_output_id.
         seq (note_output run_id ''task_spec_output_id'' task_output_id) (\<lambda>run.
         seq (split_output ds run_id run split task_output_id) (\<lambda>(s_output, run).
         seq (lift (item_of s_output ''output_id'')) (\<lambda>split_output_id.
         seq (note_output run_id ''split_manifest_output_id'' split_output_id) (\<lambda>run.
         seq (lift (output_ref (sv_env sv) t_output)) (\<lambda>task_ref.
         seq (lift (output_ref (sv_env sv) s_output)) (\<lambda>split_ref.
           complete_stage sv run ''PLAN'' (Some ''TRAIN'') [task_ref, split_ref] None None)))))))))))"

definition baseline_value :: "jdict \<Rightarrow> exn + (json \<times> json)" where
  "baseline_value baseline =
     exn_bind (item_of baseline ''primary_metric'') (\<lambda>name.
     exn_bind (object_at baseline ''cv_metrics'') (\<lambda>cv.
     exn_bind (case name of JStr k \<Rightarrow> object_at cv k | _ \<Rightarrow> Inl TypeError) (\<lambda>m.
     exn_bind (item_of m ''mean'') (\<lambda>v. Inr (name, v)))))"

definition baseline_payload :: "workflow_service \<Rightarrow> jdict \<Rightarrow> json \<Rightarrow> json \<Rightarrow> exn + jdict" where
  "baseline_payload sv baseline name v =
     exn_bind (item_of baseline ''family'') (\<lambda>family.
     exn_bind (metric (sv_parse_float sv) name v) (\<lambda>value.
       Inr [(''kind'', JStr ''BASELINE_RESULT''),
         (''baselines'', JArr [JObj [(''name'', family), (''metrics'', JArr [value]),
            (''compute_credits'', JInt 0)]])]))"

definition publish_baseline :: "workflow_service \<Rightarrow> string \<Rightarrow> jdict \<Rightarrow> jdict \<Rightarrow> (world, jdict) py" where
  "publish_baseline sv run_id run baseline =
     seq (lift (baseline_value baseline)) (\<lambda>(name, v).
     seq (in_store (output_for_type run_id ''BASELINE_RESULT'' None)) (\<lambda>found.
       if found \<noteq> None then ret run
       else seq (lift (baseline_payload sv baseline name v)) (\<lambda>payload.
            seq (commit_output sv run ''BASELINE_RESULT'' ''TRAIN''
                   [(''code'', JStr ''BASELINE_EVALUATED''),
                    (''message'', JStr ''The naive baseline was evaluated on development folds.''),
                    (''severity'', JStr ''INFO'')] payload []) (\<lambda>(_, run). ret run))))"

definition trial_payload ::
  "workflow_service \<Rightarrow> string \<Rightarrow> backend_descriptor \<Rightarrow> jdict \<Rightarrow> int \<Rightarrow> json \<Rightarrow> json \<Rightarrow> json list \<Rightarrow> jdict" where
  "trial_payload sv run_id d trial n status family metrics =
     [(''kind'', JStr ''TRIAL_RESULT''), (''experiment_id'', JStr (''exp_'' @ run_id)), (''trial_number'', JInt n),
      (''status'', status), (''backend_id'', JStr (backend_id d)), (''engine_version'', JStr (engine_version d)),
      (''model_family'', family), (''metrics'', JArr metrics), (''compute_credits'', JInt 0),
      (''normalized_config'', dget trial ''config''), (''failure_code'', dget trial ''failure_code'')]"

definition trial_metrics :: "workflow_service \<Rightarrow> jdict \<Rightarrow> json \<Rightarrow> exn + json list" where
  "trial_metrics sv trial status =
     (if status \<noteq> JStr ''SUCCEEDED'' then Inr []
      else exn_bind (item_of trial ''primary_metric'') (\<lambda>name.
           exn_bind (item_of trial ''primary_score'') (\<lambda>score.
           exn_bind (metric (sv_parse_float sv) name score) (\<lambda>m. Inr [m]))))"

fun publish_trials ::
  "workflow_service \<Rightarrow> backend_descriptor \<Rightarrow> string \<Rightarrow> jdict \<Rightarrow> jdict list \<Rightarrow> (world, jdict) py" where
  "publish_trials sv d run_id run [] = ret run"
| "publish_trials sv d run_id run (trial # trials) =
     seq (lift (int_of trial ''trial_number'')) (\<lambda>n.
     seq (in_store (output_for_type run_id ''TRIAL_RESULT'' (Some n))) (\<lambda>found.
       if found \<noteq> None then publish_trials sv d run_id run trials
       else seq (lift (item_of trial ''status'')) (\<lambda>status.
            seq (lift (trial_metrics sv trial status)) (\<lambda>metrics.
            seq (lift (item_of trial ''family'')) (\<lambda>family.
            seq (commit_output sv run ''TRIAL_RESULT'' ''TRAIN''
                   [(''code'', JStr ''TRIAL_EVALUATED''),
                    (''message'', JStr (py_str (sv_env sv) family @ '' finished development-only evaluation.'')),
                    (''severity'', JStr (if status = JStr ''SUCCEEDED'' then ''INFO'' else ''WARNING''))]
                   (trial_payload sv run_id d trial n status family metrics) []) (\<lambda>(_, run).
              publish_trials sv d run_id run trials))))))"

definition publish_train :: "workflow_service \<Rightarrow> string \<Rightarrow> jdict \<Rightarrow> jdict \<Rightarrow> (world, jdict) py" where
  "publish_train sv run_id run snapshot =
     seq (lift (run_backend sv run)) (\<lambda>d.
     seq (lift (object_at snapshot ''baseline'')) (\<lambda>baseline.
     seq (publish_baseline sv run_id run baseline) (\<lambda>run.
     seq (lift (items_at snapshot ''trials'')) (\<lambda>trials.
     seq (publish_trials sv d run_id run trials) (\<lambda>run.
     seq (in_store (list_outputs run_id)) (\<lambda>outputs.
     seq (lift (traverse (output_ref (sv_env sv)) (filter (\<lambda>x. dget x ''phase'' = JStr ''TRAIN'') outputs))) (\<lambda>refs.
       complete_stage sv run ''TRAIN'' (Some ''EVALUATE'') refs None None)))))))"

text \<open>\<open>_publish_backend_stage\<close> once the lease is renewed and the lock is held.\<close>

definition stage_section :: "durable_service \<Rightarrow> string \<Rightarrow> string \<Rightarrow> jdict \<Rightarrow> (world, unit) py" where
  "stage_section ds run_id p snapshot =
     (let sv = ds_service ds
      in seq (in_store (get_run run_id)) (\<lambda>found.
         case found of
           None \<Rightarrow> ret ()
         | Some run \<Rightarrow>
             if dget run ''status'' = JStr ''TERMINAL'' then ret ()
             else
               seq (in_store (get_events run_id 0 None (Some [''run.stage_completed.v1'']))) (\<lambda>stage_events.
               seq (lift (completed_phases (sv_env sv) stage_events)) (\<lambda>completed.
               if p = ''PLAN''
               then seq (if ''PLAN'' \<in> set completed then ret run else publish_plan ds run_id run snapshot) (\<lambda>run.
                    seq (transition_running_phase sv run ''PLAN'' ''TRAIN'' 55 ''Evaluating bounded model candidates''
                           [''INGEST'', ''PROFILE'', ''PLAN'']) (\<lambda>_. ret ()))
               else if p \<noteq> ''TRAIN'' then raise (RuntimeErr (''unsupported backend stage callback: '' @ p))
               else seq (if ''TRAIN'' \<in> set completed then ret run else publish_train sv run_id run snapshot) (\<lambda>run.
                    seq (transition_running_phase sv run ''TRAIN'' ''EVALUATE'' 80
                           ''Evaluating the sealed holdout and rendering evidence''
                           [''INGEST'', ''PROFILE'', ''PLAN'', ''TRAIN'']) (\<lambda>_. ret ()))))))"

section \<open>Publishing the result\<close>

text \<open>\<open>result.evaluation["all_metrics"][which][primary]\<close>.\<close>

definition holdout_metric :: "jdict \<Rightarrow> string \<Rightarrow> json \<Rightarrow> exn + json" where
  "holdout_metric evaluation which primary =
     exn_bind (object_at evaluation ''all_metrics'') (\<lambda>all.
     exn_bind (object_at all which) (\<lambda>metrics.
       case primary of JStr k \<Rightarrow> item_of metrics k | _ \<Rightarrow> Inl TypeError))"

definition failed_metadata :: "jdict" where
  "failed_metadata =
     [(''status'', JStr ''FAILED''), (''artifact_id'', JNull), (''media_type'', JNull), (''size_bytes'', JNull),
      (''sha256'', JNull), (''failure_code'', JStr ''ARTIFACT_COMMIT_FAILED'')]"

text \<open>\<open>try ... except Exception\<close> around one artifact.\<close>

definition attempt_artifact ::
  "durable_service \<Rightarrow> jdict \<Rightarrow> visualization \<Rightarrow> string \<Rightarrow> (world, jdict option) py" where
  "attempt_artifact ds run v content w =
     (case durable_artifact ds run (artifact_kind_of v) ''image/png'' content w of
        (Inr artifact, w') \<Rightarrow> (Inr (Some artifact), w')
      | (Inl e, w') \<Rightarrow> (Inr None, w'))"

text \<open>The artifacts of the charts, and a record of each chart.\<close>

fun publish_visualizations ::
  "durable_service \<Rightarrow> jdict \<Rightarrow> visualization list \<Rightarrow> (world, jdict list \<times> jdict list) py" where
  "publish_visualizations ds run [] = ret ([], [])"
| "publish_visualizations ds run (v # vs) =
     seq (case vz_content v of
            None \<Rightarrow> ret ([], visualization_metadata (ds_digest ds) v JNull)
          | Some content \<Rightarrow>
              seq (attempt_artifact ds run v content) (\<lambda>made.
                case made of
                  None \<Rightarrow> ret ([], dupdate (visualization_metadata (ds_digest ds) v JNull) failed_metadata)
                | Some artifact \<Rightarrow>
                    seq (lift (item_of artifact ''artifact_id'')) (\<lambda>artifact_id.
                      ret ([artifact], visualization_metadata (ds_digest ds) v artifact_id)))) (\<lambda>(first, rec).
     seq (publish_visualizations ds run vs) (\<lambda>(artifacts, records).
       ret (first @ artifacts, rec # records)))"

definition visualization_state :: "jdict list \<Rightarrow> string" where
  "visualization_state records =
     (let generated = length (filter (\<lambda>r. dget r ''status'' = JStr ''GENERATED'') records)
      in if records \<noteq> [] \<and> generated = length records then ''COMPLETE''
         else if generated \<noteq> 0 then ''PARTIAL'' else ''UNAVAILABLE'')"

definition evaluation_payload ::
  "workflow_service \<Rightarrow> jdict \<Rightarrow> json \<Rightarrow> json \<Rightarrow> json \<Rightarrow> string \<Rightarrow> jdict list \<Rightarrow> exn + jdict" where
  "evaluation_payload sv evaluation primary baseline candidate drawn records =
     exn_bind (metric (sv_parse_float sv) primary baseline) (\<lambda>b.
     exn_bind (metric (sv_parse_float sv) primary candidate) (\<lambda>c.
     exn_bind (item_of evaluation ''paired_improvement'') (\<lambda>improvement.
     exn_bind (metric (sv_parse_float sv) primary improvement) (\<lambda>delta.
     exn_bind (item_of evaluation ''limitations'') (\<lambda>limitations.
       Inr [(''kind'', JStr ''EVALUATION_REPORT''), (''primary_metric'', primary), (''baseline'', b), (''candidate'', c),
         (''paired_delta'', delta), (''guardrails_passed'', JBool False), (''eligible_candidate'', JBool False),
         (''failed_gates'', strs [''PRODUCTION_ELIGIBILITY_NOT_EVALUATED'']), (''limitations'', limitations),
         (''visualization_status'', JStr drawn), (''visualizations'', JArr (map JObj records))])))))"

text \<open>The evaluation report with the state and the records of its charts.\<close>

definition evaluation_output ::
  "durable_service \<Rightarrow> string \<Rightarrow> jdict \<Rightarrow> automl_result \<Rightarrow> json \<Rightarrow> json \<Rightarrow> json
     \<Rightarrow> (world, jdict \<times> jdict \<times> string \<times> json) py" where
  "evaluation_output ds run_id run result primary baseline candidate =
     (let sv = ds_service ds
      in seq (in_store (output_for_type run_id ''EVALUATION_REPORT'' None)) (\<lambda>found.
         case found of
           Some x \<Rightarrow>
             seq (lift (object_get x ''payload'')) (\<lambda>payload.
             seq (lift (py_iter (dget_or payload ''visualizations'' (JArr [])))) (\<lambda>records.
               ret (x, run, py_str (sv_env sv) (dget_or payload ''visualization_status'' (JStr ''UNAVAILABLE'')),
                    JArr records)))
         | None \<Rightarrow>
             seq (publish_visualizations ds run (ar_visualizations result)) (\<lambda>(artifacts, records).
             seq (lift (evaluation_payload sv (ar_evaluation result) primary baseline candidate
                    (visualization_state records) records)) (\<lambda>payload.
             seq (lift (traverse artifact_ref artifacts)) (\<lambda>refs.
             seq (commit_output sv run ''EVALUATION_REPORT'' ''EVALUATE''
                    [(''code'', JStr ''CANDIDATE_EVALUATED''),
                     (''message'', JStr ''The frozen candidate was evaluated once on the sealed holdout.''),
                     (''severity'', JStr ''INFO'')] payload refs) (\<lambda>(output, run).
             seq (each (\<lambda>a. attach a output) artifacts) (\<lambda>_.
               ret (output, run, visualization_state records, JArr (map JObj records)))))))))"

definition model_card_payload ::
  "workflow_service \<Rightarrow> backend_descriptor \<Rightarrow> jdict \<Rightarrow> json \<Rightarrow> json \<Rightarrow> string \<Rightarrow> bool \<Rightarrow> exn + jdict" where
  "model_card_payload sv d evaluation primary candidate model_id exportable =
     exn_bind (item_of evaluation ''limitations'') (\<lambda>limitations.
     exn_bind (metric (sv_parse_float sv) primary candidate) (\<lambda>m.
       Inr [(''kind'', JStr ''MODEL_CARD''), (''model_id'', JStr model_id), (''backend_id'', JStr (backend_id d)),
         (''backend_version'', optional_str (backend_version d)), (''engine_version'', JStr (engine_version d)),
         (''intended_use'', JStr (if exportable then ''Offline evaluation only; production use is not approved.''
            else ''Evaluation evidence only; this Run did not export a loadable model.'')),
         (''limitations'', limitations), (''metrics'', JArr [m])]))"

definition model_card_summary :: "bool \<Rightarrow> jdict" where
  "model_card_summary exportable =
     [(''code'', JStr (if exportable then ''EVALUATED_MODEL_PACKAGED'' else ''EVALUATION_METADATA_AVAILABLE'')),
      (''message'', JStr (if exportable then ''A trusted-store evaluated model package is available.''
         else ''Data-free backend evaluation metadata is available; no model was exported.'')),
      (''severity'', JStr ''WARNING'')]"

definition model_card_output ::
  "durable_service \<Rightarrow> string \<Rightarrow> jdict \<Rightarrow> automl_result \<Rightarrow> backend_descriptor \<Rightarrow> json \<Rightarrow> json \<Rightarrow> bool \<Rightarrow> json
     \<Rightarrow> (world, jdict \<times> jdict \<times> string) py" where
  "model_card_output ds run_id run result d primary candidate exportable evidence =
     (let sv = ds_service ds
      in seq (in_store (output_for_type run_id ''MODEL_CARD'' None)) (\<lambda>found.
         case found of
           Some x \<Rightarrow>
             seq (lift (object_at x ''payload'')) (\<lambda>payload.
             seq (lift (item_of payload ''model_id'')) (\<lambda>model_id. ret (x, run, py_str (sv_env sv) model_id)))
         | None \<Rightarrow>
             seq (durable_artifact ds run (artifact_kind d) (artifact_media_type d) (ar_model_bytes result)) (\<lambda>artifact.
             seq (in_store (new_id ''model'')) (\<lambda>model_id.
             seq (lift (model_card_payload sv d (ar_evaluation result) primary candidate model_id exportable)) (\<lambda>payload.
             seq (lift (artifact_ref artifact)) (\<lambda>ref.
             seq (commit_output_with sv run ''MODEL_CARD'' ''PACKAGE'' (model_card_summary exportable) payload [ref]
                    [(''evidence_refs'', JArr [evidence])]) (\<lambda>(output, run).
             seq (attach artifact output) (\<lambda>_. ret (output, run, model_id)))))))))"

text \<open>The engine's report with the state and the records of the charts put in.\<close>

definition report_document :: "durable_service \<Rightarrow> automl_result \<Rightarrow> string \<Rightarrow> json \<Rightarrow> exn + string" where
  "report_document ds result drawn records =
     (case ds_loads ds (ar_report_bytes result) of
        None \<Rightarrow> Inl (ValueError ''Expecting value'')
      | Some (JObj d) \<Rightarrow>
          exn_bind (object_at d ''evaluation'') (\<lambda>evaluation.
            Inr (ds_dumps ds (JObj (dput ''evaluation''
              (JObj (dput ''visualizations'' records (dput ''visualization_status'' (JStr drawn) evaluation))) d))))
      | Some _ \<Rightarrow> Inl TypeError)"

definition report_output ::
  "durable_service \<Rightarrow> string \<Rightarrow> jdict \<Rightarrow> automl_result \<Rightarrow> string \<Rightarrow> json \<Rightarrow> json list \<Rightarrow> json
     \<Rightarrow> (world, jdict \<times> jdict) py" where
  "report_output ds run_id run result drawn records evidence evaluation_id =
     seq (in_store (output_for_type run_id ''RUN_REPORT'' None)) (\<lambda>found.
       case found of
         Some x \<Rightarrow> ret (x, run)
       | None \<Rightarrow>
           seq (lift (report_document ds result drawn records)) (\<lambda>content.
           seq (durable_artifact ds run ''RUN_REPORT_JSON'' ''application/json'' content) (\<lambda>artifact.
           seq (lift (artifact_ref artifact)) (\<lambda>ref.
           seq (commit_output_with (ds_service ds) run ''RUN_REPORT'' ''PACKAGE''
                  [(''code'', JStr ''REAL_RUN_COMPLETE''),
                   (''message'', JStr ''Real data was evaluated by the bounded tabular engine.''),
                   (''severity'', JStr ''INFO'')]
                  [(''kind'', JStr ''RUN_REPORT''),
                   (''summary'', JStr ''A deterministic evaluated candidate and evidence bundle were produced.''),
                   (''recommendation'', JStr ''Review limitations and define production quality gates.''),
                   (''evidence_refs'', JArr evidence)] [ref] [(''evidence_refs'', JArr [evaluation_id])])
             (\<lambda>(output, run).
           seq (attach artifact output) (\<lambda>_. ret (output, run)))))))"

text \<open>The signature of the model: its input columns, and what it predicts.\<close>

definition column_entry :: "py_env \<Rightarrow> jdict \<Rightarrow> exn + json" where
  "column_entry env column =
     exn_bind (py_int (py_or (dget column ''missing_count'') (JInt 0))) (\<lambda>missing.
       Inr (JObj [(''name'', JStr (py_str env (dget column ''name''))),
         (''data_type'', JStr (py_str env (py_or (dget column ''semantic_type'') (dget column ''physical_dtype'')))),
         (''required'', JBool (missing = 0))]))"

fun signature_inputs :: "py_env \<Rightarrow> string \<Rightarrow> json list \<Rightarrow> string \<Rightarrow> exn + (json list \<times> string)" where
  "signature_inputs env target [] output_type = Inr ([], output_type)"
| "signature_inputs env target (JObj column # columns) output_type =
     (if dget column ''name'' = JStr target
      then signature_inputs env target columns (py_str env (py_or (dget column ''semantic_type'') (JStr ''number'')))
      else exn_bind (column_entry env column) (\<lambda>entry.
           exn_bind (signature_inputs env target columns output_type) (\<lambda>(inputs, t). Inr (entry # inputs, t))))"
| "signature_inputs env target (_ # columns) output_type = signature_inputs env target columns output_type"

definition signature_field :: "string \<Rightarrow> string \<Rightarrow> json" where
  "signature_field name data_type =
     JObj [(''name'', JStr name), (''data_type'', JStr data_type), (''required'', JBool True)]"

definition model_signature :: "py_env \<Rightarrow> jdict \<Rightarrow> automl_result \<Rightarrow> exn + json" where
  "model_signature env run result =
     exn_bind (object_get run ''resolved_inputs'') (\<lambda>resolved.
     exn_bind (object_get run ''pre_split_profile'') (\<lambda>profile.
     exn_bind (py_iter (dget_or profile ''columns'' (JArr []))) (\<lambda>columns.
     exn_bind (signature_inputs env (py_str env (dget_or resolved ''target_column'' (JStr ''target''))) columns ''number'')
       (\<lambda>(inputs, output_type).
     exn_bind (item_of (ar_task result) ''task_type'') (\<lambda>task_type.
       Inr (JObj [(''inputs'', JArr inputs),
         (''outputs'', JArr (if task_type = JStr ''BINARY_CLASSIFICATION''
            then [signature_field ''prediction'' output_type, signature_field ''positive_class_probability'' ''number'']
            else [signature_field ''prediction'' ''number'']))]))))))"

definition open_approval :: "jdict \<Rightarrow> bool" where
  "open_approval x \<longleftrightarrow> dget x ''kind'' = JStr ''PRODUCTION_DEPLOY'' \<and> dget x ''status'' = JStr ''OPEN''"

definition approval_value :: "string \<Rightarrow> json \<Rightarrow> json \<Rightarrow> json list \<Rightarrow> string \<Rightarrow> string \<Rightarrow> jdict" where
  "approval_value approval_id tenant run_revision evidence made_at expires_at =
     [(''approval_id'', JStr approval_id), (''tenant_id'', tenant), (''run_revision'', run_revision),
      (''evidence_version'', JInt 1), (''kind'', JStr ''PRODUCTION_DEPLOY''), (''status'', JStr ''OPEN''),
      (''evidence_refs'', JArr evidence), (''decision_reason'', JNull), (''created_at'', JStr made_at),
      (''expires_at'', JStr expires_at)]"

text \<open>The open approval of the run, or a new one.\<close>

definition obtain_approval :: "workflow_service \<Rightarrow> string \<Rightarrow> jdict \<Rightarrow> json list \<Rightarrow> (world, jdict) py" where
  "obtain_approval sv run_id run evidence =
     seq (in_store (list_approvals run_id)) (\<lambda>approvals.
       case filter open_approval approvals of
         a # _ \<Rightarrow> ret a
       | [] \<Rightarrow>
           seq (in_store (new_id ''approval'')) (\<lambda>approval_id.
           seq (lift (item_of run ''tenant_id'')) (\<lambda>tenant.
           seq (lift (item_of run ''run_revision'')) (\<lambda>run_revision.
           seq (iso_now sv) (\<lambda>created_at.
           seq (iso_in sv 604800) (\<lambda>expires_at.
             in_store (create_approval run_id
               (approval_value approval_id tenant run_revision evidence created_at expires_at))))))))"

definition await_approval ::
  "workflow_service \<Rightarrow> string \<Rightarrow> jdict \<Rightarrow> json list \<Rightarrow> jdict \<Rightarrow> jdict \<Rightarrow> (world, unit) py" where
  "await_approval sv run_id run evidence report pending_candidate =
     seq (obtain_approval sv run_id run evidence) (\<lambda>approval.
     seq (lift (item_of approval ''approval_id'')) (\<lambda>v.
     let approval_id = py_str (sv_env sv) v
     in seq (lift (output_ref (sv_env sv) report)) (\<lambda>ref.
        seq (iso_now sv) (\<lambda>now.
        seq (iso_now sv) (\<lambda>occurred_at.
        seq (lift (int_of run ''run_revision'')) (\<lambda>revision.
        seq (in_store (mutate_run_with_event (sv_env sv) run_id
               [(''phase'', JStr ''PACKAGE''), (''status'', JStr ''WAITING_APPROVAL''), (''outcome'', JNull),
                (''execution_step'', JStr ''WAITING_APPROVAL''),
                (''progress'', progress 95 ''WAITING_APPROVAL'' ''Production deployment approval required''),
                (''blocking'', JObj [(''decision_packet_ids'', JArr []), (''approval_ids'', strs [approval_id])]),
                (''available_actions'', strs [''APPROVE'', ''REQUEST_CHANGES'', ''REJECT'', ''CANCEL'']),
                (''latest_output_refs'', JArr [ref]), (''pending_model_candidate'', JObj pending_candidate),
                (''updated_at'', JStr now)]
               (run_event run_id occurred_at ''approval.requested.v1''
                  [(''approval_id'', JStr approval_id), (''href'', JStr (run_href run_id @ ''/approvals''))])
               (Some revision) True)) (\<lambda>_. ret ())))))))"

definition evaluated_result ::
  "string \<Rightarrow> backend_descriptor \<Rightarrow> json \<Rightarrow> json \<Rightarrow> json \<Rightarrow> string \<Rightarrow> jdict" where
  "evaluated_result run_id d refs visualization_refs evidence completed_at =
     [(''run_id'', JStr run_id), (''outcome'', JStr ''SUCCEEDED''), (''model_disposition'', JStr ''NO_ELIGIBLE_MODEL''),
      (''summary'', JStr ''The real dataset was evaluated and an offline model artifact was produced.''),
      (''backend_id'', JStr (backend_id d)), (''backend_version'', optional_str (backend_version d)),
      (''engine_version'', JStr (engine_version d)), (''output_refs'', refs),
      (''visualization_refs'', visualization_refs), (''partial'', JBool False), (''eligible_model'', JNull),
      (''reason'', JObj [(''code'', JStr ''EVALUATED_CANDIDATE_REQUIRES_GATES''),
         (''message'', JStr ''No business threshold, risk approval, or production gate was evaluated.''),
         (''retriable'', JBool False), (''failed_gates'', strs [''PRODUCTION_ELIGIBILITY_NOT_EVALUATED'']),
         (''evidence_refs'', JArr [evidence]),
         (''remediation'', strs [''Define quality and risk gates before model registration.''])]),
      (''completed_at'', JStr completed_at)]"

definition used_budget :: "jdict \<Rightarrow> automl_result \<Rightarrow> exn + json" where
  "used_budget run result =
     exn_bind (object_at run ''budget_usage'') (\<lambda>usage.
     exn_bind (object_at usage ''trials'') (\<lambda>trials.
     exn_bind (item_of trials ''limit'') (\<lambda>cap.
       Inr (JObj (dput ''trials''
         (JObj [(''used'', JInt (int (length (ar_trials result)))), (''limit'', cap)]) usage)))))"

definition complete_evaluated_run ::
  "workflow_service \<Rightarrow> string \<Rightarrow> jdict \<Rightarrow> automl_result \<Rightarrow> backend_descriptor \<Rightarrow> jdict \<Rightarrow> jdict \<Rightarrow> json
     \<Rightarrow> jdict list \<Rightarrow> (world, unit) py" where
  "complete_evaluated_run sv run_id run result d evaluation report visualization_refs package_outputs =
     seq (in_store (list_outputs run_id)) (\<lambda>outputs.
     seq (iso_now sv) (\<lambda>completed_at.
     seq (lift (output_refs (sv_env sv) outputs)) (\<lambda>refs.
     seq (lift (item_of evaluation ''output_id'')) (\<lambda>evidence.
     seq (now_stages sv ''PACKAGE'' ''RUNNING'' phases) (\<lambda>stage_list.
     seq (lift (output_ref (sv_env sv) report)) (\<lambda>ref.
     seq (lift (used_budget run result)) (\<lambda>usage.
     seq (lift (int_of run ''run_revision'')) (\<lambda>revision.
     seq (lift (traverse (output_ref (sv_env sv)) package_outputs)) (\<lambda>package_refs.
     seq (in_store (finalize_run_with_result (sv_env sv) run_id
            (evaluated_result run_id d refs visualization_refs evidence completed_at)
            [(''phase'', JStr ''PACKAGE''), (''status'', JStr ''TERMINAL''), (''outcome'', JStr ''SUCCEEDED''),
             (''execution_step'', JStr ''COMPLETED''), (''progress'', progress 100 ''COMPLETED'' ''Run completed''),
             (''stages'', stage_list), (''blocking'', no_blocking), (''available_actions'', JArr []),
             (''latest_output_refs'', JArr [ref]), (''budget_usage'', usage), (''updated_at'', JStr completed_at)]
            [stage_event run_id completed_at ''PACKAGE'' 100 package_refs None (Some ''WORKFLOW_COMPLETED''),
             run_event run_id completed_at ''run.completed.v1''
               [(''outcome'', JStr ''SUCCEEDED''), (''result_href'', JStr (run_href run_id @ ''/result''))]]
            (Some revision))) (\<lambda>_. ret ()))))))))))"

definition needs_approval :: "jdict \<Rightarrow> bool \<Rightarrow> exn + bool" where
  "needs_approval run exportable =
     exn_bind (object_get run ''autonomy'') (\<lambda>autonomy.
       Inr (dget autonomy ''production_deploy'' = JStr ''REQUIRE_APPROVAL'' \<and> exportable))"

definition first_artifact_ref :: "jdict \<Rightarrow> exn + jdict" where
  "first_artifact_ref output =
     exn_bind (exn_bind (item_of output ''artifact_refs'') py_iter) (\<lambda>refs.
       case refs of [] \<Rightarrow> Inl IndexErr | r # _ \<Rightarrow> as_object r)"

definition candidate_of ::
  "string \<Rightarrow> string \<Rightarrow> json \<Rightarrow> json \<Rightarrow> jdict \<Rightarrow> jdict" where
  "candidate_of model_id run_id signature card_id artifact =
     [(''model_id'', JStr model_id), (''run_id'', JStr run_id), (''status'', JStr ''ELIGIBLE_CANDIDATE''),
      (''signature'', signature), (''model_card_output_id'', card_id), (''package_artifact_ref'', JObj artifact)]"

text \<open>From the evaluated candidate to the phase PACKAGE: the outputs and the run after them.\<close>

definition publish_evaluation ::
  "durable_service \<Rightarrow> string \<Rightarrow> jdict \<Rightarrow> automl_result \<Rightarrow> json \<Rightarrow> json \<Rightarrow> json
     \<Rightarrow> (world, jdict \<times> jdict \<times> string \<times> json) py" where
  "publish_evaluation ds run_id run result primary baseline candidate =
     (let sv = ds_service ds
      in seq (evaluation_output ds run_id run result primary baseline candidate) (\<lambda>(evaluation, run, drawn, records).
         seq (lift (output_ref (sv_env sv) evaluation)) (\<lambda>ref.
         seq (complete_stage sv run ''EVALUATE'' (Some ''PACKAGE'') [ref] None None) (\<lambda>run.
         seq (transition_running_phase sv run ''EVALUATE'' ''PACKAGE'' 92 ''Packaging result artifacts''
                [''INGEST'', ''PROFILE'', ''PLAN'', ''TRAIN'', ''EVALUATE'']) (\<lambda>run.
           ret (evaluation, run, drawn, records))))))"

definition close_run ::
  "durable_service \<Rightarrow> string \<Rightarrow> jdict \<Rightarrow> automl_result \<Rightarrow> backend_descriptor \<Rightarrow> bool \<Rightarrow> json list
     \<Rightarrow> jdict \<Rightarrow> jdict \<Rightarrow> jdict \<Rightarrow> string \<Rightarrow> (world, unit) py" where
  "close_run ds run_id run result d exportable evidence evaluation model_card report model_id =
     (let sv = ds_service ds
      in seq (lift (py_iter (dget_or evaluation ''artifact_refs'' (JArr [])))) (\<lambda>visualization_refs.
         seq (lift (first_artifact_ref model_card)) (\<lambda>artifact.
         seq (in_store (list_outputs run_id)) (\<lambda>outputs.
         seq (lift (model_signature (sv_env sv) run result)) (\<lambda>signature.
         seq (lift (item_of model_card ''output_id'')) (\<lambda>card_id.
         seq (lift (needs_approval run exportable)) (\<lambda>approve.
           if approve
           then await_approval sv run_id run evidence report (candidate_of model_id run_id signature card_id artifact)
           else complete_evaluated_run sv run_id run result d evaluation report (JArr visualization_refs)
                  (filter (\<lambda>x. dget x ''phase'' = JStr ''PACKAGE'') outputs))))))))"

definition publish_result :: "durable_service \<Rightarrow> jdict \<Rightarrow> automl_result \<Rightarrow> (world, unit) py" where
  "publish_result ds run result =
     (let sv = ds_service ds
      in seq (lift (string_of run ''run_id'')) (\<lambda>run_id.
         seq (lift (run_backend sv run)) (\<lambda>d.
         seq (in_store (output_for_type run_id ''TASK_SPEC'' None)) (\<lambda>task.
         seq (in_store (output_for_type run_id ''SPLIT_MANIFEST'' None)) (\<lambda>split.
         case (task, split) of
           (Some task, Some split) \<Rightarrow>
             seq (lift (item_of (ar_evaluation result) ''primary_metric'')) (\<lambda>primary.
             seq (lift (holdout_metric (ar_evaluation result) ''baseline'' primary)) (\<lambda>baseline.
             seq (lift (holdout_metric (ar_evaluation result) ''candidate'' primary)) (\<lambda>candidate.
             seq (publish_evaluation ds run_id run result primary baseline candidate)
               (\<lambda>(evaluation, run, drawn, records).
             let exportable = py_truthy (dget_or (ar_model_metadata result) ''exportable'' (JBool True))
             in seq (lift (item_of evaluation ''output_id'')) (\<lambda>evaluation_id.
                seq (model_card_output ds run_id run result d primary candidate exportable evaluation_id)
                  (\<lambda>(model_card, run, model_id).
                seq (lift (traverse (\<lambda>x. item_of x ''output_id'') [task, split, evaluation, model_card])) (\<lambda>evidence.
                seq (report_output ds run_id run result drawn records evidence evaluation_id) (\<lambda>(report, run).
                seq (lift (traverse (\<lambda>x. item_of x ''output_id'') [evaluation, model_card, report])) (\<lambda>refs.
                  close_run ds run_id run result d exportable refs evaluation model_card report model_id)))))))))
         | _ \<Rightarrow> raise (RuntimeErr ''PLAN stage outputs must be durable before evaluation publishing''))))))"

end
