(* ===== verification/Durable_Workflow.thy ===== *)
theory Durable_Workflow
  imports Durable_Steps
begin

text \<open>
  The durable workflow (durable_workflow.py), second part: the requests that differ from those of
  the workflow service, and the handler of an execution job.

  The state adds the table of execution jobs to the \<open>world\<close>; the operations on it are those of
  \<open>Jobs\<close>. A checkpoint that cannot be written is the subject of \<open>Checkpoint\<close>; here every write of the
  store succeeds, so the store is its memory. A section under the visibility lock is one step. Where
  the handler does not hold the lock, anyone else may act: \<open>others k\<close> is what happens at the
  \<open>k\<close>-th such point, any function on the state. The learning engine is a parameter: the profile it
  makes of a file, and for a training run the stage callbacks it makes and how it ends.
\<close>

section \<open>The state\<close>

record durable_world =
  dw_world :: world
  dw_jobs :: "(string \<times> job) list"
  dw_transactions :: nat

record engine_args =
  ea_backend :: json
  ea_media_type :: string
  ea_objective :: jdict
  ea_iid_confirmed :: bool
  ea_max_trials :: int
  ea_max_wall_time_seconds :: int

datatype engine_end =
    Evaluated automl_result
  | NeedsPositiveClass "json list"
  | Fails exn

record engine =
  en_sql :: sql_env
  en_clock :: "nat \<Rightarrow> clock"
  en_inspect :: "string option \<Rightarrow> string \<Rightarrow> exn + jdict"
  en_run :: "engine_args \<Rightarrow> string option \<Rightarrow> (string \<times> jdict) list \<times> engine_end"

definition on_world :: "(world, 'a) py \<Rightarrow> (durable_world, 'a) py" where
  "on_world m d = (case m (dw_world d) of (r, w) \<Rightarrow> (r, d\<lparr>dw_world := w\<rparr>))"

text \<open>An operation of the job table, with the clock of its transaction.\<close>

definition on_jobs :: "engine \<Rightarrow> (clock \<Rightarrow> (sqlite, 'a) py) \<Rightarrow> (durable_world, 'a) py" where
  "on_jobs en f d =
     (case f (en_clock en (dw_transactions d))
        \<lparr>mem = w_store (dw_world d), disk = None, job_rows = dw_jobs d, closed = False\<rparr> of
        (r, q) \<Rightarrow> (r, d\<lparr>dw_world := (dw_world d)\<lparr>w_store := mem q\<rparr>, dw_jobs := job_rows q,
                       dw_transactions := Suc (dw_transactions d)\<rparr>))"

definition meanwhile :: "(nat \<Rightarrow> durable_world \<Rightarrow> durable_world) \<Rightarrow> nat \<Rightarrow> (durable_world, unit) py" where
  "meanwhile others k = modify (others k)"

section \<open>Requests\<close>

definition durable_versions :: "jdict \<Rightarrow> exn + json" where
  "durable_versions backend =
     exn_bind (string_of backend ''backend_id'') (\<lambda>i.
     exn_bind (item_of backend ''backend_version'') (\<lambda>version.
     exn_bind (item_of backend ''engine_version'') (\<lambda>engine.
       Inr (JObj [(''event_schema'', JStr ''1.0''), (''output_schema'', JStr ''1.0''),
         (''policy_version'', JStr ''policy.m2-local''),
         (''tool_versions'', JObj [(i, py_or version engine)])]))))"

definition durable_run ::
  "principal \<Rightarrow> jdict \<Rightarrow> string \<Rightarrow> string \<Rightarrow> json \<Rightarrow> json \<Rightarrow> jdict \<Rightarrow> jdict \<Rightarrow> json \<Rightarrow> string option \<Rightarrow> string list
     \<Rightarrow> exn + jdict" where
  "durable_run p request run_id now dataset_version_id stage_list budget backend usage callback_uri endpoint_ids =
     exn_bind (durable_versions backend) (\<lambda>versions.
     exn_bind (item_of backend ''engine_version'') (\<lambda>method.
     exn_bind (item_of request ''autonomy'') (\<lambda>autonomy.
     exn_bind (object_at request ''objective'') (\<lambda>objective.
     exn_bind (item_of backend ''backend_id'') (\<lambda>backend_id.
     exn_bind (item_of request ''policy'') (\<lambda>policy.
       Inr [(''run_id'', JStr run_id), (''tenant_id'', JStr (tenant_id p)), (''api_version'', JStr ''v1''),
         (''dataset_version_id'', dataset_version_id), (''phase'', JStr ''INGEST''), (''status'', JStr ''QUEUED''),
         (''outcome'', JNull), (''plan_version'', JInt 1), (''run_revision'', JInt 1), (''snapshot_seq'', JInt 0),
         (''retained_from_seq'', JInt 1), (''contract_versions'', versions), (''method_version'', method),
         (''progress'', progress 0 ''QUEUED'' ''Run queued for profiling''), (''stages'', stage_list),
         (''blocking'', no_blocking), (''latest_output_refs'', JArr []),
         (''available_actions'', strs [''PAUSE'', ''CANCEL'']), (''budget_usage'', usage),
         (''created_at'', JStr now), (''updated_at'', JStr now), (''links'', run_links run_id),
         (''autonomy'', autonomy), (''objective'', JObj objective), (''resolved_inputs'', JObj objective),
         (''backend_id'', backend_id), (''policy'', policy), (''budget'', JObj budget),
         (''execution_step'', JStr ''PROFILE''),
         (''callback_uri'', optional_str callback_uri), (''callback_url'', optional_str callback_uri),
         (''webhook_endpoint_ids'', strs endpoint_ids)]))))))"

definition durable_admit :: "workflow_service \<Rightarrow> principal \<Rightarrow> jdict \<Rightarrow> (world, jdict \<times> json) py" where
  "durable_admit sv p request =
     seq (in_store (enforce_run_limits (sv_parse_float sv) (sv_limits sv) p request)) (\<lambda>_.
     seq (lift (string_of request ''dataset_version_id'')) (\<lambda>wanted.
     seq (owned_version p wanted) (\<lambda>version.
     seq (lift (item_of version ''status'')) (\<lambda>status.
     seq (fail_if (status \<noteq> JStr ''READY'' \<or> \<not> py_truthy (dget version ''blob_key''))
            (APIProblem 409 ''dataset_not_ready'' ''Dataset is not ready'' [])) (\<lambda>_.
     seq (lift (require_requested_backend (sv_env sv) (sv_registry sv) request (dget version ''media_type'')))
       (\<lambda>backend.
     seq (in_store (resolve_run_webhooks (sv_env sv) p request)) (\<lambda>(callback_uri, endpoint_ids).
     seq (in_store (new_id ''run'')) (\<lambda>run_id.
     seq (iso_now sv) (\<lambda>now.
     seq (lift (budget_of request)) (\<lambda>budget.
     seq (lift (item_of version ''dataset_version_id'')) (\<lambda>dataset_version_id.
     seq (now_stages sv ''INGEST'' ''RUNNING'' []) (\<lambda>stage_list.
     seq (lift (budget_usage budget)) (\<lambda>usage.
     seq (lift (durable_run p request run_id now dataset_version_id stage_list budget backend usage callback_uri
            endpoint_ids)) (\<lambda>value.
     seq (in_store (create_run value)) (\<lambda>run. ret (run, dataset_version_id))))))))))))))))"

definition durable_create_run ::
  "workflow_service \<Rightarrow> engine \<Rightarrow> principal \<Rightarrow> jdict \<Rightarrow> (durable_world, jdict) py" where
  "durable_create_run sv en p request =
     seq (on_world (durable_admit sv p request)) (\<lambda>(run, dataset_version_id).
     seq (lift (string_of run ''run_id'')) (\<lambda>run_id.
     seq (on_jobs en (\<lambda>clk. create_execution_job (en_sql en) clk run_id ''PROFILE''
            [(''dataset_version_id'', dataset_version_id)] 5 0)) (\<lambda>_.
       ret (public_run run))))"

text \<open>All checks of an answer; the result is the packet, the run and the answers by question.\<close>

definition check_durable_answer ::
  "principal \<Rightarrow> string \<Rightarrow> string \<Rightarrow> int \<Rightarrow> jdict \<Rightarrow> (world, jdict \<times> jdict \<times> jdict) py" where
  "check_durable_answer p run_id wait_set_id wait_set_revision request =
     seq (owned_run p run_id) (\<lambda>run.
     seq (in_store (get_decision_packet_by_wait_set run_id wait_set_id)) (\<lambda>found.
     seq (lift (owned found p)) (\<lambda>packet.
     seq (lift (item_of packet ''wait_set_revision'')) (\<lambda>current.
     seq (fail_if (\<not> py_eq current (JInt wait_set_revision)) (stale_wait_set current run_id)) (\<lambda>_.
     seq (lift (item_of packet ''status'')) (\<lambda>packet_status.
     seq (lift (item_of run ''status'')) (\<lambda>run_status.
     seq (fail_if (packet_status \<noteq> JStr ''OPEN'' \<or> run_status \<noteq> JStr ''WAITING_USER'')
            (APIProblem 409 ''decision_packet_not_open'' ''Decision packet is not open'' [])) (\<lambda>_.
     seq (lift (enforce_decision_actor packet p)) (\<lambda>_.
     seq (lift (exn_bind (item_of request ''answers'') dicts)) (\<lambda>items.
     seq (lift (traverse answer_pair items)) (\<lambda>answers.
     seq (lift (validate_packet_answers packet answers)) (\<lambda>by_id.
     seq (lift (enforce_agent_recommendations packet p by_id)) (\<lambda>_.
       ret (packet, run, by_id))))))))))))))"

text \<open>The names of the profiled columns; entries that are no dictionaries are passed over.\<close>

fun known_columns :: "json list \<Rightarrow> exn + json list" where
  "known_columns [] = Inr []"
| "known_columns (JObj d # cs) =
     exn_bind (item_of d ''name'') (\<lambda>n. exn_bind (known_columns cs) (\<lambda>ns. Inr (n # ns)))"
| "known_columns (_ # cs) = known_columns cs"

definition put_answer :: "jdict \<Rightarrow> string \<Rightarrow> (json \<Rightarrow> exn + (string \<times> json)) \<Rightarrow> jdict \<Rightarrow> exn + jdict" where
  "put_answer by_id question accept resolved =
     (case map_of by_id question of
        None \<Rightarrow> Inr resolved
      | Some v \<Rightarrow> exn_bind (accept v) (\<lambda>(k, x). Inr (dput k x resolved)))"

definition accept_target :: "json list \<Rightarrow> json \<Rightarrow> exn + (string \<times> json)" where
  "accept_target columns v =
     (case v of
        JStr s \<Rightarrow> if JStr s \<in> set columns then Inr (''target_column'', v) else Inl (invalid_answer ''Invalid target column'')
      | _ \<Rightarrow> Inl (invalid_answer ''Invalid target column''))"

definition accept_iid :: "json \<Rightarrow> exn + (string \<times> json)" where
  "accept_iid v =
     (if v \<noteq> JBool True
      then Inl (APIProblem 422 ''unsupported_split_requirement'' ''A grouped or temporal split is required'' [])
      else Inr (''iid_confirmed'', JBool True))"

definition resolve_answers :: "jdict \<Rightarrow> jdict \<Rightarrow> exn + jdict" where
  "resolve_answers run by_id =
     exn_bind (as_object (dget_or run ''resolved_inputs'' (JObj []))) (\<lambda>resolved.
     exn_bind (object_get run ''pre_split_profile'') (\<lambda>profile.
     exn_bind (exn_bind (py_iter (dget_or profile ''columns'' (JArr []))) known_columns) (\<lambda>columns.
     exn_bind (put_answer by_id ''q_target'' (accept_target columns) resolved) (\<lambda>resolved.
     exn_bind (put_answer by_id ''q_iid'' accept_iid resolved) (\<lambda>resolved.
       put_answer by_id ''q_positive_class'' (\<lambda>v. Inr (''positive_class'', v)) resolved)))))"

definition accepted_command :: "workflow_service \<Rightarrow> principal \<Rightarrow> string \<Rightarrow> (world, jdict) py" where
  "accepted_command sv p run_id =
     seq (iso_now sv) (\<lambda>submitted_at.
     seq (in_store (create_command (sv_env sv)
            [(''tenant_id'', JStr (tenant_id p)), (''run_id'', JStr run_id), (''type'', JStr ''ANSWER''),
             (''status'', JStr ''ACCEPTED''), (''submitted_at'', JStr submitted_at), (''completed_at'', JNull),
             (''resulting_run_revision'', JNull), (''problem'', JNull),
             (''links'', JObj [(''self'', JStr []), (''run'', JStr (run_href run_id))])])) (\<lambda>command.
     seq (lift (string_of command ''command_id'')) (\<lambda>command_id.
     seq (in_store (update_command command_id
            [(''links'', JObj [(''self'', JStr (''/v1/commands/'' @ command_id)), (''run'', JStr (run_href run_id))])]))
       (\<lambda>_.
     seq (in_store (get_command command_id)) (\<lambda>found.
       case found of None \<Rightarrow> raise AssertionErr | Some command \<Rightarrow> ret command)))))"

definition durable_accept ::
  "workflow_service \<Rightarrow> principal \<Rightarrow> string \<Rightarrow> string \<Rightarrow> int \<Rightarrow> jdict \<Rightarrow> (world, jdict) py" where
  "durable_accept sv p run_id wait_set_id wait_set_revision request =
     seq (check_durable_answer p run_id wait_set_id wait_set_revision request) (\<lambda>(packet, run, by_id).
     seq (lift (resolve_answers run by_id)) (\<lambda>resolved.
     seq (accepted_command sv p run_id) (\<lambda>command.
     seq (lift (string_of packet ''decision_packet_id'')) (\<lambda>packet_id.
     seq (in_store (update_decision_packet run_id packet_id
            [(''status'', JStr ''ANSWERED''), (''wait_set_revision'', JInt (wait_set_revision + 1))])) (\<lambda>_.
     seq (lift (item_of command ''command_id'')) (\<lambda>command_id.
     seq (iso_now sv) (\<lambda>now.
     seq (lift (int_of run ''run_revision'')) (\<lambda>revision.
     seq (in_store (update_run run_id
            [(''status'', JStr ''QUEUED''), (''blocking'', no_blocking),
             (''available_actions'', strs [''PAUSE'', ''CANCEL'']), (''resolved_inputs'', JObj resolved),
             (''pending_command_id'', command_id), (''updated_at'', JStr now)] (Some revision) True)) (\<lambda>_.
       ret command)))))))))"

definition wake_job :: "engine \<Rightarrow> string \<Rightarrow> (durable_world, unit) py" where
  "wake_job en run_id =
     seq (on_jobs en (\<lambda>clk. wake_execution_job (en_sql en) clk run_id)) (\<lambda>_. ret ())"

definition durable_answer ::
  "workflow_service \<Rightarrow> engine \<Rightarrow> principal \<Rightarrow> string \<Rightarrow> string \<Rightarrow> int \<Rightarrow> jdict \<Rightarrow> (durable_world, jdict) py" where
  "durable_answer sv en p run_id wait_set_id wait_set_revision request =
     seq (on_world (durable_accept sv p run_id wait_set_id wait_set_revision request)) (\<lambda>command.
     seq (wake_job en run_id) (\<lambda>_. ret (public_command command)))"

text \<open>After the inherited command, a job that is not over is woken; the lock is free around its reading.\<close>

definition wake_open_job ::
  "engine \<Rightarrow> (nat \<Rightarrow> durable_world \<Rightarrow> durable_world) \<Rightarrow> string \<Rightarrow> (durable_world, unit) py" where
  "wake_open_job en others run_id =
     seq (meanwhile others 0) (\<lambda>_.
     seq (on_jobs en (\<lambda>clk. get_execution_job run_id)) (\<lambda>found.
       case found of
         None \<Rightarrow> ret ()
       | Some j \<Rightarrow>
           if job_status j \<in> {COMPLETED, DEAD} then ret ()
           else seq (meanwhile others 1) (\<lambda>_. wake_job en run_id)))"

definition durable_resume ::
  "workflow_service \<Rightarrow> engine \<Rightarrow> (nat \<Rightarrow> durable_world \<Rightarrow> durable_world) \<Rightarrow> principal \<Rightarrow> string \<Rightarrow> int
     \<Rightarrow> (durable_world, jdict) py" where
  "durable_resume sv en others p run_id revision =
     seq (on_world (resume sv p run_id revision)) (\<lambda>command.
     seq (wake_open_job en others run_id) (\<lambda>_. ret command))"

definition durable_cancel ::
  "workflow_service \<Rightarrow> engine \<Rightarrow> (nat \<Rightarrow> durable_world \<Rightarrow> durable_world) \<Rightarrow> principal \<Rightarrow> string
     \<Rightarrow> (durable_world, jdict) py" where
  "durable_cancel sv en others p run_id =
     seq (on_world (cancel sv p run_id)) (\<lambda>command.
     seq (wake_open_job en others run_id) (\<lambda>_. ret command))"

section \<open>The handler of a job\<close>

definition repair_job :: "workflow_service \<Rightarrow> engine \<Rightarrow> jdict \<Rightarrow> (durable_world, unit) py" where
  "repair_job sv en run =
     (if dget run ''status'' = JStr ''TERMINAL'' then ret ()
      else seq (lift (string_of run ''run_id'')) (\<lambda>run_id.
           seq (on_jobs en (\<lambda>clk. get_execution_job run_id)) (\<lambda>found.
             if found \<noteq> None then ret ()
             else seq (on_jobs en (\<lambda>clk. create_execution_job (en_sql en) clk run_id
                         (py_str (sv_env sv) (dget_or run ''execution_step'' (JStr ''PROFILE''))) [] 5 0)) (\<lambda>_.
                  ret ()))))"

definition ensure_execution_jobs :: "workflow_service \<Rightarrow> engine \<Rightarrow> (durable_world, unit) py" where
  "ensure_execution_jobs sv en =
     seq (on_world (in_store list_runs)) (\<lambda>runs. each (repair_job sv en) runs)"

text \<open>The path of the dataset's bytes and their media type.\<close>

definition dataset_path :: "workflow_service \<Rightarrow> jdict \<Rightarrow> (world, path \<times> string) py" where
  "dataset_path sv run =
     seq (lift (string_of run ''dataset_version_id'')) (\<lambda>version_id.
     seq (in_store (get_dataset_version version_id)) (\<lambda>found.
       case found of
         None \<Rightarrow> raise (RuntimeErr ''the Run dataset bytes are unavailable'')
       | Some version \<Rightarrow>
           seq (fail_if (\<not> py_truthy (dget version ''blob_key''))
                  (RuntimeErr ''the Run dataset bytes are unavailable'')) (\<lambda>_.
           seq (lift (string_of version ''blob_key'')) (\<lambda>key.
           seq (in_files (bs_path_for_key (sv_blobs sv) key)) (\<lambda>path.
           seq (lift (item_of version ''media_type'')) (\<lambda>media_type.
             ret (path, py_str (sv_env sv) media_type)))))))"

definition file_at :: "path \<Rightarrow> (durable_world, string option) py" where
  "file_at path = gets (\<lambda>d. map_of (w_files (dw_world d)) path)"

definition execute_profile ::
  "workflow_service \<Rightarrow> engine \<Rightarrow> (nat \<Rightarrow> durable_world \<Rightarrow> durable_world) \<Rightarrow> jdict
     \<Rightarrow> (durable_world, worker_result) py" where
  "execute_profile sv en others run =
     seq (on_world (dataset_path sv run)) (\<lambda>(path, media_type).
     seq (meanwhile others 0) (\<lambda>_.
     seq (file_at path) (\<lambda>content.
     seq (lift (en_inspect en content media_type)) (\<lambda>profile.
     seq (meanwhile others 1) (\<lambda>_.
     seq (lift (string_of run ''run_id'')) (\<lambda>run_id.
       on_world (profile_section sv run_id profile)))))))"

text \<open>The lock-held start of a training step; \<open>Inl\<close> ends the step.\<close>

definition training_start :: "workflow_service \<Rightarrow> string \<Rightarrow> (world, worker_result + jdict) py" where
  "training_start sv run_id =
     seq (in_store (get_run run_id)) (\<lambda>found.
       case found of
         None \<Rightarrow> ret (Inl CompleteResult)
       | Some current \<Rightarrow>
           seq (lift (item_of current ''status'')) (\<lambda>status.
           if status = JStr ''TERMINAL'' then ret (Inl CompleteResult)
           else if status = JStr ''PAUSED''
           then seq (lift (checkpoint_result ''TRAIN'' ''WAITING'' [])) (\<lambda>r. ret (Inl r))
           else seq (now_stages sv ''PLAN'' ''RUNNING'' [''INGEST'', ''PROFILE'']) (\<lambda>stage_list.
                seq (iso_now sv) (\<lambda>now.
                seq (in_store (update_run run_id
                       [(''phase'', JStr ''PLAN''), (''status'', JStr ''RUNNING''), (''execution_step'', JStr ''TRAIN''),
                        (''progress'', progress 42 ''PLAN'' ''Freezing task and data split''), (''stages'', stage_list),
                        (''updated_at'', JStr now)] None False)) (\<lambda>current. ret (Inr current))))))"

definition engine_args_of :: "jdict \<Rightarrow> jdict \<Rightarrow> string \<Rightarrow> exn + engine_args" where
  "engine_args_of current resolved media_type =
     exn_bind (object_at current ''budget'') (\<lambda>budget.
     exn_bind (int_of budget ''max_trials'') (\<lambda>trials.
     exn_bind (int_of budget ''max_wall_time_seconds'') (\<lambda>wall.
       Inr \<lparr>ea_backend = py_or (dget current ''backend_id'') (py_or (dget resolved ''backend_id'') (JStr ''sklearn'')),
            ea_media_type = media_type, ea_objective = resolved,
            ea_iid_confirmed = (dget resolved ''iid_confirmed'' = JBool True),
            ea_max_trials = trials, ea_max_wall_time_seconds = wall\<rparr>)))"

text \<open>One stage callback: the lease is renewed, then the section runs under the lock.\<close>

definition publish_backend_stage ::
  "durable_service \<Rightarrow> engine \<Rightarrow> (nat \<Rightarrow> durable_world \<Rightarrow> durable_world) \<Rightarrow> nat \<Rightarrow> job \<Rightarrow> rat \<Rightarrow> string
     \<Rightarrow> string \<times> jdict \<Rightarrow> (durable_world, unit) py" where
  "publish_backend_stage ds en others k j seconds run_id call =
     seq (meanwhile others k) (\<lambda>_.
     seq (on_jobs en (\<lambda>clk. renew_execution_job (en_sql en) clk run_id (lease_generation j) (control_epoch j) seconds))
       (\<lambda>_.
     seq (meanwhile others (k + 1)) (\<lambda>_.
       on_world (stage_section ds run_id (fst call) (snd call)))))"

text \<open>
  The adapters of AutoGluon and TabPFN make their second callback inside a \<open>try\<close> whose
  \<open>except Exception\<close> turns what it raises into an engine error; the others let it pass.
\<close>

definition trains_natively :: "string \<Rightarrow> bool" where
  "trains_natively backend \<longleftrightarrow> backend = ''autogluon'' \<or> backend = ''tabpfn''"

fun passes_through :: "exn \<Rightarrow> bool" where
  "passes_through (BackendErr code context) \<longleftrightarrow> code = ''BACKEND_UNAVAILABLE''"
| "passes_through (EngineErr code message) \<longleftrightarrow> code = ''MODEL_TRAINING_FAILED''"
| "passes_through _ \<longleftrightarrow> False"

definition training_message :: "string \<Rightarrow> string" where
  "training_message backend =
     (if backend = ''autogluon'' then ''AutoGluon could not train a bounded development candidate.''
      else ''TabPFN could not train a bounded small-data candidate.'')"

definition callback_error :: "string \<Rightarrow> string \<Rightarrow> exn \<Rightarrow> exn" where
  "callback_error backend p e =
     (if trains_natively backend \<and> p = ''TRAIN'' \<and> \<not> passes_through e
      then EngineErr ''MODEL_TRAINING_FAILED'' (training_message backend) else e)"

text \<open>The run of the engine: its callbacks in their order, until one raises, then its own end.\<close>

fun run_callbacks ::
  "durable_service \<Rightarrow> engine \<Rightarrow> (nat \<Rightarrow> durable_world \<Rightarrow> durable_world) \<Rightarrow> nat \<Rightarrow> job \<Rightarrow> rat \<Rightarrow> string \<Rightarrow> string
     \<Rightarrow> (string \<times> jdict) list \<Rightarrow> (durable_world, unit) py" where
  "run_callbacks ds en others k j seconds run_id backend [] = ret ()"
| "run_callbacks ds en others k j seconds run_id backend (c # cs) =
     seq (except (callback_error backend (fst c)) (publish_backend_stage ds en others k j seconds run_id c)) (\<lambda>_.
       run_callbacks ds en others (k + 2) j seconds run_id backend cs)"

text \<open>A raised exception as the end of the run.\<close>

definition ended :: "(durable_world, engine_end) py \<Rightarrow> (durable_world, engine_end) py" where
  "ended m d = (case m d of (Inl e, d') \<Rightarrow> (Inr (Fails e), d') | (Inr r, d') \<Rightarrow> (Inr r, d'))"

definition run_engine ::
  "durable_service \<Rightarrow> engine \<Rightarrow> (nat \<Rightarrow> durable_world \<Rightarrow> durable_world) \<Rightarrow> job \<Rightarrow> rat \<Rightarrow> string \<Rightarrow> path
     \<Rightarrow> engine_args \<Rightarrow> (durable_world, engine_end) py" where
  "run_engine ds en others j seconds run_id path args =
     (let sv = ds_service ds
      in ended
        (seq (lift (validate_request (sv_env sv) (sv_registry sv) (ea_backend args)
               (dget (ea_objective args) ''task_type'') (JStr (ea_media_type args)))) (\<lambda>d.
         seq (file_at path) (\<lambda>content.
           case en_run en args content of
             (calls, outcome) \<Rightarrow>
               seq (run_callbacks ds en others 2 j seconds run_id (backend_id d) calls) (\<lambda>_. ret outcome)))))"

definition assert_run :: "string \<Rightarrow> (world, jdict) py" where
  "assert_run run_id =
     seq (in_store (get_run run_id)) (\<lambda>found.
       case found of None \<Rightarrow> raise AssertionErr | Some current \<Rightarrow> ret current)"

definition ask_positive_class :: "workflow_service \<Rightarrow> string \<Rightarrow> json list \<Rightarrow> (world, worker_result) py" where
  "ask_positive_class sv run_id classes =
     seq (assert_run run_id) (\<lambda>current.
     seq (request_decision sv current [positive_class_question (sv_env sv) classes] []) (\<lambda>_.
       lift (checkpoint_result ''RESOLVE_TASK'' ''WAITING'' [])))"

definition fail_training :: "workflow_service \<Rightarrow> string \<Rightarrow> string \<Rightarrow> string \<Rightarrow> (world, worker_result) py" where
  "fail_training sv run_id code message =
     seq (in_store (get_run run_id)) (\<lambda>found.
     seq (case found of None \<Rightarrow> ret () | Some current \<Rightarrow> fail_run sv current code message False) (\<lambda>_.
       ret CompleteResult))"

definition finish_training :: "durable_service \<Rightarrow> string \<Rightarrow> automl_result \<Rightarrow> (world, worker_result) py" where
  "finish_training ds run_id result =
     with_open_run run_id (\<lambda>current status.
       if status = JStr ''PAUSED'' then lift (checkpoint_result ''TRAIN'' ''WAITING'' [])
       else seq (publish_result ds current result) (\<lambda>_. ret CompleteResult))"

definition end_training ::
  "durable_service \<Rightarrow> engine \<Rightarrow> job \<Rightarrow> rat \<Rightarrow> string \<Rightarrow> engine_end \<Rightarrow> (durable_world, worker_result) py" where
  "end_training ds en j seconds run_id outcome =
     (case outcome of
        NeedsPositiveClass classes \<Rightarrow> on_world (ask_positive_class (ds_service ds) run_id classes)
      | Fails e \<Rightarrow>
          (case engine_error e of
             Some (code, message) \<Rightarrow> on_world (fail_training (ds_service ds) run_id code message)
           | None \<Rightarrow> raise e)
      | Evaluated result \<Rightarrow>
          seq (on_jobs en (\<lambda>clk. renew_execution_job (en_sql en) clk run_id (lease_generation j) (control_epoch j)
                 seconds)) (\<lambda>_.
            on_world (finish_training ds run_id result)))"

definition execute_training ::
  "durable_service \<Rightarrow> engine \<Rightarrow> (nat \<Rightarrow> durable_world \<Rightarrow> durable_world) \<Rightarrow> jdict \<Rightarrow> job \<Rightarrow> rat
     \<Rightarrow> (durable_world, worker_result) py" where
  "execute_training ds en others run j seconds =
     (let sv = ds_service ds
      in seq (on_world (dataset_path sv run)) (\<lambda>(path, media_type).
         seq (meanwhile others 0) (\<lambda>_.
         seq (lift (string_of run ''run_id'')) (\<lambda>run_id.
         seq (on_world (training_start sv run_id)) (\<lambda>started.
           case started of
             Inl r \<Rightarrow> ret r
           | Inr current \<Rightarrow>
               seq (lift (as_object (dget_or current ''resolved_inputs'' (JObj [])))) (\<lambda>resolved.
               seq (lift (engine_args_of current resolved media_type)) (\<lambda>args.
               seq (run_engine ds en others j seconds run_id path args) (\<lambda>outcome.
               seq (meanwhile others 1) (\<lambda>_.
                 end_training ds en j seconds run_id outcome)))))))))"

definition execute_resolved_task ::
  "workflow_service \<Rightarrow> (nat \<Rightarrow> durable_world \<Rightarrow> durable_world) \<Rightarrow> jdict \<Rightarrow> (durable_world, worker_result) py" where
  "execute_resolved_task sv others run =
     seq (lift (string_of run ''run_id'')) (\<lambda>run_id.
     seq (meanwhile others 0) (\<lambda>_. on_world (resolved_section sv run_id)))"

definition handle_execution_job ::
  "durable_service \<Rightarrow> engine \<Rightarrow> (nat \<Rightarrow> durable_world \<Rightarrow> durable_world) \<Rightarrow> rat \<Rightarrow> job
     \<Rightarrow> (durable_world, worker_result) py" where
  "handle_execution_job ds en others seconds j =
     seq (on_world (in_store (get_run (job_run_id j)))) (\<lambda>found.
       case found of
         None \<Rightarrow> ret CompleteResult
       | Some run \<Rightarrow>
           let status = dget run ''status''; step = workflow_step j
           in if status = JStr ''TERMINAL'' \<or> status = JStr ''WAITING_APPROVAL'' then ret CompleteResult
              else if status = JStr ''PAUSED'' \<or> status = JStr ''WAITING_USER''
              then lift (checkpoint_result step ''WAITING'' (checkpoint j))
              else if step = ''PROFILE'' then execute_profile (ds_service ds) en others run
              else if step = ''RESOLVE_TASK'' then execute_resolved_task (ds_service ds) others run
              else if step = ''TRAIN'' then execute_training ds en others run j seconds
              else raise (RuntimeErr (''unknown durable workflow step: '' @ step)))"

definition handle_dead_job :: "workflow_service \<Rightarrow> job \<Rightarrow> (durable_world, unit) py" where
  "handle_dead_job sv j =
     on_world (seq (in_store (get_run (job_run_id j))) (\<lambda>found.
       case found of
         None \<Rightarrow> ret ()
       | Some run \<Rightarrow>
           if dget run ''status'' = JStr ''TERMINAL'' then ret ()
           else fail_run sv run ''WORKER_RETRIES_EXHAUSTED''
                  (case last_error j of
                     None \<Rightarrow> ''The local worker exhausted its retries.''
                   | Some e \<Rightarrow> if e = [] then ''The local worker exhausted its retries.'' else e) True))"

end
