(* ===== verification/Store_Log.thy ===== *)
theory Store_Log
  imports Store_Steps "HOL-Library.Sublist"
begin

text \<open>
  The event logs of the store. In every reachable state the log of a run is numbered from 1
  without gaps, \<open>snapshot_seq\<close> is its length, and the index by identifier lists exactly the
  events of the log; an operation other than \<open>reset\<close> only appends to a log.
\<close>

section \<open>The invariant\<close>

definition run_log_ok :: "nat \<Rightarrow> string \<Rightarrow> jdict \<Rightarrow> jdict list \<Rightarrow> coll \<Rightarrow> bool" where
  "run_log_ok c r run es idx \<longleftrightarrow>
     dget run ''snapshot_seq'' = JInt (int (length es)) \<and>
     (\<forall>i < length es. dget (es ! i) ''seq'' = JInt (int i + 1) \<and>
                        dget (es ! i) ''run_id'' = JStr r) \<and>
     map snd idx = es \<and> keyed ''event_id'' idx \<and>
     (\<forall>k n. has_key idx k \<longrightarrow> k = format_id ''evt'' n \<longrightarrow> n \<le> c)"

definition logs_ok :: "store \<Rightarrow> bool" where
  "logs_ok s \<longleftrightarrow> map fst (st_event_ids s) = map fst (st_events s) \<and>
     distinct (map fst (st_events s)) \<and>
     (\<forall>r run. map_of (st_runs s) r = Some run \<longrightarrow>
        run_log_ok (counter ''evt'' s) r run (log_of s r) (sub st_event_ids r s))"

definition logs_extend :: "store \<Rightarrow> store \<Rightarrow> bool" where
  "logs_extend s t \<longleftrightarrow> (\<forall>r. prefix (log_of s r) (log_of t r))"

text \<open>What holds in every state that an operation started in \<open>s\<close> passes through.\<close>

definition log_inv :: "store \<Rightarrow> store \<Rightarrow> bool" where
  "log_inv s t \<longleftrightarrow> wf_store t \<and> logs_ok t \<and> logs_extend s t \<and>
     counter ''evt'' s \<le> counter ''evt'' t"

lemma log_inv_refl: "wf_store s \<Longrightarrow> logs_ok s \<Longrightarrow> log_inv s s"
  by (simp add: log_inv_def logs_extend_def)

section \<open>Operations that leave the logs alone\<close>

definition log_frame :: "store \<Rightarrow> store \<Rightarrow> bool" where
  "log_frame s t \<longleftrightarrow> st_runs t = st_runs s \<and> st_events t = st_events s \<and>
     st_event_ids t = st_event_ids s \<and> counter ''evt'' s \<le> counter ''evt'' t"

lemma log_frame_refl [simp]: "log_frame s s"
  by (simp add: log_frame_def)

lemma run_log_ok_mono: "run_log_ok c r run es idx \<Longrightarrow> c \<le> d \<Longrightarrow> run_log_ok d r run es idx"
  by (fastforce simp: run_log_ok_def)

lemma log_frame_logs_ok: "log_frame s t \<Longrightarrow> logs_ok s \<Longrightarrow> logs_ok t"
  by (auto simp: log_frame_def logs_ok_def log_of_def sub_def intro: run_log_ok_mono)

lemma log_frame_log_of: "log_frame s t \<Longrightarrow> log_of t r = log_of s r"
  by (simp add: log_frame_def log_of_def)

lemma log_frame_inv: "log_frame t u \<Longrightarrow> log_inv s t \<Longrightarrow> wf_store u \<Longrightarrow> log_inv s u"
  using log_frame_logs_ok [of t u]
  by (auto simp: log_inv_def logs_extend_def log_frame_log_of log_frame_def)

lemma counter_new_id: "counter ''evt'' s \<le> counter ''evt'' (post (new_id_locked p) s)"
  by (auto simp: counter_def new_id_locked_def Let_def split: option.split)

lemma frame_new_id [intro, simp]: "keeps (log_frame s) (new_id_locked p)"
  by (rule keepsI) (auto simp: log_frame_def intro: order_trans [OF _ counter_new_id])

lemma frame_new_id_of_kind [intro, simp]: "keeps (log_frame s) (new_id_of_kind kind)"
  unfolding new_id_of_kind_def by (auto split: option.split)

lemma frame_create:
  assumes "\<And>f t. log_frame s t \<Longrightarrow> log_frame s (upd f t)" and "distinct (map fst fixed)"
  shows "keeps (log_frame s) (create_locked get upd id_field kind resource fixed value)"
  unfolding keeps_iff_triple
  by (rule create_locked_triple) (use assms in \<open>auto intro: keepsD [OF frame_new_id]\<close>)

lemma frame_update:
  assumes "\<And>f t. log_frame s t \<Longrightarrow> log_frame s (upd f t)"
  shows "keeps (log_frame s) (update_locked get upd id_field resource rid updates)"
  by (rule keepsI) (use assms in \<open>auto simp: update_locked_run split: option.split sum.split\<close>)

lemma frame_tables [simp]:
  "log_frame s (st_datasets_update f t) = log_frame s t"
  "log_frame s (st_dataset_versions_update f t) = log_frame s t"
  "log_frame s (st_outputs_update g t) = log_frame s t"
  "log_frame s (st_decision_packets_update g t) = log_frame s t"
  "log_frame s (st_commands_update f t) = log_frame s t"
  "log_frame s (st_results_update f t) = log_frame s t"
  "log_frame s (st_artifacts_update f t) = log_frame s t"
  "log_frame s (st_approvals_update g t) = log_frame s t"
  "log_frame s (st_models_update f t) = log_frame s t"
  "log_frame s (st_webhook_endpoints_update f t) = log_frame s t"
  "log_frame s (st_webhook_deliveries_update g t) = log_frame s t"
  "log_frame s (st_deletions_update f t) = log_frame s t"
  "log_frame s (st_idempotency_update h t) = log_frame s t"
  by (simp_all add: log_frame_def counter_def)

lemma frame_in_sub [simp]:
  "log_frame s (in_sub st_outputs_update k f t) = log_frame s t"
  "log_frame s (in_sub st_decision_packets_update k f t) = log_frame s t"
  "log_frame s (in_sub st_approvals_update k f t) = log_frame s t"
  "log_frame s (in_sub st_webhook_deliveries_update k f t) = log_frame s t"
  by (simp_all add: in_sub_def)

lemma frame_ensure_sub [intro, simp]:
  "keeps (log_frame s) (ensure_sub st_approvals_update k)"
  "keeps (log_frame s) (ensure_sub st_webhook_deliveries_update k)"
  by (simp_all add: ensure_sub_def keeps_modify)

lemmas frame_rules = keeps_seq keeps_reads frame_create frame_update keeps_modify

lemma frame_datasets:
  "keeps (log_frame s) (create_dataset v)"
  "keeps (log_frame s) (update_dataset k u)"
  "keeps (log_frame s) (create_dataset_version k v)"
  "keeps (log_frame s) (update_dataset_version k u)"
  unfolding create_dataset_def update_dataset_def create_dataset_version_def
    insert_version_def update_dataset_version_def
  by (auto intro!: frame_rules split: option.split)

lemma frame_create_dataset_with_version:
  "keeps (log_frame s) (create_dataset_with_version d v)"
  by (rule keeps_create_dataset_with_version)
     (auto simp: frame_datasets insert_version_def intro!: frame_rules)

lemma frame_of_run:
  "keeps (log_frame s) (create_output r v)"
  "keeps (log_frame s) (create_decision_packet r v)"
  "keeps (log_frame s) (update_decision_packet r k u)"
  "keeps (log_frame s) (create_approval r v)"
  "keeps (log_frame s) (get_approval r k)"
  "keeps (log_frame s) (update_approval r k u)"
  "keeps (log_frame s) (list_approvals r)"
  unfolding create_output_def create_decision_packet_def update_decision_packet_def
    create_approval_def get_approval_def update_approval_def list_approvals_def
  by (auto intro!: frame_rules frame_ensure_sub split: option.split)

lemma frame_flat:
  "keeps (log_frame s) (create_command env v)" "keeps (log_frame s) (update_command k u)"
  "keeps (log_frame s) (create_artifact env v)" "keeps (log_frame s) (update_artifact k u)"
  "keeps (log_frame s) (create_model env v)"
  "keeps (log_frame s) (create_deletion v)" "keeps (log_frame s) (update_deletion k u)"
  unfolding create_command_def update_command_def create_artifact_def update_artifact_def
    create_model_def create_deletion_def update_deletion_def
  by (auto intro!: frame_rules)

lemma frame_result:
  "keeps (log_frame s) (prepare_result r v)" "keeps (log_frame s) (store_result r result)"
  "keeps (log_frame s) (set_result r v)"
  unfolding set_result_def prepare_result_def store_result_def Let_def
  by (auto intro!: frame_rules)

lemma frame_webhooks:
  "keeps (log_frame s) (create_webhook_endpoint v)"
  "keeps (log_frame s) (update_webhook_endpoint k u)"
  "keeps (log_frame s) (insert_delivery e v)"
  "keeps (log_frame s) (create_webhook_delivery e v)"
  "keeps (log_frame s) (get_webhook_delivery e k)"
  "keeps (log_frame s) (update_webhook_delivery e k u)"
  "keeps (log_frame s) (list_webhook_deliveries e)"
  unfolding create_webhook_endpoint_def update_webhook_endpoint_def insert_delivery_def
    create_webhook_delivery_def get_webhook_delivery_def update_webhook_delivery_def
    list_webhook_deliveries_def
  by (auto intro!: frame_rules frame_ensure_sub)

lemma frame_outbox: "keeps (log_frame s) (append_webhook_deliveries_locked env event)"
  unfolding append_webhook_deliveries_locked_def deliver_to_def enqueue_def Let_def
  by (auto intro!: frame_rules frame_ensure_sub frame_webhooks keeps_each split: option.split)

lemma frame_idempotency:
  "keeps (log_frame s) (begin_idempotent_request operation key fp)"
  "keeps (log_frame s) (complete_idempotent_request operation key fp resp)"
  "keeps (log_frame s) (abort_idempotent_request operation key fp)"
  unfolding begin_idempotent_request_def complete_idempotent_request_def
    abort_idempotent_request_def idem_lookup_def idem_put_def Let_def
  by (auto intro!: frame_rules split: option.split)

lemma frame_new_id_public: "keeps (log_frame s) (new_id kind)"
  unfolding new_id_def Let_def by auto

lemmas frame_operations =
  frame_datasets frame_create_dataset_with_version frame_of_run frame_flat frame_result
  frame_webhooks frame_idempotency frame_new_id_public

section \<open>Operations that write a log\<close>

lemma stored_form_fields:
  "dget (stored_form s r run event) ''seq'' = JInt (int (length (log_of s r)) + 1)"
  "f \<noteq> ''seq'' \<Longrightarrow> f \<noteq> ''run_revision'' \<Longrightarrow> dget (stored_form s r run event) f = dget event f"
  by (simp_all add: stored_form_def dget_def)

lemma log_of_after_event:
  "log_of (after_event r run eid stored s) q =
     (if q = r then log_of s r @ [stored] else log_of s q)"
  by (simp add: after_event_def log_of_def)

lemma keys_dput_existing: "has_key d k \<Longrightarrow> map fst (dput k v d) = map fst d"
  by (simp add: update_keys has_key_iff)

lemma keys_alter: "map fst (alter k f t) = map fst t"
  by (simp add: alter_def keys_dput_existing has_key_def split: option.split)

lemma index_after_event:
  assumes "has_key (st_event_ids s) r" and "\<not> has_key (sub st_event_ids r s) eid"
  shows "sub st_event_ids q (after_event r run eid stored s) =
     (if q = r then sub st_event_ids r s @ [(eid, stored)] else sub st_event_ids q s)"
  using assms by (auto simp: sub_def after_event_def map_of_alter has_key_def dput_fresh split: option.splits)

lemma run_log_ok_append:
  assumes "run_log_ok c r run es idx" and "eid \<noteq> []" and "\<not> has_key idx eid"
    and "\<And>n. eid = format_id ''evt'' n \<Longrightarrow> n \<le> c"
    and "dget stored ''seq'' = JInt (int (length es) + 1)" and "dget stored ''run_id'' = JStr r"
    and "dget stored ''event_id'' = JStr eid"
  shows "run_log_ok c r (dput ''snapshot_seq'' (JInt (int (length es) + 1)) run) (es @ [stored])
           (idx @ [(eid, stored)])"
proof -
  have "keyed ''event_id'' (dput eid stored idx)"
    using assms by (intro keyed_dput) (auto simp: run_log_ok_def)
  with assms show ?thesis
    by (auto simp: run_log_ok_def dput_fresh nth_append less_Suc_eq has_key_def map_add_def
        split: option.splits)
qed

lemma after_event_inv:
  assumes inv: "log_inv s t" and run: "map_of (st_runs t) r = Some run" and eid: "eid \<noteq> []"
    and new: "\<not> has_key (sub st_event_ids r t) eid" and "not_ahead t eid"
    and event: "dget event ''run_id'' = JStr r" "dget event ''event_id'' = JStr eid"
  shows "log_inv s (after_event r run eid (stored_form t r run event) t)"
proof -
  let ?t = "after_event r run eid (stored_form t r run event) t"
  have wf: "wf_store t" and ok: "logs_ok t"
    using inv by (simp_all add: log_inv_def)
  have key: "has_key (st_event_ids t) r"
    using wf_with_key [OF has_key_Some [OF run] wf] by simp
  have count: "counter ''evt'' ?t = counter ''evt'' t"
    by (simp add: after_event_def counter_def)
  have runs: "st_runs ?t = dput r (dput ''snapshot_seq'' (JInt (int (length (log_of t r)) + 1)) run)
                             (st_runs t)"
    by (simp add: after_event_def)
  have "run_log_ok (counter ''evt'' t) r run (log_of t r) (sub st_event_ids r t)"
    using ok run by (simp add: logs_ok_def)
  from run_log_ok_append [OF this eid new, of "stored_form t r run event"]
  have "run_log_ok (counter ''evt'' t) r
          (dput ''snapshot_seq'' (JInt (int (length (log_of t r)) + 1)) run)
          (log_of ?t r) (sub st_event_ids r ?t)"
    using \<open>not_ahead t eid\<close> event
    by (simp add: stored_form_fields not_ahead_def log_of_after_event index_after_event [OF key new])
  moreover have "map fst (st_event_ids ?t) = map fst (st_events ?t) \<and> distinct (map fst (st_events ?t))"
    using ok key wf_with_key [OF has_key_Some [OF run] wf]
    by (auto simp: logs_ok_def after_event_def keys_alter keys_dput_existing)
  ultimately have "logs_ok ?t"
    using ok by (auto simp: logs_ok_def count runs log_of_after_event index_after_event [OF key new])
  moreover have "logs_extend s ?t"
    using inv by (auto simp: log_inv_def logs_extend_def log_of_after_event)
  ultimately show ?thesis
    using inv wf_after_event [OF wf run] by (simp add: log_inv_def count)
qed

lemma drawn_id_new:
  assumes "logs_ok t" and "map_of (st_runs t) r = Some run"
    and "fst (new_id_locked ''evt'' t) = Inr eid"
  shows "\<not> has_key (sub st_event_ids r t) eid" and "not_ahead (post (new_id_locked ''evt'') t) eid"
proof -
  have eid: "eid = format_id ''evt'' (counter ''evt'' t + 1)"
    using assms(3) by (auto simp: new_id_locked_def Let_def counter_def split: option.split)
  have "run_log_ok (counter ''evt'' t) r run (log_of t r) (sub st_event_ids r t)"
    using assms(1,2) by (simp add: logs_ok_def)
  with eid show "\<not> has_key (sub st_event_ids r t) eid"
    by (fastforce simp: run_log_ok_def)
  show "not_ahead (post (new_id_locked ''evt'') t) eid"
    by (auto simp: eid not_ahead_def format_id_def counter_def new_id_locked_def Let_def
        split: option.split)
qed

lemma sub_new_id [simp]: "sub st_event_ids r (post (new_id_locked p) t) = sub st_event_ids r t"
  by (simp add: sub_def)

lemma inv_new_id: "log_inv s t \<Longrightarrow> log_inv s (post (new_id_locked p) t)"
  using keepsD [OF frame_new_id log_frame_refl, of t p]
  by (rule log_frame_inv) (auto simp: log_inv_def)

lemma not_ahead_mono: "not_ahead s eid \<Longrightarrow> counter ''evt'' s \<le> counter ''evt'' t \<Longrightarrow> not_ahead t eid"
  by (fastforce simp: not_ahead_def)

lemma inv_append_event_locked:
  assumes ok: "event_ok s value"
  shows "keeps (log_inv s) (append_event_locked r value)"
  unfolding keeps_iff_triple
proof (rule append_event_locked_triple)
  show "log_inv s t \<Longrightarrow> log_inv s (post (new_id_locked ''evt'') t)" for t
    by (rule inv_new_id)
  show "log_inv s t \<Longrightarrow> wf_store t" for t by (simp add: log_inv_def)
next
  fix t run eid
  assume inv: "log_inv s t" and run: "map_of (st_runs t) r = Some run"
    and new: "map_of (sub st_event_ids r t) eid = None" and eid: "eid \<noteq> []"
    and given: "map_of value ''event_id'' = Some (JStr eid)"
  have "not_ahead t eid"
    using ok given inv by (auto simp: event_ok_def log_inv_def intro: not_ahead_mono)
  then show "log_inv s (after_event r run eid (stored_form t r run (dput ''run_id'' (JStr r) value)) t)"
    using new eid given
    by (intro after_event_inv [OF inv run]) (simp_all add: has_key_def dget_def)
next
  fix t run eid
  assume inv: "log_inv s t" and run: "map_of (st_runs t) r = Some run"
    and eid: "fst (new_id_locked ''evt'' t) = Inr eid"
  have ok: "logs_ok t" using inv by (simp add: log_inv_def)
  let ?t = "post (new_id_locked ''evt'') t"
  have nonempty: "eid \<noteq> []" using eid by (auto simp: new_id_locked_def Let_def)
  have "log_inv s (after_event r run eid (stored_form ?t r run
          (dput ''event_id'' (JStr eid) (dput ''run_id'' (JStr r) value))) ?t)"
    using drawn_id_new [OF ok run eid] run
    by (intro after_event_inv [OF inv_new_id [OF inv] _ nonempty]) simp_all
  then show "log_inv s (after_event r run eid (stored_form t r run
          (dput ''event_id'' (JStr eid) (dput ''run_id'' (JStr r) value))) ?t)"
    by simp
qed auto

lemma inv_frame_op:
  assumes "\<And>t. keeps (log_frame t) m" and "keeps wf_store m"
  shows "keeps (log_inv s) m"
proof (rule keepsI)
  fix t assume "log_inv s t"
  with keepsD [OF assms(1) log_frame_refl] show "log_inv s (post m t)"
    by (rule log_frame_inv) (use \<open>log_inv s t\<close> assms(2) in \<open>auto simp: log_inv_def keeps_def\<close>)
qed

lemma inv_append_with_outbox:
  "event_ok s value \<Longrightarrow> keeps (log_inv s) (append_with_outbox env r value)"
  unfolding append_with_outbox_def
  by (rule keeps_seq, erule inv_append_event_locked)
     (auto intro!: keeps_seq inv_frame_op frame_outbox wf_append_webhook_deliveries)

text \<open>Writing back a run whose \<open>snapshot_seq\<close> is unchanged.\<close>

lemma inv_put_run:
  assumes inv: "log_inv s t" and run: "map_of (st_runs t) r = Some run"
    and wf: "wf_store (st_runs_update (dput r item) t)"
    and same: "map_of item ''snapshot_seq'' = map_of run ''snapshot_seq''"
  shows "log_inv s (st_runs_update (dput r item) t)"
proof -
  have "run_log_ok (counter ''evt'' t) r run (log_of t r) (sub st_event_ids r t)"
    using inv run by (auto simp: log_inv_def logs_ok_def)
  then have "run_log_ok (counter ''evt'' t) r item (log_of t r) (sub st_event_ids r t)"
    using same by (simp add: run_log_ok_def dget_def)
  with inv wf show ?thesis
    by (auto simp: log_inv_def logs_ok_def logs_extend_def log_of_def sub_def counter_def)
qed

lemma inv_patch_run:
  assumes "log_inv s t" and "map_of (st_runs t) r = Some current"
  shows "log_inv s (st_runs_update
           (dput r (bumped b n (dupdate current (protect_run (dpop ''run_id'' updates))))) t)"
  using assms by (intro inv_put_run [OF assms] wf_patch_run) (auto simp: log_inv_def map_of_protected)

lemma inv_update_run: "keeps (log_inv s) (update_run r updates e b)"
  unfolding keeps_iff_triple update_run_def Let_def
  apply (rule triple_seq, rule current_run_triple, simp)
  apply (rule triple_seq, rule check_revision_triple, simp)
  apply (rule triple_seq, rule triple_lift_eq, simp)
  apply (rule triple_seq, rule put_run_triple [where Q = "\<lambda>_. log_inv s"])
  apply (auto intro: inv_patch_run triple_ret dest!: patch_without_id_Inr)
  done

lemma event_ok_with_revision: "event_ok s v \<Longrightarrow> with_revision run v = Inr w \<Longrightarrow> event_ok s w"
  by (auto simp: with_revision_def event_ok_def split: option.splits)

lemma inv_append_with_revision:
  assumes "event_ok s v"
  shows "keeps (log_inv s)
           (seq (lift (with_revision run v)) (\<lambda>w. append_with_outbox env r w))"
  using assms inv_append_with_outbox event_ok_with_revision
  by (auto simp: keeps_def py_run split: sum.split)

lemma inv_mutate_run_with_event:
  assumes "event_ok s event"
  shows "keeps (log_inv s) (mutate_run_with_event env r updates event e b)"
  unfolding keeps_iff_triple mutate_run_with_event_def Let_def
  apply (rule triple_seq, rule current_run_triple, simp)
  apply (rule triple_seq, rule check_revision_triple, simp)
  apply (rule triple_seq, rule put_run_triple [where Q = "\<lambda>_. log_inv s"], rule inv_patch_run,
      simp, simp)
  apply (subst seq_assoc [symmetric])
  apply (fold keeps_iff_triple)
  apply (rule keeps_seq)
   apply (auto intro!: keeps_seq inv_append_with_revision assms)
  done

lemma inv_put_result:
  assumes "log_inv s t" and "map_of (st_runs t) r = Some run"
    and "map_of result ''run_id'' = Some (JStr r)"
  shows "log_inv s (st_results_update (dput r result) t)"
proof (rule log_frame_inv)
  show "log_frame t (st_results_update (dput r result) t)" by simp
  show "log_inv s t" by (rule assms)
  show "wf_store (st_results_update (dput r result) t)"
    using assms(1) has_key_Some [OF assms(2)] assms(3) by (intro wf_put_result) (simp_all add: log_inv_def)
qed

lemma inv_finalize_run_with_result:
  assumes "list_all (event_ok s) events"
  shows "keeps (log_inv s) (finalize_run_with_result env r result updates events e)"
  unfolding keeps_iff_triple finalize_run_with_result_def Let_def
  apply (rule triple_seq, rule current_run_triple, simp)
  apply (rule triple_seq, rule check_revision_triple, simp)
  apply (rule triple_seq, rule prepare_result_triple, simp add: inv_new_id, simp)
  apply (rule triple_seq, rule store_result_triple
      [where Q = "\<lambda>t. log_inv s t \<and> map_of (st_runs t) r = Some run" for run])
  apply (auto intro: inv_put_result) [2]
  apply (rule triple_seq, rule triple_lift_eq, simp)
  apply (rule triple_seq, rule put_run_triple [where Q = "\<lambda>_. log_inv s"])
  apply (auto intro: inv_patch_run dest!: patch_without_id_Inr) [1]
  apply (fold keeps_iff_triple)
  apply (rule keeps_seq, rule keeps_collect)
  apply (rule inv_append_with_revision, use assms in \<open>simp add: list_all_iff\<close>)
  apply (auto intro!: keeps_seq)
  done

lemma inv_create_run:
  assumes snap: "dget_or value ''snapshot_seq'' (JInt 0) = JInt 0"
  shows "keeps (log_inv s) (create_run value)"
  unfolding keeps_iff_triple
proof (rule create_run_triple)
  show "log_inv s t \<Longrightarrow> log_inv s (post (new_id_locked p) t)" for t p by (rule inv_new_id)
next
  fix t r item
  assume inv: "log_inv s t"
    and new: "creatable ''run_id'' [] (run_defaults value) (st_runs t) r item"
  let ?t = "add_run_tables r (st_runs_update (dput r item) t)"
  have wf: "wf_store t" using inv by (simp add: log_inv_def)
  have "\<not> has_key (st_events t) r"
    using new wf by (simp add: creatable_def wf_store_def same_keys_def)
  then have empty: "log_of t r = []" by (simp add: log_of_def has_key_def)
  have logs: "log_of ?t q = log_of t q" for q
    using empty by (simp add: log_of_def add_run_tables_def)
  have index: "sub st_event_ids q ?t = (if q = r then [] else sub st_event_ids q t)" for q
    by (simp add: sub_def add_run_tables_def)
  have "dget item ''snapshot_seq'' = JInt 0"
    using new snap by (auto simp: creatable_def dget_def dget_or_def split: option.splits)
  then have "run_log_ok (counter ''evt'' t) r item [] []"
    by (simp add: run_log_ok_def has_key_def)
  moreover have "counter ''evt'' ?t = counter ''evt'' t"
    by (simp add: counter_def add_run_tables_def)
  moreover have "st_runs ?t = dput r item (st_runs t)"
    by (simp add: add_run_tables_def)
  moreover have "map fst (st_event_ids ?t) = map fst (st_events ?t) \<and> distinct (map fst (st_events ?t))"
    using inv \<open>\<not> has_key (st_events t) r\<close> wf
    by (simp add: add_run_tables_def log_inv_def logs_ok_def dput_fresh wf_store_def same_keys_def
        flip: has_key_iff)
  ultimately have "logs_ok ?t"
    using inv empty by (auto simp: log_inv_def logs_ok_def logs index)
  with inv wf_add_run [OF wf new] \<open>counter ''evt'' ?t = counter ''evt'' t\<close>
  show "log_inv s ?t" by (simp add: log_inv_def logs_extend_def logs)
qed

lemma logs_ok_empty: "logs_ok empty_store"
  by (simp add: logs_ok_def empty_store_def)

section \<open>Every operation\<close>

lemma inv_run_op:
  assumes "wf_store s" and "logs_ok s" and "op_ok s op" and "op \<noteq> Reset"
  shows "log_inv s (run_op env op s)"
proof -
  note start = log_inv_refl [OF assms(1,2)]
  show ?thesis
    using assms(3,4)
    by (cases op)
       (simp_all add: run_op_def append_event_def frame_operations [THEN inv_frame_op, THEN keepsD, OF _ start]
          wf_operations keepsD [OF inv_create_run start] keepsD [OF inv_update_run start]
          keepsD [OF inv_append_with_outbox start] keepsD [OF inv_mutate_run_with_event start]
          keepsD [OF inv_finalize_run_with_result start])
qed

lemma logs_reachable: "reachable env s \<Longrightarrow> logs_ok s"
proof (induction rule: reachable.induct)
  case start
  show ?case by (rule logs_ok_empty)
next
  case (step s op)
  show ?case
  proof (cases "op = Reset")
    case True
    then show ?thesis by (simp add: run_op_def reset_run logs_ok_empty)
  next
    case False
    from inv_run_op [OF wf_reachable [OF step(1)] step(3,2) False] show ?thesis
      by (simp add: log_inv_def)
  qed
qed

end
