(* ===== verification/Store_Laws.thy ===== *)
theory Store_Laws
  imports Store_Log
begin

text \<open>
  What the clients of the store rely on, over the reachable states: reading the log by
  pages, replaying an event, optimistic concurrency on runs, immutable results, the webhook
  outbox and idempotent requests.
\<close>

section \<open>Reading the log\<close>

lemma log_entry:
  assumes "logs_ok s" and "map_of (st_runs s) r = Some run" and "i < length (log_of s r)"
  shows "map_of (log_of s r ! i) ''seq'' = Some (JInt (int i + 1))"
proof -
  have "dget (log_of s r ! i) ''seq'' = JInt (int i + 1)"
    using assms by (auto simp: logs_ok_def run_log_ok_def)
  then show ?thesis by (auto simp: dget_def split: option.splits)
qed

lemma select_after:
  assumes "\<And>i. i < length es \<Longrightarrow> map_of (es ! i) ''seq'' = Some (JInt (int (b + i) + 1))"
  shows "select_events (int k) None es = Inr (drop (k - b) es)"
  using assms
proof (induction es arbitrary: b)
  case Nil
  then show ?case by simp
next
  case (Cons e es)
  have "map_of e ''seq'' = Some (JInt (int b + 1))"
    using Cons.prems [of 0] by simp
  then have first: "event_selected (int k) None e = Inr (k \<le> b)"
    by (simp add: event_selected_def)
  have rest: "select_events (int k) None es = Inr (drop (k - Suc b) es)"
    using Cons.prems [of "Suc i" for i] by (intro Cons.IH) auto
  show ?case
  proof (cases "k \<le> b")
    case True
    with first rest show ?thesis by simp
  next
    case False
    then have "k - b = Suc (k - Suc b)" by simp
    with first rest False show ?thesis by simp
  qed
qed

lemma get_events_run:
  assumes wf: "wf_store s" and ok: "logs_ok s" and run: "map_of (st_runs s) r = Some run"
  shows "get_events r (int k) None None s = (Inr (drop k (log_of s r)), s)"
    and "0 < n \<Longrightarrow> get_events r (int k) (Some (int n)) None s = (Inr (take n (drop k (log_of s r))), s)"
proof -
  have keys: "has_key (st_runs s) r" "has_key (st_events s) r"
    using wf_with_key [OF has_key_Some [OF run] wf] has_key_Some [OF run] by simp_all
  have "select_events (int k) None (log_of s r) = Inr (drop k (log_of s r))"
    using select_after [of "log_of s r" 0 k] log_entry [OF ok run] by simp
  with keys show "get_events r (int k) None None s = (Inr (drop k (log_of s r)), s)"
    and "0 < n \<Longrightarrow> get_events r (int k) (Some (int n)) None s = (Inr (take n (drop k (log_of s r))), s)"
    by (simp_all add: get_events_def py_run require_run_def need_sub_def log_of_def)
qed

text \<open>
  C21. Paging through a run's log. In every reachable state the events after cursor \<open>k\<close> are
  the log without its first \<open>k\<close> entries, a page is its first \<open>n\<close> of them, entry \<open>i\<close> carries
  sequence number \<open>i + 1\<close>, and \<open>snapshot_seq\<close> of the run is the length of the log: a
  client that resumes at the last number it saw misses nothing and sees nothing twice.
\<close>

theorem event_log_paging:
  assumes "reachable env s" and "map_of (st_runs s) r = Some run" and "0 < n"
  shows "get_events r (int k) (Some (int n)) None s = (Inr (take n (drop k (log_of s r))), s) \<and>
    get_events r (int k) None None s = (Inr (drop k (log_of s r)), s) \<and>
    dget run ''snapshot_seq'' = JInt (int (length (log_of s r))) \<and>
    (\<forall>i < length (log_of s r). dget (log_of s r ! i) ''seq'' = JInt (int i + 1))"
  using get_events_run [OF wf_reachable [OF assms(1)] logs_reachable [OF assms(1)] assms(2)]
    logs_reachable [OF assms(1)] assms(2,3)
  by (auto simp: logs_ok_def run_log_ok_def)

text \<open>
  Logs are append-only. From a reachable state every operation but \<open>reset\<close>, whether it
  returns or raises, leaves each run's log as a prefix of the new one: no event is edited,
  reordered or removed.
\<close>

theorem event_logs_append_only:
  assumes "reachable env s" and "op_ok s op" and "op \<noteq> Reset"
  shows "prefix (log_of s r) (log_of (run_op env op s) r)"
  using inv_run_op [OF wf_reachable [OF assms(1)] logs_reachable [OF assms(1)] assms(2,3)]
  by (simp add: log_inv_def logs_extend_def)

section \<open>Replaying an event\<close>

lemma py_eq_same_lookup:
  assumes "wf_dict a" and "distinct (map fst b)" and "map_of a = map_of b"
  shows "py_eq (JObj a) (JObj b)"
proof -
  have "set (map fst a) = set (map fst b)"
    using assms(3) by (metis dom_map_of_conv_image_fst list.set_map)
  then have "length a = length b"
    using assms(1,2) distinct_card [of "map fst a"] distinct_card [of "map fst b"] by simp
  moreover have "map_of b k = Some v" and "wf_json v" if "(k, v) \<in> set a" for k v
    using assms(1) that by (auto simp flip: assms(3) simp: list_all_iff)
  ultimately show ?thesis
    by (auto simp: list_all_iff)
qed

text \<open>An event answers a request to append it again: it is what the request compares to.\<close>

definition answers :: "string \<Rightarrow> jdict \<Rightarrow> jdict \<Rightarrow> string \<Rightarrow> bool" where
  "answers r value ev eid \<longleftrightarrow> eid \<noteq> [] \<and> dget ev ''event_id'' = JStr eid \<and>
     (\<forall>s. replay_event eid (dput ''run_id'' (JStr r) (dput ''event_id'' (JStr eid) value)) ev s
            = (Inr (ev, False), s))"

lemma stored_form_answers:
  assumes wfv: "wf_dict value" and run: "wf_json (dget_or run ''run_revision'' (JInt 1))"
    and eid: "eid \<noteq> []"
    and event: "map_of event = (map_of value)(''run_id'' \<mapsto> JStr r, ''event_id'' \<mapsto> JStr eid)"
      "distinct (map fst event)"
  shows "answers r value (stored_form s r run event) eid"
proof -
  let ?ev = "stored_form s r run event"
  let ?n = "JInt (int (length (log_of s r)) + 1)"
  let ?c = "dset_default ''run_revision'' (dget ?ev ''run_revision'')
             (dput ''seq'' ?n (dput ''run_id'' (JStr r) (dput ''event_id'' (JStr eid) value)))"
  have "wf_json (dget ?ev ''run_revision'')"
    using run wfv event(1)
    by (auto simp: stored_form_def dget_def list_all_iff dest: map_of_SomeD split: option.splits)
  then have "wf_dict ?c"
    using wfv by (auto simp: dset_default_def simp del: wf_json.simps(2) intro!: wf_dict_dput)
  moreover have "map_of ?c = map_of ?ev"
    using event(1) by (intro ext) (auto simp: stored_form_def dget_def split: option.splits)
  moreover have "distinct (map fst ?ev)"
    using event(2) by (simp add: stored_form_def dset_default_def)
  ultimately have "py_eq (JObj ?c) (JObj ?ev)"
    by (intro py_eq_same_lookup)
  moreover have "map_of ?ev ''seq'' = Some ?n" and "dget ?ev ''event_id'' = JStr eid"
    using event(1) by (simp_all add: stored_form_def dget_def)
  ultimately show ?thesis
    using eid by (simp add: answers_def replay_event_def py_run Let_def)
qed

lemma dput_same: "map_of d k = Some v \<Longrightarrow> dput k v d = d"
  by (induction d) (auto split: if_splits)

lemma event_stored:
  assumes ok: "logs_ok s" and wf: "wf_store s" and wfv: "wf_dict value"
    and run: "map_of (st_runs s) r = Some run" "wf_json (dget_or run ''run_revision'' (JInt 1))"
  shows "triple (\<lambda>t. log_frame s t \<and> wf_store t) (append_event_locked r value)
     (\<lambda>x t. has_key (st_runs t) r \<and> wf_store t \<and>
        (\<exists>eid. answers r value (fst x) eid \<and> map_of (sub st_event_ids r t) eid = Some (fst x)))
     (\<lambda>t. log_frame s t \<and> wf_store t)"
proof (rule append_event_locked_triple)
  fix t run' eid ex
  assume t: "log_frame s t \<and> wf_store t" and run': "map_of (st_runs t) r = Some run'"
    and ex: "map_of (sub st_event_ids r t) eid = Some ex" "eid \<noteq> []"
    and given: "map_of value ''event_id'' = Some (JStr eid)"
    and same: "replay_event eid (dput ''run_id'' (JStr r) value) ex t = (Inr (ex, False), t)"
  have "keyed ''event_id'' (sub st_event_ids r t)"
    using log_frame_logs_ok [OF conjunct1 [OF t] ok] run' by (auto simp: logs_ok_def run_log_ok_def)
  with ex have "dget ex ''event_id'' = JStr eid" by (auto simp: keyed_def)
  moreover have "replay_event eid (dput ''run_id'' (JStr r) value) ex u = (Inr (ex, False), u)" for u
    using same by (auto simp: replay_event_def py_run Let_def split: option.splits if_splits)
  ultimately have "answers r value ex eid"
    using ex by (simp add: answers_def dput_same [OF given])
  then show "has_key (st_runs t) r \<and> wf_store t \<and>
        (\<exists>eid. answers r value (fst (ex, False)) eid \<and> map_of (sub st_event_ids r t) eid = Some (fst (ex, False)))"
    using t run' ex has_key_Some by auto
next
  fix t run' eid
  let ?event = "dput ''run_id'' (JStr r) value"
  assume t: "log_frame s t \<and> wf_store t" and run': "map_of (st_runs t) r = Some run'"
    and new: "map_of (sub st_event_ids r t) eid = None" "eid \<noteq> []"
    and given: "map_of value ''event_id'' = Some (JStr eid)"
  have "run' = run" using t run' run by (simp add: log_frame_def)
  then have "answers r value (stored_form t r run' ?event) eid"
    using wfv run(2) new given by (intro stored_form_answers) (auto simp: fun_upd_twist fun_upd_idem)
  moreover have "has_key (st_event_ids t) r"
    using wf_with_key [OF has_key_Some [OF run']] t by simp
  ultimately show "has_key (st_runs (after_event r run' eid (stored_form t r run' ?event) t)) r \<and>
        wf_store (after_event r run' eid (stored_form t r run' ?event) t) \<and>
        (\<exists>eid'. answers r value (fst (stored_form t r run' ?event, True)) eid' \<and>
          map_of (sub st_event_ids r (after_event r run' eid (stored_form t r run' ?event) t)) eid'
            = Some (fst (stored_form t r run' ?event, True)))"
    using wf_after_event [OF _ run'] t index_after_event [of t r eid] new
    by (force simp: after_event_def has_key_def map_add_def)
next
  fix t run' eid
  let ?event = "dput ''event_id'' (JStr eid) (dput ''run_id'' (JStr r) value)"
  let ?t = "post (new_id_locked ''evt'') t"
  assume t: "log_frame s t \<and> wf_store t" and run': "map_of (st_runs t) r = Some run'"
    and drawn: "fst (new_id_locked ''evt'' t) = Inr eid"
  have "run' = run" using t run' run by (simp add: log_frame_def)
  moreover have "eid \<noteq> []" using drawn by (auto simp: new_id_locked_def Let_def)
  ultimately have "answers r value (stored_form t r run' ?event) eid"
    using wfv run(2) by (intro stored_form_answers) (auto simp: fun_upd_twist)
  moreover have "has_key (st_event_ids ?t) r"
    using wf_with_key [OF has_key_Some [OF run']] t by simp
  moreover have "\<not> has_key (sub st_event_ids r ?t) eid"
    using drawn_id_new(1) [OF log_frame_logs_ok [OF conjunct1 [OF t] ok] run' drawn] by simp
  ultimately show "has_key (st_runs (after_event r run' eid (stored_form t r run' ?event) ?t)) r \<and>
        wf_store (after_event r run' eid (stored_form t r run' ?event) ?t) \<and>
        (\<exists>eid'. answers r value (fst (stored_form t r run' ?event, True)) eid' \<and>
          map_of (sub st_event_ids r (after_event r run' eid (stored_form t r run' ?event) ?t)) eid'
            = Some (fst (stored_form t r run' ?event, True)))"
    using wf_after_event [of ?t r run'] run' t index_after_event [of ?t r eid]
    by (force simp: after_event_def has_key_def map_add_def)
qed (auto intro: keepsD [OF frame_new_id])

lemma append_event_again:
  assumes "answers r value ev eid" and "has_key (st_runs t) r" and "wf_store t"
    and "map_of (sub st_event_ids r t) eid = Some ev"
    and "dget value ''run_id'' \<noteq> JNull \<longrightarrow> dget value ''run_id'' = JStr r"
  shows "append_event env r (dput ''event_id'' (dget ev ''event_id'') value) t = (Inr ev, t)"
proof -
  have "has_key (st_event_ids t) r" using wf_with_key assms(2,3) by blast
  moreover obtain run where "map_of (st_runs t) r = Some run"
    using assms(2) by (auto simp: has_key_def)
  ultimately have "append_event_locked r (dput ''event_id'' (JStr eid) value) t = (Inr (ev, False), t)"
    using assms by (auto simp: append_event_locked_def current_run_def need_sub_def py_run answers_def Let_def)
  moreover have "dget ev ''event_id'' = JStr eid" using assms(1) by (simp add: answers_def)
  ultimately show ?thesis
    by (simp add: append_event_def append_with_outbox_def py_run)
qed

lemma append_event_locked_run_id:
  "append_event_locked r value s = (Inr x, t) \<Longrightarrow>
     dget value ''run_id'' \<noteq> JNull \<longrightarrow> dget value ''run_id'' = JStr r"
  by (auto simp: append_event_locked_def py_run Let_def split: prod.splits sum.splits if_splits)

text \<open>
  Appending is idempotent per event identifier. Whatever \<open>append_event\<close> returned, the
  same request repeated under the identifier of the returned event returns that event again
  and changes nothing: no second log entry, no second delivery.
\<close>

theorem append_event_replay:
  assumes reach: "reachable env s" and "wf_dict value"
    and run: "map_of (st_runs s) r = Some run" and "wf_dict run"
    and ret: "append_event env r value s = (Inr ev, t)"
  shows "append_event env r (dput ''event_id'' (dget ev ''event_id'') value) t = (Inr ev, t)"
proof -
  obtain new u where first: "append_event_locked r value s = (Inr (ev, new), u)"
    and rest: "t = (if new then post (append_webhook_deliveries_locked env ev) u else u)"
    using ret unfolding append_event_def append_with_outbox_def
    by (auto simp: py_run split: prod.splits sum.splits if_splits)
  have "wf_json (dget_or run ''run_revision'' (JInt 1))"
    using \<open>wf_dict run\<close> by (auto simp: dget_or_def list_all_iff dest: map_of_SomeD split: option.splits)
  from triple_Inr [OF event_stored [OF logs_reachable [OF reach] wf_reachable [OF reach]
        \<open>wf_dict value\<close> run this] _ first] wf_reachable [OF reach]
  obtain eid where u: "has_key (st_runs u) r" "wf_store u" "answers r value ev eid"
      "map_of (sub st_event_ids r u) eid = Some ev"
    by auto
  have "log_frame u t" and "wf_store t"
    using rest keepsD [OF frame_outbox log_frame_refl] keepsD [OF wf_append_webhook_deliveries u(2)] u(2)
    by simp_all
  with u append_event_locked_run_id [OF first] show ?thesis
    by (intro append_event_again) (simp_all add: log_frame_def sub_def)
qed

section \<open>Optimistic concurrency\<close>

lemma stale_revision:
  assumes run: "map_of (st_runs s) r = Some run"
    and rev: "py_int (dget_or run ''run_revision'' (JInt 1)) = Inr n" and "e \<noteq> n"
  shows "update_run r updates (Some e) b s = (Inl (RevisionConflict e n), s)"
    and "mutate_run_with_event env r updates event (Some e) b s = (Inl (RevisionConflict e n), s)"
    and "finalize_run_with_result env r result updates events (Some e) s
      = (Inl (RevisionConflict e n), s)"
  using assms
  by (simp_all add: update_run_def mutate_run_with_event_def finalize_run_with_result_def
      current_run_def check_revision_def py_run)

text \<open>
  A stale revision is refused and nothing is changed. Each of the three operations that
  take an expected revision raises \<open>RevisionConflict\<close> with both numbers, and leaves the
  store exactly as it was, when the run is at another revision.
\<close>

theorem stale_revision_refused:
  assumes run: "map_of (st_runs s) r = Some run"
    and rev: "py_int (dget_or run ''run_revision'' (JInt 1)) = Inr n" and "e \<noteq> n"
  shows "update_run r updates (Some e) b s = (Inl (RevisionConflict e n), s) \<and>
    mutate_run_with_event env r updates event (Some e) b s = (Inl (RevisionConflict e n), s) \<and>
    finalize_run_with_result env r result updates events (Some e) s
      = (Inl (RevisionConflict e n), s)"
  using stale_revision [OF assms] by simp

text \<open>
  Of two writers that read the same revision at most one succeeds. After a successful
  \<open>update_run\<close> with the revision bumped, the run is exactly one revision further, keeps its
  identifier and \<open>snapshot_seq\<close>, and a second update that still expects the old revision is
  refused without effect.
\<close>

theorem update_run_lost_update_excluded:
  assumes run: "map_of (st_runs s) r = Some run"
    and rev: "py_int (dget_or run ''run_revision'' (JInt 1)) = Inr n"
    and ok: "update_run r updates (Some n) True s = (Inr item, t)"
  shows "map_of (st_runs t) r = Some item \<and>
    dget item ''run_revision'' = JInt (n + 1) \<and>
    dget item ''snapshot_seq'' = dget run ''snapshot_seq'' \<and>
    dget item ''run_id'' = dget run ''run_id'' \<and>
    update_run r updates' (Some n) b t = (Inl (RevisionConflict n (n + 1)), t)"
proof -
  obtain patch where patch: "patch_without_id ''run'' ''run_id'' r updates = Inr patch"
    and item: "item = bumped True n (dupdate run (protect_run patch))"
    and t: "t = st_runs_update (dput r item) s"
    using ok run rev
    by (auto simp: update_run_def current_run_def check_revision_def py_run Let_def put_run_def
        split: sum.splits)
  have "map_of (st_runs t) r = Some item"
    and "py_int (dget_or item ''run_revision'' (JInt 1)) = Inr (n + 1)"
    by (simp_all add: t item bumped_def dget_or_def)
  with stale_revision(1) [OF this, of n] show ?thesis
    using patch_without_id_Inr [OF patch] map_of_protected [of run updates]
    by (simp add: item bumped_def dget_def)
qed

lemma py_eq_lookup:
  "py_eq (JObj a) (JObj b) \<Longrightarrow> map_of a k = Some v \<Longrightarrow> \<exists>w. map_of b k = Some w \<and> py_eq v w"
  by (fastforce simp: list_all_iff dest: map_of_SomeD split: option.splits)

lemma mutate_known_event:
  assumes wf: "wf_store s" and run: "map_of (st_runs s) r = Some run"
    and rev: "map_of run ''run_revision'' = Some (JInt n)"
    and known: "map_of (sub st_event_ids r s) eid = Some old" "map_of old ''seq'' = Some q"
      "\<not> py_eq (JInt (n + 1)) (dget old ''run_revision'')"
    and event: "map_of event ''event_id'' = Some (JStr eid)" "eid \<noteq> []" "dget event ''run_id'' = JNull"
  shows "mutate_run_with_event env r updates event None True s =
      (Inl (ResourceAlreadyExists ''event'' eid),
       st_runs_update (dput r (dput ''run_revision'' (JInt (n + 1))
         (dupdate run (protect_run (dpop ''run_id'' updates))))) s)"
proof -
  let ?item = "dput ''run_revision'' (JInt (n + 1)) (dupdate run (protect_run (dpop ''run_id'' updates)))"
  let ?e = "dput ''run_id'' (JStr r) (dput ''run_revision'' (JInt (n + 1)) event)"
  have "\<not> py_eq (JObj (dset_default ''run_revision'' (dget old ''run_revision'') (dput ''seq'' q ?e))) (JObj old)"
    using py_eq_lookup [of _ old "''run_revision''" "JInt (n + 1)"] known(3)
    by (fastforce simp: dget_def dset_default_def)
  moreover have "map_of (case map_of (st_event_ids s) r of None \<Rightarrow> [] | Some c \<Rightarrow> c) eid = Some old"
    using known(1) by (simp add: sub_def)
  moreover have "has_key (st_event_ids s) r"
    using wf_with_key [OF has_key_Some [OF run] wf] by simp
  ultimately have "append_event_locked r (dput ''run_revision'' (JInt (n + 1)) event)
      (st_runs_update (dput r ?item) s)
    = (Inl (ResourceAlreadyExists ''event'' eid), st_runs_update (dput r ?item) s)"
    using event known(2)
    by (simp add: append_event_locked_def current_run_def replay_event_def need_sub_def py_run
        Let_def sub_def dget_def [of _ "''event_id''"])
  moreover have "current_run r s = (Inr run, s)" and "check_revision run None s = (Inr n, s)"
    using run rev by (simp_all add: current_run_def check_revision_def py_run dget_or_def)
  moreover have "with_revision ?item event = Inr (dput ''run_revision'' (JInt (n + 1)) event)"
    by (simp add: with_revision_def)
  ultimately show ?thesis
    by (simp add: mutate_run_with_event_def append_with_outbox_def put_run_def bumped_def py_run Let_def)
qed

text \<open>
  An update can be refused after it has taken effect. When the event of
  \<open>mutate_run_with_event\<close> carries an identifier that the log already holds for another
  revision, the operation raises \<open>ResourceAlreadyExists\<close>, yet the run has been patched and
  its revision bumped: the run and its event are not one unit.
\<close>

theorem refused_mutation_takes_effect:
  assumes "reachable env s" and "map_of (st_runs s) r = Some run"
    and "map_of run ''run_revision'' = Some (JInt n)"
    and "map_of (sub st_event_ids r s) eid = Some old"
    and "\<not> py_eq (JInt (n + 1)) (dget old ''run_revision'')"
    and "map_of event ''event_id'' = Some (JStr eid)" and "dget event ''run_id'' = JNull"
  shows "\<exists>t item. mutate_run_with_event env r updates event None True s =
      (Inl (ResourceAlreadyExists ''event'' eid), t) \<and>
      map_of (st_runs t) r = Some item \<and> map_of item ''run_revision'' = Some (JInt (n + 1)) \<and>
      log_of t r = log_of s r"
proof -
  have ok: "run_log_ok (counter ''evt'' s) r run (log_of s r) (sub st_event_ids r s)"
    using logs_reachable [OF assms(1)] assms(2) by (simp add: logs_ok_def)
  then have "keyed ''event_id'' (sub st_event_ids r s)" by (simp add: run_log_ok_def)
  then have "eid \<noteq> []" using keyed_entry assms(4) by blast
  have "old \<in> set (log_of s r)"
    using ok imageI [OF map_of_SomeD [OF assms(4)], of snd]
    by (simp add: run_log_ok_def flip: list.set_map)
  then obtain q where "map_of old ''seq'' = Some q"
    using log_entry [OF logs_reachable [OF assms(1)] assms(2)] by (metis in_set_conv_nth)
  from mutate_known_event [OF wf_reachable [OF assms(1)] assms(2-4) this assms(5,6) \<open>eid \<noteq> []\<close> assms(7)]
  show ?thesis
    by (simp add: log_of_def)
qed

section \<open>Results\<close>

text \<open>The tables of results and of idempotency records, which most operations leave alone.\<close>

definition ledger :: "store \<Rightarrow> coll \<times> ((string \<times> string) \<times> idem_record) list" where
  "ledger s = (st_results s, st_idempotency s)"

abbreviation same_ledger :: "store \<Rightarrow> store \<Rightarrow> bool" where
  "same_ledger s t \<equiv> ledger t = ledger s"

lemma ledger_tables [simp]:
  "ledger (st_id_counters_update c t) = ledger t"
  "ledger (st_datasets_update f t) = ledger t"
  "ledger (st_dataset_versions_update f t) = ledger t"
  "ledger (st_runs_update f t) = ledger t"
  "ledger (st_events_update l t) = ledger t"
  "ledger (st_event_ids_update g t) = ledger t"
  "ledger (st_outputs_update g t) = ledger t"
  "ledger (st_decision_packets_update g t) = ledger t"
  "ledger (st_commands_update f t) = ledger t"
  "ledger (st_artifacts_update f t) = ledger t"
  "ledger (st_approvals_update g t) = ledger t"
  "ledger (st_models_update f t) = ledger t"
  "ledger (st_webhook_endpoints_update f t) = ledger t"
  "ledger (st_webhook_deliveries_update g t) = ledger t"
  "ledger (st_deletions_update f t) = ledger t"
  by (simp_all add: ledger_def)

lemma ledger_new_id [simp]: "ledger (post (new_id_locked p) t) = ledger t"
  by (simp add: new_id_locked_def Let_def)

lemma ledger_new_id_rules [intro, simp]:
  "keeps (same_ledger s) (new_id_locked p)" "keeps (same_ledger s) (new_id_of_kind kind)"
  by (auto simp: new_id_of_kind_def keeps_def py_run split: option.splits)

lemma ledger_create:
  assumes "\<And>f t. ledger (upd f t) = ledger t" and "distinct (map fst fixed)"
  shows "keeps (same_ledger s) (create_locked get upd id_field kind resource fixed value)"
  unfolding keeps_iff_triple by (rule create_locked_triple) (use assms in auto)

lemma ledger_update:
  assumes "\<And>f t. ledger (upd f t) = ledger t"
  shows "keeps (same_ledger s) (update_locked get upd id_field resource rid updates)"
  by (rule keepsI) (use assms in \<open>auto simp: update_locked_run split: option.split sum.split\<close>)

lemma ledger_in_sub [simp]:
  "ledger (in_sub st_outputs_update k f t) = ledger t"
  "ledger (in_sub st_event_ids_update k f t) = ledger t"
  "ledger (in_sub st_decision_packets_update k f t) = ledger t"
  "ledger (in_sub st_approvals_update k f t) = ledger t"
  "ledger (in_sub st_webhook_deliveries_update k f t) = ledger t"
  by (simp_all add: in_sub_def)

lemma ledger_small [intro, simp]:
  "keeps (same_ledger s) (ensure_sub st_approvals_update k)"
  "keeps (same_ledger s) (ensure_sub st_webhook_deliveries_update k)"
  "keeps (same_ledger s) (put_run r item)"
  by (simp_all add: ensure_sub_def put_run_def keeps_modify)

lemmas ledger_rules = keeps_seq keeps_reads ledger_create ledger_update keeps_modify ledger_small

lemma ledger_datasets:
  "keeps (same_ledger s) (create_dataset v)" "keeps (same_ledger s) (update_dataset k u)"
  "keeps (same_ledger s) (insert_version d v)"
  "keeps (same_ledger s) (create_dataset_version k v)"
  "keeps (same_ledger s) (update_dataset_version k u)"
  unfolding create_dataset_def update_dataset_def create_dataset_version_def
    insert_version_def update_dataset_version_def
  by (auto intro!: ledger_rules split: option.split)

lemma ledger_create_dataset_with_version:
  "keeps (same_ledger s) (create_dataset_with_version d v)"
  by (rule keeps_create_dataset_with_version) (simp_all add: ledger_datasets)

lemma ledger_of_run:
  "keeps (same_ledger s) (create_output r v)" "keeps (same_ledger s) (create_decision_packet r v)"
  "keeps (same_ledger s) (update_decision_packet r k u)"
  "keeps (same_ledger s) (create_approval r v)" "keeps (same_ledger s) (get_approval r k)"
  "keeps (same_ledger s) (update_approval r k u)" "keeps (same_ledger s) (list_approvals r)"
  unfolding create_output_def create_decision_packet_def update_decision_packet_def
    create_approval_def get_approval_def update_approval_def list_approvals_def
  by (auto intro!: ledger_rules split: option.split)

lemma ledger_flat:
  "keeps (same_ledger s) (create_command env v)" "keeps (same_ledger s) (update_command k u)"
  "keeps (same_ledger s) (create_artifact env v)" "keeps (same_ledger s) (update_artifact k u)"
  "keeps (same_ledger s) (create_model env v)"
  "keeps (same_ledger s) (create_deletion v)" "keeps (same_ledger s) (update_deletion k u)"
  unfolding create_command_def update_command_def create_artifact_def update_artifact_def
    create_model_def create_deletion_def update_deletion_def
  by (auto intro!: ledger_rules)

lemma ledger_webhooks:
  "keeps (same_ledger s) (create_webhook_endpoint v)"
  "keeps (same_ledger s) (update_webhook_endpoint k u)"
  "keeps (same_ledger s) (insert_delivery e v)"
  "keeps (same_ledger s) (create_webhook_delivery e v)"
  "keeps (same_ledger s) (get_webhook_delivery e k)"
  "keeps (same_ledger s) (update_webhook_delivery e k u)"
  "keeps (same_ledger s) (list_webhook_deliveries e)"
  unfolding create_webhook_endpoint_def update_webhook_endpoint_def insert_delivery_def
    create_webhook_delivery_def get_webhook_delivery_def update_webhook_delivery_def
    list_webhook_deliveries_def
  by (auto intro!: ledger_rules)

lemma ledger_events:
  "keeps (same_ledger s) (append_webhook_deliveries_locked env event)"
  "keeps (same_ledger s) (store_event r run eid event)"
  "keeps (same_ledger s) (replay_event eid event ex)"
  unfolding append_webhook_deliveries_locked_def deliver_to_def enqueue_def Let_def
    store_event_def replay_event_def
  by (auto intro!: ledger_rules ledger_webhooks keeps_each split: option.split)

lemma ledger_append:
  "keeps (same_ledger s) (append_event_locked r value)"
  "keeps (same_ledger s) (append_with_outbox env r value)"
  unfolding append_with_outbox_def append_event_locked_def Let_def
  by (auto intro!: ledger_rules ledger_events split: option.split json.split)

lemma ledger_runs:
  "keeps (same_ledger s) (create_run value)"
  "keeps (same_ledger s) (update_run r u e b)"
  "keeps (same_ledger s) (append_event env r value)"
  "keeps (same_ledger s) (mutate_run_with_event env r u v e b)"
  "keeps (same_ledger s) (new_id kind)"
  unfolding create_run_def update_run_def append_event_def mutate_run_with_event_def new_id_def Let_def
  by (auto intro!: ledger_rules ledger_append split: json.split)

lemmas ledger_operations =
  ledger_datasets ledger_create_dataset_with_version ledger_of_run ledger_flat
  ledger_webhooks ledger_runs


text \<open>A result is kept up to Python's equality, an answered request exactly.\<close>

definition results_kept :: "store \<Rightarrow> store \<Rightarrow> bool" where
  "results_kept s t \<longleftrightarrow>
     (\<forall>r x. map_of (st_results s) r = Some x \<longrightarrow>
        (\<exists>y. map_of (st_results t) r = Some y \<and> (y = x \<or> py_eq (JObj x) (JObj y))))"

definition answers_kept :: "store \<Rightarrow> store \<Rightarrow> bool" where
  "answers_kept s t \<longleftrightarrow>
     (\<forall>ident rec. map_of (st_idempotency s) ident = Some rec \<longrightarrow> response rec \<noteq> None \<longrightarrow>
        map_of (st_idempotency t) ident = Some rec)"

definition ledger_kept :: "store \<Rightarrow> store \<Rightarrow> bool" where
  "ledger_kept s t \<longleftrightarrow> results_kept s t \<and> answers_kept s t"

lemma same_ledger_kept: "same_ledger s t \<Longrightarrow> ledger_kept s t"
  by (auto simp: ledger_def ledger_kept_def results_kept_def answers_kept_def)

lemma ledger_prepare_result: "keeps (same_ledger s) (prepare_result r v)"
  unfolding prepare_result_def Let_def by (auto intro!: ledger_rules)

lemma store_result_kept:
  "triple (same_ledger s) (store_result r result) (\<lambda>_. ledger_kept s) (ledger_kept s)"
proof (rule tripleI)
  fix t e t' assume "same_ledger s t" and "store_result r result t = (Inl e, t')"
  then show "ledger_kept s t'"
    using same_ledger_kept by (auto simp: store_result_def py_run split: option.splits if_splits)
next
  fix t x t' assume "same_ledger s t" and "store_result r result t = (Inr x, t')"
  then show "ledger_kept s t'"
    by (auto simp: store_result_def py_run ledger_def ledger_kept_def results_kept_def
        answers_kept_def split: option.splits if_splits)
qed

lemma kept_then_same:
  assumes "\<And>s. keeps (same_ledger s) m" shows "keeps (ledger_kept s) m"
proof (rule keepsI)
  fix t assume "ledger_kept s t"
  then show "ledger_kept s (post m t)"
    using keepsD [OF assms [of t], of t] by (simp add: ledger_def ledger_kept_def results_kept_def answers_kept_def)
qed

lemma kept_set_result: "ledger_kept s (post (set_result r v) s)"
proof -
  have "triple (same_ledger s) (set_result r v) (\<lambda>_. ledger_kept s) (ledger_kept s)"
    unfolding set_result_def
    apply (rule triple_seq [where R = "\<lambda>_. same_ledger s"])
    apply (rule triple_weaken [OF keeps_reads(1) [unfolded keeps_iff_triple, where P = "same_ledger s"]])
    apply (auto intro: same_ledger_kept) [3]
    apply (rule triple_seq [where R = "\<lambda>_. same_ledger s"])
    apply (rule triple_weaken [OF ledger_prepare_result [unfolded keeps_iff_triple]])
    apply (auto intro: same_ledger_kept) [3]
    apply (rule triple_seq, rule store_result_kept)
    apply (auto intro: triple_ret)
    done
  from triple_post [OF this] show ?thesis by simp
qed

lemma kept_finalize: "ledger_kept s (post (finalize_run_with_result env r result updates events e) s)"
proof -
  have start: "triple (same_ledger s) m (\<lambda>_. same_ledger s) (ledger_kept s)"
    if "keeps (same_ledger s) m" for m :: "(store, 'a) py"
    by (rule triple_weaken [OF that [unfolded keeps_iff_triple]]) (auto intro: same_ledger_kept)
  have "triple (same_ledger s) (finalize_run_with_result env r result updates events e)
          (\<lambda>_. ledger_kept s) (ledger_kept s)"
    unfolding finalize_run_with_result_def Let_def
    apply (rule triple_seq, rule start, simp)
    apply (rule triple_seq, rule start, simp)
    apply (rule triple_seq, rule start, rule ledger_prepare_result)
    apply (rule triple_seq, rule store_result_kept)
    apply (fold keeps_iff_triple)
    apply (rule kept_then_same)
    apply (auto intro!: ledger_rules keeps_collect ledger_append)
    done
  from triple_post [OF this] show ?thesis by simp
qed

lemma kept_idempotency:
  "ledger_kept s (post (begin_idempotent_request operation key fp) s)"
  "ledger_kept s (post (complete_idempotent_request operation key fp resp) s)"
  "ledger_kept s (post (abort_idempotent_request operation key fp) s)"
  by (auto simp: ledger_kept_def results_kept_def answers_kept_def begin_idempotent_request_def
      complete_idempotent_request_def abort_idempotent_request_def idem_lookup_def idem_put_def
      py_run Let_def update_conv' delete_conv' split: sum.split option.split)

lemma run_op_ledger: "op \<noteq> Reset \<Longrightarrow> ledger_kept s (run_op env op s)"
proof -
  have same: "ledger_kept s (post m s)" if "keeps (same_ledger s) m" for m :: "(store, 'a) py"
    using keepsD [OF that] by (simp add: same_ledger_kept)
  show "op \<noteq> Reset \<Longrightarrow> ledger_kept s (run_op env op s)"
    by (cases op) (simp_all add: run_op_def kept_set_result kept_finalize kept_idempotency
        ledger_operations [THEN same])
qed

text \<open>
  C29. Results and answers are final. Every operation but \<open>reset\<close>, whether it returns or
  raises, keeps the result of each run (up to Python equality with what was stored) and
  keeps the record of each completed idempotent request unchanged.
\<close>

theorem results_and_answers_final:
  assumes "op \<noteq> Reset"
  shows "ledger_kept s (run_op env op s)"
  using assms by (rule run_op_ledger)

section \<open>Idempotent requests\<close>

lemma idempotency_identity_Inr:
  "idempotency_identity operation key fp = Inr ident \<longleftrightarrow>
     operation \<noteq> [] \<and> key \<noteq> [] \<and> fp \<noteq> [] \<and> ident = (operation, key)"
  by (auto simp: idempotency_identity_def)

lemma complete_stores:
  assumes "complete_idempotent_request operation key fp resp s = (Inr r, t)"
  shows "operation \<noteq> [] \<and> key \<noteq> [] \<and> fp \<noteq> [] \<and>
     map_of (st_idempotency t) (operation, key) = Some \<lparr>request_fingerprint = fp, response = Some r\<rparr>"
  using assms
  by (auto simp: complete_idempotent_request_def idem_lookup_def idem_put_def py_run Let_def
      update_conv' idempotency_identity_Inr split: sum.splits option.splits if_splits)

text \<open>
  Exactly one answer per idempotency key. Once a request has been completed with an
  answer, the same request is replayed that answer, a request with another fingerprint
  under the key is a conflict, a second completion returns the first answer, and an abort
  does not remove it; none of these changes the store.
\<close>

theorem idempotent_answer_replayed:
  assumes "complete_idempotent_request operation key fp resp s = (Inr r, t)"
    and "fp' \<noteq> fp" and "fp' \<noteq> []"
  shows "begin_idempotent_request operation key fp t
        = (Inr \<lparr>state = REPLAY, asked_fingerprint = fp, replayed = Some r,
                existing_fingerprint = None\<rparr>, t) \<and>
    begin_idempotent_request operation key fp' t
        = (Inr \<lparr>state = CONFLICT, asked_fingerprint = fp', replayed = None,
                existing_fingerprint = Some fp\<rparr>, t) \<and>
    complete_idempotent_request operation key fp resp' t = (Inr r, t) \<and>
    complete_idempotent_request operation key fp' resp' t
        = (Inl (IdempotencyConflict operation key fp' fp), t) \<and>
    abort_idempotent_request operation key fp t = (Inr False, t)"
  using complete_stores [OF assms(1)] assms(2,3)
  by (simp add: begin_idempotent_request_def complete_idempotent_request_def
      abort_idempotent_request_def idem_lookup_def py_run idempotency_identity_def
      idempotency_decision_def decision_def)

text \<open>
  A reservation is exclusive until it is completed or aborted. The first request under a
  key is told \<open>NEW\<close>; while it runs the same request is told \<open>IN_PROGRESS\<close> and changes
  nothing; an abort with the right fingerprint frees the key, so that the next request is
  \<open>NEW\<close> again.
\<close>

theorem idempotent_reservation:
  assumes "begin_idempotent_request operation key fp s = (Inr d, t)" and "state d = NEW"
  shows "begin_idempotent_request operation key fp t
        = (Inr (decision IN_PROGRESS fp), t) \<and>
    fst (abort_idempotent_request operation key fp t) = Inr True \<and>
    fst (begin_idempotent_request operation key fp
           (post (abort_idempotent_request operation key fp) t)) = Inr (decision NEW fp) \<and>
    fst (complete_idempotent_request operation key fp resp t) = Inr resp"
proof -
  have "operation \<noteq> [] \<and> key \<noteq> [] \<and> fp \<noteq> []"
    and "map_of (st_idempotency t) (operation, key)
           = Some \<lparr>request_fingerprint = fp, response = None\<rparr>"
    using assms
    by (auto simp: begin_idempotent_request_def idem_lookup_def idem_put_def py_run update_conv'
        idempotency_identity_Inr idempotency_decision_def decision_def
        split: sum.splits option.splits if_splits)
  then show ?thesis
    by (simp add: begin_idempotent_request_def complete_idempotent_request_def
        abort_idempotent_request_def idem_lookup_def idem_put_def py_run idempotency_identity_def
        idempotency_decision_def delete_conv')
qed

section \<open>The webhook outbox\<close>

text \<open>The deliveries of an endpoint that carry an event, and the condition for one.\<close>

definition deliveries_of :: "store \<Rightarrow> string \<Rightarrow> string \<Rightarrow> nat" where
  "deliveries_of s e eid =
     length (filter (\<lambda>p. dget (snd p) ''event_id'' = JStr eid) (sub st_webhook_deliveries e s))"

definition accepts :: "store \<Rightarrow> json \<Rightarrow> json \<Rightarrow> string \<Rightarrow> bool" where
  "accepts s tenant event_type e \<longleftrightarrow>
     (case map_of (st_webhook_endpoints s) e of
        None \<Rightarrow> False
      | Some endpoint \<Rightarrow>
          py_eq (dget endpoint ''tenant_id'') tenant \<and>
          \<not> py_eq (dget endpoint ''status'') (JStr ''DISABLED'') \<and>
          subscribed endpoint event_type = Inr True)"

definition outbox_frame :: "store \<Rightarrow> store \<Rightarrow> bool" where
  "outbox_frame s t \<longleftrightarrow> wf_store t \<and> st_webhook_endpoints t = st_webhook_endpoints s \<and>
     st_runs t = st_runs s"

lemma accepts_frame: "outbox_frame s t \<Longrightarrow> accepts t = accepts s"
  by (rule ext)+ (simp add: outbox_frame_def accepts_def)

lemma sub_ensure [simp]:
  "sub st_webhook_deliveries q (st_webhook_deliveries_update (dset_default e []) s)
     = sub st_webhook_deliveries q s"
  by (auto simp: sub_def split: option.split)

lemma insert_delivery_frame:
  assumes "\<And>f s. h (in_sub st_webhook_deliveries_update e f s) = h s"
    and "\<And>g s. h (st_id_counters_update g s) = h s"
  shows "h (post (insert_delivery e v) s) = h s"
  unfolding insert_delivery_def by (rule create_frame) (use assms in auto)

lemma insert_delivery_effect:
  assumes run: "insert_delivery e value s = (Inr item, t)" and "wf_store s"
    and key: "has_key (st_webhook_deliveries s) e"
  shows "outbox_frame s t \<and>
    deliveries_of t q eid = deliveries_of s q eid
      + (if q = e \<and> dget value ''event_id'' = JStr eid then 1 else 0)"
proof -
  note run' = run [unfolded insert_delivery_def]
  obtain d where new: "creatable ''delivery_id'' [(''webhook_endpoint_id'', JStr e)] value
        (sub st_webhook_deliveries e s) d item"
      and t: "sub st_webhook_deliveries e t = sub st_webhook_deliveries e s @ [(d, item)]"
    using deliveries.entry.create_Inr [OF run' _ key] by auto
  have "dget item ''event_id'' = dget value ''event_id''"
    using new by (simp add: creatable_def dget_def)
  moreover have "sub st_webhook_deliveries q t = sub st_webhook_deliveries q s" if "q \<noteq> e"
    using insert_delivery_frame [of "sub st_webhook_deliveries q" e "value" s] run
      deliveries.sub_in_sub_other [OF that]
    by (simp add: sub_def)
  moreover have "(st_webhook_endpoints t, st_runs t) = (st_webhook_endpoints s, st_runs s)"
    using insert_delivery_frame [of "\<lambda>s. (st_webhook_endpoints s, st_runs s)" e "value" s] run
    by (simp add: in_sub_def)
  moreover have "wf_store t"
    using keepsD [OF wf_insert_delivery \<open>wf_store s\<close>, of e "value"] run by simp
  ultimately show ?thesis
    using t by (cases "q = e") (auto simp: outbox_frame_def deliveries_of_def)
qed

lemma enqueue_effect:
  assumes run: "enqueue e tenant r event s = (Inr (), t)" and wf: "wf_store s"
    and ep: "has_key (st_webhook_endpoints s) e" and ev: "dget event ''event_id'' = JStr eid"
  shows "outbox_frame s t \<and>
    deliveries_of t q eid = (if q = e then max 1 (deliveries_of s e eid) else deliveries_of s q eid)"
proof -
  let ?s = "st_webhook_deliveries_update (dset_default e []) s"
  have s: "wf_store ?s" "has_key (st_webhook_deliveries ?s) e"
    using wf_ensure_deliveries [OF wf ep] by (simp_all add: has_key_def)
  have count: "deliveries_of ?s p eid = deliveries_of s p eid" for p
    by (simp add: deliveries_of_def)
  let ?known = "list_ex (\<lambda>p. dget (snd p) ''event_id'' = JStr eid) (sub st_webhook_deliveries e s)"
  have known: "?known \<longleftrightarrow> 0 < deliveries_of s e eid"
    by (auto simp: deliveries_of_def list_ex_iff filter_empty_conv)
  show ?thesis
  proof (cases ?known)
    case True
    then have "t = ?s" using run by (simp add: enqueue_def ensure_sub_def py_run ev)
    then show ?thesis using True s known count by (auto simp: outbox_frame_def)
  next
    case False
    then obtain item where ins: "insert_delivery e (pending_delivery tenant r event) ?s = (Inr item, t)"
      using run by (auto simp: enqueue_def ensure_sub_def py_run ev split: prod.splits sum.splits)
    have "dget (pending_delivery tenant r event) ''event_id'' = JStr eid"
      by (simp add: pending_delivery_def dget_def flip: ev)
    with insert_delivery_effect [OF ins s, of q eid] False known count show ?thesis
      by (auto simp: outbox_frame_def)
  qed
qed

lemma deliver_to_effect:
  assumes run: "deliver_to env tenant r event ref s = (Inr (), t)" and wf: "wf_store s"
    and ev: "dget event ''event_id'' = JStr eid"
  shows "outbox_frame s t \<and> deliveries_of t q eid =
    (if q = py_str env ref \<and> accepts s tenant (dget event ''type'') q
     then max 1 (deliveries_of s q eid) else deliveries_of s q eid)"
proof (cases "accepts s tenant (dget event ''type'') (py_str env ref)")
  case True
  then obtain endpoint where ep: "map_of (st_webhook_endpoints s) (py_str env ref) = Some endpoint"
    by (auto simp: accepts_def split: option.splits)
  have "enqueue (py_str env ref) tenant r event s = (Inr (), t)"
    using run True ep wf_endpoint_id [OF wf ep] by (auto simp: deliver_to_def accepts_def py_run)
  from enqueue_effect [OF this wf has_key_Some [OF ep] ev] True show ?thesis by auto
next
  case False
  then have "t = s"
    using run
    by (auto simp: deliver_to_def accepts_def py_run split: option.splits if_splits sum.splits)
  with False wf show ?thesis by (auto simp: outbox_frame_def)
qed

lemma each_deliver_effect:
  assumes "each (deliver_to env tenant r event) refs s = (Inr (), t)" and "wf_store s"
    and ev: "dget event ''event_id'' = JStr eid"
  shows "deliveries_of t q eid =
    (if q \<in> py_str env ` set refs \<and> accepts s tenant (dget event ''type'') q
     then max 1 (deliveries_of s q eid) else deliveries_of s q eid)"
  using assms(1,2)
proof (induction refs arbitrary: s)
  case Nil
  then show ?case by (simp add: py_run)
next
  case (Cons ref refs)
  obtain u where first: "deliver_to env tenant r event ref s = (Inr (), u)"
    and rest: "each (deliver_to env tenant r event) refs u = (Inr (), t)"
    using Cons.prems(1) by (auto elim: seq_Inr)
  note step = deliver_to_effect [OF first Cons.prems(2) ev, of q]
  then have "wf_store u" and "accepts u = accepts s"
    using accepts_frame by (auto simp: outbox_frame_def)
  with Cons.IH [OF rest] step show ?case by auto
qed

text \<open>
  C28. The outbox delivers each event once to whom it is for. When the fan-out of a stored
  event returns, an endpoint has a delivery for it (one, where it had none) exactly if the
  run selects the endpoint, the endpoint belongs to the run's tenant, is not disabled and
  subscribes to the event type or to everything; the deliveries of every other endpoint for
  this event are as they were.
\<close>

theorem outbox_fan_out:
  assumes ok: "env_ok env" and reach: "reachable env s"
    and run: "map_of (st_runs s) r = Some run"
    and event: "dget event ''run_id'' = JStr r" "dget event ''event_id'' = JStr eid"
    and sel: "py_set (py_or (dget run ''webhook_endpoint_ids'') (JArr [])) = Inr selected"
    and ret: "append_webhook_deliveries_locked env event s = (Inr (), t)"
  shows "deliveries_of t e eid =
    (if e \<in> py_str env ` set selected \<and> accepts s (dget run ''tenant_id'') (dget event ''type'') e
     then max 1 (deliveries_of s e eid) else deliveries_of s e eid)"
proof -
  have "each (deliver_to env (dget run ''tenant_id'') r event) (set_iter env selected) s = (Inr (), t)"
    using ret run event sel by (simp add: append_webhook_deliveries_locked_def py_run)
  from each_deliver_effect [OF this wf_reachable [OF reach] event(2), of e]
  show ?thesis using set_iter_set [OF ok] by simp
qed

section \<open>A dataset with its first version\<close>

text \<open>
  A dataset is never left without the version it was created with: when
  \<open>create_dataset_with_version\<close> raises, the datasets and the versions are as before; when it
  returns, the version names the dataset.
\<close>

theorem dataset_with_version_all_or_nothing:
  assumes "reachable env s" and "create_dataset_with_version ds v s = (res, t)"
  shows "case res of
      Inl e \<Rightarrow> st_datasets t = st_datasets s \<and> st_dataset_versions t = st_dataset_versions s
    | Inr (d, ver) \<Rightarrow> dget ver ''dataset_id'' = dget d ''dataset_id''"
  using wf_reachable [OF assms(1)]
proof (cases rule: create_dataset_with_version_cases [where ds = ds and v = v])
  case (dataset_refused e s1)
  have "st_datasets s1 = st_datasets s"
    using datasets.create_Inl [OF dataset_refused(1) [unfolded create_dataset_def]] by simp
  moreover have "st_dataset_versions s1 = st_dataset_versions s"
    using dataset_version_frames(1) [of ds s] dataset_refused(1) by simp
  ultimately show ?thesis using dataset_refused(2) assms(2) by auto
next
  case (version_refused e s2)
  then show ?thesis using assms(2) by auto
next
  case (created d ver s2)
  then show ?thesis using assms(2) by auto
qed

end
