(* ===== verification/Rules_Laws.thy ===== *)
theory Rules_Laws
  imports Workflow_Rules "HOL-Library.Multiset"
begin

text \<open>
  What the rules of the workflow service guarantee: the comparison of selections is equality up
  to order, a packet is answered completely and from its options, quotas hold, and a resource is
  visible to its own tenant only.
\<close>

section \<open>Equality of Python values\<close>

lemma num_of_not_container: "num_of a \<noteq> None \<longleftrightarrow> type_of a \<in> {TBool, TInt, TFloat}"
  by (cases a) auto

lemma py_eq_JObj:
  "py_eq (JObj xs) b \<longleftrightarrow> (\<exists>ys. b = JObj ys \<and> length xs = length ys \<and>
     (\<forall>k v. (k, v) \<in> set xs \<longrightarrow> (\<exists>w. map_of ys k = Some w \<and> py_eq v w)))"
proof (cases b)
  case (JObj ys)
  have "(case map_of ys (fst p) of Some w \<Rightarrow> py_eq (snd p) w | None \<Rightarrow> False) \<longleftrightarrow>
      (\<exists>w. map_of ys (fst p) = Some w \<and> py_eq (snd p) w)" for p
    by (cases "map_of ys (fst p)") simp_all
  then show ?thesis using JObj by (simp add: list_all_iff Ball_def split_paired_All del: split_paired_All) auto
qed simp_all

lemma py_eq_sym: "wf_json a \<Longrightarrow> wf_json b \<Longrightarrow> py_eq a b \<Longrightarrow> py_eq b a"
proof (induction a arbitrary: b)
  case (JArr xs)
  then show ?case
    by (cases b) (auto simp: list_all2_conv_all_nth list_all_length)
next
  case (JObj xs)
  from JObj.prems(3)[unfolded py_eq_JObj] obtain ys where b: "b = JObj ys"
    and len: "length xs = length ys"
    and all: "\<And>k v. (k, v) \<in> set xs \<Longrightarrow> \<exists>w. map_of ys k = Some w \<and> py_eq v w"
    by blast
  have dx: "distinct (map fst xs)" and dy: "distinct (map fst ys)"
    using JObj.prems b by auto
  have "fst ` set xs \<subseteq> fst ` set ys"
    using all by (force dest: map_of_SomeD)
  moreover have "card (fst ` set xs) = card (fst ` set ys)"
    using dx dy len by (metis distinct_card length_map set_map)
  ultimately have keys: "fst ` set xs = fst ` set ys"
    by (simp add: card_subset_eq)
  have "\<exists>v. map_of xs k = Some v \<and> py_eq w v" if "(k, w) \<in> set ys" for k w
  proof -
    from that keys obtain v where v: "(k, v) \<in> set xs" by force
    then have "map_of ys k = Some w" and mx: "map_of xs k = Some v"
      using that dx dy by auto
    then have "py_eq v w" using all[OF v] by simp
    moreover have "wf_json v" "wf_json w"
      using JObj.prems b v that by (auto simp: list_all_iff)
    moreover have "(k, v) \<in> set xs" by (rule v)
    ultimately show ?thesis using JObj.IH[OF v, of v w] mx by simp
  qed
  then show ?case unfolding b py_eq_JObj using len by simp
next
  case (JBool x)
  then show ?case by (cases b) auto
next
  case (JInt x)
  then show ?case by (cases b) auto
next
  case (JFloat x)
  then show ?case by (cases b) auto
qed auto

lemma py_eq_trans: "py_eq a b \<Longrightarrow> py_eq b c \<Longrightarrow> py_eq a c"
proof (induction a arbitrary: b c)
  case (JArr xs)
  from JArr.prems(1) obtain ys where b: "b = JArr ys" and xy: "list_all2 py_eq xs ys"
    by (cases b) simp_all
  from JArr.prems(2) b obtain zs where c: "c = JArr zs" and yz: "list_all2 py_eq ys zs"
    by (cases c) simp_all
  have "list_all2 py_eq xs zs"
    using xy yz JArr.IH by (simp add: list_all2_conv_all_nth) (metis nth_mem)
  then show ?case using c by simp
next
  case (JObj xs)
  from JObj.prems(1)[unfolded py_eq_JObj] obtain ys where b: "b = JObj ys"
    and len: "length xs = length ys"
    and xy: "\<And>k v. (k, v) \<in> set xs \<Longrightarrow> \<exists>w. map_of ys k = Some w \<and> py_eq v w" by blast
  from JObj.prems(2)[unfolded b py_eq_JObj] obtain zs where c: "c = JObj zs"
    and len': "length ys = length zs"
    and yz: "\<And>k v. (k, v) \<in> set ys \<Longrightarrow> \<exists>w. map_of zs k = Some w \<and> py_eq v w" by blast
  have "\<exists>w. map_of zs k = Some w \<and> py_eq v w" if kv: "(k, v) \<in> set xs" for k v
  proof -
    from xy[OF kv] obtain u where u: "map_of ys k = Some u" "py_eq v u" by blast
    from yz[OF map_of_SomeD[OF u(1)]] obtain w where w: "map_of zs k = Some w" "py_eq u w" by blast
    from JObj.IH[OF kv, of v u w] u w show ?thesis by simp
  qed
  then show ?case unfolding c py_eq_JObj using len len' by simp
next
  case (JBool x)
  then show ?case by (cases b; cases c) auto
next
  case (JInt x)
  then show ?case by (cases b; cases c) auto
next
  case (JFloat x)
  then show ?case by (cases b; cases c) auto
qed auto

lemma same_value_sym: "wf_json a \<Longrightarrow> wf_json b \<Longrightarrow> same_value a b \<Longrightarrow> same_value b a"
  by (simp add: same_value_def py_eq_sym)

lemma same_value_trans: "same_value a b \<Longrightarrow> same_value b c \<Longrightarrow> same_value a c"
  unfolding same_value_def by (metis py_eq_trans)

section \<open>Selections compared without their order\<close>

lemma remove_match_Some:
  "remove_match v cs = Some rest \<Longrightarrow> \<exists>c. same_value v c \<and> mset cs = add_mset c (mset rest)"
  by (induction cs arbitrary: rest) (auto split: if_splits)

lemma remove_match_None: "remove_match v cs = None \<longleftrightarrow> (\<forall>c\<in>set cs. \<not> same_value v c)"
  by (induction cs) auto

lemma match_all_sound:
  "match_all vs cs \<Longrightarrow> \<exists>ys. mset ys = mset cs \<and> list_all2 same_value vs ys"
proof (induction vs arbitrary: cs)
  case Nil
  then show ?case by simp
next
  case (Cons v vs)
  then obtain rest where r: "remove_match v cs = Some rest" and m: "match_all vs rest"
    by (auto split: option.splits)
  from Cons.IH[OF m] obtain ys where ys: "mset ys = mset rest" "list_all2 same_value vs ys" by auto
  from remove_match_Some[OF r] obtain c where "same_value v c" "mset cs = add_mset c (mset rest)"
    by auto
  with ys show ?case by (intro exI[of _ "c # ys"]) simp
qed

lemma exchange:
  assumes "list_all2 same_value vs (as @ c # bs)" and "same_value c y"
  shows "list_all2 same_value vs (as @ y # bs)"
proof -
  from assms(1) obtain us v ws where vs: "vs = us @ v # ws" and "list_all2 same_value us as"
    "list_all2 same_value ws bs" and "same_value v c"
    by (auto simp: list_all2_append2 list_all2_Cons2)
  with same_value_trans[OF _ assms(2)] show ?thesis
    by (simp add: list_all2_appendI)
qed

lemma match_all_complete:
  "\<lbrakk>mset ys = mset cs; list_all2 same_value vs ys; list_all wf_json vs; list_all wf_json cs\<rbrakk>
     \<Longrightarrow> match_all vs cs"
proof (induction vs arbitrary: ys cs)
  case Nil
  then show ?case by simp
next
  case (Cons v vs)
  from Cons.prems(2) obtain y zs where ys: "ys = y # zs" and vy: "same_value v y"
    and zs: "list_all2 same_value vs zs"
    by (auto simp: list_all2_Cons1)
  have wf: "\<And>c. c \<in> set cs \<Longrightarrow> wf_json c" using Cons.prems(4) by (simp add: list_all_iff)
  have "set cs = insert y (set zs)" using mset_eq_setD[OF Cons.prems(1)] ys by simp
  then obtain rest where r: "remove_match v cs = Some rest"
    using vy remove_match_None[of v cs] by (cases "remove_match v cs") auto
  obtain c where vc: "same_value v c" and cs: "mset cs = add_mset c (mset rest)"
    using remove_match_Some[OF r] by auto
  have c_in: "c \<in> set cs" using cs by (metis set_mset_mset union_single_eq_member)
  have "\<exists>ws. mset ws = mset rest \<and> list_all2 same_value vs ws"
  proof (cases "c = y")
    case True
    then show ?thesis using cs ys zs Cons.prems(1) by auto
  next
    case False
    have "add_mset y (mset zs) = add_mset c (mset rest)" using cs ys Cons.prems(1) by simp
    then have "c \<in> set zs" using False
      by (metis add_eq_conv_ex set_mset_mset union_single_eq_member)
    then obtain as bs where split: "zs = as @ c # bs" by (meson split_list)
    have "same_value c y"
      using same_value_trans[OF same_value_sym[OF _ _ vc] vy] wf[OF c_in] Cons.prems(3) by simp
    then have "list_all2 same_value vs (as @ y # bs)"
      using zs split exchange by blast
    moreover have "mset (as @ y # bs) = mset rest"
      using cs ys split Cons.prems(1) by (simp add: ac_simps)
    ultimately show ?thesis by blast
  qed
  then obtain ws where ws: "mset ws = mset rest" "list_all2 same_value vs ws" by auto
  have "list_all wf_json rest"
    using wf cs by (metis list_all_iff mset_eq_setD mset.simps(2) set_subset_Cons subsetD)
  with Cons.IH[OF ws] Cons.prems(3) r show ?case by simp
qed

text \<open>
  C38. The greedy comparison of two selections answers yes exactly if one is a permutation of
  the other up to values of the same type that are equal: no order of the elements and no
  choice of partners makes a difference.
\<close>

theorem selection_comparison_is_permutation:
  assumes "list_all wf_json left" and "list_all wf_json right"
  shows "same_value_multiset left right \<longleftrightarrow>
    (\<exists>ys. mset ys = mset right \<and> list_all2 same_value left ys)"
proof
  assume "same_value_multiset left right"
  then show "\<exists>ys. mset ys = mset right \<and> list_all2 same_value left ys"
    using match_all_sound by (simp add: same_value_multiset_def)
next
  assume "\<exists>ys. mset ys = mset right \<and> list_all2 same_value left ys"
  then obtain ys where ys: "mset ys = mset right" "list_all2 same_value left ys" by auto
  then have "length left = length right"
    by (metis list_all2_lengthD mset_eq_length)
  then show "same_value_multiset left right"
    using match_all_complete[OF ys assms] by (simp add: same_value_multiset_def)
qed

section \<open>Answers to a packet\<close>

lemma keys_dupdate: "fst ` set (dupdate d patch) = fst ` set d \<union> fst ` set patch"
  unfolding dupdate_def
proof (induction patch arbitrary: d)
  case (Cons p patch)
  have "fst ` set (dput (fst p) (snd p) d) = insert (fst p) (fst ` set d)"
    by (simp add: dom_map_of_conv_image_fst[symmetric])
  then show ?case using Cons by (cases p) simp
qed simp

lemma dupdate_distinct: "distinct (map fst (d @ p)) \<Longrightarrow> dupdate d p = d @ p"
  unfolding dupdate_def
proof (induction p arbitrary: d)
  case (Cons x p)
  then have "\<not> has_key d (fst x)" by (auto simp: has_key_iff)
  then have "dput (fst x) (snd x) d = d @ [x]" by (simp add: dput_fresh)
  then show ?case using Cons by (cases x) simp
qed simp

lemma length_answer_by_id: "length (answer_by_id answers) = card (fst ` set answers)"
proof -
  have "distinct (map fst (answer_by_id answers))" by (simp add: answer_by_id_def)
  then have "length (answer_by_id answers) = card (fst ` set (answer_by_id answers))"
    by (metis distinct_card length_map set_map)
  then show ?thesis by (simp add: answer_by_id_def keys_dupdate)
qed

lemma answers_distinct:
  "length answers = length (answer_by_id answers) \<longleftrightarrow> distinct (map fst answers)"
  by (metis card_distinct distinct_card length_answer_by_id length_map set_map)

lemma answer_by_id_id: "distinct (map fst answers) \<Longrightarrow> answer_by_id answers = answers"
  by (simp add: answer_by_id_def dupdate_distinct)

lemma keys_answer_by_id: "fst ` set (answer_by_id answers) = fst ` set answers"
  by (simp add: answer_by_id_def keys_dupdate)

text \<open>A list of selections within the bounds of the question and among its options.\<close>

definition admits :: "jdict \<Rightarrow> json list \<Rightarrow> bool" where
  "admits q vs \<longleftrightarrow>
     (\<exists>low high options.
        py_int (dget_or q ''min_selections'' (JInt 1)) = Inr low \<and>
        py_int (dget_or q ''max_selections'' (JInt 1)) = Inr high \<and>
        dicts (py_or (dget q ''options'') (JArr [])) = Inr options \<and>
        low \<le> int (length vs) \<and> int (length vs) \<le> high \<and>
        (options \<noteq> [] \<longrightarrow> (\<forall>v\<in>set vs. \<exists>opt\<in>set options. same_value v (dget opt ''value''))))"

inductive admissible :: "jdict \<Rightarrow> json \<Rightarrow> bool" where
  scalar: "\<lbrakk>selection_mode q \<noteq> JStr ''MULTIPLE''; type_of v \<noteq> TList; admits q [v]\<rbrakk> \<Longrightarrow> admissible q v"
| multiple: "\<lbrakk>selection_mode q = JStr ''MULTIPLE''; admits q vs\<rbrakk> \<Longrightarrow> admissible q (JArr vs)"

inductive_cases admissible_elim: "admissible q v"

lemma selections_Inr:
  "selections q v = Inr vs \<longleftrightarrow>
     (if selection_mode q = JStr ''MULTIPLE'' then v = JArr vs else type_of v \<noteq> TList \<and> vs = [v])"
  by (cases v) (auto simp: selections_def)

lemma check_answer_Inr:
  "check_answer q v = Inr u \<longleftrightarrow> (\<exists>vs. selections q v = Inr vs \<and> admits q vs)"
  by (auto simp: check_answer_def exn_bind_Inr admits_def offered_def list_all_iff list_ex_iff
      split: if_splits)

lemma check_answer_admissible: "check_answer q v = Inr u \<longleftrightarrow> admissible q v"
  unfolding check_answer_Inr selections_Inr
  by (auto intro: admissible.intros elim: admissible_elim)

lemma check_answers_Inr:
  "traverse question_id qs = Inr ids \<Longrightarrow>
   check_answers answers qs = Inr u \<longleftrightarrow>
     (\<forall>(i, q)\<in>set (zip ids qs). \<exists>v. item_of answers i = Inr v \<and> admissible q v)"
  by (induction qs arbitrary: ids) (auto simp: exn_bind_Inr check_answer_admissible)

lemma item_of_Inr: "item_of d k = Inr v \<longleftrightarrow> map_of d k = Some v"
  by (simp add: item_of_def split: option.splits)

text \<open>
  An answer is accepted exactly if it is complete and every value is admissible: it names
  every question of the packet once and no other, a question with several selections gets a list
  and every other one a single value, their number is within the bounds of the question, and each
  is one of the offered options if there are any. The accepted answers are returned unchanged.
\<close>

theorem packet_answer_exact:
  assumes "questions_of packet = Inr qs" and "traverse question_id qs = Inr ids"
  shows "validate_packet_answers packet answers = Inr a \<longleftrightarrow>
    a = answers \<and> distinct (map fst answers) \<and> set (map fst answers) = set ids \<and>
    (\<forall>(i, q)\<in>set (zip ids qs). \<exists>v. (i, v) \<in> set answers \<and> admissible q v)"
proof -
  have guard: "length answers = length (answer_by_id answers) \<and>
      length (answer_by_id answers) = length (remdups ids) \<and>
      fst ` set (answer_by_id answers) = set (remdups ids)
      \<longleftrightarrow> distinct (map fst answers) \<and> set (map fst answers) = set ids" (is "?G \<longleftrightarrow> ?H")
  proof -
    have "distinct (map fst answers) \<longleftrightarrow> length answers = card (fst ` set answers)"
      using answers_distinct by (simp add: length_answer_by_id)
    then show ?thesis
      by (auto simp: keys_answer_by_id length_answer_by_id length_remdups_card_conv)
  qed
  show ?thesis
  proof (cases ?G)
    case True
    then have "distinct (map fst answers)" and "set (map fst answers) = set ids" using guard by auto
    then show ?thesis
      using True by (auto simp: validate_packet_answers_def assms Let_def exn_bind_Inr
          check_answers_Inr[OF assms(2)] answer_by_id_id item_of_Inr)
  next
    case False
    then have "\<not> ?H" using guard by blast
    moreover have "validate_packet_answers packet answers \<noteq> Inr a"
      using False by (auto simp: validate_packet_answers_def assms Let_def)
    ultimately show ?thesis by blast
  qed
qed

end
