(* ===== verification/Workflow_Laws.thy ===== *)
theory Workflow_Laws
  imports Workflow Store_Laws Rules_Laws
begin

text \<open>
  The workflow service as a client of the store: the operations that it calls as the locale
  \<open>store_client\<close>, in which it is proved once that a property every one of them keeps survives every
  request; the interpretations, of which the main one says that a request is a sequence of store
  operations; and what the theorems on the store give for requests.
\<close>

section \<open>Computations on the world\<close>

abbreviation on_store :: "(store \<Rightarrow> bool) \<Rightarrow> world \<Rightarrow> bool" where
  "on_store P w \<equiv> P (w_store w)"

lemma post_in_store [simp]: "w_store (post (in_store m) w) = post m (w_store w)"
  by (simp add: in_store_def case_prod_beta)

lemma keeps_in_store: "keeps P m \<Longrightarrow> keeps (on_store P) (in_store m)"
  by (simp add: keeps_def)

lemma keeps_in_files: "keeps (on_store P) (in_files m)"
  by (simp add: keeps_def in_files_def case_prod_beta)

lemma keeps_clock:
  "keeps (on_store P) (utcnow sv)" "keeps (on_store P) (random_hex sv)" "keeps (on_store P) (iso_in sv n)"
  "keeps (on_store P) (iso_now sv)" "keeps (on_store P) (now_stages sv a b c)"
  by (simp_all add: keeps_def utcnow_def random_hex_def iso_now_def iso_in_def now_stages_def py_run)

lemma keeps_except: "keeps P m \<Longrightarrow> keeps P (except h m)"
  by (auto simp: keeps_def except_def split: prod.split sum.split)

lemma keeps_as_unit: "keeps P m \<Longrightarrow> keeps P (as_unit m)"
  unfolding as_unit_def by (rule keeps_seq) auto

lemma keeps_seq_lift: "(\<And>x. r = Inr x \<Longrightarrow> keeps P (f x)) \<Longrightarrow> keeps P (seq (lift r) f)"
  by (cases r) (auto simp: keeps_def py_run)

lemma keeps_pure_store: "pure_read m \<Longrightarrow> keeps (on_store P) (in_store m)"
  by (rule keeps_in_store) (rule pure_read_keeps)

text \<open>The reads of the store.\<close>

lemma pure_store_reads:
  "pure_read (get_run r)" "pure_read list_runs" "pure_read (get_dataset_version v)"
  "pure_read (get_command c)" "pure_read (get_artifact a)" "pure_read (get_result r)"
  "pure_read (get_output r i)" "pure_read (list_outputs r)" "pure_read (list_decision_packets r)"
  "pure_read (get_decision_packet_by_wait_set r ws)" "pure_read (get_events r n l ts)"
  "pure_read (list_webhook_endpoints t)" "pure_read (list_dataset_versions d)" "pure_read (list_artifacts r')"
  unfolding get_run_def list_runs_def get_dataset_version_def get_command_def get_artifact_def get_result_def
    get_output_def list_outputs_def list_decision_packets_def get_decision_packet_by_wait_set_def
    get_events_def list_webhook_endpoints_def list_dataset_versions_def list_artifacts_def
    list_where_def list_of_def get_locked_def
  by (intro pure_read_seq pure_read_basic pure_require)+

lemma pure_rules:
  "pure_read (enforce_dataset_limits l p v)" "pure_read (enforce_run_limits f l p v)"
  "pure_read (resolve_run_webhooks env p v)"
  unfolding enforce_dataset_limits_def enforce_run_limits_def tenant_storage_bytes_def
    tenant_active_run_count_def resolve_run_webhooks_def Let_def
  by (auto intro!: pure_read_seq pure_store_reads split: option.split)

text \<open>
  \<open>gives Q P m\<close>: the computation keeps \<open>P\<close>, and what it returns satisfies \<open>Q\<close>.
\<close>

definition gives :: "('a \<Rightarrow> bool) \<Rightarrow> ('s \<Rightarrow> bool) \<Rightarrow> ('s, 'a) py \<Rightarrow> bool" where
  "gives Q P m \<longleftrightarrow> (\<forall>s. P s \<longrightarrow> P (post m s) \<and> (\<forall>x. fst (m s) = Inr x \<longrightarrow> Q x))"

lemma gives_keeps: "gives Q P m \<Longrightarrow> keeps P m"
  by (simp add: gives_def keeps_def)

lemma gives_triple: "gives Q P m \<longleftrightarrow> triple P m (\<lambda>x s. P s \<and> Q x) P"
  by (simp add: gives_def triple_def case_prod_beta split: sum.split) (metis sum.exhaust)

lemma gives_seq: "gives Q P m \<Longrightarrow> (\<And>x. Q x \<Longrightarrow> gives Q' P (f x)) \<Longrightarrow> gives Q' P (seq m f)"
  unfolding gives_def seq_def by (auto split: prod.splits sum.splits)

lemma keeps_seq_gives: "gives Q P m \<Longrightarrow> (\<And>x. Q x \<Longrightarrow> keeps P (f x)) \<Longrightarrow> keeps P (seq m f)"
  unfolding gives_def keeps_def seq_def by (auto split: prod.splits sum.splits)

lemma gives_seq_keeps: "keeps P m \<Longrightarrow> (\<And>x. gives Q P (f x)) \<Longrightarrow> gives Q P (seq m f)"
  unfolding gives_def keeps_def seq_def by (auto split: prod.splits sum.splits)

lemma gives_seq_lift: "(\<And>x. r = Inr x \<Longrightarrow> gives Q P (f x)) \<Longrightarrow> gives Q P (seq (lift r) f)"
  by (cases r) (auto simp: gives_def py_run)

lemma gives_ret: "Q x \<Longrightarrow> gives Q P (ret x)"
  by (simp add: gives_def py_run)

lemma gives_raise: "gives Q P (raise e)"
  by (simp add: gives_def py_run)

lemma gives_in_store: "gives Q P m \<Longrightarrow> gives Q (on_store P) (in_store m)"
  by (simp add: gives_def in_store_def case_prod_beta)

section \<open>The contract\<close>

definition drawn :: "store \<Rightarrow> string \<Rightarrow> bool" where
  "drawn s eid \<longleftrightarrow> (\<exists>s0. new_id ''event'' s0 = (Inr eid, s))"

text \<open>The run that a dictionary stands for is one of \<open>R\<close>.\<close>

definition run_in :: "string set \<Rightarrow> jdict \<Rightarrow> bool" where
  "run_in R run \<longleftrightarrow> (\<forall>r. string_of run ''run_id'' = Inr r \<longrightarrow> r \<in> R)"

text \<open>The run whose state a request is to change.\<close>

fun addressed :: "workflow_op \<Rightarrow> string set" where
  "addressed (W_Answer r ws n a) = {r}"
| "addressed (W_Pause r n) = {r}"
| "addressed (W_Resume r n) = {r}"
| "addressed (W_Cancel r) = {r}"
| "addressed _ = {}"

text \<open>
  The operations of the store that the service calls keep \<open>I\<close>, where those that change a run are
  called for runs of \<open>R\<close>; what they return as the run is one of \<open>R\<close> again.
\<close>

locale store_client =
  fixes env :: py_env and R :: "string set" and I :: "store \<Rightarrow> bool"
  assumes new_id_kept: "keeps I (new_id kind)"
    and datasets_kept: "keeps I (create_dataset_with_version d v)"
      "distinct (map fst u) \<Longrightarrow> keeps I (update_dataset_version k u)"
    and create_run_gives:
      "dget_or value ''snapshot_seq'' (JInt 0) = JInt 0 \<Longrightarrow> gives (run_in R) I (create_run value)"
    and get_run_gives: "r \<in> R \<Longrightarrow> gives (\<lambda>found. \<forall>run. found = Some run \<longrightarrow> run_in R run) I (get_run r)"
    and update_run_gives: "r \<in> R \<Longrightarrow> gives (run_in R) I (update_run r u e b)"
    and append_event_kept:
      "r \<in> R \<Longrightarrow> I s \<Longrightarrow> drawn s eid \<Longrightarrow> I (post (append_event env r ((''event_id'', JStr eid) # v)) s)"
    and finalize_gives:
      "r \<in> R \<Longrightarrow> list_all (\<lambda>v. map_of v ''event_id'' = None) vs \<Longrightarrow>
         gives (\<lambda>(run, _, _). run_in R run) I (finalize_run_with_result env r result u vs e)"
    and outputs_kept: "keeps I (create_output r v)"
    and packets_kept: "keeps I (create_decision_packet r v)"
      "distinct (map fst u) \<Longrightarrow> keeps I (update_decision_packet r k u)"
    and commands_kept: "keeps I (create_command env v)" "keeps I (update_command k u)"
    and artifacts_kept: "keeps I (create_artifact env v)" "keeps I (update_artifact k u)"
begin

lemmas store_kept =
  new_id_kept datasets_kept outputs_kept packets_kept commands_kept artifacts_kept

lemmas kept_rules =
  keeps_seq_lift keeps_seq keeps_basic keeps_clock keeps_in_files keeps_except keeps_in_store
  pure_store_reads [THEN pure_read_keeps] pure_rules [THEN pure_read_keeps] store_kept

lemmas run_gives =
  gives_in_store [OF create_run_gives] gives_in_store [OF update_run_gives] gives_in_store [OF finalize_gives]
  gives_in_store [OF get_run_gives]

lemma owned_kept:
  "keeps (on_store I) (owned_run p r)" "keeps (on_store I) (owned_version p v)" "keeps (on_store I) (owned_artifact p a)"
  unfolding owned_run_def owned_version_def owned_artifact_def by (intro kept_rules)+

lemma emit_gives:
  assumes env: "sv_env sv = env" and run: "run_in R run"
  shows "gives (run_in R) (on_store I) (emit sv run event_type payload)"
proof -
  let ?J = "\<lambda>eid w. I (w_store w) \<and> drawn (w_store w) eid"
  let ?Q = "\<lambda>r w. I (w_store w) \<and> run_in R r"
  have draw: "triple (on_store I) (in_store (new_id ''event'')) ?J (on_store I)"
    using new_id_kept [of "''event''"]
    by (fastforce simp: triple_def in_store_def keeps_def drawn_def split: prod.split sum.split)
  have pass: "triple (?J eid) (lift r) (\<lambda>_. ?J eid) (on_store I)"
    "triple (?J eid) (iso_now sv) (\<lambda>_. ?J eid) (on_store I)" for eid and r :: "exn + 'c"
    by (auto simp: triple_def py_run iso_now_def iso_in_def utcnow_def split: sum.split)
  have rest: "triple (on_store I) (seq (lift (item_of event ''seq'')) (\<lambda>seq_no.
     seq (iso_now sv) (\<lambda>now.
       in_store (update_run run_id [(''snapshot_seq'', seq_no), (''updated_at'', JStr now)] None False))))
     ?Q (on_store I)" if "run_id \<in> R" for event run_id
    unfolding gives_triple [symmetric] by (intro gives_seq_lift gives_seq_keeps keeps_clock run_gives that)
  have append: "triple (?J eid) (in_store (append_event env run_id ((''event_id'', JStr eid) # value)))
     (\<lambda>_. on_store I) (on_store I)" if "run_id \<in> R" for eid run_id "value"
    using append_event_kept [OF that] by (auto simp: triple_def in_store_def case_prod_beta split: sum.split)
  show ?thesis
    unfolding emit_def env
  proof (rule gives_seq_lift, unfold gives_triple)
    fix r assume "string_of run ''run_id'' = Inr r"
    then have r: "r \<in> R" using run by (simp add: run_in_def)
    show "triple (on_store I) (seq (in_store (new_id ''event'')) (\<lambda>event_id.
     seq (lift (int_of run ''snapshot_seq'')) (\<lambda>snapshot_seq.
     seq (lift (item_of run ''run_revision'')) (\<lambda>run_revision.
     seq (iso_now sv) (\<lambda>occurred_at.
     seq (in_store (append_event env r
            [(''event_id'', JStr event_id), (''run_id'', JStr r), (''seq'', JInt (snapshot_seq + 1)),
             (''run_revision'', run_revision), (''schema_version'', JStr ''1.0''),
             (''occurred_at'', JStr occurred_at), (''type'', JStr event_type), (''payload'', JObj payload),
             (''links'', JObj [(''run'', JStr (run_href r))])])) (\<lambda>event.
     seq (lift (item_of event ''seq'')) (\<lambda>seq_no.
     seq (iso_now sv) (\<lambda>now.
       in_store (update_run r [(''snapshot_seq'', seq_no), (''updated_at'', JStr now)] None False)))))))))
     ?Q (on_store I)"
      by (rule triple_seq, rule draw, rule triple_seq, rule pass(1), rule triple_seq, rule pass(1), rule triple_seq,
        rule pass(2), rule triple_seq, rule append, rule r, rule rest, rule r)
  qed
qed

lemma complete_stage_gives:
  assumes env: "sv_env sv = env" and run: "run_in R run"
  shows "gives (run_in R) (on_store I) (complete_stage sv run phase next_phase refs ready reason)"
  unfolding complete_stage_def env
proof (rule gives_seq_lift)
  fix r assume "string_of run ''run_id'' = Inr r"
  then have r: "r \<in> R" using run by (simp add: run_in_def)
  show "gives (run_in R) (on_store I) (seq (in_store (get_events r 0 None (Some [''run.stage_completed.v1'']))) (\<lambda>existing.
     seq (lift (stage_completed phase existing)) (\<lambda>finished.
     if finished
     then seq (in_store (get_run r)) (\<lambda>current.
            ret (case current of None \<Rightarrow> run | Some r \<Rightarrow> if r = [] then run else r))
     else seq (iso_now sv) (\<lambda>completed_at.
          case map_of progress_by_phase phase of
            None \<Rightarrow> raise (KeyError phase)
          | Some percent \<Rightarrow>
              emit sv run ''run.stage_completed.v1''
                [(''phase'', JStr phase), (''status'', JStr ''COMPLETED''), (''completed_at'', JStr completed_at),
                 (''progress_percent'', JFloat percent), (''output_refs'', JArr refs),
                 (''next_phase'', optional_str next_phase),
                 (''next_stage_ready'', JBool (case ready of None \<Rightarrow> next_phase \<noteq> None | Some b \<Rightarrow> b)),
                 (''reason'', optional_str reason)]))))"
    by (rule gives_seq_keeps, intro kept_rules, rule gives_seq_lift)
       (auto intro!: gives_seq [OF run_gives(4) [OF r]] gives_seq_keeps keeps_clock gives_ret gives_raise
          emit_gives [OF env run] run split: option.split)
qed

lemma commit_output_with_gives:
  assumes env: "sv_env sv = env" and run: "run_in R run"
  shows "gives (\<lambda>(output, run). run_in R run) (on_store I)
    (commit_output_with sv run output_type phase summary payload artifact_refs lineage)"
proof -
  have r: "r \<in> R" if "string_of run ''run_id'' = Inr r" for r using run that by (simp add: run_in_def)
  show ?thesis
    unfolding commit_output_with_def env
    apply (rule gives_seq_keeps, intro kept_rules)
    apply (rule gives_seq_lift)+
    apply (rule gives_seq_keeps, rule keeps_clock)
    apply (rule gives_seq_keeps, intro kept_rules)
    apply (rule gives_seq_lift)
    apply (rule gives_seq, rule emit_gives [OF env run])
    apply (rule gives_seq_lift)
    apply (rule gives_seq, rule run_gives(2), erule r)
    apply (rule gives_ret, simp)
    done
qed

lemma commit_output_gives:
  assumes env: "sv_env sv = env" and run: "run_in R run"
  shows "gives (\<lambda>(output, run). run_in R run) (on_store I)
    (commit_output sv run output_type phase summary payload artifact_refs)"
  unfolding commit_output_def by (rule commit_output_with_gives [OF assms])

lemma command_kept:
  assumes "sv_env sv = env"
  shows "keeps (on_store I) (new_command sv p r ct)" and "keeps (on_store I) (finish_command sv r command run')"
  unfolding new_command_def finish_command_def assms by (intro kept_rules)+

lemma initial_run_fresh:
  "initial_run p req run_id now v st usage b c es = Inr d \<Longrightarrow> dget_or d ''snapshot_seq'' (JInt 0) = JInt 0"
  by (auto simp: initial_run_def exn_bind_Inr dget_or_def)

lemma admit_run_gives:
  assumes env: "sv_env sv = env"
  shows "gives (run_in R) (on_store I) (admit_run sv p req)"
  unfolding admit_run_def env
  by (auto intro!: gives_seq_lift gives_seq_keeps kept_rules owned_kept run_gives(1) dest: initial_run_fresh
      split: prod.split)

lemma ingest_and_profile_gives:
  assumes env: "sv_env sv = env" and "r \<in> R"
  shows "gives (\<lambda>(output, run). run_in R run) (on_store I) (ingest_and_profile sv r)"
  unfolding ingest_and_profile_def env
  apply (rule gives_seq_keeps, rule keeps_clock, rule gives_seq_keeps, rule keeps_clock)
  apply (rule gives_seq, rule run_gives(2), rule assms)
  apply (rule gives_seq, erule complete_stage_gives [OF env])
  apply (rule gives_seq, erule emit_gives [OF env])
  apply (rule gives_seq, erule commit_output_gives [OF env])
  apply (clarsimp, rule gives_seq_lift)
  apply (rule gives_seq, erule complete_stage_gives [OF env])
  apply (rule gives_ret, simp)
  done

lemma ask_for_target_kept:
  assumes env: "sv_env sv = env" and r: "r \<in> R"
  shows "keeps (on_store I) (ask_for_target sv p r output run)"
  unfolding ask_for_target_def env
  apply (rule keeps_seq, intro kept_rules, rule keeps_seq, intro kept_rules, rule keeps_seq, rule keeps_clock)
  apply (rule keeps_seq_lift, rule keeps_seq, rule keeps_clock, rule keeps_seq_lift)
  apply (rule keeps_seq_gives, rule run_gives(2), rule r)
  apply (rule keeps_seq_lift)+
  apply (rule keeps_seq, rule keeps_clock, rule keeps_seq, rule keeps_clock, rule keeps_seq, intro kept_rules)
  apply (rule keeps_seq_gives, erule emit_gives [OF env])
  apply (rule keeps_seq_lift)+
  apply (rule gives_keeps, erule emit_gives [OF env])
  done

lemma create_run_request_kept:
  assumes env: "sv_env sv = env"
  shows "keeps (on_store I) (svc_create_run sv p req)"
  unfolding svc_create_run_def
proof (rule keeps_seq_gives, rule admit_run_gives [OF env], rule keeps_seq_lift)
  fix run r assume "run_in R run" and "string_of run ''run_id'' = Inr r"
  then have r: "r \<in> R" by (simp add: run_in_def)
  show "keeps (on_store I) (seq (ingest_and_profile sv r) (\<lambda>(quality_output, run).
     seq (ask_for_target sv p r quality_output run) (\<lambda>run. ret (public_run run))))"
    by (rule keeps_seq_gives, rule ingest_and_profile_gives [OF env r])
       (auto intro!: keeps_seq ask_for_target_kept [OF env r])
qed

lemma dataset_requests_kept:
  assumes "sv_env sv = env"
  shows "keeps (on_store I) (svc_create_dataset sv p r b)"
    and "keeps (on_store I) (sign_upload_parts sv p v r b)"
    and "keeps (on_store I) (svc_put_upload_part sv p v u n cs)"
    and "keeps (on_store I) (finalize_dataset sv p v r)"
  unfolding svc_create_dataset_def sign_upload_parts_def svc_put_upload_part_def finalize_dataset_def
  by (auto intro!: kept_rules owned_kept split: prod.split json.split)

lemma accept_answer_gives:
  assumes env: "sv_env sv = env" and r: "r \<in> R"
  shows "gives (run_in R) (on_store I) (accept_answer sv r n packet run)"
  unfolding accept_answer_def env
  apply (rule gives_seq_lift, rule gives_seq_keeps, intro kept_rules, simp)
  apply (rule gives_seq_keeps, rule keeps_clock, rule gives_seq_lift)
  apply (rule gives_seq, rule run_gives(2), rule r)
  apply (erule emit_gives [OF env])
  done

lemma commit_task_spec_gives:
  assumes "sv_env sv = env" and "run_in R run"
  shows "gives (\<lambda>(output, run). run_in R run) (on_store I) (commit_task_spec sv run column)"
  unfolding commit_task_spec_def
  by (auto intro!: commit_output_gives gives_raise assms split: json.split)

lemma commit_report_gives:
  assumes env: "sv_env sv = env" and run: "run_in R run"
  shows "gives (\<lambda>(output, run). run_in R run) (on_store I) (commit_report sv p r task_output run)"
  unfolding commit_report_def env
  apply (rule gives_seq_keeps, intro kept_rules, rule gives_seq_keeps, intro kept_rules)
  apply (rule gives_seq_keeps, rule keeps_clock)
  apply (rule gives_seq_lift)+
  apply (rule gives_seq_keeps, intro kept_rules, rule gives_seq_lift)
  apply (rule gives_seq, rule commit_output_gives [OF env run])
  apply (clarsimp, rule gives_seq_lift, rule gives_seq_keeps, intro kept_rules)
  apply (rule gives_ret, simp)
  done

lemma complete_run_kept:
  assumes env: "sv_env sv = env" and r: "r \<in> R"
  shows "keeps (on_store I) (complete_run sv r task_output report_output run)"
  unfolding complete_run_def env
  by (auto intro!: kept_rules finalize_gives [THEN gives_keeps] r split: prod.split
      simp: completion_events_def stage_event_def run_event_def)

lemma check_answer_kept: "keeps (on_store I) (check_answer_request p r ws n a)"
  unfolding check_answer_request_def by (auto intro!: kept_rules owned_kept split: json.split)

lemma answer_kept:
  assumes env: "sv_env sv = env" and r: "r \<in> R"
  shows "keeps (on_store I) (answer sv p r ws n a)"
  unfolding answer_def
  apply (rule keeps_seq, rule check_answer_kept, clarsimp)
  apply (rule keeps_seq, rule command_kept [OF env])
  apply (rule keeps_seq_gives, rule accept_answer_gives [OF env r])
  apply (rule keeps_seq_gives, erule commit_task_spec_gives [OF env], clarsimp)
  apply (rule keeps_seq_gives, erule commit_report_gives [OF env], clarsimp)
  apply (rule keeps_seq, rule complete_run_kept [OF env r], rule command_kept [OF env])
  done

lemma switch_run_kept:
  assumes env: "sv_env sv = env" and r: "r \<in> R"
  shows "keeps (on_store I) (switch_run sv r run new_status actions)"
  unfolding switch_run_def env
  apply (rule keeps_seq_lift, rule keeps_seq_lift, rule keeps_seq, rule keeps_clock, rule keeps_seq_lift)
  apply (rule keeps_seq_gives, rule run_gives(2), rule r, rule keeps_seq_lift)
  apply (rule gives_keeps, erule emit_gives [OF env])
  done

lemma cancel_run_kept:
  assumes env: "sv_env sv = env" and r: "r \<in> R"
  shows "keeps (on_store I) (cancel_run sv r run)"
  unfolding cancel_run_def supersede_def env
  by (auto intro!: kept_rules keeps_each finalize_gives [THEN gives_keeps] r split: prod.split simp: run_event_def)

lemma control_kept:
  assumes env: "sv_env sv = env" and r: "r \<in> R"
  shows "keeps (on_store I) (control sv p r ct n)"
  unfolding control_def
  by (auto intro!: kept_rules owned_kept command_kept env switch_run_kept [OF env r] cancel_run_kept [OF env r]
      split: prod.split)

lemma read_requests_kept:
  "keeps (on_store I) (svc_get_run p r)" "keeps (on_store I) (svc_list_runs p)"
  "keeps (on_store I) (svc_list_decision_packets p r st)" "keeps (on_store I) (get_agent_context sv p r n)"
  "keeps (on_store I) (get_agent_actions sv p r)" "keeps (on_store I) (svc_get_command p c)"
  "keeps (on_store I) (svc_get_result p r)" "keeps (on_store I) (svc_list_outputs p r)"
  "keeps (on_store I) (svc_get_output p r i)" "keeps (on_store I) (svc_get_artifact p a)"
  "keeps (on_store I) (create_download_ticket sv p a b)" "keeps (on_store I) (svc_get_dataset_version p v)"
  unfolding svc_get_dataset_version_def svc_get_run_def svc_list_runs_def svc_list_decision_packets_def
    get_agent_context_def get_agent_actions_def svc_get_command_def svc_get_result_def svc_list_outputs_def
    svc_get_output_def svc_get_artifact_def create_download_ticket_def Let_def
  by (auto intro!: kept_rules owned_kept split: option.split)

lemma serve_kept:
  assumes "sv_env sv = env" and "addressed op \<subseteq> R"
  shows "keeps (on_store I) (serve sv p op)"
  using assms(2)
  by (cases op) (simp_all add: keeps_as_unit dataset_requests_kept create_run_request_kept answer_kept
    control_kept read_requests_kept pause_def resume_def cancel_def assms(1))

end

section \<open>Requests as sequences of store operations\<close>

text \<open>What the operations of the store but \<open>reset\<close> make of a store, one after the other.\<close>

inductive store_path :: "py_env \<Rightarrow> store \<Rightarrow> store \<Rightarrow> bool" for env s where
  here: "store_path env s s"
| op: "store_path env s t \<Longrightarrow> op_ok t opr \<Longrightarrow> opr \<noteq> Reset \<Longrightarrow> store_path env s (run_op env opr t)"

lemma drawn_not_ahead: "drawn s eid \<Longrightarrow> not_ahead s eid"
proof -
  have kind: "new_id ''event'' = new_id_locked ''evt''"
    by (rule ext) (simp add: new_id_def Let_def, code_simp)
  have digits: "n \<le> m" if "format_id ''evt'' m = format_id ''evt'' n" for m n
    using that by (simp add: format_id_def)
  assume "drawn s eid"
  then show ?thesis
    by (auto simp: drawn_def kind new_id_locked_def Let_def not_ahead_def counter_def dest!: digits
        split: option.splits)
qed

lemma path_keeps:
  assumes "\<And>t. op_ok t opr" and "opr \<noteq> Reset" and "\<And>t. run_op env opr t = post m t"
  shows "keeps (store_path env s) m"
  using assms by (metis keepsI store_path.op)

lemma gives_any: "keeps P m \<Longrightarrow> (\<And>x. Q x) \<Longrightarrow> gives Q P m"
  by (simp add: gives_def keeps_def)

lemma run_in_UNIV [simp]: "run_in UNIV run"
  by (simp add: run_in_def)

interpretation requests: store_client env UNIV "store_path env s" for env s
proof
  show "keeps (store_path env s) (new_id kind)" for kind
    by (rule path_keeps [of "NewId kind"]) (simp_all add: run_op_def)
  show "keeps (store_path env s) (create_dataset_with_version d v)" for d v
    by (rule path_keeps [of "CreateDatasetWithVersion d v"]) (simp_all add: run_op_def)
  show "keeps (store_path env s) (update_dataset_version k u)" if "distinct (map fst u)" for u k
    by (rule path_keeps [of "UpdateDatasetVersion k u"]) (simp_all add: run_op_def that)
  show "gives (run_in UNIV) (store_path env s) (create_run v)" if "dget_or v ''snapshot_seq'' (JInt 0) = JInt 0" for v
    by (rule gives_any, rule path_keeps [of "CreateRun v"]) (simp_all add: run_op_def that)
  show "gives (\<lambda>found. \<forall>run. found = Some run \<longrightarrow> run_in UNIV run) (store_path env s) (get_run r)" for r
    by (simp add: gives_any pure_read_keeps pure_store_reads)
  show "gives (run_in UNIV) (store_path env s) (update_run r u e b)" for r u e b
    by (rule gives_any, rule path_keeps [of "UpdateRun r u e b"]) (simp_all add: run_op_def)
  show "store_path env s (post (append_event env r ((''event_id'', JStr eid) # v)) t)"
    if "store_path env s t" "drawn t eid" for t eid r v
    using store_path.op [OF that(1), of "AppendEvent r ((''event_id'', JStr eid) # v)"] drawn_not_ahead [OF that(2)]
    by (simp add: run_op_def event_ok_def)
  show "gives (\<lambda>(run, _, _). run_in UNIV run) (store_path env s) (finalize_run_with_result env r result u vs e)"
    if "list_all (\<lambda>v. map_of v ''event_id'' = None) vs" for vs r result u e
  proof (rule gives_any, rule path_keeps [of "FinalizeRunWithResult r result u vs e"])
    show "op_ok t (FinalizeRunWithResult r result u vs e)" for t
      using that by (simp add: list_all_iff event_ok_def)
  qed (simp_all add: run_op_def)
  show "keeps (store_path env s) (create_output r v)" for r v
    by (rule path_keeps [of "CreateOutput r v"]) (simp_all add: run_op_def)
  show "keeps (store_path env s) (create_decision_packet r v)" for r v
    by (rule path_keeps [of "CreateDecisionPacket r v"]) (simp_all add: run_op_def)
  show "keeps (store_path env s) (update_decision_packet r k u)" if "distinct (map fst u)" for u r k
    by (rule path_keeps [of "UpdateDecisionPacket r k u"]) (simp_all add: run_op_def that)
  show "keeps (store_path env s) (create_command env v)" for v
    by (rule path_keeps [of "CreateCommand v"]) (simp_all add: run_op_def)
  show "keeps (store_path env s) (update_command k u)" for k u
    by (rule path_keeps [of "UpdateCommand k u"]) (simp_all add: run_op_def)
  show "keeps (store_path env s) (create_artifact env v)" for v
    by (rule path_keeps [of "CreateArtifact v"]) (simp_all add: run_op_def)
  show "keeps (store_path env s) (update_artifact k u)" for k u
    by (rule path_keeps [of "UpdateArtifact k u"]) (simp_all add: run_op_def)
qed

lemma path_reachable: "store_path env s t \<Longrightarrow> reachable env s \<Longrightarrow> reachable env t"
  by (induction rule: store_path.induct) (auto intro: reachable.step)

lemma path_logs: "store_path env s t \<Longrightarrow> reachable env s \<Longrightarrow> prefix (log_of s r) (log_of t r)"
proof (induction rule: store_path.induct)
  case (op t opr)
  have t: "reachable env t" using op.hyps(1) op.prems by (rule path_reachable)
  have "log_inv t (run_op env opr t)"
    by (rule inv_run_op [OF wf_reachable [OF t] logs_reachable [OF t] op.hyps(2,3)])
  then have "prefix (log_of t r) (log_of (run_op env opr t) r)" by (simp add: log_inv_def logs_extend_def)
  with op.IH [OF op.prems] show ?case by (rule prefix_order.trans)
qed simp

lemma results_kept_trans:
  assumes "results_kept s t" and "results_kept t u" shows "results_kept s u"
  unfolding results_kept_def
proof (intro allI impI)
  fix r x assume "map_of (st_results s) r = Some x"
  with assms(1) obtain y where y: "map_of (st_results t) r = Some y" "y = x \<or> py_eq (JObj x) (JObj y)"
    unfolding results_kept_def by blast
  with assms(2) obtain z where z: "map_of (st_results u) r = Some z" "z = y \<or> py_eq (JObj y) (JObj z)"
    unfolding results_kept_def by blast
  with y(2) py_eq_trans [of "JObj x" "JObj y" "JObj z"] have "z = x \<or> py_eq (JObj x) (JObj z)" by blast
  with z(1) show "\<exists>z. map_of (st_results u) r = Some z \<and> (z = x \<or> py_eq (JObj x) (JObj z))" by blast
qed

lemma ledger_kept_trans: "ledger_kept s t \<Longrightarrow> ledger_kept t u \<Longrightarrow> ledger_kept s u"
  unfolding ledger_kept_def answers_kept_def using results_kept_trans by blast

lemma ledger_kept_refl: "ledger_kept s s"
  by (simp add: ledger_kept_def results_kept_def answers_kept_def)

lemma path_ledger: "store_path env s t \<Longrightarrow> ledger_kept s t"
  by (induction rule: store_path.induct)
     (auto intro: ledger_kept_refl ledger_kept_trans [OF _ run_op_ledger])

lemma serve_path: "store_path (sv_env sv) (w_store w) (w_store (post (serve sv p op) w))"
  by (rule keepsD [OF requests.serve_kept [OF refl subset_UNIV]]) (rule store_path.here)

text \<open>
  A request acts on the store through its operations only. Whatever a request of the service
  does, whether it is answered, refused or fails, the store it leaves is the one that some sequence
  of admissible store operations makes of the store before: the workflow never reaches a state
  that the store could not reach, and never resets it.
\<close>

theorem requests_refine_store_operations:
  "store_path (sv_env sv) (w_store w) (w_store (post (serve sv p op) w))"
  by (rule keepsD [OF requests.serve_kept [OF refl subset_UNIV]]) (rule store_path.here)

text \<open>Requests of any principals, one after the other.\<close>

fun serve_all :: "workflow_service \<Rightarrow> (principal \<times> workflow_op) list \<Rightarrow> world \<Rightarrow> world" where
  "serve_all sv [] w = w"
| "serve_all sv ((p, op) # rs) w = serve_all sv rs (post (serve sv p op) w)"

lemma serve_all_reachable:
  "reachable (sv_env sv) (w_store w) \<Longrightarrow> reachable (sv_env sv) (w_store (serve_all sv rs w))"
  by (induction sv rs w rule: serve_all.induct) (auto intro: path_reachable [OF serve_path])

text \<open>
  C20. The service keeps its data well-typed. However many requests of whatever principals a service
  has served since it started with an empty store, each resource is filed under the identifier it
  carries, each child under its parent, every run has its tables, each version its dataset and each
  result its run; and the event log of each run is numbered from one without a gap, with
  \<open>snapshot_seq\<close> its length.
\<close>

theorem service_keeps_store_well_formed:
  assumes "w_store w = empty_store"
  shows "wf_store (w_store (serve_all sv rs w)) \<and> logs_ok (w_store (serve_all sv rs w))"
proof -
  have "reachable (sv_env sv) (w_store (serve_all sv rs w))"
    by (rule serve_all_reachable) (simp add: assms reachable.start)
  then show ?thesis by (simp add: wf_reachable logs_reachable)
qed

text \<open>
  History is final for the clients of the service. Over any sequence of requests the log of
  every run only grows at its end, a result once stored stays the same, and so does the recorded
  answer of an idempotent request.
\<close>

theorem requests_never_rewrite_history:
  assumes "reachable (sv_env sv) (w_store w)"
  shows "prefix (log_of (w_store w) r) (log_of (w_store (serve_all sv rs w)) r) \<and>
    ledger_kept (w_store w) (w_store (serve_all sv rs w))"
  using assms
proof (induction sv rs w rule: serve_all.induct)
  case (2 sv p op rs w)
  have after: "reachable (sv_env sv) (w_store (post (serve sv p op) w))"
    by (rule path_reachable [OF serve_path 2(2)])
  show ?case
    using 2(1) [OF after] path_logs [OF serve_path 2(2)]
    by (auto intro: prefix_order.trans ledger_kept_trans [OF path_ledger [OF serve_path]])
qed (simp add: ledger_kept_refl)

end
