(* ===== verification/Workflow_Isolation.thy ===== *)
theory Workflow_Isolation
  imports Workflow_Laws
begin

text \<open>
  Isolation: requests that do not address a run leave it as it is (the second interpretation of
  the contract of \<open>Workflow_Laws\<close>), resources of other tenants are invisible, and a finished run
  is final.
\<close>

section \<open>A run is changed by requests that address it only\<close>

text \<open>The run \<open>r\<close> is stored as \<open>run\<close> in a well-formed store.\<close>

definition has_run :: "string \<Rightarrow> jdict \<Rightarrow> store \<Rightarrow> bool" where
  "has_run r run s \<longleftrightarrow> wf_store s \<and> map_of (st_runs s) r = Some run"

definition run_as :: "string \<Rightarrow> jdict \<Rightarrow> store \<Rightarrow> bool" where
  "run_as r run s \<longleftrightarrow> map_of (st_runs s) r = Some run"

lemma has_run_as: "keeps (run_as r run) m \<Longrightarrow> keeps wf_store m \<Longrightarrow> keeps (has_run r run) m"
  by (simp add: keeps_def has_run_def run_as_def)

lemma run_as_frame:
  assumes "\<And>s. keeps (log_frame s) m"
  shows "keeps (run_as r run) m"
proof (rule keepsI)
  fix s assume "run_as r run s"
  with keepsD [OF assms log_frame_refl, of s] show "run_as r run (post m s)"
    by (simp add: run_as_def log_frame_def)
qed

lemma has_run_frame: "(\<And>s. keeps (log_frame s) m) \<Longrightarrow> keeps wf_store m \<Longrightarrow> keeps (has_run r run) m"
  by (rule has_run_as) (rule run_as_frame)

lemma runs_new_id: "st_runs (post (new_id_locked p) s) = st_runs s"
  by (simp add: new_id_locked_def Let_def)

lemma run_as_put: "q \<noteq> r \<Longrightarrow> keeps (run_as r run) (put_run q item)"
  unfolding put_run_def by (rule keeps_modify) (simp add: run_as_def)

lemma run_as_tables:
  "keeps (run_as r run) (modify (st_events_update f))" "keeps (run_as r run) (modify (in_sub st_event_ids_update q g))"
  by (rule keeps_modify, simp add: run_as_def in_sub_def)+

lemma run_as_append: "q \<noteq> r \<Longrightarrow> keeps (run_as r run) (append_with_outbox env q v)"
  unfolding append_with_outbox_def append_event_locked_def store_event_def replay_event_def Let_def
  by (auto intro!: keeps_seq keeps_reads keeps_basic run_as_put run_as_tables run_as_frame [OF frame_outbox]
      run_as_frame [OF frame_new_id_of_kind] split: json.split option.split)

lemma run_as_finalize: "q \<noteq> r \<Longrightarrow> keeps (run_as r run) (finalize_run_with_result env q result u vs e)"
  unfolding finalize_run_with_result_def Let_def
  by (auto intro!: keeps_seq keeps_reads keeps_basic run_as_put run_as_append keeps_collect
      run_as_frame [OF frame_result(1)] run_as_frame [OF frame_result(2)])

lemma update_run_id:
  assumes "update_run q u e b s = (Inr item, t)" and "wf_store s"
  shows "map_of item ''run_id'' = Some (JStr q)"
proof -
  obtain current where current: "map_of (st_runs s) q = Some current"
    using assms(1) by (auto simp: update_run_def current_run_def py_run split: option.splits)
  with wf_run_id [OF assms(2) current] assms(1) show ?thesis
    by (auto simp: update_run_def current_run_def check_revision_def py_run Let_def put_run_def map_of_protected
        dest!: patch_without_id_Inr split: option.splits sum.splits if_splits)
qed

lemma current_run_Inr: "current_run q s = (Inr run, t) \<Longrightarrow> map_of (st_runs t) q = Some run"
  by (auto simp: current_run_def py_run split: option.splits)

lemma finalize_id:
  assumes "finalize_run_with_result env q result u vs e s = (Inr (run, res, evs), t)" and "wf_store s"
  shows "map_of run ''run_id'' = Some (JStr q)"
proof -
  have "wf_store t" using keepsD [OF wf_finalize_run_with_result assms(2), of env q result u vs e] assms(1) by simp
  moreover have "map_of (st_runs t) q = Some run"
    using assms(1) unfolding finalize_run_with_result_def Let_def
    by (auto simp: ret_def elim!: seq_Inr dest!: current_run_Inr)
  ultimately show ?thesis using wf_run_id by blast
qed

lemma create_run_new:
  assumes "has_run r run s" and "create_run v s = (Inr item, t)"
  shows "run_in (- {r}) item"
proof -
  let ?Q = "\<lambda>item t. run_in (- {r}) item"
  have "triple (has_run r run) (create_run v) ?Q (\<lambda>_. True)"
    by (rule triple_weaken [OF create_run_triple [where P = "has_run r run" and Q = ?Q]])
       (auto simp: creatable_def has_run_def run_in_def has_key_def string_of_def item_of_def dget_def runs_new_id
         split: option.splits json.splits)
  from triple_Inr [OF this assms] show ?thesis .
qed

lemma has_run_gives:
  assumes "\<And>s x t. has_run r run s \<Longrightarrow> m s = (Inr x, t) \<Longrightarrow> Q x" and "keeps (run_as r run) m" and "keeps wf_store m"
  shows "gives Q (has_run r run) m"
  using has_run_as [OF assms(2,3)] assms(1) by (auto simp: gives_def keeps_def) (metis prod.collapse)

interpretation elsewhere: store_client env "- {r}" "has_run r run" for env r run
proof
  note frame = frame_operations [THEN has_run_frame] and wf = wf_operations
  show "keeps (has_run r run) (new_id kind)" for kind by (intro frame wf)
  show "keeps (has_run r run) (create_dataset_with_version d v)" for d v by (intro frame wf)
  show "keeps (has_run r run) (update_dataset_version k u)" if "distinct (map fst u)" for u k
    by (intro frame wf that)
  show "gives (run_in (- {r})) (has_run r run) (create_run v)"
    if "dget_or v ''snapshot_seq'' (JInt 0) = JInt 0" for v
  proof (rule has_run_gives)
    show "run_in (- {r}) x" if "has_run r run s" "create_run v s = (Inr x, t)" for s x t
      by (rule create_run_new [OF that])
    have "triple (run_as r run) (create_run v) (\<lambda>_. run_as r run) (run_as r run)"
      by (rule create_run_triple)
         (auto simp: run_as_def runs_new_id creatable_def has_key_def add_run_tables_def)
    then show "keeps (run_as r run) (create_run v)" by (simp only: keeps_iff_triple)
  qed (rule wf_create_run)
  show "gives (\<lambda>found. \<forall>run. found = Some run \<longrightarrow> run_in (- {r}) run) (has_run r run) (get_run q)"
    if "q \<in> - {r}" for q
    using that by (auto simp: gives_def get_run_def get_locked_def py_run has_run_def run_in_def string_of_def
        item_of_def dest!: wf_run_id [of _ q] split: option.splits)
  show "gives (run_in (- {r})) (has_run r run) (update_run q u e b)" if "q \<in> - {r}" for q u e b
  proof (rule has_run_gives)
    show "run_in (- {r}) x" if "has_run r run s" "update_run q u e b s = (Inr x, t)" for s x t
      using update_run_id [OF that(2)] that(1) \<open>q \<in> - {r}\<close>
      by (simp add: has_run_def run_in_def string_of_def item_of_def)
    show "keeps (run_as r run) (update_run q u e b)"
      using that unfolding update_run_def Let_def by (auto intro!: keeps_seq keeps_reads keeps_basic run_as_put)
  qed (rule wf_update_run)
  show "has_run r run (post (append_event env q ((''event_id'', JStr eid) # v)) s)"
    if "q \<in> - {r}" "has_run r run s" for s eid q v
    using keepsD [OF has_run_as [OF run_as_append wf_append_with_outbox]] that by (auto simp: append_event_def)
  show "gives (\<lambda>(run, _, _). run_in (- {r}) run) (has_run r run) (finalize_run_with_result env q result u vs e)"
    if "q \<in> - {r}" for q vs result u e
  proof (rule has_run_gives)
    show "(\<lambda>(run, _, _). run_in (- {r}) run) x"
      if "has_run r run s" "finalize_run_with_result env q result u vs e s = (Inr x, t)" for s x t
      using finalize_id [of env q result u vs e s "fst x" "fst (snd x)" "snd (snd x)" t] that \<open>q \<in> - {r}\<close>
      by (cases x) (simp add: has_run_def run_in_def string_of_def item_of_def)
  qed (use that in \<open>auto intro: run_as_finalize wf_finalize_run_with_result\<close>)
  show "keeps (has_run r run) (create_output q v)" for q v by (intro frame wf)
  show "keeps (has_run r run) (create_decision_packet q v)" for q v by (intro frame wf)
  show "keeps (has_run r run) (update_decision_packet q k u)" if "distinct (map fst u)" for u q k
    by (intro frame wf that)
  show "keeps (has_run r run) (create_command env v)" for v by (intro frame wf)
  show "keeps (has_run r run) (update_command k u)" for k u by (intro frame wf)
  show "keeps (has_run r run) (create_artifact env v)" for v by (intro frame wf)
  show "keeps (has_run r run) (update_artifact k u)" for k u by (intro frame wf)
qed

lemma other_requests_keep_run:
  assumes "has_run r run (w_store w)" and "r \<notin> addressed op"
  shows "has_run r run (w_store (post (serve sv p op) w))"
  using assms by (intro keepsD [OF elsewhere.serve_kept [OF refl]]) auto

section \<open>Isolation and finality\<close>

lemma owned_Inr: "owned found p = Inr x \<longleftrightarrow> found = Some x \<and> dget x ''tenant_id'' = JStr (tenant_id p)"
  by (auto simp: owned_def not_found_def split: option.splits)

lemma owned_not_found:
  "(case found of None \<Rightarrow> True | Some d \<Rightarrow> dget d ''tenant_id'' \<noteq> JStr (tenant_id p)) \<Longrightarrow>
     owned found p = Inl not_found"
  by (auto simp: owned_def split: option.splits)

lemmas owned_defs = owned_run_def owned_version_def owned_artifact_def get_run_def get_dataset_version_def
  get_artifact_def get_command_def get_locked_def in_store_def py_run

text \<open>What a request is about: an entry of a table, which may be missing.\<close>

fun subject_of :: "workflow_op \<Rightarrow> store \<Rightarrow> jdict option option" where
  "subject_of (W_CreateDataset r b) s = None"
| "subject_of (W_CreateRun r) s = None"
| "subject_of W_ListRuns s = None"
| "subject_of (W_SignUploadParts v r b) s = Some (map_of (st_dataset_versions s) v)"
| "subject_of (W_PutUploadPart v u n cs) s = Some (map_of (st_dataset_versions s) v)"
| "subject_of (W_FinalizeDataset v r) s = Some (map_of (st_dataset_versions s) v)"
| "subject_of (W_GetDatasetVersion v) s = Some (map_of (st_dataset_versions s) v)"
| "subject_of (W_GetRun r) s = Some (map_of (st_runs s) r)"
| "subject_of (W_ListDecisionPackets r st) s = Some (map_of (st_runs s) r)"
| "subject_of (W_GetAgentContext r n) s = Some (map_of (st_runs s) r)"
| "subject_of (W_GetAgentActions r) s = Some (map_of (st_runs s) r)"
| "subject_of (W_Answer r ws n a) s = Some (map_of (st_runs s) r)"
| "subject_of (W_Pause r n) s = Some (map_of (st_runs s) r)"
| "subject_of (W_Resume r n) s = Some (map_of (st_runs s) r)"
| "subject_of (W_Cancel r) s = Some (map_of (st_runs s) r)"
| "subject_of (W_GetCommand c) s = Some (map_of (st_commands s) c)"
| "subject_of (W_GetResult r) s = Some (map_of (st_runs s) r)"
| "subject_of (W_ListOutputs r) s = Some (map_of (st_runs s) r)"
| "subject_of (W_GetOutput r i) s = Some (map_of (st_runs s) r)"
| "subject_of (W_GetArtifact a) s = Some (map_of (st_artifacts s) a)"
| "subject_of (W_CreateDownloadTicket a b) s = Some (map_of (st_artifacts s) a)"

lemma foreign_refused:
  assumes "subject_of op (w_store w) = Some found"
    and "case found of None \<Rightarrow> True | Some d \<Rightarrow> dget d ''tenant_id'' \<noteq> JStr (tenant_id p)"
  shows "serve sv p op w = (Inl not_found, w)"
  using assms(1) owned_not_found [OF assms(2)]
  by (cases op) (simp_all add: as_unit_def sign_upload_parts_def svc_put_upload_part_def finalize_dataset_def
      svc_get_dataset_version_def svc_get_run_def svc_list_decision_packets_def get_agent_context_def
      get_agent_actions_def answer_def check_answer_request_def pause_def resume_def cancel_def control_def
      svc_get_command_def svc_get_result_def svc_list_outputs_def svc_get_output_def svc_get_artifact_def
      create_download_ticket_def owned_defs)

text \<open>
  C19. The resources of another tenant are invisible. A request about a dataset version, a run, a
  command or an artifact that does not exist or does not belong to the caller's tenant gets the
  same answer in both cases, a 404 without details, and changes nothing at all.
\<close>

theorem foreign_resources_invisible:
  assumes "subject_of op (w_store w) = Some found"
    and "case found of None \<Rightarrow> True | Some d \<Rightarrow> dget d ''tenant_id'' \<noteq> JStr (tenant_id p)"
  shows "serve sv p op w = (Inl (APIProblem 404 ''not_found'' ''Resource not found'' []), w)"
  using foreign_refused [OF assms] by (simp add: not_found_def)

lemma addressed_subject: "r \<in> addressed op \<Longrightarrow> subject_of op s = Some (map_of (st_runs s) r)"
  by (cases op) auto

text \<open>
  Only its tenant changes a run. Whatever principals of other tenants request, in whatever
  order, a run stays exactly as it is: its status, its revision, its actions and everything else.
\<close>

theorem runs_isolated_between_tenants:
  assumes "wf_store (w_store w)" and "map_of (st_runs (w_store w)) r = Some run"
    and "\<forall>(p, op) \<in> set rs. JStr (tenant_id p) \<noteq> dget run ''tenant_id''"
  shows "map_of (st_runs (w_store (serve_all sv rs w))) r = Some run"
proof -
  have "has_run r run (w_store w)" using assms(1,2) by (simp add: has_run_def)
  then have "has_run r run (w_store (serve_all sv rs w))"
    using assms(3)
  proof (induction sv rs w rule: serve_all.induct)
    case (2 sv p op rs w)
    have "has_run r run (w_store (post (serve sv p op) w))"
    proof (cases "r \<in> addressed op")
      case True
      have "serve sv p op w = (Inl not_found, w)"
        by (rule foreign_refused [OF addressed_subject [OF True]])
           (use 2(2,3) in \<open>auto simp: has_run_def\<close>)
      then show ?thesis using 2(2) by simp
    qed (rule other_requests_keep_run [OF 2(2)])
    then show ?case using 2 by simp
  qed simp
  then show ?thesis by (simp add: has_run_def)
qed

lemma owned_Some: "owned (Some d) p = (if dget d ''tenant_id'' = JStr (tenant_id p) then Inr d else Inl not_found)"
  by (simp add: owned_def)

lemma keeps_world: "pure_read m \<Longrightarrow> keeps (\<lambda>v. v = w) (in_store m)"
  by (simp add: keeps_def pure_read_def in_store_def case_prod_beta)

lemma check_answer_same: "keeps (\<lambda>v. v = w) (check_answer_request p r ws n a)"
  unfolding check_answer_request_def owned_run_def
  by (auto intro!: keeps_seq keeps_basic keeps_world pure_store_reads split: json.split)

lemma owned_run_Inr:
  "owned_run p r w = (Inr run, w') \<longleftrightarrow>
     w' = w \<and> map_of (st_runs (w_store w)) r = Some run \<and> dget run ''tenant_id'' = JStr (tenant_id p)"
  by (auto simp: owned_run_def get_run_def get_locked_def in_store_def py_run owned_Inr split: sum.splits)

lemma lift_Inr [simp]: "lift r s = (Inr x, t) \<longleftrightarrow> r = Inr x \<and> t = s"
  by (auto simp: lift_def)

lemma fail_if_Inr [simp]: "fail_if c e s = (Inr u, t) \<longleftrightarrow> \<not> c \<and> t = s"
  by (auto simp: fail_if_def)

lemma check_answer_Inr_run:
  assumes "check_answer_request p r ws n a w = (Inr (packet, run, column), w')"
  shows "map_of (st_runs (w_store w)) r = Some run \<and> item_of run ''status'' = Inr (JStr ''WAITING_USER'')"
  using assms unfolding check_answer_request_def
  by (auto simp: owned_run_Inr ret_def raise_def elim!: seq_Inr split: json.splits if_splits)

lemma terminal_control: "item_of run ''status'' = Inr (JStr ''TERMINAL'') \<Longrightarrow> \<exists>e. check_control run ct n = Inl e"
  by (cases "item_of run ''run_revision''") (auto simp: check_control_def)

lemma terminal_refused:
  assumes run: "map_of (st_runs (w_store w)) r = Some run" and "dget run ''status'' = JStr ''TERMINAL''"
    and "r \<in> addressed op"
  shows "w_store (post (serve sv p op) w) = w_store w"
proof -
  have status: "item_of run ''status'' = Inr (JStr ''TERMINAL'')"
    using assms(2) by (auto simp: dget_def item_of_def split: option.splits)
  have control: "post (control sv p r ct n) w = w" for ct n
    using terminal_control [OF status, of ct n]
    by (auto simp: control_def owned_defs run owned_Some)
  have answer: "post (answer sv p r ws n a) w = w" for ws n a
  proof (cases "check_answer_request p r ws n a w")
    case (Pair res w')
    have "w' = w" using keepsD [OF check_answer_same, of w w p r ws n a] Pair by simp
    moreover have "res \<noteq> Inr x" for x
      using check_answer_Inr_run [of p r ws n a w "fst x" "fst (snd x)" "snd (snd x)" w'] Pair run status
      by auto
    ultimately show ?thesis using Pair by (cases res) (auto simp: answer_def seq_def)
  qed
  have unit: "post (as_unit m) w = post m w" for m :: "(world, 'a) py"
    by (auto simp: as_unit_def py_run split: prod.split sum.split)
  show ?thesis
    using assms(3) control answer
    by (cases op) (auto simp: unit pause_def resume_def cancel_def)
qed

text \<open>
  C15. A finished run stays as it is. Once a run is \<open>TERMINAL\<close>, no request of anyone, in any order,
  changes the run in any way: it is not resumed, answered, canceled or renumbered.
\<close>

theorem terminal_runs_never_change:
  assumes "wf_store (w_store w)" and "map_of (st_runs (w_store w)) r = Some run"
    and "dget run ''status'' = JStr ''TERMINAL''"
  shows "map_of (st_runs (w_store (serve_all sv rs w))) r = Some run"
proof -
  have "has_run r run (w_store w)" using assms(1,2) by (simp add: has_run_def)
  then have "has_run r run (w_store (serve_all sv rs w))"
  proof (induction sv rs w rule: serve_all.induct)
    case (2 sv p op rs w)
    have "has_run r run (w_store (post (serve sv p op) w))"
    proof (cases "r \<in> addressed op")
      case True
      with 2(2) terminal_refused [OF _ assms(3) True] show ?thesis by (simp add: has_run_def)
    qed (rule other_requests_keep_run [OF 2(2)])
    then show ?case using 2 by simp
  qed simp
  then show ?thesis by (simp add: has_run_def)
qed

end
