(* ===== verification/Durable_Laws.thy ===== *)
theory Durable_Laws
  imports Durable_Workflow Workflow_Isolation
begin

text \<open>
  The durable workflow as a client of the store and of the job table: the locale
  \<open>durable_client\<close>, which extends the contract of \<open>Workflow_Laws\<close>, in which it is proved that what
  every operation of the store keeps survives every request and every step of a job; and its
  interpretations.
\<close>

section \<open>Reads and small steps\<close>

lemma pure_output_for_type: "pure_read (output_for_type r t n)"
  unfolding output_for_type_def by (intro pure_read_seq pure_read_basic pure_store_reads)

lemma gives_weaken: "gives Q P m \<Longrightarrow> (\<And>x. Q x \<Longrightarrow> Q' x) \<Longrightarrow> gives Q' P m"
  by (auto simp: gives_def)

lemma gives_let: "(\<And>x. gives Q P (f x)) \<Longrightarrow> gives Q P (Let y f)"
  by simp

lemma keeps_if: "(c \<Longrightarrow> keeps P m) \<Longrightarrow> (\<not> c \<Longrightarrow> keeps P m') \<Longrightarrow> keeps P (if c then m else m')"
  by simp

lemma run_inD: "run_in R run \<Longrightarrow> string_of run ''run_id'' = Inr r \<Longrightarrow> r \<in> R"
  by (simp add: run_in_def)

abbreviation run_snd :: "string set \<Rightarrow> 'a \<times> jdict \<Rightarrow> bool" where
  "run_snd R \<equiv> \<lambda>(_, run). run_in R run"

section \<open>The job table\<close>

abbreviation in_durable :: "(store \<Rightarrow> bool) \<Rightarrow> durable_world \<Rightarrow> bool" where
  "in_durable P d \<equiv> P (w_store (dw_world d))"

lemma keeps_on_world: "keeps (on_store P) m \<Longrightarrow> keeps (in_durable P) (on_world m)"
  by (simp add: keeps_def on_world_def case_prod_beta)

text \<open>The operations of the job table leave the store alone.\<close>

lemma mem_transaction: "keeps (\<lambda>q. mem q = s) m \<Longrightarrow> keeps (\<lambda>q. mem q = s) (transaction m)"
  unfolding transaction_def ensure_open_def
  by (auto simp: keeps_def py_run split: prod.split sum.split)

lemma mem_ensure_open: "keeps (\<lambda>q. mem q = s) ensure_open"
  by (simp add: keeps_def ensure_open_def)

lemma mem_job_parts:
  "keeps (\<lambda>q. mem q = s) (find_job r)" "keeps (\<lambda>q. mem q = s) (save_job r j)"
  "keeps (\<lambda>q. mem q = s) (require_job_fence t r g e)"
  unfolding find_job_def save_job_def require_job_fence_def Let_def
  by (auto intro!: keeps_seq keeps_modify split: option.split)

lemma mem_job_operations:
  "keeps (\<lambda>q. mem q = s) (create_execution_job sql clk r step v n e)"
  "keeps (\<lambda>q. mem q = s) (get_execution_job r)" "keeps (\<lambda>q. mem q = s) (wake_execution_job sql clk r)"
  "keeps (\<lambda>q. mem q = s) (renew_execution_job sql clk r g e t)"
  unfolding create_execution_job_def get_execution_job_def wake_execution_job_def renew_execution_job_def
  by (auto intro!: keeps_seq mem_ensure_open mem_transaction mem_job_parts split: option.split)

lemma keeps_on_jobs: "(\<And>s clk. keeps (\<lambda>q. mem q = s) (f clk)) \<Longrightarrow> keeps (in_durable P) (on_jobs en f)"
  by (auto simp: keeps_def on_jobs_def case_prod_beta)

lemma keeps_meanwhile:
  "(\<And>d. in_durable P d \<Longrightarrow> in_durable P (others k d)) \<Longrightarrow> keeps (in_durable P) (meanwhile others k)"
  unfolding meanwhile_def by (rule keeps_modify)

lemma keeps_file_at: "keeps P (file_at path)"
  by (simp add: file_at_def)

lemma keeps_ended: "keeps P m \<Longrightarrow> keeps P (ended m)"
  by (auto simp: keeps_def ended_def split: prod.split sum.split)

locale durable_client = store_client +
  assumes approvals_kept: "keeps I (create_approval r v)" "keeps I (list_approvals r)"
    and mutate_kept:
      "r \<in> R \<Longrightarrow> map_of v ''event_id'' = None \<Longrightarrow> keeps I (mutate_run_with_event env r u v e b)"
begin

lemmas durable_rules =
  kept_rules approvals_kept pure_output_for_type [THEN pure_read_keeps]

lemma durable_artifact_kept:
  assumes "sv_env (ds_service ds) = env"
  shows "keeps (on_store I) (durable_artifact ds run kind media_type content)"
  unfolding durable_artifact_def Let_def assms by (auto intro!: durable_rules split: list.split)

lemma transition_gives:
  assumes env: "sv_env sv = env" and run: "run_in R run"
  shows "gives (run_in R) (on_store I) (transition_running_phase sv run previous p percent message completed)"
proof -
  have moved: "gives (run_in R) (on_store I) (if c then ret run else
      seq (now_stages sv p ''RUNNING'' completed) (\<lambda>stage_list. seq (iso_now sv) (\<lambda>now.
        in_store (update_run r (u stage_list now) None False))))" if "r \<in> R" for r c u
    using run that by (auto intro!: gives_ret gives_seq_keeps keeps_clock run_gives(2))
  show ?thesis
    unfolding transition_running_phase_def env
    apply (rule gives_seq_lift)
    apply (rule gives_seq, rule moved, erule run_inD [OF run])
    apply (rule gives_seq_keeps, intro durable_rules)
    apply (rule gives_seq_lift)
    apply (auto intro: gives_ret emit_gives [OF env])
    done
qed

lemma request_decision_kept:
  assumes env: "sv_env sv = env" and run: "run_in R run"
  shows "keeps (on_store I) (request_decision sv run questions evidence)"
  unfolding request_decision_def env
  apply (rule keeps_seq, intro durable_rules, rule keeps_seq, intro durable_rules)
  apply (rule keeps_seq_lift, rule keeps_seq, rule keeps_clock, rule keeps_seq, rule keeps_clock, rule keeps_seq_lift)
  apply (rule keeps_seq_gives, rule run_gives(2), erule run_inD [OF run])
  apply (rule keeps_seq_lift)+
  apply (rule keeps_seq, rule keeps_clock, rule keeps_seq, rule keeps_clock, rule keeps_seq, intro durable_rules)
  apply (rule keeps_seq_lift)
  apply (rule keeps_seq_gives, erule emit_gives [OF env])
  apply (rule keeps_seq_lift)+
  apply (rule keeps_seq, rule gives_keeps, erule emit_gives [OF env])
  apply simp
  done

lemma failure_report_gives:
  assumes env: "sv_env sv = env" and run: "run_in R run"
  shows "gives (run_snd R) (on_store I) (failure_report sv run code message retriable)"
  unfolding failure_report_def
  by (auto intro!: gives_seq_lift gives_seq_keeps durable_rules gives_ret commit_output_gives [OF env run] run
      split: option.split)

lemma fail_run_kept:
  assumes env: "sv_env sv = env" and run: "run_in R run"
  shows "keeps (on_store I) (fail_run sv run code message retriable)"
  unfolding fail_run_def env
  apply (rule keeps_seq_gives, rule failure_report_gives [OF env run], clarsimp)
  apply (rule keeps_seq_lift, frule (1) run_inD)
  apply (auto intro!: durable_rules finalize_gives [THEN gives_keeps] simp: run_event_def)
  done

lemma with_open_run_kept:
  "r \<in> R \<Longrightarrow> (\<And>current status. run_in R current \<Longrightarrow> keeps (on_store I) (act current status)) \<Longrightarrow>
     keeps (on_store I) (with_open_run r act)"
  unfolding with_open_run_def
  by (rule keeps_seq_gives [OF run_gives(4)]) (auto intro!: durable_rules split: option.split)

lemma commit_profile_gives:
  assumes env: "sv_env sv = env" and r: "r \<in> R"
  shows "gives (run_snd R) (on_store I) (commit_profile sv r profile)"
  unfolding commit_profile_def env
  apply (rule gives_seq_keeps, rule keeps_clock, rule gives_seq_keeps, rule keeps_clock)
  apply (rule gives_seq, rule run_gives(2), rule r)
  apply (rule gives_seq, erule complete_stage_gives [OF env])
  apply (rule gives_seq, erule emit_gives [OF env])
  apply (rule gives_seq_lift, erule commit_output_gives [OF env])
  done

lemma queue_training_kept:
  "r \<in> R \<Longrightarrow> keeps (on_store I) (queue_training sv r extra bump)"
  unfolding queue_training_def by (auto intro!: durable_rules run_gives(2) [THEN gives_keeps])

lemma profile_section_kept:
  assumes env: "sv_env sv = env" and r: "r \<in> R"
  shows "keeps (on_store I) (profile_section sv r profile)"
  unfolding profile_section_def
  apply (rule with_open_run_kept, rule r)
  apply (rule keeps_seq_gives, rule commit_profile_gives [OF env r], clarsimp)
  apply (rule keeps_seq_gives, rule run_gives(2), rule r)
  apply (rule keeps_seq_lift)+
  apply (rule keeps_seq_gives, erule complete_stage_gives [OF env])
  apply (rule keeps_seq_lift)
  apply (auto intro!: keeps_seq request_decision_kept [OF env] queue_training_kept r)
  done

lemma resolved_section_kept:
  assumes env: "sv_env sv = env" and r: "r \<in> R"
  shows "keeps (on_store I) (resolved_section sv r)"
  unfolding resolved_section_def Let_def
  by (rule with_open_run_kept [OF r]) (auto intro!: durable_rules queue_training_kept r)

lemma attach_kept: "keeps (on_store I) (attach artifact output)"
  unfolding attach_def by (intro durable_rules)

lemma task_output_gives:
  assumes env: "sv_env sv = env" and run: "run_in R run"
  shows "gives (run_snd R) (on_store I) (task_output sv r run task)"
  unfolding task_output_def
  by (auto intro!: gives_seq_lift gives_seq_keeps durable_rules gives_ret commit_output_gives [OF env run] run
      split: option.split)

lemma split_output_gives:
  assumes env: "sv_env (ds_service ds) = env" and run: "run_in R run"
  shows "gives (run_snd R) (on_store I) (split_output ds r run split oid)"
proof -
  have committed: "gives (run_snd R) (on_store I) (seq (commit_output_with (ds_service ds) run t p summary payload refs lineage)
      (\<lambda>(output, run). seq (attach artifact output) (\<lambda>_. ret (output, run))))" for t p summary payload refs lineage artifact
    by (rule gives_seq [OF commit_output_with_gives [OF env run]])
       (auto intro!: gives_seq_keeps attach_kept gives_ret)
  show ?thesis
    unfolding split_output_def
    by (auto intro!: gives_seq_lift gives_seq_keeps durable_rules durable_artifact_kept env gives_ret committed run
        split: option.split)
qed

lemma note_output_gives: "r \<in> R \<Longrightarrow> gives (run_in R) (on_store I) (note_output r field oid)"
  unfolding note_output_def by (rule run_gives)

lemma publish_plan_gives:
  assumes env: "sv_env (ds_service ds) = env" and r: "r \<in> R" and run: "run_in R run"
  shows "gives (run_in R) (on_store I) (publish_plan ds r run snapshot)"
  unfolding publish_plan_def Let_def
  apply (rule gives_seq_lift)+
  apply (rule gives_seq, rule task_output_gives [OF env run], clarsimp)
  apply (rule gives_seq_lift)
  apply (rule gives_seq, rule note_output_gives [OF r])
  apply (rule gives_seq, erule split_output_gives [OF env], clarsimp)
  apply (rule gives_seq_lift)
  apply (rule gives_seq, rule note_output_gives [OF r])
  apply (rule gives_seq_lift)+
  apply (erule complete_stage_gives [OF env])
  done

lemma publish_baseline_gives:
  assumes env: "sv_env sv = env" and run: "run_in R run"
  shows "gives (run_in R) (on_store I) (publish_baseline sv r run baseline)"
proof -
  have committed: "gives (run_in R) (on_store I) (seq (commit_output sv run t p summary payload refs)
      (\<lambda>(_, run). ret run))" for t p summary payload refs
    by (rule gives_seq [OF commit_output_gives [OF env run]]) (auto intro!: gives_ret)
  show ?thesis
    unfolding publish_baseline_def
    by (auto intro!: gives_seq_lift gives_seq_keeps durable_rules gives_ret committed run split: prod.split)
qed

lemma publish_trials_gives:
  assumes env: "sv_env sv = env"
  shows "run_in R run \<Longrightarrow> gives (run_in R) (on_store I) (publish_trials sv d r run trials)"
proof (induction trials arbitrary: run)
  case (Cons trial trials)
  have committed: "gives (run_in R) (on_store I) (seq (commit_output sv run t p summary payload refs)
      (\<lambda>(_, run). publish_trials sv d r run trials))" for t p summary payload refs
    by (rule gives_seq [OF commit_output_gives [OF env Cons.prems]]) (auto intro!: Cons.IH)
  show ?case
    using Cons by (auto intro!: gives_seq_lift gives_seq_keeps durable_rules committed)
qed (simp add: gives_ret)

lemma publish_train_gives:
  assumes env: "sv_env sv = env" and run: "run_in R run"
  shows "gives (run_in R) (on_store I) (publish_train sv r run snapshot)"
  unfolding publish_train_def
  apply (rule gives_seq_lift)+
  apply (rule gives_seq, rule publish_baseline_gives [OF env run])
  apply (rule gives_seq_lift)
  apply (rule gives_seq, erule publish_trials_gives [OF env])
  apply (rule gives_seq_keeps, intro durable_rules)
  apply (rule gives_seq_lift)
  apply (erule complete_stage_gives [OF env])
  done

lemma stage_section_kept:
  assumes env: "sv_env (ds_service ds) = env" and r: "r \<in> R"
  shows "keeps (on_store I) (stage_section ds r p snapshot)"
proof -
  let ?sv = "ds_service ds"
  have pass: "keeps (on_store I) (seq (if c then ret run else m) (\<lambda>run.
      seq (transition_running_phase ?sv run previous q percent message completed) (\<lambda>_. ret ())))"
    if "run_in R run" "gives (run_in R) (on_store I) m" for c run m previous q percent message completed
    using that by (auto intro!: keeps_seq_gives [where Q = "run_in R"] keeps_basic gives_ret transition_gives [OF env])
  show ?thesis
    unfolding stage_section_def Let_def
    apply (rule keeps_seq_gives, rule run_gives(4), rule r)
    apply (split option.split, intro conjI impI allI, rule keeps_basic)
    apply (rule keeps_if, rule keeps_basic)
    apply (rule keeps_seq, intro durable_rules)
    apply (rule keeps_seq_lift, rule keeps_if)
    apply (rule pass, simp, rule publish_plan_gives [OF env r], simp)
    apply (rule keeps_if, rule keeps_basic)
    apply (rule pass, simp, rule publish_train_gives [OF env], simp)
    done
qed

lemma attempt_kept:
  "sv_env (ds_service ds) = env \<Longrightarrow> keeps (on_store I) (attempt_artifact ds run v content)"
  using durable_artifact_kept [of ds run "artifact_kind_of v" "''image/png''" content]
  by (auto simp: keeps_def attempt_artifact_def split: prod.split sum.split)

lemma publish_visualizations_kept:
  assumes "sv_env (ds_service ds) = env"
  shows "keeps (on_store I) (publish_visualizations ds run vs)"
  by (induction vs) (auto intro!: durable_rules attempt_kept assms split: option.split prod.split)

lemma evaluation_output_gives:
  assumes env: "sv_env (ds_service ds) = env" and run: "run_in R run"
  shows "gives (\<lambda>(_, run, _, _). run_in R run) (on_store I) (evaluation_output ds r run result primary baseline candidate)"
proof -
  have committed: "gives (\<lambda>(_, run, _, _). run_in R run) (on_store I)
      (seq (commit_output (ds_service ds) run t p summary payload refs)
      (\<lambda>(output, run). seq (each (\<lambda>a. attach a output) artifacts) (\<lambda>_. ret (output, run, x, y))))"
    for t p summary payload refs artifacts and x :: string and y :: json
    by (rule gives_seq [OF commit_output_gives [OF env run]])
       (auto intro!: gives_seq_keeps attach_kept keeps_each gives_ret)
  show ?thesis
    unfolding evaluation_output_def Let_def
    by (auto intro!: gives_seq_lift gives_seq_keeps durable_rules publish_visualizations_kept [OF env] gives_ret committed run
        split: option.split prod.split)
qed

lemma model_card_output_gives:
  assumes env: "sv_env (ds_service ds) = env" and run: "run_in R run"
  shows "gives (\<lambda>(_, run, _). run_in R run) (on_store I) (model_card_output ds r run result d primary candidate x oid)"
proof -
  have committed: "gives (\<lambda>(_, run, _). run_in R run) (on_store I)
      (seq (commit_output_with (ds_service ds) run t p summary payload refs lineage)
      (\<lambda>(output, run). seq (attach artifact output) (\<lambda>_. ret (output, run, m))))"
    for t p summary payload refs lineage artifact and m :: string
    by (rule gives_seq [OF commit_output_with_gives [OF env run]])
       (auto intro!: gives_seq_keeps attach_kept gives_ret)
  show ?thesis
    unfolding model_card_output_def Let_def
    by (auto intro!: gives_seq_lift gives_seq_keeps durable_rules durable_artifact_kept env gives_ret committed run
        split: option.split)
qed

lemma report_output_gives:
  assumes env: "sv_env (ds_service ds) = env" and run: "run_in R run"
  shows "gives (run_snd R) (on_store I) (report_output ds r run result drawn_as records evidence oid)"
proof -
  have committed: "gives (run_snd R) (on_store I) (seq (commit_output_with (ds_service ds) run t p summary payload refs lineage)
      (\<lambda>(output, run). seq (attach artifact output) (\<lambda>_. ret (output, run))))" for t p summary payload refs lineage artifact
    by (rule gives_seq [OF commit_output_with_gives [OF env run]])
       (auto intro!: gives_seq_keeps attach_kept gives_ret)
  show ?thesis
    unfolding report_output_def
    by (auto intro!: gives_seq_lift gives_seq_keeps durable_rules durable_artifact_kept env gives_ret committed run
        split: option.split)
qed

lemma await_approval_kept:
  assumes env: "sv_env sv = env" and r: "r \<in> R"
  shows "keeps (on_store I) (await_approval sv r run evidence report candidate)"
  unfolding await_approval_def obtain_approval_def env Let_def
  by (auto intro!: durable_rules mutate_kept r simp: run_event_def split: list.split)

lemma complete_evaluated_run_kept:
  assumes env: "sv_env sv = env" and r: "r \<in> R"
  shows "keeps (on_store I) (complete_evaluated_run sv r run result d evaluation report refs outputs)"
  unfolding complete_evaluated_run_def env
  by (auto intro!: durable_rules finalize_gives [THEN gives_keeps] r simp: run_event_def stage_event_def)

lemma publish_evaluation_gives:
  assumes env: "sv_env (ds_service ds) = env" and run: "run_in R run"
  shows "gives (\<lambda>(_, run, _, _). run_in R run) (on_store I) (publish_evaluation ds r run result primary baseline candidate)"
  unfolding publish_evaluation_def Let_def
  apply (rule gives_seq, rule evaluation_output_gives [OF env run], clarsimp)
  apply (rule gives_seq_lift)
  apply (rule gives_seq, erule complete_stage_gives [OF env])
  apply (rule gives_seq, erule transition_gives [OF env])
  apply (simp add: gives_ret)
  done

lemma close_run_kept:
  assumes env: "sv_env (ds_service ds) = env" and r: "r \<in> R"
  shows "keeps (on_store I) (close_run ds r run result d x evidence evaluation c report m)"
  unfolding close_run_def Let_def
  by (auto intro!: durable_rules await_approval_kept complete_evaluated_run_kept env r)

lemma publish_result_kept:
  assumes env: "sv_env (ds_service ds) = env" and run: "run_in R run"
  shows "keeps (on_store I) (publish_result ds run result)"
proof -
  have published: "keeps (on_store I) (seq (publish_evaluation ds r run result primary baseline candidate)
      (\<lambda>(evaluation, run, drawn_as, records).
        seq (lift (x evaluation)) (\<lambda>oid. seq (model_card_output ds r run result d primary candidate b oid)
          (\<lambda>(c, run, m). seq (lift (y evaluation c)) (\<lambda>evidence.
            seq (report_output ds r run result drawn_as records evidence oid) (\<lambda>(report, run).
            seq (lift (z evaluation c report)) (\<lambda>refs. close_run ds r run result d b refs evaluation c report m)))))))"
    if "r \<in> R" for r primary baseline candidate d b and x :: "jdict \<Rightarrow> exn + json" and y :: "jdict \<Rightarrow> jdict \<Rightarrow> exn + json list"
      and z :: "jdict \<Rightarrow> jdict \<Rightarrow> jdict \<Rightarrow> exn + json list"
    apply (rule keeps_seq_gives, rule publish_evaluation_gives [OF env run], clarsimp)
    apply (rule keeps_seq_lift)
    apply (rule keeps_seq_gives, erule model_card_output_gives [OF env], clarsimp)
    apply (rule keeps_seq_lift)
    apply (rule keeps_seq_gives, erule report_output_gives [OF env], clarsimp)
    apply (rule keeps_seq_lift, rule close_run_kept [OF env that])
    done
  show ?thesis
    unfolding publish_result_def Let_def
    by (auto intro!: durable_rules published run_inD [OF run] split: option.split)
qed

lemma durable_admit_gives:
  assumes env: "sv_env sv = env"
  shows "gives (\<lambda>(run, _). run_in R run) (on_store I) (durable_admit sv p req)"
proof -
  have fresh: "dget_or v ''snapshot_seq'' (JInt 0) = JInt 0"
    if "durable_run p req run_id now i stage_list budget backend usage c es = Inr v"
    for run_id now i stage_list budget backend usage c es v
    using that by (auto simp: durable_run_def exn_bind_Inr dget_or_def)
  show ?thesis
    unfolding durable_admit_def env
    by (auto intro!: gives_seq_lift gives_seq_keeps durable_rules owned_kept gives_seq [OF run_gives(1)] gives_ret
        dest: fresh split: prod.split)
qed

lemma durable_accept_kept:
  assumes env: "sv_env sv = env" and r: "r \<in> R"
  shows "keeps (on_store I) (durable_accept sv p r ws n req)"
  unfolding durable_accept_def check_durable_answer_def accepted_command_def env
  by (auto intro!: durable_rules owned_kept run_gives(2) [THEN gives_keeps] r split: option.split)

lemma dataset_path_kept: "keeps (on_store I) (dataset_path sv run)"
  unfolding dataset_path_def by (auto intro!: durable_rules split: option.split)

lemma training_start_kept:
  assumes r: "r \<in> R"
  shows "keeps (on_store I) (training_start sv r)"
  unfolding training_start_def
  by (auto intro!: durable_rules run_gives(2) [THEN gives_keeps] r split: option.split)

lemma ask_positive_class_kept:
  assumes env: "sv_env sv = env" and r: "r \<in> R"
  shows "keeps (on_store I) (ask_positive_class sv r classes)"
proof -
  have "gives (run_in R) (on_store I) (assert_run r)"
    unfolding assert_run_def
    by (rule gives_seq [OF run_gives(4) [OF r]]) (auto intro!: gives_ret gives_raise split: option.split)
  then show ?thesis
    unfolding ask_positive_class_def
    by (rule keeps_seq_gives) (auto intro!: durable_rules request_decision_kept env)
qed

lemma fail_training_kept:
  assumes env: "sv_env sv = env" and r: "r \<in> R"
  shows "keeps (on_store I) (fail_training sv r code message)"
  unfolding fail_training_def
  by (rule keeps_seq_gives [OF run_gives(4) [OF r]])
     (auto intro!: durable_rules fail_run_kept env split: option.split)

lemma finish_training_kept:
  assumes env: "sv_env (ds_service ds) = env" and r: "r \<in> R"
  shows "keeps (on_store I) (finish_training ds r result)"
  unfolding finish_training_def
  by (rule with_open_run_kept [OF r]) (auto intro!: durable_rules publish_result_kept env)

lemma end_training_kept:
  assumes env: "sv_env (ds_service ds) = env" and r: "r \<in> R"
  shows "keeps (in_durable I) (end_training ds en j seconds r outcome)"
  unfolding end_training_def
  by (auto intro!: keeps_on_world keeps_seq keeps_on_jobs mem_job_operations fail_training_kept ask_positive_class_kept
      finish_training_kept env r split: engine_end.split option.split)

lemma publish_backend_stage_kept:
  assumes env: "sv_env (ds_service ds) = env" and r: "r \<in> R" and others: "\<And>k d. in_durable I d \<Longrightarrow> in_durable I (others k d)"
  shows "keeps (in_durable I) (publish_backend_stage ds en others k j seconds r call)"
  unfolding publish_backend_stage_def
  by (intro keeps_seq keeps_meanwhile others keeps_on_jobs mem_job_operations keeps_on_world stage_section_kept env r)

lemma run_callbacks_kept:
  assumes env: "sv_env (ds_service ds) = env" and r: "r \<in> R" and others: "\<And>k d. in_durable I d \<Longrightarrow> in_durable I (others k d)"
  shows "keeps (in_durable I) (run_callbacks ds en others k j seconds r backend calls)"
  by (induction calls arbitrary: k)
     (simp_all add: keeps_seq keeps_except publish_backend_stage_kept [OF env r others])

lemma execute_training_kept:
  assumes env: "sv_env (ds_service ds) = env" and run: "run_in R run"
    and others: "\<And>k d. in_durable I d \<Longrightarrow> in_durable I (others k d)"
  shows "keeps (in_durable I) (execute_training ds en others run j seconds)"
proof -
  have engine: "keeps (in_durable I) (run_engine ds en others j seconds r path args)" if "r \<in> R" for r path args
    unfolding run_engine_def Let_def
    by (auto intro!: keeps_ended keeps_seq keeps_file_at run_callbacks_kept [OF env that others] split: prod.split)
  show ?thesis
    unfolding execute_training_def Let_def
    apply (rule keeps_seq, rule keeps_on_world, rule dataset_path_kept, clarsimp)
    apply (rule keeps_seq, rule keeps_meanwhile, erule others, rule keeps_seq_lift, drule run_inD [OF run])
    apply (rule keeps_seq, rule keeps_on_world, erule training_start_kept)
    apply (auto intro!: keeps_seq keeps_meanwhile others engine end_training_kept env split: sum.split)
    done
qed

lemma execute_profile_kept:
  assumes env: "sv_env sv = env" and run: "run_in R run"
    and others: "\<And>k d. in_durable I d \<Longrightarrow> in_durable I (others k d)"
  shows "keeps (in_durable I) (execute_profile sv en others run)"
  unfolding execute_profile_def
  by (auto intro!: keeps_seq keeps_seq_lift keeps_on_world dataset_path_kept keeps_meanwhile others keeps_file_at
      profile_section_kept env run_inD [OF run])

lemma handle_execution_job_kept:
  assumes env: "sv_env (ds_service ds) = env" and r: "job_run_id j \<in> R"
    and others: "\<And>k d. in_durable I d \<Longrightarrow> in_durable I (others k d)"
  shows "keeps (in_durable I) (handle_execution_job ds en others seconds j)"
proof -
  have found: "gives (\<lambda>found. \<forall>run. found = Some run \<longrightarrow> run_in R run) (in_durable I)
      (on_world (in_store (get_run (job_run_id j))))"
    using run_gives(4) [OF r] by (simp add: gives_def on_world_def case_prod_beta)
  show ?thesis
    unfolding handle_execution_job_def execute_resolved_task_def Let_def
    by (rule keeps_seq_gives [OF found])
       (auto intro!: keeps_seq keeps_seq_lift keeps_on_world execute_profile_kept execute_training_kept keeps_meanwhile others
         resolved_section_kept env dest: run_inD split: option.split)
qed

lemma handle_dead_job_kept:
  assumes env: "sv_env sv = env" and r: "job_run_id j \<in> R"
  shows "keeps (in_durable I) (handle_dead_job sv j)"
  unfolding handle_dead_job_def
  by (rule keeps_on_world, rule keeps_seq_gives [OF run_gives(4) [OF r]])
     (auto intro!: fail_run_kept env split: option.split)

lemma durable_requests_kept:
  assumes env: "sv_env sv = env"
  shows "keeps (in_durable I) (durable_create_run sv en p req)"
    and "r \<in> R \<Longrightarrow> keeps (in_durable I) (durable_answer sv en p r ws n req)"
    and "keeps (in_durable I) (ensure_execution_jobs sv en)"
  unfolding durable_create_run_def durable_answer_def wake_job_def ensure_execution_jobs_def repair_job_def
  by (auto intro!: keeps_seq keeps_each keeps_on_world keeps_on_jobs mem_job_operations durable_rules
      durable_admit_gives [THEN gives_keeps] durable_accept_kept env split: prod.split)

lemma durable_commands_kept:
  assumes env: "sv_env sv = env" and r: "r \<in> R" and others: "\<And>k d. in_durable I d \<Longrightarrow> in_durable I (others k d)"
  shows "keeps (in_durable I) (durable_resume sv en others p r n)" "keeps (in_durable I) (durable_cancel sv en others p r)"
  unfolding durable_resume_def durable_cancel_def wake_open_job_def wake_job_def resume_def cancel_def
  by (auto intro!: keeps_seq keeps_on_world control_kept keeps_on_jobs mem_job_operations keeps_meanwhile others env r
      split: option.split)

end

section \<open>The steps of the running system\<close>

text \<open>
  A step of the durable system: a request that \<open>DurableWorkflowService\<close> answers itself or inherits, a job
  handed to the handler, a dead job handed to it, or the repair at start-up.
\<close>

datatype system_step =
    CreateRunRequest principal jdict
  | AnswerRequest principal string string int jdict
  | ResumeRequest principal string int
  | CancelRequest principal string
  | InheritedRequest principal workflow_op
  | ExecutionStep rat job
  | DeadJobStep job
  | RepairStep

definition no_result :: "(durable_world, 'a) py \<Rightarrow> (durable_world, unit) py" where
  "no_result m = seq m (\<lambda>_. ret ())"

fun system_act ::
  "durable_service \<Rightarrow> engine \<Rightarrow> (nat \<Rightarrow> durable_world \<Rightarrow> durable_world) \<Rightarrow> system_step \<Rightarrow> (durable_world, unit) py" where
  "system_act ds en others (CreateRunRequest p req) = no_result (durable_create_run (ds_service ds) en p req)"
| "system_act ds en others (AnswerRequest p r ws n req) = no_result (durable_answer (ds_service ds) en p r ws n req)"
| "system_act ds en others (ResumeRequest p r n) = no_result (durable_resume (ds_service ds) en others p r n)"
| "system_act ds en others (CancelRequest p r) = no_result (durable_cancel (ds_service ds) en others p r)"
| "system_act ds en others (InheritedRequest p op) = on_world (serve (ds_service ds) p op)"
| "system_act ds en others (ExecutionStep seconds j) = no_result (handle_execution_job ds en others seconds j)"
| "system_act ds en others (DeadJobStep j) = handle_dead_job (ds_service ds) j"
| "system_act ds en others RepairStep = ensure_execution_jobs (ds_service ds) en"

text \<open>The runs that a step may change.\<close>

fun step_runs :: "system_step \<Rightarrow> string set" where
  "step_runs (AnswerRequest p r ws n req) = {r}"
| "step_runs (ResumeRequest p r n) = {r}"
| "step_runs (CancelRequest p r) = {r}"
| "step_runs (InheritedRequest p op) = addressed op"
| "step_runs (ExecutionStep seconds j) = {job_run_id j}"
| "step_runs (DeadJobStep j) = {job_run_id j}"
| "step_runs _ = {}"

context durable_client begin

lemma system_act_kept:
  assumes env: "sv_env (ds_service ds) = env" and runs: "step_runs step \<subseteq> R"
    and others: "\<And>k d. in_durable I d \<Longrightarrow> in_durable I (others k d)"
  shows "keeps (in_durable I) (system_act ds en others step)"
  using runs
  by (cases step) (auto simp: no_result_def intro!: keeps_seq durable_requests_kept [OF env] durable_commands_kept [OF env _ others]
      keeps_on_world [OF serve_kept [OF env]] handle_execution_job_kept [OF env _ others] handle_dead_job_kept [OF env])

end


lemma run_as_mutate: "q \<noteq> r \<Longrightarrow> keeps (run_as r run) (mutate_run_with_event env q u v e b)"
  unfolding mutate_run_with_event_def Let_def
  by (auto intro!: keeps_seq keeps_reads keeps_basic run_as_put run_as_append)

interpretation durable_elsewhere: durable_client env "- {r}" "has_run r run" for env r run
proof
  note frame = frame_operations [THEN has_run_frame] and wf = wf_operations
  show "keeps (has_run r run) (create_approval q v)" for q v by (intro frame wf)
  show "keeps (has_run r run) (list_approvals q)" for q by (intro frame wf)
  show "keeps (has_run r run) (mutate_run_with_event env q u v e b)" if "q \<in> - {r}" for q u v e b
    using that by (intro has_run_as wf) (auto intro: run_as_mutate)
qed



text \<open>C7. A run is changed by the requests about it and by its own job only.\<close>

theorem jobs_isolated_between_runs:
  assumes "wf_store (w_store (dw_world d))" and "map_of (st_runs (w_store (dw_world d))) r = Some run"
    and "r \<notin> step_runs step"
    and "\<forall>k d. has_run r run (w_store (dw_world d)) \<longrightarrow> has_run r run (w_store (dw_world (others k d)))"
  shows "map_of (st_runs (w_store (dw_world (post (system_act ds en others step) d)))) r = Some run"
proof -
  have "has_run r run (w_store (dw_world d))" using assms(1,2) by (simp add: has_run_def)
  moreover have "keeps (in_durable (has_run r run)) (system_act ds en others step)"
    by (rule durable_elsewhere.system_act_kept [OF refl]) (use assms(3,4) in auto)
  ultimately have "has_run r run (w_store (dw_world (post (system_act ds en others step) d)))"
    by (rule keepsD [rotated])
  then show ?thesis by (simp add: has_run_def)
qed

end
