(* ===== verification/Workflow_Guards.thy ===== *)
theory Workflow_Guards
  imports Workflow_Isolation
begin

text \<open>
  The guards of the workflow service come first: a request that is answered with a problem has not
  touched the store. After the first change no operation answers with a problem any more, which
  the predicate \<open>clean\<close> says of a computation.
\<close>

section \<open>Problems\<close>

fun problem :: "exn \<Rightarrow> bool" where
  "problem (APIProblem _ _ _ _) = True"
| "problem _ = False"

definition clean :: "('s, 'a) py \<Rightarrow> bool" where
  "clean m \<longleftrightarrow> (\<forall>s e. fst (m s) = Inl e \<longrightarrow> \<not> problem e)"

definition clean_exn :: "exn + 'a \<Rightarrow> bool" where
  "clean_exn r \<longleftrightarrow> (\<forall>e. r = Inl e \<longrightarrow> \<not> problem e)"

lemma clean_exn_simps [simp]: "clean_exn (Inr x)" "clean_exn (Inl e) \<longleftrightarrow> \<not> problem e"
  by (simp_all add: clean_exn_def)

lemma clean_exn_bind: "clean_exn r \<Longrightarrow> (\<And>x. clean_exn (f x)) \<Longrightarrow> clean_exn (exn_bind r f)"
  by (cases r) auto

lemma clean_basic [simp]:
  "clean (ret x)" "clean (gets f)" "clean (modify f')" "clean (raise e) \<longleftrightarrow> \<not> problem e"
  "clean (lift r) \<longleftrightarrow> clean_exn r"
  by (auto simp: clean_def clean_exn_def py_run)

lemma clean_fail_if: "(c \<Longrightarrow> \<not> problem e) \<Longrightarrow> clean (fail_if c e)"
  by (auto simp: clean_def py_run)

lemma clean_seq: "clean m \<Longrightarrow> (\<And>x. clean (f x)) \<Longrightarrow> clean (seq m f)"
  by (auto simp: clean_def seq_def split: prod.splits sum.splits) (metis fst_conv)+

lemma clean_each: "(\<And>x. x \<in> set xs \<Longrightarrow> clean (f x)) \<Longrightarrow> clean (each f xs)"
  by (induction xs) (auto intro!: clean_seq)

lemma clean_collect: "(\<And>x. x \<in> set xs \<Longrightarrow> clean (f x)) \<Longrightarrow> clean (collect f xs)"
  by (induction xs) (auto intro!: clean_seq)

lemma clean_lifted: "clean m \<Longrightarrow> clean (in_store m)" "clean m' \<Longrightarrow> clean (in_files m')"
  by (auto simp: clean_def in_store_def in_files_def case_prod_beta)

lemma clean_clock [simp]:
  "clean (utcnow sv)" "clean (random_hex sv)" "clean (iso_in sv n)" "clean (iso_now sv)" "clean (now_stages sv a b c)"
  by (simp_all add: clean_def utcnow_def random_hex_def iso_now_def iso_in_def now_stages_def py_run)

lemmas clean_rules = clean_seq clean_each clean_collect clean_lifted clean_fail_if

section \<open>Reading values\<close>

lemma clean_py_int [simp]: "clean_exn (py_int v)"
  by (cases v) (auto split: option.split)

lemma clean_items [simp]: "clean_exn (item_of d k)" "clean_exn (string_of d k)" "clean_exn (int_of d k)"
  by (auto simp: item_of_def string_of_def int_of_def intro!: clean_exn_bind split: option.split json.split)

lemma clean_traverse: "(\<And>x. clean_exn (f x)) \<Longrightarrow> clean_exn (traverse f xs)"
  by (induction xs) (auto intro!: clean_exn_bind)

lemma clean_dicts [simp]: "clean_exn (dicts v)"
  unfolding dicts_def by (cases v) (auto intro!: clean_traverse split: json.split)

lemma clean_py_iter [simp]: "clean_exn (py_iter v)"
  by (cases v) auto

lemma clean_py_set [simp]: "clean_exn (py_set v)"
  using clean_py_iter [of v] by (cases "py_iter v") (auto simp: py_set_def)

lemma clean_in_set [simp]: "clean_exn (in_set x xs)"
  by (simp add: in_set_def)

lemma clean_subscribed [simp]: "clean_exn (subscribed e t)"
  using clean_py_set [of "py_or (dget e ''event_types'') (JArr [])"]
  by (cases "py_set (py_or (dget e ''event_types'') (JArr []))") (auto simp: subscribed_def)

lemma clean_store_values [simp]:
  "clean_exn (apply_fixed res fixed item)" "clean_exn (patch_without_id res f i u)" "clean_exn (with_revision run v)"
  by (induction res fixed item rule: apply_fixed.induct; auto simp: patch_without_id_def with_revision_def Let_def
      split: option.split)+

lemma clean_views [simp]:
  "clean_exn (output_ref env output)" "clean_exn (canceled_stages t v)" "clean_exn (other_refs run ot)"
  "clean_exn (output_lineage run l)" "clean_exn (output_refs env outputs)" "clean_exn (artifact_ref a)"
  "clean_exn (ticket_dict i aid url x art)" "clean_exn (is_open q)" "clean_exn (budget_of req)"
  "clean_exn (budget_usage b)" "clean_exn (initial_run p req r n v st us bk c es)"
  "clean_exn (new_dataset p req n)" "clean_exn (new_version p req u x n)"
  unfolding output_ref_def canceled_stages_def canceled_stage_def other_refs_def output_lineage_def
    policy_version_def output_refs_def artifact_ref_def ticket_dict_def is_open_def budget_of_def
    budget_usage_def initial_run_def new_dataset_def new_version_def
  by (auto intro!: clean_exn_bind clean_traverse split: json.split)

lemma clean_stage_completed [simp]: "clean_exn (stage_completed phase es)"
  by (induction es) (auto split: json.split)

lemma clean_any_open [simp]: "clean_exn (any_open qs)"
  by (induction qs) (auto intro!: clean_exn_bind)

lemma clean_event_selected [simp]: "clean_exn (event_selected n ts e)"
  by (auto simp: event_selected_def split: option.split)

lemma clean_select [simp]: "clean_exn (select_events n ts es)"
proof (induction es)
  case (Cons e es)
  then show ?case
    using clean_event_selected [of n ts e]
    by (cases "event_selected n ts e"; cases "select_events n ts es") auto
qed simp

section \<open>Operations of the store\<close>

lemma clean_new_id [simp]: "clean (new_id_locked p)" "clean (new_id_of_kind kind)" "clean (new_id kind)"
  by (auto simp: clean_def new_id_locked_def new_id_of_kind_def new_id_def Let_def py_run split: option.splits)

lemma clean_parts [simp]:
  "clean (create_locked get upd f kind res fixed v)" "clean (update_locked get upd f res i u)"
  "clean (get_locked get i)" "clean (require_run r)" "clean (need_sub tab k)" "clean (optional_run env item)"
  "clean (current_run r)" "clean (check_revision run e)" "clean (put_run r item)" "clean (list_of get)"
  "clean (list_where get f x)" "clean (ensure_sub tu k)"
  unfolding create_locked_def with_id_def insert_new_def update_locked_def get_locked_def require_run_def
    need_sub_def optional_run_def current_run_def check_revision_def put_run_def list_of_def list_where_def
    ensure_sub_def Let_def
  by (auto intro!: clean_rules split: json.split option.split)

lemma clean_insert_delivery [simp]: "clean (insert_delivery e v)" "clean (insert_version d v)"
  by (simp_all add: insert_delivery_def insert_version_def)

lemma clean_append [simp]: "clean (append_with_outbox env r v)" "clean (append_event env r v)"
  unfolding append_event_def append_with_outbox_def append_event_locked_def store_event_def replay_event_def
    append_webhook_deliveries_locked_def deliver_to_def enqueue_def Let_def
  by (auto intro!: clean_rules split: json.split option.split)

lemma clean_operations [simp]:
  "clean (create_run v)" "clean (update_run r u e b)" "clean (update_dataset_version k u)"
  "clean (create_output r v)" "clean (create_decision_packet r v)" "clean (update_decision_packet r k u)"
  "clean (create_command env v)" "clean (update_command k u)" "clean (create_artifact env v)"
  "clean (update_artifact k u)" "clean (finalize_run_with_result env r res u vs e)" "clean (get_events r n l ts)"
  "clean (get_run r)" "clean (list_outputs r)" "clean (list_decision_packets r)"
  unfolding create_run_def update_run_def update_dataset_version_def create_output_def create_decision_packet_def
    update_decision_packet_def create_command_def update_command_def create_artifact_def update_artifact_def
    finalize_run_with_result_def prepare_result_def store_result_def get_events_def get_run_def list_outputs_def
    list_decision_packets_def Let_def
  by (auto intro!: clean_rules split: json.split option.split)

lemma clean_create_dataset_with_version [simp]: "clean (create_dataset_with_version d v)"
proof -
  have "clean (\<lambda>s. case insert_version k v s of
         (Inl e, s') \<Rightarrow> (case k of JStr i \<Rightarrow> (Inl e, st_datasets_update (dpop i) s') | _ \<Rightarrow> (Inl e, s'))
       | (Inr ver, s') \<Rightarrow> (Inr (c, ver), s'))" for k and c :: jdict
    unfolding clean_def
  proof (intro allI impI)
    fix s e
    assume "fst (case insert_version k v s of
         (Inl e, s') \<Rightarrow> (case k of JStr i \<Rightarrow> (Inl e, st_datasets_update (dpop i) s') | _ \<Rightarrow> (Inl e, s'))
       | (Inr ver, s') \<Rightarrow> (Inr (c, ver), s')) = Inl e"
    then have "fst (insert_version k v s) = Inl e"
      by (auto split: prod.splits sum.splits json.splits)
    then show "\<not> problem e" using clean_insert_delivery(2) unfolding clean_def by blast
  qed
  then show ?thesis
    unfolding create_dataset_with_version_def create_dataset_def by (intro clean_seq) auto
qed

section \<open>Refused requests\<close>


text \<open>The computation does not change the store.\<close>

definition idle :: "(world, 'a) py \<Rightarrow> bool" where
  "idle m \<longleftrightarrow> (\<forall>w. w_store (post m w) = w_store w)"






lemma idle_seq: "idle m \<Longrightarrow> (\<And>x. idle (f x)) \<Longrightarrow> idle (seq m f)"
  unfolding idle_def seq_def by (auto split: prod.splits sum.splits) (metis snd_conv)+

lemma idle_basic [simp]:
  "idle (ret x)" "idle (raise e)" "idle (lift r)" "idle (fail_if c e)" "idle (utcnow sv)" "idle (random_hex sv)"
  "idle (iso_in sv n)" "idle (iso_now sv)" "idle (now_stages sv ph st finished)" "idle (in_files mf)"
  by (simp_all add: idle_def utcnow_def random_hex_def iso_now_def iso_in_def now_stages_def in_files_def
      case_prod_beta py_run)

lemma idle_read: "pure_read m \<Longrightarrow> idle (in_store m)"
  by (simp add: idle_def pure_read_def)

lemma idle_except: "idle m \<Longrightarrow> idle (except h m)"
  by (auto simp: idle_def except_def split: prod.split sum.split) (metis snd_conv)+

lemmas idle_rules = idle_seq idle_except pure_store_reads [THEN idle_read] pure_rules [THEN idle_read]

lemma idle_owned [simp]: "idle (owned_run p r)" "idle (owned_version p v)" "idle (owned_artifact p a)"
  unfolding owned_run_def owned_version_def owned_artifact_def by (auto intro!: idle_rules)

lemma clean_run_parts [simp]:
  "clean (emit sv run ot pl)" "clean (complete_stage sv run ph np refs b reason)"
  "clean (commit_output sv run ot ph summary pl refs)" "clean (new_command sv p r ct)"
  "clean (finish_command sv r command run)"
  unfolding complete_stage_def commit_output_def commit_output_with_def new_command_def finish_command_def emit_def
  by (auto intro!: clean_rules split: option.split)

lemma clean_run_steps [simp]:
  "clean (ingest_and_profile sv r)" "clean (ask_for_target sv p r output run)" "clean (accept_answer sv r n packet run)"
  "clean (commit_task_spec sv run column)" "clean (complete_run sv r task_output report_output run)"
  "clean (switch_run sv r run st actions)" "clean (cancel_run sv r run)"
  unfolding ingest_and_profile_def ask_for_target_def accept_answer_def commit_task_spec_def complete_run_def
    switch_run_def cancel_run_def supersede_def
  by (auto intro!: clean_rules split: json.split prod.split)
















end
