(* ===== verification/Workflow_Control.thy ===== *)
theory Workflow_Control
  imports Workflow_Guards
begin

text \<open>
  The effect of a command on a run: what a successful pause, resume or cancel request leaves in the
  store, and which requests are successful.
\<close>

section \<open>The state of a run\<close>

text \<open>The fields that say where a run stands; an event changes none of them.\<close>

definition run_state :: "jdict \<Rightarrow> json \<times> json \<times> json \<times> json" where
  "run_state run =
     (dget run ''status'', dget run ''outcome'', dget run ''available_actions'', dget run ''run_revision'')"

definition stands :: "string \<Rightarrow> json \<times> json \<times> json \<times> json \<Rightarrow> store \<Rightarrow> bool" where
  "stands r v s \<longleftrightarrow> wf_store s \<and> (\<exists>run. map_of (st_runs s) r = Some run \<and> run_state run = v)"

lemma stands_frame:
  assumes "\<And>s. keeps (log_frame s) m" and "keeps wf_store m"
  shows "keeps (stands r v) m"
proof (rule keepsI)
  fix s assume "stands r v s"
  with keepsD [OF assms(1) log_frame_refl, of s] keepsD [OF assms(2), of s] show "stands r v (post m s)"
    by (simp add: stands_def log_frame_def)
qed

lemma run_state_seq [simp]: "run_state (dput ''snapshot_seq'' n run) = run_state run"
  by (simp add: run_state_def)

lemma stands_after_event:
  assumes "stands r v s" and "map_of (st_runs s) q = Some run"
  shows "stands r v (after_event q run eid stored s)"
  using assms wf_after_event [of s q run eid stored] by (auto simp: stands_def after_event_def)

lemma stands_new_id: "stands r v s \<Longrightarrow> stands r v (post (new_id_locked p) s)"
  by (simp add: stands_def runs_new_id)

lemma after_event_new_id:
  "after_event q run eid stored (post (new_id_locked p) s) = post (new_id_locked p) (after_event q run eid stored s)"
  by (simp add: after_event_def new_id_locked_def Let_def log_of_def)

lemma stands_append: "keeps (stands r v) (append_with_outbox env q e)"
proof -
  have "triple (stands r v) (append_event_locked q e) (\<lambda>_. stands r v) (stands r v)"
    by (rule append_event_locked_triple)
       (auto simp: after_event_new_id stands_new_id stands_after_event intro: stands_def [THEN iffD1, THEN conjunct1])
  then have "keeps (stands r v) (append_event_locked q e)" by (simp only: keeps_iff_triple)
  moreover have "keeps (stands r v) (append_webhook_deliveries_locked env x)" for x
    by (rule stands_frame) (rule frame_outbox, rule wf_append_webhook_deliveries)
  ultimately show ?thesis
    unfolding append_with_outbox_def by (intro keeps_seq) (simp_all add: keeps_seq split: if_split)
qed

lemma update_run_Inr:
  assumes "update_run q u e b s = (Inr item, t)"
  shows "\<exists>current revision. map_of (st_runs s) q = Some current \<and>
    py_int (dget_or current ''run_revision'' (JInt 1)) = Inr revision \<and> (\<forall>n. e = Some n \<longrightarrow> n = revision) \<and>
    item = bumped b revision (dupdate current (protect_run (dpop ''run_id'' u))) \<and>
    t = st_runs_update (dput q item) s"
  using assms
  by (auto simp: update_run_def current_run_def check_revision_def py_run Let_def put_run_def
      dest!: patch_without_id_Inr split: option.splits sum.splits if_splits)

lemma stands_update_seq:
  "keeps (stands r v) (update_run q [(''snapshot_seq'', n), (''updated_at'', t)] None False)"
proof (rule keepsI)
  let ?u = "[(''snapshot_seq'', n), (''updated_at'', t)]"
  fix s assume s: "stands r v s"
  obtain res s' where run: "update_run q ?u None False s = (res, s')" by force
  show "stands r v (post (update_run q ?u None False) s)"
  proof (cases res)
    case (Inl e)
    then have "s' = s"
      using run by (auto simp: update_run_def current_run_def check_revision_def py_run Let_def put_run_def
        split: option.splits sum.splits)
    with s run show ?thesis by simp
  next
    case (Inr item)
    with run update_run_Inr obtain current revision where "map_of (st_runs s) q = Some current"
      and item: "item = bumped False revision (dupdate current (protect_run (dpop ''run_id'' ?u)))"
      and s': "s' = st_runs_update (dput q item) s" by blast
    moreover have "run_state item = run_state current"
      by (simp add: item bumped_def protect_run_def dupdate_def run_state_def)
    moreover have "wf_store s'" using keepsD [OF wf_update_run, of s q ?u None False] s run by (simp add: stands_def)
    ultimately show ?thesis using s run by (auto simp: stands_def)
  qed
qed

lemma stands_emit: "keeps (on_store (stands r v)) (emit sv run event_type payload)"
  unfolding emit_def append_event_def
  by (intro keeps_seq keeps_basic keeps_clock keeps_in_store stands_append stands_update_seq
      stands_frame frame_new_id_public wf_new_id_public)

lemma stands_finish: "keeps (on_store (stands r v)) (finish_command sv q command run)"
  unfolding finish_command_def
  by (intro keeps_seq keeps_basic keeps_clock keeps_in_store stands_frame frame_flat wf_update_flat)

section \<open>Pause and resume\<close>

lemma in_store_Inr: "in_store m w = (Inr x, w') \<longleftrightarrow> (\<exists>s. m (w_store w) = (Inr x, s) \<and> w' = w\<lparr>w_store := s\<rparr>)"
  by (auto simp: in_store_def split: prod.splits)

lemma iso_now_Inr [simp]: "iso_now sv w = (Inr t, w') \<Longrightarrow> w_store w' = w_store w"
  by (auto simp: iso_now_def iso_in_def utcnow_def py_run)

lemma int_of_dget: "int_of d k = Inr n \<Longrightarrow> py_int (dget d k) = Inr n"
  by (auto simp: int_of_def item_of_def exn_bind_Inr dget_def split: option.splits)

lemma switch_run_stands:
  assumes run: "switch_run sv r run st actions w = (Inr run', w')" and wf: "wf_store (w_store w)"
  shows "\<exists>n. py_int (dget run ''run_revision'') = Inr n \<and>
    stands r (JStr st, JNull, strs actions, JInt (n + 1)) (w_store w')"
proof -
  obtain blocking stage_list now n item w1 phase w2 where n: "int_of run ''run_revision'' = Inr n"
    and same: "w_store w1 = w_store w"
    and update: "in_store (update_run r
            [(''status'', JStr st), (''outcome'', JNull), (''available_actions'', strs actions),
             (''blocking'', blocking), (''stages'', stage_list), (''updated_at'', JStr now)]
            (Some n) True) w1 = (Inr item, w2)"
    and emit: "emit sv item ''run.phase_changed.v1''
         [(''previous_phase'', phase), (''phase'', phase), (''status'', JStr st)] w2 = (Inr run', w')"
    using run unfolding switch_run_def by (auto elim!: seq_Inr dest!: iso_now_Inr)
  let ?u = "[(''status'', JStr st), (''outcome'', JNull), (''available_actions'', strs actions),
             (''blocking'', blocking), (''stages'', stage_list), (''updated_at'', JStr now)]"
  obtain s where s: "update_run r ?u (Some n) True (w_store w) = (Inr item, s)" and w2: "w2 = w1\<lparr>w_store := s\<rparr>"
    using update same by (auto simp: in_store_Inr)
  obtain current where item: "item = bumped True n (dupdate current (protect_run (dpop ''run_id'' ?u)))"
    and t: "s = st_runs_update (dput r item) (w_store w)"
    using update_run_Inr [OF s] by auto
  have "run_state item = (JStr st, JNull, strs actions, JInt (n + 1))"
    by (simp add: item bumped_def protect_run_def dupdate_def run_state_def)
  moreover have "wf_store s" using keepsD [OF wf_update_run wf, of r ?u "Some n" True] s by simp
  ultimately have "stands r (JStr st, JNull, strs actions, JInt (n + 1)) (w_store w2)"
    using t w2 by (auto simp: stands_def)
  then have "stands r (JStr st, JNull, strs actions, JInt (n + 1)) (w_store (post (emit sv item ''run.phase_changed.v1''
         [(''previous_phase'', phase), (''phase'', phase), (''status'', JStr st)]) w2))"
    by (rule keepsD [OF stands_emit])
  with emit int_of_dget [OF n] show ?thesis by auto
qed

section \<open>Cancellation\<close>

lemma check_revision_exact:
  "(\<And>s. P s \<Longrightarrow> E s) \<Longrightarrow> triple P (check_revision run (Some n)) (\<lambda>m s. P s \<and> m = n) E"
  by (auto simp: triple_def check_revision_def py_run split: option.splits sum.splits)

lemma finalize_stands:
  assumes patched: "\<And>current. run_state (bumped True n (dupdate current (protect_run (dpop ''run_id'' u)))) = v"
  shows "triple wf_store (finalize_run_with_result env r result u events (Some n))
    (\<lambda>(run, res, _) s. map_of (st_runs s) r = Some run \<and> stands r v s) (\<lambda>_. True)"
  unfolding finalize_run_with_result_def Let_def
  apply (rule triple_seq, rule current_run_triple, simp)
  apply (rule triple_seq, rule check_revision_exact, simp)
  apply (rule triple_seq, rule prepare_result_triple, simp, simp)
  apply (rule triple_seq, rule store_result_triple
      [where Q = "\<lambda>s. wf_store s \<and> m = n \<and> map_of (st_runs s) r = Some run" for m run])
  apply (simp add: wf_put_result has_key_def, simp)
  apply (rule triple_seq, rule triple_lift_eq, simp)
  apply (rule triple_seq, rule put_run_triple [where Q = "\<lambda>_. stands r v"])
  apply (auto intro: wf_patch_run simp: stands_def patched dest!: patch_without_id_Inr) [1]
  apply (rule triple_seq, rule triple_weaken [OF keeps_collect [THEN keeps_iff_triple [THEN iffD1]]])
  apply (rule keeps_seq, simp, rule stands_append, assumption, assumption, simp)
  apply (rule triple_seq, rule current_run_triple, simp)
  apply (rule triple_ret, simp)
  done

text \<open>The stored result is the one of the request, with an identifier of its own at most.\<close>

lemma result_same:
  "keeps (\<lambda>s :: store. map_of (st_results s) r = x) (append_with_outbox env q e)"
proof (rule keepsI)
  fix s :: store assume "map_of (st_results s) r = x"
  with keepsD [OF ledger_append(2), of s s] show "map_of (st_results (post (append_with_outbox env q e) s)) r = x"
    by (simp add: ledger_def)
qed

lemma weaker_error: "keeps P m \<Longrightarrow> triple P m (\<lambda>_. P) (\<lambda>_. True)"
  by (rule triple_weaken [OF keeps_iff_triple [THEN iffD1]]) auto

lemma finalize_stores_field:
  assumes f: "f \<noteq> ''result_manifest_id''" "f \<noteq> ''run_id''"
  shows "triple (\<lambda>_. True) (finalize_run_with_result env r result u events e)
    (\<lambda>_ s. \<exists>res. map_of (st_results s) r = Some res \<and> dget res f = dget result f) (\<lambda>_. True)"
proof -
  let ?P = "\<lambda>s :: store. \<exists>res. map_of (st_results s) r = Some res \<and> dget res f = dget result f"
  have keep: "keeps ?P m" if "\<And>x. keeps (\<lambda>s :: store. map_of (st_results s) r = x) m" for m :: "(store, 'a) py"
  proof (rule keepsI)
    fix s :: store assume "?P s"
    with keepsD [OF that, of s "map_of (st_results s) r"] show "?P (post m s)" by simp
  qed
  have prepared: "triple (\<lambda>_. True) (prepare_result r result) (\<lambda>res _. dget res f = dget result f) (\<lambda>_. True)"
    using f by (auto simp: prepare_result_def triple_def py_run Let_def dset_default_def dget_dput split: prod.splits sum.splits)
  show ?thesis
    unfolding finalize_run_with_result_def Let_def
    apply (rule triple_seq, rule current_run_triple, simp)
    apply (rule triple_seq, rule check_revision_triple, simp)
    apply (rule triple_seq, rule triple_weaken [OF prepared], simp, assumption, simp)
    apply (rule triple_seq, rule store_result_triple [where Q = ?P], simp, simp)
    apply (rule weaker_error)
    apply (rule keep)
    apply (auto intro!: keeps_seq keeps_reads keeps_collect result_same simp: put_run_def intro: keeps_modify)
    done
qed

lemma finalize_stores_result:
  "triple (\<lambda>_. True) (finalize_run_with_result env r result u events e)
    (\<lambda>_ s. \<exists>res. map_of (st_results s) r = Some res \<and> dget res ''outcome'' = dget result ''outcome'') (\<lambda>_. True)"
  by (rule finalize_stores_field) simp_all

lemma triple_in_store:
  "triple P m Q E \<Longrightarrow> triple (on_store P) (in_store m) (\<lambda>x w. Q x (w_store w)) (on_store E)"
  by (fastforce simp: triple_def in_store_def split: prod.splits sum.splits)

lemma triple_both:
  "triple P m Q (\<lambda>_. True) \<Longrightarrow> triple P' m Q' (\<lambda>_. True) \<Longrightarrow>
     triple (\<lambda>s. P s \<and> P' s) m (\<lambda>x s. Q x s \<and> Q' x s) (\<lambda>_. True)"
  by (fastforce simp: triple_def split: prod.splits sum.splits)

lemma triple_given: "(c \<Longrightarrow> triple P m Q E) \<Longrightarrow> triple (\<lambda>s. P s \<and> c) m Q E"
  by (simp add: triple_def)

lemma wf_supersede: "keeps (on_store wf_store) (supersede r packet)"
  unfolding supersede_def by (auto intro!: keeps_seq keeps_basic keeps_in_store wf_operations)

lemma cancel_run_stands:
  "triple (on_store wf_store) (cancel_run sv r run)
    (\<lambda>_ w. \<exists>n. py_int (dget run ''run_revision'') = Inr n \<and>
      stands r (JStr ''TERMINAL'', JStr ''CANCELED'', JArr [], JInt (n + 1)) (w_store w) \<and>
      (\<exists>res. map_of (st_results (w_store w)) r = Some res \<and> dget res ''outcome'' = JStr ''CANCELED''))
    (\<lambda>_. True)"
proof -
  note keep = weaker_error [where P = "on_store wf_store"]
  note canceled = triple_in_store [OF triple_both [OF finalize_stands finalize_stores_result]]
  show ?thesis
    unfolding cancel_run_def Let_def
    apply (rule triple_seq, rule keep, rule keeps_pure_store, rule pure_store_reads)
    apply (rule triple_seq, rule keep, rule keeps_each, rule wf_supersede)
    apply (rule triple_seq, rule keep, rule keeps_pure_store, rule pure_store_reads)
    apply (rule triple_seq, rule keep, rule keeps_clock)
    apply (rule triple_seq, rule keep, rule keeps_in_store, rule wf_operations)
    apply (rule triple_seq, rule keep, rule keeps_basic)
    apply (rule triple_seq, rule keep, rule keeps_basic)
    apply (rule triple_seq, rule keep, rule keeps_clock)
    apply (rule triple_seq, rule keep, rule keeps_basic)
    apply (rule triple_seq, rule keep, rule keeps_basic)
    apply (rule triple_seq, rule triple_lift_eq, simp)
    apply (rule triple_given)
    apply (rule triple_seq, rule triple_weaken [OF canceled])
    apply (simp add: bumped_def protect_run_def dupdate_def run_state_def)
    apply simp
    apply (rotate_tac 1, assumption)
    apply simp
    apply (case_tac xk)
    apply (auto simp: cancel_result_def triple_def ret_def dget_def dest: int_of_dget)
    done
qed

section \<open>The effect of a command\<close>

text \<open>Where a run stands after a command that the service accepted.\<close>

definition commanded :: "string \<Rightarrow> json \<times> json \<times> json \<Rightarrow> bool" where
  "commanded command_type v \<longleftrightarrow>
     (if command_type = ''PAUSE'' then v = (JStr ''PAUSED'', JNull, strs [''RESUME'', ''CANCEL''])
      else if command_type = ''RESUME''
      then \<exists>b. v = (JStr (fst (resumed b)), JNull, strs (snd (resumed b)))
      else v = (JStr ''TERMINAL'', JStr ''CANCELED'', JArr []))"

definition act_on :: "workflow_service \<Rightarrow> string \<Rightarrow> jdict \<Rightarrow> string \<Rightarrow> (world, jdict) py" where
  "act_on sv r run c =
     (if c = ''PAUSE'' then switch_run sv r run ''PAUSED'' [''RESUME'', ''CANCEL'']
      else if c = ''RESUME''
      then seq (in_store (list_decision_packets r)) (\<lambda>packets.
           seq (lift (any_open packets)) (\<lambda>b. case resumed b of (st, actions) \<Rightarrow> switch_run sv r run st actions))
      else cancel_run sv r run)"

lemma control_acts:
  "control sv p r c revision =
     seq (owned_run p r) (\<lambda>run. seq (lift (check_control run c revision)) (\<lambda>_.
     seq (new_command sv p r c) (\<lambda>command. seq (act_on sv r run c) (finish_command sv r command))))"
  by (simp add: control_def act_on_def)

lemma wf_new_command: "keeps (on_store wf_store) (new_command sv p r c)"
  unfolding new_command_def by (intro keeps_seq keeps_clock keeps_in_store wf_operations)

lemma packets_same: "in_store (list_decision_packets r) w = (Inr packets, w1) \<Longrightarrow> w_store w1 = w_store w"
  using keepsD [OF keeps_pure_store [OF pure_store_reads(9)], of "\<lambda>s. s = w_store w" w r] by simp

lemma act_on_stands:
  assumes act: "act_on sv r run c w = (Inr run', w')" and wf: "wf_store (w_store w)"
  shows "\<exists>n v. py_int (dget run ''run_revision'') = Inr n \<and> commanded c v \<and>
    stands r (fst v, fst (snd v), snd (snd v), JInt (n + 1)) (w_store w')"
proof -
  consider (pause) "c = ''PAUSE''" | (resume) "c = ''RESUME''" | (cancel) "c \<noteq> ''PAUSE''" "c \<noteq> ''RESUME''" by blast
  then show ?thesis
  proof cases
    case pause
    with act switch_run_stands [OF _ wf] show ?thesis by (fastforce simp: act_on_def commanded_def)
  next
    case resume
    then obtain b w1 where same: "w_store w1 = w_store w"
      and switch: "switch_run sv r run (fst (resumed b)) (snd (resumed b)) w1 = (Inr run', w')"
      using act unfolding act_on_def
      by (auto simp: lift_def ret_def raise_def case_prod_beta dest!: packets_same elim!: seq_Inr split: sum.splits)
    from switch_run_stands [OF switch] same wf resume show ?thesis by (fastforce simp: commanded_def)
  next
    case cancel
    with act have "cancel_run sv r run w = (Inr run', w')" by (simp add: act_on_def)
    from triple_Inr [OF cancel_run_stands wf this] cancel show ?thesis by (fastforce simp: commanded_def)
  qed
qed

text \<open>
  C16. What an accepted command does to the run. A pause, resume or cancel request that returns found
  the run under the principal's tenant, not terminal, with the command among its available actions,
  at the revision the request named (if it named one), and, for a resume, paused; it leaves the run
  in the status, outcome and actions of the command, exactly one revision later.
\<close>

theorem control_effect:
  assumes "control sv p r c revision w = (Inr command, w')" and "wf_store (w_store w)"
  shows "\<exists>run n v. map_of (st_runs (w_store w)) r = Some run \<and> owned (Some run) p = Inr run \<and>
    check_control run c revision = Inr () \<and> py_int (dget run ''run_revision'') = Inr n \<and>
    commanded c v \<and> stands r (fst v, fst (snd v), snd (snd v), JInt (n + 1)) (w_store w')"
proof -
  obtain run started w1 run' w2 where run: "map_of (st_runs (w_store w)) r = Some run"
      "dget run ''tenant_id'' = JStr (tenant_id p)" "check_control run c revision = Inr ()"
    and start: "new_command sv p r c w = (Inr started, w1)"
    and act: "act_on sv r run c w1 = (Inr run', w2)"
    and finish: "finish_command sv r started run' w2 = (Inr command, w')"
    using assms(1) unfolding control_acts by (auto simp: owned_run_Inr elim!: seq_Inr)
  have "wf_store (w_store w1)" using keepsD [OF wf_new_command assms(2), of sv p r c] start by simp
  from act_on_stands [OF act this] obtain n v where n: "py_int (dget run ''run_revision'') = Inr n"
    and v: "commanded c v" and s2: "stands r (fst v, fst (snd v), snd (snd v), JInt (n + 1)) (w_store w2)"
    by auto
  from keepsD [OF stands_finish, of r "(fst v, fst (snd v), snd (snd v), JInt (n + 1))" w2 sv r started run'] s2 finish
  have "stands r (fst v, fst (snd v), snd (snd v), JInt (n + 1)) (w_store w')" by simp
  with run n v show ?thesis by (intro exI [of _ run] exI [of _ n] exI [of _ v]) (simp add: owned_Inr)
qed

end
