(* ===== verification/Durable_Effects.thy ===== *)
theory Durable_Effects
  imports Durable_Laws Workflow_Control
begin

text \<open>
  What the steps of a durable job do: a run that fails, the fence around what a worker publishes, the
  repeated publication of a stage, and who may answer which question.
\<close>

section \<open>Failing a run\<close>

lemma wf_emit: "keeps (on_store wf_store) (emit sv run event_type payload)"
  unfolding emit_def by (intro keeps_seq keeps_basic keeps_clock keeps_in_store wf_operations)

lemma wf_output_for_type: "keeps wf_store (output_for_type r t n)"
  by (rule pure_read_keeps [OF pure_output_for_type])

lemma update_run_names:
  "triple wf_store (update_run r u e b) (\<lambda>item s. wf_store s \<and> string_of item ''run_id'' = Inr r) (\<lambda>_. True)"
  unfolding triple_def
proof (intro allI impI)
  fix s assume wf: "wf_store s"
  show "case update_run r u e b s of (Inl _, s') \<Rightarrow> True | (Inr x, s') \<Rightarrow> wf_store s' \<and> string_of x ''run_id'' = Inr r"
    using keepsD [OF wf_update_run wf, of r u e b] update_run_id [OF _ wf, of r u e b]
    by (auto simp: string_of_def item_of_def split: prod.split sum.split)
qed

lemma commit_output_names:
  assumes "string_of run ''run_id'' = Inr r"
  shows "triple (on_store wf_store) (commit_output_with sv run output_type p summary payload refs lineage)
    (\<lambda>(output, run') w. on_store wf_store w \<and> string_of run' ''run_id'' = Inr r) (\<lambda>_. True)"
  unfolding commit_output_with_def
  apply (rule triple_seq, rule weaker_error, intro keeps_in_store wf_operations)
  apply (rule triple_seq, rule weaker_error, rule keeps_basic)
  apply (rule triple_seq, rule triple_lift_eq, simp, rule triple_given)
  apply (rule triple_seq, rule weaker_error, rule keeps_basic)
  apply (rule triple_seq, rule weaker_error, rule keeps_basic)
  apply (rule triple_seq, rule weaker_error, rule keeps_basic)
  apply (rule triple_seq, rule weaker_error, rule keeps_clock)
  apply (rule triple_seq, rule weaker_error, intro keeps_in_store wf_operations)
  apply (rule triple_seq, rule weaker_error, rule keeps_basic)
  apply (rule triple_seq, rule weaker_error, rule wf_emit)
  apply (rule triple_seq, rule weaker_error, rule keeps_basic)
  apply (rule triple_seq, rule triple_in_store [OF update_run_names])
  apply (rule triple_ret, simp add: assms)
  done

lemma failure_report_names:
  assumes run: "string_of run ''run_id'' = Inr r"
  shows "triple (on_store wf_store) (failure_report sv run code message retriable)
    (\<lambda>(output, run') w. on_store wf_store w \<and> string_of run' ''run_id'' = Inr r) (\<lambda>_. True)"
  unfolding failure_report_def commit_output_def
  apply (rule triple_seq, rule weaker_error, rule keeps_basic)
  apply (rule triple_seq, rule weaker_error, rule keeps_in_store, rule wf_output_for_type)
  apply (split option.split, intro conjI impI allI)
  apply (rule triple_seq, rule weaker_error, rule keeps_basic)
  apply (rule triple_seq, rule weaker_error, rule keeps_pure_store, rule pure_store_reads)
  apply (rule triple_seq, rule weaker_error, rule keeps_basic)
  apply (rule commit_output_names [OF run])
  apply (rule triple_ret, simp add: run)
  done

text \<open>Where a failed run stands, and its result.\<close>

definition failed_run :: "string \<Rightarrow> store \<Rightarrow> bool" where
  "failed_run r s \<longleftrightarrow>
     (\<exists>n. stands r (JStr ''TERMINAL'', JStr ''FAILED'', JArr [], JInt n) s) \<and>
     (\<exists>res. map_of (st_results s) r = Some res \<and> dget res ''outcome'' = JStr ''FAILED'')"

lemma fail_run_closes:
  assumes run: "string_of run ''run_id'' = Inr r"
  shows "triple (on_store wf_store) (fail_run sv run code message retriable) (\<lambda>_. on_store (failed_run r)) (\<lambda>_. True)"
proof -
  note keep = weaker_error [where P = "on_store wf_store"]
  note closed = triple_in_store [OF triple_both [OF finalize_stands finalize_stores_result]]
  have rest: "triple (on_store wf_store)
     (seq (lift (string_of run ''run_id'')) (\<lambda>run_id.
     seq (in_store (list_outputs run_id)) (\<lambda>outputs.
     seq (iso_now sv) (\<lambda>completed_at.
     seq (lift (output_refs (sv_env sv) outputs)) (\<lambda>refs.
     seq (lift (item_of failure_output ''output_id'')) (\<lambda>evidence.
     seq (lift (output_ref (sv_env sv) failure_output)) (\<lambda>ref.
     seq (lift (int_of run ''run_revision'')) (\<lambda>revision.
     seq (lift (item_of run ''phase'')) (\<lambda>p.
     seq (in_store (finalize_run_with_result (sv_env sv) run_id
            (failure_result run_id code message retriable refs evidence completed_at)
            [(''status'', JStr ''TERMINAL''), (''outcome'', JStr ''FAILED''), (''execution_step'', JStr ''FAILED''),
             (''blocking'', no_blocking), (''available_actions'', JArr []), (''latest_output_refs'', JArr [ref]),
             (''updated_at'', JStr completed_at)]
            [run_event run_id completed_at ''run.failed.v1''
               [(''outcome'', JStr ''FAILED''), (''failure_code'', JStr code), (''retriable'', JBool retriable),
                (''result_href'', JStr (run_href run_id @ ''/result'')), (''phase'', p)]]
            (Some revision))) (\<lambda>_. ret ()))))))))))
     (\<lambda>_. on_store (failed_run r)) (\<lambda>_. True)"
    if "string_of run ''run_id'' = Inr r" for run failure_output
    apply (simp only: that)
    apply (rule triple_seq, rule triple_lift_eq, simp, rule triple_given, simp)
    apply (rule triple_seq, rule keep, rule keeps_pure_store, rule pure_store_reads)
    apply (rule triple_seq, rule keep, rule keeps_clock)
    apply (rule triple_seq, rule keep, rule keeps_basic)
    apply (rule triple_seq, rule keep, rule keeps_basic)
    apply (rule triple_seq, rule keep, rule keeps_basic)
    apply (rule triple_seq, rule keep, rule keeps_basic)
    apply (rule triple_seq, rule keep, rule keeps_basic)
    apply (rule triple_seq, rule triple_weaken [OF closed])
    apply (simp add: bumped_def protect_run_def dupdate_def run_state_def)
    apply simp
    apply (rotate_tac 1, assumption)
    apply simp
    apply (rule triple_ret)
    apply (auto simp: failure_result_def failed_run_def dget_def)
    done
  show ?thesis
    unfolding fail_run_def
    apply (rule triple_seq, rule failure_report_names [OF run])
    apply (simp only: split_beta)
    apply (rule triple_given)
    apply (erule rest)
    done
qed


section \<open>The fence\<close>

text \<open>Whether the row of the job still admits the token that the worker holds.\<close>

definition admits :: "rat \<Rightarrow> job \<Rightarrow> job \<Rightarrow> bool" where
  "admits now j row \<longleftrightarrow>
     job_status row = LEASED \<and> lease_generation row = lease_generation j \<and> control_epoch row = control_epoch j \<and>
     (case lease_expires_at row of None \<Rightarrow> False | Some t \<Rightarrow> now < t)"

definition overtaken :: "engine \<Rightarrow> job \<Rightarrow> durable_world \<Rightarrow> bool" where
  "overtaken en j d \<longleftrightarrow>
     (case map_of (dw_jobs d) (job_run_id j) of
        None \<Rightarrow> True | Some row \<Rightarrow> \<not> admits (en_clock en (dw_transactions d) 0) j row)"

lemma fence_refuses:
  assumes "case map_of (job_rows q) r of None \<Rightarrow> True | Some row \<Rightarrow> \<not> admits now j row"
  shows "\<exists>e. require_job_fence now r (lease_generation j) (control_epoch j) q = (Inl e, q) \<and> engine_error e = None"
proof (cases "map_of (job_rows q) r")
  case (Some row)
  then show ?thesis
    using assms by (cases "lease_expires_at row")
      (auto simp: require_job_fence_def find_job_def py_run admits_def Let_def)
qed (simp add: require_job_fence_def find_job_def py_run)

lemma renew_overtaken:
  assumes "overtaken en j d"
  shows "\<exists>e. on_jobs en (\<lambda>clk. renew_execution_job (en_sql en) clk (job_run_id j) (lease_generation j)
      (control_epoch j) seconds) d = (Inl e, d\<lparr>dw_transactions := Suc (dw_transactions d)\<rparr>) \<and> engine_error e = None"
proof -
  let ?q = "\<lparr>mem = w_store (dw_world d), disk = None, job_rows = dw_jobs d, closed = False\<rparr>"
  obtain e where e: "require_job_fence (en_clock en (dw_transactions d) 0) (job_run_id j) (lease_generation j) (control_epoch j) ?q
      = (Inl e, ?q)" "engine_error e = None"
    using fence_refuses [where q = ?q and r = "job_run_id j" and j = j] assms by (auto simp: overtaken_def)
  then show ?thesis
    by (simp add: on_jobs_def renew_execution_job_def transaction_def ensure_open_def seq_def fail_if_def raise_def ret_def)
qed

text \<open>
  C6. A worker that lost its lease publishes nothing. When the row of its job no longer admits its token (another worker
  took the job over, the job was woken by a command, or the lease ran out), neither the result of its
  training nor a stage of it reaches the store: the attempt raises and leaves runs, outputs, files
  and jobs exactly as they are.
\<close>

theorem overtaken_worker_publishes_nothing:
  assumes "overtaken en j d"
  shows "(\<exists>e. end_training ds en j seconds (job_run_id j) (Evaluated result) d
            = (Inl e, d\<lparr>dw_transactions := Suc (dw_transactions d)\<rparr>)) \<and>
    (\<exists>e. publish_backend_stage ds en (\<lambda>_ d. d) k j seconds (job_run_id j) call d
            = (Inl e, d\<lparr>dw_transactions := Suc (dw_transactions d)\<rparr>))"
  using renew_overtaken [OF assms, of seconds]
  by (auto simp: end_training_def publish_backend_stage_def meanwhile_def py_run)

text \<open>
  The adapters of AutoGluon and TabPFN make the second callback where every exception becomes an engine error, the
  refusal of the fence included. What the workflow then does to the run has no fence of its own.
\<close>

lemma native_backend_hides_the_fence:
  assumes "overtaken en j d" and "trains_natively backend"
  shows "ended (seq (run_callbacks ds en (\<lambda>_ d. d) k j seconds (job_run_id j) backend [(''TRAIN'', snapshot)]) (\<lambda>_. ret x)) d
    = (Inr (Fails (EngineErr ''MODEL_TRAINING_FAILED'' (training_message backend))),
       d\<lparr>dw_transactions := Suc (dw_transactions d)\<rparr>)"
proof -
  obtain e where e: "publish_backend_stage ds en (\<lambda>_ d. d) k j seconds (job_run_id j) (''TRAIN'', snapshot) d
      = (Inl e, d\<lparr>dw_transactions := Suc (dw_transactions d)\<rparr>)" and none: "engine_error e = None"
    using renew_overtaken [OF assms(1), of seconds]
    by (auto simp: publish_backend_stage_def meanwhile_def py_run)
  have "\<not> passes_through e" using none by (cases e) auto
  with e assms(2) show ?thesis by (simp add: ended_def except_def callback_error_def seq_def)
qed

lemma fail_training_closes:
  assumes "fail_training sv r code message w = (Inr res, w')" and "wf_store (w_store w)"
    and "map_of (st_runs (w_store w)) r = Some run"
  shows "failed_run r (w_store w')"
proof -
  obtain u where fail: "fail_run sv run code message False w = (Inr u, w')"
    using assms(1,3) by (auto simp: fail_training_def in_store_def get_run_def get_locked_def py_run split: prod.splits sum.splits)
  have "string_of run ''run_id'' = Inr r" using wf_run_id [OF assms(2,3)] by (simp add: string_of_def item_of_def)
  from triple_Inr [OF fail_run_closes [OF this] assms(2) fail] show ?thesis .
qed

text \<open>
  C39. A worker that was overtaken while AutoGluon or TabPFN was training fails the run that another worker is executing:
  the refused publication of the stage becomes a training error, which closes the run without the fence.
\<close>

theorem stale_native_worker_fails_run:
  assumes "overtaken en j d" and "trains_natively backend"
    and "ended (seq (run_callbacks ds en (\<lambda>_ d. d) k j seconds (job_run_id j) backend [(''TRAIN'', snapshot)]) (\<lambda>_. ret x)) d
        = (Inr outcome, d1)"
    and "end_training ds en j seconds (job_run_id j) outcome d1 = (Inr res, d2)"
    and "wf_store (w_store (dw_world d))" and "map_of (st_runs (w_store (dw_world d))) (job_run_id j) = Some run"
  shows "failed_run (job_run_id j) (w_store (dw_world d2))"
proof -
  have "outcome = Fails (EngineErr ''MODEL_TRAINING_FAILED'' (training_message backend))" and d1: "dw_world d1 = dw_world d"
    using assms(3) native_backend_hides_the_fence [OF assms(1,2)] by auto
  then obtain w' where fail: "fail_training (ds_service ds) (job_run_id j) ''MODEL_TRAINING_FAILED'' (training_message backend)
      (dw_world d) = (Inr res, w')" and "d2 = d1\<lparr>dw_world := w'\<rparr>"
    using assms(4) by (auto simp: end_training_def on_world_def split: prod.splits)
  with fail_training_closes [OF fail assms(5,6)] show ?thesis by simp
qed

section \<open>What the handler does with a job\<close>

text \<open>
  A job whose run is over or waits for an approval is done, one whose run is paused or waits for an answer is put
  back with its step and its checkpoint; in both cases nothing else happens.
\<close>

theorem blocked_run_is_left_alone:
  assumes "map_of (st_runs (w_store (dw_world d))) (job_run_id j) = Some run"
  shows "(dget run ''status'' \<in> {JStr ''TERMINAL'', JStr ''WAITING_APPROVAL''} \<longrightarrow>
      handle_execution_job ds en others seconds j d = (Inr CompleteResult, d)) \<and>
    (dget run ''status'' \<in> {JStr ''PAUSED'', JStr ''WAITING_USER''} \<longrightarrow>
      handle_execution_job ds en others seconds j d = (checkpoint_result (workflow_step j) ''WAITING'' (checkpoint j), d))"
  using assms
  by (auto simp: handle_execution_job_def on_world_def in_store_def get_run_def get_locked_def py_run split: sum.split)

text \<open>
  The resolved task queues the training. When the step returns for a run that is not over, the run is queued for its
  training, with the actions of a queued run and no pending command, whatever its status was when the
  lock was taken: a pause that came in between is overwritten.
\<close>

lemma queue_training_stands:
  assumes "queue_training sv r extra bump w = (Inr run, w')" and "extra = [] \<or> extra = [(''pending_command_id'', JNull)]"
  shows "map_of (st_runs (w_store w')) r = Some run \<and> dget run ''status'' = JStr ''QUEUED'' \<and>
    dget run ''available_actions'' = strs [''PAUSE'', ''CANCEL''] \<and> dget run ''execution_step'' = JStr ''TRAIN''"
proof -
  obtain now w1 where update: "in_store (update_run r
         ([(''phase'', JStr ''PLAN''), (''status'', JStr ''QUEUED''), (''execution_step'', JStr ''TRAIN''),
           (''progress'', progress 40 ''QUEUED'' ''Planning step queued''),
           (''available_actions'', strs [''PAUSE'', ''CANCEL''])] @ extra @ [(''updated_at'', JStr now)]) None bump) w1
       = (Inr run, w')"
    using assms(1) unfolding queue_training_def by (auto elim!: seq_Inr dest!: iso_now_Inr)
  from assms(2) show ?thesis
    by (elim disjE) (use update in \<open>auto simp: in_store_Inr bumped_def protect_run_def dupdate_def dget_def dest!: update_run_Inr\<close>)
qed

theorem resolved_task_queues_training:
  assumes "resolved_section sv r w = (Inr res, w')" and "map_of (st_runs (w_store w)) r = Some run"
    and "dget run ''status'' \<noteq> JStr ''TERMINAL''"
  shows "res = CheckpointResult ''TRAIN'' ''READY'' [(''answers_applied'', JBool True)] \<and>
    (\<exists>run'. map_of (st_runs (w_store w')) r = Some run' \<and> dget run' ''status'' = JStr ''QUEUED'' \<and>
      dget run' ''available_actions'' = strs [''PAUSE'', ''CANCEL''] \<and> dget run' ''execution_step'' = JStr ''TRAIN'')"
proof -
  have command: "st_runs t = st_runs s" if "update_command k u s = (Inr x, t)" for k u s x t
    using keepsD [OF frame_flat(2), of s s k u] that by (simp add: log_frame_def)
  obtain run' w1 where queued: "queue_training sv r [(''pending_command_id'', JNull)] False w = (Inr run', w1)"
    and same: "st_runs (w_store w') = st_runs (w_store w1)"
    and res: "res = CheckpointResult ''TRAIN'' ''READY'' [(''answers_applied'', JBool True)]"
    using assms unfolding resolved_section_def with_open_run_def Let_def
    apply (auto simp: ret_def get_run_def get_locked_def gets_def in_store_Inr item_of_def dget_def checkpoint_result_def
        elim!: seq_Inr split: if_splits option.splits dest!: iso_now_Inr command)
    done
  show ?thesis using queue_training_stands [OF queued] same res by auto
qed

section \<open>Who may answer\<close>

lemma low_risk_options:
  "low_risk options vs \<Longrightarrow> v \<in> set vs \<Longrightarrow> \<exists>opt \<in> set options. same_value (dget opt ''value'') v \<and> dget opt ''risk'' = JStr ''LOW''"
proof (induction vs)
  case (Cons u vs)
  obtain opt where "filter (\<lambda>opt. same_value (dget opt ''value'') u) options \<noteq> []"
    and "opt = hd (filter (\<lambda>opt. same_value (dget opt ''value'') u) options)" and "dget opt ''risk'' = JStr ''LOW''"
    using Cons.prems(1) by (auto split: list.splits)
  moreover from this have "opt \<in> set (filter (\<lambda>opt. same_value (dget opt ''value'') u) options)"
    by (metis hd_in_set)
  ultimately show ?case using Cons by (auto split: list.splits)
qed simp

text \<open>The values that a question recommends.\<close>

definition recommended_values :: "jdict \<Rightarrow> json list" where
  "recommended_values question =
     (if dget question ''selection_mode'' = JStr ''MULTIPLE''
      then (case dget question ''recommendation'' of JArr vs \<Rightarrow> vs | _ \<Rightarrow> []) else [dget question ''recommendation''])"

lemma agent_may_answer_True:
  assumes "agent_may_answer question = Inr True"
  shows "dget question ''recommendation'' \<noteq> JNull \<and> (\<exists>options. dicts (dget question ''options'') = Inr options \<and>
    (\<forall>v \<in> set (recommended_values question). \<exists>opt \<in> set options.
       same_value (dget opt ''value'') v \<and> dget opt ''risk'' = JStr ''LOW''))"
  using assms low_risk_options
  by (fastforce simp: agent_may_answer_def recommended_values_def exn_bind_Inr Let_def split: json.splits if_splits)

lemma all_agent_answerable_True: "all_agent_answerable qs = Inr True \<Longrightarrow> q \<in> set qs \<Longrightarrow> agent_may_answer q = Inr True"
  by (induction qs) (auto simp: exn_bind_Inr split: if_splits)

lemma agent_allowed:
  assumes "decision_resolution_policy run questions = Inr ''AGENT_ALLOWED''" and "q \<in> set questions"
  shows "agent_may_answer q = Inr True"
proof -
  have "all_agent_answerable questions = Inr True"
    using assms(1) by (auto simp: decision_resolution_policy_def exn_bind_Inr split: if_splits)
  with assms(2) show ?thesis by (rule all_agent_answerable_True [rotated])
qed

text \<open>
  An agent may answer only where the run's policy lets it, and only questions whose every recommended value is an
  option of low risk.
\<close>

theorem agents_follow_low_risk_recommendations:
  assumes "decision_resolution_policy run questions = Inr ''AGENT_ALLOWED''"
  shows "(\<exists>policy. object_get run ''policy'' = Inr policy \<and> dget policy ''allow_external_llm'' = JBool True \<and>
      dget_or policy ''risk_tier'' (JStr ''STANDARD'') = JStr ''STANDARD'') \<and>
    (\<forall>q \<in> set questions. dget q ''recommendation'' \<noteq> JNull \<and> (\<exists>options. dicts (dget q ''options'') = Inr options \<and>
      (\<forall>v \<in> set (recommended_values q). \<exists>opt \<in> set options. same_value (dget opt ''value'') v \<and> dget opt ''risk'' = JStr ''LOW'')))"
proof -
  have "\<exists>policy. object_get run ''policy'' = Inr policy \<and> dget policy ''allow_external_llm'' = JBool True \<and>
      dget_or policy ''risk_tier'' (JStr ''STANDARD'') = JStr ''STANDARD''"
    using assms by (auto simp: decision_resolution_policy_def exn_bind_Inr split: if_splits)
  then show ?thesis using agent_allowed [OF assms] agent_may_answer_True by blast
qed

lemma no_recommendation: "dget q ''recommendation'' = JNull \<Longrightarrow> agent_may_answer q = Inr False"
  by (simp add: agent_may_answer_def)

lemma initial_questions_human:
  assumes "initial_questions env run profile = Inr questions" and "q \<in> set questions"
  shows "agent_may_answer q = Inr False"
  using assms
  by (auto simp: initial_questions_def exn_bind_Inr target_column_question_def iid_question_def dget_def
      intro!: no_recommendation split: if_splits)

text \<open>
  C37. No agent chooses the target column, confirms that rows are independent, or picks a positive class that is not the
  conventional \<open>1\<close> of \<open>0\<close> and \<open>1\<close>, whatever the policy of the run is.
\<close>

theorem agents_decide_conventional_classes_only:
  "(initial_questions env run profile = Inr questions \<and> questions \<noteq> [] \<longrightarrow>
      decision_resolution_policy run' questions \<noteq> Inr ''AGENT_ALLOWED'') \<and>
   (decision_resolution_policy run' [positive_class_question env classes] = Inr ''AGENT_ALLOWED'' \<longrightarrow>
      conventional env classes \<and> py_strip (py_str env (recommended_class env classes)) = ''1'')"
proof (intro conjI impI notI)
  assume "initial_questions env run profile = Inr questions \<and> questions \<noteq> []"
    and allowed: "decision_resolution_policy run' questions = Inr ''AGENT_ALLOWED''"
  then obtain q where "q \<in> set questions" "agent_may_answer q = Inr False"
    using initial_questions_human by (metis list.set_intros(1) neq_Nil_conv)
  with agent_allowed [OF allowed] show False by simp
next
  assume "decision_resolution_policy run' [positive_class_question env classes] = Inr ''AGENT_ALLOWED''"
  then have "agent_may_answer (positive_class_question env classes) = Inr True" by (rule agent_allowed) simp
  then have some: "recommended_class env classes \<noteq> JNull"
    by (auto simp: agent_may_answer_def positive_class_question_def Let_def dget_def split: if_splits)
  then show "conventional env classes" by (auto simp: recommended_class_def split: if_splits)
  from some obtain v vs where first: "filter (\<lambda>v. py_strip (py_str env v) = ''1'') classes = v # vs"
    and v: "recommended_class env classes = v"
    by (auto simp: recommended_class_def split: if_splits list.splits)
  have "v \<in> set (filter (\<lambda>v. py_strip (py_str env v) = ''1'') classes)" unfolding first by simp
  then show "py_strip (py_str env (recommended_class env classes)) = ''1''" by (simp add: v)
qed

section \<open>Answers\<close>

lemma put_answer_other: "put_answer by_id q accept d = Inr d' \<Longrightarrow> (\<And>v k x. accept v = Inr (k, x) \<Longrightarrow> k = key) \<Longrightarrow>
    f \<noteq> key \<Longrightarrow> dget d' f = dget d f"
  by (auto simp: put_answer_def exn_bind_Inr dget_dput split: option.splits)

lemma put_answer_at:
  "put_answer by_id q accept d = Inr d' \<Longrightarrow> map_of by_id q = Some v \<Longrightarrow>
     \<exists>k x. accept v = Inr (k, x) \<and> d' = dput k x d"
  by (auto simp: put_answer_def exn_bind_Inr)

lemma accept_target_Inr: "accept_target columns v = Inr (k, x) \<longleftrightarrow> k = ''target_column'' \<and> x = v \<and> v \<in> set columns \<and> (\<exists>s. v = JStr s)"
  by (auto simp: accept_target_def split: json.splits if_splits)

lemma accept_iid_Inr: "accept_iid v = Inr (k, x) \<longleftrightarrow> v = JBool True \<and> k = ''iid_confirmed'' \<and> x = JBool True"
  by (auto simp: accept_iid_def)

text \<open>
  What accepted answers resolve. A target is one of the profiled columns, rows count as independent only if that was
  confirmed, a positive class is taken over as it is, and every other input stays.
\<close>

theorem answers_resolve_task:
  assumes "resolve_answers run by_id = Inr resolved" and "object_get run ''pre_split_profile'' = Inr profile"
    and "dget_or run ''resolved_inputs'' (JObj []) = JObj before"
  shows "(\<forall>v. map_of by_id ''q_target'' = Some v \<longrightarrow> dget resolved ''target_column'' = v \<and>
      (\<exists>cs columns. py_iter (dget_or profile ''columns'' (JArr [])) = Inr cs \<and> known_columns cs = Inr columns \<and> v \<in> set columns)) \<and>
    (\<forall>v. map_of by_id ''q_iid'' = Some v \<longrightarrow> v = JBool True \<and> dget resolved ''iid_confirmed'' = JBool True) \<and>
    (\<forall>v. map_of by_id ''q_positive_class'' = Some v \<longrightarrow> dget resolved ''positive_class'' = v) \<and>
    (\<forall>f. f \<notin> {''target_column'', ''iid_confirmed'', ''positive_class''} \<longrightarrow> dget resolved f = dget before f)"
proof -
  obtain cs columns d1 d2 where cs: "py_iter (dget_or profile ''columns'' (JArr [])) = Inr cs" "known_columns cs = Inr columns"
    and d1: "put_answer by_id ''q_target'' (accept_target columns) before = Inr d1"
    and d2: "put_answer by_id ''q_iid'' accept_iid d1 = Inr d2"
    and d3: "put_answer by_id ''q_positive_class'' (\<lambda>v. Inr (''positive_class'', v)) d2 = Inr resolved"
    using assms by (auto simp: resolve_answers_def exn_bind_Inr as_object_def)
  note t = put_answer_other [OF d1, of "''target_column''"] and i = put_answer_other [OF d2, of "''iid_confirmed''"]
    and p = put_answer_other [OF d3, of "''positive_class''"]
  have other: "dget resolved f = dget d2 f" if "f \<noteq> ''positive_class''" for f using p that by auto
  have other2: "dget d2 f = dget d1 f" if "f \<noteq> ''iid_confirmed''" for f using i that by (auto simp: accept_iid_Inr)
  have other1: "dget d1 f = dget before f" if "f \<noteq> ''target_column''" for f using t that by (auto simp: accept_target_Inr)
  show ?thesis
    using put_answer_at [OF d1] put_answer_at [OF d2] put_answer_at [OF d3] cs
    by (auto simp: other other2 other1 accept_target_Inr accept_iid_Inr dget_dput)
qed

section \<open>The signature of a model\<close>

fun object_of :: "json \<Rightarrow> jdict option" where
  "object_of (JObj d) = Some d"
| "object_of _ = None"

text \<open>The names that the inputs of a signature carry.\<close>

definition entry_name :: "json \<Rightarrow> json" where
  "entry_name v = (case v of JObj d \<Rightarrow> dget d ''name'' | _ \<Rightarrow> JNull)"

lemma signature_inputs_names:
  "signature_inputs env target columns t = Inr (inputs, t') \<Longrightarrow>
     map entry_name inputs =
       map (\<lambda>d. JStr (py_str env (dget d ''name''))) (filter (\<lambda>d. dget d ''name'' \<noteq> JStr target) (List.map_filter object_of columns))"
proof (induction env target columns t arbitrary: inputs t' rule: signature_inputs.induct)
  case (2 env target column columns t)
  then show ?case
    by (auto simp: exn_bind_Inr column_entry_def entry_name_def dget_def List.map_filter_simps split: if_splits)
qed (auto simp: List.map_filter_simps)

text \<open>
  The signature of a model names every profiled column but the target, in the order of the table.
\<close>

theorem signature_covers_features:
  assumes "model_signature env run result = Inr (JObj signature)" and "object_get run ''resolved_inputs'' = Inr resolved"
    and "object_get run ''pre_split_profile'' = Inr profile"
    and "py_iter (dget_or profile ''columns'' (JArr [])) = Inr columns"
  shows "\<exists>inputs. dget signature ''inputs'' = JArr inputs \<and>
    map entry_name inputs = map (\<lambda>d. JStr (py_str env (dget d ''name'')))
      (filter (\<lambda>d. dget d ''name'' \<noteq> JStr (py_str env (dget_or resolved ''target_column'' (JStr ''target''))))
         (List.map_filter object_of columns))"
  using assms by (auto simp: model_signature_def exn_bind_Inr dget_def dest!: signature_inputs_names)

end
