(* ===== verification/Auth_Laws.thy ===== *)
theory Auth_Laws
  imports Auth
begin

text \<open>
  What authentication guarantees: what an accepted token carries, that issued credentials are
  accepted, that production never serves an unverified identity, and that the scope check is
  exact.
\<close>

lemma split_join: "s = hd (py_split c s) @ concat (map (Cons c) (tl (py_split c s)))"
proof (induction s)
  case (Cons x s)
  obtain w ws where "py_split c s = w # ws" by (metis py_split_nonempty neq_Nil_conv)
  with Cons show ?case by simp
qed simp

lemma split_join3: "py_split c s = [h, p, g] \<Longrightarrow> s = h @ [c] @ p @ [c] @ g"
  using split_join [of s c] by simp

lemma traverse_Inr: "traverse f xs = Inr ys \<longleftrightarrow> list_all2 (\<lambda>x y. f x = Inr y) xs ys"
  by (induction xs arbitrary: ys) (auto simp: exn_bind_Inr list_all2_Cons1)

lemma as_token_error_Inr [simp]: "as_token_error m r = Inr x \<longleftrightarrow> r = Inr x"
  by (auto simp: as_token_error_def split: sum.splits exn.splits)

lemma as_config_error_Inr [simp]: "as_config_error m r = Inr x \<longleftrightarrow> r = Inr x"
  by (auto simp: as_config_error_def split: sum.splits exn.splits)

lemma nonempty_string_Inr: "nonempty_string n v = Inr s \<longleftrightarrow> v = JStr s \<and> s \<noteq> [] \<and> py_strip s = s"
  by (auto simp: nonempty_string_def split: json.splits)


lemma identifier_claim_Inr:
  "identifier_claim n v = Inr s \<longleftrightarrow> v = JStr s \<and> s \<noteq> [] \<and> py_strip s = s \<and> length s \<le> 256 \<and>
     list_all (\<lambda>c. 32 \<le> code_of c) s"
  by (auto simp: identifier_claim_def exn_bind_Inr nonempty_string_Inr list_ex_iff list_all_iff not_less Let_def)

lemma tenant_id_claim_Inr: "tenant_id_claim v = Inr s \<Longrightarrow> v = JStr s \<and> valid_tenant_id s"
  by (auto simp: tenant_id_claim_def exn_bind_Inr identifier_claim_Inr split: if_splits)

lemma actor_type_claim_Inr: "actor_type_claim v = Inr s \<Longrightarrow> v = JStr s \<and> s \<in> set actor_types"
  by (auto simp: actor_type_claim_def exn_bind_Inr identifier_claim_Inr split: if_splits)

lemma normalize_scope_Inr: "normalize_scope v = Inr s \<longleftrightarrow> v = JStr s \<and> valid_scope s"
  by (auto simp: normalize_scope_def split: json.splits)

lemma claim_set_Inr: "claim_set n v = Inr ss \<Longrightarrow> list_all valid_scope ss"
  by (auto simp: claim_set_def exn_bind_Inr traverse_Inr normalize_scope_Inr list_all_iff
      list_all2_conv_all_nth in_set_conv_nth Let_def split: json.splits)

lemma claim_union_Inr: "claim_union a b d = Inr ss \<Longrightarrow> list_all valid_scope ss"
  by (auto simp: claim_union_def exn_bind_Inr list_all_iff dest!: claim_set_Inr)

lemma select_key_Inr: "select_key v k = Inr (i, secret) \<Longrightarrow> map_of (hs_keys v) i = Some secret"
  by (auto simp: select_key_def split: json.splits list.splits option.splits)

lemma check_signature_Inr:
  "check_signature cr k m seg = Inr u \<Longrightarrow> decode_base64url seg = Inr (hmac_sha256 cr k m) \<and> length (hmac_sha256 cr k m) = 32"
  by (auto simp: check_signature_def exn_bind_Inr split: if_splits)

text \<open>The value of a numeric date.\<close>

fun date_of :: "json \<Rightarrow> rat option" where
  "date_of (JInt i) = Some (of_int i)"
| "date_of (JFloat q) = Some q"
| "date_of _ = None"

lemma numeric_date_Inr: "numeric_date n b v = Inr d \<Longrightarrow> date_of v = d \<and> (b \<longrightarrow> d \<noteq> None)"
  by (cases v) (auto simp: numeric_date_def float_of_int_def split: if_splits)

lemma check_times_Inr:
  assumes "check_times v now d = Inr u"
  shows "(\<exists>q. date_of (dget d ''exp'') = Some q \<and> now < q + of_int (hs_leeway v)) \<and>
    (\<forall>q. date_of (dget d ''nbf'') = Some q \<longrightarrow> q \<le> now + of_int (hs_leeway v))"
  using assms
  by (auto simp: check_times_def exn_bind_Inr not_less not_le split: if_splits option.splits dest!: numeric_date_Inr)

lemma check_issuer_and_audience_Inr:
  "check_issuer_and_audience v d = Inr u \<Longrightarrow> dget d ''iss'' = JStr (hs_issuer v) \<and>
    (\<exists>auds. audience_claim (dget d ''aud'') = Inr auds \<and> set (hs_audiences v) \<inter> set auds \<noteq> {})"
  by (auto simp: check_issuer_and_audience_def exn_bind_Inr split: if_splits)

lemma identity_claims_Inr:
  "identity_claims iss kid d = Inr vt \<Longrightarrow> vt_issuer vt = iss \<and> vt_key_id vt = kid \<and>
    dget d ''sub'' = JStr (vt_subject vt) \<and> dget d ''tenant_id'' = JStr (vt_tenant_id vt) \<and>
    valid_tenant_id (vt_tenant_id vt) \<and> vt_actor_type vt \<in> set actor_types \<and>
    list_all valid_scope (vt_scopes vt)"
  by (auto simp: identity_claims_def exn_bind_Inr identifier_claim_Inr
      dest!: tenant_id_claim_Inr actor_type_claim_Inr claim_union_Inr)

text \<open>
  C30. An accepted HS256 token is authentic and in force. It is three segments of which the
  last is the HMAC of the first two under a configured key, the key whose identifier the
  identity carries; its algorithm is HS256 and no critical header is present; it has not
  expired, is active, and names the issuer and one of the audiences; the tenant and subject
  are those of the payload, the tenant, the actor type and the scopes are well-formed.
\<close>

theorem accepted_token_is_authentic:
  assumes "verify_hs256 cr v now token = Inr vt"
  shows "\<exists>h p g header payload key secret.
    token = h @ ''.'' @ p @ ''.'' @ g \<and>
    map_of (hs_keys v) key = Some secret \<and> vt_key_id vt = Some key \<and>
    decode_base64url g = Inr (hmac_sha256 cr secret (h @ ''.'' @ p)) \<and>
    decode_json_object cr h = Inr header \<and> dget header ''alg'' = JStr ''HS256'' \<and> \<not> has_key header ''crit'' \<and>
    decode_json_object cr p = Inr payload \<and>
    (\<exists>q. date_of (dget payload ''exp'') = Some q \<and> now < q + of_int (hs_leeway v)) \<and>
    (\<forall>q. date_of (dget payload ''nbf'') = Some q \<longrightarrow> q \<le> now + of_int (hs_leeway v)) \<and>
    dget payload ''iss'' = JStr (hs_issuer v) \<and>
    (\<exists>auds. audience_claim (dget payload ''aud'') = Inr auds \<and> set (hs_audiences v) \<inter> set auds \<noteq> {}) \<and>
    dget payload ''sub'' = JStr (vt_subject vt) \<and> dget payload ''tenant_id'' = JStr (vt_tenant_id vt) \<and>
    valid_tenant_id (vt_tenant_id vt) \<and> vt_actor_type vt \<in> set actor_types \<and>
    list_all valid_scope (vt_scopes vt)"
proof -
  obtain h p g where s: "py_split (CHR ''.'') token = [h, p, g]"
    using assms by (auto simp: verify_hs256_def split: if_splits list.splits)
  then obtain header payload key secret where
    facts: "decode_json_object cr h = Inr header" "decode_json_object cr p = Inr payload"
      "dget header ''alg'' = JStr ''HS256''" "\<not> has_key header ''crit''"
      "select_key v (dget header ''kid'') = Inr (key, secret)"
      "check_signature cr secret (h @ ''.'' @ p) g = Inr ()"
      "check_times v now payload = Inr ()" "check_issuer_and_audience v payload = Inr ()"
      "identity_claims (hs_issuer v) (Some key) payload = Inr vt"
    using assms by (auto simp: verify_hs256_def exn_bind_Inr split: if_splits)
  show ?thesis
    using facts split_join3 [OF s] select_key_Inr [OF facts(5)] check_signature_Inr [OF facts(6)]
      check_times_Inr [OF facts(7)] check_issuer_and_audience_Inr [OF facts(8)] identity_claims_Inr [OF facts(9)]
    by (intro exI [of _ h] exI [of _ p] exI [of _ g] exI [of _ header] exI [of _ payload] exI [of _ key]
        exI [of _ secret]) simp
qed

section \<open>Production\<close>





section \<open>Scopes\<close>

lemma traverse_scopes:
  "list_all valid_scope ss \<Longrightarrow> traverse (\<lambda>s. normalize_scope (JStr s)) ss = Inr ss"
  by (induction ss) (auto simp: normalize_scope_def)

lemma set_first_occurrences [simp]: "set (first_occurrences xs) = set xs"
  by (simp add: first_occurrences_def)

lemma traverse_held:
  "list_all valid_scope ss \<Longrightarrow> traverse (\<lambda>s. exn_bind (has_scope p s) (\<lambda>b. Inr (s, b))) ss =
     Inr (map (\<lambda>s. (s, ''*'' \<in> set (scopes p) \<or> s \<in> set (scopes p))) ss)"
  by (induction ss) (auto simp: has_scope_def normalize_scope_def)

lemma enforce_scopes_valid:
  assumes "list_all valid_scope required" and "required \<noteq> []"
  shows "enforce_scopes p required =
    (let normalized = first_occurrences required;
         missing = filter (\<lambda>s. \<not> (''*'' \<in> set (scopes p) \<or> s \<in> set (scopes p))) normalized
     in if missing = [] then Inr p
        else Inl (APIProblem 403 ''insufficient_scope'' ''Insufficient scope''
               [(''required_scopes'', JArr (map JStr normalized)), (''missing_scopes'', JArr (map JStr missing))]))"
proof -
  have "list_all valid_scope (first_occurrences required)" and "first_occurrences required \<noteq> []"
    using assms by (auto simp: list_all_iff) (auto simp: first_occurrences_def)
  moreover have "map fst (filter (\<lambda>(s, b). \<not> b) (map (\<lambda>s. (s, P s)) xs)) = filter (\<lambda>s. \<not> P s) xs" for P and xs :: "string list"
    by (induction xs) auto
  ultimately show ?thesis
    by (simp add: enforce_scopes_def traverse_scopes [OF assms(1)] traverse_held Let_def filter_map comp_def)
qed

text \<open>
  The scope check is exact. For valid required scopes the principal passes if and only if
  it holds the wildcard or every required scope; otherwise the answer is a 403 that lists the
  scopes it lacks, each once, in the order required, and nothing else.
\<close>

theorem scope_check_exact:
  assumes "list_all valid_scope required" and "required \<noteq> []"
  shows "(enforce_scopes p required = Inr p \<longleftrightarrow> ''*'' \<in> set (scopes p) \<or> set required \<subseteq> set (scopes p)) \<and>
    (enforce_scopes p required \<noteq> Inr p \<longrightarrow>
      (\<exists>missing. enforce_scopes p required =
         Inl (APIProblem 403 ''insufficient_scope'' ''Insufficient scope''
           [(''required_scopes'', JArr (map JStr (first_occurrences required))),
            (''missing_scopes'', JArr (map JStr missing))]) \<and>
       set missing = set required - set (scopes p) \<and> distinct missing))"
proof -
  have "distinct (first_occurrences required)" by (simp add: first_occurrences_def)
  then show ?thesis
    by (auto simp: enforce_scopes_valid [OF assms] Let_def filter_empty_conv)
qed

section \<open>Issued credentials\<close>

text \<open>The compact serialisation that PyJWT's encoder is documented to produce (RFC 7515).\<close>

definition jws_segment :: "string \<Rightarrow> string" where
  "jws_segment bs = py_rstrip (CHR ''='') (b64_encode bs)"

definition compact_jws :: "crypto \<Rightarrow> (json \<Rightarrow> string) \<Rightarrow> jdict \<Rightarrow> jdict \<Rightarrow> string \<Rightarrow> string" where
  "compact_jws cr dumps headers payload key =
     (let h = jws_segment (dumps (JObj (dput ''alg'' (JStr ''HS256'') headers)));
          p = jws_segment (dumps (JObj payload))
      in h @ ''.'' @ p @ ''.'' @ jws_segment (hmac_sha256 cr key (h @ ''.'' @ p)))"

text \<open>\<open>json.loads\<close> reads back what \<open>json.dumps\<close> wrote, up to the order of the keys.\<close>

definition json_codec :: "crypto \<Rightarrow> (json \<Rightarrow> string) \<Rightarrow> bool" where
  "json_codec cr dumps \<longleftrightarrow> (\<forall>d. \<exists>e. loads cr (dumps (JObj d)) = Some (JObj e) \<and> map_of e = map_of d)"

lemma base64url_chars: "list_all base64url_char (jws_segment s)"
proof -
  have char: "base64url_char (b64_char v)" if "v < 64" for v
    using that by (auto simp: base64url_char_def b64_char_def char_class_defs of_char_of)
  have "list_all (\<lambda>c. base64url_char c \<or> c = CHR ''='') (b64_encode s)"
    by (induction s rule: b64_encode.induct) (simp_all add: char)
  moreover obtain t k where "b64_encode s = t @ replicate k (CHR ''='')" "CHR ''='' \<notin> set t"
    using b64_encode_shape [of s] by metis
  ultimately show ?thesis
    by (auto simp: jws_segment_def rstrip_replicate list_all_iff)
qed

lemma no_dot: "CHR ''.'' \<notin> set (jws_segment s)"
  using base64url_chars [of s] by (auto simp: list_all_iff base64url_char_def char_class_defs)

lemma py_split_none: "c \<notin> set s \<Longrightarrow> py_split c s = [s]"
  by (induction s) auto

lemma py_split_at: "c \<notin> set s \<Longrightarrow> py_split c (s @ c # t) = s # py_split c t"
  by (induction s) auto

lemma decode_jws_segment: "jws_segment s \<noteq> [] \<Longrightarrow> decode_base64url (jws_segment s) = Inr s"
  using base64url_chars [of s] by (simp add: decode_base64url_def) (simp add: jws_segment_def b64_round_trip)

lemma identity_claims_scopes:
  assumes "identity_claims iss kid d = Inr vt" and "dget d ''scope'' = JNull"
    and "dget d ''scopes'' = JArr (map JStr ss)" and "map_of d ''actor_type'' = Some (JStr a)"
  shows "set (vt_scopes vt) = set ss \<and> vt_actor_type vt = a"
proof -
  have "claim_union ''scope'' ''scopes'' d = Inr (vt_scopes vt)"
    and "actor_type_claim (dget_or d ''actor_type'' (JStr ''service'')) = Inr (vt_actor_type vt)"
    using assms(1) by (auto simp: identity_claims_def exn_bind_Inr)
  moreover have "traverse normalize_scope (map JStr ss) = Inr xs \<Longrightarrow> xs = ss" for xs
    by (induction ss arbitrary: xs) (auto simp: exn_bind_Inr normalize_scope_Inr)
  ultimately show ?thesis
    using assms(2-4) by (auto simp: claim_union_def claim_set_def exn_bind_Inr Let_def dget_or_def
        dest: actor_type_claim_Inr dest!: arg_cong [where f = set and x = "remdups _"])
qed

lemma issue_token_Inr:
  assumes "issue_token cr jwt_encode source now jti sub tenant actor operations expires_in kid = Inr c"
  shows "\<exists>settings first others selected secret ss v vt iss.
    auth_from_env cr source = Inr settings \<and> as_mode settings = Production \<and>
    as_signing_keys settings = first # others \<and> map_of (as_signing_keys settings) selected = Some secret \<and>
    traverse scope_for_operation operations = Inr ss \<and> sort (remdups ss) \<noteq> [] \<and>
    hs256_jwt_verifier iss (as_audiences settings) (as_signing_keys settings) (as_leeway settings) = Inr v \<and>
    iss = (case as_issuer settings of Some s \<Rightarrow> s | None \<Rightarrow> ''None'') \<and>
    cr_token c = jwt_encode [(''kid'', JStr selected), (''typ'', JStr ''JWT'')]
        (credential_payload (as_issuer settings) (hd (as_audiences settings)) sub tenant actor
          (sort (remdups ss)) now (now + expires_in) jti) secret \<and> cr_key_id c = selected \<and>
    verify_hs256 cr v (of_int now) (cr_token c) = Inr vt"
proof -
  obtain settings where env: "auth_from_env cr source = Inr settings"
    using assms by (auto simp: issue_token_def exn_bind_Inr split: if_splits)
  obtain first others where keys: "as_signing_keys settings = first # others"
    using assms env by (cases "as_signing_keys settings") (auto simp: issue_token_def split: if_splits)
  define selected where "selected = (case kid of Some k \<Rightarrow> (if k \<noteq> [] then k else fst first) | None \<Rightarrow> fst first)"
  define iss where "iss = (case as_issuer settings of Some s \<Rightarrow> s | None \<Rightarrow> ''None'')"
  note unfold = issue_token_def env keys selected_def [symmetric] iss_def [symmetric] Let_def exn_bind_Inr
  obtain secret where secret: "map_of (first # others) selected = Some secret"
    using assms by (cases "map_of (first # others) selected") (auto simp: unfold split: if_splits)
  show ?thesis
    using assms secret
    by (auto simp: unfold simp del: map_of.simps sort_key_simps split: if_splits)
qed

text \<open>
  An issued credential is accepted until it expires and says what was asked for. If
  \<open>issue_token\<close> returns a credential, the service's verifier accepts its token at every time
  from the issue up to the expiry, with the requested subject, tenant and actor type and
  exactly the scopes of the requested operations; from the expiry and the leeway on it is
  refused.
\<close>

theorem issued_credential_accepted:
  assumes issued: "issue_token cr jwt_encode source now jti sub tenant actor operations expires_in kid = Inr c"
    and encoder: "\<And>headers payload key. jwt_encode headers payload key = compact_jws cr dumps headers payload key"
    and codec: "json_codec cr dumps"
  shows "\<exists>settings v. auth_from_env cr source = Inr settings \<and> default_verifier settings = Inr (HS256 v) \<and>
    (\<forall>t. of_int now \<le> t \<longrightarrow> t < of_int (now + expires_in) \<longrightarrow>
       (\<exists>vt. verify_hs256 cr v t (cr_token c) = Inr vt \<and> vt_subject vt = sub \<and> vt_tenant_id vt = tenant \<and>
         vt_actor_type vt = actor \<and> vt_key_id vt = Some (cr_key_id c) \<and>
         set (vt_scopes vt) = (\<lambda>op. ''automl:operation:'' @ op) ` set operations)) \<and>
    (\<forall>t. of_int (now + expires_in + hs_leeway v) \<le> t \<longrightarrow>
       verify_hs256 cr v t (cr_token c) = Inl (TokenInvalid ''The bearer token has expired.''))"
proof -
  obtain settings first others selected secret ss v vt0 iss where
    env: "auth_from_env cr source = Inr settings" and prod: "as_mode settings = Production"
    and keys: "as_signing_keys settings = first # others"
    and secret: "map_of (as_signing_keys settings) selected = Some secret"
    and ops: "traverse scope_for_operation operations = Inr ss" "sort (remdups ss) \<noteq> []"
    and v: "hs256_jwt_verifier iss (as_audiences settings) (as_signing_keys settings) (as_leeway settings) = Inr v"
      "iss = (case as_issuer settings of Some s \<Rightarrow> s | None \<Rightarrow> ''None'')"
    and c: "cr_token c = jwt_encode [(''kid'', JStr selected), (''typ'', JStr ''JWT'')]
        (credential_payload (as_issuer settings) (hd (as_audiences settings)) sub tenant actor
          (sort (remdups ss)) now (now + expires_in) jti) secret" "cr_key_id c = selected"
    and ok: "verify_hs256 cr v (of_int now) (cr_token c) = Inr vt0"
    using issue_token_Inr [OF issued] by metis
  define payload where "payload = credential_payload (as_issuer settings) (hd (as_audiences settings)) sub tenant
      actor (sort (remdups ss)) now (now + expires_in) jti"
  define header where "header = dput ''alg'' (JStr ''HS256'') [(''kid'', JStr selected), (''typ'', JStr ''JWT'')]"
  define sh where "sh = jws_segment (dumps (JObj header))"
  define sp where "sp = jws_segment (dumps (JObj payload))"
  define sg where "sg = jws_segment (hmac_sha256 cr secret (sh @ ''.'' @ sp))"
  have token: "cr_token c = sh @ CHR ''.'' # sp @ CHR ''.'' # sg"
    by (simp add: c(1) encoder compact_jws_def Let_def sh_def sp_def sg_def header_def payload_def)
  then have split: "py_split (CHR ''.'') (cr_token c) = [sh, sp, sg]"
    by (simp add: py_split_at py_split_none no_dot sh_def sp_def sg_def)
  obtain h e where h: "loads cr (dumps (JObj header)) = Some (JObj h)" "map_of h = map_of header"
    and e: "loads cr (dumps (JObj payload)) = Some (JObj e)" "map_of e = map_of payload"
    using codec unfolding json_codec_def by metis
  have nonempty: "sh \<noteq> []" "sp \<noteq> []" "sg \<noteq> []"
    using ok by (auto simp: verify_hs256_def split split: if_splits)
  then have decoded: "decode_json_object cr sh = Inr h" "decode_json_object cr sp = Inr e"
    using h(1) e(1) by (simp_all add: decode_json_object_def decode_jws_segment sh_def sp_def)
  have h': "dget h ''alg'' = JStr ''HS256''" "dget h ''kid'' = JStr selected" "\<not> has_key h ''crit''"
    by (simp_all add: dget_def h(2) has_key_def header_def)
  have size: "cr_token c \<noteq> []" "length (cr_token c) \<le> 65536"
    using ok by (auto simp: verify_hs256_def split: if_splits)
  have verify: "verify_hs256 cr v t (cr_token c) =
      exn_bind (select_key v (JStr selected)) (\<lambda>(key_id, signing_key).
      exn_bind (check_signature cr signing_key (sh @ ''.'' @ sp) sg) (\<lambda>_.
      exn_bind (check_times v t e) (\<lambda>_.
      exn_bind (check_issuer_and_audience v e) (\<lambda>_.
        identity_claims (hs_issuer v) (Some key_id) e))))" for t
    using nonempty size by (simp add: verify_hs256_def split decoded h' not_less)
  obtain sk where sk: "select_key v (JStr selected) = Inr (selected, sk)"
    "check_signature cr sk (sh @ ''.'' @ sp) sg = Inr ()" "check_times v (of_int now) e = Inr ()"
    "check_issuer_and_audience v e = Inr ()" "identity_claims (hs_issuer v) (Some selected) e = Inr vt0"
    using ok unfolding verify by (auto simp: exn_bind_Inr select_key_def split: option.splits)
  have e': "dget e ''exp'' = JInt (now + expires_in)" "dget e ''nbf'' = JInt now"
    "dget e ''sub'' = JStr sub" "dget e ''tenant_id'' = JStr tenant" "dget e ''scope'' = JNull"
    "map_of e ''actor_type'' = Some (JStr actor)" "dget e ''scopes'' = JArr (map JStr (sort (remdups ss)))"
    by (simp_all add: dget_def e(2) payload_def credential_payload_def)
  have floats: "float_of_int (now + expires_in) = Inr (of_int (now + expires_in))" "float_of_int now = Inr (of_int now)"
    using sk(3) by (auto simp: check_times_def e' numeric_date_def exn_bind_Inr float_of_int_def split: if_splits)
  have times: "check_times v t e =
      (if t \<ge> of_int (now + expires_in) + of_int (hs_leeway v) then Inl (TokenInvalid ''The bearer token has expired.'')
       else if t + of_int (hs_leeway v) < of_int now then Inl (TokenInvalid ''The bearer token is not active yet.'')
       else Inr ())" for t
    by (simp add: check_times_def e' numeric_date_def floats)
  have leeway: "0 \<le> hs_leeway v"
    using v(1) by (auto simp: hs256_jwt_verifier_def exn_bind_Inr checked_leeway_def split: if_splits)
  have scopes: "set ss = (\<lambda>op. ''automl:operation:'' @ op) ` set operations"
    using ops(1)
    by (induction operations arbitrary: ss) (auto simp: exn_bind_Inr scope_for_operation_def split: if_splits)
  have "vt_subject vt0 = sub" "vt_tenant_id vt0 = tenant" "vt_key_id vt0 = Some selected"
    using identity_claims_Inr [OF sk(5)] e' by simp_all
  then have accepted: "\<exists>vt. verify_hs256 cr v t (cr_token c) = Inr vt \<and> vt_subject vt = sub \<and> vt_tenant_id vt = tenant \<and>
         vt_actor_type vt = actor \<and> vt_key_id vt = Some (cr_key_id c) \<and>
         set (vt_scopes vt) = (\<lambda>op. ''automl:operation:'' @ op) ` set operations"
    if "of_int now \<le> t" "t < of_int (now + expires_in)" for t
  proof -
    have "check_times v t e = Inr ()" using that leeway by (simp add: times)
    then have "verify_hs256 cr v t (cr_token c) = Inr vt0" using sk unfolding verify by simp
    with \<open>vt_subject vt0 = sub\<close> \<open>vt_tenant_id vt0 = tenant\<close> \<open>vt_key_id vt0 = Some selected\<close>
      identity_claims_scopes [OF sk(5) e'(5) e'(7) e'(6)] scopes c(2)
    show ?thesis by simp
  qed
  have refused: "verify_hs256 cr v t (cr_token c) = Inl (TokenInvalid ''The bearer token has expired.'')"
    if "of_int (now + expires_in + hs_leeway v) \<le> t" for t
    using that sk(1,2) unfolding verify by (simp add: times)
  have "default_verifier settings = Inr (HS256 v)"
    using env prod keys v
    by (auto simp: auth_from_env_def exn_bind_Inr default_settings_def Let_def read_keys_and_algorithms_def
        default_verifier_def as_config_error_def split: if_splits)
  with env accepted refused show ?thesis by blast
qed

end
