(* ===== verification/Storage_Laws.thy ===== *)
theory Storage_Laws
  imports Storage Auth_Laws
begin

text \<open>
  What the blob store (\<open>Storage\<close>) promises: the source of a dataset is the concatenation of the
  uploaded parts and is found under the key that is returned, a published object is never
  overwritten, a key reaches nothing outside the root, and a download ticket is what the service
  signed.
\<close>

section \<open>Paths and keys\<close>

lemma safe_component_Inr:
  "safe_component v f = Inr w \<longleftrightarrow> w = v \<and> v \<noteq> [] \<and> v \<noteq> ''.'' \<and> v \<noteq> ''..'' \<and> list_all base64url_char v"
  by (auto simp: safe_component_def)

text \<open>A component that a path may have: not special, and without a slash.\<close>

definition plain_component :: "string \<Rightarrow> bool" where
  "plain_component c \<longleftrightarrow> c \<noteq> [] \<and> c \<noteq> ''.'' \<and> c \<noteq> ''..'' \<and> CHR ''/'' \<notin> set c"

lemma safe_is_plain: "safe_component v f = Inr w \<Longrightarrow> plain_component v"
  by (auto simp: safe_component_Inr plain_component_def list_all_iff base64url_char_def char_class_defs)

lemma split_join_path: "p \<noteq> [] \<Longrightarrow> list_all plain_component p \<Longrightarrow> py_split (CHR ''/'') (join_path p) = p"
  by (induction p rule: join_path.induct) (auto simp: plain_component_def py_split_none py_split_at)

lemma resolve_plain: "list_all plain_component cs \<Longrightarrow> resolve p cs = p @ cs"
  by (induction cs arbitrary: p) (auto simp: plain_component_def)

lemma join_path_start:
  "p \<noteq> [] \<Longrightarrow> list_all plain_component p \<Longrightarrow> \<exists>c r. join_path p = c # r \<and> c \<noteq> CHR ''/''"
  by (cases p rule: join_path.cases) (auto simp: plain_component_def neq_Nil_conv)

lemma resolve_own_key:
  "p \<noteq> [] \<Longrightarrow> list_all plain_component p \<Longrightarrow> resolve_key start (join_path p) = start @ p"
  using join_path_start [of p] by (auto simp: resolve_key_def split_join_path resolve_plain)

lemma path_for_own_key:
  assumes "p \<noteq> []" and "list_all plain_component p" and "has_key fs p"
  shows "path_for_key cfg (join_path p) fs = (Inr p, fs)"
  using assms by (simp add: path_for_key_def resolve_own_key py_run)

lemma upload_part_path_Inr:
  "upload_part_path t v u n = Inr p \<longleftrightarrow>
     safe_component t ''tenant_id'' = Inr t \<and> safe_component v ''dataset_version_id'' = Inr v \<and>
     safe_component u ''upload_id'' = Inr u \<and> 1 \<le> n \<and> p = [''uploads'', t, v, u, ''part-'' @ pad_str 5 (nat n)]"
  by (auto simp: upload_part_path_def exn_bind_Inr safe_component_Inr)

section \<open>From upload to source\<close>

text \<open>
  A client's upload: the parts in any order, each with its number and the chunks of its body; the
  receipts it sends with the request to finalize.
\<close>

definition upload_all ::
  "local_config \<Rightarrow> (string \<Rightarrow> string) \<Rightarrow> string \<Rightarrow> string \<Rightarrow> string \<Rightarrow> (int \<times> chunk list) list
     \<Rightarrow> (files, blob_info list) py" where
  "upload_all cfg digest t v u xs = collect (\<lambda>(n, chunks). put_upload_part cfg digest t v u n chunks) xs"

definition receipt :: "int \<Rightarrow> blob_info \<Rightarrow> jdict" where
  "receipt n info = [(''part_number'', JInt n), (''etag'', JStr (bi_etag info))]"

definition uploaded_bytes :: "chunk list \<Rightarrow> string" where
  "uploaded_bytes cs = concat (map (\<lambda>c. case c of Bytes b \<Rightarrow> b | _ \<Rightarrow> []) cs)"

lemma read_chunks_Inr: "read_chunks m acc cs = Inr s \<Longrightarrow> s = acc @ uploaded_bytes cs"
  by (induction m acc cs rule: read_chunks.induct) (auto simp: uploaded_bytes_def split: if_splits)

lemma put_upload_part_Inr:
  assumes "put_upload_part cfg digest t v u n cs fs = (Inr info, fs')"
  shows "\<exists>p. upload_part_path t v u n = Inr p \<and> fs' = AList.update p (uploaded_bytes cs) fs \<and>
    info = info_of digest p (uploaded_bytes cs)"
  using assms read_chunks_Inr [of "lc_max_upload_part_bytes cfg" "[]" cs]
  by (cases "upload_part_path t v u n"; cases "read_chunks (lc_max_upload_part_bytes cfg) [] cs")
     (auto simp: put_upload_part_def write_file_def py_run)

lemma upload_part_path_inj:
  "upload_part_path t v u n = Inr p \<Longrightarrow> upload_part_path t v u m = Inr p \<Longrightarrow> n = m"
  by (auto simp: upload_part_path_Inr)

lemma upload_all_Inr:
  assumes "upload_all cfg digest t v u xs fs = (Inr infos, fs')" and "distinct (map fst xs)"
  shows "list_all2 (\<lambda>(n, cs) info. \<exists>p. upload_part_path t v u n = Inr p \<and>
           map_of fs' p = Some (uploaded_bytes cs) \<and> bi_etag info = etag_of (digest (uploaded_bytes cs))) xs infos \<and>
    (\<forall>q. (\<forall>n \<in> fst ` set xs. upload_part_path t v u n \<noteq> Inr q) \<longrightarrow> map_of fs' q = map_of fs q)"
  using assms
proof (induction xs arbitrary: fs infos)
  case Nil
  then show ?case by (simp add: upload_all_def py_run)
next
  case (Cons x xs)
  obtain n cs where x: "x = (n, cs)" by force
  from Cons.prems obtain info fs1 rest where one: "put_upload_part cfg digest t v u n cs fs = (Inr info, fs1)"
    and more: "upload_all cfg digest t v u xs fs1 = (Inr rest, fs')" and infos: "infos = info # rest"
    by (auto simp: upload_all_def x ret_def elim!: seq_Inr)
  from put_upload_part_Inr [OF one] obtain p where p: "upload_part_path t v u n = Inr p"
    "fs1 = AList.update p (uploaded_bytes cs) fs" "info = info_of digest p (uploaded_bytes cs)" by blast
  note IH = Cons.IH [OF more]
  have fresh: "\<forall>m \<in> fst ` set xs. upload_part_path t v u m \<noteq> Inr p"
    using Cons.prems(2) upload_part_path_inj [OF p(1)] by (auto simp: x)
  with IH Cons.prems(2) have "map_of fs' p = Some (uploaded_bytes cs)"
    by (simp add: p update_conv')
  then show ?case
    using IH Cons.prems(2) p by (auto simp: x infos info_of_def hash_file_def update_conv')
qed

lemma insort_key_map: "insort_key f (g x) (map g xs) = map g (insort_key (\<lambda>x. f (g x)) x xs)"
  by (induction xs) auto

lemma sort_key_map: "sort_key f (map g xs) = map g (sort_key (\<lambda>x. f (g x)) xs)"
  by (induction xs) (auto simp: insort_key_map)

lemma assemble_all:
  "list_all2 (\<lambda>(n, p) c. \<exists>q. upload_part_path t v u n = Inr q \<and> map_of fs q = Some c \<and>
       dget p ''etag'' = JStr (etag_of (digest c))) ps cs \<Longrightarrow>
   assemble digest t v u fs ps = Inr (concat cs)"
  by (induction ps arbitrary: cs) (auto simp: list_all2_Cons1 hash_file_def)

lemma numbered_receipts:
  "numbered_parts (map (\<lambda>((n, cs), info). receipt n info) zs) =
     Inr (map (\<lambda>((n, cs), info). (n, receipt n info)) (sort_key (\<lambda>z. fst (fst z)) zs))"
proof -
  have "traverse (\<lambda>p. exn_bind (item_int p ''part_number'') (\<lambda>n. Inr (n, p)))
      (map (\<lambda>((n, cs), info). receipt n info) zs) = Inr (map (\<lambda>((n, cs), info). (n, receipt n info)) zs)"
    by (induction zs) (auto simp: receipt_def item_int_def)
  then show ?thesis
    by (simp add: numbered_parts_def sort_key_map case_prod_beta)
qed

lemma sorted_numbers:
  assumes "distinct (map fst xs)" and "fst ` set xs = {1..int (length xs)}"
  shows "map fst (sort_key fst xs) = [1..int (length xs)]"
proof (rule sorted_distinct_set_unique)
  show "sorted (map fst (sort_key fst xs))" by (rule sorted_sort_key)
  show "distinct (map fst (sort_key fst xs))"
    using assms(1) by (metis distinct_map distinct_sort set_sort)
  show "set (map fst (sort_key fst xs)) = set [1..int (length xs)]" using assms(2) by simp
qed simp_all

text \<open>
  C26. An uploaded dataset is stored as it was sent. When a client has uploaded the parts of a
  file in any order, numbered from one without a gap, and finalizes with the receipts, the true
  size and the true digest, the call succeeds; the key it returns leads to a file that holds the
  bodies in the order of their numbers, and no other file has changed.
\<close>

theorem upload_round_trip:
  assumes sent: "upload_all cfg digest t v u xs fs = (Inr infos, fs1)"
    and parts: "xs \<noteq> []" "distinct (map fst xs)" "fst ` set xs = {1..int (length xs)}"
    and new: "map_of fs [''datasets'', t, v, ''source''] = None"
    and content: "content = concat (map (\<lambda>(n, cs). uploaded_bytes cs) (sort_key fst xs))"
    and ascii: "list_all (\<lambda>c. code_of c < 128) (digest content)"
  shows "\<exists>info fs2 p.
    finalize_upload digest t v u (map (\<lambda>((n, cs), info). receipt n info) (zip xs infos))
      (int (length content)) (digest content) fs1 = (Inr info, fs2) \<and>
    path_for_key cfg (bi_key info) fs2 = (Inr p, fs2) \<and> map_of fs2 p = Some content \<and>
    (\<forall>q. q \<noteq> p \<longrightarrow> map_of fs2 q = map_of fs1 q)"
proof -
  let ?zs = "zip xs infos"
  let ?sorted = "sort_key (\<lambda>z. fst (fst z)) ?zs"
  let ?dest = "[''datasets'', t, v, ''source'']"
  note stored = upload_all_Inr [OF sent parts(2)]
  have len: "length infos = length xs" using conjunct1 [OF stored] by (simp add: list_all2_lengthD)
  have order: "sort_key fst xs = map fst ?sorted"
    using sort_key_map [of fst fst ?zs] by (simp add: len)
  have each_part: "\<exists>q. upload_part_path t v u n = Inr q \<and> map_of fs1 q = Some (uploaded_bytes cs) \<and>
      dget (receipt n info) ''etag'' = JStr (etag_of (digest (uploaded_bytes cs)))"
    if "((n, cs), info) \<in> set ?sorted" for n cs info
    using conjunct1 [OF stored] that by (auto simp: list_all2_iff receipt_def dget_def)
  have bytes: "assemble digest t v u fs1 (map (\<lambda>((n, cs), info). (n, receipt n info)) ?sorted) = Inr content"
    unfolding content order map_map
    by (rule assemble_all) (use each_part in \<open>auto simp: list_all2_map1 list_all2_map2 intro!: list_all2_same_on
      simp: list_all_iff\<close>)
  have numbers: "map fst (map (\<lambda>((n, cs), info). (n, receipt n info)) ?sorted) = [1..int (length xs)]"
    using sorted_numbers [OF parts(2,3)] by (simp add: order case_prod_beta comp_def)
  obtain n cs where "(n, cs) \<in> set xs" using parts(1) by (cases xs) auto
  then obtain q where "upload_part_path t v u n = Inr q"
    using conjunct1 [OF stored] len by (fastforce simp: list_all2_iff in_set_zip in_set_conv_nth)
  then have safe: "safe_component t ''tenant_id'' = Inr t" "safe_component v ''dataset_version_id'' = Inr v"
    by (auto simp: upload_part_path_Inr)
  have fresh: "map_of fs1 ?dest = None"
    using conjunct2 [OF stored] new by (auto simp: upload_part_path_Inr)
  have "length ?sorted = length xs" using len by simp
  then have nonempty: "?sorted \<noteq> []" using parts(1) by (metis length_0_conv)
  let ?info = "\<lparr>bi_key = join_path ?dest, bi_size_bytes = int (length content), bi_sha256 = digest content,
      bi_etag = etag_of (digest content)\<rparr>"
  have final: "finalize_upload digest t v u (map (\<lambda>((n, cs), info). receipt n info) ?zs)
      (int (length content)) (digest content) fs1 = (Inr ?info, AList.update ?dest content fs1)"
    using numbers parts(1) len ascii
    unfolding finalize_upload_def numbered_receipts
    by (simp add: py_run safe fresh bytes publish_def write_file_def Let_def list_ex_iff list_all_iff
          nonempty not_le)
  have "list_all plain_component ?dest"
    using safe [THEN safe_is_plain] by (simp add: plain_component_def)
  then have "path_for_key cfg (join_path ?dest) (AList.update ?dest content fs1) =
      (Inr ?dest, AList.update ?dest content fs1)"
    by (intro path_for_own_key) (auto simp: has_key_def update_conv')
  with final show ?thesis
    by (intro exI [where x = ?info] exI [where x = "AList.update ?dest content fs1"] exI [where x = ?dest])
       (auto simp: update_conv')
qed

section \<open>Published objects\<close>

text \<open>The sources of datasets and the artifacts; the parts of an upload are not published.\<close>

definition published :: "path \<Rightarrow> bool" where
  "published p \<longleftrightarrow> (\<exists>t v. p = [''datasets'', t, v, ''source'']) \<or> (\<exists>t r a. p = [''artifacts'', t, r, a])"

datatype blob_op =
    PutUploadPart string string string int "chunk list"
  | FinalizeUpload string string string "jdict list" int string
  | PutArtifact string string string string
  | DeleteKey string
  | DeleteDatasetVersion string string

definition quiet :: "(files, 'a) py \<Rightarrow> (files, unit) py" where
  "quiet m = seq m (\<lambda>_. ret ())"

fun exec_blob :: "local_config \<Rightarrow> (string \<Rightarrow> string) \<Rightarrow> blob_op \<Rightarrow> (files, unit) py" where
  "exec_blob cfg digest (PutUploadPart t v u n cs) = quiet (put_upload_part cfg digest t v u n cs)"
| "exec_blob cfg digest (FinalizeUpload t v u ps n sha) = quiet (finalize_upload digest t v u ps n sha)"
| "exec_blob cfg digest (PutArtifact t r a content) = quiet (put_artifact digest t r a content)"
| "exec_blob cfg digest (DeleteKey key) = quiet (delete_key cfg key)"
| "exec_blob cfg digest (DeleteDatasetVersion t v) = quiet (delete_dataset_version t v)"

text \<open>Whether an operation is a request to delete the object at a path.\<close>

fun deletes :: "local_config \<Rightarrow> blob_op \<Rightarrow> path \<Rightarrow> bool" where
  "deletes cfg (DeleteKey key) p \<longleftrightarrow> resolve_key (lc_root cfg) key = lc_root cfg @ p"
| "deletes cfg (DeleteDatasetVersion t v) p \<longleftrightarrow> take 3 p = [''datasets'', t, v]"
| "deletes cfg _ p \<longleftrightarrow> False"

inductive blob_steps :: "local_config \<Rightarrow> (string \<Rightarrow> string) \<Rightarrow> files \<Rightarrow> blob_op list \<Rightarrow> files \<Rightarrow> bool"
  for cfg digest where
  no_more: "blob_steps cfg digest fs [] fs"
| more: "blob_steps cfg digest (post (exec_blob cfg digest op) fs) ops fs' \<Longrightarrow>
    blob_steps cfg digest fs (op # ops) fs'"

inductive_simps blob_steps_simps [simp]:
  "blob_steps cfg digest fs [] fs'"
  "blob_steps cfg digest fs (op # ops) fs'"

lemma post_quiet [simp]: "post (quiet m) s = post m s"
  by (auto simp: quiet_def py_run split: prod.split sum.split)

text \<open>An operation writes at one path at most, and where it publishes, at a path that was free.\<close>

definition writes_only :: "(path \<Rightarrow> bool) \<Rightarrow> (files, 'a) py \<Rightarrow> bool" where
  "writes_only P m \<longleftrightarrow> (\<forall>fs. post m fs = fs \<or>
     (\<exists>q c. post m fs = AList.update q c fs \<and> (P q \<or> map_of fs q = None)))"

lemma writes_only_seq_lift:
  "(\<And>x. r = Inr x \<Longrightarrow> writes_only P (f x)) \<Longrightarrow> writes_only P (seq (lift r) f)"
  by (cases r) (auto simp: writes_only_def py_run)

lemma writes_only_seq_fail_if: "writes_only P (f ()) \<Longrightarrow> writes_only P (seq (fail_if c e) f)"
  by (auto simp: writes_only_def py_run)

lemma writes_only_basic: "writes_only P (ret x)" "writes_only P (raise e)"
  by (auto simp: writes_only_def py_run)

lemma writes_only_gets:
  "(\<And>fs. post (f (g fs)) fs = fs \<or> (\<exists>q c. post (f (g fs)) fs = AList.update q c fs \<and> (P q \<or> map_of fs q = None)))
     \<Longrightarrow> writes_only P (seq (gets g) f)"
  by (auto simp: writes_only_def py_run)

lemmas writes_only_rules = writes_only_seq_lift writes_only_seq_fail_if writes_only_basic writes_only_gets

lemma put_upload_part_writes: "writes_only (\<lambda>q. hd q = ''uploads'') (put_upload_part cfg digest t v u n cs)"
  unfolding put_upload_part_def
  by (intro writes_only_rules) (auto simp: writes_only_def write_file_def py_run upload_part_path_Inr)

lemma publish_post: "post (publish digest q c n sha) fs = fs \<or> post (publish digest q c n sha) fs = AList.update q c fs"
  by (simp add: publish_def write_file_def py_run)

lemma finalize_upload_writes: "writes_only (\<lambda>_. False) (finalize_upload digest t v u ps n sha)"
  unfolding finalize_upload_def Let_def
proof (intro writes_only_rules)
  fix tenant version supplied fs
  let ?dest = "[''datasets'', tenant, version, ''source'']"
  let ?m = "\<lambda>existing. case existing of
         Some content \<Rightarrow>
           if int (length content) = n \<and> digest content = sha then ret (info_of digest ?dest content)
           else raise (BlobIntegrity ''an immutable dataset object already exists with other bytes'')
       | None \<Rightarrow>
           seq (gets (\<lambda>fs. assemble digest t v u fs supplied)) (\<lambda>assembled.
           seq (lift assembled) (\<lambda>content. publish digest ?dest content n sha))"
  show "post (?m (map_of fs ?dest)) fs = fs \<or>
      (\<exists>q c. post (?m (map_of fs ?dest)) fs = AList.update q c fs \<and> (False \<or> map_of fs q = None))"
  proof (cases "map_of fs ?dest")
    case None
    then show ?thesis
      using publish_post [of digest ?dest _ n sha fs]
      by (cases "assemble digest t v u fs supplied") (auto simp: py_run)
  qed (auto simp: py_run)
qed

lemma put_artifact_writes: "writes_only (\<lambda>_. False) (put_artifact digest t r a content)"
  unfolding put_artifact_def Let_def
  by (intro writes_only_rules) (auto simp: py_run write_file_def split: option.splits)

lemma delete_key_post:
  "post (delete_key cfg key) fs = fs \<or>
     (\<exists>q. resolve_key (lc_root cfg) key = lc_root cfg @ q \<and> post (delete_key cfg key) fs = dpop q fs)"
  by (auto simp: delete_key_def path_for_key_def Let_def py_run) (metis append_take_drop_id)

lemma map_of_remove_tree:
  "map_of (remove_tree d fs) p = (if take (length d) p = d then None else map_of fs p)"
  unfolding remove_tree_def by (induction fs) auto

lemma safe_component_cases: "safe_component v f = Inr v \<or> (\<exists>e. safe_component v f = Inl e)"
  by (auto simp: safe_component_def)

lemma delete_dataset_version_post:
  "post (delete_dataset_version t v) fs = fs \<or>
     post (delete_dataset_version t v) fs =
       remove_tree [''datasets'', t, v] (remove_tree [''uploads'', t, v] fs)"
proof -
  consider "safe_component t ''tenant_id'' = Inr t" "safe_component v ''dataset_version_id'' = Inr v"
    | e where "safe_component t ''tenant_id'' = Inl e"
    | e where "safe_component t ''tenant_id'' = Inr t" "safe_component v ''dataset_version_id'' = Inl e"
    using safe_component_cases [of t] safe_component_cases [of v] by blast
  then show ?thesis by cases (auto simp: delete_dataset_version_def py_run)
qed

lemma delete_dataset_version_kept:
  assumes "published p" and "take 3 p \<noteq> [''datasets'', t, v]"
  shows "map_of (post (delete_dataset_version t v) fs) p = map_of fs p"
proof -
  have "take 3 p \<noteq> [''uploads'', t, v]" using assms(1) by (auto simp: published_def numeral_3_eq_3)
  then show ?thesis
    using delete_dataset_version_post [of t v fs] assms(2) by (auto simp: map_of_remove_tree numeral_3_eq_3)
qed

lemma writes_only_kept:
  assumes "writes_only P m" and "\<And>q. P q \<Longrightarrow> q \<noteq> p" and held: "map_of fs p = Some c"
  shows "map_of (post m fs) p = Some c"
proof -
  consider "post m fs = fs" | q d where "post m fs = AList.update q d fs" "P q \<or> map_of fs q = None"
    using assms(1) unfolding writes_only_def by blast
  then show ?thesis
  proof cases
    case 2
    then have "q \<noteq> p" using assms(2) held by auto
    with 2 held show ?thesis by (simp add: update_conv')
  qed (use held in simp)
qed

lemma exec_blob_kept:
  assumes "published p" and "\<not> deletes cfg op p" and "map_of fs p = Some c"
  shows "map_of (post (exec_blob cfg digest op) fs) p = Some c"
proof (cases op)
  case (PutUploadPart t v u n cs)
  with assms show ?thesis
    by (auto simp: published_def intro!: writes_only_kept [OF put_upload_part_writes])
next
  case (FinalizeUpload t v u ps n sha)
  with assms show ?thesis by (auto intro!: writes_only_kept [OF finalize_upload_writes])
next
  case (PutArtifact t r a content)
  with assms show ?thesis by (auto intro!: writes_only_kept [OF put_artifact_writes])
next
  case (DeleteKey key)
  with assms delete_key_post [of cfg key fs] show ?thesis by auto
next
  case (DeleteDatasetVersion t v)
  with assms delete_dataset_version_kept show ?thesis by auto
qed

text \<open>
  C27. A published object is immutable. Whatever uploads, publications of sources and artifacts
  and deletions follow, in any order and with any outcome, the bytes at its path stay the same
  until an operation asks to delete that very object: by its key, or by deleting its dataset
  version.
\<close>

theorem published_objects_immutable:
  assumes "blob_steps cfg digest fs ops fs'" and "published p" and "map_of fs p = Some content"
    and "\<forall>op \<in> set ops. \<not> deletes cfg op p"
  shows "map_of fs' p = Some content"
  using assms
proof (induction rule: blob_steps.induct)
  case (more op fs ops fs')
  then show ?case using exec_blob_kept [of p cfg op fs content digest] by simp
qed simp

section \<open>Download tickets\<close>

lemma ascii_ticket: "\<not> list_ex (\<lambda>c. 128 \<le> code_of c) (py_rstrip (CHR ''='') (b64_encode s))"
  using base64url_chars [of s]
  by (auto simp: jws_segment_def list_all_iff list_ex_iff base64url_char_def char_class_defs)

text \<open>
  A download ticket gives back what was issued, until it expires. The token that was made for
  an artifact is accepted with exactly the fields it was made from as long as its expiry has not
  passed, and is refused as expired afterwards; and whatever token is accepted is text signed with
  the service's secret, of the supported version and not expired.
\<close>

theorem download_ticket_round_trip:
  assumes codec: "json_codec cr dumps"
    and written: "\<And>j. dumps j \<noteq> []"
    and mac: "\<And>k m. length (hmac_sha256 cr k m) = 32"
    and token: "token = create_download_token cr dumps cfg ticket_id artifact_id tenant etag expires"
  shows "(now \<le> expires \<longrightarrow> (\<exists>value. verify_download_token cr cfg now token = Inr value \<and>
      map_of value = map_of (ticket_payload ticket_id artifact_id tenant etag expires))) \<and>
    (expires < now \<longrightarrow>
      verify_download_token cr cfg now token = Inl (ExpiredTicket ''download ticket has expired'')) \<and>
    (\<forall>other value. verify_download_token cr cfg now other = Inr value \<longrightarrow>
      (\<exists>payload. b64_decode False (b64_pad other) = Some (payload @ hmac_sha256 cr (lc_ticket_secret cfg) payload) \<and>
         loads cr payload = Some (JObj value) \<and> (\<exists>t. ticket_expiry value = Some t \<and> now \<le> t)))"
proof (intro conjI allI impI)
  let ?fields = "ticket_payload ticket_id artifact_id tenant etag expires"
  have canonical: "map_of (canon_dict ?fields) = map_of ?fields"
    by (rule ext) (simp add: map_of_canon_dict ticket_payload_def)
  obtain e where e: "loads cr (dumps (JObj (canon_dict ?fields))) = Some (JObj e)" "map_of e = map_of ?fields"
    using codec canonical unfolding json_codec_def by metis
  have version: "py_eq (dget e ''v'') (JInt 1)" "ticket_expiry e = Some expires"
    by (simp_all add: dget_def e(2) ticket_expiry_def) (simp_all add: ticket_payload_def)
  have verified: "verify_download_token cr cfg now token =
      (if expires < now then Inl (ExpiredTicket ''download ticket has expired'') else Inr e)"
    unfolding verify_download_token_def token create_download_token_def Let_def b64_round_trip if_not_P [OF ascii_ticket]
    by (simp add: mac e(1) version written)
  show "\<exists>value. verify_download_token cr cfg now token = Inr value \<and> map_of value = map_of ?fields"
    if "now \<le> expires" using that by (simp add: verified e(2))
  show "verify_download_token cr cfg now token = Inl (ExpiredTicket ''download ticket has expired'')"
    if "expires < now" using that by (simp add: verified)
next
  fix other "value" assume "verify_download_token cr cfg now other = Inr value"
  then obtain combined where combined: "b64_decode False (b64_pad other) = Some combined"
    and signed: "drop (length combined - 32) combined =
      hmac_sha256 cr (lc_ticket_secret cfg) (take (length combined - 32) combined)"
    and rest: "loads cr (take (length combined - 32) combined) = Some (JObj value)"
      "\<exists>t. ticket_expiry value = Some t \<and> now \<le> t"
    by (auto simp: verify_download_token_def Let_def invalid_ticket_def not_less
        split: if_splits option.splits json.splits)
  show "\<exists>payload. b64_decode False (b64_pad other) = Some (payload @ hmac_sha256 cr (lc_ticket_secret cfg) payload) \<and>
         loads cr payload = Some (JObj value) \<and> (\<exists>t. ticket_expiry value = Some t \<and> now \<le> t)"
    using combined rest append_take_drop_id [of "length combined - 32" combined] unfolding signed
    by (intro exI [where x = "take (length combined - 32) combined"]) simp
qed

end
