(* ===== verification/Demo_Codec.thy ===== *)
theory Demo_Codec
  imports Auth_Laws
begin

text \<open>
  A concrete text format for JSON values with its reader, which shows that a \<open>json_codec\<close> and a
  \<open>crypto\<close> exist and on which the witnesses of the token and cursor properties run. Strings are
  prefixed by their length, so nothing has to be escaped. It is no part of the service.
\<close>

section \<open>Writing\<close>

definition put_nat :: "nat \<Rightarrow> string" where
  "put_nat n = nat_str n @ '':''"

definition put_str :: "string \<Rightarrow> string" where
  "put_str s = put_nat (length s) @ s"

fun put_int :: "int \<Rightarrow> string" where
  "put_int i = (if i < 0 then CHR ''-'' # put_nat (nat (- i)) else CHR ''+'' # put_nat (nat i))"

fun put :: "json \<Rightarrow> string" where
  "put JNull = ''n''"
| "put (JBool b) = (if b then ''t'' else ''f'')"
| "put (JInt i) = CHR ''i'' # put_int i"
| "put (JFloat q) = CHR ''q'' # put_int (fst (quotient_of q)) @ put_int (snd (quotient_of q))"
| "put (JStr s) = CHR ''s'' # put_str s"
| "put (JArr xs) = CHR ''a'' # put_nat (length xs) @ concat (map put xs)"
| "put (JObj d) = CHR ''o'' # put_nat (length d) @ concat (map (\<lambda>p. put_str (fst p) @ put (snd p)) d)"

section \<open>Reading\<close>

definition get_nat :: "string \<Rightarrow> nat \<times> string" where
  "get_nat s = (digits_val 0 (takeWhile is_digit s), drop 1 (dropWhile is_digit s))"

definition get_str :: "string \<Rightarrow> string \<times> string" where
  "get_str s = (case get_nat s of (n, r) \<Rightarrow> (take n r, drop n r))"

fun get_int :: "string \<Rightarrow> int \<times> string" where
  "get_int (c # s) = (case get_nat s of (n, r) \<Rightarrow> (if c = CHR ''-'' then - int n else int n, r))"
| "get_int [] = (0, [])"

text \<open>Repeated reading: \<open>n\<close> values, each by \<open>f\<close>.\<close>

fun get_many :: "(string \<Rightarrow> ('a \<times> string) option) \<Rightarrow> nat \<Rightarrow> string \<Rightarrow> ('a list \<times> string) option" where
  "get_many f 0 s = Some ([], s)"
| "get_many f (Suc n) s =
     (case f s of None \<Rightarrow> None
      | Some (x, r) \<Rightarrow> map_option (\<lambda>(xs, t). (x # xs, t)) (get_many f n r))"

definition get_pair :: "(string \<Rightarrow> (json \<times> string) option) \<Rightarrow> string \<Rightarrow> ((string \<times> json) \<times> string) option" where
  "get_pair f s = (case get_str s of (k, r) \<Rightarrow> map_option (\<lambda>(v, t). ((k, v), t)) (f r))"

fun get_json :: "nat \<Rightarrow> string \<Rightarrow> (json \<times> string) option" where
  "get_json 0 s = None"
| "get_json (Suc m) [] = None"
| "get_json (Suc m) (c # s) =
     (if c = CHR ''n'' then Some (JNull, s)
      else if c = CHR ''t'' then Some (JBool True, s)
      else if c = CHR ''f'' then Some (JBool False, s)
      else if c = CHR ''i'' then (case get_int s of (i, r) \<Rightarrow> Some (JInt i, r))
      else if c = CHR ''q'' then (case get_int s of (i, r) \<Rightarrow> case get_int r of (j, t) \<Rightarrow>
             Some (JFloat (of_int i / of_int j), t))
      else if c = CHR ''s'' then (case get_str s of (x, r) \<Rightarrow> Some (JStr x, r))
      else if c = CHR ''a'' then (case get_nat s of (n, r) \<Rightarrow>
             map_option (\<lambda>(xs, t). (JArr xs, t)) (get_many (get_json m) n r))
      else if c = CHR ''o'' then (case get_nat s of (n, r) \<Rightarrow>
             map_option (\<lambda>(xs, t). (JObj xs, t)) (get_many (get_pair (get_json m)) n r))
      else None)"

definition read_json :: "string \<Rightarrow> json option" where
  "read_json s = (case get_json (length s) s of Some (j, []) \<Rightarrow> Some j | _ \<Rightarrow> None)"

section \<open>The round trip\<close>

lemma colon_no_digit: "\<not> is_digit (CHR '':'')"
  by (simp add: char_class_defs)

lemma get_put_nat [simp]: "get_nat (put_nat n @ r) = (n, r)"
proof -
  have "\<And>c. c \<in> set (nat_str n) \<Longrightarrow> is_digit c" using nat_str_digits by (simp add: list_all_iff)
  then show ?thesis
    by (simp add: get_nat_def put_nat_def takeWhile_append2 dropWhile_append2 colon_no_digit digits_val_nat_str)
qed

lemma get_put_str [simp]: "get_str (put_str s @ r) = (s, r)"
  by (simp add: get_str_def put_str_def)

lemma get_put_int [simp]: "get_int (put_int i @ r) = (i, r)"
  by simp

declare put_int.simps [simp del] get_int.simps [simp del]

lemma get_many_put:
  "(\<And>x r. x \<in> set xs \<Longrightarrow> f (g x @ r) = Some (x, r)) \<Longrightarrow>
   get_many f (length xs) (concat (map g xs) @ r) = Some (xs, r)"
  by (induction xs) auto

lemma length_put [simp]: "0 < length (put j)"
  by (cases j) auto

lemma length_concat_member: "x \<in> set xs \<Longrightarrow> length (g x) \<le> length (concat (map g xs))"
  by (induction xs) auto

lemma get_put_json: "length (put j) \<le> m \<Longrightarrow> get_json m (put j @ r) = Some (j, r)"
proof (induction j arbitrary: m r)
  case (JFloat q)
  have "rat_of_int (fst (quotient_of q)) / rat_of_int (snd (quotient_of q)) = q"
    using quotient_of_div [of q] by (metis prod.collapse)
  then show ?case using JFloat by (cases m) simp_all
next
  case (JArr xs)
  then obtain k where m: "m = Suc k" by (cases m) auto
  have "get_many (get_json k) (length xs) (concat (map put xs) @ r) = Some (xs, r)"
  proof (rule get_many_put)
    fix x r assume x: "x \<in> set xs"
    then have "length (put x) \<le> k" using length_concat_member [OF x, of put] JArr.prems m by simp
    then show "get_json k (put x @ r) = Some (x, r)" using JArr.IH [OF x] by simp
  qed
  then show ?case by (simp add: m)
next
  case (JObj d)
  then obtain k where m: "m = Suc k" by (cases m) auto
  have "get_many (get_pair (get_json k)) (length d)
      (concat (map (\<lambda>p. put_str (fst p) @ put (snd p)) d) @ r) = Some (d, r)"
  proof (rule get_many_put)
    fix p r assume p: "p \<in> set d"
    then have "length (put (snd p)) \<le> k"
      using length_concat_member [OF p, of "\<lambda>p. put_str (fst p) @ put (snd p)"] JObj.prems m by simp
    then have "get_json k (put (snd p) @ r) = Some (snd p, r)"
      using JObj.IH [OF p, of "snd p"] by (simp add: snds.simps)
    then show "get_pair (get_json k) ((put_str (fst p) @ put (snd p)) @ r) = Some (p, r)"
      by (simp add: get_pair_def)
  qed
  then show ?case by (simp add: m)
qed (auto simp: gr0_conv_Suc dest!: Suc_le_D)

lemma read_put: "read_json (put j) = Some j"
  using get_put_json [of j "length (put j)" "[]"] by (simp add: read_json_def)

section \<open>A concrete instance of the parameters\<close>

definition demo_crypto :: crypto where
  "demo_crypto = \<lparr>hmac_sha256 = (\<lambda>k m. take 32 (rev m @ k @ replicate 32 (CHR ''x''))), loads = read_json\<rparr>"

lemma demo_hmac_length: "length (hmac_sha256 demo_crypto k m) = 32"
  by (simp add: demo_crypto_def)

lemma demo_codec: "json_codec demo_crypto put"
  by (simp add: json_codec_def demo_crypto_def read_put del: put.simps)

section \<open>The verifier on a token of this instance\<close>

lemma jws_segment_nonempty: "s \<noteq> [] \<Longrightarrow> jws_segment s \<noteq> []"
  using b64_round_trip [of False s] by (auto simp: jws_segment_def b64_pad_def b64_decode_def)

lemma length_jws_segment: "length (jws_segment s) \<le> 2 * length s + 2"
proof -
  have "length (b64_encode s) \<le> 2 * length s + 2"
    by (induction s rule: b64_encode.induct) simp_all
  moreover have "length (py_rstrip c t) \<le> length t" for c t
    by (simp add: py_rstrip_def length_dropWhile_le [of _ "rev t", simplified])
  ultimately show ?thesis unfolding jws_segment_def using le_trans by blast
qed

lemma put_nonempty: "put j \<noteq> []"
  using length_put [of j] by (rule length_greater_0_conv [THEN iffD1])

text \<open>What is left of the verification when the text of the token is decoded.\<close>

lemma verify_demo_token:
  fixes headers payload :: jdict and key :: string
  defines "header \<equiv> dput ''alg'' (JStr ''HS256'') headers"
  assumes "length (put (JObj header)) + length (put (JObj payload)) \<le> 10000"
    and "\<not> has_key header ''crit''"
  shows "verify_hs256 demo_crypto v t (compact_jws demo_crypto put headers payload key) =
      exn_bind (select_key v (dget header ''kid'')) (\<lambda>(key_id, k).
      if hmac_sha256 demo_crypto key (jws_segment (put (JObj header)) @ ''.'' @ jws_segment (put (JObj payload)))
           \<noteq> hmac_sha256 demo_crypto k (jws_segment (put (JObj header)) @ ''.'' @ jws_segment (put (JObj payload)))
      then Inl (TokenInvalid ''The bearer token signature is invalid.'')
      else exn_bind (check_times v t payload) (\<lambda>_.
           exn_bind (check_issuer_and_audience v payload) (\<lambda>_.
             identity_claims (hs_issuer v) (Some key_id) payload)))"
proof -
  define sh where "sh = jws_segment (put (JObj header))"
  define sp where "sp = jws_segment (put (JObj payload))"
  define mac where "mac = hmac_sha256 demo_crypto key (sh @ ''.'' @ sp)"
  have mac: "mac \<noteq> []" "length mac = 32"
    using demo_hmac_length [of key "sh @ ''.'' @ sp"] unfolding mac_def by auto
  have token: "compact_jws demo_crypto put headers payload key = sh @ CHR ''.'' # sp @ CHR ''.'' # jws_segment mac"
    unfolding compact_jws_def Let_def sh_def sp_def mac_def header_def by simp
  have split: "py_split (CHR ''.'') (sh @ CHR ''.'' # sp @ CHR ''.'' # jws_segment mac) = [sh, sp, jws_segment mac]"
    unfolding sh_def sp_def by (simp only: py_split_at py_split_none no_dot not_False_eq_True)
  have nonempty: "sh \<noteq> []" "sp \<noteq> []" "jws_segment mac \<noteq> []"
    unfolding sh_def sp_def by (simp_all only: jws_segment_nonempty put_nonempty mac not_False_eq_True)
  have size: "length (sh @ CHR ''.'' # sp @ CHR ''.'' # jws_segment mac) \<le> 65536"
    using assms(2) length_jws_segment [of "put (JObj header)"] length_jws_segment [of "put (JObj payload)"]
      length_jws_segment [of mac] mac(2) unfolding sh_def sp_def length_append list.size by linarith
  have "decode_json_object demo_crypto sh = Inr header" "decode_json_object demo_crypto sp = Inr payload"
    using nonempty unfolding sh_def sp_def
    by (simp_all add: decode_json_object_def decode_jws_segment demo_crypto_def read_put del: put.simps)
  moreover have "check_signature demo_crypto k (sh @ ''.'' @ sp) (jws_segment mac) =
      (if mac \<noteq> hmac_sha256 demo_crypto k (sh @ ''.'' @ sp)
       then Inl (TokenInvalid ''The bearer token signature is invalid.'') else Inr ())" for k
    using nonempty mac by (simp add: check_signature_def decode_jws_segment)
  moreover have "dget header ''alg'' = JStr ''HS256''" by (simp add: header_def)
  ultimately show ?thesis
    using nonempty size assms(3)
    unfolding token verify_hs256_def split sh_def [symmetric] sp_def [symmetric] mac_def [symmetric]
    by (auto simp: not_less if_distrib [where f = "\<lambda>x. exn_bind x f" for f] exn_bind_def
        split: sum.splits)
qed

end
