(* ===== verification/Protocol.thy ===== *)
theory Protocol
  imports Security
begin

text \<open>
  The protocol helpers of the HTTP interface (protocol.py): request fingerprints, signed cursors
  and the revision of an \<open>If-Match\<close> header. \<open>json.dumps\<close>, SHA-256 and the cursor secret are
  arguments.
\<close>

section \<open>Fingerprints and cursors\<close>

text \<open>
  The canonical text of a request, of which the fingerprint is the SHA-256: \<open>dumps\<close> is
  \<open>json.dumps\<close> with sorted keys. \<open>x or {}\<close> turns a missing mapping into an empty one.
\<close>

definition to_upper :: "char \<Rightarrow> char" where
  "to_upper c = (if is_lower c then char_of (code_of c - 32) else c)"

definition request_fingerprint ::
  "(string \<Rightarrow> string) \<Rightarrow> (json \<Rightarrow> string) \<Rightarrow> string \<Rightarrow> string \<Rightarrow> jdict option \<Rightarrow> json \<Rightarrow> jdict option \<Rightarrow> string" where
  "request_fingerprint digest dumps method path query payload conditions =
     digest (dumps (canon (JObj
       [(''method'', JStr (map to_upper method)), (''path'', JStr path),
        (''query'', JObj (case query of None \<Rightarrow> [] | Some q \<Rightarrow> q)), (''body'', payload),
        (''conditions'', JObj (case conditions of None \<Rightarrow> [] | Some c \<Rightarrow> c))])))"

definition encode_cursor :: "crypto \<Rightarrow> (json \<Rightarrow> string) \<Rightarrow> string \<Rightarrow> jdict \<Rightarrow> string" where
  "encode_cursor cr dumps secret payload =
     (let raw = dumps (canon (JObj payload))
      in py_rstrip (CHR ''='') (b64_encode (raw @ hmac_sha256 cr secret raw)))"

definition invalid_cursor :: exn where
  "invalid_cursor = APIProblem 400 ''invalid_cursor'' ''Invalid cursor'' []"

text \<open>
  The slices \<open>combined[:-32]\<close> and \<open>combined[-32:]\<close>; a cursor that is not ASCII, and any failure
  of the decoders, is the same answer.
\<close>

definition decode_cursor :: "crypto \<Rightarrow> string \<Rightarrow> string \<Rightarrow> exn + jdict" where
  "decode_cursor cr secret cursor =
     (if list_ex (\<lambda>c. 128 \<le> code_of c) cursor then Inl invalid_cursor
      else case b64_decode False (b64_pad cursor) of
             None \<Rightarrow> Inl invalid_cursor
           | Some combined \<Rightarrow>
               let raw = take (length combined - 32) combined;
                   supplied = drop (length combined - 32) combined
               in if supplied \<noteq> hmac_sha256 cr secret raw then Inl invalid_cursor
                  else case loads cr raw of
                         Some (JObj d) \<Rightarrow> Inr d
                       | _ \<Rightarrow> Inl invalid_cursor)"

definition configure_cursor_secret :: "string \<Rightarrow> exn + string" where
  "configure_cursor_secret secret = validate_shared_secret ''Cursor signing secret'' [] secret"

section \<open>Revisions\<close>

definition invalid_if_match :: exn where
  "invalid_if_match = APIProblem 400 ''invalid_if_match'' ''Invalid If-Match'' []"

definition quote_char :: char where
  "quote_char = char_of (34 :: nat)"

definition parse_revision_etag :: "string \<Rightarrow> exn + int" where
  "parse_revision_etag v =
     (if length v < 3 \<or> hd v \<noteq> quote_char \<or> last v \<noteq> quote_char then Inl invalid_if_match
      else case parse_int (butlast (tl v)) of
             None \<Rightarrow> Inl invalid_if_match
           | Some r \<Rightarrow> if r < 1 then Inl invalid_if_match else Inr r)"

section \<open>Correctness\<close>

lemma ascii_base64: "list_all (\<lambda>c. code_of c < 128) (py_rstrip (CHR ''='') (b64_encode s))"
proof -
  have char: "code_of (b64_char v) < 128" if "v < 64" for v
    using that by (auto simp: b64_char_def code_of_def of_char_of)
  have "list_all (\<lambda>c. code_of c < 128) (b64_encode s)"
    by (induction s rule: b64_encode.induct) (simp_all add: char code_of_def [of "CHR ''=''"])
  moreover have "set (py_rstrip (CHR ''='') t) \<subseteq> set t" for t
    by (auto simp: py_rstrip_def dest: set_dropWhileD)
  ultimately show ?thesis by (auto simp: list_all_iff)
qed

text \<open>
  Cursors survive the round trip, and only cursors that were signed with the secret are
  accepted. Decoding an issued cursor gives its payload back (with sorted keys); whatever is
  decoded carries the HMAC of its text.
\<close>

theorem cursor_round_trip:
  assumes "loads cr (dumps (canon (JObj payload))) = Some (canon (JObj payload))"
    and "\<And>m. length (hmac_sha256 cr secret m) = 32"
  shows "decode_cursor cr secret (encode_cursor cr dumps secret payload) = Inr (canon_dict payload) \<and>
    (\<forall>cursor d. decode_cursor cr secret cursor = Inr d \<longrightarrow>
      (\<exists>raw. b64_decode False (b64_pad cursor) = Some (raw @ hmac_sha256 cr secret raw) \<and>
         loads cr raw = Some (JObj d)))"
proof -
  let ?raw = "dumps (canon (JObj payload))"
  let ?cursor = "encode_cursor cr dumps secret payload"
  have "b64_decode False (b64_pad ?cursor) = Some (?raw @ hmac_sha256 cr secret ?raw)"
    by (simp add: encode_cursor_def Let_def b64_round_trip)
  moreover have "\<not> list_ex (\<lambda>c. 128 \<le> code_of c) ?cursor"
    using ascii_base64 by (auto simp: encode_cursor_def Let_def list_ex_iff list_all_iff not_le)
  ultimately have "decode_cursor cr secret ?cursor = Inr (canon_dict payload)"
    using assms by (simp add: decode_cursor_def Let_def)
  moreover have "\<exists>raw. b64_decode False (b64_pad cursor) = Some (raw @ hmac_sha256 cr secret raw) \<and>
      loads cr raw = Some (JObj d)" if dec: "decode_cursor cr secret cursor = Inr d" for cursor d
  proof -
    obtain combined where c: "b64_decode False (b64_pad cursor) = Some combined"
      "drop (length combined - 32) combined = hmac_sha256 cr secret (take (length combined - 32) combined)"
      "loads cr (take (length combined - 32) combined) = Some (JObj d)"
      using dec by (auto simp: decode_cursor_def Let_def split: if_splits option.splits json.splits)
    then show ?thesis
      using append_take_drop_id [of "length combined - 32" combined] by (metis (no_types))
  qed
  ultimately show ?thesis by blast
qed

text \<open>
  The revision a client quotes is the revision the service reads: the quoted decimal of a
  positive number is parsed back, and only quoted positive numbers are accepted.
\<close>

theorem revision_etag_round_trip:
  assumes "1 \<le> r" and "length (nat_str (nat r)) \<le> 4300"
  shows "parse_revision_etag ([quote_char] @ int_str r @ [quote_char]) = Inr r \<and>
    (\<forall>v n. parse_revision_etag v = Inr n \<longrightarrow> 1 \<le> n \<and>
       (\<exists>t. v = [quote_char] @ t @ [quote_char] \<and> parse_int t = Some n))"
proof -
  have "int_str r \<noteq> []" using assms(1) by (simp add: int_str_def)
  then have "parse_revision_etag ([quote_char] @ int_str r @ [quote_char]) = Inr r"
    using assms parse_int_str [of r] by (cases "int_str r") (simp_all add: parse_revision_etag_def butlast_append)
  moreover have "1 \<le> n \<and> (\<exists>t. v = [quote_char] @ t @ [quote_char] \<and> parse_int t = Some n)"
    if "parse_revision_etag v = Inr n" for v n
  proof -
    have v: "3 \<le> length v" "hd v = quote_char" "last v = quote_char" "parse_int (butlast (tl v)) = Some n" "1 \<le> n"
      using that by (auto simp: parse_revision_etag_def split: if_splits option.splits)
    have "v = [quote_char] @ butlast (tl v) @ [quote_char]"
    proof (cases v)
      case (Cons x t)
      with v(1) have "t \<noteq> []" by auto
      with Cons v(2,3) append_butlast_last_id [of t] show ?thesis by simp
    qed (use v(1) in simp)
    with v show ?thesis by blast
  qed
  ultimately show ?thesis by blast
qed

end
