(* ===== verification/Access_Examples.thy ===== *)
theory Access_Examples
  imports Demo_Codec Protocol Rules_Laws
begin

text \<open>
  Concrete tokens, principals, cursors, budgets and decision packets, which the theorems on the
  access layer are applied to.
\<close>

section \<open>A credential\<close>

definition demo_secret :: string where
  "demo_secret = ''0123456789abcdef0123456789abcdef''"

definition demo_cursor_secret :: string where
  "demo_cursor_secret = ''cursor-secret-cursor-secret-cursor''"

definition demo_environ :: "(string \<times> string) list" where
  "demo_environ =
     [(''AUTOML_AUTH_MODE'', ''production''), (''AUTOML_JWT_ISSUER'', ''iss''),
      (''AUTOML_JWT_AUDIENCE'', ''api''), (''AUTOML_JWT_SECRET'', demo_secret),
      (''AUTOML_CURSOR_SECRET'', demo_cursor_secret)]"

definition demo_settings :: auth_settings where
  "demo_settings =
     \<lparr>as_mode = Production, as_issuer = Some ''iss'', as_audiences = [''api''],
      as_signing_keys = [(''default'', demo_secret)], as_jwks_url = None, as_jwks_json = None,
      as_algorithms = [''HS256''], as_cursor_secret = Some demo_cursor_secret, as_leeway = 30\<rparr>"

lemma demo_settings: "auth_from_env demo_crypto demo_environ = Inr demo_settings"
  by code_simp

definition demo_verifier :: hs256_verifier where
  "demo_verifier =
     \<lparr>hs_issuer = ''iss'', hs_audiences = [''api''], hs_keys = [(''default'', demo_secret)], hs_leeway = 30\<rparr>"

lemma demo_verifier:
  "hs256_jwt_verifier ''iss'' [''api''] [(''default'', demo_secret)] 30 = Inr demo_verifier"
  by code_simp

lemma demo_default: "default_verifier demo_settings = Inr (HS256 demo_verifier)"
  by (simp add: default_verifier_def demo_settings_def as_config_error_def demo_verifier)

definition demo_scope :: string where
  "demo_scope = ''automl:operation:getRun''"

definition demo_payload :: jdict where
  "demo_payload = credential_payload (Some ''iss'') ''api'' ''u'' ''t1'' ''human'' [demo_scope] 0 60 ''j''"

definition demo_headers :: jdict where
  "demo_headers = [(''kid'', JStr ''default''), (''typ'', JStr ''JWT'')]"

definition demo_token :: string where
  "demo_token = compact_jws demo_crypto put demo_headers demo_payload demo_secret"

definition demo_vt :: verified_token where
  "demo_vt = \<lparr>vt_subject = ''u'', vt_tenant_id = ''t1'', vt_scopes = [demo_scope], vt_roles = [],
     vt_actor_type = ''human'', vt_issuer = ''iss'', vt_key_id = Some ''default''\<rparr>"

lemma demo_accepted: "verify_hs256 demo_crypto demo_verifier 0 demo_token = Inr demo_vt"
proof -
  have "length (put (JObj (dput ''alg'' (JStr ''HS256'') demo_headers))) + length (put (JObj demo_payload)) \<le> 10000"
    and "\<not> has_key (dput ''alg'' (JStr ''HS256'') demo_headers) ''crit''"
    and "select_key demo_verifier (dget (dput ''alg'' (JStr ''HS256'') demo_headers) ''kid'') = Inr (''default'', demo_secret)"
    and "check_times demo_verifier 0 demo_payload = Inr ()"
    and "check_issuer_and_audience demo_verifier demo_payload = Inr ()"
    and "identity_claims (hs_issuer demo_verifier) (Some ''default'') demo_payload = Inr demo_vt"
    by code_simp+
  then show ?thesis unfolding demo_token_def by (subst verify_demo_token) simp_all
qed

definition demo_credential :: credential where
  "demo_credential = \<lparr>cr_token = demo_token, cr_subject = ''u'', cr_tenant_id = ''t1'', cr_actor_type = ''human'',
     cr_key_id = ''default'', cr_scopes = [demo_scope], cr_expires_at = 60, cr_expires_in = 60\<rparr>"

lemma demo_issued:
  "issue_token demo_crypto (compact_jws demo_crypto put) demo_environ 0 ''j'' ''u'' ''t1'' ''human'' [''getRun''] 60 None
     = Inr demo_credential"
proof -
  have settings: "as_signing_keys demo_settings = [(''default'', demo_secret)]" "as_mode demo_settings = Production"
    "as_issuer demo_settings = Some ''iss''" "as_audiences demo_settings = [''api'']" "as_leeway demo_settings = 30"
    by (simp_all add: demo_settings_def)
  have scopes: "traverse scope_for_operation [''getRun''] = Inr [demo_scope]" by code_simp
  have sorted: "sort (remdups [demo_scope]) = [demo_scope]" by simp
  have token: "compact_jws demo_crypto put [(''kid'', JStr ''default''), (''typ'', JStr ''JWT'')]
      (credential_payload (Some ''iss'') ''api'' ''u'' ''t1'' ''human'' [demo_scope] 0 60 ''j'') demo_secret = demo_token"
    by (simp only: demo_token_def demo_headers_def demo_payload_def)
  have accepted: "verify_hs256 demo_crypto demo_verifier (of_int 0) demo_token = Inr demo_vt"
    using demo_accepted by simp
  have numbers: "(60::int) \<le> 60 \<and> (60::int) \<le> 86400" "(0::int) + 60 = 60" by simp_all
  show ?thesis
    unfolding issue_token_def demo_settings demo_credential_def
    by (simp only: exn_bind_simps settings list.case option.case fst_conv snd_conv map_of.simps fun_upd_apply
        scopes sorted Let_def numbers list.sel token demo_verifier accepted not_True_eq_False if_False if_True
        refl simp_thms list.distinct)
qed

theorem issued_credential_accepted_witness:
  "(\<exists>settings v. auth_from_env demo_crypto demo_environ = Inr settings \<and> default_verifier settings = Inr (HS256 v) \<and>
     (\<exists>vt. verify_hs256 demo_crypto v 59 demo_token = Inr vt \<and> vt_subject vt = ''u'') \<and>
     verify_hs256 demo_crypto v 90 demo_token = Inl (TokenInvalid ''The bearer token has expired.''))"
proof -
  obtain settings v where env: "auth_from_env demo_crypto demo_environ = Inr settings"
    and v: "default_verifier settings = Inr (HS256 v)"
    and ok: "\<forall>t. of_int 0 \<le> t \<longrightarrow> t < of_int (0 + 60) \<longrightarrow>
       (\<exists>vt. verify_hs256 demo_crypto v t (cr_token demo_credential) = Inr vt \<and> vt_subject vt = ''u'' \<and>
         vt_tenant_id vt = ''t1'' \<and> vt_actor_type vt = ''human'' \<and> vt_key_id vt = Some (cr_key_id demo_credential) \<and>
         set (vt_scopes vt) = (\<lambda>op. ''automl:operation:'' @ op) ` set [''getRun''])"
    and late: "\<forall>t. of_int (0 + 60 + hs_leeway v) \<le> t \<longrightarrow>
       verify_hs256 demo_crypto v t (cr_token demo_credential) = Inl (TokenInvalid ''The bearer token has expired.'')"
    using issued_credential_accepted [OF demo_issued refl demo_codec] by (elim exE conjE)
  have "default_verifier demo_settings = Inr (HS256 demo_verifier)" by (rule demo_default)
  then have "v = demo_verifier" using env v by (simp add: demo_settings)
  then have "hs_leeway v = 30" by (simp add: demo_verifier_def)
  then have "verify_hs256 demo_crypto v 90 (cr_token demo_credential) = Inl (TokenInvalid ''The bearer token has expired.'')"
    using late by simp
  moreover have "\<exists>vt. verify_hs256 demo_crypto v 59 (cr_token demo_credential) = Inr vt \<and> vt_subject vt = ''u''"
    using ok [THEN spec, of 59] by auto
  moreover have "cr_token demo_credential = demo_token" by (simp add: demo_credential_def)
  ultimately show ?thesis using env v by (simp only:) blast
qed

theorem accepted_token_is_authentic_witness:
  "\<exists>p g h key secret. demo_token = h @ ''.'' @ p @ ''.'' @ g \<and> map_of (hs_keys demo_verifier) key = Some secret \<and>
     decode_base64url g = Inr (hmac_sha256 demo_crypto secret (h @ ''.'' @ p))"
  using accepted_token_is_authentic [OF demo_accepted] by blast


definition demo_principal :: principal where
  "demo_principal = \<lparr>subject = ''u'', tenant_id = ''t1'', scopes = [demo_scope], roles = [], actor_type = ''human'',
     authentication_mode = ''production'', issuer = Some ''iss'', key_id = Some ''default''\<rparr>"





theorem scope_check_exact_witness:
  "enforce_scopes demo_principal [demo_scope] = Inr demo_principal \<and>
   enforce_scopes demo_principal [''automl:operation:cancelRun''] \<noteq> Inr demo_principal"
proof -
  have "list_all valid_scope [demo_scope]" "list_all valid_scope [''automl:operation:cancelRun'']"
    "''*'' \<notin> set (scopes demo_principal)" "demo_scope \<in> set (scopes demo_principal)"
    "''automl:operation:cancelRun'' \<notin> set (scopes demo_principal)"
    by code_simp+
  then show ?thesis
    using scope_check_exact [of "[demo_scope]" demo_principal]
      scope_check_exact [of "[''automl:operation:cancelRun'']" demo_principal] by simp
qed

section \<open>Limits\<close>

definition demo_budget :: jdict where
  "demo_budget = [(''max_trials'', JInt 21), (''max_wall_time_seconds'', JInt 60), (''max_compute_credits'', JInt 5)]"

theorem budget_check_exact_witness:
  "\<exists>violations. validate_budget (\<lambda>_. None) default_limits demo_budget =
       Inl (APIProblem 422 ''budget_limit_exceeded'' ''Run budget exceeds this service profile''
         [(''violations'', JObj violations), (''runtime_limits'', JObj (manifest default_limits))]) \<and>
     has_key violations ''max_trials'' \<and> \<not> has_key violations ''max_wall_time_seconds''"
proof -
  have "item_of demo_budget ''max_trials'' = Inr (JInt 21)" "py_int (JInt 21) = Inr 21"
    "item_of demo_budget ''max_wall_time_seconds'' = Inr (JInt 60)" "py_int (JInt 60) = Inr 60"
    "item_of demo_budget ''max_compute_credits'' = Inr (JInt 5)" "py_float (\<lambda>_. None) (JInt 5) = Inr 5"
    by (simp_all add: demo_budget_def item_of_def float_of_int_def)
  from budget_check_exact [OF this, of default_limits] show ?thesis by (auto simp: default_limits_def)
qed

theorem limits_from_env_sane_witness:
  "\<exists>l. limits_from_env (\<lambda>_. None) [(''AUTOML_MAX_TRIALS_PER_RUN'', ''7'')] = Inr l \<and>
     max_trials_per_run l = 7 \<and> 60 \<le> max_wall_time_seconds l"
proof -
  have "limits_from_env (\<lambda>_. None) [(''AUTOML_MAX_TRIALS_PER_RUN'', ''7'')]
      = Inr (default_limits\<lparr>max_trials_per_run := 7\<rparr>)"
    by code_simp
  then show ?thesis using limits_from_env_sane by (intro exI conjI) auto
qed

section \<open>Cursors and revisions\<close>

theorem cursor_round_trip_witness:
  "decode_cursor demo_crypto demo_cursor_secret
     (encode_cursor demo_crypto put demo_cursor_secret [(''seq'', JInt 3), (''after'', JStr ''r1'')])
   = Inr [(''after'', JStr ''r1''), (''seq'', JInt 3)]"
proof -
  have codec: "loads demo_crypto (put j) = Some j" for j
    by (simp add: demo_crypto_def read_put del: put.simps)
  have sorted: "canon_dict [(''seq'', JInt 3), (''after'', JStr ''r1'')] = [(''after'', JStr ''r1''), (''seq'', JInt 3)]"
    by code_simp
  show ?thesis
    by (rule trans [OF cursor_round_trip [where cr = demo_crypto and dumps = put and secret = demo_cursor_secret, OF codec demo_hmac_length, THEN conjunct1]]) (simp only: sorted)
qed

theorem revision_etag_round_trip_witness: "parse_revision_etag ([quote_char] @ ''12'' @ [quote_char]) = Inr 12"
proof -
  have "nat_str (nat 12) = ''12''" "int_str 12 = ''12''" by code_simp+
  then show ?thesis using revision_etag_round_trip [of 12] by simp
qed

section \<open>Selections and answers\<close>

theorem selection_comparison_is_permutation_witness:
  "same_value_multiset [JStr ''a'', JInt 1, JStr ''a''] [JInt 1, JStr ''a'', JStr ''a''] \<and>
   \<not> same_value_multiset [JInt 1] [JBool True]"
proof -
  have "same_value_multiset [JStr ''a'', JInt 1, JStr ''a''] [JInt 1, JStr ''a'', JStr ''a'']"
    using selection_comparison_is_permutation
        [of "[JStr ''a'', JInt 1, JStr ''a'']" "[JInt 1, JStr ''a'', JStr ''a'']"]
    by (auto simp: same_value_def intro!: exI [of _ "[JStr ''a'', JInt 1, JStr ''a'']"])
  then show ?thesis by (simp add: same_value_multiset_def same_value_def)
qed

definition demo_question :: jdict where
  "demo_question =
     [(''question_id'', JStr ''q_target''), (''selection_mode'', JStr ''FREEFORM''), (''min_selections'', JInt 1),
      (''max_selections'', JInt 1), (''options'', JArr [])]"

theorem packet_answer_exact_witness:
  "validate_packet_answers [(''questions'', JArr [JObj demo_question])] [(''q_target'', JStr ''price'')]
     = Inr [(''q_target'', JStr ''price'')]"
proof -
  have "questions_of [(''questions'', JArr [JObj demo_question])] = Inr [demo_question]"
    "traverse question_id [demo_question] = Inr [''q_target'']"
    "check_answer demo_question (JStr ''price'') = Inr ()"
    by code_simp+
  then show ?thesis
    using packet_answer_exact [of "[(''questions'', JArr [JObj demo_question])]" "[demo_question]" "[''q_target'']"
        "[(''q_target'', JStr ''price'')]"] check_answer_admissible by simp
qed

end
