(* ===== verification/Store_Examples.thy ===== *)
theory Store_Examples
  imports Store_Laws
begin

text \<open>
  Concrete executions of the store, which the theorems of \<open>Store_Laws\<close> are applied to.
\<close>

definition demo_endpoint :: jdict where
  "demo_endpoint =
     [(''webhook_endpoint_id'', JStr ''wh_1''), (''tenant_id'', JStr ''t1''),
      (''status'', JStr ''ACTIVE''), (''event_types'', JArr [JStr ''run.progress''])]"

definition demo_run :: jdict where
  "demo_run =
     [(''run_id'', JStr ''r1''), (''tenant_id'', JStr ''t1''), (''status'', JStr ''QUEUED''),
      (''webhook_endpoint_ids'', JArr [JStr ''wh_1'', JStr ''wh_9''])]"

definition demo_event :: jdict where
  "demo_event = [(''event_id'', JStr ''e1''), (''type'', JStr ''run.progress''),
                 (''occurred_at'', JStr ''2024-01-01'')]"

definition demo_store :: store where
  "demo_store =
     run_op plain_env (AppendEvent ''r1'' demo_event)
       (run_op plain_env (CreateRun demo_run)
         (run_op plain_env (CreateWebhookEndpoint demo_endpoint) empty_store))"

lemma demo_event_ok: "event_ok s demo_event"
  by (simp add: event_ok_def demo_event_def not_ahead_def format_id_def)

lemma demo_reachable: "reachable plain_env demo_store"
  unfolding demo_store_def
  by (intro reachable.intros) (simp_all add: demo_event_ok demo_run_def dget_or_def)

definition "demo_stored_run = (case map_of (st_runs demo_store) ''r1'' of Some r \<Rightarrow> r | None \<Rightarrow> [])"

lemma demo_stored: "map_of (st_runs demo_store) ''r1'' = Some demo_stored_run"
  by code_simp

section \<open>The log\<close>

theorem event_log_paging_witness:
  "get_events ''r1'' (int 0) (Some (int 1)) None demo_store
     = (Inr (take 1 (drop 0 (log_of demo_store ''r1''))), demo_store) \<and>
   dget demo_stored_run ''snapshot_seq'' = JInt (int (length (log_of demo_store ''r1''))) \<and>
   length (log_of demo_store ''r1'') = 1"
proof -
  have "length (log_of demo_store ''r1'') = 1" by code_simp
  then show ?thesis using event_log_paging [OF demo_reachable demo_stored, of 1 0] by simp
qed

definition demo_op :: store_op where
  "demo_op = AppendEvent ''r1'' [(''type'', JStr ''run.progress'')]"

theorem event_logs_append_only_witness:
  "prefix (log_of demo_store ''r1'') (log_of (run_op plain_env demo_op demo_store) ''r1'') \<and>
   length (log_of (run_op plain_env demo_op demo_store) ''r1'') = 2"
proof -
  have "length (log_of (run_op plain_env demo_op demo_store) ''r1'') = 2" by code_simp
  then show ?thesis
    using event_logs_append_only [OF demo_reachable, of demo_op] by (simp add: demo_op_def event_ok_def)
qed

definition demo_appended :: "(exn + jdict) \<times> store" where
  "demo_appended = append_event plain_env ''r1'' [(''type'', JStr ''run.progress'')] demo_store"

theorem append_event_replay_witness:
  "append_event plain_env ''r1''
     (dput ''event_id'' (dget (projr (fst demo_appended)) ''event_id'') [(''type'', JStr ''run.progress'')])
     (snd demo_appended) = (Inr (projr (fst demo_appended)), snd demo_appended)"
proof -
  have "wf_dict demo_stored_run" and "\<not> isl (fst demo_appended)" by code_simp+
  then have "append_event plain_env ''r1'' [(''type'', JStr ''run.progress'')] demo_store
      = (Inr (projr (fst demo_appended)), snd demo_appended)"
    by (simp flip: demo_appended_def add: prod_eq_iff)
  from append_event_replay [OF demo_reachable _ demo_stored \<open>wf_dict demo_stored_run\<close> this]
  show ?thesis by simp
qed

section \<open>Revisions\<close>

lemma demo_revision: "py_int (dget_or demo_stored_run ''run_revision'' (JInt 1)) = Inr 1"
  by code_simp

theorem stale_revision_refused_witness:
  "update_run ''r1'' [] (Some 7) True demo_store = (Inl (RevisionConflict 7 1), demo_store)"
  using stale_revision_refused [OF demo_stored demo_revision, of 7 "[]" True] by simp

definition demo_updated :: "(exn + jdict) \<times> store" where
  "demo_updated = update_run ''r1'' [(''status'', JStr ''RUNNING'')] (Some 1) True demo_store"

theorem update_run_lost_update_witness:
  "dget (projr (fst demo_updated)) ''run_revision'' = JInt 2 \<and>
   update_run ''r1'' [] (Some 1) True (snd demo_updated)
     = (Inl (RevisionConflict 1 2), snd demo_updated)"
proof -
  have "\<not> isl (fst demo_updated)" by code_simp
  then have "update_run ''r1'' [(''status'', JStr ''RUNNING'')] (Some 1) True demo_store
      = (Inr (projr (fst demo_updated)), snd demo_updated)"
    by (simp flip: demo_updated_def add: prod_eq_iff)
  from update_run_lost_update_excluded [OF demo_stored demo_revision this, of "[]" True]
  show ?thesis by simp
qed

definition demo_old_event :: jdict where
  "demo_old_event = (case map_of (sub st_event_ids ''r1'' demo_store) ''e1'' of
                       Some e \<Rightarrow> e | None \<Rightarrow> [])"

theorem refused_mutation_takes_effect_witness:
  "\<exists>t item. mutate_run_with_event plain_env ''r1'' [(''status'', JStr ''RUNNING'')] demo_event None True
      demo_store = (Inl (ResourceAlreadyExists ''event'' ''e1''), t) \<and>
      map_of (st_runs t) ''r1'' = Some item \<and> map_of item ''run_revision'' = Some (JInt 2)"
proof -
  have "map_of demo_stored_run ''run_revision'' = Some (JInt 1)"
    and "map_of (sub st_event_ids ''r1'' demo_store) ''e1'' = Some demo_old_event"
    and "\<not> py_eq (JInt (1 + 1)) (dget demo_old_event ''run_revision'')"
    and "map_of demo_event ''event_id'' = Some (JStr ''e1'')"
    and "dget demo_event ''run_id'' = JNull"
    by code_simp+
  from refused_mutation_takes_effect [OF demo_reachable demo_stored this]
  show ?thesis by fastforce
qed

section \<open>Results and requests\<close>

theorem results_and_answers_final_witness:
  "ledger_kept demo_store
     (run_op plain_env (SetResult ''r1'' [(''outcome'', JStr ''SUCCEEDED'')]) demo_store)"
  by (rule results_and_answers_final) simp

definition demo_answer :: stored_response where
  "demo_answer = \<lparr>status_code = 201, body = JNull, headers = []\<rparr>"

definition demo_completed :: store where
  "demo_completed = post (complete_idempotent_request ''op'' ''k'' ''f1'' demo_answer) empty_store"

theorem idempotent_answer_replayed_witness:
  "begin_idempotent_request ''op'' ''k'' ''f1'' demo_completed
     = (Inr \<lparr>state = REPLAY, asked_fingerprint = ''f1'', replayed = Some demo_answer,
             existing_fingerprint = None\<rparr>, demo_completed)"
proof -
  have "complete_idempotent_request ''op'' ''k'' ''f1'' demo_answer empty_store
      = (Inr demo_answer, demo_completed)"
    by (simp add: prod_eq_iff demo_completed_def) code_simp
  from idempotent_answer_replayed [OF this, of "''f2''" demo_answer] show ?thesis by simp
qed

theorem idempotent_reservation_witness:
  "begin_idempotent_request ''op'' ''k'' ''f1''
      (post (begin_idempotent_request ''op'' ''k'' ''f1'') empty_store)
     = (Inr (decision IN_PROGRESS ''f1''),
        post (begin_idempotent_request ''op'' ''k'' ''f1'') empty_store)"
proof -
  have "begin_idempotent_request ''op'' ''k'' ''f1'' empty_store
      = (Inr (decision NEW ''f1''), post (begin_idempotent_request ''op'' ''k'' ''f1'') empty_store)"
    by (simp add: prod_eq_iff) code_simp
  from idempotent_reservation [OF this, of demo_answer] show ?thesis by (simp add: decision_def)
qed

section \<open>The outbox\<close>

definition demo_event2 :: jdict where
  "demo_event2 = [(''run_id'', JStr ''r1''), (''event_id'', JStr ''e2''), (''type'', JStr ''run.progress'')]"

definition demo_fanned :: store where
  "demo_fanned = post (append_webhook_deliveries_locked plain_env demo_event2) demo_store"

theorem outbox_fan_out_witness:
  "deliveries_of demo_fanned ''wh_1'' ''e2'' = 1 \<and> deliveries_of demo_fanned ''wh_9'' ''e2'' = 0"
proof -
  have ev: "dget demo_event2 ''run_id'' = JStr ''r1''" "dget demo_event2 ''event_id'' = JStr ''e2''"
    and sel: "py_set (py_or (dget demo_stored_run ''webhook_endpoint_ids'') (JArr []))
           = Inr [JStr ''wh_1'', JStr ''wh_9'']"
    and acc: "accepts demo_store (dget demo_stored_run ''tenant_id'') (dget demo_event2 ''type'') ''wh_1''"
      "\<not> accepts demo_store (dget demo_stored_run ''tenant_id'') (dget demo_event2 ''type'') ''wh_9''"
    and old: "deliveries_of demo_store ''wh_1'' ''e2'' = 0" "deliveries_of demo_store ''wh_9'' ''e2'' = 0"
    by code_simp+
  have "fst (append_webhook_deliveries_locked plain_env demo_event2 demo_store) = Inr ()" by code_simp
  then have "append_webhook_deliveries_locked plain_env demo_event2 demo_store = (Inr (), demo_fanned)"
    by (simp add: prod_eq_iff demo_fanned_def)
  note fan_out = outbox_fan_out [OF plain_env_ok demo_reachable demo_stored ev sel this]
  show ?thesis using fan_out [of "''wh_1''"] fan_out [of "''wh_9''"] acc old by simp
qed

section \<open>Datasets\<close>

theorem dataset_with_version_witness:
  "st_datasets (post (create_dataset_with_version [] [(''dataset_id'', JStr ''other'')]) demo_store)
     = st_datasets demo_store"
proof -
  let ?run = "create_dataset_with_version [] [(''dataset_id'', JStr ''other'')] demo_store"
  have "isl (fst ?run)" by code_simp
  then obtain e where "?run = (Inl e, snd ?run)" by (metis isl_def prod.collapse)
  from dataset_with_version_all_or_nothing [OF demo_reachable this] show ?thesis by simp
qed

end
