(* ===== verification/Service_Examples.thy ===== *)
theory Service_Examples
  imports Workflow_Control Storage_Laws Access_Examples Store_Examples
begin

text \<open>
  A concrete service, its requests and a small blob store, which the theorems on the blob store,
  the back ends and the workflow service are applied to.
\<close>

section \<open>The blob store\<close>

definition demo_digest :: "string \<Rightarrow> string" where
  "demo_digest content = int_str (int (length content))"

definition demo_config :: local_config where
  "demo_config = \<lparr>lc_root = [''var''], lc_ticket_secret = ''ticket'', lc_max_upload_part_bytes = Some 4\<rparr>"

definition demo_parts :: "(int \<times> chunk list) list" where
  "demo_parts = [(2, [Bytes ''c'', Bytes ''d'']), (1, [Bytes ''ab''])]"

definition demo_uploaded :: "(exn + blob_info list) \<times> files" where
  "demo_uploaded = upload_all demo_config demo_digest ''t1'' ''dsv_1'' ''upl_1'' demo_parts []"

theorem upload_round_trip_witness:
  "\<exists>infos fs1 info fs2 p. upload_all demo_config demo_digest ''t1'' ''dsv_1'' ''upl_1'' demo_parts [] = (Inr infos, fs1) \<and>
     finalize_upload demo_digest ''t1'' ''dsv_1'' ''upl_1''
       (map (\<lambda>((n, cs), info). receipt n info) (zip demo_parts infos)) 4 (demo_digest ''abcd'') fs1 = (Inr info, fs2) \<and>
     map_of fs2 p = Some ''abcd''"
proof -
  have "\<not> isl (fst demo_uploaded)" by code_simp
  then obtain infos fs1 where sent:
    "upload_all demo_config demo_digest ''t1'' ''dsv_1'' ''upl_1'' demo_parts [] = (Inr infos, fs1)"
    unfolding demo_uploaded_def by (metis isl_def prod.collapse sum.exhaust_sel)
  have "''abcd'' = concat (map (\<lambda>(n, cs). uploaded_bytes cs) (sort_key fst demo_parts))" by code_simp
  moreover have "fst ` set demo_parts = {1..int (length demo_parts)}" by (auto simp: demo_parts_def)
  moreover have "list_all (\<lambda>c. code_of c < 128) (demo_digest ''abcd'')" by code_simp
  ultimately obtain info fs2 p where
    "finalize_upload demo_digest ''t1'' ''dsv_1'' ''upl_1'' (map (\<lambda>((n, cs), info). receipt n info) (zip demo_parts infos))
       (int (length ''abcd'')) (demo_digest ''abcd'') fs1 = (Inr info, fs2)" and "map_of fs2 p = Some ''abcd''"
    using upload_round_trip [OF sent, of "''abcd''"] by (auto simp: demo_parts_def)
  with sent show ?thesis by auto
qed

definition demo_files :: files where
  "demo_files = [([''datasets'', ''t1'', ''dsv_1'', ''source''], ''abcd'')]"

definition demo_blob_ops :: "blob_op list" where
  "demo_blob_ops =
     [PutUploadPart ''t1'' ''dsv_1'' ''upl_2'' 1 [Bytes ''zz''],
      FinalizeUpload ''t1'' ''dsv_1'' ''upl_2''
        [[(''part_number'', JInt 1), (''etag'', JStr (etag_of (demo_digest ''zz'')))]] 2 (demo_digest ''zz''),
      PutArtifact ''t1'' ''run_1'' ''art_1'' ''report'']"

theorem published_objects_immutable_witness:
  "\<exists>fs'. blob_steps demo_config demo_digest demo_files demo_blob_ops fs' \<and>
     map_of fs' [''datasets'', ''t1'', ''dsv_1'', ''source''] = Some ''abcd''"
proof -
  obtain fs' where run: "blob_steps demo_config demo_digest demo_files demo_blob_ops fs'"
    by (simp add: demo_blob_ops_def)
  have "published [''datasets'', ''t1'', ''dsv_1'', ''source'']" by (simp add: published_def)
  moreover have "map_of demo_files [''datasets'', ''t1'', ''dsv_1'', ''source''] = Some ''abcd''"
    by (simp add: demo_files_def)
  moreover have "\<forall>op \<in> set demo_blob_ops. \<not> deletes demo_config op [''datasets'', ''t1'', ''dsv_1'', ''source'']"
    by (simp add: demo_blob_ops_def)
  ultimately show ?thesis using published_objects_immutable [OF run] run by blast
qed

definition demo_ticket :: string where
  "demo_ticket = create_download_token demo_crypto put demo_config ''tkt_1'' ''art_1'' ''t1'' ''e'' 10"

theorem download_ticket_round_trip_witness:
  "(\<exists>v. verify_download_token demo_crypto demo_config 10 demo_ticket = Inr v) \<and>
   verify_download_token demo_crypto demo_config 11 demo_ticket = Inl (ExpiredTicket ''download ticket has expired'')"
  using download_ticket_round_trip [OF demo_codec put_nonempty demo_hmac_length demo_ticket_def, of 10]
    download_ticket_round_trip [OF demo_codec put_nonempty demo_hmac_length demo_ticket_def, of 11]
  by auto

section \<open>The back ends\<close>

definition demo_backend :: backend_descriptor where
  "demo_backend = projr (sklearn_descriptor ''1.5'')"

definition demo_registry :: registry where
  "demo_registry = \<lparr>default_backend_id = ''sklearn'', registered = [(''sklearn'', demo_backend)]\<rparr>"

definition demo_objective :: jdict where
  "demo_objective = [(''backend_id'', JStr '' SKLearn ''), (''task_type'', JStr ''regression'')]"

theorem backend_selection_exact_witness:
  "\<exists>b d. require_requested_backend plain_env demo_registry [(''objective'', JObj demo_objective)] (JStr ''text/csv'') = Inr b \<and>
     map_of (registered demo_registry) ''sklearn'' = Some d \<and> b = descriptor_dict d"
proof -
  have "object_or_empty (dget [(''objective'', JObj demo_objective)] ''objective'') = Inr demo_objective" by code_simp
  moreover have "normalize_backend_id (py_or (dget demo_objective ''backend_id'') (JStr (default_backend_id demo_registry)))
      = Inr ''sklearn''" by code_simp
  moreover obtain media where "normalize_media_type (JStr ''text/csv'') = Inr media"
  proof -
    have "\<not> isl (normalize_media_type (JStr ''text/csv''))" by code_simp
    with that show thesis by (metis isl_def sum.exhaust)
  qed
  moreover have "default_backend_id demo_registry \<noteq> []" by (simp add: demo_registry_def)
  moreover have "\<not> isl (require_requested_backend plain_env demo_registry [(''objective'', JObj demo_objective)] (JStr ''text/csv''))"
    by code_simp
  ultimately show ?thesis
    using backend_selection_exact [of "[(''objective'', JObj demo_objective)]" demo_objective demo_registry "''sklearn''"
        "JStr ''text/csv''" _ plain_env] by (fastforce split: sum.splits)
qed

theorem tabpfn_descriptor_defined_witness:
  "tabpfn_descriptor (\<lambda>_. False)
     [(''AUTOML_TABPFN_LICENSE_ACCEPTED'', ''1''), (''TABPFN_TOKEN'', ''x''), (''AUTOML_TABPFN_MODEL_SOURCE'', ''v9'')] (Some ''2'') True
     = Inl (ValueError ''an available backend cannot have unavailable_reason'')"
proof -
  let ?e = "[(''AUTOML_TABPFN_LICENSE_ACCEPTED'', ''1''), (''TABPFN_TOKEN'', ''x''), (''AUTOML_TABPFN_MODEL_SOURCE'', ''v9'')]"
  have "tabpfn_ready (\<lambda>_. False) ?e (Some ''2'') True" and "model_source ?e \<notin> {''auto'', ''public-v2''}" by code_simp+
  with tabpfn_descriptor_defined [of "\<lambda>_. False" ?e "Some ''2''" True] show ?thesis
    by (simp split: sum.splits)
qed

section \<open>The service\<close>

definition demo_service :: workflow_service where
  "demo_service =
     \<lparr>sv_env = plain_env, sv_clock = (\<lambda>n. of_nat n), sv_iso = (\<lambda>_. ''2024-01-01''), sv_random = (\<lambda>_. ''00ff''),
      sv_parse_float = (\<lambda>_. None), sv_limits = default_limits, sv_registry = demo_registry,
      sv_blobs = synthetic_blobs plain_env demo_digest\<rparr>"

lemma demo_service_env: "sv_env demo_service = plain_env"
  by (simp add: demo_service_def)

text \<open>A run of the demonstration principal's tenant that is executing.\<close>

definition demo_running :: jdict where
  "demo_running =
     [(''run_id'', JStr ''r1''), (''tenant_id'', JStr ''t1''), (''status'', JStr ''RUNNING''), (''outcome'', JNull),
      (''phase'', JStr ''PLAN''), (''available_actions'', strs [''PAUSE'', ''CANCEL'']), (''blocking'', no_blocking),
      (''stages'', JArr [])]"

definition demo_world :: world where
  "demo_world = \<lparr>w_store = run_op plain_env (CreateRun demo_running) empty_store, w_files = [], w_reads = 0\<rparr>"

lemma demo_world_reachable: "reachable plain_env (w_store demo_world)"
  by (simp add: demo_world_def)
     (intro reachable.intros, simp_all add: demo_running_def dget_or_def)

definition "demo_world_run = projr (fst (owned_run demo_principal ''r1'' demo_world))"

lemma demo_world_run: "map_of (st_runs (w_store demo_world)) ''r1'' = Some demo_world_run"
  by code_simp

definition demo_paused :: "(exn + jdict) \<times> world" where
  "demo_paused = control demo_service demo_principal ''r1'' ''PAUSE'' (Some 1) demo_world"

lemma demo_paused_ok: "\<not> isl (fst demo_paused)"
  by code_simp

lemma demo_paused: "control demo_service demo_principal ''r1'' ''PAUSE'' (Some 1) demo_world
    = (Inr (projr (fst demo_paused)), snd demo_paused)"
  using demo_paused_ok by (metis demo_paused_def prod.collapse sum.collapse(2))

theorem control_effect_witness:
  "\<exists>run. map_of (st_runs (w_store (snd demo_paused))) ''r1'' = Some run \<and> dget run ''status'' = JStr ''PAUSED'' \<and>
     dget run ''run_revision'' = JInt 2"
proof -
  have "py_int (dget demo_world_run ''run_revision'') = Inr 1" by code_simp
  with control_effect [OF demo_paused wf_reachable [OF demo_world_reachable]] demo_world_run
  show ?thesis by (auto simp: commanded_def stands_def run_state_def)
qed

definition demo_stranger :: principal where
  "demo_stranger = demo_principal\<lparr>tenant_id := ''t2''\<rparr>"

definition demo_requests :: "(principal \<times> workflow_op) list" where
  "demo_requests =
     [(demo_stranger, W_Cancel ''r1''), (demo_stranger, W_ListRuns), (demo_stranger, W_Pause ''r1'' 1),
      (demo_stranger, W_CreateDataset [(''name'', JStr ''d''), (''media_type'', JStr ''text/csv''),
         (''size_bytes'', JInt 4), (''filename'', JStr ''d.csv'')] ''http://api'')]"

definition empty_world :: world where
  "empty_world = \<lparr>w_store = empty_store, w_files = [], w_reads = 0\<rparr>"

theorem service_keeps_store_well_formed_witness:
  "wf_store (w_store (serve_all demo_service demo_requests empty_world)) \<and>
   logs_ok (w_store (serve_all demo_service demo_requests empty_world)) \<and>
   st_datasets (w_store (serve_all demo_service demo_requests empty_world)) \<noteq> []"
proof -
  have "st_datasets (w_store (serve_all demo_service demo_requests empty_world)) \<noteq> []" by code_simp
  then show ?thesis using service_keeps_store_well_formed [of empty_world] by (simp add: empty_world_def)
qed

theorem requests_never_rewrite_history_witness:
  "prefix (log_of (w_store demo_world) ''r1'')
     (log_of (w_store (serve_all demo_service [(demo_principal, W_Pause ''r1'' 1)] demo_world)) ''r1'') \<and>
   length (log_of (w_store (serve_all demo_service [(demo_principal, W_Pause ''r1'' 1)] demo_world)) ''r1'') = 1"
proof -
  have "length (log_of (w_store (serve_all demo_service [(demo_principal, W_Pause ''r1'' 1)] demo_world)) ''r1'') = 1"
    by code_simp
  then show ?thesis
    using requests_never_rewrite_history [of demo_service demo_world "''r1''" "[(demo_principal, W_Pause ''r1'' 1)]"]
      demo_world_reachable by (simp only: demo_service_env simp_thms)
qed

theorem foreign_resources_invisible_witness:
  "serve demo_service demo_stranger (W_GetRun ''r1'') demo_world
     = (Inl (APIProblem 404 ''not_found'' ''Resource not found'' []), demo_world)"
proof -
  have "dget demo_world_run ''tenant_id'' \<noteq> JStr (tenant_id demo_stranger)" by code_simp
  then show ?thesis
    by (intro foreign_resources_invisible [where found = "Some demo_world_run"]) (simp_all add: demo_world_run)
qed

theorem runs_isolated_between_tenants_witness:
  "map_of (st_runs (w_store (serve_all demo_service demo_requests demo_world))) ''r1'' = Some demo_world_run"
proof -
  have "dget demo_world_run ''tenant_id'' = JStr ''t1''" by code_simp
  then have "\<forall>(p, op) \<in> set demo_requests. JStr (tenant_id p) \<noteq> dget demo_world_run ''tenant_id''"
    by (simp add: demo_requests_def demo_stranger_def)
  then show ?thesis
    by (rule runs_isolated_between_tenants [OF wf_reachable [OF demo_world_reachable] demo_world_run])
qed

definition demo_over :: world where
  "demo_over = post (cancel demo_service demo_principal ''r1'') demo_world"

definition "demo_over_run = projr (fst (owned_run demo_principal ''r1'' demo_over))"

theorem terminal_runs_never_change_witness:
  "map_of (st_runs (w_store (serve_all demo_service
      [(demo_principal, W_Resume ''r1'' 2), (demo_principal, W_Cancel ''r1'')] demo_over))) ''r1'' = Some demo_over_run"
proof -
  have run: "map_of (st_runs (w_store demo_over)) ''r1'' = Some demo_over_run"
    and over: "dget demo_over_run ''status'' = JStr ''TERMINAL''" by code_simp+
  have "demo_over = serve_all demo_service [(demo_principal, W_Cancel ''r1'')] demo_world"
    by (simp add: demo_over_def as_unit_def py_run split: prod.split sum.split)
  with serve_all_reachable [of demo_service demo_world "[(demo_principal, W_Cancel ''r1'')]"] demo_world_reachable
  have "reachable plain_env (w_store demo_over)" by (simp add: demo_service_env)
  from terminal_runs_never_change [OF wf_reachable [OF this] run over] show ?thesis .
qed


end
