(* ===== verification/Durable_Run_Examples.thy ===== *)
theory Durable_Run_Examples
  imports Durable_Effects Service_Examples
begin

text \<open>
  A concrete durable service with a run that is about to be trained, which the theorems on the
  durable workflow are applied to.
\<close>

definition demo_native :: backend_descriptor where
  "demo_native = projr (autogluon_descriptor (Some ''1.4'') True)"

definition demo_durable :: durable_service where
  "demo_durable =
     \<lparr>ds_service = demo_service
        \<lparr>sv_registry := \<lparr>default_backend_id = ''autogluon'', registered = [(''autogluon'', demo_native)]\<rparr>,
         sv_blobs := local_blobs demo_crypto put demo_digest demo_config\<rparr>,
      ds_digest = demo_digest, ds_dumps = put, ds_loads = (\<lambda>_. None)\<rparr>"

definition demo_sql :: sql_env where
  "demo_sql = \<lparr>deadline = (\<lambda>t n. t + n), stamp = (\<lambda>_. ''2024-01-01'')\<rparr>"

text \<open>An engine that makes the second callback and then fails.\<close>

definition demo_engine :: engine where
  "demo_engine =
     \<lparr>en_sql = demo_sql, en_clock = (\<lambda>n i. of_nat n), en_inspect = (\<lambda>content media. Inl TypeError),
      en_run = (\<lambda>args content. ([(''TRAIN'', [])], Fails (EngineErr ''INSUFFICIENT_DATA'' ''too few rows'')))\<rparr>"

definition demo_version :: jdict where
  "demo_version =
     [(''dataset_version_id'', JStr ''dsv_1''), (''dataset_id'', JStr ''ds_1''), (''tenant_id'', JStr ''t1''), (''status'', JStr ''READY''),
      (''blob_key'', JStr ''datasets/t1/dsv_1/source''), (''media_type'', JStr ''text/csv'')]"

definition demo_queued :: jdict where
  "demo_queued =
     [(''run_id'', JStr ''r1''), (''tenant_id'', JStr ''t1''), (''dataset_version_id'', JStr ''dsv_1''), (''status'', JStr ''QUEUED''),
      (''outcome'', JNull), (''phase'', JStr ''PLAN''), (''available_actions'', strs [''PAUSE'', ''CANCEL'']),
      (''blocking'', no_blocking), (''stages'', JArr []), (''latest_output_refs'', JArr []),
      (''resolved_inputs'', JObj [(''target_column'', JStr ''y''), (''task_type'', JStr ''REGRESSION''), (''iid_confirmed'', JBool True)]),
      (''backend_id'', JStr ''autogluon''), (''budget'', JObj [(''max_trials'', JInt 3), (''max_wall_time_seconds'', JInt 60)])]"

definition demo_ops :: "store_op list" where
  "demo_ops = [CreateDatasetWithVersion [(''dataset_id'', JStr ''ds_1''), (''tenant_id'', JStr ''t1'')] demo_version, CreateRun demo_queued]"

definition demo_job :: job where
  "demo_job =
     \<lparr>job_run_id = ''r1'', workflow_step = ''TRAIN'', job_status = LEASED, checkpoint = [], attempt = 1, max_attempts = 5,
      available_at = Some 0, lease_owner = Some ''w1'', lease_expires_at = Some 30, lease_generation = 1, control_epoch = 0,
      last_error = None, created_at = ''2024-01-01'', updated_at = ''2024-01-01''\<rparr>"

text \<open>The state in which another worker holds the second lease of the job.\<close>

definition demo_taken :: durable_world where
  "demo_taken =
     \<lparr>dw_world = \<lparr>w_store = fold (run_op plain_env) demo_ops empty_store,
        w_files = [([''datasets'', ''t1'', ''dsv_1'', ''source''], ''x,y'')], w_reads = 0\<rparr>,
      dw_jobs = [(''r1'', demo_job\<lparr>lease_owner := Some ''w2'', lease_generation := 2\<rparr>)], dw_transactions = 0\<rparr>"


lemma demo_taken_reachable: "reachable plain_env (w_store (dw_world demo_taken))"
proof -
  have "op_ok s (CreateRun demo_queued)" for s by (simp add: demo_queued_def dget_or_def)
  then show ?thesis by (simp add: demo_taken_def demo_ops_def) (intro reachable.intros, simp_all)
qed

definition "demo_taken_run = the (map_of (st_runs (w_store (dw_world demo_taken))) ''r1'')"

lemma demo_taken_run: "map_of (st_runs (w_store (dw_world demo_taken))) ''r1'' = Some demo_taken_run"
  by code_simp

lemma demo_taken_overtaken: "overtaken demo_engine demo_job demo_taken"
  by code_simp



theorem jobs_isolated_between_runs_witness:
  "map_of (st_runs (w_store (dw_world (post (system_act demo_durable demo_engine (\<lambda>_ d. d)
     (DeadJobStep (demo_job\<lparr>job_run_id := ''r2''\<rparr>))) demo_taken)))) ''r1'' = Some demo_taken_run"
  by (rule jobs_isolated_between_runs [OF wf_reachable [OF demo_taken_reachable] demo_taken_run]) simp_all

text \<open>The run is over.\<close>

definition demo_closed :: durable_world where
  "demo_closed = demo_taken\<lparr>dw_world := (dw_world demo_taken)\<lparr>w_store := run_op plain_env
     (UpdateRun ''r1'' [(''status'', JStr ''TERMINAL'')] None False) (w_store (dw_world demo_taken))\<rparr>\<rparr>"

definition "demo_closed_run = the (map_of (st_runs (w_store (dw_world demo_closed))) ''r1'')"

lemma demo_closed_run: "map_of (st_runs (w_store (dw_world demo_closed))) ''r1'' = Some demo_closed_run"
  "dget demo_closed_run ''status'' = JStr ''TERMINAL''"
  by code_simp+

definition demo_result :: automl_result where
  "demo_result = \<lparr>ar_task = [(''task_type'', JStr ''REGRESSION'')], ar_trials = [], ar_evaluation = [], ar_model_metadata = [],
     ar_model_bytes = ''m'', ar_report_bytes = ''{}'', ar_visualizations = []\<rparr>"

lemma demo_job_run [simp]: "job_run_id demo_job = ''r1''"
  by (simp add: demo_job_def)

theorem overtaken_worker_publishes_nothing_witness:
  "\<exists>e. end_training demo_durable demo_engine demo_job 30 ''r1'' (Evaluated demo_result) demo_taken
     = (Inl e, demo_taken\<lparr>dw_transactions := Suc (dw_transactions demo_taken)\<rparr>)"
  using overtaken_worker_publishes_nothing [OF demo_taken_overtaken, of demo_durable 30 demo_result 0 "(''TRAIN'', [])"]
  by simp

definition "demo_stale = fail_training (ds_service demo_durable) ''r1'' ''MODEL_TRAINING_FAILED''
  (training_message ''autogluon'') (dw_world demo_taken)"

lemma demo_stale_ok: "\<not> isl (fst demo_stale)"
  by code_simp

theorem stale_native_worker_fails_run_witness:
  "\<exists>d :: durable_world. failed_run ''r1'' (w_store (dw_world d))"
proof -
  have native: "trains_natively ''autogluon''" by (simp add: trains_natively_def)
  let ?d = "demo_taken\<lparr>dw_transactions := Suc (dw_transactions demo_taken)\<rparr>"
  obtain res w' where "demo_stale = (Inr res, w')" using demo_stale_ok by (metis isl_def prod.collapse sum.exhaust_sel)
  then have "end_training demo_durable demo_engine demo_job 30 (job_run_id demo_job)
      (Fails (EngineErr ''MODEL_TRAINING_FAILED'' (training_message ''autogluon''))) ?d = (Inr res, ?d\<lparr>dw_world := w'\<rparr>)"
    by (simp add: end_training_def on_world_def demo_stale_def)
  note failed = stale_native_worker_fails_run [OF demo_taken_overtaken native
      native_backend_hides_the_fence [OF demo_taken_overtaken native, of demo_durable 0 30 "[]" "Fails TypeError"] this
      wf_reachable [OF demo_taken_reachable]]
  have "failed_run ''r1'' (w_store (dw_world (?d\<lparr>dw_world := w'\<rparr>)))"
    using failed [of demo_taken_run] demo_taken_run by simp
  then show ?thesis by blast
qed

definition "demo_buried = handle_dead_job (ds_service demo_durable) demo_job demo_taken"


definition "demo_resolved = resolved_section (ds_service demo_durable) ''r1'' (dw_world demo_taken)"

theorem resolved_task_queues_training_witness:
  "\<exists>run. map_of (st_runs (w_store (snd demo_resolved))) ''r1'' = Some run \<and> dget run ''execution_step'' = JStr ''TRAIN''"
proof -
  have "\<not> isl (fst demo_resolved)" by code_simp
  then have "resolved_section (ds_service demo_durable) ''r1'' (dw_world demo_taken) = (Inr (projr (fst demo_resolved)), snd demo_resolved)"
    by (metis demo_resolved_def prod.collapse sum.collapse(2))
  moreover have "dget demo_taken_run ''status'' \<noteq> JStr ''TERMINAL''" by code_simp
  ultimately show ?thesis using resolved_task_queues_training demo_taken_run by blast
qed

section \<open>Questions, answers and signatures\<close>

definition demo_profile :: jdict where
  "demo_profile = [(''columns'', JArr [JObj [(''name'', JStr ''x''), (''semantic_type'', JStr ''number'')],
     JObj [(''name'', JStr ''y''), (''semantic_type'', JStr ''boolean'')]])]"

definition demo_asking :: jdict where
  "demo_asking =
     [(''policy'', JObj [(''allow_external_llm'', JBool True)]), (''pre_split_profile'', JObj demo_profile),
      (''resolved_inputs'', JObj [(''task_type'', JStr ''BINARY_CLASSIFICATION'')])]"

theorem agents_decide_conventional_classes_only_witness:
  "conventional plain_env [JStr ''0'', JStr ''1''] \<and>
   decision_resolution_policy demo_asking [positive_class_question plain_env [JStr ''0'', JStr ''1'']] = Inr ''AGENT_ALLOWED'' \<and>
   (\<exists>questions. initial_questions plain_env demo_asking demo_profile = Inr questions \<and>
      decision_resolution_policy demo_asking questions \<noteq> Inr ''AGENT_ALLOWED'')"
proof -
  have allowed: "decision_resolution_policy demo_asking [positive_class_question plain_env [JStr ''0'', JStr ''1'']] = Inr ''AGENT_ALLOWED''"
    by code_simp
  have "case initial_questions plain_env demo_asking demo_profile of Inr (q # qs) \<Rightarrow> True | _ \<Rightarrow> False" by code_simp
  then obtain q qs where questions: "initial_questions plain_env demo_asking demo_profile = Inr (q # qs)"
    by (auto split: sum.splits list.splits)
  then show ?thesis
    using allowed agents_decide_conventional_classes_only [of plain_env demo_asking demo_profile "q # qs" demo_asking]
      agents_decide_conventional_classes_only [of plain_env demo_asking demo_profile "q # qs" demo_asking "[JStr ''0'', JStr ''1'']"]
    by blast
qed

definition demo_answers :: jdict where
  "demo_answers = [(''q_target'', JStr ''y''), (''q_iid'', JBool True)]"

theorem answers_resolve_task_witness:
  "\<exists>resolved. resolve_answers demo_asking demo_answers = Inr resolved \<and> dget resolved ''target_column'' = JStr ''y'' \<and>
     dget resolved ''iid_confirmed'' = JBool True \<and> dget resolved ''task_type'' = JStr ''BINARY_CLASSIFICATION''"
proof -
  have "\<not> isl (resolve_answers demo_asking demo_answers)" by code_simp
  then obtain resolved where resolved: "resolve_answers demo_asking demo_answers = Inr resolved" by (metis isl_def sum.exhaust)
  have "object_get demo_asking ''pre_split_profile'' = Inr demo_profile"
    and "dget_or demo_asking ''resolved_inputs'' (JObj []) = JObj [(''task_type'', JStr ''BINARY_CLASSIFICATION'')]"
    by (simp_all add: demo_asking_def object_get_def dget_or_def)
  from answers_resolve_task [OF resolved this] resolved show ?thesis
    by (simp add: demo_answers_def dget_def)
qed

theorem signature_covers_features_witness:
  "\<exists>signature inputs. model_signature plain_env (dput ''resolved_inputs'' (JObj [(''target_column'', JStr ''y'')]) demo_asking) demo_result
       = Inr (JObj signature) \<and> dget signature ''inputs'' = JArr inputs \<and> map entry_name inputs = [JStr ''x'']"
proof -
  let ?run = "dput ''resolved_inputs'' (JObj [(''target_column'', JStr ''y'')]) demo_asking"
  have "case model_signature plain_env ?run demo_result of Inr (JObj d) \<Rightarrow> True | _ \<Rightarrow> False" by code_simp
  then obtain signature where signature: "model_signature plain_env ?run demo_result = Inr (JObj signature)"
    by (auto split: sum.splits json.splits)
  have "object_get ?run ''resolved_inputs'' = Inr [(''target_column'', JStr ''y'')]"
    and "object_get ?run ''pre_split_profile'' = Inr demo_profile"
    and "py_iter (dget_or demo_profile ''columns'' (JArr [])) = Inr [JObj [(''name'', JStr ''x''), (''semantic_type'', JStr ''number'')],
     JObj [(''name'', JStr ''y''), (''semantic_type'', JStr ''boolean'')]]"
    by code_simp+
  from signature_covers_features [OF signature this] signature show ?thesis
    by (auto simp: dget_or_def dget_def List.map_filter_simps)
qed

theorem blocked_run_is_left_alone_witness:
  "handle_execution_job demo_durable demo_engine (\<lambda>_ d. d) 30 demo_job demo_closed = (Inr CompleteResult, demo_closed)"
  using blocked_run_is_left_alone [of demo_closed demo_job demo_closed_run] demo_closed_run by simp

section \<open>What the code gets wrong\<close>


definition status_of :: "durable_world \<Rightarrow> json" where
  "status_of d = (case map_of (st_runs (w_store (dw_world d))) ''r1'' of None \<Rightarrow> JNull | Some run \<Rightarrow> dget run ''status'')"



definition demo_canceled :: durable_world where
  "demo_canceled = post (on_world (cancel (ds_service demo_durable) demo_principal ''r1'')) demo_taken"

definition demo_reported :: "(exn + worker_result) \<times> durable_world" where
  "demo_reported = end_training demo_durable demo_engine demo_job 30 ''r1'' (Fails (EngineErr ''INSUFFICIENT_DATA'' ''few rows'')) demo_canceled"

lemma demo_canceled_over:
  "case demo_canceled of d \<Rightarrow> status_of d = JStr ''TERMINAL'' \<and> length (log_of (w_store (dw_world d)) ''r1'') = 1"
  by code_simp

lemma demo_reported_more:
  "case demo_reported of (res, d) \<Rightarrow> isl res \<and> length (log_of (w_store (dw_world d)) ''r1'') = 2 \<and>
     st_outputs (w_store (dw_world d)) \<noteq> [(''r1'', [])]"
  by code_simp

text \<open>
  A run that a user canceled while it was training still changes. The engine fails, and the failure is reported for
  the run although it is over; then the handler raises.
\<close>

theorem canceled_run_gains_failure_report:
  "status_of demo_canceled = JStr ''TERMINAL'' \<and> length (log_of (w_store (dw_world demo_canceled)) ''r1'') = 1 \<and>
   isl (fst demo_reported) \<and> length (log_of (w_store (dw_world (snd demo_reported))) ''r1'') = 2"
  using demo_canceled_over demo_reported_more by (simp add: case_prod_beta)

end
