(* ===== verification/Checkpoint.thy ===== *)
theory Checkpoint
  imports Sqlite_State Store_Laws
begin

text \<open>
  The durability of the store: a snapshot restores the store it was taken of, a restart
  recovers the last checkpoint up to the order of dictionary keys, a mutation that returns
  has been written, and a failed write is rolled back in memory.
\<close>

section \<open>Parsing what was written\<close>

lemma traverse_map:
  assumes "\<And>x. x \<in> set xs \<Longrightarrow> f (g x) = Inr (h x)"
  shows "traverse f (map g xs) = Inr (map h xs)"
  using assms by (induction xs) auto

lemma keyed_by_map:
  assumes "\<And>x. f (g x) = Inr x"
  shows "keyed_by f (JObj (map (\<lambda>(k, x). (k, g x)) d)) = Inr d"
proof -
  have "traverse (\<lambda>(k, x). case f x of Inl e \<Rightarrow> Inl e | Inr y \<Rightarrow> Inr (k, y)) (map (\<lambda>(k, x). (k, g x)) d)
      = Inr (map (\<lambda>p. p) d)"
    by (rule traverse_map) (auto simp: assms split: prod.split)
  then show ?thesis by (simp add: keyed_by_def)
qed

lemma parse_written [simp]:
  "keyed_by as_dict (table_json c) = Inr c"
  "keyed_by (keyed_by as_dict) (nested_json t) = Inr t"
  "keyed_by as_log (events_json l) = Inr l"
  "keyed_by as_nat (counters_json n) = Inr n"
  "keyed_by as_str (headers_json h) = Inr h"
proof -
  show tables: "keyed_by as_dict (table_json c) = Inr c" for c
    unfolding table_json_def by (rule keyed_by_map) simp
  show "keyed_by (keyed_by as_dict) (nested_json t) = Inr t"
    unfolding nested_json_def by (rule keyed_by_map) (rule tables)
  have "as_log (log_json es) = Inr es" for es
    using traverse_map [of es as_dict JObj "\<lambda>x. x"] by (simp add: log_json_def)
  then show "keyed_by as_log (events_json l) = Inr l"
    unfolding events_json_def by (rule keyed_by_map)
  show "keyed_by as_nat (counters_json n) = Inr n"
    unfolding counters_json_def by (rule keyed_by_map) simp
  show "keyed_by as_str (headers_json h) = Inr h"
    unfolding headers_json_def by (rule keyed_by_map) simp
qed

lemma restore_idempotency_written [simp]: "restore_idempotency (idempotency_json p) = Inr p"
  by (cases p)
     (simp add: restore_idempotency_def idempotency_json_def restore_response_def response_json_def
       item_def dget_def split: option.split)

lemma index_events_keyed:
  "keyed ''event_id'' (acc @ idx) \<Longrightarrow> index_events (map snd idx) acc = Inr (acc @ idx)"
proof (induction idx arbitrary: acc)
  case Nil
  then show ?case by simp
next
  case (Cons p idx)
  obtain k e where p: "p = (k, e)" by (cases p)
  have "\<not> has_key acc k"
    using Cons.prems by (auto simp: p keyed_def has_key_iff)
  moreover have "map_of (acc @ p # idx) k = Some e"
    using Cons.prems by (auto simp: p keyed_def map_of_eq_Some_iff simp del: map_of_append)
  with Cons.prems have "map_of e ''event_id'' = Some (JStr k)"
    using keyed_entry by blast
  ultimately show ?case
    using Cons.IH [of "acc @ [p]"] Cons.prems by (simp add: p item_def dput_fresh)
qed

section \<open>Restoring a snapshot\<close>

text \<open>The condition under which a snapshot determines the store.\<close>

definition restorable :: "store \<Rightarrow> bool" where
  "restorable s \<longleftrightarrow>
     (\<forall>r. has_key (st_runs s) r \<longrightarrow> has_key (st_approvals s) r) \<and>
     traverse (\<lambda>(r, es). case index_events es [] of Inl e \<Rightarrow> Inl e | Inr idx \<Rightarrow> Inr (r, idx))
       (st_events s) = Inr (st_event_ids s) \<and>
     distinct (map fst (st_idempotency s))"

lemma restore_lookups:
  assumes "map_of d = map_of d'" shows "restore_state d = restore_state d'"
proof -
  have "dget d = dget d'" "dget_or d = dget_or d'"
    using assms by (simp_all add: dget_def dget_or_def fun_eq_iff)
  then show ?thesis
    by (simp add: restore_state_def restore_tables_def restore_indexes_def load_table_def)
qed

lemma fold_defaults_existing:
  "(\<And>r. r \<in> set rs \<Longrightarrow> has_key t r) \<Longrightarrow> fold (\<lambda>r. dset_default r x) rs t = t"
  by (induction rs) (auto simp: dset_default_def)

lemma update_fresh: "k \<notin> fst ` set t \<Longrightarrow> AList.update k v t = t @ [(k, v)]"
  by (induction t) auto

lemma each_idempotency:
  "distinct (map fst (acc @ recs)) \<Longrightarrow>
   each (\<lambda>v. seq (lift (restore_idempotency v)) (\<lambda>p. idem_put (fst p) (snd p)))
      (map idempotency_json recs) (s\<lparr>st_idempotency := acc\<rparr>)
    = (Inr (), s\<lparr>st_idempotency := acc @ recs\<rparr>)"
proof (induction recs arbitrary: acc)
  case Nil
  then show ?case by (simp add: py_run)
next
  case (Cons p recs)
  have "AList.update (fst p) (snd p) acc = acc @ [p]"
    using Cons.prems by (simp add: update_fresh)
  then show ?case
    using Cons.IH [of "acc @ [p]"] Cons.prems by (simp add: py_run idem_put_def comp_def)
qed

lemma restore_tables_written:
  assumes "serialize_state s = JObj d"
  shows "restore_tables d t = (Inr (), s\<lparr>st_event_ids := st_event_ids t, st_idempotency := st_idempotency t\<rparr>)"
  using assms
  by (auto simp: serialize_state_def restore_tables_def load_table_def dget_or_def py_run)

lemma restore_serialize:
  assumes "restorable s"
  shows "restore_json (serialize_state s) t = (Inr (), s)"
proof -
  obtain d where d: "serialize_state s = JObj d" by (simp add: serialize_state_def)
  have version: "dget d ''snapshot_version'' = JInt 1"
    and idem: "dget_or d ''idempotency'' (JArr []) = JArr (map idempotency_json (st_idempotency s))"
    using d by (auto simp: serialize_state_def dget_def dget_or_def)
  have "fold (\<lambda>r. dset_default r []) (map fst (st_runs s)) (st_approvals s) = st_approvals s"
    using assms by (intro fold_defaults_existing) (auto simp: restorable_def has_key_iff)
  then show ?thesis
    using assms
    by (simp add: d restore_state_def restore_tables_written [OF d] restore_indexes_def py_run
        version idem restorable_def each_idempotency)
qed

section \<open>Reachable stores are restorable\<close>

lemma distinct_idempotency_run_op:
  assumes "distinct (map fst (st_idempotency s))"
  shows "distinct (map fst (st_idempotency (run_op env op s)))"
proof -
  have same: "distinct (map fst (st_idempotency (post m s)))"
    if "keeps (same_ledger s) m" for m :: "(store, 'a) py"
    using keepsD [OF that, of s] assms by (simp add: ledger_def)
  have idem: "distinct (map fst (st_idempotency (post (idem_put ident rec) s)))" for ident rec
    using assms by (simp add: idem_put_def py_run distinct_update)
  have result: "st_idempotency (post (store_result r result) t) = st_idempotency t" for r result t
    by (auto simp: store_result_def py_run)
  have eq: "keeps (\<lambda>t. st_idempotency t = st_idempotency s) m"
    if "\<And>t. keeps (same_ledger t) m" for m :: "(store, 'a) py"
  proof (rule keepsI)
    fix t :: store assume "st_idempotency t = st_idempotency s"
    then show "st_idempotency (post m t) = st_idempotency s"
      using keepsD [OF that, of t t] by (simp add: ledger_def)
  qed
  have stored: "keeps (\<lambda>t. st_idempotency t = st_idempotency s) (store_result r result)" for r result
    by (rule keepsI) (simp add: result)
  note rules = keeps_seq keeps_collect stored keeps_reads keeps_basic eq [OF ledger_prepare_result]
    eq [OF ledger_small(3)] eq [OF ledger_append(2)]
  have "keeps (\<lambda>t. st_idempotency t = st_idempotency s) (set_result r v)" for r v
    unfolding set_result_def by (intro rules)
  from keepsD [OF this refl]
  have "st_idempotency (post (set_result r v) s) = st_idempotency s" for r v .
  moreover have "keeps (\<lambda>t. st_idempotency t = st_idempotency s) (finalize_run_with_result env r v u vs e)"
    for r v u vs e
    unfolding finalize_run_with_result_def Let_def by (intro rules)
  from keepsD [OF this refl]
  have "st_idempotency (post (finalize_run_with_result env r v u vs e) s) = st_idempotency s"
    for r v u vs e .
  ultimately show ?thesis
    using assms
    by (cases op)
       (simp_all add: run_op_def reset_run empty_store_def ledger_operations [THEN same]
         begin_idempotent_request_def complete_idempotent_request_def abort_idempotent_request_def
         idem_lookup_def idem_put_def py_run Let_def distinct_update distinct_delete
         split: sum.split option.split)
qed

lemma distinct_idempotency: "reachable env s \<Longrightarrow> distinct (map fst (st_idempotency s))"
  by (induction rule: reachable.induct) (simp_all add: empty_store_def distinct_idempotency_run_op)

lemma keys_then_values:
  "distinct (map fst d) \<Longrightarrow> d = map (\<lambda>k. (k, the (map_of d k))) (map fst d)"
  by (simp add: comp_def) (rule map_idI [symmetric], auto)

lemma indexes_rebuilt:
  assumes wf: "wf_store s" and ok: "logs_ok s"
  shows "traverse (\<lambda>(r, es). case index_events es [] of Inl e \<Rightarrow> Inl e | Inr idx \<Rightarrow> Inr (r, idx))
           (st_events s) = Inr (st_event_ids s)"
proof -
  have keys: "map fst (st_event_ids s) = map fst (st_events s)" and dist: "distinct (map fst (st_events s))"
    using ok by (simp_all add: logs_ok_def)
  have entry: "index_events es [] = Inr (sub st_event_ids r s)" if "(r, es) \<in> set (st_events s)" for r es
  proof -
    have es: "map_of (st_events s) r = Some es" using that dist by simp
    then have "has_key (st_runs s) r"
      using wf by (auto simp: wf_store_def same_keys_def has_key_def)
    then obtain run where "map_of (st_runs s) r = Some run" by (auto simp: has_key_def)
    then have "map snd (sub st_event_ids r s) = es" and "keyed ''event_id'' ([] @ sub st_event_ids r s)"
      using ok es by (auto simp: logs_ok_def run_log_ok_def log_of_def)
    from index_events_keyed [OF this(2)] this(1) show ?thesis by simp
  qed
  have "traverse (\<lambda>(r, es). case index_events es [] of Inl e \<Rightarrow> Inl e | Inr idx \<Rightarrow> Inr (r, idx))
          (map (\<lambda>p. p) (st_events s)) = Inr (map (\<lambda>(r, es). (r, sub st_event_ids r s)) (st_events s))"
    by (rule traverse_map) (auto simp: entry split: prod.split)
  moreover have "map (\<lambda>(r, es). (r, sub st_event_ids r s)) (st_events s) = st_event_ids s"
  proof -
    have "st_event_ids s = map (\<lambda>k. (k, the (map_of (st_event_ids s) k))) (map fst (st_event_ids s))"
      by (rule keys_then_values) (simp add: keys dist)
    also have "\<dots> = map (\<lambda>k. (k, sub st_event_ids k s)) (map fst (st_events s))"
      unfolding keys by (auto simp: sub_def map_of_eq_None_iff simp flip: keys split: option.split)
    finally show ?thesis by (simp add: case_prod_unfold comp_def)
  qed
  ultimately show ?thesis by simp
qed

lemma restorable_wf:
  assumes "wf_store s" and "logs_ok s" and "distinct (map fst (st_idempotency s))"
  shows "restorable s"
  using assms indexes_rebuilt [OF assms(1,2)] wf_with_key by (auto simp: restorable_def)

lemma restorable_reachable: "reachable env s \<Longrightarrow> restorable s"
  by (intro restorable_wf wf_reachable logs_reachable distinct_idempotency)

section \<open>What a restart recovers\<close>

text \<open>
  The store with every dictionary in the order of its keys: what the JSON text of a
  snapshot stands for. Logs and the list of idempotency records keep their order.
\<close>

definition canon_coll :: "coll \<Rightarrow> coll" where
  "canon_coll c = sort_keys (map (\<lambda>(k, v). (k, canon_dict v)) c)"

definition canon_nested :: "nested \<Rightarrow> nested" where
  "canon_nested t = sort_keys (map (\<lambda>(k, c). (k, canon_coll c)) t)"

definition canon_record :: "idem_record \<Rightarrow> idem_record" where
  "canon_record rec = \<lparr>request_fingerprint = request_fingerprint rec,
     response = map_option (\<lambda>r. \<lparr>status_code = status_code r, body = canon (body r),
                                 headers = sort_keys (headers r)\<rparr>) (response rec)\<rparr>"

definition canon_store :: "store \<Rightarrow> store" where
  "canon_store s =
     \<lparr>st_id_counters = sort_keys (st_id_counters s),
      st_datasets = canon_coll (st_datasets s),
      st_dataset_versions = canon_coll (st_dataset_versions s),
      st_runs = canon_coll (st_runs s),
      st_events = sort_keys (map (\<lambda>(k, es). (k, map canon_dict es)) (st_events s)),
      st_event_ids =
        sort_keys (map (\<lambda>(k, idx). (k, map (\<lambda>(i, e). (i, canon_dict e)) idx)) (st_event_ids s)),
      st_outputs = canon_nested (st_outputs s),
      st_decision_packets = canon_nested (st_decision_packets s),
      st_commands = canon_coll (st_commands s),
      st_results = canon_coll (st_results s),
      st_artifacts = canon_coll (st_artifacts s),
      st_approvals = canon_nested (st_approvals s),
      st_models = canon_coll (st_models s),
      st_webhook_endpoints = canon_coll (st_webhook_endpoints s),
      st_webhook_deliveries = canon_nested (st_webhook_deliveries s),
      st_deletions = canon_coll (st_deletions s),
      st_idempotency = map (\<lambda>(i, rec). (i, canon_record rec)) (st_idempotency s)\<rparr>"

lemma canon_tables:
  "canon (table_json c) = table_json (canon_coll c)"
  "canon (counters_json n) = counters_json (sort_keys n)"
  "canon (headers_json h) = headers_json (sort_keys h)"
  by (simp_all add: table_json_def canon_coll_def counters_json_def headers_json_def
      on_values_simps del: map_map)

lemma canon_nested_json: "canon (nested_json t) = nested_json (canon_nested t)"
  by (simp add: nested_json_def canon_nested_def canon_tables on_values_simps del: map_map)

lemma canon_events_json:
  "canon (events_json t) = events_json (sort_keys (map (\<lambda>(k, es). (k, map canon_dict es)) t))"
  by (simp add: events_json_def log_json_def on_values_simps del: map_map)
     (simp add: comp_def on_values_simps)

text \<open>The items of a list of idempotency records have their own keys in another order.\<close>

lemma map_of_snapshot:
  assumes "serialize_state s = JObj d" and "serialize_state (canon_store s) = JObj d'"
    and "f \<noteq> ''idempotency''"
  shows "map_of (canon_dict d) f = map_of d' f"
  using assms
  by (auto simp: serialize_state_def canon_store_def canon_tables canon_nested_json canon_events_json)

lemma lookup_sort_keys:
  "item (sort_keys d) k = item d k" "dget (sort_keys d) k = dget d k"
  "dget_or (sort_keys d) k x = dget_or d k x"
  by (simp_all add: item_def dget_def dget_or_def)

lemma restore_idempotency_canon:
  "restore_idempotency (canon (idempotency_json p)) = Inr (fst p, canon_record (snd p))"
  by (cases p)
     (simp add: restore_idempotency_def idempotency_json_def restore_response_def response_json_def
       canon_record_def item_def dget_def canon_tables split: option.split)

lemma restore_idempotency_canon_list:
  "map (\<lambda>(i, rec). (i, canon_record rec)) recs = map (\<lambda>p. (fst p, canon_record (snd p))) recs"
  by (simp add: case_prod_unfold)

lemma approvals_update_same: "f (st_approvals s) = st_approvals s \<Longrightarrow> st_approvals_update f s = s"
  by simp

lemma each_idempotency_canon:
  assumes "distinct (map fst (acc @ recs))"
  shows "each (\<lambda>v. seq (lift (restore_idempotency v)) (\<lambda>p. idem_put (fst p) (snd p)))
      (map (canon \<circ> idempotency_json) recs) (s\<lparr>st_idempotency := acc\<rparr>)
    = (Inr (), s\<lparr>st_idempotency := acc @ map (\<lambda>(i, rec). (i, canon_record rec)) recs\<rparr>)"
  using assms
proof (induction recs arbitrary: acc)
  case Nil
  then show ?case by (simp add: py_run)
next
  case (Cons p recs)
  have "AList.update (fst p) (canon_record (snd p)) acc = acc @ [(fst p, canon_record (snd p))]"
    using Cons.prems by (simp add: update_fresh)
  then show ?case
    using Cons.IH [of "acc @ [(fst p, canon_record (snd p))]"] Cons.prems
    by (simp add: py_run idem_put_def comp_def restore_idempotency_canon case_prod_unfold)
qed

text \<open>
  A snapshot that went through its text restores the canonical store, where the canonical
  store is itself restorable.
\<close>

lemma restore_canon:
  assumes ok: "restorable (canon_store s)" and "distinct (map fst (st_idempotency s))"
  shows "restore_json (canon (serialize_state s)) t = (Inr (), canon_store s)"
proof -
  obtain d where d: "serialize_state s = JObj d" by (simp add: serialize_state_def)
  obtain d' where d': "serialize_state (canon_store s) = JObj d'" by (simp add: serialize_state_def)
  note lookup = map_of_snapshot [OF d d']
  have tables: "restore_tables (canon_dict d) = restore_tables d'"
    by (simp add: restore_tables_def load_table_def dget_or_def lookup del: map_of_sort_keys map_of_map_values)
  have version: "dget (canon_dict d) ''snapshot_version'' = JInt 1"
    and idem: "dget_or (canon_dict d) ''idempotency'' (JArr [])
       = JArr (map canon (map idempotency_json (st_idempotency s)))"
    using d by (auto simp: serialize_state_def dget_def dget_or_def)
  have "fold (\<lambda>r. dset_default r []) (map fst (st_runs (canon_store s))) (st_approvals (canon_store s))
      = st_approvals (canon_store s)"
    using ok by (intro fold_defaults_existing) (auto simp: restorable_def has_key_iff)
  then have "st_approvals_update (fold (\<lambda>r. dset_default r []) (map fst (st_runs (canon_store s))))
      (canon_store s) = canon_store s"
    by (rule approvals_update_same)
  moreover have "st_idempotency (canon_store s) = map (\<lambda>(i, rec). (i, canon_record rec)) (st_idempotency s)"
    by (simp add: canon_store_def)
  ultimately have "restore_state (canon_dict d) t = (Inr (), canon_store s)"
    using ok assms(2)
    by (simp add: restore_state_def tables restore_tables_written [OF d'] restore_indexes_def py_run
        version idem restorable_def each_idempotency_canon del: dget_canon_dict)
  then show ?thesis by (simp add: d)
qed

section \<open>The invariants after a restart\<close>

lemma map_of_canon_coll [simp]: "map_of (canon_coll c) k = map_option canon_dict (map_of c k)"
  by (simp add: canon_coll_def)

lemma distinct_canon_coll [simp]: "distinct (map fst (canon_coll c)) = distinct (map fst c)"
  by (simp add: canon_coll_def)

lemma has_key_canon [simp]:
  "has_key (canon_coll c) k = has_key c k" "has_key (canon_nested t) k = has_key t k"
  by (simp_all add: has_key_def canon_nested_def)

lemma map_of_canon_nested [simp]: "map_of (canon_nested t) k = map_option canon_coll (map_of t k)"
  by (simp add: canon_nested_def)

lemma distinct_canon_nested [simp]: "distinct (map fst (canon_nested t)) = distinct (map fst t)"
  by (simp add: canon_nested_def)

lemma keyed_canon_values: "keyed f c \<Longrightarrow> keyed f (map (\<lambda>(i, e). (i, canon_dict e)) c)"
  unfolding keyed_def by (fastforce simp del: map_of_eq_Some_iff)

lemma keyed_canon: "keyed f c \<Longrightarrow> keyed f (canon_coll c)"
  unfolding keyed_def by (fastforce simp del: map_of_eq_Some_iff)

lemma children_canon: "children_keyed f parent t \<Longrightarrow> children_keyed f parent (canon_nested t)"
  unfolding children_keyed_def by (auto simp: keyed_canon)

lemma versions_owned_canon: "versions_owned ds vs \<Longrightarrow> versions_owned (canon_coll ds) (canon_coll vs)"
  by (fastforce simp: versions_owned_def)

lemma results_owned_canon: "results_owned rs t \<Longrightarrow> results_owned (canon_coll rs) (canon_coll t)"
  by (auto simp: results_owned_def)

lemma wf_canon_store:
  assumes "wf_store s" shows "wf_store (canon_store s)"
proof -
  have "has_key (st_events (canon_store s)) k = has_key (st_events s) k"
    and "has_key (st_event_ids (canon_store s)) k = has_key (st_event_ids s) k" for k
    by (simp_all add: canon_store_def has_key_def)
  with assms show ?thesis
    by (simp add: wf_store_def same_keys_def keys_within_def)
       (simp add: canon_store_def keyed_canon children_canon versions_owned_canon results_owned_canon)
qed

lemma sub_canon_events:
  "log_of (canon_store s) r = map canon_dict (log_of s r)"
  "sub st_event_ids r (canon_store s) = map (\<lambda>(i, e). (i, canon_dict e)) (sub st_event_ids r s)"
  by (simp_all add: log_of_def sub_def canon_store_def split: option.split)

lemma counter_canon: "counter p (canon_store s) = counter p s"
  by (simp add: counter_def canon_store_def)

lemma run_log_ok_canon:
  assumes "run_log_ok c r run es idx"
  shows "run_log_ok c r (canon_dict run) (map canon_dict es) (map (\<lambda>(i, e). (i, canon_dict e)) idx)"
proof -
  have "keyed ''event_id'' (map (\<lambda>(i, e). (i, canon_dict e)) idx)"
    using assms by (intro keyed_canon_values) (simp add: run_log_ok_def)
  moreover have "has_key (map (\<lambda>(i, e). (i, canon_dict e)) idx) k = has_key idx k" for k
    by (simp add: has_key_def)
  moreover have "map snd (map (\<lambda>(i, e). (i, canon_dict e)) idx) = map canon_dict (map snd idx)"
    by (simp add: case_prod_unfold comp_def)
  ultimately show ?thesis
    using assms by (simp add: run_log_ok_def del: map_map)
qed

lemma same_keys_sorted:
  assumes "map fst a = map fst b" shows "map fst (sort_keys a) = map fst (sort_keys b)"
proof -
  have "map fst (sort_keys d) = sort (map fst d)" for d :: "(string \<times> 'c) list"
  proof (rule properties_for_sort [symmetric])
    show "mset (map fst (sort_keys d)) = mset (map fst d)" by (simp add: sort_keys_def)
    show "sorted (map fst (sort_keys d))" by (simp add: sort_keys_def)
  qed
  from this [of a] this [of b] assms show ?thesis by simp
qed

lemma logs_ok_canon:
  assumes "logs_ok s" shows "logs_ok (canon_store s)"
proof -
  have "map fst (st_event_ids (canon_store s)) = map fst (st_events (canon_store s))"
    using assms by (simp add: canon_store_def, intro same_keys_sorted, simp add: logs_ok_def)
  moreover have "distinct (map fst (st_events (canon_store s)))"
    using assms by (simp add: canon_store_def logs_ok_def)
  moreover have "map_of (st_runs (canon_store s)) r = map_option canon_dict (map_of (st_runs s) r)" for r
    by (simp add: canon_store_def)
  ultimately show ?thesis
    using assms by (auto simp: logs_ok_def sub_canon_events counter_canon run_log_ok_canon)
qed

lemma idempotency_canon_keys:
  "map fst (st_idempotency (canon_store s)) = map fst (st_idempotency s)"
  by (simp add: canon_store_def case_prod_unfold comp_def)

lemma restorable_canon: "reachable env s \<Longrightarrow> restorable (canon_store s)"
  by (rule restorable_wf, rule wf_canon_store, erule wf_reachable, rule logs_ok_canon,
      erule logs_reachable, simp only: idempotency_canon_keys, erule distinct_idempotency)

section \<open>The guarantees\<close>

definition synced :: "sqlite \<Rightarrow> bool" where
  "synced s \<longleftrightarrow> disk s = Some (1, canon (serialize_state (mem s)))"

text \<open>
  C3. A restart recovers the last checkpoint. Opening a database whose checkpoint was
  written from a reachable store succeeds and yields the canonical form of that store:
  every run, and likewise every other resource, is found under the identifier it had, with
  the same fields, and each log holds the same events in the same order. The canonical
  store is well-formed again.
\<close>

theorem restart_recovers:
  assumes "reachable env s"
  shows "open_store fault (Some (1, canon (serialize_state s))) rows
      = (Inr (), \<lparr>mem = canon_store s, disk = Some (1, canon (serialize_state s)),
                  job_rows = rows, closed = False\<rparr>) \<and>
    map_of (st_runs (canon_store s)) r = map_option canon_dict (map_of (st_runs s) r) \<and>
    log_of (canon_store s) r = map canon_dict (log_of s r) \<and>
    wf_store (canon_store s) \<and> logs_ok (canon_store s)"
proof -
  obtain d where d: "canon (serialize_state s) = JObj d" by (simp add: serialize_state_def)
  have "restore_state d empty_store = (Inr (), canon_store s)"
    using restore_canon [OF restorable_canon [OF assms] distinct_idempotency [OF assms], of empty_store]
    by (simp add: d)
  then have "open_store fault (Some (1, canon (serialize_state s))) rows
      = (Inr (), \<lparr>mem = canon_store s, disk = Some (1, canon (serialize_state s)),
                  job_rows = rows, closed = False\<rparr>)"
    by (simp add: open_store_def load_checkpoint_def d py_run on_mem_def)
  then show ?thesis
    using wf_canon_store [OF wf_reachable [OF assms]] logs_ok_canon [OF logs_reachable [OF assms]]
    by (simp add: sub_canon_events) (simp add: canon_store_def)
qed

lemma write_checkpoint_run:
  assumes "\<not> closed s"
  shows "write_checkpoint None snapshot c s
      = (Inr (), s\<lparr>disk := Some (1, canon snapshot), job_rows := (if c then [] else job_rows s)\<rparr>)"
    and "write_checkpoint (Some e) snapshot c s = (Inl e, s)"
  using assms by (simp_all add: write_checkpoint_def transaction_def ensure_open_def py_run)

lemma durable_mutation_run:
  assumes "\<not> closed s"
  shows "durable_mutation fault c m s =
    (case m (mem s) of
       (Inl e, t) \<Rightarrow> (Inl e, s\<lparr>mem := t\<rparr>)
     | (Inr x, t) \<Rightarrow>
         (case fault of
            None \<Rightarrow> (Inr x, s\<lparr>mem := t, disk := Some (1, canon (serialize_state t)),
                              job_rows := (if c then [] else job_rows s)\<rparr>)
          | Some e \<Rightarrow>
              (case restore_json (serialize_state (mem s)) t of
                 (Inl e', u) \<Rightarrow> (Inl e', s\<lparr>mem := u\<rparr>)
               | (Inr _, u) \<Rightarrow> (Inl e, s\<lparr>mem := u\<rparr>))))"
  using assms
  by (cases fault)
     (auto simp: durable_mutation_def save_or_restore_def on_error_def ensure_open_def on_mem_def
        write_checkpoint_run py_run split: prod.split sum.split)

text \<open>
  C4. A mutation that returns is durable, and a failed write undoes it. On an open store in
  a reachable state: if the write succeeds, the checkpoint on disk is the new state (and
  the jobs are kept, unless it was \<open>reset\<close>); if it fails, the exception of the write is
  raised and memory, disk and jobs are all as before the call.
\<close>

theorem durable_mutation_commits_or_rolls_back:
  assumes "reachable env (mem s)" and "\<not> closed s" and "m (mem s) = (Inr x, t)"
  shows "durable_mutation None c m s
      = (Inr x, s\<lparr>mem := t, disk := Some (1, canon (serialize_state t)),
                 job_rows := (if c then [] else job_rows s)\<rparr>) \<and>
    durable_mutation (Some e) c m s = (Inl e, s)"
  using assms restore_serialize [OF restorable_reachable [OF assms(1)], of t]
  by (simp add: durable_mutation_run)

text \<open>
  The rollback covers the write only. When the mutation itself raises after changing the
  memory, \<open>_durable_mutation\<close> neither writes nor restores: readers see the changed state,
  and a crash at that point silently takes it back, because the checkpoint is still the old
  one. The example is \<open>mutate_run_with_event\<close> with an event identifier that is in use: the
  run's revision is bumped in memory and not on disk.
\<close>

theorem raised_mutation_not_durable:
  assumes reach: "reachable env (mem s)" and sync: "synced s" and "\<not> closed s"
    and run: "map_of (st_runs (mem s)) r = Some run"
    and rev: "map_of run ''run_revision'' = Some (JInt n)"
    and known: "map_of (sub st_event_ids r (mem s)) eid = Some old" "map_of old ''seq'' = Some q"
      "\<not> py_eq (JInt (n + 1)) (dget old ''run_revision'')"
    and event: "map_of event ''event_id'' = Some (JStr eid)" "eid \<noteq> []" "dget event ''run_id'' = JNull"
  shows "\<exists>t. durable_mutation fault False (mutate_run_with_event env r updates event None True) s
        = (Inl (ResourceAlreadyExists ''event'' eid), t) \<and>
      map_option (\<lambda>x. dget x ''run_revision'') (map_of (st_runs (mem t)) r) = Some (JInt (n + 1)) \<and>
      disk t = disk s \<and>
      map_option (\<lambda>x. dget x ''run_revision'')
        (map_of (st_runs (mem (snd (open_store None (disk t) (job_rows t))))) r) = Some (JInt n)"
proof -
  let ?item = "dput ''run_revision'' (JInt (n + 1)) (dupdate run (protect_run (dpop ''run_id'' updates)))"
  let ?t = "s\<lparr>mem := st_runs_update (dput r ?item) (mem s)\<rparr>"
  note raised = mutate_known_event [OF wf_reachable [OF reach] run rev known event, of env updates]
  have out: "durable_mutation fault False (mutate_run_with_event env r updates event None True) s
      = (Inl (ResourceAlreadyExists ''event'' eid), ?t)"
    using \<open>\<not> closed s\<close> by (simp add: durable_mutation_run raised)
  have disk: "disk s = Some (1, canon (serialize_state (mem s)))" using sync by (simp add: synced_def)
  obtain d where d: "canon (serialize_state (mem s)) = JObj d" by (simp add: serialize_state_def)
  have "restore_state d empty_store = (Inr (), canon_store (mem s))"
    using restore_canon [OF restorable_canon [OF reach] distinct_idempotency [OF reach], of empty_store]
    by (simp add: d)
  then have restored: "map_of (st_runs (mem (snd (open_store None (disk s) rows)))) r = Some (canon_dict run)" for rows
    using run by (simp add: disk open_store_def load_checkpoint_def d py_run on_mem_def)
       (simp add: canon_store_def)
  have "dget run ''run_revision'' = JInt n" using rev by (simp add: dget_def)
  then show ?thesis using out restored by auto
qed

end
