(* ===== verification/Durable_Examples.thy ===== *)
theory Durable_Examples
  imports Store_Examples Checkpoint Job_Laws
begin

text \<open>Concrete executions of the durable store and of its job table.\<close>

section \<open>Checkpoints\<close>

definition demo_disk :: "(int \<times> json) option" where
  "demo_disk = Some (1, canon (serialize_state demo_store))"

definition demo_sqlite :: sqlite where
  "demo_sqlite = \<lparr>mem = demo_store, disk = demo_disk, job_rows = [], closed = False\<rparr>"

theorem restart_recovers_witness:
  "fst (open_store None demo_disk []) = Inr () \<and>
   map_of (st_runs (canon_store demo_store)) ''r1'' = Some (canon_dict demo_stored_run) \<and>
   length (log_of (canon_store demo_store) ''r1'') = 1"
proof -
  have "length (log_of demo_store ''r1'') = 1" by code_simp
  then show ?thesis
    using restart_recovers [OF demo_reachable, of None "[]" "''r1''"]
    by (simp add: demo_disk_def demo_stored)
qed

theorem durable_mutation_witness:
  "durable_mutation (Some (StoreErr ''disk full'')) False (update_run ''r1'' [] (Some 1) True) demo_sqlite
     = (Inl (StoreErr ''disk full''), demo_sqlite)"
proof -
  have mem: "mem demo_sqlite = demo_store" by (simp add: demo_sqlite_def)
  have "\<not> isl (fst (update_run ''r1'' [] (Some 1) True demo_store))" by code_simp
  then obtain x t where "update_run ''r1'' [] (Some 1) True (mem demo_sqlite) = (Inr x, t)"
    unfolding mem by (metis prod.collapse isl_def sum.exhaust)
  moreover have "reachable plain_env (mem demo_sqlite)" and "\<not> closed demo_sqlite"
    by (simp_all add: demo_sqlite_def demo_reachable)
  ultimately show ?thesis
    using durable_mutation_commits_or_rolls_back
      [of plain_env demo_sqlite "update_run ''r1'' [] (Some 1) True" x t False "StoreErr ''disk full''"]
    by (simp only: simp_thms)
qed

theorem raised_mutation_witness:
  "\<exists>t. durable_mutation None False (mutate_run_with_event plain_env ''r1'' [] demo_event None True) demo_sqlite
        = (Inl (ResourceAlreadyExists ''event'' ''e1''), t) \<and>
      map_option (\<lambda>x. dget x ''run_revision'') (map_of (st_runs (mem t)) ''r1'') = Some (JInt 2) \<and>
      map_option (\<lambda>x. dget x ''run_revision'')
        (map_of (st_runs (mem (snd (open_store None (disk t) (job_rows t))))) ''r1'') = Some (JInt 1)"
proof -
  have "map_of demo_stored_run ''run_revision'' = Some (JInt 1)"
    and "map_of (sub st_event_ids ''r1'' (mem demo_sqlite)) ''e1'' = Some demo_old_event"
    and "map_of demo_old_event ''seq'' = Some (JInt 1)"
    and "\<not> py_eq (JInt (1 + 1)) (dget demo_old_event ''run_revision'')"
    and "map_of demo_event ''event_id'' = Some (JStr ''e1'')" and "''e1'' \<noteq> []"
    and "dget demo_event ''run_id'' = JNull"
    by code_simp+
  note facts = this
  have "reachable plain_env (mem demo_sqlite)" and "synced demo_sqlite" and "\<not> closed demo_sqlite"
    and "map_of (st_runs (mem demo_sqlite)) ''r1'' = Some demo_stored_run"
    by (simp_all add: demo_sqlite_def demo_reachable synced_def demo_disk_def demo_stored)
  from raised_mutation_not_durable [OF this facts]
  show ?thesis by fastforce
qed

section \<open>Jobs\<close>

definition demo_sql :: sql_env where
  "demo_sql = \<lparr>deadline = (\<lambda>t d. t + d / 86400), stamp = (\<lambda>_. ''t'')\<rparr>"

definition fixed_at :: "rat \<Rightarrow> clock" where
  "fixed_at t = (\<lambda>_. t)"

definition job_0 :: sqlite where
  "job_0 = \<lparr>mem = demo_store, disk = None, job_rows = [], closed = False\<rparr>"

definition job_1 :: sqlite where
  "job_1 = post (exec_job demo_sql (fixed_at 0) (CreateJob ''r1'' ''PROFILE'' [] 2 0)) job_0"

definition job_2 :: sqlite where
  "job_2 = post (exec_job demo_sql (fixed_at 1) (ClaimJob ''w1'' 86400)) job_1"

lemma fixed_at_mono: "mono (fixed_at t)"
  by (simp add: fixed_at_def mono_def)

lemma fixed_at_simps [simp]: "fixed_at t i = t"
  by (simp add: fixed_at_def)

lemma reach_op:
  assumes "job_reachable sql t s" and "t \<le> u"
  shows "job_reachable sql u (post (exec_job sql (fixed_at u) op) s)"
  using job_reachable.op [OF assms(1) fixed_at_mono, of u op] assms(2) by simp

lemma reachable_0: "job_reachable demo_sql 0 job_0"
  by (rule job_reachable.start) (simp add: job_0_def)

lemma reachable_1: "job_reachable demo_sql 0 job_1"
  unfolding job_1_def by (rule reach_op [OF reachable_0]) simp

lemma reachable_2: "job_reachable demo_sql 1 job_2"
  unfolding job_2_def by (rule reach_op [OF reachable_1]) simp

definition "row_1 = the (map_of (job_rows job_1) ''r1'')"
definition "row_2 = the (map_of (job_rows job_2) ''r1'')"

lemma row_1: "map_of (job_rows job_1) ''r1'' = Some row_1" "job_status row_1 = READY"
  "claimable 1 row_1" "job_rows job_1 = [(''r1'', row_1)]" "\<not> closed job_1"
  by code_simp+

lemma row_2: "map_of (job_rows job_2) ''r1'' = Some row_2" "live (3/2) row_2"
  "lease_generation row_2 = 1" "control_epoch row_2 = 0" "\<not> closed job_2"
  "job_run_id row_2 = ''r1''"
  by code_simp+

lemma claim_2: "claim_execution_job demo_sql (fixed_at 1) ''w1'' 86400 job_1 = (Inr (Some row_2), job_2)"
proof -
  have "fst (claim_execution_job demo_sql (fixed_at 1) ''w1'' 86400 job_1) = Inr (Some row_2)" by code_simp
  then show ?thesis by (simp add: prod_eq_iff job_2_def)
qed

theorem at_most_one_live_lease_witness: "''r1'' = ''r1'' \<and> row_2 = row_2 \<and> live (3/2) row_2"
  using at_most_one_live_lease [OF reachable_2 _ row_2(1,2) row_2(1,2)] row_2(2) by simp

theorem job_rows_consistent_witness: "job_ok ''r1'' row_2"
  by (rule job_rows_consistent [OF reachable_2 row_2(1)])

lemma fence_2: "require_job_fence (3/2) ''r1'' 1 0 job_2 = (Inr row_2, job_2)"
  by (simp add: require_job_fence_Inr row_2)

theorem fence_admits_the_claimant_only_witness: "lease_owner row_2 = Some ''w1''"
  using fence_admits_the_claimant_only [OF reachable_1 claim_2 later.now, of "3/2" 0 row_2 job_2] fence_2
  by (simp add: row_2)

theorem outdated_token_rejected_witness:
  "\<exists>cg ce st. complete_execution_job demo_sql (fixed_at 1) ''r1'' 0 0 job_2
     = (Inl (JobFence ''r1'' 0 0 cg ce st), job_2)"
proof -
  have "outdated 0 0 row_2" by (simp add: outdated_def row_2)
  from outdated_token_rejected [OF reachable_2 row_2(1) this later.now row_2(5),
      where n = 1 and delay = 0 and step = "''s''" and clk = "fixed_at 1" and d = "[]" and err = "[]"]
  show ?thesis by (auto simp: Let_def)
qed

definition job_3 :: sqlite where
  "job_3 = post (exec_job demo_sql (fixed_at (3/2)) (CompleteJob ''r1'' 1 0)) job_2"

definition "row_3 = the (map_of (job_rows job_3) ''r1'')"

theorem terminal_jobs_final_witness:
  "map_of (job_rows (post (exec_job demo_sql (fixed_at 9) (WakeJob ''r1'')) job_3)) ''r1'' = Some row_3 \<and>
   job_status row_3 = COMPLETED"
proof -
  have "job_reachable demo_sql (3/2) job_3"
    unfolding job_3_def by (rule reach_op [OF reachable_2]) simp
  moreover have row: "map_of (job_rows job_3) ''r1'' = Some row_3" "job_status row_3 = COMPLETED"
    by code_simp+
  moreover have "later demo_sql job_3 (post (exec_job demo_sql (fixed_at 9) (WakeJob ''r1'')) job_3)"
    by (rule later.jobs [OF later.now])
  ultimately show ?thesis
    using terminal_jobs_final [of demo_sql "3/2" job_3 "''r1''" row_3] by simp
qed

lemma retry_facts: "attempt row_2 = 1" "max_attempts row_2 = 2"
  by code_simp+

definition retried :: "(exn + job) \<times> sqlite" where
  "retried = retry_execution_job demo_sql (fixed_at (3/2)) ''r1'' 1 0 10 ''boom'' job_2"

theorem retry_is_bounded_witness: "attempt (projr (fst retried)) = 1 \<and> job_status (projr (fst retried)) = RETRY"
proof -
  have "\<not> isl (fst retried)" by code_simp
  then have "retry_execution_job demo_sql (fixed_at (3/2)) ''r1'' 1 0 10 ''boom'' job_2
      = (Inr (projr (fst retried)), snd retried)"
    by (simp flip: retried_def add: prod_eq_iff)
  from retry_is_bounded [OF reachable_2 this]
  show ?thesis using retry_facts by (auto simp: row_2)
qed

theorem claim_takes_earliest_witness:
  "\<exists>i. map_of (map (\<lambda>(k, j). (k, bury demo_sql 1 j)) (job_rows job_1)) ''r1'' = Some i \<and>
     claimable 1 i \<and> attempt row_2 = attempt i + 1"
  using claim_takes_earliest [OF reachable_1 claim_2] by (auto simp: row_2)

theorem claim_finds_work_witness:
  "\<exists>j s'. claim_execution_job demo_sql (fixed_at 1) ''w2'' 5 job_1 = (Inr (Some j), s')"
  by (rule claim_finds_work [where r = "''r1''" and i = row_1])
     (simp_all add: row_1 live_def)

end
