(* ===== verification/Hardening.thy ===== *)
theory Hardening
  imports Py_Text "HOL-Library.Product_Lexorder"
begin

text \<open>
  The runtime hardening of the HTTP service (hardening.py): its settings, the sliding-window
  rate limiter, the service metrics with the caps on concurrent requests and streams, and
  the middleware that composes them. Locks are held without awaiting, so each method is one
  step. Times are the readings of \<open>monotonic\<close>, arguments of the definitions. SHA-256 is the
  parameter \<open>digest\<close>. TrustedHostMiddleware and the logger are third-party code; the audit
  records are kept as a list.
\<close>

section \<open>Settings\<close>

definition truthy_words :: "string list" where
  "truthy_words = [''1'', ''true'', ''yes'', ''on'', ''enabled'']"

definition enabled :: "string option \<Rightarrow> bool" where
  "enabled v = (py_lower (py_strip (case v of None \<Rightarrow> [] | Some s \<Rightarrow> s)) \<in> set truthy_words)"

definition positive_int :: "(string \<times> string) list \<Rightarrow> string \<Rightarrow> int \<Rightarrow> exn + int" where
  "positive_int source name dflt =
     (let raw = (case map_of source name of None \<Rightarrow> int_str dflt | Some s \<Rightarrow> s);
          problem = ValueError (name @ '' must be a positive integer'')
      in case parse_int raw of
           None \<Rightarrow> Inl problem
         | Some v \<Rightarrow> if v < 1 then Inl problem else Inr v)"

record hardening_settings =
  audit_log_enabled :: bool
  metrics_enabled :: bool
  tls_terminated :: bool
  requests_per_minute :: int
  max_concurrent_requests :: int
  max_sse_connections :: int
  max_sse_connections_per_tenant :: int
  max_rate_limit_buckets :: int
  allowed_hosts :: "string list"

definition hardening_from_env :: "(string \<times> string) list \<Rightarrow> exn + hardening_settings" where
  "hardening_from_env source =
     (let hosts = filter (\<lambda>h. h \<noteq> [])
            (map py_strip (py_split (CHR '','')
              (case map_of source ''AUTOML_ALLOWED_HOSTS'' of None \<Rightarrow> ''*'' | Some s \<Rightarrow> s)))
      in if hosts = [] then Inl (ValueError ''AUTOML_ALLOWED_HOSTS must not be empty'')
         else exn_bind (positive_int source ''AUTOML_MAX_SSE_CONNECTIONS'' 16) (\<lambda>sse.
              exn_bind (positive_int source ''AUTOML_MAX_SSE_CONNECTIONS_PER_TENANT'' 4) (\<lambda>per_tenant.
              if per_tenant > sse
              then Inl (ValueError ''AUTOML_MAX_SSE_CONNECTIONS_PER_TENANT must not exceed AUTOML_MAX_SSE_CONNECTIONS'')
              else exn_bind (positive_int source ''AUTOML_RATE_LIMIT_REQUESTS_PER_MINUTE'' 1200) (\<lambda>rpm.
                   exn_bind (positive_int source ''AUTOML_MAX_CONCURRENT_REQUESTS'' 64) (\<lambda>conc.
                   exn_bind (positive_int source ''AUTOML_RATE_LIMIT_MAX_BUCKETS'' 4096) (\<lambda>bk.
                     Inr \<lparr>audit_log_enabled = enabled (map_of source ''AUTOML_AUDIT_LOG_ENABLED''),
                          metrics_enabled = enabled (map_of source ''AUTOML_METRICS_ENABLED''),
                          tls_terminated = enabled (map_of source ''AUTOML_TLS_TERMINATED''),
                          requests_per_minute = rpm, max_concurrent_requests = conc,
                          max_sse_connections = sse, max_sse_connections_per_tenant = per_tenant,
                          max_rate_limit_buckets = bk, allowed_hosts = hosts\<rparr>))))))"

section \<open>The rate limiter\<close>

record rate_limiter =
  limit :: int
  window_seconds :: rat
  max_buckets :: int
  buckets :: "(string \<times> rat list) list"
  requests :: nat

definition overflow_key :: string where
  "overflow_key = ''__overflow__''"

definition new_rate_limiter :: "int \<Rightarrow> rat \<Rightarrow> int \<Rightarrow> exn + rate_limiter" where
  "new_rate_limiter maximum window cap =
     (if cap < 2 then Inl (ValueError ''max_buckets must be at least 2'')
      else Inr \<lparr>limit = maximum, window_seconds = window, max_buckets = cap,
                buckets = [(overflow_key, [])], requests = 0\<rparr>)"

definition bucket :: "string \<Rightarrow> rate_limiter \<Rightarrow> rat list" where
  "bucket k l = (case map_of (buckets l) k of None \<Rightarrow> [] | Some b \<Rightarrow> b)"

text \<open>\<open>while bucket and bucket[0] <= cutoff: bucket.popleft()\<close>.\<close>

definition expire :: "rat \<Rightarrow> rat list \<Rightarrow> rat list" where
  "expire cutoff = dropWhile (\<lambda>t. t \<le> cutoff)"

definition prune :: "rat \<Rightarrow> rate_limiter \<Rightarrow> rate_limiter" where
  "prune cutoff l =
     (let stale = map fst (filter (\<lambda>(k, b). k \<noteq> overflow_key \<and> (b = [] \<or> last b \<le> cutoff)) (buckets l));
          l' = l\<lparr>buckets := fold dpop stale (buckets l)\<rparr>
      in l'\<lparr>buckets := dput overflow_key (expire cutoff (bucket overflow_key l')) (buckets l')\<rparr>)"

text \<open>The bucket of a request: its own, which may be new, or the shared one.\<close>

definition choose_bucket :: "rat \<Rightarrow> string \<Rightarrow> rate_limiter \<Rightarrow> string \<times> rate_limiter" where
  "choose_bucket cutoff key l =
     (if has_key (buckets l) key then (key, l)
      else let l' = prune cutoff l
           in if int (length (buckets l')) < max_buckets l'
              then (key, l'\<lparr>buckets := dset_default key [] (buckets l')\<rparr>)
              else (overflow_key, l'))"

definition allow :: "rat \<Rightarrow> string \<Rightarrow> (rate_limiter, bool \<times> int) py" where
  "allow now key l =
     (let cutoff = now - window_seconds l;
          (k, l1) = choose_bucket cutoff key l;
          b = expire cutoff (bucket k l1);
          l2 = l1\<lparr>buckets := dput k b (buckets l1)\<rparr>
      in if limit l2 \<le> int (length b)
         then case b of
                [] \<Rightarrow> (Inl IndexErr, l2)
              | t # _ \<Rightarrow> (Inr (False, max 1 (trunc_rat (window_seconds l2 - (now - t)) + 1)), l2)
         else let l3 = l2\<lparr>buckets := dput k (b @ [now]) (buckets l2), requests := requests l2 + 1\<rparr>
              in (Inr (True, 0), if requests l3 mod 512 = 0 then prune cutoff l3 else l3))"

section \<open>Metrics\<close>

record metrics =
  m_requests :: "((string \<times> string \<times> int) \<times> int) list"
  m_duration_seconds :: "((string \<times> string) \<times> rat) list"
  m_rate_limited :: int
  m_rejected_concurrency :: int
  m_active :: int
  m_active_streams :: int
  m_active_streams_by_tenant :: "(string \<times> int) list"
  m_rejected_streams :: int

definition new_metrics :: metrics where
  "new_metrics = \<lparr>m_requests = [], m_duration_seconds = [], m_rate_limited = 0,
     m_rejected_concurrency = 0, m_active = 0, m_active_streams = 0,
     m_active_streams_by_tenant = [], m_rejected_streams = 0\<rparr>"

definition enter :: "int \<Rightarrow> (metrics, bool) py" where
  "enter maximum m =
     (if m_active m \<ge> maximum
      then (Inr False, m\<lparr>m_rejected_concurrency := m_rejected_concurrency m + 1\<rparr>)
      else (Inr True, m\<lparr>m_active := m_active m + 1\<rparr>))"

definition leave :: "(metrics, unit) py" where
  "leave m = (Inr (), m\<lparr>m_active := max 0 (m_active m - 1)\<rparr>)"

definition rate_limited :: "(metrics, unit) py" where
  "rate_limited m = (Inr (), m\<lparr>m_rate_limited := m_rate_limited m + 1\<rparr>)"

definition tenant_streams :: "metrics \<Rightarrow> string \<Rightarrow> int" where
  "tenant_streams m t = (case map_of (m_active_streams_by_tenant m) t of None \<Rightarrow> 0 | Some n \<Rightarrow> n)"

definition enter_stream :: "int \<Rightarrow> string option \<Rightarrow> int option \<Rightarrow> (metrics, bool) py" where
  "enter_stream maximum tenant_id maximum_per_tenant m =
     (let tenant_full = (case (tenant_id, maximum_per_tenant) of
                           (Some t, Some n) \<Rightarrow> tenant_streams m t \<ge> n | _ \<Rightarrow> False)
      in if m_active_streams m \<ge> maximum \<or> tenant_full
         then (Inr False, m\<lparr>m_rejected_streams := m_rejected_streams m + 1\<rparr>)
         else let m1 = m\<lparr>m_active_streams := m_active_streams m + 1\<rparr>
              in (Inr True, case tenant_id of
                    None \<Rightarrow> m1
                  | Some t \<Rightarrow> m1\<lparr>m_active_streams_by_tenant :=
                      dput t (tenant_streams m t + 1) (m_active_streams_by_tenant m1)\<rparr>))"

definition leave_stream :: "string option \<Rightarrow> (metrics, unit) py" where
  "leave_stream tenant_id m =
     (let m1 = m\<lparr>m_active_streams := max 0 (m_active_streams m - 1)\<rparr>
      in (Inr (), case tenant_id of
            None \<Rightarrow> m1
          | Some t \<Rightarrow>
              let remaining = tenant_streams m1 t - 1
              in m1\<lparr>m_active_streams_by_tenant :=
                   (if remaining > 0 then dput t remaining (m_active_streams_by_tenant m1)
                    else dpop t (m_active_streams_by_tenant m1))\<rparr>))"

definition observe :: "string \<Rightarrow> string \<Rightarrow> int \<Rightarrow> rat \<Rightarrow> (metrics, unit) py" where
  "observe method route status duration m =
     (let key = (method, route, status);
          n = (case map_of (m_requests m) key of None \<Rightarrow> 0 | Some c \<Rightarrow> c);
          d = (case map_of (m_duration_seconds m) (method, route) of None \<Rightarrow> 0 | Some q \<Rightarrow> q)
      in (Inr (), m\<lparr>m_requests := AList.update key (n + 1) (m_requests m),
                   m_duration_seconds := AList.update (method, route) (d + duration) (m_duration_seconds m)\<rparr>))"

definition quoted :: "string \<Rightarrow> string" where
  "quoted s = [char_of (34 :: nat)] @ s @ [char_of (34 :: nat)]"

definition render :: "metrics \<Rightarrow> string" where
  "render m =
     (let nl = [char_of (10 :: nat)];
          lines =
            [''# HELP automl_http_requests_total Total HTTP requests.'',
             ''# TYPE automl_http_requests_total counter''] @
            map (\<lambda>((method, route, status), n).
                  ''automl_http_requests_total{method='' @ quoted method @ '',route='' @ quoted route
                    @ '',status='' @ quoted (int_str status) @ ''} '' @ int_str n)
                (sort_key fst (m_requests m)) @
            [''# HELP automl_http_request_duration_seconds_total Cumulative request duration.'',
             ''# TYPE automl_http_request_duration_seconds_total counter''] @
            map (\<lambda>((method, route), q).
                  ''automl_http_request_duration_seconds_total{method='' @ quoted method @ '',route=''
                    @ quoted route @ ''} '' @ fixed_str 6 q)
                (sort_key fst (m_duration_seconds m)) @
            [''# TYPE automl_http_active_requests gauge'',
             ''automl_http_active_requests '' @ int_str (m_active m),
             ''# TYPE automl_http_rate_limited_total counter'',
             ''automl_http_rate_limited_total '' @ int_str (m_rate_limited m),
             ''# TYPE automl_http_concurrency_rejected_total counter'',
             ''automl_http_concurrency_rejected_total '' @ int_str (m_rejected_concurrency m),
             ''# TYPE automl_sse_active_connections gauge'',
             ''automl_sse_active_connections '' @ int_str (m_active_streams m),
             ''# TYPE automl_sse_rejected_connections_total counter'',
             ''automl_sse_rejected_connections_total '' @ int_str (m_rejected_streams m)]
      in concat (map (\<lambda>l. l @ nl) lines))"

section \<open>Requests and responses\<close>

record http_request =
  rq_method :: string
  rq_path :: string
  rq_client :: "string option"
  rq_headers :: "(string \<times> string) list"
  rq_path_params :: "(string \<times> json) list"
  rq_route :: "string option"
  rq_operation_id :: "string option"
  rq_principal :: "jdict option"

record http_response =
  rs_status :: int
  rs_headers :: "(string \<times> string) list"
  rs_body :: json

text \<open>Header names are compared without case.\<close>

definition header :: "(string \<times> string) list \<Rightarrow> string \<Rightarrow> string option" where
  "header hs name = map_of (map (\<lambda>(k, v). (py_lower k, v)) hs) (py_lower name)"

definition default_header :: "string \<Rightarrow> string \<Rightarrow> http_response \<Rightarrow> http_response" where
  "default_header name v r =
     (if header (rs_headers r) name = None then r\<lparr>rs_headers := rs_headers r @ [(name, v)]\<rparr> else r)"

definition header_text :: "http_request \<Rightarrow> string \<Rightarrow> string" where
  "header_text rq name = py_strip (case header (rq_headers rq) name of None \<Rightarrow> [] | Some s \<Rightarrow> s)"

definition credential_key :: "(string \<Rightarrow> string) \<Rightarrow> http_request \<Rightarrow> string" where
  "credential_key digest rq =
     (let authorization = header_text rq ''Authorization''
      in if authorization \<noteq> [] then ''token:'' @ take 24 (digest authorization) else ''token:anonymous'')"

definition client_key :: "http_request \<Rightarrow> string" where
  "client_key rq = ''client:'' @ (case rq_client rq of None \<Rightarrow> ''unknown'' | Some h \<Rightarrow> h)"

definition route_label :: "http_request \<Rightarrow> string" where
  "route_label rq =
     (case rq_route rq of Some p \<Rightarrow> (if p \<noteq> [] then p else rq_path rq) | None \<Rightarrow> rq_path rq)"

definition ends_with :: "string \<Rightarrow> string \<Rightarrow> bool" where
  "ends_with s t = starts_with (rev s) (rev t)"

text \<open>\<open>str(value)\<close> of a path parameter that is kept: a string or an integer (\<open>bool\<close> is one).\<close>

fun id_text :: "json \<Rightarrow> string option" where
  "id_text (JStr s) = Some s"
| "id_text (JInt i) = Some (int_str i)"
| "id_text (JBool b) = Some (if b then ''True'' else ''False'')"
| "id_text _ = None"

definition resource_ids :: "http_request \<Rightarrow> jdict" where
  "resource_ids rq =
     List.map_filter (\<lambda>(k, v). case id_text v of
         None \<Rightarrow> None
       | Some s \<Rightarrow> if ends_with k ''_id'' \<and> length s \<le> 128 then Some (k, JStr s) else None)
       (rq_path_params rq)"

definition audit_context :: "(string \<Rightarrow> string) \<Rightarrow> http_request \<Rightarrow> jdict" where
  "audit_context digest rq =
     (let op = (case rq_operation_id rq of
                  Some s \<Rightarrow> if s \<noteq> [] then [(''operation_id'', JStr s)] else [] | None \<Rightarrow> []);
          identity = (case rq_principal rq of
                  Some d \<Rightarrow> filter (\<lambda>(k, v). k \<in> {''tenant_id'', ''subject'', ''actor_type''}
                                             \<and> type_of v = TStr) d | None \<Rightarrow> []);
          ids = resource_ids rq;
          ikey = header_text rq ''Idempotency-Key'';
          rev = header_text rq ''If-Match''
      in dupdate op identity
         @ (if ids \<noteq> [] then [(''resource_ids'', JObj ids)] else [])
         @ (if ikey \<noteq> [] then [(''idempotency_key_hash'', JStr (take 24 (digest ikey)))] else [])
         @ (if rev \<noteq> [] \<and> length rev \<le> 128 then [(''if_match'', JStr rev)] else []))"

text \<open>\<open>corr\<close> is the correlation identifier that the code derives from the clock.\<close>

definition problem_response ::
  "string \<Rightarrow> int \<Rightarrow> string \<Rightarrow> string \<Rightarrow> string \<Rightarrow> (string \<times> string) list \<Rightarrow> http_response" where
  "problem_response corr status code title detail headers =
     \<lparr>rs_status = status,
      rs_headers = (''X-Correlation-ID'', corr) # headers,
      rs_body = JObj [(''type'', JStr (''/problems/'' @ code)), (''title'', JStr title),
        (''status'', JInt status), (''code'', JStr code), (''detail'', JStr detail),
        (''retriable'', JBool True), (''correlation_id'', JStr corr)]\<rparr>"

definition security_headers :: "(string \<times> string) list" where
  "security_headers =
     [(''X-Content-Type-Options'', ''nosniff''), (''X-Frame-Options'', ''DENY''),
      (''Referrer-Policy'', ''no-referrer''),
      (''Permissions-Policy'', ''camera=(), microphone=(), geolocation=()''),
      (''Content-Security-Policy'',
        ''default-src '' @ [char_of (39 :: nat)] @ ''none'' @ [char_of (39 :: nat)]
          @ ''; frame-ancestors '' @ [char_of (39 :: nat)] @ ''none'' @ [char_of (39 :: nat)])]"

definition apply_security_headers :: "bool \<Rightarrow> http_response \<Rightarrow> http_response" where
  "apply_security_headers tls r =
     (let r' = fold (\<lambda>(k, v). default_header k v) security_headers r
      in if tls then default_header ''Strict-Transport-Security'' ''max-age=31536000; includeSubDomains'' r'
         else r')"

section \<open>The middleware\<close>

record 'a service =
  client_limiter :: rate_limiter
  credential_limiter :: rate_limiter
  sv_metrics :: metrics
  audit_log :: "jdict list"
  inner :: 'a

definition exempt_paths :: "string list" where
  "exempt_paths = [''/healthz'', ''/readyz'', ''/metrics'']"

definition of_metrics :: "(metrics, 'b) py \<Rightarrow> ('a service, 'b) py" where
  "of_metrics m s = (case m (sv_metrics s) of (r, m') \<Rightarrow> (r, s\<lparr>sv_metrics := m'\<rparr>))"

definition allow_client :: "rat \<Rightarrow> string \<Rightarrow> ('a service, bool \<times> int) py" where
  "allow_client now key s =
     (case allow now key (client_limiter s) of (r, l) \<Rightarrow> (r, s\<lparr>client_limiter := l\<rparr>))"

definition allow_credential :: "rat \<Rightarrow> string \<Rightarrow> ('a service, bool \<times> int) py" where
  "allow_credential now key s =
     (case allow now key (credential_limiter s) of (r, l) \<Rightarrow> (r, s\<lparr>credential_limiter := l\<rparr>))"

definition audit_record ::
  "(string \<Rightarrow> string) \<Rightarrow> http_request \<Rightarrow> http_response \<Rightarrow> rat \<Rightarrow> string \<Rightarrow> string \<Rightarrow> jdict" where
  "audit_record digest rq rs duration actor_key route =
     dupdate
       [(''event'', JStr ''http_request''), (''method'', JStr (rq_method rq)),
        (''route'', JStr route), (''status'', JInt (rs_status rs)),
        (''duration_ms'', JFloat (round_to 3 (duration * 1000))), (''actor_key'', JStr actor_key),
        (''correlation_id'', case header (rs_headers rs) ''X-Correlation-ID'' of
           None \<Rightarrow> JNull | Some c \<Rightarrow> JStr c)]
       (audit_context digest rq)"

definition finalize ::
  "hardening_settings \<Rightarrow> (string \<Rightarrow> string) \<Rightarrow> http_request \<Rightarrow> http_response \<Rightarrow> rat \<Rightarrow> string \<Rightarrow> string
     \<Rightarrow> ('a service, http_response) py" where
  "finalize settings digest rq rs duration actor_key route =
     (let rs' = apply_security_headers (tls_terminated settings) rs
      in seq (of_metrics (observe (rq_method rq) route (rs_status rs') duration)) (\<lambda>_.
         seq (modify (\<lambda>s. if audit_log_enabled settings
                then s\<lparr>audit_log := audit_log s @ [audit_record digest rq rs' duration actor_key route]\<rparr>
                else s)) (\<lambda>_. ret rs')))"

text \<open>
  \<open>harden_request\<close>: \<open>t\<close> are the clock readings (the start, the two limiters, the end) and
  \<open>call_next\<close> the rest of the application, which may change the whole service while the
  request is in it, and the request's routing data.
\<close>

definition harden_request ::
  "hardening_settings \<Rightarrow> (string \<Rightarrow> string) \<Rightarrow> string \<Rightarrow> (nat \<Rightarrow> rat)
     \<Rightarrow> (http_request \<Rightarrow> 'a service \<Rightarrow> (exn + http_response) \<times> http_request \<times> 'a service)
     \<Rightarrow> http_request \<Rightarrow> ('a service, http_response) py" where
  "harden_request settings digest corr t call_next rq =
     (let actor_key = credential_key digest rq;
          entered = (rq_path rq \<notin> set exempt_paths);
          refused = (\<lambda>retry_after. seq (of_metrics rate_limited) (\<lambda>_.
            finalize settings digest rq
              (problem_response corr 429 ''rate_limit_exceeded'' ''Request rate limit exceeded''
                ''Retry after the interval declared by Retry-After.''
                [(''Retry-After'', int_str retry_after)])
              (t 3 - t 0) actor_key ''rate_limited''));
          busy = finalize settings digest rq
              (problem_response corr 503 ''server_busy'' ''Server request capacity reached''
                ''Retry when another request has completed.'' [(''Retry-After'', ''1'')])
              (t 3 - t 0) actor_key ''concurrency_rejected'';
          proceed = (\<lambda>s. case call_next rq s of (outcome, rq', s') \<Rightarrow>
            let rs = (case outcome of
                  Inr r \<Rightarrow> r
                | Inl _ \<Rightarrow> problem_response corr 500 ''internal_error'' ''Internal server error''
                    ''The request could not be completed.'' []);
                s'' = (if entered then post (of_metrics leave) s' else s')
            in finalize settings digest rq' rs (t 3 - t 0) actor_key (route_label rq') s'')
      in if \<not> entered then proceed
         else seq (allow_client (t 1) (client_key rq)) (\<lambda>(ok, after).
              if \<not> ok then refused after
              else seq (allow_credential (t 2) actor_key) (\<lambda>(ok, after).
                if \<not> ok then refused after
                else seq (of_metrics (enter (max_concurrent_requests settings))) (\<lambda>ok.
                  if \<not> ok then busy else proceed))))"

end
