(* ===== verification/Hardening_Laws.thy ===== *)
theory Hardening_Laws
  imports Hardening "HOL-Library.Multiset"
begin

text \<open>
  What the hardening of the service guarantees: the rate limiter's sliding window and its
  bounded memory, the meaning of \<open>Retry-After\<close>, the caps on streams as a refinement of the
  multiset of open streams, and that the middleware gives back every slot it takes.
\<close>

section \<open>Buckets\<close>

definition recent :: "rat \<Rightarrow> string \<Rightarrow> rate_limiter \<Rightarrow> rat list" where
  "recent c k l = filter (\<lambda>u. c < u) (bucket k l)"

definition limiter_ok :: "rat \<Rightarrow> rate_limiter \<Rightarrow> bool" where
  "limiter_ok t l \<longleftrightarrow>
     distinct (map fst (buckets l)) \<and> has_key (buckets l) overflow_key \<and>
     int (length (buckets l)) \<le> max_buckets l \<and> 0 < limit l \<and> 0 < window_seconds l \<and>
     (\<forall>k b. map_of (buckets l) k = Some b \<longrightarrow>
        sorted b \<and> (\<forall>u \<in> set b. u \<le> t) \<and> int (length b) \<le> limit l)"

lemma expire_sorted: "sorted b \<Longrightarrow> expire c b = filter (\<lambda>u. c < u) b"
  unfolding expire_def
proof (induction b)
  case (Cons x b)
  then have "c < x \<Longrightarrow> filter (\<lambda>u. c < u) b = b"
    by (simp add: filter_id_conv) (metis less_le_trans)
  with Cons show ?case by auto
qed simp

lemma sorted_le_last: "sorted b \<Longrightarrow> u \<in> set b \<Longrightarrow> u \<le> last b"
  by (induction b) auto

lemma last_expired: "sorted b \<Longrightarrow> b = [] \<or> last b \<le> c \<Longrightarrow> filter (\<lambda>u. c < u) b = []"
  using sorted_le_last [of b] by (fastforce simp: filter_empty_conv not_less)

lemma map_of_fold_dpop: "map_of (fold dpop ks d) k = (if k \<in> set ks then None else map_of d k)"
  by (induction ks arbitrary: d) auto

lemma keys_fold_dpop: "distinct (map fst d) \<Longrightarrow>
    distinct (map fst (fold dpop ks d)) \<and> length (fold dpop ks d) \<le> length d"
proof (induction ks arbitrary: d)
  case (Cons k ks)
  have "distinct (map fst (dpop k d))" using Cons.prems by (rule distinct_delete)
  moreover have "length (dpop k d) \<le> length d" by (rule length_delete_le)
  ultimately show ?case using Cons.IH [of "dpop k d"] by simp
qed simp

lemma length_dput: "length (dput k v d) = (if has_key d k then length d else Suc (length d))"
proof -
  have "length (map fst (dput k v d)) = (if has_key d k then length d else Suc (length d))"
    by (simp only: update_keys has_key_iff set_map) simp
  then show ?thesis by simp
qed

lemma length_bucket: "limiter_ok t l \<Longrightarrow> sorted (bucket k l) \<and> int (length (bucket k l)) \<le> limit l"
  by (auto simp: limiter_ok_def bucket_def split: option.split)

lemma map_of_prune:
  assumes "limiter_ok t l"
  shows "map_of (buckets (prune c l)) k =
    (if k = overflow_key then Some (expire c (bucket overflow_key l))
     else case map_of (buckets l) k of
            None \<Rightarrow> None | Some b \<Rightarrow> if b = [] \<or> last b \<le> c then None else Some b)"
proof -
  let ?stale = "map fst (filter (\<lambda>(k, b). k \<noteq> overflow_key \<and> (b = [] \<or> last b \<le> c)) (buckets l))"
  have d: "distinct (map fst (buckets l))" using assms by (simp add: limiter_ok_def)
  have "k \<in> set ?stale \<longleftrightarrow>
      (\<exists>b. map_of (buckets l) k = Some b \<and> k \<noteq> overflow_key \<and> (b = [] \<or> last b \<le> c))" for k
    by (force simp del: map_of_eq_Some_iff simp: map_of_eq_Some_iff [OF d])
  then show ?thesis
    by (simp add: prune_def Let_def map_of_fold_dpop bucket_def del: set_map split: option.split)
qed

lemma prune_params [simp]:
  "limit (prune c l) = limit l" "window_seconds (prune c l) = window_seconds l"
  "max_buckets (prune c l) = max_buckets l"
  by (simp_all add: prune_def Let_def)

lemma prune_ok: assumes "limiter_ok t l" shows "limiter_ok t (prune c l)"
proof -
  let ?stale = "map fst (filter (\<lambda>(k, b). k \<noteq> overflow_key \<and> (b = [] \<or> last b \<le> c)) (buckets l))"
  let ?kept = "fold dpop ?stale (buckets l)"
  have "has_key ?kept overflow_key" using assms
    by (auto simp: has_key_def map_of_fold_dpop limiter_ok_def)
  moreover have "distinct (map fst ?kept) \<and> length ?kept \<le> length (buckets l)"
    using assms by (intro keys_fold_dpop) (simp add: limiter_ok_def)
  ultimately have "distinct (map fst (buckets (prune c l)))"
    and "length (buckets (prune c l)) \<le> length (buckets l)"
    and "has_key (buckets (prune c l)) overflow_key"
    by (simp_all add: prune_def Let_def length_dput)
  moreover have "sorted b \<and> (\<forall>u \<in> set b. u \<le> t) \<and> int (length b) \<le> limit l"
    if "map_of (buckets (prune c l)) k = Some b" for k b
  proof (cases "map_of (buckets l) k")
    case None
    with that assms show ?thesis by (auto simp: map_of_prune [OF assms] limiter_ok_def has_key_def split: if_splits)
  next
    case (Some d)
    then have d: "sorted d" "\<forall>u \<in> set d. u \<le> t" "int (length d) \<le> limit l"
      using assms by (auto simp: limiter_ok_def)
    have "b = d \<or> b = filter (\<lambda>u. c < u) d"
      using that Some d(1) by (auto simp: map_of_prune [OF assms] bucket_def expire_sorted split: if_splits)
    moreover have "int (length (filter (\<lambda>u. c < u) d)) \<le> limit l"
      using d(3) length_filter_le [of "\<lambda>u. c < u" d] by linarith
    ultimately show ?thesis using d by (auto simp: sorted_filter [where f = id, simplified])
  qed
  ultimately show ?thesis using assms by (auto simp: limiter_ok_def)
qed

section \<open>One request\<close>

lemma recent_prune:
  assumes "limiter_ok t l" shows "recent c k (prune c l) = recent c k l"
  using length_bucket [OF assms, of k] length_bucket [OF assms, of overflow_key]
  by (auto simp: recent_def bucket_def map_of_prune [OF assms] expire_sorted last_expired
      split: option.splits if_splits)

lemma choose_bucket_ok:
  assumes "limiter_ok t l"
  shows "limiter_ok t (snd (choose_bucket c key l)) \<and>
    has_key (buckets (snd (choose_bucket c key l))) (fst (choose_bucket c key l)) \<and>
    (\<forall>k. recent c k (snd (choose_bucket c key l)) = recent c k l) \<and>
    (fst (choose_bucket c key l) = key \<or> fst (choose_bucket c key l) = overflow_key) \<and>
    limit (snd (choose_bucket c key l)) = limit l \<and>
    window_seconds (snd (choose_bucket c key l)) = window_seconds l"
proof (cases "has_key (buckets l) key")
  case True
  with assms show ?thesis by (simp add: choose_bucket_def)
next
  case False
  let ?p = "prune c l"
  note p = prune_ok [OF assms, of c]
  show ?thesis
  proof (cases "int (length (buckets ?p)) < max_buckets ?p")
    case True
    let ?q = "?p\<lparr>buckets := dset_default key [] (buckets ?p)\<rparr>"
    have "int (length (buckets ?q)) \<le> max_buckets ?q \<and> distinct (map fst (buckets ?q))"
      using True p by (auto simp: dset_default_def length_dput limiter_ok_def)
    then have "limiter_ok t ?q" using p
      by (auto simp: limiter_ok_def has_key_def split: option.splits if_splits)
    moreover have "bucket k ?q = bucket k ?p" for k
      by (auto simp: bucket_def split: option.split)
    ultimately show ?thesis
      using False True recent_prune [OF assms, of c]
      by (simp add: choose_bucket_def Let_def recent_def has_key_def)
  next
    case full: False
    with False p recent_prune [OF assms, of c] show ?thesis
      by (simp add: choose_bucket_def Let_def limiter_ok_def)
  qed
qed

lemma put_bucket_ok:
  assumes "limiter_ok t l" and "t \<le> now" and "has_key (buckets l) k"
    and "sorted b" and "\<forall>u \<in> set b. u \<le> now" and "int (length b) \<le> limit l"
  shows "limiter_ok now (l\<lparr>buckets := dput k b (buckets l), requests := n\<rparr>)"
    and "recent c j (l\<lparr>buckets := dput k b (buckets l), requests := n\<rparr>) =
      (if j = k then filter (\<lambda>u. c < u) b else recent c j l)"
  using assms
  by (force simp: limiter_ok_def length_dput split: if_splits, simp add: recent_def bucket_def)

lemma record_same_requests: "l\<lparr>buckets := b, requests := requests l\<rparr> = l\<lparr>buckets := b\<rparr>"
  by simp

text \<open>
  The effect of a request: with \<open>k\<close> its bucket and \<open>r\<close> what that bucket holds of the last
  window, it is admitted and recorded if \<open>r\<close> is below the limit, and else refused.
\<close>

lemma allow_spec:
  fixes key :: string
  assumes ok: "limiter_ok t l" and t: "t \<le> now"
  defines "c \<equiv> now - window_seconds l"
  defines "k \<equiv> fst (choose_bucket c key l)"
  defines "r \<equiv> recent c k l"
  obtains l' where "limiter_ok now l'" and "limit l' = limit l" and "window_seconds l' = window_seconds l"
    and "allow now key l =
      (if limit l \<le> int (length r)
       then (Inr (False, max 1 (trunc_rat (window_seconds l - (now - hd r)) + 1)), l')
       else (Inr (True, 0), l'))"
    and "limit l \<le> int (length r) \<Longrightarrow> has_key (buckets l') k"
    and "\<And>j. recent c j l' = recent c j l @ (if j = k \<and> int (length r) < limit l then [now] else [])"
proof -
  define l1 where "l1 = snd (choose_bucket c key l)"
  have l1: "limiter_ok t l1" "has_key (buckets l1) k" "\<And>j. recent c j l1 = recent c j l"
    "limit l1 = limit l" "window_seconds l1 = window_seconds l"
    using choose_bucket_ok [OF ok, of c key] by (simp_all add: l1_def k_def)
  have pair: "choose_bucket c key l = (k, l1)" by (simp add: k_def l1_def)
  have b: "expire c (bucket k l1) = r"
    using length_bucket [OF l1(1), of k] l1(3) [of k] by (simp add: expire_sorted r_def recent_def)
  have r1: "r = filter (\<lambda>u. c < u) (bucket k l1)"
    using l1(3) [of k] by (simp add: r_def recent_def)
  have r: "sorted r" "\<forall>u \<in> set r. c < u \<and> u \<le> now" "int (length r) \<le> limit l"
  proof -
    have "\<forall>u \<in> set (bucket k l1). u \<le> t" using l1(1) by (auto simp: limiter_ok_def bucket_def split: option.splits)
    then show "\<forall>u \<in> set r. c < u \<and> u \<le> now" using t r1 by auto
    show "sorted r" using length_bucket [OF l1(1), of k] b by (auto simp: expire_def sorted_dropWhile)
    show "int (length r) \<le> limit l"
      using length_bucket [OF l1(1), of k] length_filter_le [of "\<lambda>u. c < u" "bucket k l1"] l1(4)
      unfolding r1 by linarith
  qed
  have "c < now" using ok by (simp add: c_def limiter_ok_def)
  show ?thesis
  proof (cases "limit l \<le> int (length r)")
    case True
    define l2 where "l2 = l1\<lparr>buckets := dput k r (buckets l1)\<rparr>"
    have "r \<noteq> []" using True ok by (auto simp: limiter_ok_def)
    then obtain u us where "r = u # us" by (cases r) auto
    then have "allow now key l =
        (Inr (False, max 1 (trunc_rat (window_seconds l - (now - hd r)) + 1)), l2)"
      using True by (simp add: allow_def Let_def pair [unfolded c_def] b [unfolded c_def] l1 l2_def)
    moreover have up: "\<forall>u \<in> set r. u \<le> now" and len: "int (length r) \<le> limit l1"
      using r l1(4) by auto
    have "limiter_ok now l2"
      using put_bucket_ok(1) [OF l1(1) t l1(2) r(1) up len, of "requests l1"] by (simp add: l2_def)
    moreover have "filter (\<lambda>u. c < u) r = r" using r(2) by (simp add: filter_id_conv)
    then have "recent c j l2 = recent c j l" for j
      using put_bucket_ok(2) [OF l1(1) t l1(2) r(1) up len, of c j "requests l1"] l1(3)
      by (simp add: l2_def r_def split: if_splits)
    moreover have "limit l2 = limit l" "window_seconds l2 = window_seconds l" "has_key (buckets l2) k"
      by (simp_all add: l2_def l1)
    ultimately show ?thesis using True by (intro that [of l2]) simp_all
  next
    case False
    define l3 where "l3 = l1\<lparr>buckets := dput k (r @ [now]) (buckets l1), requests := requests l1 + 1\<rparr>"
    define l4 where "l4 = (if requests l3 mod 512 = 0 then prune c l3 else l3)"
    have "sorted (r @ [now])" "\<forall>u \<in> set (r @ [now]). u \<le> now" "int (length (r @ [now])) \<le> limit l1"
      using r False l1 by (auto simp: sorted_append)
    note put = put_bucket_ok [OF l1(1) t l1(2) this, where n = "requests l1 + 1", folded l3_def]
    have "limiter_ok now l4" and "\<And>j. recent c j l4 = recent c j l3"
      using prune_ok [OF put(1)] recent_prune [OF put(1)] put(1) by (simp_all add: l4_def)
    moreover have "allow now key l = (Inr (True, 0), l4)"
      using False by (simp add: allow_def Let_def pair [unfolded c_def] b [unfolded c_def] l1 l3_def l4_def c_def)
    moreover have "recent c j l3 = recent c j l @ (if j = k then [now] else [])" for j
      using put(2) [of c j] r(2) l1(3) [of j] \<open>c < now\<close> by (simp add: r_def [symmetric] filter_id_conv)
    moreover have "limit l4 = limit l" "window_seconds l4 = window_seconds l"
      by (simp_all add: l4_def l3_def l1)
    ultimately show ?thesis using False by (intro that [of l4]) simp_all
  qed
qed

lemma allow_params: "allow now key l = (x, l') \<Longrightarrow> max_buckets l' = max_buckets l"
  by (auto simp: allow_def choose_bucket_def Let_def split: list.splits if_splits prod.splits)

section \<open>The sliding window\<close>

text \<open>
  A limiter in service: requests at times that do not decrease, with the history of the
  admitted ones (time, key, bucket).
\<close>

inductive serves :: "rate_limiter \<Rightarrow> rate_limiter \<Rightarrow> rat \<Rightarrow> (rat \<times> string \<times> string) list \<Rightarrow> bool" for l0 where
  start: "serves l0 l0 t []"
| admit: "serves l0 l t h \<Longrightarrow> t \<le> now \<Longrightarrow> allow now key l = (Inr (True, n), l') \<Longrightarrow>
    serves l0 l' now (h @ [(now, key, fst (choose_bucket (now - window_seconds l) key l))])"
| refuse: "serves l0 l t h \<Longrightarrow> t \<le> now \<Longrightarrow> allow now key l = (Inr (False, n), l') \<Longrightarrow> serves l0 l' now h"

definition into :: "string \<Rightarrow> (rat \<times> string \<times> string) list \<Rightarrow> rat list" where
  "into b h = map fst (filter (\<lambda>(_, _, k). k = b) h)"

definition in_window :: "rat \<Rightarrow> rat \<Rightarrow> rat list \<Rightarrow> rat list" where
  "in_window w v ts = filter (\<lambda>u. v - w < u \<and> u \<le> v) ts"

lemma into_simps [simp]:
  "into b [] = []" "into b (h @ g) = into b h @ into b g"
  "into b ((u, k, j) # g) = (if j = b then u # into b g else into b g)"
  by (simp_all add: into_def)

lemma in_window_simps [simp]: "in_window w v [] = []" "in_window w v (ts @ us) = in_window w v ts @ in_window w v us"
  "in_window w v (u # us) = (if v - w < u \<and> u \<le> v then u # in_window w v us else in_window w v us)"
  by (simp_all add: in_window_def)

lemma new_limiter_ok:
  assumes "new_rate_limiter maximum w cap = Inr l0" and "0 < maximum" and "0 < w"
  shows "limiter_ok t l0"
  using assms by (auto simp: new_rate_limiter_def limiter_ok_def has_key_def split: if_splits)

text \<open>
  The invariant: each bucket holds the admissions into it of the last window, and no window
  of the history has more admissions into one bucket than the limit.
\<close>

definition window_inv :: "rate_limiter \<Rightarrow> rate_limiter \<Rightarrow> rat \<Rightarrow> (rat \<times> string \<times> string) list \<Rightarrow> bool" where
  "window_inv l0 l t h \<longleftrightarrow>
     limiter_ok t l \<and> limit l = limit l0 \<and> window_seconds l = window_seconds l0 \<and>
     (\<forall>(u, k, b) \<in> set h. u \<le> t \<and> (b = k \<or> b = overflow_key)) \<and>
     (\<forall>c b. t - window_seconds l \<le> c \<longrightarrow> recent c b l = filter (\<lambda>u. c < u) (into b h)) \<and>
     (\<forall>v b. int (length (in_window (window_seconds l) v (into b h))) \<le> limit l)"

lemma recent_narrow: "c \<le> c' \<Longrightarrow> recent c' b l = filter (\<lambda>u. c' < u) (recent c b l)"
  by (auto simp: recent_def intro!: filter_cong)

lemma into_le: "\<forall>(u, k, b) \<in> set h. u \<le> t \<and> P k b \<Longrightarrow> u \<in> set (into b h) \<Longrightarrow> u \<le> t"
  by (auto simp: into_def)

lemma serves_inv:
  assumes "serves l0 l t h" and "\<And>t. limiter_ok t l0" and "buckets l0 = [(overflow_key, [])]"
  shows "window_inv l0 l t h"
  using assms(1)
proof induction
  case (start t)
  from assms(2) [of t] assms(3) show ?case
    by (auto simp: window_inv_def recent_def bucket_def limiter_ok_def)
next
  case (admit l t h now key n l')
  let ?w = "window_seconds l" and ?k = "fst (choose_bucket (now - window_seconds l) key l)"
  let ?h = "h @ [(now, key, ?k)]"
  note inv = admit.IH [unfolded window_inv_def]
  have ok: "limiter_ok t l" using inv by blast
  obtain l'' where l'': "limiter_ok now l''" "limit l'' = limit l" "window_seconds l'' = ?w"
    "allow now key l = (if limit l \<le> int (length (recent (now - ?w) ?k l))
       then (Inr (False, max 1 (trunc_rat (?w - (now - hd (recent (now - ?w) ?k l))) + 1)), l'')
       else (Inr (True, 0), l''))"
    "\<And>j. recent (now - ?w) j l'' = recent (now - ?w) j l @
       (if j = ?k \<and> int (length (recent (now - ?w) ?k l)) < limit l then [now] else [])"
    by (rule allow_spec [OF ok admit.hyps(2), of key]) blast
  with admit.hyps(3) have [simp]: "l'' = l'" and room: "int (length (recent (now - ?w) ?k l)) < limit l"
    by (auto split: if_splits)
  have before: "recent (now - ?w) j l = filter (\<lambda>u. now - ?w < u) (into j h)" for j
    using inv admit.hyps(2) by simp
  have le: "u \<le> t" if "u \<in> set (into j h)" for u j
    using inv that by (auto simp: into_def)
  have 1: "recent c j l' = filter (\<lambda>u. c < u) (into j ?h)" if "now - ?w \<le> c" for c j
    using recent_narrow [OF that, of j l'] l''(5) [of j] room that
    by (auto simp: before intro!: filter_cong)
  have 2: "int (length (in_window ?w v (into j ?h))) \<le> limit l" for v j
  proof (cases "j = ?k \<and> v - ?w < now \<and> now \<le> v")
    case True
    then have "in_window ?w v (into j h) = filter (\<lambda>u. v - ?w < u) (filter (\<lambda>u. now - ?w < u) (into j h))"
      using le admit.hyps(2) by (fastforce simp: in_window_def intro!: filter_cong)
    with length_filter_le [of "\<lambda>u. v - ?w < u" "filter (\<lambda>u. now - ?w < u) (into j h)"]
    have "length (in_window ?w v (into j h)) \<le> length (recent (now - ?w) j l)" by (simp add: before)
    with room True show ?thesis by simp
  next
    case False
    with inv show ?thesis by auto
  qed
  have 3: "\<forall>(u, k, b) \<in> set ?h. u \<le> now \<and> (b = k \<or> b = overflow_key)"
    using inv admit.hyps(2) choose_bucket_ok [OF ok, of "now - ?w" key] by fastforce
  show ?case using inv l''(1,2,3) 1 2 3 unfolding window_inv_def by simp
next
  case (refuse l t h now key n l')
  let ?w = "window_seconds l" and ?k = "fst (choose_bucket (now - window_seconds l) key l)"
  note inv = refuse.IH [unfolded window_inv_def]
  have ok: "limiter_ok t l" using inv by blast
  obtain l'' where l'': "limiter_ok now l''" "limit l'' = limit l" "window_seconds l'' = ?w"
    "allow now key l = (if limit l \<le> int (length (recent (now - ?w) ?k l))
       then (Inr (False, max 1 (trunc_rat (?w - (now - hd (recent (now - ?w) ?k l))) + 1)), l'')
       else (Inr (True, 0), l''))"
    "\<And>j. recent (now - ?w) j l'' = recent (now - ?w) j l @
       (if j = ?k \<and> int (length (recent (now - ?w) ?k l)) < limit l then [now] else [])"
    by (rule allow_spec [OF ok refuse.hyps(2), of key]) blast
  with refuse.hyps(3) have [simp]: "l'' = l'" and full: "limit l \<le> int (length (recent (now - ?w) ?k l))"
    by (auto split: if_splits)
  have "recent c j l' = filter (\<lambda>u. c < u) (into j h)" if "now - ?w \<le> c" for c j
    using recent_narrow [OF that, of j l'] recent_narrow [OF that, of j l] l''(5) [of j] full that inv refuse.hyps(2)
    by auto
  moreover have "\<forall>(u, k, b) \<in> set h. u \<le> now \<and> (b = k \<or> b = overflow_key)"
    using inv refuse.hyps(2) by fastforce
  moreover have "\<forall>v b. int (length (in_window ?w v (into b h))) \<le> limit l" using inv by blast
  ultimately show ?case using inv l''(1,2,3) unfolding window_inv_def by simp
qed

lemma per_key_split:
  "\<forall>(u, k, b) \<in> set h. b = k \<or> b = overflow_key \<Longrightarrow>
   length (in_window w v (map fst (filter (\<lambda>(_, k, _). k = key) h)))
     \<le> length (in_window w v (into key h)) + length (in_window w v (into overflow_key h))"
  by (induction h) (auto simp: split: prod.splits)

text \<open>
  C32. The rate limiter bounds every sliding window. Over any history of requests, at any
  times that do not decrease, the requests of a key that were admitted into the key's own
  bucket within any window are at most the limit, and all those admitted for the key, with
  the shared overflow bucket, at most twice the limit. Its memory is bounded too: no more
  buckets than configured, none longer than the limit.
\<close>

theorem rate_limit_sliding_window:
  assumes "new_rate_limiter maximum w cap = Inr l0" and "0 < maximum" and "0 < w"
    and "serves l0 l t h"
  shows "int (length (in_window w v (into key h))) \<le> maximum \<and>
    int (length (in_window w v (map fst (filter (\<lambda>(_, k, _). k = key) h)))) \<le> 2 * maximum \<and>
    int (length (buckets l)) \<le> cap \<and>
    (\<forall>(k, b) \<in> set (buckets l). int (length b) \<le> maximum)"
proof -
  have l0: "limit l0 = maximum" "window_seconds l0 = w" "max_buckets l0 = cap" "buckets l0 = [(overflow_key, [])]"
    using assms(1) by (auto simp: new_rate_limiter_def split: if_splits)
  have "window_inv l0 l t h"
    using serves_inv [OF assms(4) new_limiter_ok [OF assms(1-3)] l0(4)] .
  then have inv: "limiter_ok t l" "limit l = maximum" "window_seconds l = w"
    "\<forall>(u, k, b) \<in> set h. b = k \<or> b = overflow_key"
    "\<And>b. int (length (in_window w v (into b h))) \<le> maximum"
    by (auto simp: window_inv_def l0)
  have "max_buckets l = cap"
    using assms(4) l0(3) by (induction) (auto dest!: allow_params)
  with inv(1,2) inv(5) [of key] inv(5) [of overflow_key] per_key_split [OF inv(4), of w v key]
  show ?thesis by (auto simp: limiter_ok_def)
qed

text \<open>
  \<open>Retry-After\<close> is honest. A refused request is told to wait at least one second and at
  most one second more than the window; the same key is admitted if it comes back after that
  time and no other request came in between.
\<close>

theorem retry_after_suffices:
  assumes "new_rate_limiter maximum w cap = Inr l0" and "0 < maximum" and "0 < w"
    and "serves l0 l t h" and "t \<le> now" and refused: "allow now key l = (Inr (False, n), l')"
  shows "1 \<le> n \<and> of_int n \<le> w + 1 \<and> (\<exists>l''. allow (now + of_int n) key l' = (Inr (True, 0), l''))"
proof -
  have l0: "limit l0 = maximum" "window_seconds l0 = w" "buckets l0 = [(overflow_key, [])]"
    using assms(1) by (auto simp: new_rate_limiter_def split: if_splits)
  have "window_inv l0 l t h"
    using serves_inv [OF assms(4) new_limiter_ok [OF assms(1-3)] l0(3)] .
  then have l: "limiter_ok t l" "limit l = maximum" "window_seconds l = w"
    by (auto simp: window_inv_def l0)
  define k where "k = fst (choose_bucket (now - w) key l)"
  define r where "r = recent (now - w) k l"
  obtain m where m: "limiter_ok now m" "limit m = maximum" "window_seconds m = w"
    "allow now key l = (if maximum \<le> int (length r)
       then (Inr (False, max 1 (trunc_rat (w - (now - hd r)) + 1)), m) else (Inr (True, 0), m))"
    "maximum \<le> int (length r) \<Longrightarrow> has_key (buckets m) k"
    "\<And>j. recent (now - w) j m = recent (now - w) j l @ (if j = k \<and> int (length r) < maximum then [now] else [])"
    using allow_spec [OF l(1) assms(5), of key] unfolding l k_def [symmetric] r_def [symmetric] by metis
  with refused have [simp]: "m = l'" and full: "maximum \<le> int (length r)"
    and n: "n = max 1 (trunc_rat (w - (now - hd r)) + 1)"
    by (auto split: if_splits)
  have "r \<noteq> []" using full assms(2) by auto
  then have "hd r \<in> set r" by simp
  then have "now - w < hd r" and "hd r \<in> set (bucket k l)"
    by (simp_all add: r_def recent_def)
  moreover have "\<forall>u \<in> set (bucket k l). u \<le> t"
    using l(1) by (auto simp: limiter_ok_def bucket_def split: option.split)
  ultimately have hd: "now - w < hd r" "hd r \<le> now" using assms(5) by auto
  define x where "x = w - (now - hd r)"
  have "0 < x" "x \<le> w" using hd by (simp_all add: x_def)
  then have n_le: "of_int n \<le> w + 1" and n_ge: "x \<le> of_int n"
    using assms(3) n by (auto simp: x_def [symmetric] trunc_rat_def max_def) linarith+
  define u where "u = now + of_int n"
  have "now \<le> u" using n by (simp add: u_def)
  have narrow: "recent (u - w) j l' = filter (\<lambda>z. u - w < z) (recent (now - w) j l)" for j
    using recent_narrow [of "now - w" "u - w" j l'] \<open>now \<le> u\<close> m(6) [of j] full by simp
  define k' where "k' = fst (choose_bucket (u - w) key l')"
  have "int (length (recent (u - w) k' l')) < maximum"
  proof (cases "k' = k")
    case True
    have "\<not> u - w < hd r" using n_ge by (simp add: u_def x_def)
    then have "filter (\<lambda>z. u - w < z) r = filter (\<lambda>z. u - w < z) (tl r)"
      using \<open>r \<noteq> []\<close> by (cases r) auto
    moreover have "int (length r) \<le> maximum"
      using length_bucket [OF l(1), of k] length_filter_le [of "\<lambda>z. now - w < z" "bucket k l"] l(2)
      unfolding r_def recent_def by linarith
    ultimately show ?thesis
      using narrow [of k] True length_filter_le [of "\<lambda>z. u - w < z" "tl r"] \<open>r \<noteq> []\<close> assms(2)
      by (simp add: r_def [symmetric] del: length_filter_le)
  next
    case False
    have "k = key \<or> k = overflow_key" "k' = key \<or> k' = overflow_key"
      using choose_bucket_ok [OF l(1)] choose_bucket_ok [of now l'] m(1) by (auto simp: k_def k'_def)
    moreover have "k = key \<Longrightarrow> k' = key"
      using m(5) [OF full] by (simp add: k'_def choose_bucket_def)
    ultimately have "k' = key" "k \<noteq> key" using False by auto
    then have "\<not> has_key (buckets l) key" by (auto simp: k_def choose_bucket_def)
    then have "recent (now - w) k' l = []"
      using \<open>k' = key\<close> by (simp add: recent_def bucket_def has_key_def)
    with narrow assms(2) show ?thesis by simp
  qed
  with allow_spec [of now l' u key] m(1-3) \<open>now \<le> u\<close>
  have "\<exists>l''. allow u key l' = (Inr (True, 0), l'')"
    by (metis \<open>m = l'\<close> k'_def not_less)
  with n n_le show ?thesis by (simp add: u_def)
qed


section \<open>Open streams\<close>

text \<open>
  The abstract view of the stream caps: the multiset of open streams, one entry for each with
  its tenant. A stream is closed only if it is open (the \<open>finally\<close> of the event stream in
  app.py). The other metrics operations may run in between.
\<close>

inductive streams :: "int \<Rightarrow> int \<Rightarrow> metrics \<Rightarrow> string option multiset \<Rightarrow> bool" for maximum n where
  start: "streams maximum n new_metrics {#}"
| opened: "streams maximum n m held \<Longrightarrow> enter_stream maximum t (Some n) m = (Inr True, m') \<Longrightarrow>
    streams maximum n m' (add_mset t held)"
| turned_away: "streams maximum n m held \<Longrightarrow> enter_stream maximum t (Some n) m = (Inr False, m') \<Longrightarrow>
    streams maximum n m' held"
| closed: "streams maximum n m (add_mset t held) \<Longrightarrow> streams maximum n (post (leave_stream t) m) held"
| request: "streams maximum n m held \<Longrightarrow>
    m' \<in> {post (enter k) m, post leave m, post rate_limited m, post (observe a b c d) m} \<Longrightarrow>
    streams maximum n m' held"

inductive_cases streams_elim: "streams maximum n m held"

definition counted :: "nat \<Rightarrow> int option" where
  "counted k = (if k = 0 then None else Some (int k))"

definition stream_view :: "metrics \<Rightarrow> string option multiset \<Rightarrow> bool" where
  "stream_view m held \<longleftrightarrow> m_active_streams m = int (size held) \<and>
     (\<forall>t. map_of (m_active_streams_by_tenant m) t = counted (count held (Some t)))"

lemma tenant_streams_view: "stream_view m held \<Longrightarrow> tenant_streams m t = int (count held (Some t))"
  by (simp add: stream_view_def tenant_streams_def counted_def)

lemma request_streams:
  "m' \<in> {post (enter k) m, post leave m, post rate_limited m, post (observe a b c d) m} \<Longrightarrow>
   m_active_streams m' = m_active_streams m \<and> m_active_streams_by_tenant m' = m_active_streams_by_tenant m"
  by (auto simp: enter_def leave_def rate_limited_def observe_def Let_def)

lemma stream_view_opened:
  assumes "stream_view m held" and "enter_stream maximum t q m = (Inr True, m')"
  shows "stream_view m' (add_mset t held)"
proof (cases t)
  case None
  with assms show ?thesis
    by (auto simp: enter_stream_def stream_view_def Let_def split: if_splits)
next
  case (Some u)
  then have "m' = m\<lparr>m_active_streams := m_active_streams m + 1, m_active_streams_by_tenant :=
      dput u (tenant_streams m u + 1) (m_active_streams_by_tenant m)\<rparr>"
    using assms(2) by (auto simp: enter_stream_def Let_def split: if_splits)
  with assms(1) Some tenant_streams_view [OF assms(1), of u] show ?thesis
    by (simp add: stream_view_def counted_def [of "Suc _"])
qed

lemma stream_view_closed:
  assumes "stream_view m (add_mset t held)"
  shows "stream_view (post (leave_stream t) m) held"
proof (cases t)
  case None
  with assms show ?thesis by (simp add: leave_stream_def stream_view_def Let_def)
next
  case (Some u)
  have "tenant_streams (m\<lparr>m_active_streams := k\<rparr>) u = int (count held (Some u)) + 1" for k
    using tenant_streams_view [OF assms, of u] Some by (simp add: tenant_streams_def)
  with assms Some show ?thesis
    by (auto simp: leave_stream_def stream_view_def Let_def counted_def count_eq_zero_iff)
qed

lemma stream_view: "streams maximum n m held \<Longrightarrow> stream_view m held"
proof (induction rule: streams.induct)
  case start
  show ?case by (simp add: stream_view_def new_metrics_def counted_def)
next
  case (turned_away m held t m')
  then show ?case
    by (auto simp: enter_stream_def stream_view_def Let_def split: if_splits option.splits)
next
  case (request m held m' k a b c d)
  from request_streams [OF request.hyps(2)] request.IH show ?case by (simp add: stream_view_def)
qed (auto intro: stream_view_opened stream_view_closed)

text \<open>
  The stream counters implement the multiset of open streams. In every reachable state
  the total is the number of open streams and each tenant's counter its number of them
  (absent at zero); a new stream is admitted exactly if fewer than the maximum are open and
  the tenant holds fewer than its share, so both caps always hold.
\<close>

theorem stream_caps_refine_open_streams:
  assumes "streams maximum n m held" and "0 \<le> maximum" and "0 \<le> n"
  shows "m_active_streams m = int (size held) \<and>
    (\<forall>t. map_of (m_active_streams_by_tenant m) t =
      counted (count held (Some t))) \<and>
    (\<forall>t. fst (enter_stream maximum (Some t) (Some n) m) =
      Inr (int (size held) < maximum \<and> int (count held (Some t)) < n)) \<and>
    int (size held) \<le> maximum \<and> (\<forall>t. int (count held (Some t)) \<le> n)"
proof -
  have view: "stream_view m held" by (rule stream_view [OF assms(1)])
  have "int (size held) \<le> maximum \<and> (\<forall>t. int (count held (Some t)) \<le> n)"
    using assms
  proof (induction rule: streams.induct)
    case (opened m held t m')
    have "int (size held) < maximum" and "\<And>u. t = Some u \<Longrightarrow> int (count held (Some u)) < n"
      using opened.hyps(2) stream_view [OF opened.hyps(1)] tenant_streams_view [OF stream_view [OF opened.hyps(1)]]
      by (auto simp: enter_stream_def stream_view_def Let_def split: if_splits)
    with opened show ?case by auto
  next
    case (closed m t held)
    then have "int (size held) + 1 \<le> maximum" and "int (count (add_mset t held) (Some u)) \<le> n" for u by auto
    then show ?case by (smt (verit) count_add_mset of_nat_Suc)
  qed auto
  moreover have "fst (enter_stream maximum (Some t) (Some n) m) =
      Inr (int (size held) < maximum \<and> int (count held (Some t)) < n)" for t
    using view tenant_streams_view [OF view, of t] by (auto simp: enter_stream_def stream_view_def Let_def)
  ultimately show ?thesis using view by (simp add: stream_view_def)
qed

section \<open>The middleware\<close>

lemma seq_postI:
  assumes "\<And>e t. m s = (Inl e, t) \<Longrightarrow> P t" and "\<And>x t. m s = (Inr x, t) \<Longrightarrow> P (post (f x) t)"
  shows "P (post (seq m f) s)"
  using assms by (auto simp: seq_def split: prod.split sum.split)

definition active :: "'a service \<Rightarrow> int" where
  "active s = m_active (sv_metrics s)"

lemma active_finalize [simp]:
  "active (post (finalize settings digest rq rs d k r) s) = active s"
  "\<exists>x. fst (finalize settings digest rq rs d k r s) = Inr x"
  by (auto simp: finalize_def of_metrics_def observe_def active_def py_run Let_def)

lemma active_rate_limited [simp]: "of_metrics rate_limited s = (Inr (), s') \<Longrightarrow> active s' = active s"
  by (auto simp: of_metrics_def rate_limited_def active_def)

lemma active_limiters [simp]:
  "of_metrics (enter n) s = (Inr b, s') \<Longrightarrow> active s' = (if b then active s + 1 else active s)"
  "of_metrics (enter n) s \<noteq> (Inl e, s')" "of_metrics rate_limited s \<noteq> (Inl e, s')"
  "allow_client t k s = (x, s') \<Longrightarrow> active s' = active s"
  "allow_credential t k s = (x, s') \<Longrightarrow> active s' = active s"
  by (auto simp: allow_client_def allow_credential_def active_def of_metrics_def enter_def
      rate_limited_def split: prod.splits if_splits)

text \<open>
  The middleware gives back the slot it takes. If the rest of the application leaves the
  number of active requests as it found it, so does the middleware, on every path: refused by
  either limiter, turned away for capacity, answered, or failed with an exception.
\<close>

theorem request_slot_released:
  assumes "\<And>rq s. active (snd (snd (call_next rq s))) = active s" and "0 \<le> active s"
  shows "active (post (harden_request settings digest corr t call_next rq) s) = active s"
proof -
  let ?P = "\<lambda>u. active u = active s"
  note I = seq_postI [where P = ?P]
  have leave: "active (post (of_metrics leave) u) = max 0 (active u - 1)" for u :: "'a service"
    by (simp add: of_metrics_def leave_def active_def)
  have inner: "call_next q u = (x, q', u') \<Longrightarrow> active u' = active u" for q u x q' u'
    using assms(1) [of q u] by simp
  show ?thesis
    unfolding harden_request_def Let_def
    using assms(2)
    by (auto intro!: I simp: leave inner split: prod.split)
qed

end
