(* ===== verification/Webhooks.thy ===== *)
theory Webhooks
  imports Store_Events Py_Base64 Py_Json "HOL-Library.Product_Lexorder"
begin

text \<open>
  The webhook dispatcher (webhooks.py) over the store's outbox: the settings, the check of a
  destination, the stage callback of an event, the choice of the next delivery, and one
  delivery with its retries. Registering, enabling and redelivering are routes of app.py.

  Outside the service are: the network (\<open>addresses_of\<close> is the resolver, \<open>http\<close> the request
  itself, during which other operations may change the store), URL parsing, the table of
  global addresses, the pydantic model of a callback (\<open>validate\<close>), \<open>json.dumps\<close>, HMAC, the
  text of an exception and of a time. They are the fields of \<open>web_env\<close>. A clock is the sequence
  of its readings, in the order in which the code takes them.
\<close>

section \<open>Addresses and settings\<close>

datatype address = Address nat nat

datatype network = Network nat nat nat

fun address_bits :: "nat \<Rightarrow> nat" where
  "address_bits version = (if version = 4 then 32 else 128)"

text \<open>\<open>address in network\<close>: the same version and the same leading bits.\<close>

fun in_network :: "address \<Rightarrow> network \<Rightarrow> bool" where
  "in_network (Address v a) (Network w n prefix) =
     (v = w \<and> a div 2 ^ (address_bits v - prefix) = n div 2 ^ (address_bits v - prefix))"

fun address_key :: "address \<Rightarrow> nat \<times> nat" where
  "address_key (Address v a) = (v, a)"

record webhook_settings =
  ws_enabled :: bool
  ws_require_https :: bool
  ws_allowed_cidrs :: "network list"
  ws_timeout_seconds :: rat
  ws_max_attempts :: int
  ws_max_age_hours :: int
  ws_redelivery_retention_days :: int
  ws_response_limit_bytes :: int
  ws_poll_interval_seconds :: rat

definition checked_settings :: "webhook_settings \<Rightarrow> exn + webhook_settings" where
  "checked_settings ws =
     (if 1 \<le> ws_redelivery_retention_days ws \<and> ws_redelivery_retention_days ws \<le> 3650 then Inr ws
      else Inl (ValueError ''Webhook redelivery retention must be between 1 and 3650 days.''))"

definition env_or :: "(string \<times> string) list \<Rightarrow> string \<Rightarrow> string \<Rightarrow> string" where
  "env_or source name dflt = (case map_of source name of Some s \<Rightarrow> s | None \<Rightarrow> dflt)"

definition need :: "string \<Rightarrow> 'a option \<Rightarrow> exn + 'a" where
  "need message v = (case v of None \<Rightarrow> Inl (ValueError message) | Some x \<Rightarrow> Inr x)"

fun need_all :: "string \<Rightarrow> 'a option list \<Rightarrow> exn + 'a list" where
  "need_all message [] = Inr []"
| "need_all message (v # vs) = exn_bind (need message v) (\<lambda>x. exn_bind (need_all message vs) (\<lambda>xs. Inr (x # xs)))"

definition webhook_settings_from_env ::
  "(string \<Rightarrow> network option) \<Rightarrow> (string \<Rightarrow> rat option) \<Rightarrow> (string \<times> string) list \<Rightarrow> exn + webhook_settings" where
  "webhook_settings_from_env parse_network parse_float source =
     (let mode = py_lower (py_strip (env_or source ''AUTOML_WEBHOOK_DISPATCH_MODE'' []));
          https = py_lower (py_strip (env_or source ''AUTOML_WEBHOOK_REQUIRE_HTTPS'' ''true''));
          items = filter (\<lambda>w. w \<noteq> []) (map py_strip
                    (py_split (CHR '','') (env_or source ''AUTOML_WEBHOOK_ALLOWED_CIDRS'' [])))
      in exn_bind (need_all ''invalid network'' (map parse_network items)) (\<lambda>networks.
         exn_bind (need ''could not convert string to float''
                    (parse_float (env_or source ''AUTOML_WEBHOOK_TIMEOUT_SECONDS'' ''10''))) (\<lambda>timeout.
         exn_bind (need ''invalid literal for int()''
                    (parse_int (env_or source ''AUTOML_WEBHOOK_MAX_ATTEMPTS'' ''12''))) (\<lambda>attempts.
         exn_bind (need ''invalid literal for int()''
                    (parse_int (env_or source ''AUTOML_WEBHOOK_REDELIVERY_RETENTION_DAYS'' ''30''))) (\<lambda>days.
           checked_settings
             \<lparr>ws_enabled = mode \<in> {''builtin'', ''http''},
              ws_require_https = https \<notin> {''0'', ''false'', ''no'', ''off''},
              ws_allowed_cidrs = networks, ws_timeout_seconds = timeout, ws_max_attempts = attempts,
              ws_max_age_hours = 72, ws_redelivery_retention_days = days,
              ws_response_limit_bytes = 65536, ws_poll_interval_seconds = 1/2\<rparr>)))))"

section \<open>The environment\<close>

record url_parts =
  url_scheme :: string
  url_hostname :: "string option"
  url_username :: "string option"
  url_password :: "string option"
  url_fragment :: string
  url_port :: "exn + int option"

text \<open>How a request ends: with a status, with an exception, or cancelled.\<close>

datatype http_end = Status int | HttpRaises exn | HttpCancelled

record web_env =
  iso :: "rat \<Rightarrow> string"
  validate :: "jdict \<Rightarrow> exn + jdict"
  dumps :: "json \<Rightarrow> string"
  hmac_hex :: "string \<Rightarrow> string \<Rightarrow> string"
  urlsplit :: "string \<Rightarrow> url_parts"
  ip_literal :: "string \<Rightarrow> address option"
  is_global :: "address \<Rightarrow> bool"
  exn_text :: "exn \<Rightarrow> string"
  exn_name :: "exn \<Rightarrow> string"

section \<open>Destinations\<close>

definition allowed_schemes :: "bool \<Rightarrow> string list" where
  "allowed_schemes require_https = (if require_https then [''https''] else [''http'', ''https''])"

definition lacks_host :: "url_parts \<Rightarrow> bool" where
  "lacks_host u \<longleftrightarrow> url_hostname u = None \<or> url_hostname u = Some [] \<or> url_username u \<noteq> None \<or> url_password u \<noteq> None"

definition validate_webhook_registration_url ::
  "web_env \<Rightarrow> (exn + webhook_settings) \<Rightarrow> bool \<Rightarrow> string \<Rightarrow> exn + unit" where
  "validate_webhook_registration_url we from_env require_https url =
     (let u = urlsplit we url
      in if py_lower (url_scheme u) \<notin> set (allowed_schemes require_https)
         then Inl (ValueError ''Webhook URL must use HTTPS in this service profile.'')
         else if lacks_host u
         then Inl (ValueError ''Webhook URL must have a host and cannot contain user information.'')
         else if url_fragment u \<noteq> [] then Inl (ValueError ''Webhook URL cannot contain a fragment.'')
         else case ip_literal we (case url_hostname u of Some h \<Rightarrow> h | None \<Rightarrow> []) of
                None \<Rightarrow> Inr ()
              | Some literal \<Rightarrow>
                  exn_bind from_env (\<lambda>ws.
                    if \<not> is_global we literal \<and> \<not> list_ex (in_network literal) (ws_allowed_cidrs ws)
                    then Inl (ValueError ''Webhook URL uses a non-public IP; configure AUTOML_WEBHOOK_ALLOWED_CIDRS first.'')
                    else Inr ()))"

text \<open>
  The addresses are what the resolver returned within the timeout. The result is the address
  that the request is sent to.
\<close>

definition blocked :: "web_env \<Rightarrow> webhook_settings \<Rightarrow> address \<Rightarrow> bool" where
  "blocked we ws a \<longleftrightarrow> \<not> list_ex (in_network a) (ws_allowed_cidrs ws) \<and> \<not> is_global we a"

definition select_address :: "web_env \<Rightarrow> webhook_settings \<Rightarrow> address list \<Rightarrow> exn + address" where
  "select_address we ws addresses =
     (if addresses = [] then Inl (ValueError ''WEBHOOK_DNS_EMPTY'')
      else if list_ex (blocked we ws) addresses then Inl (ValueError ''WEBHOOK_DESTINATION_BLOCKED'')
      else Inr (hd (sort_key address_key addresses)))"

definition validate_delivery_destination ::
  "web_env \<Rightarrow> (string \<Rightarrow> int \<Rightarrow> exn + address list) \<Rightarrow> webhook_settings \<Rightarrow> string \<Rightarrow> exn + address" where
  "validate_delivery_destination we addresses_of ws url =
     (let u = urlsplit we url; scheme = py_lower (url_scheme u)
      in if scheme \<notin> set (allowed_schemes (ws_require_https ws)) then Inl (ValueError ''WEBHOOK_SCHEME_NOT_ALLOWED'')
         else if lacks_host u then Inl (ValueError ''WEBHOOK_AUTHORITY_INVALID'')
         else if url_fragment u \<noteq> [] then Inl (ValueError ''WEBHOOK_FRAGMENT_NOT_ALLOWED'')
         else exn_bind (url_port u) (\<lambda>port.
              let p = (case port of Some n \<Rightarrow> if n \<noteq> 0 then n else (if scheme = ''https'' then 443 else 80)
                       | None \<Rightarrow> if scheme = ''https'' then 443 else 80)
              in exn_bind (case addresses_of (case url_hostname u of Some h \<Rightarrow> h | None \<Rightarrow> []) p of
                             Inl (TimeoutErr _) \<Rightarrow> Inl (TimeoutErr ''WEBHOOK_DNS_TIMEOUT'') | r \<Rightarrow> r)
                   (select_address we ws)))"

section \<open>The stage callback of an event\<close>

definition callback_stage_names :: "(string \<times> string) list" where
  "callback_stage_names =
     [(''INGEST'', ''data_read''), (''PROFILE'', ''data_analysis''), (''PLAN'', ''task_recognition''),
      (''TRAIN'', ''model_training''), (''EVALUATE'', ''model_evaluation''), (''PACKAGE'', ''result_package'')]"

definition callback_reason :: "py_env \<Rightarrow> json \<Rightarrow> string option" where
  "callback_reason env v =
     (if v = JNull then None
      else let normalized = py_lower (py_strip (py_str env v))
           in if normalized = [] then None else Some normalized)"

definition json_of_option :: "string option \<Rightarrow> json" where
  "json_of_option s = (case s of None \<Rightarrow> JNull | Some t \<Rightarrow> JStr t)"

text \<open>The state, the reason, whether a next stage follows, and its phase.\<close>

definition callback_outcome ::
  "py_env \<Rightarrow> string \<Rightarrow> jdict \<Rightarrow> (string \<times> string option \<times> bool \<times> string option) option" where
  "callback_outcome env event_type payload =
     (if event_type = ''run.stage_completed.v1'' then
        let raw = dget payload ''next_phase'';
            next_phase = (if raw = JNull then None else Some (py_str env raw));
            readiness = dget payload ''next_stage_ready'';
            next_stage = (if readiness = JNull then next_phase \<noteq> None else py_truthy readiness);
            reason = callback_reason env (dget payload ''reason'')
        in Some (''success'',
                 (if \<not> next_stage \<and> reason = None
                  then Some (if next_phase = None then ''workflow_completed'' else ''next_stage_blocked'')
                  else reason), next_stage, next_phase)
      else if event_type = ''run.failed.v1'' then
        Some (''failed'', Some (case callback_reason env (dget payload ''failure_code'') of
                                  Some r \<Rightarrow> r | None \<Rightarrow> ''stage_failed''), False, None)
      else if event_type = ''run.canceled.v1'' then Some (''canceled'', Some ''user_canceled'', False, None)
      else None)"

fun items_of :: "jdict \<Rightarrow> string list \<Rightarrow> exn + json list" where
  "items_of d [] = Inr []"
| "items_of d (k # ks) =
     (case map_of d k of None \<Rightarrow> Inl (KeyError k)
      | Some v \<Rightarrow> exn_bind (items_of d ks) (\<lambda>vs. Inr (v # vs)))"

definition stage_callback_for_event ::
  "web_env \<Rightarrow> py_env \<Rightarrow> jdict \<Rightarrow> string option \<Rightarrow> exn + jdict option" where
  "stage_callback_for_event we env event fallback_phase =
     (let event_type = (if py_truthy (dget event ''type'') then py_str env (dget event ''type'') else [])
      in case dget event ''payload'' of
           JObj payload \<Rightarrow>
             (let phase = (if py_truthy (dget payload ''phase'') then py_str env (dget payload ''phase'')
                           else case fallback_phase of Some p \<Rightarrow> p | None \<Rightarrow> [])
              in case map_of callback_stage_names phase of
                   None \<Rightarrow> Inr None
                 | Some stage \<Rightarrow>
                     (case callback_outcome env event_type payload of
                        None \<Rightarrow> Inr None
                      | Some (states, reason, next_stage, next_phase) \<Rightarrow>
                          exn_bind (items_of event [''run_id'', ''event_id'', ''seq'', ''occurred_at'']) (\<lambda>vs.
                          exn_bind (validate we
                            [(''schema_version'', JStr ''1.0''), (''toolname'', JStr ''automl''),
                             (''run_id'', vs ! 0), (''event_id'', vs ! 1), (''seq'', vs ! 2),
                             (''occurred_at'', vs ! 3), (''stage'', JStr stage), (''states'', JStr states),
                             (''next_stage'', JBool next_stage),
                             (''next_stage_name'', json_of_option
                                (map_of callback_stage_names (case next_phase of Some p \<Rightarrow> p | None \<Rightarrow> []))),
                             (''reason'', json_of_option reason)]) (\<lambda>d. Inr (Some d)))))
         | _ \<Rightarrow> Inr None)"

section \<open>Choosing the next delivery\<close>

definition unfinished :: "jdict \<Rightarrow> exn + bool" where
  "unfinished d = in_set (dget d ''status'') [JStr ''PENDING'', JStr ''DELIVERING'', JStr ''RETRYING'']"

definition run_of :: "py_env \<Rightarrow> jdict \<Rightarrow> exn + string" where
  "run_of env d = (case map_of d ''run_id'' of None \<Rightarrow> Inl (KeyError ''run_id'') | Some v \<Rightarrow> Inr (py_str env v))"

definition due_at :: "string \<Rightarrow> jdict \<Rightarrow> bool" where
  "due_at now d = (case dget d ''next_attempt_at'' of JStr t \<Rightarrow> \<not> now < t | _ \<Rightarrow> True)"

text \<open>The inner loop with its set \<open>blocked_runs\<close>: at most the head of each run may go.\<close>

fun next_delivery :: "py_env \<Rightarrow> string \<Rightarrow> string list \<Rightarrow> jdict list \<Rightarrow> exn + jdict option" where
  "next_delivery env now blocked_runs [] = Inr None"
| "next_delivery env now blocked_runs (d # ds) =
     exn_bind (run_of env d) (\<lambda>run_id.
     exn_bind (unfinished d) (\<lambda>pending.
       if \<not> pending then next_delivery env now blocked_runs ds
       else if run_id \<in> set blocked_runs then next_delivery env now blocked_runs ds
       else if dget d ''status'' = JStr ''DELIVERING'' then next_delivery env now (run_id # blocked_runs) ds
       else if \<not> due_at now d then next_delivery env now (run_id # blocked_runs) ds
       else Inr (Some d)))"

definition delivery_key :: "py_env \<Rightarrow> jdict \<Rightarrow> string \<times> string" where
  "delivery_key env d = (py_str env (dget d ''created_at''), py_str env (dget d ''delivery_id''))"

section \<open>One delivery\<close>

definition delivery_problem :: "py_env \<Rightarrow> jdict \<Rightarrow> string \<Rightarrow> string \<Rightarrow> jdict" where
  "delivery_problem env delivery code detail =
     [(''type'', JStr ''about:blank''), (''title'', JStr ''Webhook delivery failed''), (''status'', JInt 502),
      (''code'', JStr code), (''detail'', JStr (take 500 detail)), (''retriable'', JBool True),
      (''correlation_id'', JStr (py_str env (dget delivery ''delivery_id''))),
      (''run_id'', dget delivery ''run_id''), (''errors'', JArr [])]"

definition problem_code :: "web_env \<Rightarrow> exn \<Rightarrow> string" where
  "problem_code we e =
     (if starts_with (exn_text we e) ''CALLBACK_'' \<or> starts_with (exn_text we e) ''WEBHOOK_''
      then exn_text we e else exn_name we e)"

definition response_status :: "exn \<Rightarrow> json" where
  "response_status e = (case e of WebhookHTTP n \<Rightarrow> JInt n | _ \<Rightarrow> JNull)"

text \<open>\<open>2.0 ** k\<close> overflows from \<open>k = 1024\<close> on; \<open>jitter\<close> is \<open>random.uniform(0.0, cap)\<close>.\<close>

definition delay_cap :: "int \<Rightarrow> exn + rat" where
  "delay_cap attempt =
     (let k = nat (max (attempt - 1) 0)
      in if 1024 \<le> k then Inl OverflowErr else Inr (min 21600 (5 * 2 ^ k)))"

definition int_or_0 :: "json \<Rightarrow> exn + int" where
  "int_or_0 v = py_int (py_or v (JInt 0))"

definition retry_or_exhaust ::
  "web_env \<Rightarrow> py_env \<Rightarrow> webhook_settings \<Rightarrow> (nat \<Rightarrow> rat) \<Rightarrow> (rat \<Rightarrow> rat) \<Rightarrow> string \<Rightarrow> jdict \<Rightarrow> exn
     \<Rightarrow> (store, unit) py" where
  "retry_or_exhaust we env ws clk jitter endpoint_id delivery e =
     (let delivery_id = py_str env (dget delivery ''delivery_id'') in
      seq (lift (int_or_0 (dget delivery ''attempt_count''))) (\<lambda>attempt.
      let first_attempt = (if py_truthy (dget delivery ''first_attempt_at'')
                           then py_str env (dget delivery ''first_attempt_at'') else iso we (clk 0));
          age_deadline = iso we (clk 1 - of_int (ws_max_age_hours ws) * 3600);
          problem = JObj (delivery_problem env delivery (problem_code we e) (exn_text we e))
      in if attempt \<ge> ws_max_attempts ws \<or> first_attempt < age_deadline
         then seq (update_webhook_delivery endpoint_id delivery_id
                [(''status'', JStr ''EXHAUSTED''), (''next_attempt_at'', JNull), (''last_problem'', problem),
                 (''last_response_status'', response_status e), (''exhausted_at'', JStr (iso we (clk 2))),
                 (''redeliver_until'',
                   JStr (iso we (clk 2 + of_int (ws_redelivery_retention_days ws) * 86400)))]) (\<lambda>_.
              seq (update_webhook_endpoint endpoint_id
                [(''status'', JStr ''PAUSED_DELIVERY_FAILURES''),
                 (''status_reason'', JStr ''DELIVERY_RETRIES_EXHAUSTED''), (''paused_at'', JStr (iso we (clk 3)))])
                (\<lambda>_. ret ()))
         else seq (lift (delay_cap attempt)) (\<lambda>cap.
              seq (update_webhook_delivery endpoint_id delivery_id
                [(''status'', JStr ''RETRYING''), (''next_attempt_at'', JStr (iso we (clk 2 + jitter cap))),
                 (''last_problem'', problem), (''last_response_status'', response_status e)]) (\<lambda>_. ret ()))))"

definition event_for_delivery :: "py_env \<Rightarrow> jdict \<Rightarrow> (store, jdict) py" where
  "event_for_delivery env delivery =
     seq (get_events (py_str env (dget delivery ''run_id'')) 0 None None) (\<lambda>events.
       case find (\<lambda>e. py_eq (dget e ''event_id'') (dget delivery ''event_id'')) events of
         None \<Rightarrow> raise (RuntimeErr ''WEBHOOK_EVENT_NOT_FOUND'')
       | Some e \<Rightarrow> ret e)"

text \<open>The signed request that is sent: address, body, timestamp and signature.\<close>

record signed_request =
  sr_address :: address
  sr_content :: string
  sr_timestamp :: string
  sr_signature :: string

definition sign_request ::
  "web_env \<Rightarrow> (string \<Rightarrow> int \<Rightarrow> exn + address list) \<Rightarrow> webhook_settings \<Rightarrow> int \<Rightarrow> string \<Rightarrow> string option \<Rightarrow> jdict
     \<Rightarrow> exn + signed_request" where
  "sign_request we addresses_of ws now secret url envelope =
     (let content = dumps we (canon (JObj envelope)); timestamp = int_str now
      in case b64_decode False (b64_pad secret) of
           None \<Rightarrow> Inl (ValueError ''Incorrect padding'')
         | Some key \<Rightarrow>
             exn_bind (case url of None \<Rightarrow> Inl (KeyError ''url'') | Some u \<Rightarrow>
                         validate_delivery_destination we addresses_of ws u) (\<lambda>a.
               Inr \<lparr>sr_address = a, sr_content = content, sr_timestamp = timestamp,
                    sr_signature = hmac_hex we key (timestamp @ ''.'' @ content)\<rparr>))"

definition prepare_callback ::
  "web_env \<Rightarrow> py_env \<Rightarrow> (string \<Rightarrow> int \<Rightarrow> exn + address list) \<Rightarrow> webhook_settings \<Rightarrow> int \<Rightarrow> jdict \<Rightarrow> jdict
     \<Rightarrow> int \<Rightarrow> (store, signed_request) py" where
  "prepare_callback we env addresses_of ws now endpoint delivery attempt =
     seq (event_for_delivery env delivery) (\<lambda>event.
     seq (get_run (py_str env (dget delivery ''run_id''))) (\<lambda>run.
     seq (lift (stage_callback_for_event we env event
                 (map_option (\<lambda>r. py_str env (dget r ''phase'')) run))) (\<lambda>callback.
     let envelope =
           [(''delivery_id'', dget delivery ''delivery_id''),
            (''webhook_endpoint_id'', dget endpoint ''webhook_endpoint_id''),
            (''attempt'', JInt attempt), (''event'', JObj event)]
           @ (case callback of None \<Rightarrow> [] | Some c \<Rightarrow> [(''callback'', JObj c)])
     in lift (case map_of endpoint ''signing_secret'' of
          None \<Rightarrow> Inl (KeyError ''signing_secret'')
        | Some secret \<Rightarrow>
            sign_request we addresses_of ws now (py_str env secret)
              (map_option (py_str env) (map_of endpoint ''url'')) envelope))))"

text \<open>
  \<open>_deliver\<close>: the delivery is marked, the request prepared and sent, and the outcome stored.
  \<open>http\<close> is the request; while it is under way the store may change.
\<close>

definition deliver ::
  "web_env \<Rightarrow> py_env \<Rightarrow> (string \<Rightarrow> int \<Rightarrow> exn + address list) \<Rightarrow> (signed_request \<Rightarrow> store \<Rightarrow> http_end \<times> store)
     \<Rightarrow> webhook_settings \<Rightarrow> (nat \<Rightarrow> rat) \<Rightarrow> (rat \<Rightarrow> rat) \<Rightarrow> jdict \<Rightarrow> jdict \<Rightarrow> (store, unit) py" where
  "deliver we env addresses_of http ws clk jitter endpoint delivery =
     (let endpoint_id = py_str env (dget endpoint ''webhook_endpoint_id'');
          delivery_id = py_str env (dget delivery ''delivery_id'') in
      seq (lift (int_or_0 (dget delivery ''attempt_count''))) (\<lambda>count.
      let first = (if py_truthy (dget delivery ''first_attempt_at'') then dget delivery ''first_attempt_at''
                   else JStr (iso we (clk 0))) in
      seq (update_webhook_delivery endpoint_id delivery_id
             [(''status'', JStr ''DELIVERING''), (''attempt_count'', JInt (count + 1)),
              (''first_attempt_at'', first), (''next_attempt_at'', JNull)]) (\<lambda>marked s.
        let failed = (\<lambda>e. retry_or_exhaust we env ws (\<lambda>n. clk (n + 2)) jitter endpoint_id marked e)
        in case prepare_callback we env addresses_of ws \<lfloor>clk 1\<rfloor> endpoint marked (count + 1) s of
             (Inl e, t) \<Rightarrow> failed e t
           | (Inr request, t) \<Rightarrow>
               (case http request t of
                  (Status n, u) \<Rightarrow>
                    if 200 \<le> n \<and> n < 300
                    then (case update_webhook_delivery endpoint_id delivery_id
                            [(''status'', JStr ''SUCCEEDED''), (''last_response_status'', JInt n),
                             (''last_problem'', JNull), (''delivered_at'', JStr (iso we (clk 2))),
                             (''next_attempt_at'', JNull)] u of
                            (Inr _, v) \<Rightarrow> (Inr (), v)
                          | (Inl e, v) \<Rightarrow> failed e v)
                    else failed (WebhookHTTP n) u
                | (HttpRaises e, u) \<Rightarrow> failed e u
                | (HttpCancelled, u) \<Rightarrow>
                    seq (update_webhook_delivery endpoint_id delivery_id
                      [(''status'', JStr ''RETRYING''), (''next_attempt_at'', JStr (iso we (clk 2)))])
                      (\<lambda>_. raise CancelledErr) u))))"

section \<open>The dispatcher\<close>

definition dispatch_from ::
  "web_env \<Rightarrow> py_env \<Rightarrow> (string \<Rightarrow> int \<Rightarrow> exn + address list) \<Rightarrow> (signed_request \<Rightarrow> store \<Rightarrow> http_end \<times> store)
     \<Rightarrow> webhook_settings \<Rightarrow> (nat \<Rightarrow> rat) \<Rightarrow> (rat \<Rightarrow> rat) \<Rightarrow> string \<Rightarrow> jdict \<Rightarrow> (store, bool) py" where
  "dispatch_from we env addresses_of http ws clk jitter now endpoint =
     (if dget endpoint ''status'' \<noteq> JStr ''ACTIVE'' then ret False
      else seq (list_webhook_deliveries (py_str env (dget endpoint ''webhook_endpoint_id''))) (\<lambda>ds.
           seq (lift (next_delivery env now [] (sort_key (delivery_key env) ds))) (\<lambda>chosen.
             case chosen of
               None \<Rightarrow> ret False
             | Some d \<Rightarrow> seq (deliver we env addresses_of http ws clk jitter endpoint d) (\<lambda>_. ret True))))"

fun first_true :: "('a \<Rightarrow> ('s, bool) py) \<Rightarrow> 'a list \<Rightarrow> ('s, bool) py" where
  "first_true f [] = ret False"
| "first_true f (x # xs) = seq (f x) (\<lambda>b. if b then ret True else first_true f xs)"

definition dispatch_one ::
  "web_env \<Rightarrow> py_env \<Rightarrow> (string \<Rightarrow> int \<Rightarrow> exn + address list) \<Rightarrow> (signed_request \<Rightarrow> store \<Rightarrow> http_end \<times> store)
     \<Rightarrow> webhook_settings \<Rightarrow> (nat \<Rightarrow> rat) \<Rightarrow> (rat \<Rightarrow> rat) \<Rightarrow> (store, bool) py" where
  "dispatch_one we env addresses_of http ws clk jitter =
     (let now = iso we (clk 0) in
      seq (list_webhook_endpoints None) (\<lambda>endpoints.
        first_true (dispatch_from we env addresses_of http ws (\<lambda>n. clk (n + 1)) jitter now)
          (sort_key (\<lambda>e. py_str env (dget e ''webhook_endpoint_id'')) endpoints)))"

definition recover_interrupted_deliveries :: "web_env \<Rightarrow> py_env \<Rightarrow> rat \<Rightarrow> (store, unit) py" where
  "recover_interrupted_deliveries we env now =
     seq (list_webhook_endpoints None) (\<lambda>endpoints.
       each (\<lambda>endpoint.
         let endpoint_id = py_str env (dget endpoint ''webhook_endpoint_id'') in
         seq (list_webhook_deliveries endpoint_id) (\<lambda>ds.
           each (\<lambda>d.
             if dget d ''status'' = JStr ''DELIVERING''
             then seq (update_webhook_delivery endpoint_id (py_str env (dget d ''delivery_id''))
                    [(''status'', JStr ''RETRYING''), (''next_attempt_at'', JStr (iso we now))]) (\<lambda>_. ret ())
             else ret ()) ds)) endpoints)"

end
