(* ===== verification/Webhook_Laws.thy ===== *)
theory Webhook_Laws
  imports Webhooks Store_Invariant
begin

text \<open>
  What the webhook dispatcher guarantees: the order of the deliveries of a run, that no request
  goes to a blocked address and that each is signed, and how one delivery ends.
\<close>

section \<open>The order of deliveries\<close>

text \<open>
  \<open>d\<close> heads its run in the queue \<open>ds\<close> and may be sent: it is unfinished, not under way and due,
  and every delivery of its run before it is finished.
\<close>

definition sendable :: "py_env \<Rightarrow> string \<Rightarrow> jdict list \<Rightarrow> jdict \<Rightarrow> bool" where
  "sendable env now ds d \<longleftrightarrow>
     (\<exists>xs ys. ds = xs @ d # ys \<and> unfinished d = Inr True \<and> dget d ''status'' \<noteq> JStr ''DELIVERING'' \<and>
        due_at now d \<and> (\<forall>x \<in> set xs. run_of env x = run_of env d \<longrightarrow> unfinished x = Inr False))"

lemma next_delivery_Some:
  assumes "next_delivery env now bs ds = Inr (Some d)"
  shows "sendable env now ds d \<and> (\<forall>b \<in> set bs. run_of env d \<noteq> Inr b)"
  using assms
proof (induction ds arbitrary: bs)
  case (Cons x ds)
  obtain r p where x: "run_of env x = Inr r" "unfinished x = Inr p"
    using Cons.prems by (auto simp: exn_bind_Inr)
  have skip: ?case if "next_delivery env now bs' ds = Inr (Some d)" and "set bs \<subseteq> set bs'"
    and "p \<longrightarrow> r \<in> set bs'" for bs'
  proof -
    from Cons.IH [OF that(1)] obtain xs ys where
      d: "ds = xs @ d # ys" "unfinished d = Inr True" "dget d ''status'' \<noteq> JStr ''DELIVERING''" "due_at now d"
        "\<forall>x \<in> set xs. run_of env x = run_of env d \<longrightarrow> unfinished x = Inr False"
      and bs': "\<forall>b \<in> set bs'. run_of env d \<noteq> Inr b"
      by (auto simp: sendable_def)
    have "run_of env x = run_of env d \<longrightarrow> unfinished x = Inr False"
      using x bs' that(3) by (metis (full_types))
    with d bs' that(2) show ?case
      unfolding sendable_def by (intro conjI exI [of _ "x # xs"] exI [of _ ys]) auto
  qed
  show ?case
  proof (cases "p \<and> r \<notin> set bs \<and> dget x ''status'' \<noteq> JStr ''DELIVERING'' \<and> due_at now x")
    case True
    with Cons.prems x have "d = x" by simp
    with True x show ?thesis unfolding sendable_def by (intro conjI exI [of _ "[]"] exI [of _ ds]) auto
  next
    case False
    with Cons.prems x show ?thesis
      using skip [of bs] skip [of "r # bs"] by (auto split: if_splits)
  qed
qed simp

lemma next_delivery_None:
  assumes "next_delivery env now bs ds = Inr None" and "sendable env now ds d"
    and "\<forall>b \<in> set bs. run_of env d \<noteq> Inr b"
  shows False
  using assms
proof (induction ds arbitrary: bs)
  case Nil
  then show ?case by (simp add: sendable_def)
next
  case (Cons x ds)
  obtain r p where x: "run_of env x = Inr r" "unfinished x = Inr p"
    using Cons.prems(1) by (auto simp: exn_bind_Inr)
  from Cons.prems(2) obtain xs ys where
    d: "x # ds = xs @ d # ys" "unfinished d = Inr True" "dget d ''status'' \<noteq> JStr ''DELIVERING''" "due_at now d"
      "\<forall>x \<in> set xs. run_of env x = run_of env d \<longrightarrow> unfinished x = Inr False"
    by (auto simp: sendable_def)
  show ?case
  proof (cases xs)
    case Nil
    with d x Cons.prems(1,3) show ?thesis by auto
  next
    case (Cons z zs)
    with d have later: "sendable env now ds d" and zx: "z = x" unfolding sendable_def by auto
    moreover have "p \<Longrightarrow> run_of env d \<noteq> Inr r" using Cons d(5) x zx by auto
    ultimately show ?thesis
      using Cons.prems(1,3) x Cons.IH [OF _ later, of bs] Cons.IH [OF _ later, of "r # bs"]
      by (auto split: if_splits)
  qed
qed

text \<open>
  C34. The dispatcher keeps the order of each run and does not starve. From the queue of an
  endpoint it picks a delivery that is due and before which every delivery of the same run is
  finished; and it picks none only if there is no such delivery.
\<close>

theorem dispatch_order_per_run:
  "(next_delivery env now [] ds = Inr (Some d) \<longrightarrow> sendable env now ds d) \<and>
   (next_delivery env now [] ds = Inr None \<longrightarrow> \<not> (\<exists>d. sendable env now ds d))"
  using next_delivery_Some [of env now "[]" ds d] next_delivery_None [of env now "[]" ds] by auto

section \<open>Destinations and signatures\<close>

lemma select_address_Inr:
  assumes "select_address we ws as = Inr a"
  shows "a \<in> set as \<and> (\<forall>b \<in> set as. \<not> blocked we ws b \<and> address_key a \<le> address_key b)"
proof -
  have as: "as \<noteq> []" "\<not> list_ex (blocked we ws) as" "a = hd (sort_key address_key as)"
    using assms by (auto simp: select_address_def split: if_splits)
  obtain b bs where s: "sort_key address_key as = b # bs"
    using as(1) by (metis length_0_conv length_sort list.exhaust)
  have "set (b # bs) = set as" by (metis s set_sort)
  moreover have "sorted (map address_key (b # bs))" by (metis s sorted_sort_key)
  ultimately show ?thesis using as(2,3) s by (auto simp: list_ex_iff)
qed

lemma destination_open:
  assumes "validate_delivery_destination we addresses_of ws url = Inr a"
  shows "\<not> blocked we ws a \<and> url_scheme (urlsplit we url) \<noteq> [] \<and>
    py_lower (url_scheme (urlsplit we url)) \<in> set (allowed_schemes (ws_require_https ws))"
  using assms select_address_Inr
  by (fastforce simp: validate_delivery_destination_def Let_def exn_bind_Inr allowed_schemes_def py_lower_def
      split: if_splits)

text \<open>
  C33. No callback leaves the service for a blocked address, and each is signed. A prepared
  request goes to an address that is global or in an allowed network, though the name may
  resolve to anything, over a permitted scheme; its signature is the HMAC of timestamp and body
  under the endpoint's secret; and preparing it changes nothing in the store.
\<close>

theorem callbacks_signed_and_never_blocked:
  assumes "prepare_callback we env addresses_of ws now endpoint delivery attempt s = (Inr request, t)"
  shows "t = s \<and> \<not> blocked we ws (sr_address request) \<and>
    (\<exists>secret key. map_of endpoint ''signing_secret'' = Some secret \<and>
       b64_decode False (b64_pad (py_str env secret)) = Some key \<and>
       sr_signature request = hmac_hex we key (sr_timestamp request @ ''.'' @ sr_content request)) \<and>
    (ws_require_https ws \<longrightarrow>
       py_lower (url_scheme (urlsplit we (py_str env (dget endpoint ''url'')))) = ''https'')"
proof -
  have reads: "pure_read (event_for_delivery env d)" "pure_read (get_run r)" for d r
    by (auto simp: event_for_delivery_def get_events_def get_run_def get_locked_def require_run_def need_sub_def
        split: option.splits intro!: pure_read_seq)
  obtain event s1 run s2 where st: "event_for_delivery env delivery s = (Inr event, s1)"
    "get_run (py_str env (dget delivery ''run_id'')) s1 = (Inr run, s2)"
    and rest: "t = s2"
    using assms by (auto simp: prepare_callback_def Let_def py_run split: prod.splits sum.splits option.splits)
  have "s1 = s" "s2 = s1" using reads st unfolding pure_read_def by (metis snd_conv)+
  moreover obtain envelope secret where
    e: "map_of endpoint ''signing_secret'' = Some secret"
      "sign_request we addresses_of ws now (py_str env secret)
         (map_option (py_str env) (map_of endpoint ''url'')) envelope = Inr request"
    using assms by (auto simp: prepare_callback_def Let_def py_run split: prod.splits sum.splits option.splits)
  moreover obtain url key a where "b64_decode False (b64_pad (py_str env secret)) = Some key"
    "map_of endpoint ''url'' = Some url"
    "validate_delivery_destination we addresses_of ws (py_str env url) = Inr a" "sr_address request = a"
    "sr_signature request = hmac_hex we key (sr_timestamp request @ ''.'' @ sr_content request)"
    using e(2) by (auto simp: sign_request_def Let_def exn_bind_Inr split: option.splits)
  ultimately show ?thesis
    using rest destination_open [of we addresses_of ws "py_str env url" a]
    by (auto simp: dget_def allowed_schemes_def)
qed

section \<open>One delivery\<close>

definition delivery_of :: "string \<Rightarrow> string \<Rightarrow> store \<Rightarrow> jdict option" where
  "delivery_of e k s = map_of (sub st_webhook_deliveries e s) k"

lemma dset_default_same: "has_key d k \<Longrightarrow> dset_default k x d = d"
  by (simp add: dset_default_def)

lemma update_delivery:
  assumes "has_key (st_webhook_endpoints s) e" and "delivery_of e k s = Some d"
    and "\<not> has_key patch ''webhook_endpoint_id''" and "\<not> has_key patch ''delivery_id''"
  shows "update_webhook_delivery e k patch s =
    (Inr (dupdate d patch), in_sub st_webhook_deliveries_update e (dput k (dupdate d patch)) s)"
proof -
  have "has_key (st_webhook_deliveries s) e"
    using assms(2) by (auto simp: delivery_of_def sub_def has_key_def split: option.splits)
  then have "st_webhook_deliveries_update (dset_default e []) s = s"
    by (cases s) (simp add: dset_default_same)
  moreover have "dpop ''delivery_id'' patch = patch"
    using assms(4) by (simp add: has_key_iff)
  ultimately show ?thesis
    using assms
    by (simp add: update_webhook_delivery_def require_endpoint_def ensure_sub_def py_run dget_or_def
        update_locked_run delivery_of_def patch_without_id_def has_key_def)
qed

lemma updated_delivery:
  assumes "delivery_of e k s = Some d"
  shows "delivery_of e k (in_sub st_webhook_deliveries_update e (dput k x) s) = Some x"
    "st_webhook_endpoints (in_sub st_webhook_deliveries_update e (dput k x) s) = st_webhook_endpoints s"
proof -
  have "has_key (st_webhook_deliveries s) e"
    using assms by (auto simp: delivery_of_def sub_def has_key_def split: option.splits)
  then show "delivery_of e k (in_sub st_webhook_deliveries_update e (dput k x) s) = Some x"
    by (simp add: delivery_of_def deliveries.sub_in_sub)
qed (simp add: in_sub_def)

lemma dget_dupdate_other: "\<not> has_key p f \<Longrightarrow> dget (dupdate d p) f = dget d f"
  by (simp add: dget_def map_of_dupdate_other has_key_iff)

text \<open>How a failed attempt ends: another attempt, or the end of the delivery and a paused endpoint.\<close>

lemma retry_outcome:
  assumes "map_of (st_webhook_endpoints s) e = Some ep" and "delivery_of e k s = Some d"
    and "dget m ''delivery_id'' = JStr k" and "dget m ''attempt_count'' = JInt n" and "n \<le> 1024"
  shows "\<exists>t d'. retry_or_exhaust we env ws clk jitter e m x s = (Inr (), t) \<and> delivery_of e k t = Some d' \<and>
    dget d' ''attempt_count'' = dget d ''attempt_count'' \<and>
    (dget d' ''status'' = JStr ''RETRYING'' \<and> n < ws_max_attempts ws \<or>
     dget d' ''status'' = JStr ''EXHAUSTED'' \<and>
       (\<exists>ep'. map_of (st_webhook_endpoints t) e = Some ep' \<and>
          dget ep' ''status'' = JStr ''PAUSED_DELIVERY_FAILURES''))"
proof -
  have key: "has_key (st_webhook_endpoints s) e" using assms(1) by (simp add: has_key_def)
  have n: "int_or_0 (JInt n) = Inr n" by (simp add: int_or_0_def py_or_def)
  have cap: "\<exists>q. delay_cap n = Inr q" using assms(5) by (simp add: delay_cap_def Let_def)
  note upd = update_delivery [OF key assms(2)]
  let ?first = "if py_truthy (dget m ''first_attempt_at'') then py_str env (dget m ''first_attempt_at'')
      else iso we (clk 0)"
  let ?old = "?first < iso we (clk 1 - of_int (ws_max_age_hours ws) * 3600)"
  show ?thesis
  proof (cases "n \<ge> ws_max_attempts ws \<or> ?old")
    case True
    let ?p = "[(''status'', JStr ''EXHAUSTED''), (''next_attempt_at'', JNull),
        (''last_problem'', JObj (delivery_problem env m (problem_code we x) (exn_text we x))),
        (''last_response_status'', response_status x), (''exhausted_at'', JStr (iso we (clk 2))),
        (''redeliver_until'', JStr (iso we (clk 2 + of_int (ws_redelivery_retention_days ws) * 86400)))]"
    let ?q = "[(''status'', JStr ''PAUSED_DELIVERY_FAILURES''),
        (''status_reason'', JStr ''DELIVERY_RETRIES_EXHAUSTED''), (''paused_at'', JStr (iso we (clk 3)))]"
    let ?s = "in_sub st_webhook_deliveries_update e (dput k (dupdate d ?p)) s"
    let ?t = "st_webhook_endpoints_update (dput e (dupdate ep ?q)) ?s"
    have "update_webhook_delivery e k ?p s = (Inr (dupdate d ?p), ?s)"
      by (rule upd) (simp_all add: has_key_def)
    moreover have "update_webhook_endpoint e ?q ?s = (Inr (dupdate ep ?q), ?t)"
      using updated_delivery(2) [OF assms(2)] assms(1)
      by (simp add: update_webhook_endpoint_def update_locked_run patch_without_id_def dget_or_def)
    ultimately have "retry_or_exhaust we env ws clk jitter e m x s = (Inr (), ?t)"
      using True by (simp add: retry_or_exhaust_def Let_def assms(3,4) n py_run)
    moreover have "delivery_of e k ?t = Some (dupdate d ?p)"
      using updated_delivery(1) [OF assms(2)] by (simp add: delivery_of_def sub_def)
    moreover have "dget (dupdate d ?p) ''attempt_count'' = dget d ''attempt_count''"
      by (rule dget_dupdate_other) (simp add: has_key_def)
    moreover have "dget (dupdate d ?p) ''status'' = JStr ''EXHAUSTED''" by (simp add: dupdate_def)
    moreover have "dget (dupdate ep ?q) ''status'' = JStr ''PAUSED_DELIVERY_FAILURES''" by (simp add: dupdate_def)
    ultimately show ?thesis by fastforce
  next
    case False
    obtain q where q: "delay_cap n = Inr q" using cap by blast
    let ?p = "[(''status'', JStr ''RETRYING''), (''next_attempt_at'', JStr (iso we (clk 2 + jitter q))),
        (''last_problem'', JObj (delivery_problem env m (problem_code we x) (exn_text we x))),
        (''last_response_status'', response_status x)]"
    let ?s = "in_sub st_webhook_deliveries_update e (dput k (dupdate d ?p)) s"
    have "update_webhook_delivery e k ?p s = (Inr (dupdate d ?p), ?s)"
      by (rule upd) (simp_all add: has_key_def)
    then have "retry_or_exhaust we env ws clk jitter e m x s = (Inr (), ?s)"
      using False q by (simp add: retry_or_exhaust_def Let_def assms(3,4) n py_run)
    moreover have "dget (dupdate d ?p) ''attempt_count'' = dget d ''attempt_count''"
      by (rule dget_dupdate_other) (simp add: has_key_def)
    moreover have "dget (dupdate d ?p) ''status'' = JStr ''RETRYING''" by (simp add: dupdate_def)
    ultimately show ?thesis using False updated_delivery(1) [OF assms(2)] by fastforce
  qed
qed

lemma prepare_callback_reads: "pure_read (prepare_callback we env addresses_of ws now endpoint delivery n)"
  unfolding prepare_callback_def Let_def
  by (auto simp: event_for_delivery_def get_events_def get_run_def get_locked_def require_run_def need_sub_def
      split: option.splits intro!: pure_read_seq)

lemma delivery_ends:
  assumes ep: "map_of (st_webhook_endpoints s) e = Some ep" and d: "delivery_of e k s = Some d"
    and ids: "dget ep ''webhook_endpoint_id'' = JStr e" "dget d ''delivery_id'' = JStr k"
    and n: "dget d ''attempt_count'' = JInt n" "n < 1024"
    and http: "\<And>r u. st_webhook_endpoints (snd (http r u)) = st_webhook_endpoints u \<and>
      st_webhook_deliveries (snd (http r u)) = st_webhook_deliveries u \<and> fst (http r u) \<noteq> HttpCancelled"
  shows "\<exists>t d'. deliver we env addresses_of http ws clk jitter ep d s = (Inr (), t) \<and> delivery_of e k t = Some d' \<and>
    dget d' ''attempt_count'' = JInt (n + 1) \<and>
    (dget d' ''status'' = JStr ''SUCCEEDED'' \<or>
     dget d' ''status'' = JStr ''RETRYING'' \<and> n + 1 < ws_max_attempts ws \<or>
     dget d' ''status'' = JStr ''EXHAUSTED'' \<and>
       (\<exists>ep'. map_of (st_webhook_endpoints t) e = Some ep' \<and>
          dget ep' ''status'' = JStr ''PAUSED_DELIVERY_FAILURES''))"
proof -
  have key: "has_key (st_webhook_endpoints s) e" using ep by (simp add: has_key_def)
  have count: "int_or_0 (JInt n) = Inr n" by (simp add: int_or_0_def py_or_def)
  define first where "first = (if py_truthy (dget d ''first_attempt_at'') then dget d ''first_attempt_at''
      else JStr (iso we (clk 0)))"
  define p where "p = [(''status'', JStr ''DELIVERING''), (''attempt_count'', JInt (n + 1)),
      (''first_attempt_at'', first), (''next_attempt_at'', JNull)]"
  define m where "m = dupdate d p"
  define s1 where "s1 = in_sub st_webhook_deliveries_update e (dput k m) s"
  have marked: "update_webhook_delivery e k p s = (Inr m, s1)"
    unfolding m_def s1_def by (rule update_delivery [OF key d]) (simp_all add: p_def has_key_def)
  have s1: "delivery_of e k s1 = Some m" "st_webhook_endpoints s1 = st_webhook_endpoints s"
    using updated_delivery [OF d] by (simp_all add: s1_def)
  have m: "dget m ''delivery_id'' = JStr k" "dget m ''attempt_count'' = JInt (n + 1)"
    using ids(2) by (simp_all add: m_def p_def dupdate_def)
  define on_error where "on_error x = retry_or_exhaust we env ws (\<lambda>i. clk (i + 2)) jitter e m x" for x
  have failed: "\<exists>t d'. on_error x u = (Inr (), t) \<and> delivery_of e k t = Some d' \<and>
      dget d' ''attempt_count'' = JInt (n + 1) \<and>
      (dget d' ''status'' = JStr ''SUCCEEDED'' \<or>
       dget d' ''status'' = JStr ''RETRYING'' \<and> n + 1 < ws_max_attempts ws \<or>
       dget d' ''status'' = JStr ''EXHAUSTED'' \<and>
         (\<exists>ep'. map_of (st_webhook_endpoints t) e = Some ep' \<and>
            dget ep' ''status'' = JStr ''PAUSED_DELIVERY_FAILURES''))"
    if "st_webhook_endpoints u = st_webhook_endpoints s" "delivery_of e k u = Some m" for u x
    using retry_outcome [of u e ep k m m "n + 1" we env ws "\<lambda>i. clk (i + 2)" jitter x] that ep m n(2)
    unfolding on_error_def by auto
  have run: "deliver we env addresses_of http ws clk jitter ep d s =
      (case prepare_callback we env addresses_of ws \<lfloor>clk 1\<rfloor> ep m (n + 1) s1 of
             (Inl x, t) \<Rightarrow> on_error x t
           | (Inr request, t) \<Rightarrow>
               (case http request t of
                  (Status i, u) \<Rightarrow>
                    if 200 \<le> i \<and> i < 300
                    then (case update_webhook_delivery e k
                            [(''status'', JStr ''SUCCEEDED''), (''last_response_status'', JInt i),
                             (''last_problem'', JNull), (''delivered_at'', JStr (iso we (clk 2))),
                             (''next_attempt_at'', JNull)] u of
                            (Inr _, v) \<Rightarrow> (Inr (), v)
                          | (Inl x, v) \<Rightarrow> on_error x v)
                    else on_error (WebhookHTTP i) u
                | (HttpRaises x, u) \<Rightarrow> on_error x u
                | (HttpCancelled, u) \<Rightarrow>
                    seq (update_webhook_delivery e k
                      [(''status'', JStr ''RETRYING''), (''next_attempt_at'', JStr (iso we (clk 2)))])
                      (\<lambda>_. raise CancelledErr) u))"
    unfolding on_error_def
    using marked ids n(1) count
    by (simp add: deliver_def Let_def py_run p_def first_def
        del: add_2_eq_Suc' One_nat_def)
  obtain r where prep: "prepare_callback we env addresses_of ws \<lfloor>clk 1\<rfloor> ep m (n + 1) s1 = (r, s1)"
    using prepare_callback_reads unfolding pure_read_def by (metis prod.collapse)
  show ?thesis
  proof (cases r)
    case (Inl x)
    show ?thesis using failed [OF s1(2,1), of x] unfolding run prep Inl by simp
  next
    case (Inr request)
    obtain z u where hz: "http request s1 = (z, u)" by fastforce
    have u: "st_webhook_endpoints u = st_webhook_endpoints s" "delivery_of e k u = Some m" "z \<noteq> HttpCancelled"
      using http [of request s1] hz s1 by (simp_all add: delivery_of_def sub_def)
    have run': "deliver we env addresses_of http ws clk jitter ep d s =
      (case z of
                  Status i \<Rightarrow>
                    if 200 \<le> i \<and> i < 300
                    then (case update_webhook_delivery e k
                            [(''status'', JStr ''SUCCEEDED''), (''last_response_status'', JInt i),
                             (''last_problem'', JNull), (''delivered_at'', JStr (iso we (clk 2))),
                             (''next_attempt_at'', JNull)] u of
                            (Inr _, v) \<Rightarrow> (Inr (), v)
                          | (Inl x, v) \<Rightarrow> on_error x v)
                    else on_error (WebhookHTTP i) u
                | HttpRaises x \<Rightarrow> on_error x u
                | HttpCancelled \<Rightarrow>
                    seq (update_webhook_delivery e k
                      [(''status'', JStr ''RETRYING''), (''next_attempt_at'', JStr (iso we (clk 2)))])
                      (\<lambda>_. raise CancelledErr) u)"
      unfolding run prep Inr by (simp add: hz)
    show ?thesis
    proof (cases z)
      case (Status i)
      show ?thesis
      proof (cases "200 \<le> i \<and> i < 300")
        case True
        let ?p = "[(''status'', JStr ''SUCCEEDED''), (''last_response_status'', JInt i),
           (''last_problem'', JNull), (''delivered_at'', JStr (iso we (clk 2))), (''next_attempt_at'', JNull)]"
        let ?t = "in_sub st_webhook_deliveries_update e (dput k (dupdate m ?p)) u"
        have "update_webhook_delivery e k ?p u = (Inr (dupdate m ?p), ?t)"
          by (rule update_delivery) (use u ep in \<open>simp_all add: has_key_def\<close>)
        then have "deliver we env addresses_of http ws clk jitter ep d s = (Inr (), ?t)"
          using True Status by (simp add: run')
        moreover have "dget (dupdate m ?p) ''attempt_count'' = JInt (n + 1)"
          using m(2) by (subst dget_dupdate_other) (simp_all add: has_key_def)
        moreover have "dget (dupdate m ?p) ''status'' = JStr ''SUCCEEDED''" by (simp add: dupdate_def)
        ultimately show ?thesis using updated_delivery(1) [OF u(2)] by blast
      next
        case False
        with Status failed [OF u(1,2), of "WebhookHTTP i"] show ?thesis unfolding run' by auto
      qed
    next
      case (HttpRaises x)
      with failed [OF u(1,2), of x] show ?thesis unfolding run' by auto
    qed (use u(3) in simp)
  qed
qed

text \<open>
  C35. Every attempt is counted and ends, and attempts are bounded. Whatever the receiver
  answers, or if the request fails, an attempt leaves the delivery succeeded, waiting for a
  retry with attempts left, or exhausted with its endpoint paused; the count has grown by
  exactly one. So a delivery in the retry state has used fewer than the maximal attempts.
\<close>

theorem delivery_attempt_ends:
  assumes "map_of (st_webhook_endpoints s) e = Some ep" and "delivery_of e k s = Some d"
    and "wf_store s" and "dget d ''attempt_count'' = JInt n" and "n < 1024"
    and "\<And>r u. st_webhook_endpoints (snd (http r u)) = st_webhook_endpoints u \<and>
      st_webhook_deliveries (snd (http r u)) = st_webhook_deliveries u \<and> fst (http r u) \<noteq> HttpCancelled"
  shows "\<exists>t d'. deliver we env addresses_of http ws clk jitter ep d s = (Inr (), t) \<and> delivery_of e k t = Some d' \<and>
    dget d' ''attempt_count'' = JInt (n + 1) \<and>
    (dget d' ''status'' = JStr ''SUCCEEDED'' \<or>
     dget d' ''status'' = JStr ''RETRYING'' \<and> n + 1 < ws_max_attempts ws \<or>
     dget d' ''status'' = JStr ''EXHAUSTED'' \<and>
       (\<exists>ep'. map_of (st_webhook_endpoints t) e = Some ep' \<and>
          dget ep' ''status'' = JStr ''PAUSED_DELIVERY_FAILURES''))"
proof (rule delivery_ends [OF assms(1,2) _ _ assms(4,5,6)])
  show "dget ep ''webhook_endpoint_id'' = JStr e"
    using assms(1,3) by (auto simp: wf_store_def keyed_def)
  show "dget d ''delivery_id'' = JStr k"
    using assms(2,3) by (auto simp: wf_store_def delivery_of_def sub_def children_keyed_def keyed_def split: option.splits)
qed

end
