(* ===== verification/Runtime_Examples.thy ===== *)
theory Runtime_Examples
  imports Durable_Examples Worker Hardening_Laws Webhook_Laws
begin

text \<open>Concrete rounds of a worker, requests, streams and webhook deliveries.\<close>

section \<open>The worker\<close>

definition demo_worker :: worker where
  "demo_worker = \<lparr>worker_id = ''w1'', lease_seconds = 86400, poll_interval = 1, retry_base_seconds = 2,
     retry_max_seconds = 30\<rparr>"

lemma demo_worker: "new_worker ''w1'' 86400 1 2 30 = Inr demo_worker"
  by (simp add: new_worker_def demo_worker_def)

theorem retry_delay_backoff_witness: "retry_delay demo_worker 1 = 2 \<and> retry_delay demo_worker (1 + 1) = 4"
proof -
  have "retry_delay demo_worker 1 = 2" by (simp add: retry_delay_def demo_worker_def)
  then show ?thesis
    using retry_delay_backoff [OF demo_worker, of 1] by simp
qed

text \<open>While the handler runs, a control command wakes the job.\<close>

definition demo_schedule :: "job \<Rightarrow> sqlite event list" where
  "demo_schedule j =
     [Outside (\<lambda>s. snd (wake_execution_job demo_sql (fixed_at 2) ''r1'' s)), HandlerEnds (Returned CompleteResult)]"

definition job_3 :: sqlite where
  "job_3 = snd (wake_execution_job demo_sql (fixed_at 2) ''r1'' job_2)"

theorem overtaken_worker_commits_nothing_witness:
  "\<exists>r g e a b c. run_once (sqlite_jobs demo_sql) (\<lambda>_. []) None demo_worker (fixed_at 1) (fixed_at 3) demo_schedule job_1
     = (Inl (JobFence r g e a b c), job_3)"
proof -
  have wait: "run_handler_with_lease_heartbeat (sqlite_jobs demo_sql) 86400 (job_run_id row_2) (lease_generation row_2)
      (control_epoch row_2) (demo_schedule row_2) job_2 = (Inr (Ended (Returned CompleteResult)), job_3)"
    by (simp add: demo_schedule_def job_3_def py_run)
  have "(\<not> closed job_3 \<and> map_option (outdated 1 0) (map_of (job_rows job_3) ''r1'') = Some True)"
    by code_simp
  then have over: "overtaken job_3 (job_run_id row_2) (lease_generation row_2) (control_epoch row_2)"
    by (auto simp: overtaken_def row_2)
  have built: "results_built (demo_schedule row_2)"
    by (simp add: results_built_def demo_schedule_def)
  from overtaken_worker_commits_nothing [where schedule = demo_schedule, OF demo_worker claim_2 wait over built, of "\<lambda>_. []" None "fixed_at 3"]
  show ?thesis by auto
qed

definition plain_schedule :: "job \<Rightarrow> sqlite event list" where
  "plain_schedule j = [HandlerEnds (Returned CompleteResult)]"

definition demo_round :: "(exn + round) \<times> sqlite" where
  "demo_round = run_once (sqlite_jobs demo_sql) (\<lambda>_. []) None demo_worker (fixed_at 1) (fixed_at (3/2)) plain_schedule job_1"

theorem worked_round_settles_job_witness:
  "\<exists>j. map_of (job_rows (snd demo_round)) ''r1'' = Some j \<and> job_status j \<noteq> LEASED"
proof -
  have complete: "complete_execution_job demo_sql (fixed_at (3/2)) ''r1'' 1 0 job_2 = (Inr j, t) \<Longrightarrow>
      demo_round = (Inr Worked, t)" for j t
    by (simp add: demo_round_def run_once_def sqlite_jobs_def demo_worker_def claim_2 plain_schedule_def
        settle_job_def row_2 py_run Let_def)
  have "\<not> isl (fst (complete_execution_job demo_sql (fixed_at (3/2)) ''r1'' 1 0 job_2))" by code_simp
  then obtain j t where "complete_execution_job demo_sql (fixed_at (3/2)) ''r1'' 1 0 job_2 = (Inr j, t)"
    by (metis isl_def prod.collapse sum.exhaust_sel)
  from complete [OF this] have round: "demo_round = (Inr Worked, snd demo_round)" by (metis snd_conv)
  from worked_round_settles_job [OF this [unfolded demo_round_def]] obtain i s1 j'
    where "claim_execution_job demo_sql (fixed_at 1) ''w1'' 86400 job_1 = (Inr (Some i), s1)"
    and "map_of (job_rows (snd demo_round)) (job_run_id i) = Some j'" "job_status j' \<noteq> LEASED"
    unfolding demo_round_def [symmetric] by (auto simp: demo_worker_def)
  then show ?thesis using claim_2 by (auto simp: row_2)
qed

section \<open>The rate limiter\<close>

definition limiter_0 :: rate_limiter where
  "limiter_0 = \<lparr>limit = 1, window_seconds = 60, max_buckets = 4, buckets = [(overflow_key, [])], requests = 0\<rparr>"

definition limiter_1 :: rate_limiter where
  "limiter_1 = snd (allow 5 ''a'' limiter_0)"

definition limiter_2 :: rate_limiter where
  "limiter_2 = snd (allow 15 ''a'' limiter_1)"

lemma limiter_0: "new_rate_limiter 1 60 4 = Inr limiter_0"
  by (simp add: new_rate_limiter_def limiter_0_def)

lemma limiter_1: "allow 5 ''a'' limiter_0 = (Inr (True, 0), limiter_1)"
proof -
  have "fst (allow 5 ''a'' limiter_0) = Inr (True, 0)" by code_simp
  then show ?thesis by (simp add: limiter_1_def prod_eq_iff)
qed

lemma limiter_2: "allow 15 ''a'' limiter_1 = (Inr (False, 51), limiter_2)"
proof -
  have "fst (allow 15 ''a'' limiter_1) = Inr (False, 51)" by code_simp
  then show ?thesis by (simp add: limiter_2_def prod_eq_iff)
qed

lemma demo_serves: "serves limiter_0 limiter_1 5 [(5, ''a'', ''a'')]"
proof -
  have "fst (choose_bucket (5 - window_seconds limiter_0) ''a'' limiter_0) = ''a''" by code_simp
  then show ?thesis
    using serves.admit [OF serves.start _ limiter_1, of 0] by simp
qed

theorem rate_limit_sliding_window_witness:
  "int (length (in_window 60 9 (into ''a'' [(5, ''a'', ''a'')]))) \<le> 1 \<and> int (length (buckets limiter_1)) \<le> 4"
  using rate_limit_sliding_window [where v = 9 and key = "''a''", OF limiter_0 _ _ demo_serves] by simp

theorem retry_after_suffices_witness: "\<exists>l. allow (15 + of_int 51) ''a'' limiter_2 = (Inr (True, 0), l)"
  using retry_after_suffices [OF limiter_0 _ _ demo_serves _ limiter_2] by simp

section \<open>Streams and requests\<close>

definition metrics_1 :: metrics where
  "metrics_1 = snd (enter_stream 2 (Some ''t1'') (Some 1) new_metrics)"

theorem stream_caps_refine_open_streams_witness:
  "m_active_streams metrics_1 = 1 \<and> fst (enter_stream 2 (Some ''t1'') (Some 1) metrics_1) = Inr False"
proof -
  have "fst (enter_stream 2 (Some ''t1'') (Some 1) new_metrics) = Inr True" by code_simp
  then have "enter_stream 2 (Some ''t1'') (Some 1) new_metrics = (Inr True, metrics_1)"
    by (simp add: metrics_1_def prod_eq_iff)
  then have "streams 2 1 metrics_1 (add_mset (Some ''t1'') {#})" by (rule streams.opened [OF streams.start])
  from stream_caps_refine_open_streams [OF this] show ?thesis by simp
qed

definition quiet :: hardening_settings where
  "quiet = \<lparr>audit_log_enabled = False, metrics_enabled = False, tls_terminated = False, requests_per_minute = 1,
     max_concurrent_requests = 1, max_sse_connections = 1, max_sse_connections_per_tenant = 1,
     max_rate_limit_buckets = 4, allowed_hosts = [''*'']\<rparr>"

definition ping :: http_request where
  "ping = \<lparr>rq_method = ''GET'', rq_path = ''/v1/runs'', rq_client = None, rq_headers = [], rq_path_params = [],
     rq_route = None, rq_operation_id = None, rq_principal = None\<rparr>"

definition crash :: "http_request \<Rightarrow> unit service \<Rightarrow> (exn + http_response) \<times> http_request \<times> unit service" where
  "crash rq s = (Inl TypeError, rq, s)"

definition service_0 :: "unit service" where
  "service_0 = \<lparr>client_limiter = limiter_0, credential_limiter = limiter_0, sv_metrics = new_metrics, audit_log = [],
     inner = ()\<rparr>"

theorem request_slot_released_witness:
  "active (post (harden_request quiet id ''c'' (\<lambda>n. of_nat n) crash ping) service_0) = active service_0"
proof -
  have "0 \<le> active service_0" by code_simp
  then show ?thesis by (intro request_slot_released) (simp_all add: crash_def)
qed

section \<open>Webhooks\<close>

definition demo_web :: web_env where
  "demo_web =
     \<lparr>iso = (\<lambda>t. pad_str 12 (nat \<lfloor>t\<rfloor>)), validate = Inr, dumps = (\<lambda>_. ''{}''), hmac_hex = (\<lambda>k m. k @ m),
      urlsplit = (\<lambda>_. \<lparr>url_scheme = ''https'', url_hostname = Some ''h'', url_username = None, url_password = None,
        url_fragment = [], url_port = Inr None\<rparr>),
      ip_literal = (\<lambda>_. None), is_global = (\<lambda>_. True), exn_text = (\<lambda>_. ''HTTP''), exn_name = (\<lambda>_. ''E'')\<rparr>"

definition demo_ws :: webhook_settings where
  "demo_ws = \<lparr>ws_enabled = True, ws_require_https = True, ws_allowed_cidrs = [], ws_timeout_seconds = 10,
     ws_max_attempts = 12, ws_max_age_hours = 72, ws_redelivery_retention_days = 30,
     ws_response_limit_bytes = 65536, ws_poll_interval_seconds = 1/2\<rparr>"

definition demo_delivery :: jdict where
  "demo_delivery = (case sub st_webhook_deliveries ''wh_1'' demo_store of (k, d) # _ \<Rightarrow> d | [] \<Rightarrow> [])"

lemma demo_delivery: "delivery_of ''wh_1'' ''whd_000000000001'' demo_store = Some demo_delivery"
  "dget demo_delivery ''attempt_count'' = JInt 0" "unfinished demo_delivery = Inr True"
  "next_delivery plain_env ''2024-01-02'' [] [demo_delivery] = Inr (Some demo_delivery)"
  by code_simp+

theorem dispatch_order_per_run_witness: "sendable plain_env ''2024-01-02'' [demo_delivery] demo_delivery"
  using dispatch_order_per_run [of plain_env "''2024-01-02''" "[demo_delivery]" demo_delivery] demo_delivery by simp

definition signed_endpoint :: jdict where
  "signed_endpoint = demo_endpoint @ [(''signing_secret'', JStr ''c2VjcmV0''), (''url'', JStr ''https://h/'')]"

definition demo_addresses :: "string \<Rightarrow> int \<Rightarrow> exn + address list" where
  "demo_addresses host port = Inr [Address 4 9]"

definition demo_prepared :: "(exn + signed_request) \<times> store" where
  "demo_prepared =
     prepare_callback demo_web plain_env demo_addresses demo_ws 7 signed_endpoint demo_delivery 1 demo_store"

definition demo_logged :: jdict where
  "demo_logged = (case log_of demo_store ''r1'' of e # _ \<Rightarrow> e | [] \<Rightarrow> [])"

lemma demo_prepared: "\<exists>request t. demo_prepared = (Inr request, t)"
proof -
  have event: "event_for_delivery plain_env demo_delivery demo_store = (Inr demo_logged, demo_store)"
    and run: "get_run (py_str plain_env (dget demo_delivery ''run_id'')) demo_store = (Inr (Some demo_stored_run), demo_store)"
    unfolding prod_eq_iff by (rule conjI; code_simp)+
  have callback: "stage_callback_for_event demo_web plain_env demo_logged
      (map_option (\<lambda>r. py_str plain_env (dget r ''phase'')) (Some demo_stored_run)) = Inr None"
    by code_simp
  have endpoint: "map_of signed_endpoint ''signing_secret'' = Some (JStr ''c2VjcmV0'')"
    "map_of signed_endpoint ''url'' = Some (JStr ''https://h/'')" by code_simp+
  have key: "b64_decode False (b64_pad ''c2VjcmV0'') = Some ''secret''" by code_simp
  have address: "validate_delivery_destination demo_web demo_addresses demo_ws ''https://h/'' = Inr (Address 4 9)"
    by code_simp
  show ?thesis
    unfolding demo_prepared_def prepare_callback_def
    by (simp add: seq_def event run callback [unfolded option.map] endpoint lift_def Let_def sign_request_def key address)
qed

theorem callbacks_signed_and_never_blocked_witness:
  "\<exists>request. demo_prepared = (Inr request, demo_store) \<and> \<not> blocked demo_web demo_ws (sr_address request) \<and>
     (\<exists>secret key. map_of signed_endpoint ''signing_secret'' = Some secret \<and>
       sr_signature request = hmac_hex demo_web key (sr_timestamp request @ ''.'' @ sr_content request))"
proof -
  obtain request t where r: "demo_prepared = (Inr request, t)" using demo_prepared by blast
  from callbacks_signed_and_never_blocked [OF r [unfolded demo_prepared_def]] r show ?thesis by blast
qed

definition accepted :: "signed_request \<Rightarrow> store \<Rightarrow> http_end \<times> store" where
  "accepted request s = (Status 204, s)"

theorem delivery_attempt_ends_witness:
  "\<exists>t d. deliver demo_web plain_env demo_addresses accepted demo_ws of_nat (\<lambda>q. q) demo_endpoint demo_delivery demo_store
     = (Inr (), t) \<and> delivery_of ''wh_1'' ''whd_000000000001'' t = Some d \<and> dget d ''attempt_count'' = JInt (0 + 1)"
proof -
  have endpoint: "map_of (st_webhook_endpoints demo_store) ''wh_1'' = Some demo_endpoint" by code_simp
  have http: "st_webhook_endpoints (snd (accepted r u)) = st_webhook_endpoints u \<and>
      st_webhook_deliveries (snd (accepted r u)) = st_webhook_deliveries u \<and> fst (accepted r u) \<noteq> HttpCancelled" for r u
    by (simp add: accepted_def)
  from delivery_attempt_ends [where http = accepted and we = demo_web and env = plain_env and addresses_of = demo_addresses
      and ws = demo_ws and clk = of_nat and jitter = "\<lambda>q. q",
      OF endpoint demo_delivery(1) wf_reachable [OF demo_reachable] demo_delivery(2) _ http]
  show ?thesis by (simp only: zero_less_numeral simp_thms) blast
qed

end
