(* ===== verification/Http_Base.thy ===== *)
theory Http_Base
  imports Durable_Workflow Protocol Webhooks
begin

text \<open>
  The HTTP application (app.py, errors.py), first part: what the application is configured with,
  replies and problems, and the functions of a request that do not touch the state.

  The state is the \<open>durable_world\<close>; the synthetic profile leaves its job table alone. FastAPI's routing
  and the parsing of a request are not modelled: a handler takes the arguments that its signature
  declares. \<open>ht_validated\<close> stands for \<open>_validated\<close>, the passage of a value through a response model
  of \<open>models.py\<close>; \<open>ht_detail\<close> for the human-readable detail, which the model's exceptions leave out.
\<close>

section \<open>The application\<close>

record origin_parts = url_parts +
  url_path :: string
  url_query :: string

text \<open>
  The five operations of the workflow service that the two profiles perform differently;
  \<open>others\<close> is what else happens where they do not hold the visibility lock.
\<close>

record run_service =
  rs_create_run :: "principal \<Rightarrow> jdict \<Rightarrow> (durable_world, jdict) py"
  rs_answer :: "principal \<Rightarrow> string \<Rightarrow> string \<Rightarrow> int \<Rightarrow> jdict \<Rightarrow> (durable_world, jdict) py"
  rs_pause :: "principal \<Rightarrow> string \<Rightarrow> int \<Rightarrow> (durable_world, jdict) py"
  rs_resume :: "principal \<Rightarrow> string \<Rightarrow> int \<Rightarrow> (durable_world, jdict) py"
  rs_cancel :: "principal \<Rightarrow> string \<Rightarrow> (durable_world, jdict) py"

definition synthetic_service :: "workflow_service \<Rightarrow> run_service" where
  "synthetic_service sv =
     \<lparr>rs_create_run = (\<lambda>p r. on_world (svc_create_run sv p r)),
      rs_answer = (\<lambda>p r ws n a. on_world (answer sv p r ws n a)),
      rs_pause = (\<lambda>p r n. on_world (pause sv p r n)),
      rs_resume = (\<lambda>p r n. on_world (resume sv p r n)),
      rs_cancel = (\<lambda>p r. on_world (cancel sv p r))\<rparr>"

definition durable_run_service ::
  "workflow_service \<Rightarrow> engine \<Rightarrow> (nat \<Rightarrow> durable_world \<Rightarrow> durable_world) \<Rightarrow> run_service" where
  "durable_run_service sv en others =
     \<lparr>rs_create_run = durable_create_run sv en, rs_answer = durable_answer sv en,
      rs_pause = (\<lambda>p r n. on_world (pause sv p r n)),
      rs_resume = durable_resume sv en others, rs_cancel = durable_cancel sv en others\<rparr>"

record http =
  ht_service :: workflow_service
  ht_runs :: run_service
  ht_crypto :: crypto
  ht_digest :: "string \<Rightarrow> string"
  ht_dumps :: "json \<Rightarrow> string"
  ht_cursor_secret :: string
  ht_validated :: "string \<Rightarrow> bool \<Rightarrow> json \<Rightarrow> exn + json"
  ht_detail :: "exn \<Rightarrow> string"
  ht_urandom :: "nat \<Rightarrow> string"
  ht_parse_time :: "string \<Rightarrow> (rat \<times> bool) option"
  ht_webhooks :: "exn + webhook_settings"
  ht_web :: web_env
  ht_urlsplit :: "string \<Rightarrow> origin_parts option"
  ht_public_base_url :: string
  ht_public_base_urls :: string

record api_request =
  rq_method :: string
  rq_path :: string
  rq_query :: "(string \<times> string) list"
  rq_if_match :: "string option"
  rq_base_url :: string
  rq_correlation_id :: string

abbreviation in_state :: "(store, 'a) py \<Rightarrow> (durable_world, 'a) py" where
  "in_state m \<equiv> on_world (in_store m)"

section \<open>Replies and problems\<close>

datatype reply_content = NoContent | Json json | Bytes string

record reply =
  rp_status :: int
  rp_content :: reply_content
  rp_headers :: "(string \<times> string) list"

definition request_id_ok :: "string \<Rightarrow> bool" where
  "request_id_ok s \<longleftrightarrow> s \<noteq> [] \<and> length s \<le> 128 \<and> is_alnum (hd s) \<and>
     list_all (\<lambda>c. is_alnum c \<or> c \<in> {CHR ''.'', CHR ''_'', CHR '':'', CHR ''-''}) (tl s)"

text \<open>\<open>correlate_request\<close>: the identifier of a request, from its header or a fresh one.\<close>

definition correlation_id :: "string \<Rightarrow> string \<Rightarrow> string" where
  "correlation_id requested fresh = (if request_id_ok requested then requested else ''corr_'' @ fresh)"

definition correlated :: "string \<Rightarrow> reply \<Rightarrow> reply" where
  "correlated corr r = rp_headers_update (dset_default ''X-Correlation-ID'' corr) r"

definition retriable_codes :: "string list" where
  "retriable_codes =
     [''idempotency_request_in_progress'', ''production_preflight_failed'', ''sse_capacity_reached'',
      ''internal_error'', ''tenant_storage_limit_exceeded'', ''active_run_limit_exceeded'']"

definition required_scopes :: "jdict \<Rightarrow> string" where
  "required_scopes extras =
     (case dget extras ''required_scopes'' of
        JArr ss \<Rightarrow> concat (map (\<lambda>v. case v of JStr s \<Rightarrow> '' '' @ s | _ \<Rightarrow> []) ss) | _ \<Rightarrow> [])"

definition problem_headers :: "string \<Rightarrow> jdict \<Rightarrow> (string \<times> string) list" where
  "problem_headers code extras =
     (if code = ''idempotency_request_in_progress'' \<or> code = ''sse_capacity_reached'' then [(''Retry-After'', ''1'')]
      else if code = ''tenant_storage_limit_exceeded'' then [(''Retry-After'', ''3600'')]
      else if code = ''active_run_limit_exceeded'' then [(''Retry-After'', ''30'')]
      else if code = ''insufficient_scope''
      then [(''WWW-Authenticate'', ''Bearer error='' @ [quote_char] @ ''insufficient_scope'' @ [quote_char] @
               '', scope='' @ [quote_char] @ drop 1 (required_scopes extras) @ [quote_char])]
      else [])"

definition problem_body :: "http \<Rightarrow> string \<Rightarrow> int \<Rightarrow> string \<Rightarrow> string \<Rightarrow> jdict \<Rightarrow> jdict" where
  "problem_body h corr status code title extras =
     dupdate
       [(''type'', JStr (''/problems/'' @ code)), (''title'', JStr title), (''status'', JInt status),
        (''code'', JStr code), (''detail'', JStr (ht_detail h (APIProblem status code title extras))),
        (''retriable'', JBool (code \<in> set retriable_codes)), (''correlation_id'', JStr corr)] extras"

text \<open>The exception handler for an \<open>APIProblem\<close>.\<close>

definition problem_reply :: "http \<Rightarrow> string \<Rightarrow> int \<Rightarrow> string \<Rightarrow> string \<Rightarrow> jdict \<Rightarrow> reply" where
  "problem_reply h corr status code title extras =
     \<lparr>rp_status = status, rp_content = Json (JObj (problem_body h corr status code title extras)),
      rp_headers = (let hs = problem_headers code extras
                    in if status = 401 then dset_default ''WWW-Authenticate'' ''Bearer'' hs else hs)\<rparr>"

text \<open>
  What the client is sent for a request, and the state that the request leaves. An exception that is no problem is
  handled outside the middleware that set the correlation identifier, so its reply bears a fresh one.
\<close>

fun problem_of :: "exn \<Rightarrow> (int \<times> string \<times> string \<times> jdict) option" where
  "problem_of (APIProblem status code title extras) = Some (status, code, title, extras)"
| "problem_of _ = None"

definition respond ::
  "http \<Rightarrow> string \<Rightarrow> string \<Rightarrow> (durable_world, reply) py \<Rightarrow> durable_world \<Rightarrow> reply \<times> durable_world" where
  "respond h corr fresh m d =
     (case m d of
        (Inr r, d') \<Rightarrow> (correlated corr r, d')
      | (Inl e, d') \<Rightarrow>
          (case problem_of e of
             Some (status, code, title, extras) \<Rightarrow> (correlated corr (problem_reply h corr status code title extras), d')
           | None \<Rightarrow> (problem_reply h (''corr_'' @ fresh) 500 ''internal_error'' ''Internal server error'' [], d')))"

definition json_reply :: "json \<Rightarrow> (string \<times> string) list \<Rightarrow> reply" where
  "json_reply v hs = \<lparr>rp_status = 200, rp_content = Json v, rp_headers = hs\<rparr>"

definition not_found_problem :: "string \<Rightarrow> exn" where
  "not_found_problem resource = APIProblem 404 ''not_found'' (resource @ '' not found'') []"

section \<open>Addresses\<close>

definition origin_identity :: "http \<Rightarrow> string \<Rightarrow> (string \<times> string \<times> int) option" where
  "origin_identity h value =
     (case ht_urlsplit h value of
        None \<Rightarrow> None
      | Some parsed \<Rightarrow>
          (case url_port parsed of
             Inl e \<Rightarrow> None
           | Inr port \<Rightarrow>
               let scheme = py_lower (url_scheme parsed);
                   hostname = py_lower (case url_hostname parsed of None \<Rightarrow> [] | Some s \<Rightarrow> s)
               in if scheme \<notin> {''http'', ''https''} \<or> hostname = [] \<or> url_username parsed \<noteq> None
                     \<or> url_password parsed \<noteq> None \<or> url_path parsed \<notin> {[], ''/''}
                     \<or> url_query parsed \<noteq> [] \<or> url_fragment parsed \<noteq> []
                  then None
                  else Some (scheme, hostname,
                         case port of Some n \<Rightarrow> if n = 0 then (if scheme = ''https'' then 443 else 80) else n
                         | None \<Rightarrow> if scheme = ''https'' then 443 else 80)))"

definition without_slash :: "string \<Rightarrow> string" where
  "without_slash s = py_rstrip (CHR ''/'') (py_strip s)"

definition configured_origins :: "http \<Rightarrow> string list" where
  "configured_origins h =
     (let primary = without_slash (ht_public_base_url h)
      in (if primary = [] then [] else [primary]) @
         map without_slash (filter (\<lambda>s. py_strip s \<noteq> []) (py_split (CHR '','') (ht_public_base_urls h))))"

definition public_base_url :: "http \<Rightarrow> api_request \<Rightarrow> string" where
  "public_base_url h rq =
     (let primary = without_slash (ht_public_base_url h);
          requested = py_rstrip (CHR ''/'') (rq_base_url rq);
          origin = origin_identity h requested
      in case find (\<lambda>candidate. origin_identity h candidate = origin) (first_occurrences (configured_origins h)) of
           Some candidate \<Rightarrow> candidate
         | None \<Rightarrow> if primary = [] then requested else primary)"

section \<open>The signing secret of download tickets\<close>

definition insecure_ticket_secrets :: "string list" where
  "insecure_ticket_secrets =
     [''replace-with-an-independent-random-secret'', ''change-this-ticket-secret-before-deployment'']"

definition configured_ticket_secret :: "environ \<Rightarrow> bool \<Rightarrow> exn + string option" where
  "configured_ticket_secret env required =
     (case map_of env ''AUTOML_TICKET_SECRET'' of
        Some secret \<Rightarrow>
          if py_strip secret \<noteq> []
          then (case validate_shared_secret ''AUTOML_TICKET_SECRET'' insecure_ticket_secrets secret of
                  Inr s \<Rightarrow> Inr (Some s)
                | Inl e \<Rightarrow> Inl (AuthConfig ''AUTOML_TICKET_SECRET is not production-safe.''))
          else if required then Inl (AuthConfig ''AUTOML_TICKET_SECRET is required in production mode.'')
          else Inr None
      | None \<Rightarrow>
          if required then Inl (AuthConfig ''AUTOML_TICKET_SECRET is required in production mode.'') else Inr None)"

text \<open>\<open>persisted\<close> is the content of the file, if it exists; the second component what is written to it.\<close>

definition load_or_create_ticket_secret :: "string \<Rightarrow> string option \<Rightarrow> exn + (string \<times> string option)" where
  "load_or_create_ticket_secret random persisted =
     (case persisted of
        None \<Rightarrow> Inr (random, Some random)
      | Some secret \<Rightarrow>
          (case validate_shared_secret ''Persisted ticket signing secret'' [] secret of
             Inr s \<Rightarrow> Inr (s, None)
           | Inl e \<Rightarrow> Inl (AuthConfig ''The persisted ticket signing secret is not production-safe.'')))"

section \<open>Headers and filters\<close>

definition csv_values :: "string option \<Rightarrow> exn + string list option" where
  "csv_values value =
     (case value of
        None \<Rightarrow> Inr None
      | Some s \<Rightarrow>
          let values = sort (remdups (filter (\<lambda>t. t \<noteq> []) (map py_strip (py_split (CHR '','') s))))
          in if values = [] then Inl (APIProblem 400 ''invalid_filter'' ''Invalid filter'' []) else Inr (Some values))"

definition validate_filter :: "string list option \<Rightarrow> string list \<Rightarrow> exn + string list option" where
  "validate_filter values allowed =
     (let invalid = filter (\<lambda>v. v \<notin> set allowed) (case values of None \<Rightarrow> [] | Some vs \<Rightarrow> vs)
      in if invalid \<noteq> [] then Inl (APIProblem 400 ''invalid_filter'' ''Invalid filter'' []) else Inr values)"

definition run_statuses :: "string list" where
  "run_statuses = [''QUEUED'', ''RUNNING'', ''WAITING_USER'', ''WAITING_APPROVAL'', ''PAUSE_REQUESTED'', ''PAUSED'',
     ''RETRYING'', ''CANCEL_REQUESTED'', ''TERMINAL'']"

definition output_types :: "string list" where
  "output_types = [''DATA_QUALITY_REPORT'', ''TASK_SPEC'', ''SPLIT_MANIFEST'', ''BASELINE_RESULT'', ''COST_ESTIMATE'',
     ''TRIAL_RESULT'', ''EVALUATION_REPORT'', ''LOG_SUMMARY'', ''MODEL_CARD'', ''RUN_REPORT'', ''FAILURE_REPORT'']"

definition output_states :: "string list" where
  "output_states = [''PARTIAL'', ''FINAL'']"

definition packet_statuses :: "string list" where
  "packet_statuses = [''OPEN'', ''ANSWERED'', ''EXPIRED'', ''SUPERSEDED'']"

definition delivery_statuses :: "string list" where
  "delivery_statuses = [''PENDING'', ''DELIVERING'', ''SUCCEEDED'', ''RETRYING'', ''EXHAUSTED'']"

definition in_quotes :: "string \<Rightarrow> string" where
  "in_quotes s = [quote_char] @ s @ [quote_char]"

definition revision_etag :: "int \<Rightarrow> string" where
  "revision_etag revision = in_quotes (int_str revision)"

definition representation_etag :: "http \<Rightarrow> json \<Rightarrow> string" where
  "representation_etag h value = in_quotes (ht_digest h (ht_dumps h (canon value)))"

definition has_suffix :: "string \<Rightarrow> string \<Rightarrow> bool" where
  "has_suffix s t \<longleftrightarrow> drop (length s - length t) s = t"

definition webhook_route_shape :: "string \<Rightarrow> string" where
  "webhook_route_shape remaining =
     (if remaining \<in> {[], ''/''} then remaining
      else case filter (\<lambda>s. s \<noteq> []) (py_split (CHR ''/'') remaining) of
             [a] \<Rightarrow>
               if has_suffix a '':rotate-secret'' then ''/{id}:rotate-secret''
               else if has_suffix a '':enable'' then ''/{id}:enable''
               else ''/{id}''
           | [a, b] \<Rightarrow> if b = ''deliveries'' then ''/{id}/deliveries'' else remaining
           | [a, b, c] \<Rightarrow>
               if b = ''deliveries''
               then (if has_suffix c '':redeliver'' then ''/{id}/deliveries/{id}:redeliver'' else ''/{id}/deliveries/{id}'')
               else remaining
           | _ \<Rightarrow> remaining)"

section \<open>Byte ranges\<close>

definition invalid_range :: exn where
  "invalid_range = APIProblem 416 ''invalid_range'' ''Invalid Range'' []"

definition unsatisfiable_range :: "int \<Rightarrow> exn" where
  "unsatisfiable_range n =
     APIProblem 416 ''range_not_satisfiable'' ''Range not satisfiable''
       [(''content_range'', JStr (''bytes */'' @ int_str n))]"

text \<open>The first and last byte that the two texts around the dash ask for.\<close>

definition range_bounds :: "string \<Rightarrow> string \<Rightarrow> int \<Rightarrow> (int \<times> int) option" where
  "range_bounds start_text end_text n =
     (if start_text \<noteq> []
      then (case parse_int start_text of
              None \<Rightarrow> None
            | Some a \<Rightarrow> if end_text = [] then Some (a, n - 1)
                else map_option (\<lambda>b. (a, b)) (parse_int end_text))
      else case parse_int end_text of
             None \<Rightarrow> None
           | Some suffix \<Rightarrow> if suffix \<le> 0 then None else Some (max 0 (n - suffix), n - 1))"

definition parse_byte_range :: "string option \<Rightarrow> int \<Rightarrow> exn + (int \<times> int) option" where
  "parse_byte_range value n =
     (case value of
        None \<Rightarrow> Inr None
      | Some s \<Rightarrow>
          if take 6 s \<noteq> ''bytes='' \<or> CHR '','' \<in> set s then Inl invalid_range
          else let spec = drop 6 s;
                   start_text = takeWhile (\<lambda>c. c \<noteq> CHR ''-'') spec;
                   rest = dropWhile (\<lambda>c. c \<noteq> CHR ''-'') spec;
                   end_text = drop 1 rest
               in if rest = [] \<or> (start_text = [] \<and> end_text = []) then Inl invalid_range
                  else case range_bounds start_text end_text n of
                         None \<Rightarrow> Inl invalid_range
                       | Some (a, b) \<Rightarrow>
                           if a < 0 \<or> b < a \<or> n \<le> a then Inl (unsatisfiable_range n)
                           else Inr (Some (a, min b (n - 1))))"

section \<open>Public views\<close>

definition hidden_endpoint_fields :: "string list" where
  "hidden_endpoint_fields = [''tenant_id'', ''signing_secret'', ''previous_signing_secret'', ''previous_secret_valid_until'']"

definition public_webhook_endpoint :: "jdict \<Rightarrow> jdict" where
  "public_webhook_endpoint endpoint = filter (\<lambda>(k, v). k \<notin> set hidden_endpoint_fields) endpoint"

definition public_webhook_delivery :: "jdict \<Rightarrow> jdict" where
  "public_webhook_delivery delivery = without_tenant delivery"

definition public_approval :: "jdict \<Rightarrow> jdict" where
  "public_approval approval = without_tenant approval"

definition public_model :: "jdict \<Rightarrow> jdict" where
  "public_model model = without_tenant model"

definition public_deletion :: "jdict \<Rightarrow> jdict" where
  "public_deletion deletion = without_tenant deletion"

section \<open>Deadlines, approvals, stages\<close>

text \<open>\<open>raw.replace("Z", "+00:00")\<close>.\<close>

definition with_offset :: "string \<Rightarrow> string" where
  "with_offset raw = concat (map (\<lambda>c. if c = CHR ''Z'' then ''+00:00'' else [c]) raw)"

definition approval_expired :: exn where
  "approval_expired = APIProblem 409 ''approval_expired'' ''Approval is expired'' []"

text \<open>The instant, and whether it has a time zone: comparing one without to \<open>utcnow()\<close> is a \<open>TypeError\<close>.\<close>

definition approval_expires_at :: "http \<Rightarrow> jdict \<Rightarrow> exn + (rat \<times> bool)" where
  "approval_expires_at h approval =
     (case dget approval ''expires_at'' of
        JStr raw \<Rightarrow> (case ht_parse_time h (with_offset raw) of None \<Rightarrow> Inl approval_expired | Some t \<Rightarrow> Inr t)
      | _ \<Rightarrow> Inl approval_expired)"

definition redelivery_expired :: exn where
  "redelivery_expired = APIProblem 410 ''webhook_redelivery_expired'' ''Webhook redelivery window expired'' []"

definition webhook_redelivery_deadline :: "http \<Rightarrow> jdict \<Rightarrow> exn + rat" where
  "webhook_redelivery_deadline h delivery =
     (case dget delivery ''redeliver_until'' of
        JStr raw \<Rightarrow>
          (case ht_parse_time h (with_offset raw) of
             Some (t, zoned) \<Rightarrow> if zoned then Inr t else Inl redelivery_expired
           | None \<Rightarrow> Inl redelivery_expired)
      | _ \<Rightarrow> Inl redelivery_expired)"

definition require_human_approval :: "principal \<Rightarrow> exn + unit" where
  "require_human_approval p =
     (if authentication_mode p = ''production'' \<and> actor_type p \<noteq> ''human''
      then Inl (APIProblem 403 ''human_approval_required'' ''Human approval required'' []) else Inr ())"

definition completed_stage :: "string \<Rightarrow> jdict \<Rightarrow> jdict" where
  "completed_stage completed_at entry =
     (if dget entry ''status'' = JStr ''COMPLETED'' \<or> dget entry ''status'' = JStr ''SKIPPED'' then entry
      else dupdate entry [(''status'', JStr ''COMPLETED''), (''completed_at'', JStr completed_at),
             (''message'', JStr ''Completed after production approval decision'')])"

definition completed_stages :: "string \<Rightarrow> json \<Rightarrow> exn + json" where
  "completed_stages completed_at v =
     exn_bind (dicts v) (\<lambda>ds. Inr (JArr (map (\<lambda>d. JObj (completed_stage completed_at d)) ds)))"

section \<open>Cursors\<close>

definition event_cursor_expired :: "string \<Rightarrow> int \<Rightarrow> int \<Rightarrow> exn" where
  "event_cursor_expired run_id retained_from position =
     APIProblem 410 ''cursor_expired'' ''Event cursor expired''
       [(''run_id'', JStr run_id), (''retained_from_seq'', JInt retained_from),
        (''lost_event_range'', JObj [(''from_seq'', JInt (position + 1)), (''through_seq'', JInt (retained_from - 1)),
           (''historical_events_recoverable'', JBool False)]),
        (''recovery'', JObj [(''action'', JStr ''GET_RUN_SNAPSHOT''), (''href'', JStr (run_href run_id))])]"

definition validate_cursor ::
  "http \<Rightarrow> string \<Rightarrow> string \<Rightarrow> principal \<Rightarrow> string option \<Rightarrow> exn + jdict" where
  "validate_cursor h cursor kind p parent_id =
     exn_bind (decode_cursor (ht_crypto h) (ht_cursor_secret h) cursor) (\<lambda>payload.
       if dget payload ''kind'' \<noteq> JStr kind \<or> dget payload ''tenant_id'' \<noteq> JStr (tenant_id p)
          \<or> (case parent_id of None \<Rightarrow> False | Some k \<Rightarrow> dget payload ''parent_id'' \<noteq> JStr k)
       then Inl invalid_cursor else Inr payload)"

definition new_cursor :: "http \<Rightarrow> jdict \<Rightarrow> string" where
  "new_cursor h payload = encode_cursor (ht_crypto h) (ht_dumps h) (ht_cursor_secret h) payload"

definition new_webhook_secret :: "string \<Rightarrow> string" where
  "new_webhook_secret random = py_rstrip (CHR ''='') (b64_encode random)"

section \<open>Authorization\<close>

definition authorize :: "principal \<Rightarrow> string \<Rightarrow> (durable_world, unit) py" where
  "authorize p operation_id = seq (lift (enforce_operation_scope p operation_id)) (\<lambda>_. ret ())"

end
