(* ===== verification/Http_Idempotent.thy ===== *)
theory Http_Idempotent
  imports Http_Base
begin

text \<open>
  The HTTP application, second part: \<open>_idempotent\<close> (app.py), which performs the body of a mutating request
  at most once per idempotency key, and the request as a state machine shared by all requests under
  one key. Elsewhere in the process other requests run: \<open>others k\<close> is what they do at the \<open>k\<close>-th
  point where this one waits.
\<close>

type_synonym outcome = "int \<times> json \<times> (string \<times> string) list"

definition visible_ascii :: "string \<Rightarrow> bool" where
  "visible_ascii key \<longleftrightarrow> list_all (\<lambda>c. 33 \<le> code_of c \<and> code_of c \<le> 126) key"

definition query_dict :: "(string \<times> string) list \<Rightarrow> jdict" where
  "query_dict items = fold (\<lambda>(k, v). dput k (JStr v)) (sort items) []"

definition fingerprint_of :: "http \<Rightarrow> api_request \<Rightarrow> json \<Rightarrow> string" where
  "fingerprint_of h rq payload =
     Protocol.request_fingerprint (ht_digest h) (ht_dumps h) (rq_method rq) (rq_path rq)
       (Some (query_dict (rq_query rq))) payload
       (Some (case rq_if_match rq of None \<Rightarrow> [] | Some v \<Rightarrow> [(''if-match'', JStr v)]))"

definition scoped_operation :: "principal \<Rightarrow> string \<Rightarrow> string" where
  "scoped_operation p operation_id = tenant_id p @ '':'' @ operation_id"

definition stored_http_response :: "stored_response \<Rightarrow> reply" where
  "stored_http_response stored =
     (let code = status_code stored
      in \<lparr>rp_status = code,
          rp_content = (if (100 \<le> code \<and> code < 200) \<or> code \<in> {204, 205, 304} then NoContent
                        else Json (stored_response.body stored)),
          rp_headers = headers stored\<rparr>)"

definition key_reused :: exn where
  "key_reused = APIProblem 409 ''idempotency_key_reused'' ''Idempotency-Key was reused'' []"

definition request_in_progress :: exn where
  "request_in_progress = APIProblem 409 ''idempotency_request_in_progress'' ''Request is still in progress'' []"

definition invalid_key :: exn where
  "invalid_key = APIProblem 400 ''invalid_idempotency_key'' ''Invalid Idempotency-Key'' []"

text \<open>Later headers replace earlier ones of the same name.\<close>

definition merge_headers :: "(string \<times> string) list \<Rightarrow> (string \<times> string) list \<Rightarrow> (string \<times> string) list" where
  "merge_headers hs more_headers = fold (\<lambda>(k, v). dput k v) more_headers hs"

definition success_response :: "string \<Rightarrow> outcome \<Rightarrow> stored_response" where
  "success_response corr r =
     \<lparr>status_code = fst r, body = fst (snd r),
      headers = merge_headers [(''X-Correlation-ID'', corr)] (snd (snd r))\<rparr>"

definition stored_problem :: "http \<Rightarrow> string \<Rightarrow> int \<Rightarrow> string \<Rightarrow> string \<Rightarrow> jdict \<Rightarrow> stored_response" where
  "stored_problem h corr status code title extras =
     \<lparr>status_code = status, body = JObj (problem_body h corr status code title extras),
      headers = merge_headers [(''Content-Type'', ''application/problem+json''), (''X-Correlation-ID'', corr)]
                  (problem_headers code extras)\<rparr>"

text \<open>
  The \<open>try\<close> block: the body and the storing of its outcome; a problem is an outcome as well, any
  other exception releases the key and is raised again.
\<close>

definition settle ::
  "http \<Rightarrow> (nat \<Rightarrow> durable_world \<Rightarrow> durable_world) \<Rightarrow> string \<Rightarrow> string \<Rightarrow> string \<Rightarrow> string
     \<Rightarrow> (durable_world, outcome) py \<Rightarrow> (durable_world, stored_response) py" where
  "settle h others corr operation key fp execute d =
     (case seq execute (\<lambda>r.
             seq (meanwhile others 2) (\<lambda>_.
               in_state (complete_idempotent_request operation key fp (success_response corr r)))) d of
        (Inr stored, d') \<Rightarrow> (Inr stored, d')
      | (Inl e, d') \<Rightarrow>
          (case problem_of e of
             Some (status, code, title, extras) \<Rightarrow>
               seq (meanwhile others 3) (\<lambda>_.
                 in_state (complete_idempotent_request operation key fp
                   (stored_problem h corr status code title extras))) d'
           | None \<Rightarrow>
               seq (meanwhile others 3) (\<lambda>_.
               seq (in_state (abort_idempotent_request operation key fp)) (\<lambda>_. raise e)) d'))"

definition idempotent ::
  "http \<Rightarrow> (nat \<Rightarrow> durable_world \<Rightarrow> durable_world) \<Rightarrow> string \<Rightarrow> principal \<Rightarrow> string \<Rightarrow> api_request \<Rightarrow> json
     \<Rightarrow> (durable_world, outcome) py \<Rightarrow> (durable_world, reply) py" where
  "idempotent h others operation_id p key rq payload execute =
     (let operation = scoped_operation p operation_id; fp = fingerprint_of h rq payload
      in seq (fail_if (\<not> visible_ascii key) invalid_key) (\<lambda>_.
         seq (in_state (begin_idempotent_request operation key fp)) (\<lambda>begun.
         seq (fail_if (idem_decision.state begun = CONFLICT) key_reused) (\<lambda>_.
         seq (if idem_decision.state begun = IN_PROGRESS
              then seq (meanwhile others 0) (\<lambda>_. in_state (get_idempotency operation key fp))
              else ret begun) (\<lambda>dec.
           case (idem_decision.state dec, replayed dec) of
             (REPLAY, Some stored) \<Rightarrow> ret (stored_http_response stored)
           | (NEW, _) \<Rightarrow>
               seq (meanwhile others 1) (\<lambda>_.
               seq (settle h others (rq_correlation_id rq) operation key fp execute) (\<lambda>stored.
                 ret (stored_http_response stored)))
           | (CONFLICT, _) \<Rightarrow> raise key_reused
           | _ \<Rightarrow> raise request_in_progress)))))"

end
