(* ===== verification/Http_Pages.thy ===== *)
theory Http_Pages
  imports Http_Idempotent
begin

text \<open>
  The HTTP application, third part: the listings (app.py), which hand out the items of a window page by
  page. A window is frozen by the first page and travels in the cursor; its upper end is an identifier
  (runs, decision packets, approvals, webhook endpoints and deliveries) or a number (events, outputs).
\<close>

section \<open>Windows of identifiers\<close>

record window =
  wn_position :: string
  wn_high_id :: string
  wn_high_watermark :: int
  wn_size :: int

definition page_size :: "int option \<Rightarrow> int" where
  "page_size limit = (case limit of None \<Rightarrow> 50 | Some n \<Rightarrow> if n = 0 then 50 else n)"

definition given :: "string option \<Rightarrow> bool" where
  "given cursor \<longleftrightarrow> cursor \<noteq> None \<and> cursor \<noteq> Some []"

text \<open>\<open>items.sort(key=lambda item: item[field])\<close>, with the keys.\<close>

definition sorted_by :: "string \<Rightarrow> jdict list \<Rightarrow> exn + (string \<times> jdict) list" where
  "sorted_by field items =
     exn_bind (traverse (\<lambda>d. exn_bind (string_of d field) (\<lambda>k. Inr (k, d))) items) (\<lambda>ks. Inr (sort_key fst ks))"

definition first_window :: "int option \<Rightarrow> (string \<times> jdict) list \<Rightarrow> window" where
  "first_window limit items =
     \<lparr>wn_position = [], wn_high_id = (if items = [] then [] else fst (last items)),
      wn_high_watermark = int (length items), wn_size = page_size limit\<rparr>"

definition cursor_problem :: exn where
  "cursor_problem = APIProblem 400 ''invalid_cursor'' ''Invalid cursor'' []"

text \<open>The window of a cursor; the two conversions stand in one order in some handlers and in the other elsewhere.\<close>

definition cursor_window :: "jdict \<Rightarrow> exn + window" where
  "cursor_window payload =
     exn_bind (py_int (dget_or payload ''high_watermark'' (JInt (-1)))) (\<lambda>high_watermark.
     exn_bind (py_int (dget_or payload ''limit'' (JInt 0))) (\<lambda>n.
       case (dget payload ''high_id'', dget payload ''position'') of
         (JStr high_id, JStr position) \<Rightarrow>
           if high_watermark < 0 \<or> n < 1 then Inl cursor_problem
           else Inr \<lparr>wn_position = position, wn_high_id = high_id, wn_high_watermark = high_watermark, wn_size = n\<rparr>
       | _ \<Rightarrow> Inl cursor_problem))"

definition within_window :: "window \<Rightarrow> (string \<times> jdict) list \<Rightarrow> (string \<times> jdict) list" where
  "within_window w items = filter (\<lambda>(k, d). wn_position w < k \<and> k \<le> wn_high_id w) items"

definition selected :: "window \<Rightarrow> (string \<times> jdict) list \<Rightarrow> (string \<times> jdict) list" where
  "selected w window_items = take (nat (wn_size w)) window_items"

definition has_more :: "window \<Rightarrow> (string \<times> jdict) list \<Rightarrow> bool" where
  "has_more w window_items \<longleftrightarrow> wn_size w < int (length window_items)"

text \<open>The payload of the next cursor; \<open>extra\<close> are the parent and the filters of the listing.\<close>

definition window_payload :: "string \<Rightarrow> principal \<Rightarrow> jdict \<Rightarrow> window \<Rightarrow> string \<Rightarrow> jdict" where
  "window_payload kind p extra w position =
     [(''kind'', JStr kind), (''tenant_id'', JStr (tenant_id p)), (''high_watermark'', JInt (wn_high_watermark w)),
      (''high_id'', JStr (wn_high_id w)), (''position'', JStr position), (''limit'', JInt (wn_size w))] @ extra"

definition page_info :: "string option \<Rightarrow> bool \<Rightarrow> int \<Rightarrow> json" where
  "page_info next_cursor more_items high_watermark =
     JObj [(''next_cursor'', optional_str next_cursor), (''has_more'', JBool more_items),
       (''high_watermark'', JInt high_watermark)]"

definition next_cursor :: "http \<Rightarrow> string \<Rightarrow> principal \<Rightarrow> jdict \<Rightarrow> window \<Rightarrow> (string \<times> jdict) list \<Rightarrow> string option" where
  "next_cursor h kind p extra w window_items =
     (if has_more w window_items
      then Some (new_cursor h (window_payload kind p extra w (fst (last (selected w window_items)))))
      else None)"

definition id_page ::
  "http \<Rightarrow> string \<Rightarrow> principal \<Rightarrow> jdict \<Rightarrow> window \<Rightarrow> (string \<times> jdict) list \<Rightarrow> jdict" where
  "id_page h kind p extra w window_items =
     [(''items'', JArr (map (\<lambda>(k, d). JObj d) (selected w window_items))),
      (''page'', page_info (next_cursor h kind p extra w window_items) (has_more w window_items) (wn_high_watermark w))]"

text \<open>\<open>item[field] in set(values)\<close>, where the values come from the query or from a cursor.\<close>

definition optional_list :: "string list option \<Rightarrow> json" where
  "optional_list vs = (case vs of None \<Rightarrow> JNull | Some ss \<Rightarrow> JArr (map JStr ss))"

fun keep_among :: "string \<Rightarrow> json list \<Rightarrow> (string \<times> jdict) list \<Rightarrow> exn + (string \<times> jdict) list" where
  "keep_among field allowed [] = Inr []"
| "keep_among field allowed ((k, d) # items) =
     exn_bind (item_of d field) (\<lambda>v.
     exn_bind (in_set v allowed) (\<lambda>b.
     exn_bind (keep_among field allowed items) (\<lambda>rest. Inr (if b then (k, d) # rest else rest))))"

definition keep_statuses :: "json \<Rightarrow> (string \<times> jdict) list \<Rightarrow> exn + (string \<times> jdict) list" where
  "keep_statuses statuses items =
     exn_bind (py_set statuses) (\<lambda>allowed. keep_among ''status'' allowed items)"

section \<open>Runs\<close>

definition only_cursor :: exn where
  "only_cursor = APIProblem 400 ''invalid_cursor'' ''Invalid cursor'' []"

definition runs_window ::
  "http \<Rightarrow> principal \<Rightarrow> string option \<Rightarrow> int option \<Rightarrow> string option \<Rightarrow> string list option \<Rightarrow> (string \<times> jdict) list
     \<Rightarrow> exn + (window \<times> json)" where
  "runs_window h p cursor limit status requested runs =
     (case cursor of
        Some c \<Rightarrow>
          if c = [] then Inr (first_window limit runs, optional_list requested)
          else if limit \<noteq> None \<or> status \<noteq> None then Inl only_cursor
          else exn_bind (validate_cursor h c ''runs'' p None) (\<lambda>payload.
               exn_bind (cursor_window payload) (\<lambda>w. Inr (w, dget payload ''statuses'')))
      | None \<Rightarrow> Inr (first_window limit runs, optional_list requested))"

definition runs_page ::
  "http \<Rightarrow> principal \<Rightarrow> string option \<Rightarrow> int option \<Rightarrow> string option \<Rightarrow> string list option \<Rightarrow> jdict list \<Rightarrow> exn + jdict" where
  "runs_page h p cursor limit status requested all_runs =
     exn_bind (sorted_by ''run_id'' all_runs) (\<lambda>runs.
     exn_bind (runs_window h p cursor limit status requested runs) (\<lambda>(w, statuses).
     exn_bind (if statuses = JNull then Inr (within_window w runs) else keep_statuses statuses (within_window w runs)) (\<lambda>items.
       Inr (id_page h ''runs'' p [(''statuses'', statuses)] w items))))"

definition validated_reply :: "http \<Rightarrow> string \<Rightarrow> bool \<Rightarrow> json \<Rightarrow> (string \<times> string) list \<Rightarrow> (durable_world, reply) py" where
  "validated_reply h model exclude_none v hs =
     seq (lift (ht_validated h model exclude_none v)) (\<lambda>shown. ret (json_reply shown hs))"

definition http_list_runs ::
  "http \<Rightarrow> principal \<Rightarrow> string option \<Rightarrow> int option \<Rightarrow> string option \<Rightarrow> (durable_world, reply) py" where
  "http_list_runs h p cursor limit status =
     seq (authorize p ''listRuns'') (\<lambda>_.
     seq (lift (exn_bind (csv_values status) (\<lambda>vs. validate_filter vs run_statuses))) (\<lambda>requested.
     seq (on_world (svc_list_runs p)) (\<lambda>all_runs.
     seq (lift (runs_page h p cursor limit status requested all_runs)) (\<lambda>pg.
       validated_reply h ''RunPage'' False (JObj pg) []))))"

section \<open>Decision packets\<close>

definition listed_packets :: "principal \<Rightarrow> string \<Rightarrow> json \<Rightarrow> (durable_world, (string \<times> jdict) list) py" where
  "listed_packets p run_id status =
     seq (on_world (svc_list_decision_packets p run_id (case status of JStr s \<Rightarrow> Some s | _ \<Rightarrow> None))) (\<lambda>packets.
       lift (sorted_by ''decision_packet_id'' packets))"

definition packets_page :: "http \<Rightarrow> principal \<Rightarrow> string \<Rightarrow> json \<Rightarrow> window \<Rightarrow> (string \<times> jdict) list \<Rightarrow> jdict" where
  "packets_page h p run_id status w packets =
     id_page h ''decision-packets'' p [(''parent_id'', JStr run_id), (''status'', status)] w (within_window w packets)"

definition http_list_decision_packets ::
  "http \<Rightarrow> principal \<Rightarrow> string \<Rightarrow> string option \<Rightarrow> string option \<Rightarrow> int option \<Rightarrow> (durable_world, reply) py" where
  "http_list_decision_packets h p run_id status cursor limit =
     seq (authorize p ''listDecisionPackets'') (\<lambda>_.
     seq (lift (case status of None \<Rightarrow> Inr None | Some s \<Rightarrow> validate_filter (Some [s]) packet_statuses)) (\<lambda>_.
     seq (listed_packets p run_id (optional_str status)) (\<lambda>packets.
     seq (if given cursor
          then seq (fail_if (status \<noteq> None \<or> limit \<noteq> None) only_cursor) (\<lambda>_.
               seq (lift (validate_cursor h (the cursor) ''decision-packets'' p (Some run_id))) (\<lambda>payload.
               seq (lift (cursor_window payload)) (\<lambda>w.
               seq (listed_packets p run_id (dget payload ''status'')) (\<lambda>packets.
                 ret (packets_page h p run_id (dget payload ''status'') w packets)))))
          else ret (packets_page h p run_id (optional_str status) (first_window limit packets) packets)) (\<lambda>pg.
       validated_reply h ''DecisionPacketPage'' True (JObj pg) []))))"

section \<open>Approvals\<close>

definition http_list_approvals ::
  "http \<Rightarrow> principal \<Rightarrow> string \<Rightarrow> string option \<Rightarrow> int option \<Rightarrow> (durable_world, reply) py" where
  "http_list_approvals h p run_id cursor limit =
     seq (authorize p ''listRunApprovals'') (\<lambda>_.
     seq (on_world (svc_get_run p run_id)) (\<lambda>_.
     seq (in_state (list_approvals run_id)) (\<lambda>found.
     seq (lift (sorted_by ''approval_id'' (map public_approval (of_tenant (tenant_id p) found)))) (\<lambda>approvals.
     seq (if given cursor
          then seq (fail_if (limit \<noteq> None) only_cursor) (\<lambda>_.
               seq (lift (validate_cursor h (the cursor) ''approvals'' p (Some run_id))) (\<lambda>payload.
                 lift (cursor_window payload)))
          else ret (first_window limit approvals)) (\<lambda>w.
       validated_reply h ''ApprovalPage'' False
         (JObj (id_page h ''approvals'' p [(''parent_id'', JStr run_id)] w (within_window w approvals))) [])))))"

section \<open>Webhook endpoints and deliveries\<close>

text \<open>Each endpoint is validated on its own; the page is not.\<close>

definition endpoints_page ::
  "http \<Rightarrow> principal \<Rightarrow> window \<Rightarrow> (string \<times> jdict) list \<Rightarrow> exn + json" where
  "endpoints_page h p w window_items =
     exn_bind (traverse (\<lambda>(k, d). ht_validated h ''WebhookEndpoint'' False (JObj d)) (selected w window_items)) (\<lambda>shown.
       Inr (JObj [(''items'', JArr shown),
         (''page'', page_info (next_cursor h ''webhook-endpoints'' p [] w window_items) (has_more w window_items)
            (wn_high_watermark w))]))"

definition http_list_webhook_endpoints ::
  "http \<Rightarrow> principal \<Rightarrow> string option \<Rightarrow> int option \<Rightarrow> (durable_world, reply) py" where
  "http_list_webhook_endpoints h p cursor limit =
     seq (authorize p ''listWebhookEndpoints'') (\<lambda>_.
     seq (in_state (list_webhook_endpoints (Some (tenant_id p)))) (\<lambda>found.
     seq (lift (sorted_by ''webhook_endpoint_id'' (map public_webhook_endpoint found))) (\<lambda>endpoints.
     seq (if given cursor
          then seq (fail_if (limit \<noteq> None) only_cursor) (\<lambda>_.
               seq (lift (validate_cursor h (the cursor) ''webhook-endpoints'' p None)) (\<lambda>payload.
                 lift (cursor_window payload)))
          else ret (first_window limit endpoints)) (\<lambda>w.
     seq (lift (endpoints_page h p w (within_window w endpoints))) (\<lambda>pg.
       ret (json_reply pg []))))))"

definition owned_endpoint :: "principal \<Rightarrow> string \<Rightarrow> (durable_world, jdict) py" where
  "owned_endpoint p endpoint_id =
     seq (in_state (get_webhook_endpoint endpoint_id)) (\<lambda>found. lift (owned found p))"

definition deliveries_window ::
  "http \<Rightarrow> principal \<Rightarrow> string \<Rightarrow> string option \<Rightarrow> int option \<Rightarrow> string option \<Rightarrow> string list option
     \<Rightarrow> (string \<times> jdict) list \<Rightarrow> exn + (window \<times> json \<times> (string \<times> jdict) list)" where
  "deliveries_window h p endpoint_id cursor limit status statuses deliveries =
     (if given cursor
      then if limit \<noteq> None \<or> status \<noteq> None then Inl only_cursor
           else exn_bind (validate_cursor h (the cursor) ''webhook-deliveries'' p (Some endpoint_id)) (\<lambda>payload.
                exn_bind (cursor_window payload) (\<lambda>w.
                let statuses = dget payload ''statuses''
                in exn_bind (if py_truthy statuses then keep_statuses statuses deliveries else Inr deliveries) (\<lambda>ds.
                     Inr (w, statuses, ds))))
      else Inr (first_window limit deliveries, optional_list statuses, deliveries))"

definition http_list_webhook_deliveries ::
  "http \<Rightarrow> principal \<Rightarrow> string \<Rightarrow> string option \<Rightarrow> int option \<Rightarrow> string option \<Rightarrow> (durable_world, reply) py" where
  "http_list_webhook_deliveries h p endpoint_id cursor limit status =
     seq (authorize p ''listWebhookDeliveries'') (\<lambda>_.
     seq (owned_endpoint p endpoint_id) (\<lambda>endpoint.
     seq (lift (string_of endpoint ''webhook_endpoint_id'')) (\<lambda>found_id.
     seq (in_state (list_webhook_deliveries found_id)) (\<lambda>found.
     seq (lift (csv_values status)) (\<lambda>statuses.
     seq (lift (if statuses = None then Inr None else validate_filter statuses delivery_statuses)) (\<lambda>_.
     seq (lift (exn_bind (sorted_by ''delivery_id'' (map public_webhook_delivery (of_tenant (tenant_id p) found))) (\<lambda>ds.
            if statuses = None then Inr ds else keep_statuses (optional_list statuses) ds))) (\<lambda>deliveries.
     seq (lift (deliveries_window h p endpoint_id cursor limit status statuses deliveries))
       (\<lambda>(w, filters, deliveries).
       validated_reply h ''WebhookDeliveryPage'' False
         (JObj (id_page h ''webhook-deliveries'' p [(''parent_id'', JStr endpoint_id), (''statuses'', filters)] w
            (within_window w deliveries))) []))))))))"

section \<open>Events\<close>

definition legacy_failure :: "jdict \<Rightarrow> exn + bool" where
  "legacy_failure event =
     (if dget event ''type'' \<noteq> JStr ''run.failed.v1'' then Inr False
      else exn_bind (object_get event ''payload'') (\<lambda>payload. Inr (\<not> has_key payload ''retriable'')))"

definition with_retriable :: "bool \<Rightarrow> jdict \<Rightarrow> exn + jdict" where
  "with_retriable retriable event =
     exn_bind (legacy_failure event) (\<lambda>legacy.
       if legacy then exn_bind (object_at event ''payload'') (\<lambda>payload.
         Inr (dput ''payload'' (JObj (dput ''retriable'' (JBool retriable) payload)) event))
       else Inr event)"

definition result_retriable :: "jdict option \<Rightarrow> exn + bool" where
  "result_retriable found =
     (case found of
        None \<Rightarrow> Inr False
      | Some r \<Rightarrow> exn_bind (object_get r ''reason'') (\<lambda>reason.
          Inr (case dget_or reason ''retriable'' (JBool False) of JBool b \<Rightarrow> b | _ \<Rightarrow> False)))"

definition public_run_events ::
  "string \<Rightarrow> int \<Rightarrow> string list option \<Rightarrow> (durable_world, jdict list) py" where
  "public_run_events run_id after_seq types =
     seq (in_state (get_events run_id after_seq None types)) (\<lambda>events.
     seq (lift (traverse legacy_failure events)) (\<lambda>legacy.
     if \<not> list_ex id legacy then ret events
     else seq (in_state (get_result run_id)) (\<lambda>found.
          seq (lift (result_retriable found)) (\<lambda>retriable.
            lift (traverse (with_retriable retriable) events)))))"

record number_window =
  nw_position :: int
  nw_high_watermark :: int
  nw_size :: int

definition number_window_of :: "jdict \<Rightarrow> exn + number_window" where
  "number_window_of payload =
     exn_bind (py_int (dget_or payload ''position'' (JInt (-1)))) (\<lambda>position.
     exn_bind (py_int (dget_or payload ''high_watermark'' (JInt (-1)))) (\<lambda>high_watermark.
     exn_bind (py_int (dget_or payload ''limit'' (JInt 0))) (\<lambda>n.
       if position < 0 \<or> high_watermark < 0 \<or> n < 1 then Inl cursor_problem
       else Inr \<lparr>nw_position = position, nw_high_watermark = high_watermark, nw_size = n\<rparr>)))"

text \<open>The filters that a cursor carries: a list of strings, or none.\<close>

definition filters_of :: "json \<Rightarrow> exn + string list option" where
  "filters_of v =
     (case v of
        JNull \<Rightarrow> Inr None
      | JArr xs \<Rightarrow> exn_bind (traverse as_str xs) (\<lambda>ss. Inr (Some ss))
      | _ \<Rightarrow> Inl TypeError)"

definition events_window ::
  "http \<Rightarrow> principal \<Rightarrow> string \<Rightarrow> string option \<Rightarrow> int option \<Rightarrow> int option \<Rightarrow> string option \<Rightarrow> string list option
     \<Rightarrow> int \<Rightarrow> jdict \<Rightarrow> exn + (number_window \<times> string list option)" where
  "events_window h p run_id cursor after_seq limit types event_types retained_from snapshot =
     (if given cursor
      then if after_seq \<noteq> None \<or> limit \<noteq> None \<or> types \<noteq> None then Inl only_cursor
           else exn_bind (validate_cursor h (the cursor) ''events'' p (Some run_id)) (\<lambda>payload.
                exn_bind (number_window_of payload) (\<lambda>w.
                exn_bind (filters_of (dget payload ''types'')) (\<lambda>ts. Inr (w, ts))))
      else exn_bind (int_of snapshot ''snapshot_seq'') (\<lambda>snapshot_seq.
           Inr (\<lparr>nw_position = (case after_seq of None \<Rightarrow> max 0 (retained_from - 1) | Some n \<Rightarrow> n),
                 nw_high_watermark = snapshot_seq, nw_size = page_size limit\<rparr>, event_types)))"

text \<open>The items of a window with their numbers: each page takes a prefix, the cursor its last number.\<close>

definition number_page ::
  "http \<Rightarrow> (int \<Rightarrow> jdict) \<Rightarrow> number_window \<Rightarrow> (int \<times> jdict) list \<Rightarrow> (int \<times> jdict) list \<times> string option" where
  "number_page h payload w candidates =
     (let chosen = take (nat (nw_size w)) candidates
      in (chosen, if nw_size w < int (length candidates) then Some (new_cursor h (payload (fst (last chosen)))) else None))"

definition numbered :: "string \<Rightarrow> jdict list \<Rightarrow> exn + (int \<times> jdict) list" where
  "numbered field items = traverse (\<lambda>d. exn_bind (int_of d field) (\<lambda>n. Inr (n, d))) items"

definition events_payload ::
  "principal \<Rightarrow> string \<Rightarrow> string list option \<Rightarrow> number_window \<Rightarrow> int \<Rightarrow> jdict" where
  "events_payload p run_id event_types w position =
     [(''kind'', JStr ''events''), (''tenant_id'', JStr (tenant_id p)), (''parent_id'', JStr run_id),
      (''position'', JInt position), (''high_watermark'', JInt (nw_high_watermark w)), (''limit'', JInt (nw_size w)),
      (''types'', optional_list event_types)]"

definition events_page ::
  "http \<Rightarrow> principal \<Rightarrow> string \<Rightarrow> int \<Rightarrow> number_window \<Rightarrow> string list option \<Rightarrow> jdict list \<Rightarrow> exn + jdict" where
  "events_page h p run_id retained_from w event_types events =
     exn_bind (numbered ''seq'' events) (\<lambda>items.
     let (chosen, cursor) = number_page h (events_payload p run_id event_types w) w
           (filter (\<lambda>(n, e). n \<le> nw_high_watermark w) items)
     in Inr [(''items'', JArr (map (\<lambda>(n, e). JObj e) chosen)), (''next_cursor'', optional_str cursor),
             (''high_watermark'', JInt (nw_high_watermark w)), (''retained_from_seq'', JInt retained_from)])"

text \<open>The answer of \<open>read_run_events\<close> to a request for JSON.\<close>

definition read_event_page ::
  "http \<Rightarrow> principal \<Rightarrow> string \<Rightarrow> jdict \<Rightarrow> int \<Rightarrow> int option \<Rightarrow> string option \<Rightarrow> int option \<Rightarrow> string option
     \<Rightarrow> string list option \<Rightarrow> (durable_world, reply) py" where
  "read_event_page h p run_id snapshot retained_from after_seq cursor limit types event_types =
     seq (lift (events_window h p run_id cursor after_seq limit types event_types retained_from snapshot)) (\<lambda>(w, event_types).
     seq (fail_if (nw_position w < max 0 (retained_from - 1))
            (event_cursor_expired run_id retained_from (nw_position w))) (\<lambda>_.
     seq (public_run_events run_id (nw_position w) event_types) (\<lambda>events.
     seq (lift (events_page h p run_id retained_from w event_types events)) (\<lambda>pg.
       validated_reply h ''RunEventPage'' False (JObj pg) []))))"

section \<open>Outputs\<close>

record output_filters =
  of_types :: json
  of_phases :: json
  of_state :: json

definition outputs_window ::
  "http \<Rightarrow> principal \<Rightarrow> string \<Rightarrow> string option \<Rightarrow> int option \<Rightarrow> bool \<Rightarrow> output_filters \<Rightarrow> jdict
     \<Rightarrow> exn + (number_window \<times> output_filters)" where
  "outputs_window h p run_id cursor limit filtered filters snapshot =
     (if given cursor
      then if limit \<noteq> None \<or> filtered then Inl only_cursor
           else exn_bind (validate_cursor h (the cursor) ''outputs'' p (Some run_id)) (\<lambda>payload.
                exn_bind (number_window_of payload) (\<lambda>w.
                  Inr (w, \<lparr>of_types = dget payload ''types'', of_phases = dget payload ''phases'',
                           of_state = dget payload ''state''\<rparr>)))
      else exn_bind (int_of snapshot ''snapshot_seq'') (\<lambda>snapshot_seq.
             Inr (\<lparr>nw_position = 0, nw_high_watermark = snapshot_seq, nw_size = page_size limit\<rparr>, filters)))"

definition allowed_set :: "json \<Rightarrow> exn + json list" where
  "allowed_set v = (if py_truthy v then py_set v else Inr [])"

definition passes_filter :: "json list \<Rightarrow> jdict \<Rightarrow> string \<Rightarrow> exn + bool" where
  "passes_filter allowed d field =
     (if allowed = [] then Inr True else exn_bind (item_of d field) (\<lambda>v. in_set v allowed))"

definition output_selected ::
  "number_window \<Rightarrow> json list \<Rightarrow> json list \<Rightarrow> json \<Rightarrow> int \<times> jdict \<Rightarrow> exn + bool" where
  "output_selected w types phase_list wanted_state x =
     (let (n, d) = x
      in if \<not> (nw_position w < n \<and> n \<le> nw_high_watermark w) then Inr False
         else exn_bind (passes_filter types d ''type'') (\<lambda>a.
              if \<not> a then Inr False
              else exn_bind (passes_filter phase_list d ''phase'') (\<lambda>b.
                   if \<not> b then Inr False
                   else if wanted_state = JNull then Inr True
                   else exn_bind (item_of d ''state'') (\<lambda>v. Inr (py_eq v wanted_state)))))"

fun filter_exn :: "('a \<Rightarrow> exn + bool) \<Rightarrow> 'a list \<Rightarrow> exn + 'a list" where
  "filter_exn c [] = Inr []"
| "filter_exn c (x # xs) =
     exn_bind (c x) (\<lambda>b. exn_bind (filter_exn c xs) (\<lambda>ys. Inr (if b then x # ys else ys)))"

definition outputs_payload ::
  "principal \<Rightarrow> string \<Rightarrow> output_filters \<Rightarrow> number_window \<Rightarrow> int \<Rightarrow> jdict" where
  "outputs_payload p run_id filters w position =
     [(''kind'', JStr ''outputs''), (''tenant_id'', JStr (tenant_id p)), (''parent_id'', JStr run_id),
      (''position'', JInt position), (''high_watermark'', JInt (nw_high_watermark w)), (''limit'', JInt (nw_size w)),
      (''types'', of_types filters), (''phases'', of_phases filters), (''state'', of_state filters)]"

definition outputs_page ::
  "http \<Rightarrow> principal \<Rightarrow> string \<Rightarrow> number_window \<Rightarrow> output_filters \<Rightarrow> jdict list \<Rightarrow> exn + jdict" where
  "outputs_page h p run_id w filters outputs =
     exn_bind (in_order (sv_env (ht_service h)) outputs) (\<lambda>ordered.
     exn_bind (allowed_set (of_types filters)) (\<lambda>types.
     exn_bind (allowed_set (of_phases filters)) (\<lambda>phase_list.
     exn_bind (numbered ''created_seq'' ordered) (\<lambda>items.
     exn_bind (filter_exn (output_selected w types phase_list (of_state filters)) items) (\<lambda>candidates.
     let (chosen, cursor) = number_page h (outputs_payload p run_id filters w) w candidates
     in Inr [(''items'', JArr (map (\<lambda>(n, d). JObj d) chosen)),
             (''page'', page_info cursor (cursor \<noteq> None) (nw_high_watermark w))])))))"

definition http_list_outputs ::
  "http \<Rightarrow> principal \<Rightarrow> string \<Rightarrow> string option \<Rightarrow> int option \<Rightarrow> string option \<Rightarrow> string option \<Rightarrow> string option
     \<Rightarrow> (durable_world, reply) py" where
  "http_list_outputs h p run_id cursor limit types phase_list wanted_state =
     seq (authorize p ''listRunOutputs'') (\<lambda>_.
     seq (on_world (svc_get_run p run_id)) (\<lambda>snapshot.
     seq (lift (exn_bind (csv_values types) (\<lambda>vs. validate_filter vs output_types))) (\<lambda>requested_types.
     seq (lift (exn_bind (csv_values phase_list) (\<lambda>vs. validate_filter vs phases))) (\<lambda>requested_phases.
     seq (lift (case wanted_state of None \<Rightarrow> Inr None | Some s \<Rightarrow> validate_filter (Some [s]) output_states)) (\<lambda>_.
     seq (lift (outputs_window h p run_id cursor limit (types \<noteq> None \<or> phase_list \<noteq> None \<or> wanted_state \<noteq> None)
            \<lparr>of_types = optional_list requested_types, of_phases = optional_list requested_phases,
             of_state = optional_str wanted_state\<rparr> snapshot)) (\<lambda>(w, filters).
     seq (on_world (svc_list_outputs p run_id)) (\<lambda>outputs.
     seq (lift (outputs_page h p run_id w filters outputs)) (\<lambda>pg.
       validated_reply h ''OutputPage'' False (JObj pg) []))))))))"

end
