(* ===== verification/Http_Stream.thy ===== *)
theory Http_Stream
  imports Http_Pages
begin

text \<open>
  The HTTP application, fourth part: the event stream of a run and the bytes of an artifact (app.py).

  A stream is a generator, so its state holds what it has sent. One turn is one pass through the loop of
  \<open>sse_stream\<close>. \<open>se_due k\<close> says whether thirty seconds have passed since the last authorization at the
  \<open>k\<close>-th test, \<open>se_wakes k\<close> how often the wait that follows the \<open>k\<close>-th test is woken before its timeout, and
  \<open>se_others k\<close> is what the rest of the process does between the \<open>k\<close>-th test and the next. The count of
  open streams (\<open>enter_stream\<close> and \<open>leave_stream\<close>) is the subject of \<open>Hardening\<close>.
\<close>

section \<open>The event stream\<close>

datatype frame = EventFrame jdict | Heartbeat

record stream_env =
  se_due :: "nat \<Rightarrow> bool"
  se_wakes :: "nat \<Rightarrow> nat"
  se_others :: "nat \<Rightarrow> durable_world \<Rightarrow> durable_world"

record stream_state =
  ss_world :: durable_world
  ss_ticks :: nat
  ss_position :: int
  ss_frames :: "frame list"

definition on_stream :: "(durable_world, 'a) py \<Rightarrow> (stream_state, 'a) py" where
  "on_stream m s = (case m (ss_world s) of (r, d) \<Rightarrow> (r, s\<lparr>ss_world := d\<rparr>))"

definition send :: "frame \<Rightarrow> (stream_state, unit) py" where
  "send f = modify (ss_frames_update (\<lambda>fs. fs @ [f]))"

text \<open>The rest of the process goes on; the counter of the tests advances.\<close>

definition elapse :: "stream_env \<Rightarrow> (stream_state, nat) py" where
  "elapse se s =
     (Inr (ss_ticks s), s\<lparr>ss_world := se_others se (ss_ticks s) (ss_world s), ss_ticks := Suc (ss_ticks s)\<rparr>)"

definition reauthorize :: "stream_env \<Rightarrow> principal \<Rightarrow> string \<Rightarrow> (stream_state, unit) py" where
  "reauthorize se p run_id =
     seq (elapse se) (\<lambda>k.
       if se_due se k then seq (on_stream (on_world (svc_get_run p run_id))) (\<lambda>_. ret ()) else ret ())"

text \<open>\<open>allowed is not None and event["type"] not in allowed\<close>.\<close>

definition stream_wants :: "string list option \<Rightarrow> jdict \<Rightarrow> exn + bool" where
  "stream_wants types event =
     (case types of
        None \<Rightarrow> Inr True
      | Some ts \<Rightarrow> exn_bind (item_of event ''type'') (\<lambda>v. in_set v (map JStr ts)))"

definition send_event ::
  "stream_env \<Rightarrow> principal \<Rightarrow> string \<Rightarrow> string list option \<Rightarrow> jdict \<Rightarrow> (stream_state, unit) py" where
  "send_event se p run_id types event =
     seq (reauthorize se p run_id) (\<lambda>_.
     seq (lift (int_of event ''seq'')) (\<lambda>n.
     seq (modify (ss_position_update (\<lambda>position. max position n))) (\<lambda>_.
     seq (lift (stream_wants types event)) (\<lambda>wanted.
       if wanted then send (EventFrame event) else ret ()))))"

text \<open>
  The wait of the store: it ends with events, or with none after the timeout. A wake-up that finds no
  events after the position goes back to waiting.
\<close>

fun woken :: "stream_env \<Rightarrow> string \<Rightarrow> int \<Rightarrow> nat \<Rightarrow> (stream_state, jdict list) py" where
  "woken se run_id after_seq 0 = seq (elapse se) (\<lambda>_. ret [])"
| "woken se run_id after_seq (Suc n) =
     seq (elapse se) (\<lambda>_.
     seq (on_stream (in_state (get_events run_id after_seq None None))) (\<lambda>events.
       if events \<noteq> [] then ret events else woken se run_id after_seq n))"

definition wait_for_events :: "stream_env \<Rightarrow> string \<Rightarrow> int \<Rightarrow> (stream_state, jdict list) py" where
  "wait_for_events se run_id after_seq =
     seq (on_stream (in_state (get_events run_id after_seq None None))) (\<lambda>events.
       if events \<noteq> [] then ret events
       else seq (gets ss_ticks) (\<lambda>k. woken se run_id after_seq (se_wakes se k)))"

definition sse_idle :: "stream_env \<Rightarrow> principal \<Rightarrow> string \<Rightarrow> (stream_state, bool) py" where
  "sse_idle se p run_id =
     seq (on_stream (on_world (svc_get_run p run_id))) (\<lambda>snapshot.
     seq (gets ss_position) (\<lambda>position.
     seq (lift (item_of snapshot ''status'')) (\<lambda>status.
     seq (if status = JStr ''TERMINAL''
          then seq (lift (int_of snapshot ''snapshot_seq'')) (\<lambda>n. ret (n \<le> position)) else ret False) (\<lambda>complete.
     if complete then ret True
     else seq (wait_for_events se run_id position) (\<lambda>events.
          if events \<noteq> [] then ret False
          else seq (on_stream (on_world (svc_get_run p run_id))) (\<lambda>_. seq (send Heartbeat) (\<lambda>_. ret False)))))))"

text \<open>One turn of the loop; the result says whether the stream is over.\<close>

definition sse_turn :: "stream_env \<Rightarrow> principal \<Rightarrow> string \<Rightarrow> string list option \<Rightarrow> (stream_state, bool) py" where
  "sse_turn se p run_id types =
     seq (reauthorize se p run_id) (\<lambda>_.
     seq (gets ss_position) (\<lambda>position.
     seq (on_stream (public_run_events run_id position None)) (\<lambda>events.
       if events \<noteq> [] then seq (each (send_event se p run_id types) events) (\<lambda>_. ret False)
       else sse_idle se p run_id)))"

fun sse_stream :: "stream_env \<Rightarrow> principal \<Rightarrow> string \<Rightarrow> string list option \<Rightarrow> nat \<Rightarrow> (stream_state, bool) py" where
  "sse_stream se p run_id types 0 = ret False"
| "sse_stream se p run_id types (Suc n) =
     seq (sse_turn se p run_id types) (\<lambda>finished. if finished then ret True else sse_stream se p run_id types n)"

definition frame_text :: "http \<Rightarrow> frame \<Rightarrow> exn + string" where
  "frame_text h f =
     (case f of
        Heartbeat \<Rightarrow> Inr ('': heartbeat'' @ [char_of (10 :: nat), char_of (10 :: nat)])
      | EventFrame event \<Rightarrow>
          exn_bind (item_of event ''seq'') (\<lambda>n.
          exn_bind (item_of event ''type'') (\<lambda>t.
          let newline = [char_of (10 :: nat)]; env = sv_env (ht_service h)
          in Inr (''id: '' @ py_str env n @ newline @ ''event: '' @ py_str env t @ newline @
               ''data: '' @ ht_dumps h (JObj event) @ newline @ newline))))"

section \<open>Reading the events of a run\<close>

text \<open>
  \<open>str.isdigit\<close> on the Latin-1 characters that a header may hold: the superscripts two, three and one
  are digits, which \<open>int\<close> refuses.
\<close>

definition all_digits :: "string \<Rightarrow> bool" where
  "all_digits s \<longleftrightarrow> s \<noteq> [] \<and> list_all (\<lambda>c. is_digit c \<or> code_of c \<in> {178, 179, 185}) s"

definition invalid_last_event_id :: exn where
  "invalid_last_event_id = APIProblem 400 ''invalid_last_event_id'' ''Invalid Last-Event-ID'' []"

text \<open>The position where a stream starts.\<close>

definition stream_start :: "jdict \<Rightarrow> string option \<Rightarrow> int option \<Rightarrow> exn + int" where
  "stream_start snapshot last_event_id after_seq =
     (case last_event_id of
        Some s \<Rightarrow>
          if \<not> all_digits s then Inl invalid_last_event_id
          else (case parse_int s of Some n \<Rightarrow> Inr n | None \<Rightarrow> Inl (ValueError ''invalid literal for int()''))
      | None \<Rightarrow> (case after_seq of Some n \<Rightarrow> Inr n | None \<Rightarrow> int_of snapshot ''snapshot_seq''))"

text \<open>
  The start of a stream, where \<open>admitted\<close> is the answer of \<open>enter_stream\<close>; the result are the position
  and the types with which the generator begins.
\<close>

definition open_stream ::
  "jdict \<Rightarrow> string \<Rightarrow> int \<Rightarrow> string option \<Rightarrow> string option \<Rightarrow> int option \<Rightarrow> bool \<Rightarrow> exn + int" where
  "open_stream snapshot run_id retained_from cursor last_event_id after_seq admitted =
     (if cursor \<noteq> None then Inl cursor_problem
      else exn_bind (stream_start snapshot last_event_id after_seq) (\<lambda>start.
           if start < max 0 (retained_from - 1) then Inl (event_cursor_expired run_id retained_from start)
           else if \<not> admitted
           then Inl (APIProblem 503 ''sse_capacity_reached'' ''SSE connection capacity reached'' [])
           else Inr start))"

fun contains :: "string \<Rightarrow> string \<Rightarrow> bool" where
  "contains part [] = (part = [])"
| "contains part (c # cs) = (take (length part) (c # cs) = part \<or> contains part cs)"

datatype events_reply = EventPage reply | EventStream int "string list option"

definition http_read_run_events ::
  "http \<Rightarrow> principal \<Rightarrow> string \<Rightarrow> string \<Rightarrow> int option \<Rightarrow> string option \<Rightarrow> int option \<Rightarrow> string option \<Rightarrow> string option
     \<Rightarrow> bool \<Rightarrow> (durable_world, events_reply) py" where
  "http_read_run_events h p run_id accept after_seq cursor limit types last_event_id admitted =
     seq (authorize p ''readRunEvents'') (\<lambda>_.
     seq (on_world (svc_get_run p run_id)) (\<lambda>snapshot.
     seq (lift (csv_values types)) (\<lambda>event_types.
     seq (lift (int_of snapshot ''retained_from_seq'')) (\<lambda>retained_from.
     if contains ''text/event-stream'' accept
     then seq (lift (open_stream snapshot run_id retained_from cursor last_event_id after_seq admitted)) (\<lambda>start.
            ret (EventStream start event_types))
     else seq (fail_if (last_event_id \<noteq> None) invalid_last_event_id) (\<lambda>_.
          seq (read_event_page h p run_id snapshot retained_from after_seq cursor limit types event_types) (\<lambda>r.
            ret (EventPage r)))))))"

section \<open>Downloads\<close>

text \<open>The loop that reads a file in pieces of at most a mebibyte.\<close>

definition piece :: nat where
  "piece = 1024 * 1024"

function read_pieces :: "string \<Rightarrow> nat \<Rightarrow> string list" where
  "read_pieces content remaining =
     (if remaining = 0 then []
      else let chunk = take (min piece remaining) content
           in if chunk = [] then []
              else chunk # read_pieces (drop (min piece remaining) content) (remaining - length chunk))"
  by pat_completeness auto

termination by (relation "measure snd") auto

declare read_pieces.simps [simp del]

definition ticket_problem :: "exn \<Rightarrow> exn" where
  "ticket_problem e =
     (case e of
        ExpiredTicket _ \<Rightarrow> APIProblem 410 ''download_ticket_expired'' ''Download ticket expired'' []
      | InvalidTicket _ \<Rightarrow> not_found_problem ''Download ticket''
      | _ \<Rightarrow> e)"

definition missing_bytes :: "exn \<Rightarrow> exn" where
  "missing_bytes e = (case e of BlobNotFound _ \<Rightarrow> artifact_gone | _ \<Rightarrow> e)"

text \<open>The artifact that a ticket is for.\<close>

definition ticketed_artifact :: "http \<Rightarrow> jdict \<Rightarrow> (durable_world, jdict) py" where
  "ticketed_artifact h ticket =
     seq (in_state (get_artifact (py_str (sv_env (ht_service h)) (dget_or ticket ''artifact_id'' (JStr []))))) (\<lambda>found.
       case found of
         None \<Rightarrow> raise (not_found_problem ''Artifact'')
       | Some artifact \<Rightarrow>
           seq (fail_if (\<not> py_eq (dget artifact ''tenant_id'') (dget ticket ''tenant_id'')
                  \<or> \<not> py_eq (dget artifact ''etag'') (dget ticket ''etag'')
                  \<or> dget artifact ''state'' \<noteq> JStr ''COMMITTED'') (not_found_problem ''Artifact'')) (\<lambda>_.
             ret artifact))"

definition download_headers ::
  "string \<Rightarrow> string \<Rightarrow> string \<Rightarrow> (int \<times> int) option \<Rightarrow> int \<Rightarrow> int \<Rightarrow> int \<Rightarrow> (string \<times> string) list" where
  "download_headers etag sha256 media_type chosen start finish n =
     [(''Accept-Ranges'', ''bytes''), (''Content-Length'', int_str (finish - start + 1)), (''ETag'', etag),
      (''X-Content-SHA256'', sha256)] @
     (if chosen = None then []
      else [(''Content-Range'', ''bytes '' @ int_str start @ ''-'' @ int_str finish @ ''/'' @ int_str n)]) @
     [(''Content-Type'', media_type)]"

definition http_download ::
  "http \<Rightarrow> string \<Rightarrow> string option \<Rightarrow> string option \<Rightarrow> (durable_world, reply) py" where
  "http_download h token range_header if_match =
     (let sv = ht_service h
      in seq (on_world (utcnow sv)) (\<lambda>now.
         seq (except ticket_problem (lift (bs_verify_download_token (sv_blobs sv) \<lfloor>now\<rfloor> token))) (\<lambda>ticket.
         seq (ticketed_artifact h ticket) (\<lambda>artifact.
         seq (lift (string_of artifact ''etag'')) (\<lambda>etag.
         seq (fail_if (if_match \<noteq> Some etag)
                (APIProblem 412 ''artifact_etag_mismatch'' ''Artifact ETag mismatch'' [])) (\<lambda>_.
         seq (except missing_bytes (on_world (in_files (bs_path_for_key (sv_blobs sv)
                (py_str (sv_env sv) (dget_or artifact ''blob_key'' (JStr []))))))) (\<lambda>path.
         seq (lift (int_of artifact ''size_bytes'')) (\<lambda>n.
         seq (lift (parse_byte_range range_header n)) (\<lambda>chosen.
         let (start, finish) = (case chosen of None \<Rightarrow> (0, n - 1) | Some r \<Rightarrow> r)
         in seq (lift (string_of artifact ''sha256'')) (\<lambda>sha256.
            seq (lift (string_of artifact ''media_type'')) (\<lambda>media_type.
            seq (file_at path) (\<lambda>content.
              case content of
                None \<Rightarrow> raise (FileNotFound ''artifact'')
              | Some bytes \<Rightarrow>
                  ret \<lparr>rp_status = (if chosen = None then 200 else 206),
                       rp_content = Bytes (concat (read_pieces (drop (nat start) bytes) (nat (finish - start + 1)))),
                       rp_headers = download_headers etag sha256 media_type chosen start finish n\<rparr>))))))))))))"

end
