(* ===== verification/Http_Endpoints.thy ===== *)
theory Http_Endpoints
  imports Http_Stream
begin

text \<open>
  The HTTP application, fifth part: the handlers of datasets, runs, approvals, webhook endpoints and
  deletions (app.py). A handler is one step; what its idempotency key waits for is in \<open>others\<close>. The body of a
  request is the dictionary of its validated request model.
\<close>

type_synonym rest = "nat \<Rightarrow> durable_world \<Rightarrow> durable_world"

definition validated :: "http \<Rightarrow> string \<Rightarrow> bool \<Rightarrow> jdict \<Rightarrow> (durable_world, json) py" where
  "validated h model exclude_none d = lift (ht_validated h model exclude_none (JObj d))"

text \<open>An \<open>execute\<close> that validates what the service returns and answers it with a status and headers.\<close>

definition answered ::
  "http \<Rightarrow> int \<Rightarrow> string \<Rightarrow> bool \<Rightarrow> (string \<times> string) list \<Rightarrow> (durable_world, jdict) py \<Rightarrow> (durable_world, outcome) py" where
  "answered h status model exclude_none hs m =
     seq m (\<lambda>result. seq (validated h model exclude_none result) (\<lambda>v. ret (status, v, hs)))"

section \<open>Datasets\<close>

definition http_create_dataset ::
  "http \<Rightarrow> rest \<Rightarrow> principal \<Rightarrow> string \<Rightarrow> api_request \<Rightarrow> jdict \<Rightarrow> (durable_world, reply) py" where
  "http_create_dataset h others p key rq payload =
     seq (authorize p ''createDatasetUpload'') (\<lambda>_.
       idempotent h others ''createDatasetUpload'' p key rq (JObj payload)
         (answered h 201 ''DatasetUploadSession'' False []
            (on_world (svc_create_dataset (ht_service h) p payload (public_base_url h rq)))))"

definition http_sign_upload_parts ::
  "http \<Rightarrow> rest \<Rightarrow> principal \<Rightarrow> string \<Rightarrow> api_request \<Rightarrow> string \<Rightarrow> jdict \<Rightarrow> (durable_world, reply) py" where
  "http_sign_upload_parts h others p key rq version_id payload =
     seq (authorize p ''signDatasetUploadParts'') (\<lambda>_.
       idempotent h others ''signDatasetUploadParts'' p key rq (JObj payload)
         (answered h 200 ''UploadPartsResponse'' False []
            (on_world (sign_upload_parts (ht_service h) p version_id payload (public_base_url h rq)))))"

definition http_upload_dataset_part ::
  "http \<Rightarrow> principal \<Rightarrow> string \<Rightarrow> int \<Rightarrow> string \<Rightarrow> string option \<Rightarrow> chunk list \<Rightarrow> (durable_world, reply) py" where
  "http_upload_dataset_part h p version_id part_number upload_id declared_part chunks =
     seq (authorize p ''signDatasetUploadParts'') (\<lambda>_.
     seq (fail_if (declared_part \<noteq> Some (int_str part_number))
            (APIProblem 400 ''invalid_upload_header'' ''Invalid upload header'' [])) (\<lambda>_.
     seq (on_world (svc_put_upload_part (ht_service h) p version_id upload_id part_number chunks)) (\<lambda>info.
       ret \<lparr>rp_status = 204, rp_content = NoContent,
            rp_headers = [(''ETag'', bi_etag info), (''X-Content-SHA256'', bi_sha256 info),
              (''X-Content-Length'', int_str (bi_size_bytes info))]\<rparr>)))"

definition http_finalize_dataset ::
  "http \<Rightarrow> rest \<Rightarrow> principal \<Rightarrow> string \<Rightarrow> api_request \<Rightarrow> string \<Rightarrow> jdict \<Rightarrow> (durable_world, reply) py" where
  "http_finalize_dataset h others p key rq version_id payload =
     seq (authorize p ''finalizeDatasetUpload'') (\<lambda>_.
       idempotent h others ''finalizeDatasetUpload'' p key rq (JObj payload)
         (answered h 202 ''DatasetVersion'' True [(''Retry-After'', ''1'')]
            (on_world (finalize_dataset (ht_service h) p version_id payload))))"

text \<open>A representation with its tag, or 304 when the client has it.\<close>

definition tagged :: "string option \<Rightarrow> string \<Rightarrow> (string \<times> string) list \<Rightarrow> json \<Rightarrow> reply" where
  "tagged if_none_match tag hs v =
     (if if_none_match = Some tag
      then \<lparr>rp_status = 304, rp_content = NoContent, rp_headers = (''ETag'', tag) # hs\<rparr>
      else json_reply v ((''ETag'', tag) # hs))"

definition http_get_dataset_version ::
  "http \<Rightarrow> principal \<Rightarrow> string \<Rightarrow> string option \<Rightarrow> (durable_world, reply) py" where
  "http_get_dataset_version h p version_id if_none_match =
     seq (authorize p ''getDatasetVersion'') (\<lambda>_.
     seq (on_world (svc_get_dataset_version p version_id)) (\<lambda>result.
     seq (lift (int_of result ''revision'')) (\<lambda>revision.
     if if_none_match = Some (revision_etag revision) then ret (tagged if_none_match (revision_etag revision) [] JNull)
     else seq (validated h ''DatasetVersion'' True result) (\<lambda>v.
          ret (tagged if_none_match (revision_etag revision) [] v)))))"

section \<open>Runs\<close>

definition http_create_run ::
  "http \<Rightarrow> rest \<Rightarrow> principal \<Rightarrow> string \<Rightarrow> api_request \<Rightarrow> jdict \<Rightarrow> (durable_world, reply) py" where
  "http_create_run h others p key rq payload =
     seq (authorize p ''createRun'') (\<lambda>_.
       idempotent h others ''createRun'' p key rq (JObj payload)
         (seq (rs_create_run (ht_runs h) p payload) (\<lambda>result.
          seq (validated h ''RunSnapshot'' False result) (\<lambda>v.
            ret (202, v, [(''ETag'', representation_etag h v), (''Retry-After'', ''1'')])))))"

definition http_get_run :: "http \<Rightarrow> principal \<Rightarrow> string \<Rightarrow> string option \<Rightarrow> (durable_world, reply) py" where
  "http_get_run h p run_id if_none_match =
     seq (authorize p ''getRun'') (\<lambda>_.
     seq (on_world (svc_get_run p run_id)) (\<lambda>result.
     seq (validated h ''RunSnapshot'' False result) (\<lambda>v.
       ret (tagged if_none_match (representation_etag h v) [] v))))"

definition private_headers :: "(string \<times> string) list" where
  "private_headers = [(''Cache-Control'', ''private, no-cache''), (''Vary'', ''Authorization'')]"

definition http_get_agent_context ::
  "http \<Rightarrow> principal \<Rightarrow> string \<Rightarrow> int \<Rightarrow> string option \<Rightarrow> (durable_world, reply) py" where
  "http_get_agent_context h p run_id output_limit if_none_match =
     seq (authorize p ''getAgentRunContext'') (\<lambda>_.
     seq (on_world (get_agent_context (ht_service h) p run_id output_limit)) (\<lambda>result.
     seq (validated h ''AgentRunContext'' True result) (\<lambda>v.
       ret (tagged if_none_match (representation_etag h v) private_headers v))))"

definition http_list_agent_actions :: "http \<Rightarrow> principal \<Rightarrow> string \<Rightarrow> (durable_world, reply) py" where
  "http_list_agent_actions h p run_id =
     seq (authorize p ''listAgentRunActions'') (\<lambda>_.
     seq (on_world (get_agent_actions (ht_service h) p run_id)) (\<lambda>result.
     seq (validated h ''AgentActionList'' False result) (\<lambda>v.
       ret (json_reply v ((''ETag'', representation_etag h v) # private_headers)))))"

definition http_list_run_stages :: "principal \<Rightarrow> string \<Rightarrow> (durable_world, reply) py" where
  "http_list_run_stages p run_id =
     seq (authorize p ''listRunStages'') (\<lambda>_.
     seq (on_world (svc_get_run p run_id)) (\<lambda>snapshot.
     seq (lift (item_of snapshot ''snapshot_seq'')) (\<lambda>snapshot_seq.
     seq (lift (item_of snapshot ''stages'')) (\<lambda>stage_list.
       ret (json_reply (JObj [(''run_id'', JStr run_id), (''snapshot_seq'', snapshot_seq),
              (''stages'', stage_list)]) [])))))"

definition http_answer_decision_packet ::
  "http \<Rightarrow> rest \<Rightarrow> principal \<Rightarrow> string \<Rightarrow> api_request \<Rightarrow> string \<Rightarrow> string \<Rightarrow> string \<Rightarrow> jdict \<Rightarrow> (durable_world, reply) py" where
  "http_answer_decision_packet h others p key rq run_id wait_set_id if_match payload =
     seq (authorize p ''answerDecisionPacket'') (\<lambda>_.
     seq (lift (parse_revision_etag if_match)) (\<lambda>revision.
       idempotent h others ''answerDecisionPacket'' p key rq (JObj payload)
         (answered h 202 ''CommandReceipt'' False [(''Retry-After'', ''1'')]
            (rs_answer (ht_runs h) p run_id wait_set_id revision payload))))"

definition control_run ::
  "http \<Rightarrow> rest \<Rightarrow> string \<Rightarrow> string \<Rightarrow> principal \<Rightarrow> string \<Rightarrow> api_request \<Rightarrow> int option \<Rightarrow> (durable_world, reply) py" where
  "control_run h others operation_id run_id p key rq revision =
     (let n = (case revision of None \<Rightarrow> 0 | Some r \<Rightarrow> r)
      in idempotent h others operation_id p key rq JNull
           (answered h 202 ''CommandReceipt'' False []
              (if operation_id = ''pauseRun'' then rs_pause (ht_runs h) p run_id n
               else if operation_id = ''resumeRun'' then rs_resume (ht_runs h) p run_id n
               else rs_cancel (ht_runs h) p run_id)))"

definition http_pause_run ::
  "http \<Rightarrow> rest \<Rightarrow> principal \<Rightarrow> string \<Rightarrow> api_request \<Rightarrow> string \<Rightarrow> string \<Rightarrow> (durable_world, reply) py" where
  "http_pause_run h others p key rq run_id if_match =
     seq (authorize p ''pauseRun'') (\<lambda>_.
     seq (lift (parse_revision_etag if_match)) (\<lambda>revision.
       control_run h others ''pauseRun'' run_id p key rq (Some revision)))"

definition http_resume_run ::
  "http \<Rightarrow> rest \<Rightarrow> principal \<Rightarrow> string \<Rightarrow> api_request \<Rightarrow> string \<Rightarrow> string \<Rightarrow> (durable_world, reply) py" where
  "http_resume_run h others p key rq run_id if_match =
     seq (authorize p ''resumeRun'') (\<lambda>_.
     seq (lift (parse_revision_etag if_match)) (\<lambda>revision.
       control_run h others ''resumeRun'' run_id p key rq (Some revision)))"

definition http_cancel_run ::
  "http \<Rightarrow> rest \<Rightarrow> principal \<Rightarrow> string \<Rightarrow> api_request \<Rightarrow> string \<Rightarrow> (durable_world, reply) py" where
  "http_cancel_run h others p key rq run_id =
     seq (authorize p ''cancelRun'') (\<lambda>_. control_run h others ''cancelRun'' run_id p key rq None)"

section \<open>Commands, results, outputs, artifacts\<close>

definition shown :: "http \<Rightarrow> principal \<Rightarrow> string \<Rightarrow> string \<Rightarrow> (world, jdict) py \<Rightarrow> (durable_world, reply) py" where
  "shown h p operation_id model m =
     seq (authorize p operation_id) (\<lambda>_.
     seq (on_world m) (\<lambda>result. validated_reply h model False (JObj result) []))"

definition http_get_command :: "http \<Rightarrow> principal \<Rightarrow> string \<Rightarrow> (durable_world, reply) py" where
  "http_get_command h p command_id = shown h p ''getCommand'' ''CommandReceipt'' (svc_get_command p command_id)"

definition http_get_run_result :: "http \<Rightarrow> principal \<Rightarrow> string \<Rightarrow> (durable_world, reply) py" where
  "http_get_run_result h p run_id = shown h p ''getRunResult'' ''RunResult'' (svc_get_result p run_id)"

definition http_get_output :: "http \<Rightarrow> principal \<Rightarrow> string \<Rightarrow> string \<Rightarrow> (durable_world, reply) py" where
  "http_get_output h p run_id output_id =
     shown h p ''getRunOutput'' ''OutputResource'' (svc_get_output p run_id output_id)"

definition http_get_artifact :: "http \<Rightarrow> principal \<Rightarrow> string \<Rightarrow> (durable_world, reply) py" where
  "http_get_artifact h p artifact_id = shown h p ''getArtifact'' ''Artifact'' (svc_get_artifact p artifact_id)"

definition http_create_download_ticket ::
  "http \<Rightarrow> rest \<Rightarrow> principal \<Rightarrow> string \<Rightarrow> api_request \<Rightarrow> string \<Rightarrow> (durable_world, reply) py" where
  "http_create_download_ticket h others p key rq artifact_id =
     seq (authorize p ''createArtifactDownloadTicket'') (\<lambda>_.
       idempotent h others ''createArtifactDownloadTicket'' p key rq JNull
         (answered h 201 ''DownloadTicket'' False []
            (on_world (create_download_ticket (ht_service h) p artifact_id (public_base_url h rq)))))"

definition http_list_experiments :: "principal \<Rightarrow> string \<Rightarrow> (durable_world, reply) py" where
  "http_list_experiments p run_id =
     seq (authorize p ''listRunExperiments'') (\<lambda>_.
     seq (on_world (svc_get_run p run_id)) (\<lambda>_.
       ret (json_reply (JObj (page [] (Some 0))) [])))"

definition http_get_experiment :: "principal \<Rightarrow> string \<Rightarrow> string \<Rightarrow> (durable_world, reply) py" where
  "http_get_experiment p run_id experiment_id =
     seq (authorize p ''getRunExperiment'') (\<lambda>_.
     seq (on_world (svc_get_run p run_id)) (\<lambda>_. raise (not_found_problem ''Experiment'')))"

definition http_get_model :: "http \<Rightarrow> principal \<Rightarrow> string \<Rightarrow> (durable_world, reply) py" where
  "http_get_model h p model_id =
     seq (authorize p ''getModelCandidate'') (\<lambda>_.
     seq (in_state (get_model model_id)) (\<lambda>found.
     seq (lift (owned found p)) (\<lambda>model.
     seq (lift (string_of model ''run_id'')) (\<lambda>run_id.
     seq (in_state (get_run run_id)) (\<lambda>found.
     seq (lift (owned found p)) (\<lambda>run.
     seq (lift (string_of run ''dataset_version_id'')) (\<lambda>version_id.
     seq (on_world (owned_version p version_id)) (\<lambda>version.
     seq (fail_if (dget version ''status'' = JStr ''DELETED'') (not_found_problem ''Model candidate'')) (\<lambda>_.
       validated_reply h ''ModelCandidate'' False (JObj (public_model model)) [])))))))))"

section \<open>Approvals\<close>

definition approval_not_open :: exn where
  "approval_not_open = APIProblem 409 ''approval_not_open'' ''Approval is not open'' []"

definition decision_statuses :: "(string \<times> string) list" where
  "decision_statuses = [(''APPROVE'', ''APPROVED''), (''REQUEST_CHANGES'', ''CHANGES_REQUESTED''), (''REJECT'', ''REJECTED'')]"

text \<open>The run and the approval of a decision, once it is admissible.\<close>

definition decidable_approval ::
  "http \<Rightarrow> principal \<Rightarrow> string \<Rightarrow> string \<Rightarrow> int \<Rightarrow> (durable_world, jdict \<times> jdict) py" where
  "decidable_approval h p run_id approval_id expected_version =
     seq (in_state (get_run run_id)) (\<lambda>found.
     seq (lift (owned found p)) (\<lambda>run.
     seq (in_state (get_approval run_id approval_id)) (\<lambda>found.
     seq (lift (owned found p)) (\<lambda>approval.
     seq (lift (require_human_approval p)) (\<lambda>_.
     seq (lift (item_of approval ''status'')) (\<lambda>approval_status.
     seq (lift (item_of run ''status'')) (\<lambda>run_status.
     seq (fail_if (approval_status \<noteq> JStr ''OPEN'' \<or> run_status \<noteq> JStr ''WAITING_APPROVAL'') approval_not_open) (\<lambda>_.
     seq (lift (int_of approval ''evidence_version'')) (\<lambda>current.
     seq (fail_if (current \<noteq> expected_version)
            (APIProblem 412 ''stale_revision'' ''Approval changed''
               [(''current_evidence_version'', dget approval ''evidence_version'')])) (\<lambda>_.
     seq (lift (approval_expires_at h approval)) (\<lambda>(deadline, zoned).
     seq (on_world (utcnow (ht_service h))) (\<lambda>now.
     seq (fail_if (\<not> zoned) TypeError) (\<lambda>_.
     if deadline \<le> now
     then seq (in_state (update_approval run_id approval_id
            [(''status'', JStr ''EXPIRED''), (''evidence_version'', JInt (current + 1))])) (\<lambda>_.
          raise approval_expired)
     else ret (run, approval))))))))))))))"

definition decision_command ::
  "http \<Rightarrow> principal \<Rightarrow> string \<Rightarrow> string \<Rightarrow> (durable_world, string) py" where
  "decision_command h p run_id choice =
     (let sv = ht_service h
      in seq (on_world (iso_now sv)) (\<lambda>submitted_at.
         seq (on_world (iso_now sv)) (\<lambda>completed_at.
         seq (in_state (create_command (sv_env sv)
                [(''tenant_id'', JStr (tenant_id p)), (''run_id'', JStr run_id), (''type'', JStr choice),
                 (''status'', JStr ''SUCCEEDED''), (''submitted_at'', JStr submitted_at),
                 (''completed_at'', JStr completed_at), (''resulting_run_revision'', JNull), (''problem'', JNull),
                 (''links'', JObj [(''self'', JStr []), (''run'', JStr (run_href run_id))])])) (\<lambda>command.
         seq (lift (string_of command ''command_id'')) (\<lambda>command_id.
         seq (in_state (update_command command_id
                [(''links'', JObj [(''self'', JStr (''/v1/commands/'' @ command_id)), (''run'', JStr (run_href run_id))])]))
           (\<lambda>_.
         seq (in_state (get_command command_id)) (\<lambda>found.
         seq (fail_if (found = None) AssertionErr) (\<lambda>_. ret command_id))))))))"

definition is_chart :: "py_env \<Rightarrow> jdict \<Rightarrow> bool" where
  "is_chart env artifact \<longleftrightarrow> dget artifact ''media_type'' = JStr ''image/png'' \<and>
     starts_with (py_str env (dget_or artifact ''kind'' (JStr []))) ''EVALUATION_''"

definition visualization_refs :: "py_env \<Rightarrow> jdict list \<Rightarrow> exn + json" where
  "visualization_refs env outputs =
     exn_bind (traverse (\<lambda>output. dicts (dget_or output ''artifact_refs'' (JArr []))) outputs) (\<lambda>refs.
       Inr (JArr (map JObj (filter (is_chart env) (concat refs)))))"

text \<open>The model of an approval: the one that exists already, or a new one from the candidate.\<close>

definition approved_model :: "http \<Rightarrow> principal \<Rightarrow> jdict \<Rightarrow> string \<Rightarrow> (durable_world, json) py" where
  "approved_model h p run completed_at =
     (let env = sv_env (ht_service h); candidate = dget run ''pending_model_candidate''
      in seq (fail_if (\<not> py_truthy candidate)
                (APIProblem 409 ''model_candidate_missing'' ''Model candidate is missing'' [])) (\<lambda>_.
         seq (lift (as_object candidate)) (\<lambda>candidate.
         seq (lift (item_of candidate ''model_id'')) (\<lambda>model_id.
         seq (in_state (get_model (py_str env model_id))) (\<lambda>existing.
         seq (case existing of
                Some model \<Rightarrow> ret model
              | None \<Rightarrow> in_state (create_model env (dupdate candidate
                  [(''tenant_id'', JStr (tenant_id p)), (''created_at'', JStr completed_at)]))) (\<lambda>model.
           lift (item_of model ''model_id'')))))))"

definition approval_result ::
  "string \<Rightarrow> jdict \<Rightarrow> json list \<Rightarrow> json \<Rightarrow> string \<Rightarrow> string \<Rightarrow> string \<Rightarrow> json \<Rightarrow> json \<Rightarrow> jdict" where
  "approval_result run_id run out_refs charts completed_at disposition summary eligible_model reason =
     [(''run_id'', JStr run_id), (''outcome'', JStr ''SUCCEEDED''), (''model_disposition'', JStr disposition),
      (''summary'', JStr summary), (''backend_id'', dget run ''backend_id''),
      (''backend_version'', dget run ''backend_version''), (''engine_version'', dget run ''method_version''),
      (''output_refs'', JArr out_refs), (''visualization_refs'', charts), (''partial'', JBool False),
      (''eligible_model'', eligible_model), (''reason'', reason), (''completed_at'', JStr completed_at)]"

definition refusal_reason :: "json \<Rightarrow> string \<Rightarrow> string \<Rightarrow> jdict \<Rightarrow> json" where
  "refusal_reason reason choice status approval =
     JObj [(''code'', JStr ''PRODUCTION_APPROVAL_NOT_GRANTED''), (''message'', reason),
       (''retriable'', JBool (choice = ''REQUEST_CHANGES'')), (''failed_gates'', JArr [JStr status]),
       (''evidence_refs'', dget_or approval ''evidence_refs'' (JArr [])),
       (''remediation'', JArr [JStr ''Create a new Run after resolving approval feedback.''])]"

definition decided_result ::
  "http \<Rightarrow> principal \<Rightarrow> string \<Rightarrow> jdict \<Rightarrow> jdict \<Rightarrow> string \<Rightarrow> string \<Rightarrow> json \<Rightarrow> jdict list \<Rightarrow> json \<Rightarrow> string
     \<Rightarrow> (durable_world, jdict) py" where
  "decided_result h p run_id run approval choice status reason outputs charts completed_at =
     (let env = sv_env (ht_service h); refs = traverse (output_ref env) outputs
      in if choice = ''APPROVE''
         then seq (approved_model h p run completed_at) (\<lambda>model_id.
              seq (lift refs) (\<lambda>out_refs.
                ret (approval_result run_id run out_refs charts completed_at ''ELIGIBLE_MODEL_AVAILABLE''
                       ''Production deployment approval was granted.''
                       (JObj [(''model_id'', model_id), (''href'', JStr (''/v1/models/'' @ py_str env model_id))])
                       JNull)))
         else seq (lift refs) (\<lambda>out_refs.
                ret (approval_result run_id run out_refs charts completed_at ''NO_ELIGIBLE_MODEL''
                       ''Production deployment approval was not granted.'' JNull
                       (refusal_reason reason choice status approval))))"

definition decided_updates :: "string \<Rightarrow> json \<Rightarrow> jdict" where
  "decided_updates completed_at stage_list =
     [(''phase'', JStr ''PACKAGE''), (''status'', JStr ''TERMINAL''), (''outcome'', JStr ''SUCCEEDED''),
      (''execution_step'', JStr ''COMPLETED''), (''progress'', progress 100 ''COMPLETED'' ''Run completed''),
      (''stages'', stage_list), (''blocking'', no_blocking), (''available_actions'', JArr []),
      (''updated_at'', JStr completed_at)]"

definition decided_events :: "string \<Rightarrow> string \<Rightarrow> json list \<Rightarrow> jdict list" where
  "decided_events run_id completed_at package_refs =
     [run_event run_id completed_at ''run.stage_completed.v1''
        [(''phase'', JStr ''PACKAGE''), (''status'', JStr ''COMPLETED''), (''completed_at'', JStr completed_at),
         (''progress_percent'', JFloat 100), (''output_refs'', JArr package_refs), (''next_phase'', JNull),
         (''next_stage_ready'', JBool False), (''reason'', JStr ''WORKFLOW_COMPLETED'')],
      run_event run_id completed_at ''run.completed.v1''
        [(''outcome'', JStr ''SUCCEEDED''), (''result_href'', JStr (run_href run_id @ ''/result''))]]"

text \<open>The run is closed with the result of the decision; the answer is the run as it is then.\<close>

definition close_decided_run ::
  "http \<Rightarrow> string \<Rightarrow> jdict \<Rightarrow> jdict list \<Rightarrow> jdict \<Rightarrow> string \<Rightarrow> (durable_world, jdict) py" where
  "close_decided_run h run_id run outputs result completed_at =
     (let sv = ht_service h
      in seq (lift (traverse (output_ref (sv_env sv)) (filter (\<lambda>d. dget d ''phase'' = JStr ''PACKAGE'') outputs)))
           (\<lambda>package_refs.
         seq (lift (item_of run ''stages'')) (\<lambda>stage_list.
         seq (on_world (iso_now sv)) (\<lambda>stages_at.
         seq (lift (completed_stages stages_at stage_list)) (\<lambda>stage_list.
         seq (lift (int_of run ''run_revision'')) (\<lambda>revision.
         seq (in_state (finalize_run_with_result (sv_env sv) run_id result
                (decided_updates completed_at stage_list)
                (decided_events run_id completed_at package_refs) (Some revision))) (\<lambda>(updated, _, _).
           ret updated)))))))"

definition decide ::
  "http \<Rightarrow> principal \<Rightarrow> string \<Rightarrow> string \<Rightarrow> int \<Rightarrow> jdict \<Rightarrow> (durable_world, outcome) py" where
  "decide h p run_id approval_id expected_version payload =
     (let sv = ht_service h
      in seq (decidable_approval h p run_id approval_id expected_version) (\<lambda>(run, approval).
         seq (lift (string_of payload ''decision'')) (\<lambda>choice.
         seq (lift (case map_of decision_statuses choice of None \<Rightarrow> Inl (KeyError choice) | Some s \<Rightarrow> Inr s)) (\<lambda>status.
         seq (lift (item_of payload ''reason'')) (\<lambda>reason.
         seq (lift (int_of approval ''evidence_version'')) (\<lambda>version.
         seq (in_state (update_approval run_id approval_id
                [(''status'', JStr status), (''decision_reason'', reason), (''evidence_version'', JInt (version + 1))]))
           (\<lambda>_.
         seq (decision_command h p run_id choice) (\<lambda>command_id.
         seq (in_state (list_outputs run_id)) (\<lambda>outputs.
         seq (lift (visualization_refs (sv_env sv) outputs)) (\<lambda>charts.
         seq (on_world (iso_now sv)) (\<lambda>completed_at.
         seq (decided_result h p run_id run approval choice status reason outputs charts completed_at) (\<lambda>result.
         seq (close_decided_run h run_id run outputs result completed_at) (\<lambda>updated.
         seq (lift (item_of updated ''run_revision'')) (\<lambda>revision.
         seq (in_state (update_command command_id [(''resulting_run_revision'', revision)])) (\<lambda>_.
         seq (in_state (get_command command_id)) (\<lambda>found.
           case found of
             None \<Rightarrow> raise AssertionErr
           | Some command \<Rightarrow>
               seq (validated h ''CommandReceipt'' False command) (\<lambda>v.
                 ret (202, v, [(''Retry-After'', ''1'')]))))))))))))))))))"

definition http_decide_approval ::
  "http \<Rightarrow> rest \<Rightarrow> principal \<Rightarrow> string \<Rightarrow> api_request \<Rightarrow> string \<Rightarrow> string \<Rightarrow> string \<Rightarrow> jdict \<Rightarrow> (durable_world, reply) py" where
  "http_decide_approval h others p key rq run_id approval_id if_match payload =
     seq (authorize p ''decideApproval'') (\<lambda>_.
     seq (lift (parse_revision_etag if_match)) (\<lambda>expected_version.
     seq (lift (int_of payload ''evidence_version'')) (\<lambda>version.
     seq (fail_if (expected_version \<noteq> version)
            (APIProblem 412 ''stale_revision'' ''Approval evidence version mismatch'' [])) (\<lambda>_.
       idempotent h others ''decideApproval'' p key rq (JObj payload)
         (decide h p run_id approval_id expected_version payload)))))"

end
