(* ===== verification/Http_Webhooks.thy ===== *)
theory Http_Webhooks
  imports Http_Endpoints
begin

text \<open>
  The HTTP application, sixth part: the handlers of webhook endpoints, their deliveries, and of the
  deletion of a dataset (app.py), and every request as a value of \<open>http_op\<close>.
\<close>

section \<open>Webhook endpoints\<close>

text \<open>\<open>os.urandom(32)\<close>, a reading like those of the clock.\<close>

definition urandom :: "http \<Rightarrow> (world, string) py" where
  "urandom h w = (Inr (ht_urandom h (w_reads w)), w\<lparr>w_reads := Suc (w_reads w)\<rparr>)"

text \<open>The settings are read inside the \<open>try\<close>, so settings that are refused make the URL an invalid one.\<close>

definition registration_problem :: "exn \<Rightarrow> exn" where
  "registration_problem e =
     (case e of ValueError _ \<Rightarrow> APIProblem 422 ''invalid_webhook_url'' ''Invalid webhook URL'' [] | _ \<Rightarrow> e)"

definition check_registration :: "http \<Rightarrow> string \<Rightarrow> exn + unit" where
  "check_registration h url =
     exn_bind (ht_webhooks h) (\<lambda>ws.
       validate_webhook_registration_url (ht_web h) (ht_webhooks h) (ws_require_https ws) url)"

definition new_endpoint :: "principal \<Rightarrow> jdict \<Rightarrow> string \<Rightarrow> string \<Rightarrow> exn + jdict" where
  "new_endpoint p payload secret now =
     exn_bind (item_of payload ''url'') (\<lambda>url.
     exn_bind (item_of payload ''event_types'') (\<lambda>event_types.
       Inr [(''tenant_id'', JStr (tenant_id p)), (''url'', url), (''event_types'', event_types),
            (''description'', dget payload ''description''), (''status'', JStr ''ACTIVE''), (''status_reason'', JNull),
            (''paused_at'', JNull), (''signature_version'', JStr ''v1''), (''replay_window_seconds'', JInt 300),
            (''signing_secret'', JStr secret), (''previous_signing_secret'', JNull),
            (''previous_secret_valid_until'', JNull), (''created_at'', JStr now)]))"

definition register_endpoint :: "http \<Rightarrow> principal \<Rightarrow> jdict \<Rightarrow> (durable_world, outcome) py" where
  "register_endpoint h p payload =
     seq (on_world (urandom h)) (\<lambda>random.
     let secret = new_webhook_secret random
     in seq (on_world (iso_now (ht_service h))) (\<lambda>now.
        seq (lift (new_endpoint p payload secret now)) (\<lambda>value.
        seq (in_state (create_webhook_endpoint value)) (\<lambda>endpoint.
        seq (validated h ''WebhookEndpointCreated'' False
               (dput ''signing_secret'' (JStr secret) (public_webhook_endpoint endpoint))) (\<lambda>v.
          ret (201, v, []))))))"

definition http_create_webhook_endpoint ::
  "http \<Rightarrow> rest \<Rightarrow> principal \<Rightarrow> string \<Rightarrow> api_request \<Rightarrow> jdict \<Rightarrow> (durable_world, reply) py" where
  "http_create_webhook_endpoint h others p key rq payload =
     seq (authorize p ''createWebhookEndpoint'') (\<lambda>_.
     seq (lift (string_of payload ''url'')) (\<lambda>url.
     seq (except registration_problem (lift (check_registration h url))) (\<lambda>_.
       idempotent h others ''createWebhookEndpoint'' p key rq (JObj payload) (register_endpoint h p payload))))"

definition http_get_webhook_endpoint :: "http \<Rightarrow> principal \<Rightarrow> string \<Rightarrow> (durable_world, reply) py" where
  "http_get_webhook_endpoint h p endpoint_id =
     seq (authorize p ''getWebhookEndpoint'') (\<lambda>_.
     seq (owned_endpoint p endpoint_id) (\<lambda>endpoint.
       validated_reply h ''WebhookEndpoint'' False (JObj (public_webhook_endpoint endpoint)) []))"

definition disable_endpoint :: "http \<Rightarrow> principal \<Rightarrow> string \<Rightarrow> (durable_world, outcome) py" where
  "disable_endpoint h p endpoint_id =
     seq (owned_endpoint p endpoint_id) (\<lambda>endpoint.
     seq (lift (item_of endpoint ''status'')) (\<lambda>status.
     seq (if status = JStr ''DISABLED'' then ret ()
          else seq (on_world (iso_now (ht_service h))) (\<lambda>now.
               seq (in_state (update_webhook_endpoint endpoint_id
                      [(''status'', JStr ''DISABLED''), (''status_reason'', JStr ''Deleted by API request.''),
                       (''paused_at'', JStr now)])) (\<lambda>_. ret ()))) (\<lambda>_.
       ret (204, JObj [], []))))"

definition http_delete_webhook_endpoint ::
  "http \<Rightarrow> rest \<Rightarrow> principal \<Rightarrow> string \<Rightarrow> api_request \<Rightarrow> string \<Rightarrow> (durable_world, reply) py" where
  "http_delete_webhook_endpoint h others p key rq endpoint_id =
     seq (authorize p ''deleteWebhookEndpoint'') (\<lambda>_.
       idempotent h others ''deleteWebhookEndpoint'' p key rq JNull (disable_endpoint h p endpoint_id))"

definition rotate_secret :: "http \<Rightarrow> principal \<Rightarrow> string \<Rightarrow> (durable_world, outcome) py" where
  "rotate_secret h p endpoint_id =
     seq (owned_endpoint p endpoint_id) (\<lambda>endpoint.
     seq (lift (item_of endpoint ''status'')) (\<lambda>status.
     seq (fail_if (status = JStr ''DISABLED'')
            (APIProblem 409 ''webhook_disabled'' ''Webhook endpoint is disabled'' [])) (\<lambda>_.
     seq (on_world (urandom h)) (\<lambda>random.
     let secret = new_webhook_secret random
     in seq (on_world (iso_in (ht_service h) 300)) (\<lambda>valid_until.
        seq (in_state (update_webhook_endpoint endpoint_id
               [(''signing_secret'', JStr secret), (''previous_signing_secret'', dget endpoint ''signing_secret''),
                (''previous_secret_valid_until'', JStr valid_until)])) (\<lambda>_.
        seq (on_world (iso_now (ht_service h))) (\<lambda>now.
        seq (validated h ''WebhookSecretRotated'' False
               [(''webhook_endpoint_id'', JStr endpoint_id), (''signing_secret'', JStr secret),
                (''previous_secret_valid_until'', JStr valid_until), (''created_at'', JStr now)]) (\<lambda>v.
          ret (201, v, [])))))))))"

definition http_rotate_webhook_secret ::
  "http \<Rightarrow> rest \<Rightarrow> principal \<Rightarrow> string \<Rightarrow> api_request \<Rightarrow> string \<Rightarrow> (durable_world, reply) py" where
  "http_rotate_webhook_secret h others p key rq endpoint_id =
     seq (authorize p ''rotateWebhookEndpointSecret'') (\<lambda>_.
       idempotent h others ''rotateWebhookEndpointSecret'' p key rq JNull (rotate_secret h p endpoint_id))"

definition enable_endpoint :: "http \<Rightarrow> principal \<Rightarrow> string \<Rightarrow> (durable_world, outcome) py" where
  "enable_endpoint h p endpoint_id =
     seq (owned_endpoint p endpoint_id) (\<lambda>endpoint.
     seq (lift (item_of endpoint ''status'')) (\<lambda>status.
     seq (if status = JStr ''ACTIVE'' then ret endpoint
          else in_state (update_webhook_endpoint endpoint_id
                 [(''status'', JStr ''ACTIVE''), (''status_reason'', JNull), (''paused_at'', JNull)])) (\<lambda>endpoint.
     seq (validated h ''WebhookEndpoint'' False (public_webhook_endpoint endpoint)) (\<lambda>v. ret (200, v, [])))))"

definition http_enable_webhook_endpoint ::
  "http \<Rightarrow> rest \<Rightarrow> principal \<Rightarrow> string \<Rightarrow> api_request \<Rightarrow> string \<Rightarrow> (durable_world, reply) py" where
  "http_enable_webhook_endpoint h others p key rq endpoint_id =
     seq (authorize p ''enableWebhookEndpoint'') (\<lambda>_.
       idempotent h others ''enableWebhookEndpoint'' p key rq JNull (enable_endpoint h p endpoint_id))"

section \<open>Deliveries\<close>

definition owned_delivery :: "principal \<Rightarrow> jdict \<Rightarrow> string \<Rightarrow> (durable_world, jdict) py" where
  "owned_delivery p endpoint delivery_id =
     seq (lift (string_of endpoint ''webhook_endpoint_id'')) (\<lambda>found_id.
     seq (in_state (get_webhook_delivery found_id delivery_id)) (\<lambda>found. lift (owned found p)))"

definition http_get_webhook_delivery ::
  "http \<Rightarrow> principal \<Rightarrow> string \<Rightarrow> string \<Rightarrow> (durable_world, reply) py" where
  "http_get_webhook_delivery h p endpoint_id delivery_id =
     seq (authorize p ''getWebhookDelivery'') (\<lambda>_.
     seq (owned_endpoint p endpoint_id) (\<lambda>endpoint.
     seq (owned_delivery p endpoint delivery_id) (\<lambda>delivery.
       validated_reply h ''WebhookDelivery'' False (JObj (public_webhook_delivery delivery)) [])))"

text \<open>An exhausted delivery may be sent again until its deadline.\<close>

definition check_redelivery :: "http \<Rightarrow> jdict \<Rightarrow> json \<Rightarrow> (durable_world, unit) py" where
  "check_redelivery h delivery status =
     (if status = JStr ''EXHAUSTED''
      then seq (lift (webhook_redelivery_deadline h delivery)) (\<lambda>deadline.
           seq (on_world (utcnow (ht_service h))) (\<lambda>now. fail_if (deadline \<le> now) redelivery_expired))
      else ret ())"

definition redeliver :: "http \<Rightarrow> principal \<Rightarrow> string \<Rightarrow> string \<Rightarrow> (durable_world, outcome) py" where
  "redeliver h p endpoint_id delivery_id =
     seq (owned_endpoint p endpoint_id) (\<lambda>endpoint.
     seq (lift (item_of endpoint ''status'')) (\<lambda>endpoint_status.
     seq (fail_if (endpoint_status \<noteq> JStr ''ACTIVE'')
            (APIProblem 409 ''webhook_not_active'' ''Webhook endpoint is not active'' [])) (\<lambda>_.
     seq (owned_delivery p endpoint delivery_id) (\<lambda>delivery.
     seq (lift (item_of delivery ''status'')) (\<lambda>status.
     seq (fail_if (status \<notin> {JStr ''PENDING'', JStr ''RETRYING'', JStr ''EXHAUSTED''})
            (APIProblem 409 ''delivery_not_redeliverable'' ''Delivery is not redeliverable'' [])) (\<lambda>_.
     seq (check_redelivery h delivery status) (\<lambda>_.
     seq (on_world (iso_now (ht_service h))) (\<lambda>next_attempt_at.
     seq (in_state (update_webhook_delivery endpoint_id delivery_id
            [(''status'', JStr ''PENDING''), (''next_attempt_at'', JStr next_attempt_at), (''last_problem'', JNull),
             (''exhausted_at'', JNull), (''redeliver_until'', JNull)])) (\<lambda>_.
     seq (in_state (new_id ''redelivery'')) (\<lambda>redelivery_id.
     seq (on_world (iso_now (ht_service h))) (\<lambda>now.
     seq (validated h ''WebhookRedeliveryReceipt'' False
            [(''redelivery_id'', JStr redelivery_id), (''delivery_id'', JStr delivery_id), (''status'', JStr ''ACCEPTED''),
             (''submitted_at'', JStr now),
             (''delivery_href'', JStr (''/v1/webhook-endpoints/'' @ endpoint_id @ ''/deliveries/'' @ delivery_id))]) (\<lambda>v.
       ret (202, v, [(''Retry-After'', ''1'')])))))))))))))"

definition http_redeliver ::
  "http \<Rightarrow> rest \<Rightarrow> principal \<Rightarrow> string \<Rightarrow> api_request \<Rightarrow> string \<Rightarrow> string \<Rightarrow> (durable_world, reply) py" where
  "http_redeliver h others p key rq endpoint_id delivery_id =
     seq (authorize p ''redeliverWebhookDelivery'') (\<lambda>_.
       idempotent h others ''redeliverWebhookDelivery'' p key rq JNull (redeliver h p endpoint_id delivery_id))"

section \<open>Deleting a dataset\<close>

definition deletion_stores :: "string \<Rightarrow> string \<Rightarrow> string \<Rightarrow> json \<Rightarrow> json" where
  "deletion_stores metadata object_store model_registry verified_at =
     JArr (map (\<lambda>(name, status). JObj [(''name'', JStr name), (''status'', JStr status), (''verified_at'', verified_at)])
       [(''metadata'', metadata), (''object_store'', object_store), (''model_registry'', model_registry)])"

text \<open>The versions of the dataset and the runs made from them.\<close>

definition affected_runs :: "principal \<Rightarrow> jdict list \<Rightarrow> (durable_world, jdict list) py" where
  "affected_runs p versions =
     seq (lift (traverse (\<lambda>v. item_of v ''dataset_version_id'') versions)) (\<lambda>version_ids.
     seq (in_state list_runs) (\<lambda>runs.
       ret (filter (\<lambda>run. list_ex (\<lambda>v. py_eq v (dget run ''dataset_version_id'')) version_ids)
              (of_tenant (tenant_id p) runs))))"

definition start_deletion ::
  "http \<Rightarrow> principal \<Rightarrow> string \<Rightarrow> (durable_world, string \<times> string \<times> jdict list \<times> jdict list) py" where
  "start_deletion h p dataset_id =
     seq (in_state (get_dataset dataset_id)) (\<lambda>found.
     seq (lift (owned found p)) (\<lambda>dataset.
     seq (in_state (list_dataset_versions (Some dataset_id))) (\<lambda>versions.
     let versions = of_tenant (tenant_id p) versions
     in seq (affected_runs p versions) (\<lambda>runs.
        seq (lift (traverse (\<lambda>run. string_of run ''run_id'') runs)) (\<lambda>run_ids.
        seq (on_world (iso_now (ht_service h))) (\<lambda>now.
        seq (lift (item_of dataset ''dataset_id'')) (\<lambda>found_id.
        seq (in_state (create_deletion
               [(''tenant_id'', JStr (tenant_id p)), (''dataset_id'', found_id), (''status'', JStr ''RUNNING''),
                (''affected_run_ids'', JArr (map JStr (sort run_ids))),
                (''stores'', deletion_stores ''DELETING'' ''DELETING'' ''DELETING'' JNull), (''created_at'', JStr now),
                (''completed_at'', JNull)])) (\<lambda>deletion.
        seq (lift (string_of deletion ''deletion_id'')) (\<lambda>deletion_id.
          ret (deletion_id, now, versions, runs))))))))))"

text \<open>Access is revoked before bytes are deleted.\<close>

definition revoke_access ::
  "string \<Rightarrow> string \<Rightarrow> jdict list \<Rightarrow> jdict list \<Rightarrow> (durable_world, jdict list) py" where
  "revoke_access dataset_id now versions runs =
     seq (in_state (update_dataset dataset_id [(''deleted_at'', JStr now)])) (\<lambda>_.
     seq (each (\<lambda>v. seq (lift (string_of v ''dataset_version_id'')) (\<lambda>version_id.
            seq (in_state (update_dataset_version version_id [(''status'', JStr ''DELETED''), (''updated_at'', JStr now)]))
              (\<lambda>_. ret ()))) versions) (\<lambda>_.
     seq (collect (\<lambda>run. seq (lift (string_of run ''run_id'')) (\<lambda>run_id.
            in_state (list_artifacts (Some run_id)))) runs) (\<lambda>found.
     let artifacts = concat found
     in seq (each (\<lambda>a. seq (lift (string_of a ''artifact_id'')) (\<lambda>artifact_id.
               seq (in_state (update_artifact artifact_id [(''state'', JStr ''DELETING'')])) (\<lambda>_. ret ()))) artifacts)
          (\<lambda>_. ret artifacts))))"

definition cancel_open_runs :: "http \<Rightarrow> principal \<Rightarrow> jdict list \<Rightarrow> (durable_world, unit) py" where
  "cancel_open_runs h p runs =
     each (\<lambda>run.
       if dget run ''status'' = JStr ''TERMINAL'' then ret ()
       else seq (lift (string_of run ''run_id'')) (\<lambda>run_id.
            seq (rs_cancel (ht_runs h) p run_id) (\<lambda>_. ret ()))) runs"

definition erase_bytes ::
  "http \<Rightarrow> principal \<Rightarrow> jdict list \<Rightarrow> jdict list \<Rightarrow> (durable_world, unit) py" where
  "erase_bytes h p versions artifacts =
     (let sv = ht_service h
      in seq (each (\<lambda>v. seq (lift (string_of v ''dataset_version_id'')) (\<lambda>version_id.
                on_world (in_files (bs_delete_dataset_version (sv_blobs sv) (tenant_id p) version_id)))) versions) (\<lambda>_.
         each (\<lambda>a. seq (on_world (in_files (bs_delete_key (sv_blobs sv)
                     (py_str (sv_env sv) (dget_or a ''blob_key'' (JStr [])))))) (\<lambda>_.
                   seq (lift (string_of a ''artifact_id'')) (\<lambda>artifact_id.
                   seq (in_state (update_artifact artifact_id [(''state'', JStr ''DELETED'')])) (\<lambda>_. ret ())))) artifacts))"

definition end_deletion ::
  "http \<Rightarrow> string \<Rightarrow> string \<Rightarrow> string \<Rightarrow> string \<Rightarrow> string \<Rightarrow> (durable_world, jdict) py" where
  "end_deletion h deletion_id status metadata object_store model_registry =
     seq (on_world (iso_now (ht_service h))) (\<lambda>at_time.
       in_state (update_deletion deletion_id
         [(''status'', JStr status), (''stores'', deletion_stores metadata object_store model_registry (JStr at_time)),
          (''completed_at'', JStr at_time)]))"

definition perform_deletion ::
  "http \<Rightarrow> principal \<Rightarrow> string \<Rightarrow> string \<Rightarrow> string \<Rightarrow> jdict list \<Rightarrow> jdict list \<Rightarrow> (durable_world, jdict) py" where
  "perform_deletion h p dataset_id deletion_id now versions runs =
     seq (revoke_access dataset_id now versions runs) (\<lambda>artifacts.
     seq (cancel_open_runs h p runs) (\<lambda>_.
     seq (erase_bytes h p versions artifacts) (\<lambda>_.
       end_deletion h deletion_id ''COMPLETED'' ''DELETED'' ''DELETED'' ''INACCESSIBLE'')))"

text \<open>A deletion that fails is marked as such and raises its exception again.\<close>

definition run_deletion :: "http \<Rightarrow> principal \<Rightarrow> string \<Rightarrow> (durable_world, outcome) py" where
  "run_deletion h p dataset_id =
     seq (start_deletion h p dataset_id) (\<lambda>(deletion_id, now, versions, runs).
     seq (on_error (perform_deletion h p dataset_id deletion_id now versions runs)
            (seq (end_deletion h deletion_id ''FAILED'' ''FAILED'' ''FAILED'' ''FAILED'') (\<lambda>_. ret ()))) (\<lambda>deletion.
     seq (validated h ''DeletionJob'' False (public_deletion deletion)) (\<lambda>v.
       ret (202, v, [(''Retry-After'', ''1'')]))))"

definition http_delete_dataset ::
  "http \<Rightarrow> rest \<Rightarrow> principal \<Rightarrow> string \<Rightarrow> api_request \<Rightarrow> string \<Rightarrow> (durable_world, reply) py" where
  "http_delete_dataset h others p key rq dataset_id =
     seq (authorize p ''deleteDataset'') (\<lambda>_.
       idempotent h others ''deleteDataset'' p key rq JNull (run_deletion h p dataset_id))"

definition http_get_deletion :: "http \<Rightarrow> principal \<Rightarrow> string \<Rightarrow> (durable_world, reply) py" where
  "http_get_deletion h p deletion_id =
     seq (authorize p ''getDeletionJob'') (\<lambda>_.
     seq (in_state (get_deletion deletion_id)) (\<lambda>found.
     seq (lift (owned found p)) (\<lambda>deletion.
       validated_reply h ''DeletionJob'' False (JObj (public_deletion deletion)) [])))"

end
