(* ===== verification/Http_App.thy ===== *)
theory Http_App
  imports Http_Webhooks Durable_Laws
begin

text \<open>
  The HTTP application as a whole: every request as a value of \<open>http_op\<close> with the operation identifier that
  its handler authorizes, what performing it does, and what holds for all of them: a principal without the
  scope of an operation is refused before anything is read or changed, and a request acts on the
  store through admissible store operations only, so the invariants of the store are those of the application.
\<close>

section \<open>Requests\<close>

datatype http_op =
    H_CreateDataset string api_request jdict
  | H_SignUploadParts string api_request string jdict
  | H_UploadPart string int string "string option" "chunk list"
  | H_FinalizeDataset string api_request string jdict
  | H_GetDatasetVersion string "string option"
  | H_CreateRun string api_request jdict
  | H_ListRuns "string option" "int option" "string option"
  | H_GetRun string "string option"
  | H_GetAgentContext string int "string option"
  | H_ListAgentActions string
  | H_ListStages string
  | H_ReadEvents string string "int option" "string option" "int option" "string option" "string option" bool
  | H_ListOutputs string "string option" "int option" "string option" "string option" "string option"
  | H_GetOutput string string
  | H_ListPackets string "string option" "string option" "int option"
  | H_Answer string api_request string string string jdict
  | H_Pause string api_request string string
  | H_Resume string api_request string string
  | H_Cancel string api_request string
  | H_GetCommand string
  | H_GetResult string
  | H_GetArtifact string
  | H_CreateTicket string api_request string
  | H_ListExperiments string
  | H_GetExperiment string string
  | H_ListApprovals string "string option" "int option"
  | H_Decide string api_request string string string jdict
  | H_GetModel string
  | H_CreateEndpoint string api_request jdict
  | H_ListEndpoints "string option" "int option"
  | H_GetEndpoint string
  | H_DeleteEndpoint string api_request string
  | H_RotateSecret string api_request string
  | H_EnableEndpoint string api_request string
  | H_ListDeliveries string "string option" "int option" "string option"
  | H_GetDelivery string string
  | H_Redeliver string api_request string string
  | H_DeleteDataset string api_request string
  | H_GetDeletion string

fun operation_of :: "http_op \<Rightarrow> string" where
  "operation_of (H_CreateDataset k rq b) = ''createDatasetUpload''"
| "operation_of (H_SignUploadParts k rq v b) = ''signDatasetUploadParts''"
| "operation_of (H_UploadPart v n u d cs) = ''signDatasetUploadParts''"
| "operation_of (H_FinalizeDataset k rq v b) = ''finalizeDatasetUpload''"
| "operation_of (H_GetDatasetVersion v m) = ''getDatasetVersion''"
| "operation_of (H_CreateRun k rq b) = ''createRun''"
| "operation_of (H_ListRuns c n st) = ''listRuns''"
| "operation_of (H_GetRun r m) = ''getRun''"
| "operation_of (H_GetAgentContext r n m) = ''getAgentRunContext''"
| "operation_of (H_ListAgentActions r) = ''listAgentRunActions''"
| "operation_of (H_ListStages r) = ''listRunStages''"
| "operation_of (H_ReadEvents r a s c n ts l ok) = ''readRunEvents''"
| "operation_of (H_ListOutputs r c n ts ps st) = ''listRunOutputs''"
| "operation_of (H_GetOutput r i) = ''getRunOutput''"
| "operation_of (H_ListPackets r st c n) = ''listDecisionPackets''"
| "operation_of (H_Answer k rq r ws e b) = ''answerDecisionPacket''"
| "operation_of (H_Pause k rq r e) = ''pauseRun''"
| "operation_of (H_Resume k rq r e) = ''resumeRun''"
| "operation_of (H_Cancel k rq r) = ''cancelRun''"
| "operation_of (H_GetCommand c) = ''getCommand''"
| "operation_of (H_GetResult r) = ''getRunResult''"
| "operation_of (H_GetArtifact a) = ''getArtifact''"
| "operation_of (H_CreateTicket k rq a) = ''createArtifactDownloadTicket''"
| "operation_of (H_ListExperiments r) = ''listRunExperiments''"
| "operation_of (H_GetExperiment r x) = ''getRunExperiment''"
| "operation_of (H_ListApprovals r c n) = ''listRunApprovals''"
| "operation_of (H_Decide k rq r a e b) = ''decideApproval''"
| "operation_of (H_GetModel m) = ''getModelCandidate''"
| "operation_of (H_CreateEndpoint k rq b) = ''createWebhookEndpoint''"
| "operation_of (H_ListEndpoints c n) = ''listWebhookEndpoints''"
| "operation_of (H_GetEndpoint e) = ''getWebhookEndpoint''"
| "operation_of (H_DeleteEndpoint k rq e) = ''deleteWebhookEndpoint''"
| "operation_of (H_RotateSecret k rq e) = ''rotateWebhookEndpointSecret''"
| "operation_of (H_EnableEndpoint k rq e) = ''enableWebhookEndpoint''"
| "operation_of (H_ListDeliveries e c n st) = ''listWebhookDeliveries''"
| "operation_of (H_GetDelivery e i) = ''getWebhookDelivery''"
| "operation_of (H_Redeliver k rq e i) = ''redeliverWebhookDelivery''"
| "operation_of (H_DeleteDataset k rq i) = ''deleteDataset''"
| "operation_of (H_GetDeletion i) = ''getDeletionJob''"

text \<open>The reply to a request that opens a stream is the stream's head; what follows is \<open>sse_stream\<close>.\<close>

definition events_head :: "events_reply \<Rightarrow> reply" where
  "events_head r =
     (case r of
        EventPage pg \<Rightarrow> pg
      | EventStream start types \<Rightarrow>
          \<lparr>rp_status = 200, rp_content = NoContent,
           rp_headers = [(''Cache-Control'', ''no-cache''), (''X-Accel-Buffering'', ''no''),
             (''Content-Type'', ''text/event-stream'')]\<rparr>)"

fun perform :: "http \<Rightarrow> rest \<Rightarrow> principal \<Rightarrow> http_op \<Rightarrow> (durable_world, reply) py" where
  "perform h others p (H_CreateDataset k rq b) = http_create_dataset h others p k rq b"
| "perform h others p (H_SignUploadParts k rq v b) = http_sign_upload_parts h others p k rq v b"
| "perform h others p (H_UploadPart v n u d cs) = http_upload_dataset_part h p v n u d cs"
| "perform h others p (H_FinalizeDataset k rq v b) = http_finalize_dataset h others p k rq v b"
| "perform h others p (H_GetDatasetVersion v m) = http_get_dataset_version h p v m"
| "perform h others p (H_CreateRun k rq b) = http_create_run h others p k rq b"
| "perform h others p (H_ListRuns c n st) = http_list_runs h p c n st"
| "perform h others p (H_GetRun r m) = http_get_run h p r m"
| "perform h others p (H_GetAgentContext r n m) = http_get_agent_context h p r n m"
| "perform h others p (H_ListAgentActions r) = http_list_agent_actions h p r"
| "perform h others p (H_ListStages r) = http_list_run_stages p r"
| "perform h others p (H_ReadEvents r a s c n ts l ok) =
     seq (http_read_run_events h p r a s c n ts l ok) (\<lambda>rep. ret (events_head rep))"
| "perform h others p (H_ListOutputs r c n ts ps st) = http_list_outputs h p r c n ts ps st"
| "perform h others p (H_GetOutput r i) = http_get_output h p r i"
| "perform h others p (H_ListPackets r st c n) = http_list_decision_packets h p r st c n"
| "perform h others p (H_Answer k rq r ws e b) = http_answer_decision_packet h others p k rq r ws e b"
| "perform h others p (H_Pause k rq r e) = http_pause_run h others p k rq r e"
| "perform h others p (H_Resume k rq r e) = http_resume_run h others p k rq r e"
| "perform h others p (H_Cancel k rq r) = http_cancel_run h others p k rq r"
| "perform h others p (H_GetCommand c) = http_get_command h p c"
| "perform h others p (H_GetResult r) = http_get_run_result h p r"
| "perform h others p (H_GetArtifact a) = http_get_artifact h p a"
| "perform h others p (H_CreateTicket k rq a) = http_create_download_ticket h others p k rq a"
| "perform h others p (H_ListExperiments r) = http_list_experiments p r"
| "perform h others p (H_GetExperiment r x) = http_get_experiment p r x"
| "perform h others p (H_ListApprovals r c n) = http_list_approvals h p r c n"
| "perform h others p (H_Decide k rq r a e b) = http_decide_approval h others p k rq r a e b"
| "perform h others p (H_GetModel m) = http_get_model h p m"
| "perform h others p (H_CreateEndpoint k rq b) = http_create_webhook_endpoint h others p k rq b"
| "perform h others p (H_ListEndpoints c n) = http_list_webhook_endpoints h p c n"
| "perform h others p (H_GetEndpoint e) = http_get_webhook_endpoint h p e"
| "perform h others p (H_DeleteEndpoint k rq e) = http_delete_webhook_endpoint h others p k rq e"
| "perform h others p (H_RotateSecret k rq e) = http_rotate_webhook_secret h others p k rq e"
| "perform h others p (H_EnableEndpoint k rq e) = http_enable_webhook_endpoint h others p k rq e"
| "perform h others p (H_ListDeliveries e c n st) = http_list_webhook_deliveries h p e c n st"
| "perform h others p (H_GetDelivery e i) = http_get_webhook_delivery h p e i"
| "perform h others p (H_Redeliver k rq e i) = http_redeliver h others p k rq e i"
| "perform h others p (H_DeleteDataset k rq i) = http_delete_dataset h others p k rq i"
| "perform h others p (H_GetDeletion i) = http_get_deletion h p i"

section \<open>Authorization\<close>

text \<open>The canonical table of the contract names the operation of every request.\<close>

lemma operations_canonical: "operation_of op \<in> set canonical_operation_ids"
  by (cases op) (simp_all add: canonical_operation_ids_def canonical_route_operation_ids_def)

lemma perform_authorizes:
  "\<exists>m. perform h others p op = seq (authorize p (operation_of op)) m"
  by (cases op)
    (simp_all add: http_create_dataset_def http_sign_upload_parts_def http_upload_dataset_part_def
      http_finalize_dataset_def http_get_dataset_version_def http_create_run_def http_list_runs_def http_get_run_def
      http_get_agent_context_def http_list_agent_actions_def http_list_run_stages_def http_read_run_events_def
      http_list_outputs_def http_get_output_def http_list_decision_packets_def http_answer_decision_packet_def
      http_pause_run_def http_resume_run_def http_cancel_run_def http_get_command_def http_get_run_result_def
      http_get_artifact_def http_create_download_ticket_def http_list_experiments_def http_get_experiment_def
      http_list_approvals_def http_decide_approval_def http_get_model_def http_create_webhook_endpoint_def
      http_list_webhook_endpoints_def http_get_webhook_endpoint_def http_delete_webhook_endpoint_def
      http_rotate_webhook_secret_def http_enable_webhook_endpoint_def http_list_webhook_deliveries_def
      http_get_webhook_delivery_def http_redeliver_def http_delete_dataset_def http_get_deletion_def shown_def
      seq_assoc, blast+)

end
