(* ===== verification/Http_Laws.thy ===== *)
theory Http_Laws
  imports Http_App Auth_Laws
begin

text \<open>
  The HTTP application as a client of the store: the locale \<open>app_client\<close>, which extends the contracts of the
  workflow service and of the durable workflow by the operations that only the handlers call, in
  which it is proved that what every operation of the store keeps survives every request; and its interpretations.
\<close>

lemma pure_state_reads:
  "pure_read (get_model m)" "pure_read (get_webhook_endpoint e)" "pure_read (get_dataset d)"
  "pure_read (get_deletion i)" "pure_read (get_idempotency op key fp)"
  unfolding get_model_def get_webhook_endpoint_def get_dataset_def get_deletion_def get_locked_def
    get_idempotency_def idem_lookup_def
  by (intro pure_read_seq pure_read_basic | simp add: pure_read_def py_run split: option.split)+

lemma keeps_in_state: "keeps I m \<Longrightarrow> keeps (in_durable I) (in_state m)"
  by (intro keeps_on_world keeps_in_store)

lemma keeps_state_read: "pure_read m \<Longrightarrow> keeps (in_durable I) (in_state m)"
  by (intro keeps_in_state pure_read_keeps)

lemma keeps_urandom: "keeps (on_store I) (urandom h)"
  by (simp add: keeps_def urandom_def)

lemma keeps_readings:
  "keeps (in_durable I) (on_world (utcnow sv))" "keeps (in_durable I) (on_world (iso_now sv))"
  "keeps (in_durable I) (on_world (iso_in sv n))" "keeps (in_durable I) (on_world (urandom h))"
  "keeps (in_durable I) (on_world (in_files fm))" "keeps (in_durable I) (file_at path)"
  by (intro keeps_on_world keeps_clock keeps_in_files keeps_file_at keeps_urandom)+

lemma keeps_settle:
  assumes "keeps P execute" and "\<And>k. keeps P (meanwhile others k)"
    and "\<And>resp. keeps P (in_state (complete_idempotent_request operation key fp resp))"
    and "keeps P (in_state (abort_idempotent_request operation key fp))"
  shows "keeps P (settle h others corr operation key fp execute)"
proof (rule keepsI)
  fix d assume d: "P d"
  let ?m = "seq execute (\<lambda>r. seq (meanwhile others 2) (\<lambda>_.
    in_state (complete_idempotent_request operation key fp (success_response corr r))))"
  have "P (post ?m d)" by (rule keepsD [where P = P, OF _ d]) (intro keeps_seq assms)
  moreover have "keeps P (seq (meanwhile others 3) (\<lambda>_.
      in_state (complete_idempotent_request operation key fp resp)))" for resp
    by (intro keeps_seq assms)
  moreover have "keeps P (seq (meanwhile others 3) (\<lambda>_.
      seq (in_state (abort_idempotent_request operation key fp)) (\<lambda>_. raise e :: (durable_world, stored_response) py)))" for e
    by (intro keeps_seq keeps_basic assms)
  ultimately show "P (post (settle h others corr operation key fp execute) d)"
    unfolding settle_def keeps_def by (auto split: prod.split sum.split option.split)
qed

lemma keeps_idem_case:
  "(\<And>stored. keeps P (a stored)) \<Longrightarrow> keeps P b \<Longrightarrow>
     keeps P (case (x, y) of (REPLAY, Some stored) \<Rightarrow> a stored | (NEW, _) \<Rightarrow> b | (CONFLICT, _) \<Rightarrow> raise e | _ \<Rightarrow> raise e')"
  by (auto split: idem_state.split option.split)

lemma keeps_case_option:
  "keeps P a \<Longrightarrow> (\<And>x. keeps P (b x)) \<Longrightarrow> keeps P (case found of None \<Rightarrow> a | Some x \<Rightarrow> b x)"
  by (cases found) simp_all

lemma keeps_case_prod: "(\<And>x y. keeps P (f x y)) \<Longrightarrow> keeps P (case q of (x, y) \<Rightarrow> f x y)"
  by (cases q) simp

lemma keeps_on_error: "keeps P m \<Longrightarrow> keeps P m' \<Longrightarrow> keeps P (on_error m m')"
  unfolding on_error_def keeps_def seq_def raise_def by (auto split: prod.splits sum.splits)

locale app_client = durable_client +
  assumes approval_kept: "distinct (map fst u) \<Longrightarrow> keeps I (update_approval r k u)" "keeps I (get_approval r k)"
    and dataset_kept: "keeps I (update_dataset k u)" and model_kept: "keeps I (create_model env v)"
    and endpoints_kept: "keeps I (create_webhook_endpoint v)" "keeps I (update_webhook_endpoint k u)"
    and deliveries_kept: "keeps I (get_webhook_delivery e k)" "keeps I (list_webhook_deliveries e)"
      "distinct (map fst u) \<Longrightarrow> keeps I (update_webhook_delivery e k u)"
    and deletions_kept: "keeps I (create_deletion v)" "keeps I (update_deletion k u)"
    and idempotency_kept: "keeps I (begin_idempotent_request op key fp)"
      "keeps I (complete_idempotent_request op key fp resp)" "keeps I (abort_idempotent_request op key fp)"
begin

lemmas app_rules =
  keeps_seq_lift keeps_seq keeps_basic keeps_except keeps_readings keeps_each keeps_collect
  pure_store_reads [THEN keeps_state_read] pure_state_reads [THEN keeps_state_read]
  store_kept [THEN keeps_in_state] approvals_kept [THEN keeps_in_state] approval_kept [THEN keeps_in_state]
  dataset_kept [THEN keeps_in_state] model_kept [THEN keeps_in_state] endpoints_kept [THEN keeps_in_state]
  deliveries_kept [THEN keeps_in_state] deletions_kept [THEN keeps_in_state] idempotency_kept [THEN keeps_in_state]

lemma authorize_kept: "keeps (in_durable I) (authorize p operation)"
  unfolding authorize_def by (intro app_rules)

lemma idempotent_kept:
  assumes others: "\<And>k d. in_durable I d \<Longrightarrow> in_durable I (others k d)" and body: "keeps (in_durable I) execute"
  shows "keeps (in_durable I) (idempotent h others operation p key rq payload execute)"
  unfolding idempotent_def Let_def
  by (intro app_rules keeps_idem_case keeps_settle body keeps_meanwhile others keeps_if)

lemma reply_kept:
  "keeps (in_durable I) (validated h model x d)" "keeps (in_durable I) (validated_reply h model x v hs)"
  "keeps (in_durable I) m \<Longrightarrow> keeps (in_durable I) (answered h status model x hs m)"
  "keeps (on_store I) w \<Longrightarrow> keeps (in_durable I) (shown h p operation model w)"
  unfolding validated_def validated_reply_def answered_def shown_def
  by (auto intro!: app_rules authorize_kept keeps_on_world)

lemma request_kept:
  assumes "sv_env (ht_service h) = env"
  shows "keeps (in_durable I) (on_world (svc_create_dataset (ht_service h) p b u))"
    "keeps (in_durable I) (on_world (sign_upload_parts (ht_service h) p v b u))"
    "keeps (in_durable I) (on_world (svc_put_upload_part (ht_service h) p v w n cs))"
    "keeps (in_durable I) (on_world (finalize_dataset (ht_service h) p v b))"
    "keeps (in_durable I) (on_world (owned_version p v))"
  by (intro keeps_on_world dataset_requests_kept owned_kept assms)+

lemma reads_kept:
  "keeps (in_durable I) (on_world (svc_get_run p r))" "keeps (in_durable I) (on_world (svc_list_runs p))"
  "keeps (in_durable I) (on_world (svc_list_decision_packets p r st))"
  "keeps (in_durable I) (on_world (get_agent_context sv p r n))"
  "keeps (in_durable I) (on_world (get_agent_actions sv p r))"
  "keeps (in_durable I) (on_world (svc_list_outputs p r))"
  "keeps (in_durable I) (on_world (create_download_ticket sv p a b))"
  "keeps (in_durable I) (on_world (svc_get_dataset_version p v))"
  by (intro keeps_on_world read_requests_kept)+

lemma listings_kept:
  "keeps (in_durable I) (http_list_runs h p c n st)"
  "keeps (in_durable I) (http_list_decision_packets h p r st c n)"
  "keeps (in_durable I) (http_list_approvals h p r c n)"
  "keeps (in_durable I) (http_list_webhook_endpoints h p c n)"
  "keeps (in_durable I) (http_list_webhook_deliveries h p e c n st)"
  "keeps (in_durable I) (http_read_run_events h p r a s c n ts l ok)"
  "keeps (in_durable I) (http_list_outputs h p r c n ts ps st)"
  unfolding http_list_runs_def http_list_decision_packets_def http_list_approvals_def listed_packets_def
    http_list_webhook_endpoints_def http_list_webhook_deliveries_def http_read_run_events_def read_event_page_def
    public_run_events_def http_list_outputs_def owned_endpoint_def
  by (auto intro!: app_rules authorize_kept reads_kept reply_kept keeps_if split: prod.split)

lemma views_kept:
  "keeps (in_durable I) (http_get_dataset_version h p v m)" "keeps (in_durable I) (http_get_run h p r m)"
  "keeps (in_durable I) (http_get_agent_context h p r n m)" "keeps (in_durable I) (http_list_agent_actions h p r)"
  "keeps (in_durable I) (http_list_run_stages p r)" "keeps (in_durable I) (http_get_command h p c)"
  "keeps (in_durable I) (http_get_run_result h p r)" "keeps (in_durable I) (http_get_output h p r i)"
  "keeps (in_durable I) (http_get_artifact h p a)" "keeps (in_durable I) (http_list_experiments p r)"
  "keeps (in_durable I) (http_get_experiment p r x)" "keeps (in_durable I) (http_get_webhook_endpoint h p e)"
  "keeps (in_durable I) (http_get_webhook_delivery h p e i)" "keeps (in_durable I) (http_get_deletion h p i)"
  unfolding http_get_dataset_version_def http_get_run_def http_get_agent_context_def http_list_agent_actions_def
    http_list_run_stages_def http_get_command_def http_get_run_result_def http_get_output_def http_get_artifact_def
    http_list_experiments_def http_get_experiment_def http_get_webhook_endpoint_def owned_endpoint_def
    http_get_webhook_delivery_def owned_delivery_def http_get_deletion_def
  by (intro app_rules authorize_kept reads_kept reply_kept read_requests_kept keeps_if)+

lemma get_model_kept:
  "sv_env (ht_service h) = env \<Longrightarrow> keeps (in_durable I) (http_get_model h p m)"
  unfolding http_get_model_def by (intro app_rules authorize_kept reply_kept request_kept)

lemma endpoint_changes_kept:
  "keeps (in_durable I) (register_endpoint h p payload)" "keeps (in_durable I) (disable_endpoint h p e)"
  "keeps (in_durable I) (rotate_secret h p e)" "keeps (in_durable I) (enable_endpoint h p e)"
  "keeps (in_durable I) (redeliver h p e i)"
  unfolding register_endpoint_def disable_endpoint_def rotate_secret_def enable_endpoint_def redeliver_def
    owned_endpoint_def owned_delivery_def check_redelivery_def Let_def
  by (intro app_rules reply_kept keeps_if | simp)+

lemma decide_kept:
  assumes env: "sv_env (ht_service h) = env" and r: "r \<in> R"
  shows "keeps (in_durable I) (decide h p r a n payload)"
proof -
  have close: "keeps (in_durable I) (close_decided_run h r run outputs result at_time)" for run outputs result at_time
    unfolding close_decided_run_def Let_def env
    by (auto intro!: app_rules keeps_in_state finalize_gives [THEN gives_keeps] r
        simp: decided_events_def run_event_def split: prod.split)
  show ?thesis
    unfolding decide_def decidable_approval_def decision_command_def decided_result_def approved_model_def Let_def env
    by (intro app_rules reply_kept keeps_if close keeps_case_option keeps_case_prod | simp)+
qed

lemma run_deletion_kept:
  assumes env: "sv_env (ht_service h) = env" and cancel: "\<And>q. keeps (in_durable I) (rs_cancel (ht_runs h) p q)"
  shows "keeps (in_durable I) (run_deletion h p i)"
proof -
  have change: "keeps (in_durable I) (in_state (update_dataset_version v
      [(''status'', JStr ''DELETED''), (''updated_at'', JStr now)]))" for v now
    by (intro keeps_in_state datasets_kept) simp
  have start: "keeps (in_durable I) (start_deletion h p i)"
    unfolding start_deletion_def affected_runs_def Let_def by (intro app_rules | simp)+
  have performed: "keeps (in_durable I) (perform_deletion h p i j now versions runs)" for j now versions runs
    unfolding perform_deletion_def revoke_access_def cancel_open_runs_def erase_bytes_def end_deletion_def Let_def
    by (intro app_rules change cancel keeps_if)
  have ended: "keeps (in_durable I) (end_deletion h j st a b c)" for j st a b c
    unfolding end_deletion_def by (intro app_rules)
  show ?thesis
    unfolding run_deletion_def
    by (intro keeps_seq keeps_basic start keeps_case_prod keeps_on_error performed ended reply_kept)
qed

text \<open>
  The operations of the run service are kept by assumption: the two profiles meet it in different ways. A decision
  is either about a run of \<open>R\<close>, or kept for another reason.
\<close>

lemma perform_kept:
  assumes env: "sv_env (ht_service h) = env" and others: "\<And>k d. in_durable I d \<Longrightarrow> in_durable I (others k d)"
    and create: "\<And>b. keeps (in_durable I) (rs_create_run (ht_runs h) p b)"
    and answer: "\<And>q ws n b. keeps (in_durable I) (rs_answer (ht_runs h) p q ws n b)"
    and pause: "\<And>q n. keeps (in_durable I) (rs_pause (ht_runs h) p q n)"
    and resume: "\<And>q n. keeps (in_durable I) (rs_resume (ht_runs h) p q n)"
    and cancel: "\<And>q. keeps (in_durable I) (rs_cancel (ht_runs h) p q)"
    and decide: "\<And>q a n b. keeps (in_durable I) (decide h p q a n b)"
  shows "keeps (in_durable I) (perform h others p op)"
proof -
  have idem: "keeps (in_durable I) m \<Longrightarrow> keeps (in_durable I) (idempotent h others operation p key rq payload m)"
    for operation key rq payload m
    by (rule idempotent_kept) (rule others)
  note run = authorize_kept idem reply_kept keeps_seq keeps_seq_lift keeps_basic keeps_except
  have control: "keeps (in_durable I) (control_run h others operation q p key rq n)" for operation q key rq n
    unfolding control_run_def Let_def by (intro run keeps_if pause resume cancel)
  have "keeps (in_durable I) (http_pause_run h others p k rq q e)" "keeps (in_durable I) (http_resume_run h others p k rq q e)"
    "keeps (in_durable I) (http_cancel_run h others p k rq q)" for k rq q e
    unfolding http_pause_run_def http_resume_run_def http_cancel_run_def by (intro run control)+
  moreover have "keeps (in_durable I) (http_create_dataset h others p k rq b)"
    "keeps (in_durable I) (http_sign_upload_parts h others p k rq v b)"
    "keeps (in_durable I) (http_upload_dataset_part h p v n u d cs)"
    "keeps (in_durable I) (http_finalize_dataset h others p k rq v b)"
    "keeps (in_durable I) (http_create_run h others p k rq b)"
    "keeps (in_durable I) (http_answer_decision_packet h others p k rq v u e b)"
    "keeps (in_durable I) (http_create_download_ticket h others p k rq v)"
    "keeps (in_durable I) (http_decide_approval h others p k rq v u e b)"
    "keeps (in_durable I) (http_create_webhook_endpoint h others p k rq b)"
    "keeps (in_durable I) (http_delete_webhook_endpoint h others p k rq v)"
    "keeps (in_durable I) (http_rotate_webhook_secret h others p k rq v)"
    "keeps (in_durable I) (http_enable_webhook_endpoint h others p k rq v)"
    "keeps (in_durable I) (http_redeliver h others p k rq v u)"
    "keeps (in_durable I) (http_delete_dataset h others p k rq v)" for k rq b v n u d cs e
    unfolding http_create_dataset_def http_sign_upload_parts_def http_upload_dataset_part_def
      http_finalize_dataset_def http_create_run_def http_answer_decision_packet_def http_create_download_ticket_def
      http_decide_approval_def http_create_webhook_endpoint_def http_delete_webhook_endpoint_def
      http_rotate_webhook_secret_def http_enable_webhook_endpoint_def http_redeliver_def http_delete_dataset_def
    by (intro run request_kept [OF env] reads_kept create answer decide endpoint_changes_kept
        run_deletion_kept [OF env cancel])+
  ultimately show ?thesis
    by (cases op) (simp_all add: listings_kept views_kept get_model_kept [OF env] keeps_seq)
qed

end

section \<open>Requests as sequences of store operations\<close>


text \<open>The service that \<open>create_app\<close> builds: synthetic, or durable with its own points of waiting.\<close>

definition built_with :: "http \<Rightarrow> rest \<Rightarrow> bool" where
  "built_with h inner \<longleftrightarrow> ht_runs h = synthetic_service (ht_service h) \<or>
     (\<exists>en. ht_runs h = durable_run_service (ht_service h) en inner)"



section \<open>Isolation\<close>

interpretation app_elsewhere: app_client env "- {r}" "has_run r run" for env r run
proof
  note frame = frame_operations [THEN has_run_frame] and wf = wf_operations
  show "keeps (has_run r run) (update_approval q k u)" if "distinct (map fst u)" for q k u by (intro frame wf that)
  show "keeps (has_run r run) (get_approval q k)" for q k by (intro frame wf)
  show "keeps (has_run r run) (update_dataset k u)" for k u by (intro frame wf)
  show "keeps (has_run r run) (create_model env v)" for v by (intro frame wf)
  show "keeps (has_run r run) (create_webhook_endpoint v)" for v by (intro frame wf)
  show "keeps (has_run r run) (update_webhook_endpoint k u)" for k u by (intro frame wf)
  show "keeps (has_run r run) (get_webhook_delivery e k)" for e k by (intro frame wf)
  show "keeps (has_run r run) (list_webhook_deliveries e)" for e by (intro frame wf)
  show "keeps (has_run r run) (update_webhook_delivery e k u)" if "distinct (map fst u)" for e k u
    by (intro frame wf that)
  show "keeps (has_run r run) (create_deletion v)" for v by (intro frame wf)
  show "keeps (has_run r run) (update_deletion k u)" for k u by (intro frame wf)
  show "keeps (has_run r run) (begin_idempotent_request op key fp)" for op key fp by (intro frame wf)
  show "keeps (has_run r run) (complete_idempotent_request op key fp resp)" for op key fp resp by (intro frame wf)
  show "keeps (has_run r run) (abort_idempotent_request op key fp)" for op key fp by (intro frame wf)
qed

text \<open>A principal of another tenant is refused before anything changes.\<close>

lemma foreign_run_refused:
  assumes "map_of (st_runs (w_store w)) r = Some run" and "dget run ''tenant_id'' \<noteq> JStr (tenant_id p)"
  shows "owned_run p r w = (Inl not_found, w)"
  using assms owned_not_found [of p "Some run"] by (simp add: owned_defs)

lemma keeps_refused:
  assumes "\<And>d. in_durable (has_run r run) d \<Longrightarrow> post m d = d"
  shows "keeps (in_durable (has_run r run)) m"
  using assms by (simp add: keeps_def)

lemma foreign_operations:
  assumes "dget run ''tenant_id'' \<noteq> JStr (tenant_id p)"
  shows "keeps (in_durable (has_run r run)) (on_world (answer sv p r ws n b))"
    "keeps (in_durable (has_run r run)) (on_world (pause sv p r n))"
    "keeps (in_durable (has_run r run)) (durable_answer sv en p r ws n b)"
    "keeps (in_durable (has_run r run)) (durable_resume sv en inner p r n)"
    "keeps (in_durable (has_run r run)) (durable_cancel sv en inner p r)"
    "keeps (in_durable (has_run r run)) (on_world (resume sv p r n))"
    "keeps (in_durable (has_run r run)) (on_world (cancel sv p r))"
    "keeps (in_durable (has_run r run)) (decide h p r a n b)"
proof -
  have refused: "owned_run p r (dw_world d) = (Inl not_found, dw_world d)" if "in_durable (has_run r run) d" for d
    using foreign_run_refused [OF _ assms] that by (simp add: has_run_def)
  note rule = keeps_refused
  show "keeps (in_durable (has_run r run)) (on_world (answer sv p r ws n b))"
    "keeps (in_durable (has_run r run)) (on_world (pause sv p r n))"
    "keeps (in_durable (has_run r run)) (durable_answer sv en p r ws n b)"
    "keeps (in_durable (has_run r run)) (durable_resume sv en inner p r n)"
    "keeps (in_durable (has_run r run)) (durable_cancel sv en inner p r)"
    "keeps (in_durable (has_run r run)) (on_world (resume sv p r n))"
    "keeps (in_durable (has_run r run)) (on_world (cancel sv p r))"
    by (rule keeps_refused, simp add: refused on_world_def seq_def answer_def check_answer_request_def pause_def resume_def
        cancel_def control_def durable_answer_def durable_accept_def check_durable_answer_def durable_resume_def
        durable_cancel_def)+
  show "keeps (in_durable (has_run r run)) (decide h p r a n b)"
    by (rule keeps_refused)
       (use owned_not_found [of p "Some run"] assms in \<open>simp add: decide_def decidable_approval_def seq_def on_world_def
          in_store_def get_run_def get_locked_def gets_def lift_def has_run_def Let_def\<close>)
qed

lemma built_elsewhere:
  assumes built: "built_with h inner" and foreign: "dget run ''tenant_id'' \<noteq> JStr (tenant_id p)"
    and inner: "\<And>k d. in_durable (has_run r run) d \<Longrightarrow> in_durable (has_run r run) (inner k d)"
    and others: "\<And>k d. in_durable (has_run r run) d \<Longrightarrow> in_durable (has_run r run) (others k d)"
  shows "keeps (in_durable (has_run r run)) (perform h others p op)"
proof -
  let ?K = "in_durable (has_run r run)"
  note foreign = foreign_operations [OF foreign]
  have local: "keeps ?K (on_world (answer sv p q ws n b)) \<and> keeps ?K (on_world (pause sv p q n)) \<and>
      keeps ?K (on_world (resume sv p q n)) \<and> keeps ?K (on_world (cancel sv p q)) \<and>
      keeps ?K (durable_answer sv en p q ws n b) \<and> keeps ?K (durable_resume sv en inner p q n) \<and>
      keeps ?K (durable_cancel sv en inner p q) \<and> keeps ?K (decide h p q a n b)"
    for sv en q ws n b a
  proof (cases "q = r")
    case True
    then show ?thesis by (simp add: foreign)
  next
    case False
    then have q: "q \<in> - {r}" by simp
    have "keeps (on_store (has_run r run)) (pause sv p q n)" "keeps (on_store (has_run r run)) (resume sv p q n)"
      "keeps (on_store (has_run r run)) (cancel sv p q)"
      unfolding pause_def resume_def cancel_def by (intro elsewhere.control_kept [OF refl] q)+
    then show ?thesis
      by (intro conjI keeps_on_world elsewhere.answer_kept [OF refl] durable_elsewhere.durable_requests_kept(2) [OF refl]
          durable_elsewhere.durable_commands_kept [OF refl] inner app_elsewhere.decide_kept [OF refl] q) auto
  qed
  have create: "keeps ?K (on_world (svc_create_run sv p b))" "keeps ?K (durable_create_run sv en p b)"
    for sv en b
    by (intro keeps_on_world elsewhere.create_run_request_kept [OF refl] durable_elsewhere.durable_requests_kept(1) [OF refl])+
  have "keeps ?K (rs_create_run (ht_runs h) p b) \<and> keeps ?K (rs_answer (ht_runs h) p q ws n b) \<and>
      keeps ?K (rs_pause (ht_runs h) p q n) \<and> keeps ?K (rs_resume (ht_runs h) p q n) \<and>
      keeps ?K (rs_cancel (ht_runs h) p q)" for b q ws n
    using built local create unfolding built_with_def
    by (auto simp: synthetic_service_def durable_run_service_def)
  moreover have "keeps ?K (decide h p q a n b)" for q a n b
    using local by blast
  ultimately show ?thesis
    by (intro app_elsewhere.perform_kept refl others) auto
qed

text \<open>
  C10. Only its tenant changes a run. Whatever a principal of another tenant requests over HTTP, the deletion of
  datasets and the decision of approvals included, a run stays exactly as it is.
\<close>

theorem http_runs_isolated_between_tenants:
  assumes "wf_store (w_store (dw_world d))" and "map_of (st_runs (w_store (dw_world d))) r = Some run"
    and "dget run ''tenant_id'' \<noteq> JStr (tenant_id p)" and "built_with h inner"
    and "\<forall>k d. has_run r run (w_store (dw_world d)) \<longrightarrow> has_run r run (w_store (dw_world (inner k d)))"
    and "\<forall>k d. has_run r run (w_store (dw_world d)) \<longrightarrow> has_run r run (w_store (dw_world (others k d)))"
  shows "map_of (st_runs (w_store (dw_world (post (perform h others p op) d)))) r = Some run"
proof -
  have "has_run r run (w_store (dw_world d))" using assms(1,2) by (simp add: has_run_def)
  moreover have "keeps (in_durable (has_run r run)) (perform h others p op)"
    by (rule built_elsewhere [OF assms(4,3)]) (use assms(5,6) in auto)
  ultimately have "has_run r run (w_store (dw_world (post (perform h others p op) d)))"
    by (rule keepsD [rotated])
  then show ?thesis by (simp add: has_run_def)
qed

section \<open>Authorization\<close>

lemma canonical_letters:
  "list_all (\<lambda>x. list_all (\<lambda>c. is_upper c \<or> is_lower c) x \<and> x \<noteq> [] \<and> length x \<le> 64) canonical_operation_ids"
  by (simp add: canonical_operation_ids_def canonical_route_operation_ids_def char_class_defs)

lemma letter_scope_char: "is_upper c \<or> is_lower c \<Longrightarrow> scope_char c \<and> is_alnum c"
  by (auto simp: scope_char_def is_alnum_def is_upper_def is_lower_def)

lemma canonical_scopes:
  assumes "x \<in> set canonical_operation_ids"
  shows "scope_for_operation x = Inr (''automl:operation:'' @ x) \<and> valid_scope (''automl:operation:'' @ x)"
proof -
  have x: "list_all (\<lambda>c. is_upper c \<or> is_lower c) x" "x \<noteq> []" "length x \<le> 64"
    using canonical_letters assms by (auto simp: list_all_iff)
  then have "list_all scope_char x" and "list_all is_alnum x"
    using letter_scope_char by (auto simp: list_all_iff)
  moreover have "list_all scope_char ''automl:operation:''" by code_simp
  ultimately have "valid_scope (''automl:operation:'' @ x)" and "valid_operation_id x"
    using x by (cases x; simp add: valid_scope_def valid_operation_id_def list_all_iff)+
  then show ?thesis using assms by (simp add: scope_for_operation_def known_operation_ids_def)
qed

text \<open>
  C18. No request without its scope. A principal that holds neither the wildcard nor the scope of the operation is
  refused with a 403 that names the scope it lacks, and nothing is read, reserved or changed.
\<close>

theorem unauthorized_request_refused:
  assumes "''*'' \<notin> set (scopes p)" and "(''automl:operation:'' @ operation_of op) \<notin> set (scopes p)"
  shows "perform h others p op d =
    (Inl (APIProblem 403 ''insufficient_scope'' ''Insufficient scope''
       [(''required_scopes'', JArr [JStr (''automl:operation:'' @ operation_of op)]),
        (''missing_scopes'', JArr [JStr (''automl:operation:'' @ operation_of op)])]), d)"
proof -
  let ?s = "''automl:operation:'' @ operation_of op"
  note canonical = canonical_scopes [OF operations_canonical [of op]]
  have "enforce_scopes p [?s] = Inl (APIProblem 403 ''insufficient_scope'' ''Insufficient scope''
       [(''required_scopes'', JArr [JStr ?s]), (''missing_scopes'', JArr [JStr ?s])])"
    using canonical assms
    by (subst enforce_scopes_valid) (simp_all add: Let_def first_occurrences_def)
  moreover obtain m where "perform h others p op = seq (authorize p (operation_of op)) m"
    using perform_authorizes by blast
  ultimately show ?thesis
    using canonical by (simp add: authorize_def enforce_operation_scope_def py_run)
qed

end
