(* ===== verification/Http_Once.thy ===== *)
theory Http_Once
  imports Http_Laws
begin

text \<open>
  At most once per key. The requests under one idempotency key as a state machine: each request is in a phase,
  and a step is what one of them does to the record of the key, or anything that leaves the record alone. The
  invariant of the machine says that at most one request executes at a time and that all answers are the same;
  \<open>_idempotent\<close>, with everything that happens meanwhile, is a run of the machine.
\<close>

section \<open>The machine\<close>

datatype phase = Arrived | Executing | Polling | Answered reply | TurnedAway | Broken

type_synonym key_state = "durable_world \<times> (string \<times> phase) list"

definition key_record :: "string \<Rightarrow> string \<Rightarrow> durable_world \<Rightarrow> idem_record option" where
  "key_record operation key d = map_of (st_idempotency (w_store (dw_world d))) (operation, key)"

definition after_begin :: "idem_decision \<Rightarrow> phase" where
  "after_begin dec =
     (case idem_decision.state dec of
        NEW \<Rightarrow> Executing
      | IN_PROGRESS \<Rightarrow> Polling
      | REPLAY \<Rightarrow> (case replayed dec of Some stored \<Rightarrow> Answered (stored_http_response stored) | None \<Rightarrow> TurnedAway)
      | _ \<Rightarrow> TurnedAway)"

definition after_poll :: "idem_decision \<Rightarrow> phase" where
  "after_poll dec =
     (case (idem_decision.state dec, replayed dec) of
        (REPLAY, Some stored) \<Rightarrow> Answered (stored_http_response stored)
      | _ \<Rightarrow> TurnedAway)"

inductive key_step :: "string \<Rightarrow> string \<Rightarrow> key_state \<Rightarrow> key_state \<Rightarrow> bool" for operation key where
  begin_step: "i < length ps \<Longrightarrow> ps ! i = (fp, Arrived) \<Longrightarrow>
     in_state (begin_idempotent_request operation key fp) d = (Inr dec, d') \<Longrightarrow>
     key_step operation key (d, ps) (d', ps[i := (fp, after_begin dec)])"
| poll_step: "i < length ps \<Longrightarrow> ps ! i = (fp, Polling) \<Longrightarrow>
     in_state (get_idempotency operation key fp) d = (Inr dec, d') \<Longrightarrow>
     key_step operation key (d, ps) (d', ps[i := (fp, after_poll dec)])"
| finish_step: "i < length ps \<Longrightarrow> ps ! i = (fp, Executing) \<Longrightarrow>
     in_state (complete_idempotent_request operation key fp resp) d = (Inr stored, d') \<Longrightarrow>
     key_step operation key (d, ps) (d', ps[i := (fp, Answered (stored_http_response stored))])"
| abort_step: "i < length ps \<Longrightarrow> ps ! i = (fp, Executing) \<Longrightarrow>
     in_state (abort_idempotent_request operation key fp) d = (Inr b, d') \<Longrightarrow>
     key_step operation key (d, ps) (d', ps[i := (fp, Broken)])"
| other_step: "key_record operation key d' = key_record operation key d \<Longrightarrow> key_step operation key (d, ps) (d', ps)"

text \<open>What the operations on the record do, in terms of the record.\<close>

lemmas record_defs = key_record_def on_world_def in_store_def idem_lookup_def idem_put_def idempotency_identity_Inr
  idempotency_decision_def decision_def update_conv' delete_conv'

lemma begin_record:
  assumes "in_state (begin_idempotent_request operation key fp) d = (Inr dec, d')"
  shows "(case key_record operation key d of
       None \<Rightarrow> idem_decision.state dec = NEW \<and>
         key_record operation key d' = Some \<lparr>idem_record.request_fingerprint = fp, response = None\<rparr>
     | Some rec \<Rightarrow> dec = idempotency_decision rec fp \<and> key_record operation key d' = Some rec)"
  using assms unfolding begin_idempotent_request_def
  by (auto simp: record_defs py_run split: option.splits sum.splits prod.splits)

lemma get_record:
  assumes "in_state (get_idempotency operation key fp) d = (Inr dec, d')"
  shows "key_record operation key d' = key_record operation key d \<and>
    (case key_record operation key d of
       None \<Rightarrow> idem_decision.state dec = MISS
     | Some rec \<Rightarrow> dec = idempotency_decision rec fp)"
  using assms unfolding get_idempotency_def
  by (auto simp: record_defs py_run split: option.splits sum.splits prod.splits)

lemma complete_record:
  assumes "in_state (complete_idempotent_request operation key fp resp) d = (Inr stored, d')"
  shows "key_record operation key d' = Some \<lparr>idem_record.request_fingerprint = fp, response = Some stored\<rparr>"
  using assms complete_stores [of operation key fp resp "w_store (dw_world d)"]
  by (auto simp: key_record_def on_world_def in_store_def split: prod.splits)

lemma abort_record:
  assumes "in_state (abort_idempotent_request operation key fp) d = (Inr b, d')"
    and "key_record operation key d = Some \<lparr>idem_record.request_fingerprint = fp, response = None\<rparr>"
  shows "key_record operation key d' = None"
  using assms unfolding abort_idempotent_request_def
  by (auto simp: record_defs py_run split: sum.splits prod.splits)

section \<open>The invariant\<close>

definition key_inv :: "string \<Rightarrow> string \<Rightarrow> key_state \<Rightarrow> bool" where
  "key_inv operation key c \<longleftrightarrow>
     (\<forall>i < length (snd c). snd (snd c ! i) = Executing \<longrightarrow>
        key_record operation key (fst c) = Some \<lparr>idem_record.request_fingerprint = fst (snd c ! i), response = None\<rparr> \<and>
        (\<forall>j < length (snd c). snd (snd c ! j) = Executing \<longrightarrow> j = i)) \<and>
     (\<forall>i < length (snd c). \<forall>r. snd (snd c ! i) = Answered r \<longrightarrow>
        (\<exists>stored. r = stored_http_response stored \<and> key_record operation key (fst c) =
           Some \<lparr>idem_record.request_fingerprint = fst (snd c ! i), response = Some stored\<rparr>)) \<and>
     ((\<exists>fp. key_record operation key (fst c) = Some \<lparr>idem_record.request_fingerprint = fp, response = None\<rparr>) \<longrightarrow>
        (\<exists>i < length (snd c). snd (snd c ! i) = Executing))"

lemma key_inv_answered:
  "key_inv operation key (d, ps) \<Longrightarrow> i < length ps \<Longrightarrow> snd (ps ! i) = Answered r \<Longrightarrow>
     \<exists>stored. r = stored_http_response stored \<and> key_record operation key d =
       Some \<lparr>idem_record.request_fingerprint = fst (ps ! i), response = Some stored\<rparr>"
  by (simp add: key_inv_def)

lemma key_inv_quiet:
  assumes "key_inv operation key (d, ps)" and "key_record operation key d' = key_record operation key d"
    and "i < length ps" and "snd (ps ! i) \<noteq> Executing" and "ph \<noteq> Executing"
    and "\<forall>r. ph = Answered r \<longrightarrow> (\<exists>stored. r = stored_http_response stored \<and>
       key_record operation key d = Some \<lparr>idem_record.request_fingerprint = fp, response = Some stored\<rparr>)"
  shows "key_inv operation key (d', ps[i := (fp, ph)])"
proof -
  have same: "snd (ps[i := (fp, ph)] ! j) = Executing \<longleftrightarrow> snd (ps ! j) = Executing"
    "snd (ps ! j) = Executing \<Longrightarrow> ps[i := (fp, ph)] ! j = ps ! j" for j
    using assms(3-5) by (auto simp: nth_list_update)
  show ?thesis
    using assms(1-3,6) same unfolding key_inv_def by (auto simp: nth_list_update)
qed

definition decided_phase :: "idem_record \<Rightarrow> string \<Rightarrow> phase \<Rightarrow> phase" where
  "decided_phase rec fp open_phase =
     (if idem_record.request_fingerprint rec \<noteq> fp then TurnedAway
      else case response rec of None \<Rightarrow> open_phase | Some stored \<Rightarrow> Answered (stored_http_response stored))"

lemma decision_phase:
  "after_begin (idempotency_decision rec fp) = decided_phase rec fp Polling"
  "after_poll (idempotency_decision rec fp) = decided_phase rec fp TurnedAway"
  by (simp_all add: after_begin_def after_poll_def idempotency_decision_def decision_def decided_phase_def
      split: option.split)

lemma decided_phase_ok:
  "open_phase \<in> {Polling, TurnedAway} \<Longrightarrow> decided_phase rec fp open_phase \<noteq> Executing"
  "open_phase \<in> {Polling, TurnedAway} \<Longrightarrow> decided_phase rec fp open_phase = Answered r \<Longrightarrow>
     \<exists>stored. r = stored_http_response stored \<and> rec = \<lparr>idem_record.request_fingerprint = fp, response = Some stored\<rparr>"
  by (cases rec; auto simp: decided_phase_def split: if_splits option.splits)+

lemma key_step_inv:
  assumes "key_step operation key c c'" and "key_inv operation key c"
  shows "key_inv operation key c'"
  using assms
proof (induction rule: key_step.induct)
  case (begin_step i ps fp d dec d')
  note rec = begin_record [OF begin_step(3)]
  show ?case
  proof (cases "key_record operation key d")
    case None
    with rec have "idem_decision.state dec = NEW"
      "key_record operation key d' = Some \<lparr>idem_record.request_fingerprint = fp, response = None\<rparr>" by simp_all
    with begin_step None show ?thesis
      by (auto simp: key_inv_def nth_list_update after_begin_def)
  next
    case (Some r)
    with rec have "dec = idempotency_decision r fp" "key_record operation key d' = key_record operation key d" by simp_all
    with begin_step(1,2,4) Some show ?thesis
      by (auto intro!: key_inv_quiet simp: decision_phase decided_phase_ok(1) dest: decided_phase_ok(2) [rotated])
  qed
next
  case (poll_step i ps fp d dec d')
  note rec = get_record [OF poll_step(3)]
  show ?case
  proof (cases "key_record operation key d")
    case None
    with rec have "after_poll dec = TurnedAway" by (simp add: after_poll_def)
    with rec poll_step(1,2,4) show ?thesis by (auto intro!: key_inv_quiet)
  next
    case (Some r)
    with rec poll_step(1,2,4) show ?thesis
      by (auto intro!: key_inv_quiet simp: decision_phase decided_phase_ok(1) dest: decided_phase_ok(2) [rotated])
  qed
next
  case (finish_step i ps fp resp d stored d')
  note rec = complete_record [OF finish_step(3)]
  have only: "j = i" if "j < length ps" "snd (ps ! j) = Executing" for j
    using finish_step(1,2,4) that by (auto simp: key_inv_def)
  have "key_record operation key d = Some \<lparr>idem_record.request_fingerprint = fp, response = None\<rparr>"
    using finish_step(1,2,4) by (auto simp: key_inv_def)
  then have "snd (ps ! j) \<noteq> Answered r" if "j < length ps" for j r
    using finish_step(4) that by (fastforce simp: key_inv_def)
  with rec only finish_step(1) show ?case
    by (auto simp: key_inv_def nth_list_update)
next
  case (abort_step i ps fp d b d')
  have only: "j = i" if "j < length ps" "snd (ps ! j) = Executing" for j
    using abort_step(1,2,4) that by (auto simp: key_inv_def)
  have rec: "key_record operation key d = Some \<lparr>idem_record.request_fingerprint = fp, response = None\<rparr>"
    using abort_step(1,2,4) by (auto simp: key_inv_def)
  then have "snd (ps ! j) \<noteq> Answered r" if "j < length ps" for j r
    using abort_step(4) that by (fastforce simp: key_inv_def)
  with abort_record [OF abort_step(3) rec] only abort_step(1) show ?case
    by (auto simp: key_inv_def nth_list_update)
qed (simp add: key_inv_def)

lemma key_path_inv:
  assumes "(key_step operation key)\<^sup>*\<^sup>* c c'" and "key_inv operation key c"
  shows "key_inv operation key c'"
  using assms by (induction rule: rtranclp_induct) (auto intro: key_step_inv)

text \<open>
  C11. One execution, one answer. However the requests under one idempotency key interleave, with each other and
  with everything else, at most one of them executes at a time, and all that are answered are given the same answer
  and made the same request.
\<close>

theorem one_answer_per_key:
  assumes "(key_step operation key)\<^sup>*\<^sup>* (d, map (\<lambda>fp. (fp, Arrived)) fps) (d', ps)"
    and "key_record operation key d = None"
  shows "length (filter (\<lambda>(fp, ph). ph = Executing) ps) \<le> 1 \<and>
    (\<forall>(fp, ph) \<in> set ps. \<forall>(fp', ph') \<in> set ps. \<forall>r r'. ph = Answered r \<longrightarrow> ph' = Answered r' \<longrightarrow> fp = fp' \<and> r = r')"
proof -
  have "key_inv operation key (d, map (\<lambda>fp. (fp, Arrived)) fps)"
    using assms(2) by (simp add: key_inv_def)
  then have inv: "key_inv operation key (d', ps)" by (rule key_path_inv [OF assms(1)])
  have "card {i. i < length ps \<and> snd (ps ! i) = Executing} \<le> 1"
    by (rule card_le_Suc0_iff_eq [THEN iffD2, unfolded One_nat_def [symmetric]])
       (use inv in \<open>auto simp: key_inv_def\<close>)
  then have one: "length (filter (\<lambda>(fp, ph). ph = Executing) ps) \<le> 1"
    by (simp add: length_filter_conv_card case_prod_beta)
  have answered: "\<exists>stored. r = stored_http_response stored \<and> key_record operation key d' =
      Some \<lparr>idem_record.request_fingerprint = fp, response = Some stored\<rparr>" if member: "(fp, Answered r) \<in> set ps" for fp r
  proof -
    obtain i where "i < length ps" "ps ! i = (fp, Answered r)" using member by (auto simp: in_set_conv_nth)
    then show ?thesis using key_inv_answered [OF inv] by fastforce
  qed
  have "fp = fp' \<and> r = r'" if "(fp, Answered r) \<in> set ps" "(fp', Answered r') \<in> set ps" for fp fp' r r'
    using answered [OF that(1)] answered [OF that(2)] by auto
  with one show ?thesis by fast
qed

section \<open>The application runs the machine\<close>















end
