(* ===== verification/Http_Bytes.thy ===== *)
theory Http_Bytes
  imports Http_App Storage_Laws
begin

text \<open>
  Downloads: byte ranges, the loop that reads a file in pieces, and the round trip from a stored
  artifact over a download ticket back to its bytes.
\<close>

section \<open>Ranges\<close>

text \<open>
  A byte range is inside the artifact or refused. Whatever the header says, an accepted range is a non-empty part
  of the artifact, the range asked for cut off at its end; anything else is a 416.
\<close>

theorem byte_range_inside:
  "(\<forall>a b. parse_byte_range v n = Inr (Some (a, b)) \<longrightarrow> 0 \<le> a \<and> a \<le> b \<and> b < n) \<and>
   (\<forall>e. parse_byte_range v n = Inl e \<longrightarrow> e = invalid_range \<or> e = unsatisfiable_range n) \<and>
   (parse_byte_range v n = Inr None \<longleftrightarrow> v = None)"
  by (auto simp: parse_byte_range_def Let_def split: option.splits if_splits)

lemma range_text:
  assumes "0 \<le> a" and "0 \<le> b" and "length (nat_str (nat a)) \<le> 4300" and "length (nat_str (nat b)) \<le> 4300"
  shows "parse_byte_range (Some (''bytes='' @ int_str a @ ''-'' @ int_str b)) n =
    (if b < a \<or> n \<le> a then Inl (unsatisfiable_range n) else Inr (Some (a, min b (n - 1))))"
proof -
  have plain: "c \<noteq> CHR ''-'' \<and> c \<noteq> CHR '',''" if "c \<in> set (int_str x)" "0 \<le> x" for c x
    using that nat_str_digits [of "nat x"] by (auto simp: int_str_def list_all_iff is_digit_def code_of_def)
  have split: "takeWhile (\<lambda>c. c \<noteq> CHR ''-'') (int_str a @ ''-'' @ int_str b) = int_str a"
    "dropWhile (\<lambda>c. c \<noteq> CHR ''-'') (int_str a @ ''-'' @ int_str b) = ''-'' @ int_str b"
    using plain [OF _ assms(1)] by (simp_all add: takeWhile_append2 dropWhile_append2)
  have "CHR '','' \<notin> set (''bytes='' @ int_str a @ ''-'' @ int_str b)"
    using plain [OF _ assms(1)] plain [OF _ assms(2)] by auto
  moreover have "int_str a \<noteq> []" "int_str b \<noteq> []" using assms(1,2) by (simp_all add: int_str_def)
  moreover have "parse_int (int_str a) = Some a" "parse_int (int_str b) = Some b"
    using assms by (simp_all add: parse_int_str)
  ultimately show ?thesis
    using assms(1) split by (simp add: parse_byte_range_def Let_def range_bounds_def)
qed

section \<open>Reading in pieces\<close>

lemma read_pieces_step:
  assumes "0 < n" and "content \<noteq> []"
  shows "read_pieces content n =
    take (min piece n) content # read_pieces (drop (min piece n) content) (n - length (take (min piece n) content))"
proof -
  have "take (min piece n) content \<noteq> []" using assms by (auto simp: piece_def)
  then show ?thesis
    using assms read_pieces.simps [of content n] by (simp add: Let_def del: read_pieces.simps)
qed

lemma read_pieces_stop: "n = 0 \<or> content = [] \<Longrightarrow> read_pieces content n = []"
  using read_pieces.simps [of content n] by (auto simp: Let_def simp del: read_pieces.simps)

lemma concat_read_pieces: "concat (read_pieces content n) = take n content"
proof (induction "length content" arbitrary: content n rule: less_induct)
  case less
  show ?case
  proof (cases "n = 0 \<or> content = []")
    case False
    then have n: "0 < n" "content \<noteq> []" "0 < min piece n" by (auto simp: piece_def)
    let ?c = "take (min piece n) content"
    have "length (drop (min piece n) content) < length content" using n by (cases content) auto
    note rest = less [OF this, of "n - length ?c"]
    have "take n content = ?c @ take (n - min piece n) (drop (min piece n) content)"
      by (metis min.cobounded2 take_add ordered_cancel_comm_monoid_diff_class.add_diff_inverse)
    moreover have "take (n - length ?c) (drop (min piece n) content) = take (n - min piece n) (drop (min piece n) content)"
      by (cases "min piece n \<le> length content") (simp_all add: min_def)
    ultimately show ?thesis
      using rest by (simp only: read_pieces_step [OF n(1,2)] concat.simps)
  qed (auto simp: read_pieces_stop)
qed

lemma read_pieces_bounded: "chunk \<in> set (read_pieces content n) \<Longrightarrow> chunk \<noteq> [] \<and> length chunk \<le> piece"
proof (induction "length content" arbitrary: content n rule: less_induct)
  case less
  show ?case
  proof (cases "n = 0 \<or> content = []")
    case False
    then have n: "0 < n" "content \<noteq> []" "0 < min piece n" by (auto simp: piece_def)
    have shorter: "length (drop (min piece n) content) < length content" using n by (cases content) auto
    have "chunk = take (min piece n) content \<or>
        chunk \<in> set (read_pieces (drop (min piece n) content) (n - length (take (min piece n) content)))"
      using less.prems by (simp only: read_pieces_step [OF n(1,2)] list.set insert_iff)
    then show ?thesis
    proof
      assume "chunk = take (min piece n) content"
      then show ?thesis using n by (simp add: min.coboundedI1)
    qed (rule less.hyps [OF shorter])
  qed (use less.prems in \<open>auto simp: read_pieces_stop\<close>)
qed

section \<open>Downloads\<close>

lemma string_of_Inr: "string_of d k = Inr s \<longleftrightarrow> map_of d k = Some (JStr s)"
  by (cases "map_of d k") (auto simp: string_of_def exn_bind_Inr item_of_def split: json.splits)

lemma owned_artifact_run:
  "owned_artifact p a w = (r, w') \<Longrightarrow>
     w' = w \<and> (\<forall>artifact. r = Inr artifact \<longrightarrow> map_of (st_artifacts (w_store w)) a = Some artifact \<and>
        py_eq (dget artifact ''tenant_id'') (JStr (tenant_id p)))"
  by (auto simp: owned_artifact_def get_artifact_def get_locked_def in_store_def owned_def py_run
      split: option.splits if_splits)

text \<open>The token in the address that a ticket gives was made for the artifact as it is stored.\<close>

lemma ticket_issued:
  assumes blobs: "sv_blobs sv = local_blobs cr encode digest cfg"
    and issued: "create_download_ticket sv p a base w = (Inr ticket, w')"
  obtains artifact etag ticket_id where "map_of (st_artifacts (w_store w)) a = Some artifact"
    and "py_eq (dget artifact ''tenant_id'') (JStr (tenant_id p))"
    and "dget artifact ''state'' = JStr ''COMMITTED''" and "dget artifact ''etag'' = JStr etag"
    and "string_of artifact ''etag'' = Inr etag"
    and "dget ticket ''url'' = JStr (py_rstrip (CHR ''/'') base @ ''/v1/artifact-downloads/'' @
      create_download_token cr encode cfg ticket_id a (tenant_id p) etag (\<lfloor>sv_clock sv (w_reads w)\<rfloor> + 900))"
proof -
  from issued obtain artifact state ticket_id now etag random expires_at w1 w2 w3 w4 w5 w6 w7 z where
    owned: "owned_artifact p a w = (Inr artifact, w1)"
    and state: "lift (item_of artifact ''state'') w1 = (Inr state, w2)"
    and accepted: "fail_if (state \<noteq> JStr ''COMMITTED'') artifact_gone w2 = (Inr z, w3)"
    and id: "in_store (new_id ''ticket'') w3 = (Inr ticket_id, w4)" and current: "utcnow sv w4 = (Inr now, w5)"
    and etag: "lift (string_of artifact ''etag'') w5 = (Inr etag, w6)"
    and made: "lift (ticket_dict ticket_id a (if bs_durable (sv_blobs sv)
        then py_rstrip (CHR ''/'') base @ ''/v1/artifact-downloads/'' @
          bs_download_token (sv_blobs sv) random a (tenant_id p) etag (\<lfloor>now\<rfloor> + 900)
        else ''https://downloads.invalid/tickets/'' @ ticket_id) expires_at artifact) w7 = (Inr ticket, w')"
    unfolding create_download_ticket_def Let_def by (elim seq_Inr)
  note here = owned_artifact_run [OF owned]
  have fields: "item_of artifact ''state'' = Inr (JStr ''COMMITTED'')" "string_of artifact ''etag'' = Inr etag"
    using state accepted etag by (auto simp: lift_def fail_if_def split: if_splits)
  have clock: "now = sv_clock sv (w_reads w)"
    using here state accepted id current
    by (auto simp: in_store_def lift_def fail_if_def utcnow_def split: prod.splits if_splits)
  have "dget ticket ''url'' = JStr (py_rstrip (CHR ''/'') base @ ''/v1/artifact-downloads/'' @
      create_download_token cr encode cfg (''tkt_'' @ random) a (tenant_id p) etag (\<lfloor>sv_clock sv (w_reads w)\<rfloor> + 900))"
    using made by (auto simp: ticket_dict_def exn_bind_Inr dget_def lift_def clock blobs local_blobs_def)
  moreover have "dget artifact ''etag'' = JStr etag" "dget artifact ''state'' = JStr ''COMMITTED''"
    using fields by (auto simp: string_of_Inr item_of_def dget_def split: option.splits)
  ultimately show thesis using that here fields by blast
qed

text \<open>The artifact record is that of a file with this content.\<close>

definition records :: "jdict \<Rightarrow> path \<Rightarrow> string \<Rightarrow> bool" where
  "records artifact path content \<longleftrightarrow>
     path \<noteq> [] \<and> list_all plain_component path \<and> map_of artifact ''blob_key'' = Some (JStr (join_path path)) \<and>
     map_of artifact ''size_bytes'' = Some (JInt (int (length content))) \<and>
     (\<exists>sha256 media. map_of artifact ''sha256'' = Some (JStr sha256) \<and> map_of artifact ''media_type'' = Some (JStr media))"

lemma file_found:
  assumes "records artifact path content" and "map_of fs path = Some content"
  shows "path_for_key cfg (join_path path) fs = (Inr path, fs)"
  using assms path_for_own_key [of path fs cfg] by (simp add: records_def has_key_def)

lemma ticketed_run:
  assumes "map_of (st_artifacts (w_store (dw_world d))) a = Some artifact"
    and "dget artifact ''state'' = JStr ''COMMITTED''" and "dget artifact ''etag'' = JStr etag"
    and "py_eq (dget artifact ''tenant_id'') (JStr tenant)"
    and "map_of ticket = map_of (ticket_payload ticket_id a tenant etag expires)"
  shows "ticketed_artifact h ticket d = (Inr artifact, d)"
  using assms by (simp add: ticketed_artifact_def dget_def dget_or_def get_artifact_def get_locked_def in_store_def on_world_def
      ticket_payload_def py_run)

definition clock_of :: "http \<Rightarrow> world \<Rightarrow> int" where
  "clock_of h w = \<lfloor>sv_clock (ht_service h) (w_reads w)\<rfloor>"

lemma download_run:
  assumes blobs: "sv_blobs (ht_service h) = local_blobs cr encode digest cfg"
    and ticket: "verify_download_token cr cfg (clock_of h (dw_world d)) token = Inr ticket"
    and found: "\<And>d'. w_store (dw_world d') = w_store (dw_world d) \<Longrightarrow> ticketed_artifact h ticket d' = (Inr artifact, d')"
    and etag: "map_of artifact ''etag'' = Some (JStr etag)"
    and recorded: "records artifact path content" and there: "map_of (w_files (dw_world d)) path = Some content"
    and chosen: "parse_byte_range range_header (int (length content)) = Inr chosen"
  shows "\<exists>headers d'. http_download h token range_header (Some etag) d =
    (Inr \<lparr>rp_status = (if chosen = None then 200 else 206),
       rp_content = Bytes (case chosen of None \<Rightarrow> content | Some (a, b) \<Rightarrow> take (nat (b - a + 1)) (drop (nat a) content)),
       rp_headers = headers\<rparr>, d')"
proof -
  let ?d = "d\<lparr>dw_world := (dw_world d)\<lparr>w_reads := Suc (w_reads (dw_world d))\<rparr>\<rparr>"
  have now: "on_world (utcnow (ht_service h)) d = (Inr (sv_clock (ht_service h) (w_reads (dw_world d))), ?d)"
    by (simp add: on_world_def utcnow_def)
  have found': "ticketed_artifact h ticket ?d = (Inr artifact, ?d)" by (rule found) simp
  obtain sha256 media where fields: "map_of artifact ''blob_key'' = Some (JStr (join_path path))"
    "map_of artifact ''size_bytes'' = Some (JInt (int (length content)))"
    "map_of artifact ''sha256'' = Some (JStr sha256)" "map_of artifact ''media_type'' = Some (JStr media)"
    using recorded by (auto simp: records_def)
  have key: "on_world (in_files (path_for_key cfg (join_path path))) ?d = (Inr path, ?d)"
    using file_found [OF recorded there] by (simp add: on_world_def in_files_def)
  have bytes: "file_at path ?d = (Inr (Some content), ?d)" using there by (simp add: file_at_def gets_def)
  have strings: "string_of artifact ''etag'' = Inr etag" "string_of artifact ''sha256'' = Inr sha256"
    "string_of artifact ''media_type'' = Inr media" "int_of artifact ''size_bytes'' = Inr (int (length content))"
    by (simp_all add: string_of_Inr etag fields int_of_def item_of_def)
  show ?thesis
    using ticket chosen
    by (auto simp: http_download_def seq_def except_def lift_def ret_def fail_if_def now found' key bytes strings blobs local_blobs_def
        clock_of_def fields dget_or_def concat_read_pieces Let_def split: option.split)
qed

text \<open>
  C25. A ticket for an artifact downloads its bytes. The token in the address of a ticket gives back
  exactly the bytes of the artifact while it is valid, for an accepted range exactly that part of
  them, and afterwards the answer is 410.
\<close>

theorem download_round_trip:
  assumes codec: "json_codec cr encode" and written: "\<And>j. encode j \<noteq> []"
    and mac: "\<And>k m. length (hmac_sha256 cr k m) = 32"
    and blobs: "sv_blobs (ht_service h) = local_blobs cr encode digest cfg"
    and issued: "create_download_ticket (ht_service h) p a base w = (Inr ticket, w')"
    and url: "dget ticket ''url'' = JStr (py_rstrip (CHR ''/'') base @ ''/v1/artifact-downloads/'' @ token)"
    and artifact: "map_of (st_artifacts (w_store w)) a = Some artifact" "map_of artifact ''etag'' = Some (JStr etag)"
    and recorded: "records artifact path content"
    and kept: "map_of (st_artifacts (w_store (dw_world d))) a = Some artifact"
      "map_of (w_files (dw_world d)) path = Some content"
  shows "(clock_of h (dw_world d) \<le> clock_of h w + 900 \<longrightarrow>
      (\<exists>headers d'. http_download h token None (Some etag) d = (Inr \<lparr>rp_status = 200, rp_content = Bytes content, rp_headers = headers\<rparr>, d')) \<and>
      (\<forall>v i j. parse_byte_range (Some v) (int (length content)) = Inr (Some (i, j)) \<longrightarrow>
        (\<exists>headers d'. http_download h token (Some v) (Some etag) d =
          (Inr \<lparr>rp_status = 206, rp_content = Bytes (take (nat (j - i + 1)) (drop (nat i) content)), rp_headers = headers\<rparr>, d')))) \<and>
    (clock_of h w + 900 < clock_of h (dw_world d) \<longrightarrow>
      fst (http_download h token v (Some etag) d) =
        Inl (APIProblem 410 ''download_ticket_expired'' ''Download ticket expired'' []))"
proof -
  from issued blobs obtain ticket_id where tenant: "py_eq (dget artifact ''tenant_id'') (JStr (tenant_id p))"
    and state: "dget artifact ''state'' = JStr ''COMMITTED''" and tag: "dget artifact ''etag'' = JStr etag"
    and token: "token = create_download_token cr encode cfg ticket_id a (tenant_id p) etag (clock_of h w + 900)"
    by (elim ticket_issued) (use artifact url in \<open>auto simp: dget_def clock_of_def\<close>)
  note verified = download_ticket_round_trip [OF codec written mac token, of "clock_of h (dw_world d)"]
  have good: "\<exists>headers d'. http_download h token range_header (Some etag) d =
    (Inr \<lparr>rp_status = (if chosen = None then 200 else 206),
       rp_content = Bytes (case chosen of None \<Rightarrow> content | Some (a, b) \<Rightarrow> take (nat (b - a + 1)) (drop (nat a) content)),
       rp_headers = headers\<rparr>, d')"
    if "clock_of h (dw_world d) \<le> clock_of h w + 900"
      and "parse_byte_range range_header (int (length content)) = Inr chosen" for range_header chosen
  proof -
    from verified that(1) obtain ticket where ticket: "verify_download_token cr cfg (clock_of h (dw_world d)) token = Inr ticket"
      "map_of ticket = map_of (ticket_payload ticket_id a (tenant_id p) etag (clock_of h w + 900))" by blast
    show ?thesis
      by (rule download_run [OF blobs ticket(1) _ artifact(2) recorded kept(2) that(2)])
        (rule ticketed_run [OF _ state tag tenant ticket(2)], simp add: kept(1))
  qed
  have expired: "fst (http_download h token v (Some etag) d) =
      Inl (APIProblem 410 ''download_ticket_expired'' ''Download ticket expired'' [])"
    if "clock_of h w + 900 < clock_of h (dw_world d)"
    using verified that by (simp add: http_download_def blobs local_blobs_def seq_def on_world_def utcnow_def except_def lift_def
        clock_of_def ticket_problem_def Let_def)
  show ?thesis using good [of None None] good [of "Some v" "Some (i, j)" for v i j] expired
    by (fastforce simp: parse_byte_range_def)
qed

lemma verified_signed:
  assumes codec: "json_codec cr encode" and written: "\<And>j. encode j \<noteq> []"
    and mac: "\<And>k m. length (hmac_sha256 cr k m) = 32"
    and "verify_download_token cr cfg now token = Inr ticket"
  shows "\<exists>payload. b64_decode False (b64_pad token) = Some (payload @ hmac_sha256 cr (lc_ticket_secret cfg) payload) \<and>
     loads cr payload = Some (JObj ticket) \<and> (\<exists>t. ticket_expiry ticket = Some t \<and> now \<le> t)"
  using download_ticket_round_trip [OF codec written mac refl] assms(4) by blast

lemma ticketed_artifact_Inr:
  "ticketed_artifact h ticket d = (Inr artifact, d') \<Longrightarrow> d' = d \<and>
     map_of (st_artifacts (w_store (dw_world d))) (py_str (sv_env (ht_service h)) (dget_or ticket ''artifact_id'' (JStr []))) = Some artifact \<and>
     py_eq (dget artifact ''tenant_id'') (dget ticket ''tenant_id'') \<and> py_eq (dget artifact ''etag'') (dget ticket ''etag'') \<and>
     dget artifact ''state'' = JStr ''COMMITTED''"
  by (auto simp: ticketed_artifact_def get_artifact_def get_locked_def in_store_def on_world_def py_run
      split: option.splits if_splits)

text \<open>A request that is answered with bytes has passed every test of the handler.\<close>

lemma download_passed:
  assumes blobs: "sv_blobs (ht_service h) = local_blobs cr encode digest cfg"
    and answered: "http_download h token range_header if_match d = (Inr reply, d')"
  obtains ticket artifact etag path content i k where
    "verify_download_token cr cfg (clock_of h (dw_world d)) token = Inr ticket"
    "\<exists>t. ticketed_artifact h ticket t = (Inr artifact, t) \<and> w_store (dw_world t) = w_store (dw_world d)"
    "dget artifact ''etag'' = JStr etag" "if_match = Some etag"
    "fst (path_for_key cfg (py_str (sv_env (ht_service h)) (dget_or artifact ''blob_key'' (JStr []))) (w_files (dw_world d))) = Inr path"
    "map_of (w_files (dw_world d)) path = Some content" "rp_content reply = Bytes (take k (drop i content))"
proof -
  let ?sv = "ht_service h"
  from answered obtain now ticket artifact etag path n chosen sha256 media found d1 d2 d3 d4 d5 d6 d7 d8 d9 da db x where
    clock: "on_world (utcnow ?sv) d = (Inr now, d1)"
    and verified: "except ticket_problem (lift (bs_verify_download_token (sv_blobs ?sv) \<lfloor>now\<rfloor> token)) d1 = (Inr ticket, d2)"
    and artifact: "ticketed_artifact h ticket d2 = (Inr artifact, d3)"
    and tag: "lift (string_of artifact ''etag'') d3 = (Inr etag, d4)"
    and match: "fail_if (if_match \<noteq> Some etag) (APIProblem 412 ''artifact_etag_mismatch'' ''Artifact ETag mismatch'' []) d4 = (Inr x, d5)"
    and path: "except missing_bytes (on_world (in_files (bs_path_for_key (sv_blobs ?sv)
                (py_str (sv_env ?sv) (dget_or artifact ''blob_key'' (JStr [])))))) d5 = (Inr path, d6)"
    and size: "lift (int_of artifact ''size_bytes'') d6 = (Inr n, d7)"
    and chosen: "lift (parse_byte_range range_header n) d7 = (Inr chosen, d8)"
    and rest: "(case (case chosen of None \<Rightarrow> (0, n - 1) | Some r \<Rightarrow> r) of (start, finish) \<Rightarrow>
       seq (lift (string_of artifact ''sha256'')) (\<lambda>sha256.
            seq (lift (string_of artifact ''media_type'')) (\<lambda>media_type.
            seq (file_at path) (\<lambda>content.
              case content of
                None \<Rightarrow> raise (FileNotFound ''artifact'')
              | Some bytes \<Rightarrow>
                  ret \<lparr>rp_status = (if chosen = None then 200 else 206),
                       rp_content = Bytes (concat (read_pieces (drop (nat start) bytes) (nat (finish - start + 1)))),
                       rp_headers = download_headers etag sha256 media_type chosen start finish n\<rparr>)))) d8 = (Inr reply, d')"
    unfolding http_download_def Let_def by (elim seq_Inr)
  have d1: "d1 = d\<lparr>dw_world := (dw_world d)\<lparr>w_reads := Suc (w_reads (dw_world d))\<rparr>\<rparr>" "\<lfloor>now\<rfloor> = clock_of h (dw_world d)"
    using clock by (auto simp: on_world_def utcnow_def clock_of_def)
  have ticket: "verify_download_token cr cfg (clock_of h (dw_world d)) token = Inr ticket" "d2 = d1"
    using verified by (auto simp: except_def lift_def blobs local_blobs_def d1(2) split: sum.splits)
  have found: "ticketed_artifact h ticket d1 = (Inr artifact, d1)" "d3 = d1"
    using artifact ticketed_artifact_Inr [OF artifact] ticket(2) by simp_all
  have tags: "dget artifact ''etag'' = JStr etag" "if_match = Some etag" "d5 = d1"
    using tag match found by (auto simp: lift_def fail_if_def string_of_Inr dget_def split: if_splits)
  have files: "w_files (dw_world d8) = w_files (dw_world d)"
    "fst (path_for_key cfg (py_str (sv_env ?sv) (dget_or artifact ''blob_key'' (JStr []))) (w_files (dw_world d))) = Inr path"
    using path size chosen tags(3) d1(1)
    by (auto simp: blobs local_blobs_def except_def on_world_def in_files_def lift_def path_for_key_def Let_def py_run
        split: prod.splits sum.splits if_splits)
  obtain i j where range: "(case chosen of None \<Rightarrow> (0, n - 1) | Some r \<Rightarrow> r) = (i, j)" by fastforce
  from rest files(1) obtain content k where content: "map_of (w_files (dw_world d)) path = Some content"
    and bytes: "rp_content reply = Bytes (take k (drop (nat i) content))"
    unfolding range prod.case concat_read_pieces
    by (auto simp: file_at_def gets_def ret_def raise_def lift_def split: option.splits elim!: seq_Inr)
  show thesis
    by (rule that [OF ticket(1) _ tags(1,2) files(2) content bytes]) (use found d1(1) in auto)
qed

text \<open>
  C24. Only a ticket downloads, and only a committed artifact. Whenever a request is answered with bytes, its token is text that the
  service signed, not expired, and names an artifact of the ticket's tenant that is committed and has
  the entity tag of the ticket and of the request; the bytes are part of the file that the artifact's key names.
\<close>

theorem downloads_are_ticketed:
  assumes codec: "json_codec cr encode" and written: "\<And>j. encode j \<noteq> []"
    and mac: "\<And>k m. length (hmac_sha256 cr k m) = 32"
    and blobs: "sv_blobs (ht_service h) = local_blobs cr encode digest cfg"
    and answered: "http_download h token range_header if_match d = (Inr reply, d')"
  shows "\<exists>payload ticket artifact etag path content bytes.
    b64_decode False (b64_pad token) = Some (payload @ hmac_sha256 cr (lc_ticket_secret cfg) payload) \<and>
    loads cr payload = Some (JObj ticket) \<and>
    (\<exists>t. ticket_expiry ticket = Some t \<and> clock_of h (dw_world d) \<le> t) \<and>
    map_of (st_artifacts (w_store (dw_world d))) (py_str (sv_env (ht_service h)) (dget_or ticket ''artifact_id'' (JStr []))) = Some artifact \<and>
    py_eq (dget artifact ''tenant_id'') (dget ticket ''tenant_id'') \<and> py_eq (dget artifact ''etag'') (dget ticket ''etag'') \<and>
    dget artifact ''state'' = JStr ''COMMITTED'' \<and> dget artifact ''etag'' = JStr etag \<and> if_match = Some etag \<and>
    fst (path_for_key cfg (py_str (sv_env (ht_service h)) (dget_or artifact ''blob_key'' (JStr []))) (w_files (dw_world d))) = Inr path \<and>
    map_of (w_files (dw_world d)) path = Some content \<and> rp_content reply = Bytes bytes \<and> (\<exists>u v. content = u @ bytes @ v)"
proof -
  obtain ticket artifact etag path content i k where
    ticket: "verify_download_token cr cfg (clock_of h (dw_world d)) token = Inr ticket"
    and artifact: "\<exists>t. ticketed_artifact h ticket t = (Inr artifact, t) \<and> w_store (dw_world t) = w_store (dw_world d)"
    and tags: "dget artifact ''etag'' = JStr etag" "if_match = Some etag"
    and content: "fst (path_for_key cfg (py_str (sv_env (ht_service h)) (dget_or artifact ''blob_key'' (JStr []))) (w_files (dw_world d))) = Inr path"
      "map_of (w_files (dw_world d)) path = Some content" "rp_content reply = Bytes (take k (drop i content))"
    using download_passed [OF blobs answered] by metis
  obtain payload where payload:
    "b64_decode False (b64_pad token) = Some (payload @ hmac_sha256 cr (lc_ticket_secret cfg) payload)"
    "loads cr payload = Some (JObj ticket)" "\<exists>t. ticket_expiry ticket = Some t \<and> clock_of h (dw_world d) \<le> t"
    using verified_signed [OF codec written mac ticket] by blast
  have part: "\<exists>u v. content = u @ take k (drop i content) @ v" by (metis append_take_drop_id)
  from artifact obtain t where t: "ticketed_artifact h ticket t = (Inr artifact, t)" "w_store (dw_world t) = w_store (dw_world d)"
    by blast
  note found = ticketed_artifact_Inr [OF t(1), unfolded t(2)]
  show ?thesis
    by (rule exI [where x = payload], rule exI [where x = ticket], rule exI [where x = artifact], rule exI [where x = etag],
        rule exI [where x = path], rule exI [where x = content], rule exI [where x = "take k (drop i content)"])
      (use payload found tags content part in simp)
qed

end
