(* ===== verification/Http_Listing.thy ===== *)
theory Http_Listing
  imports Http_App Auth_Laws
begin

text \<open>
  Listings: a client that follows the cursors of a listing sees the window of the first page, every
  item once and in order, whatever is created after it in the meantime.
\<close>

section \<open>Windows of a sorted list\<close>

text \<open>The keys of the items increase.\<close>

definition increasing :: "(string \<times> 'a) list \<Rightarrow> bool" where
  "increasing items \<longleftrightarrow> sorted_wrt (\<lambda>p q. fst p < fst q) items"

lemma increasing_filter: "increasing items \<Longrightarrow> increasing (filter P items)"
  by (auto simp: increasing_def intro: sorted_wrt_filter)

lemma increasing_sort:
  assumes "sorted (map fst items)" and "distinct (map fst items)"
  shows "increasing items"
  using assms by (induction items) (auto simp: increasing_def order_less_le)

lemma after_last:
  assumes "increasing (xs @ ys)" and "xs \<noteq> []"
  shows "filter (\<lambda>p. fst (last xs) < fst p) (xs @ ys) = ys"
proof -
  obtain zs x where xs: "xs = zs @ [x]" using assms(2) by (cases xs rule: rev_cases) auto
  then have "\<forall>z \<in> set zs. fst z < fst x" "\<forall>y \<in> set ys. fst x < fst y"
    using assms(1) by (auto simp: increasing_def sorted_wrt_append)
  then show ?thesis by (auto simp: xs filter_empty_conv intro!: filter_True)
qed

section \<open>Following cursors\<close>

text \<open>A client: it asks for a page, and for the next one as long as the page names a cursor.\<close>

fun follow :: "(nat \<Rightarrow> string option \<Rightarrow> exn + jdict) \<Rightarrow> nat \<Rightarrow> string option \<Rightarrow> exn + json list list" where
  "follow listing 0 cursor = Inl TypeError"
| "follow listing (Suc n) cursor =
     exn_bind (listing n cursor) (\<lambda>pg.
       case (dget pg ''items'', dget pg ''page'') of
         (JArr items, JObj info) \<Rightarrow>
           (case dget info ''next_cursor'' of
              JStr following \<Rightarrow> exn_bind (follow listing n (Some following)) (\<lambda>rest. Inr (items # rest))
            | _ \<Rightarrow> Inr [items])
       | _ \<Rightarrow> Inl TypeError)"

lemma id_page_fields:
  "dget (id_page h kind p extra w items) ''items'' = JArr (map (\<lambda>(k, d). JObj d) (selected w items))"
  "dget (id_page h kind p extra w items) ''page'' =
     page_info (next_cursor h kind p extra w items) (has_more w items) (wn_high_watermark w)"
  by (simp_all add: id_page_def dget_def)

lemma page_info_fields:
  "\<exists>info. page_info c b n = JObj info \<and> dget info ''next_cursor'' = optional_str c"
  by (simp add: page_info_def dget_def)

lemma follow_page:
  assumes "listing n cursor = Inr (id_page h kind p extra w items)"
  shows "follow listing (Suc n) cursor =
    (if has_more w items
     then exn_bind (follow listing n (Some (new_cursor h (window_payload kind p extra w (fst (last (selected w items)))))))
            (\<lambda>rest. Inr (map (\<lambda>(k, d). JObj d) (selected w items) # rest))
     else Inr [map (\<lambda>(k, d). JObj d) (selected w items)])"
proof -
  obtain info where "page_info (next_cursor h kind p extra w items) (has_more w items) (wn_high_watermark w) = JObj info"
    "dget info ''next_cursor'' = optional_str (next_cursor h kind p extra w items)"
    using page_info_fields by blast
  then show ?thesis using assms by (simp add: id_page_fields next_cursor_def optional_str_def)
qed

text \<open>
  If the first page shows a window of a list and every cursor the rest of it after its position, the
  pages together are the list.
\<close>

definition listed_items :: "(string \<times> jdict) list \<Rightarrow> json list" where
  "listed_items items = map (\<lambda>(k, d). JObj d) items"

definition pages_of :: "int \<Rightarrow> (string \<times> jdict) list \<Rightarrow> json list list \<Rightarrow> bool" where
  "pages_of n items pages \<longleftrightarrow> concat pages = listed_items items \<and> (\<forall>page \<in> set pages. int (length page) \<le> n)"

lemma pages_of_Cons: "pages_of n rest pages \<Longrightarrow> 0 \<le> n \<Longrightarrow>
    pages_of n items (listed_items (take (nat n) items) # pages) \<longleftrightarrow> listed_items items = listed_items (take (nat n) items) @ listed_items rest"
  by (auto simp: pages_of_def listed_items_def min_def)

lemma follow_rest:
  assumes later: "\<And>m k. m < bound \<Longrightarrow> listing m (Some (new_cursor h (window_payload kind p extra w k))) =
      Inr (id_page h kind p extra (w\<lparr>wn_position := k\<rparr>) (filter (\<lambda>q. k < fst q) items))"
    and items: "increasing items" "items = xs @ rest" "xs \<noteq> []" and size: "1 \<le> wn_size w" and enough: "length rest < n" "n \<le> bound"
  shows "\<exists>pages. follow listing n (Some (new_cursor h (window_payload kind p extra w (fst (last xs))))) = Inr pages \<and>
    pages_of (wn_size w) rest pages"
  using items(2,3) enough
proof (induction n arbitrary: xs rest)
  case (Suc n)
  let ?w = "w\<lparr>wn_position := fst (last xs)\<rparr>"
  have page: "listing n (Some (new_cursor h (window_payload kind p extra w (fst (last xs))))) = Inr (id_page h kind p extra ?w rest)"
    using later [of n] items(1) after_last [of xs rest] Suc.prems by simp
  show ?case
  proof (cases "has_more ?w rest")
    case True
    let ?xs = "xs @ take (nat (wn_size w)) rest" and ?rest = "drop (nat (wn_size w)) rest"
    have more: "nat (wn_size w) < length rest" "0 < nat (wn_size w)" using True size by (simp_all add: has_more_def)
    have shorter: "length ?rest < n" using more Suc.prems(3) by simp
    have parts: "items = ?xs @ ?rest" "?xs \<noteq> []" using Suc.prems by simp_all
    have last: "fst (last ?xs) = fst (last (take (nat (wn_size w)) rest))" using more by (cases rest) auto
    obtain pages where pages: "follow listing n (Some (new_cursor h (window_payload kind p extra w (fst (last ?xs))))) = Inr pages"
      "pages_of (wn_size w) ?rest pages"
      using Suc.IH [OF parts shorter] Suc.prems(4) by auto
    have "listed_items rest = listed_items (take (nat (wn_size w)) rest) @ listed_items ?rest" by (simp add: listed_items_def flip: map_append)
    then show ?thesis
      using follow_page [where listing = listing, OF page] True pages size
      by (simp add: last selected_def window_payload_def listed_items_def [symmetric] pages_of_Cons [OF pages(2)])
  next
    case False
    then show ?thesis
      using follow_page [where listing = listing, OF page] size by (auto simp: pages_of_def listed_items_def selected_def has_more_def)
  qed
qed simp

lemma follow_window:
  assumes first: "listing n None = Inr (id_page h kind p extra w items)"
    and later: "\<And>m k. m < n \<Longrightarrow> listing m (Some (new_cursor h (window_payload kind p extra w k))) =
      Inr (id_page h kind p extra (w\<lparr>wn_position := k\<rparr>) (filter (\<lambda>q. k < fst q) items))"
    and items: "increasing items" and size: "1 \<le> wn_size w" and enough: "length items \<le> n"
  shows "\<exists>pages. follow listing (Suc n) None = Inr pages \<and> pages_of (wn_size w) items pages"
proof (cases "has_more w items")
  case True
  let ?xs = "take (nat (wn_size w)) items" and ?rest = "drop (nat (wn_size w)) items"
  have more: "?xs \<noteq> []" "length ?rest < n" using True size enough by (auto simp: has_more_def)
  obtain pages where pages: "follow listing n (Some (new_cursor h (window_payload kind p extra w (fst (last ?xs))))) = Inr pages"
    "pages_of (wn_size w) ?rest pages"
    using follow_rest [where listing = listing, OF later items _ more(1) size more(2) order.refl] by auto
  have "listed_items items = listed_items ?xs @ listed_items ?rest" by (simp add: listed_items_def flip: map_append)
  then show ?thesis
    using follow_page [where listing = listing, OF first] True pages size
    by (simp add: selected_def listed_items_def [symmetric] pages_of_Cons [OF pages(2)])
next
  case False
  then show ?thesis
    using follow_page [where listing = listing, OF first] size by (auto simp: pages_of_def listed_items_def selected_def has_more_def)
qed

section \<open>Cursors of a listing\<close>

lemma cursor_read:
  assumes codec: "json_codec (ht_crypto h) (ht_dumps h)" and mac: "\<And>m. length (hmac_sha256 (ht_crypto h) (ht_cursor_secret h) m) = 32"
  shows "\<exists>e. decode_cursor (ht_crypto h) (ht_cursor_secret h) (new_cursor h payload) = Inr e \<and>
    map_of e = map_of (canon_dict payload)"
proof -
  let ?raw = "ht_dumps h (canon (JObj payload))"
  obtain e where e: "loads (ht_crypto h) ?raw = Some (JObj e)" "map_of e = map_of (canon_dict payload)"
    using codec unfolding json_codec_def by (metis canon.simps(2))
  have "\<not> list_ex (\<lambda>c. 128 \<le> code_of c) (new_cursor h payload)"
    using ascii_base64 by (auto simp: new_cursor_def encode_cursor_def Let_def list_ex_iff list_all_iff not_le)
  then show ?thesis using e mac
    by (simp add: new_cursor_def encode_cursor_def decode_cursor_def Let_def b64_round_trip)
qed

text \<open>The window that is read from the cursor of a page is that of the page, from the new position on.\<close>

lemma cursor_of_window:
  assumes codec: "json_codec (ht_crypto h) (ht_dumps h)" and mac: "\<And>m. length (hmac_sha256 (ht_crypto h) (ht_cursor_secret h) m) = 32"
    and window: "0 \<le> wn_high_watermark w" "1 \<le> wn_size w"
    and parent: "parent = None \<or> (\<exists>k. parent = Some k \<and> map_of extra ''parent_id'' = Some (JStr k))"
  shows "\<exists>e. validate_cursor h (new_cursor h (window_payload kind p extra w k)) kind p parent = Inr e \<and>
    cursor_window e = Inr (w\<lparr>wn_position := k\<rparr>) \<and>
    (\<forall>f. f \<notin> {''kind'', ''tenant_id'', ''high_watermark'', ''high_id'', ''position'', ''limit''} \<longrightarrow> dget e f = canon (dget extra f))"
proof -
  obtain e where e: "decode_cursor (ht_crypto h) (ht_cursor_secret h) (new_cursor h (window_payload kind p extra w k)) = Inr e"
    "map_of e = map_of (canon_dict (window_payload kind p extra w k))"
    using cursor_read [OF codec mac] by blast
  have entry: "map_of e f = map_option canon (map_of (window_payload kind p extra w k) f)" for f
    by (simp add: e(2))
  have "validate_cursor h (new_cursor h (window_payload kind p extra w k)) kind p parent = Inr e"
    using parent e(1) by (auto simp: validate_cursor_def dget_def entry) (simp_all add: window_payload_def)
  moreover have "cursor_window e = Inr (w\<lparr>wn_position := k\<rparr>)"
    using window by (simp add: cursor_window_def dget_def dget_or_def entry) (simp add: window_payload_def)
  moreover have "dget e f = canon (dget extra f)"
    if "f \<notin> {''kind'', ''tenant_id'', ''high_watermark'', ''high_id'', ''position'', ''limit''}" for f
    using that by (simp add: dget_def entry window_payload_def split: option.split)
  ultimately show ?thesis using e(1) by blast
qed

section \<open>The listing of runs\<close>

text \<open>The \<open>n\<close>-th request from the end; the first has no cursor, the others nothing but a cursor.\<close>

definition runs_listing ::
  "http \<Rightarrow> principal \<Rightarrow> int option \<Rightarrow> string option \<Rightarrow> string list option \<Rightarrow> (nat \<Rightarrow> jdict list) \<Rightarrow> nat \<Rightarrow> string option
     \<Rightarrow> exn + jdict" where
  "runs_listing h p limit status requested runs_at n cursor =
     (if cursor = None then runs_page h p None limit status requested (runs_at n)
      else runs_page h p cursor None None None (runs_at n))"

lemma keep_among_filter:
  "keep_among field allowed items = Inr kept \<Longrightarrow> keep_among field allowed (filter P items) = Inr (filter P kept)"
proof (induction items arbitrary: kept)
  case (Cons item items)
  then show ?case by (cases item) (auto simp: exn_bind_Inr split: if_splits)
qed simp

lemma keep_among_increasing:
  "keep_among field allowed items = Inr kept \<Longrightarrow>
     set kept \<subseteq> set items \<and> length kept \<le> length items \<and> (increasing items \<longrightarrow> increasing kept)"
proof (induction items arbitrary: kept)
  case (Cons item items)
  obtain k d where item: "item = (k, d)" by (cases item)
  with Cons.prems obtain rest b where rest: "keep_among field allowed items = Inr rest"
    and kept: "kept = (if b then item # rest else rest)" by (auto simp: exn_bind_Inr)
  from Cons.IH [OF rest] kept show ?case by (auto simp: increasing_def)
qed (simp add: increasing_def)

definition chosen_runs :: "string list option \<Rightarrow> (string \<times> jdict) list \<Rightarrow> exn + (string \<times> jdict) list" where
  "chosen_runs requested runs = (if requested = None then Inr runs else keep_statuses (optional_list requested) runs)"

lemma chosen_runs_filter:
  "chosen_runs requested runs = Inr kept \<Longrightarrow> chosen_runs requested (filter P runs) = Inr (filter P kept)"
  by (auto simp: chosen_runs_def keep_statuses_def exn_bind_Inr keep_among_filter)

lemma new_cursor_nonempty:
  assumes "json_codec (ht_crypto h) (ht_dumps h)" and "\<And>m. length (hmac_sha256 (ht_crypto h) (ht_cursor_secret h) m) = 32"
  shows "new_cursor h payload \<noteq> []"
proof
  assume "new_cursor h payload = []"
  then obtain e where "decode_cursor (ht_crypto h) (ht_cursor_secret h) [] = Inr e" using cursor_read [OF assms] by metis
  moreover have "hmac_sha256 (ht_crypto h) (ht_cursor_secret h) [] \<noteq> []" using assms(2) [of "[]"] by auto
  ultimately show False by (auto simp: decode_cursor_def b64_pad_def b64_decode_def Let_def)
qed

lemma later_runs:
  assumes codec: "json_codec (ht_crypto h) (ht_dumps h)" and mac: "\<And>m. length (hmac_sha256 (ht_crypto h) (ht_cursor_secret h) m) = 32"
    and window: "0 \<le> wn_high_watermark w" "1 \<le> wn_size w"
    and listed: "sorted_by ''run_id'' runs = Inr ks"
    and kept: "chosen_runs requested (filter (\<lambda>q. fst q \<le> wn_high_id w) ks) = Inr items"
  shows "runs_page h p (Some (new_cursor h (window_payload ''runs'' p [(''statuses'', optional_list requested)] w k))) None None None runs =
    Inr (id_page h ''runs'' p [(''statuses'', optional_list requested)] (w\<lparr>wn_position := k\<rparr>) (filter (\<lambda>q. k < fst q) items))"
proof -
  let ?extra = "[(''statuses'', optional_list requested)]"
  have "\<exists>e. validate_cursor h (new_cursor h (window_payload ''runs'' p ?extra w k)) ''runs'' p None = Inr e \<and>
    cursor_window e = Inr (w\<lparr>wn_position := k\<rparr>) \<and>
    (\<forall>f. f \<notin> {''kind'', ''tenant_id'', ''high_watermark'', ''high_id'', ''position'', ''limit''} \<longrightarrow> dget e f = canon (dget ?extra f))"
    by (rule cursor_of_window [OF codec mac window]) simp
  then obtain e where e: "validate_cursor h (new_cursor h (window_payload ''runs'' p ?extra w k)) ''runs'' p None = Inr e"
    "cursor_window e = Inr (w\<lparr>wn_position := k\<rparr>)"
    and others: "\<forall>f. f \<notin> {''kind'', ''tenant_id'', ''high_watermark'', ''high_id'', ''position'', ''limit''} \<longrightarrow>
      dget e f = canon (dget ?extra f)" by (elim exE conjE)
  have "dget e ''statuses'' = canon (dget ?extra ''statuses'')" by (rule others [rule_format]) simp
  then have filters: "dget e ''statuses'' = canon (optional_list requested)" by (simp add: dget_def)
  have statuses: "canon (optional_list requested) = optional_list requested"
    by (auto simp: optional_list_def comp_def split: option.split)
  have "within_window (w\<lparr>wn_position := k\<rparr>) ks = filter (\<lambda>q. k < fst q) (filter (\<lambda>q. fst q \<le> wn_high_id w) ks)"
    by (simp add: within_window_def case_prod_unfold conj_commute)
  then have "chosen_runs requested (within_window (w\<lparr>wn_position := k\<rparr>) ks) = Inr (filter (\<lambda>q. k < fst q) items)"
    using chosen_runs_filter [OF kept, of "\<lambda>q. k < fst q"] by simp
  moreover have "optional_list requested = JNull \<longleftrightarrow> requested = None" by (auto simp: optional_list_def split: option.split)
  ultimately show ?thesis
    using e filters new_cursor_nonempty [OF codec mac]
    by (simp add: runs_page_def runs_window_def listed statuses chosen_runs_def split: if_splits)
qed

lemma sorted_by_increasing:
  "sorted_by field items = Inr ks \<Longrightarrow> distinct (map fst ks) \<Longrightarrow> increasing ks"
  by (auto simp: sorted_by_def exn_bind_Inr intro!: increasing_sort)

lemma sorted_by_length: "sorted_by field items = Inr ks \<Longrightarrow> length ks = length items"
proof -
  have "traverse f items = Inr ys \<Longrightarrow> length ys = length items" for f :: "jdict \<Rightarrow> exn + string \<times> jdict" and ys
    by (induction items arbitrary: ys) (auto split: sum.splits)
  then show "sorted_by field items = Inr ks \<Longrightarrow> length ks = length items"
    by (auto simp: sorted_by_def exn_bind_Inr)
qed

lemma chosen_runs_kept:
  assumes "chosen_runs requested runs = Inr kept" and "increasing runs"
  shows "increasing kept" and "length kept \<le> length runs"
  using assms keep_among_increasing by (auto simp: chosen_runs_def keep_statuses_def exn_bind_Inr split: if_splits)

lemma below_last: "increasing ks \<Longrightarrow> ks \<noteq> [] \<Longrightarrow> q \<in> set ks \<Longrightarrow> fst q \<le> fst (last ks)"
  by (cases ks rule: rev_cases) (auto simp: increasing_def sorted_wrt_append intro: less_imp_le)

lemma first_page:
  assumes listed: "sorted_by ''run_id'' runs = Inr ks" and ids: "distinct (map fst ks)" "\<forall>q \<in> set ks. fst q \<noteq> []"
    and kept: "chosen_runs requested ks = Inr items"
  shows "runs_page h p None limit status requested runs =
    Inr (id_page h ''runs'' p [(''statuses'', optional_list requested)] (first_window limit ks) items)"
proof -
  have "fst q \<le> wn_high_id (first_window limit ks)" if "q \<in> set ks" for q
    using below_last [OF sorted_by_increasing [OF listed ids(1)] _ that] that by (auto simp: first_window_def)
  moreover have "[] < fst q" if "q \<in> set ks" for q using ids(2) that by (cases "fst q") auto
  ultimately have "within_window (first_window limit ks) ks = ks"
    by (auto simp: within_window_def case_prod_unfold first_window_def intro!: filter_True)
  moreover have "optional_list requested = JNull \<longleftrightarrow> requested = None" by (auto simp: optional_list_def split: option.split)
  ultimately show ?thesis using kept
    by (cases requested) (simp_all add: runs_page_def runs_window_def listed chosen_runs_def)
qed

text \<open>
  C23. Following the cursors of the listing of runs gives the runs of the first page's window, exactly once and in order.
  However the listing changes between the requests, as long as the runs up to the last one of the
  first request stay as they are, the pages together are those runs (of the statuses asked for),
  ordered by their identifiers, and no page is longer than asked for.
\<close>

theorem runs_listing_complete:
  assumes codec: "json_codec (ht_crypto h) (ht_dumps h)"
    and mac: "\<And>m. length (hmac_sha256 (ht_crypto h) (ht_cursor_secret h) m) = 32"
    and listed: "\<And>i. i \<le> n \<Longrightarrow> sorted_by ''run_id'' (runs_at i) = Inr (ks i)"
    and ids: "distinct (map fst (ks n))" "\<forall>q \<in> set (ks n). fst q \<noteq> []"
    and frozen: "\<And>i. i < n \<Longrightarrow> filter (\<lambda>q. fst q \<le> (if ks n = [] then [] else fst (last (ks n)))) (ks i) = ks n"
    and kept: "chosen_runs requested (ks n) = Inr items"
    and limit: "limit = None \<or> limit = Some m \<and> 0 \<le> m" and enough: "length (runs_at n) \<le> n"
  shows "\<exists>pages. follow (runs_listing h p limit status requested runs_at) (Suc n) None = Inr pages \<and>
    concat pages = map (\<lambda>(k, d). JObj d) items \<and> (\<forall>page \<in> set pages. int (length page) \<le> page_size limit)"
proof -
  let ?w = "first_window limit (ks n)" and ?extra = "[(''statuses'', optional_list requested)]"
  let ?listing = "runs_listing h p limit status requested runs_at"
  have window: "0 \<le> wn_high_watermark ?w" "1 \<le> wn_size ?w" "wn_size ?w = page_size limit"
    using limit by (auto simp: first_window_def page_size_def)
  have high: "wn_high_id ?w = (if ks n = [] then [] else fst (last (ks n)))" by (simp add: first_window_def)
  note increasing = sorted_by_increasing [OF listed [OF order.refl] ids(1)]
  have first: "?listing n None = Inr (id_page h ''runs'' p ?extra ?w items)"
    using first_page [OF listed [OF order.refl] ids kept] by (simp add: runs_listing_def)
  have later: "?listing i (Some (new_cursor h (window_payload ''runs'' p ?extra ?w k))) =
      Inr (id_page h ''runs'' p ?extra (?w\<lparr>wn_position := k\<rparr>) (filter (\<lambda>q. k < fst q) items))" if "i < n" for i k
    using later_runs [OF codec mac window(1,2) listed [of i]] kept frozen [OF that] that
    by (simp add: runs_listing_def high)
  have "length items \<le> n"
    using chosen_runs_kept(2) [OF kept increasing] sorted_by_length [OF listed [OF order.refl]] enough by simp
  from follow_window [where listing = ?listing, OF first later chosen_runs_kept(1) [OF kept increasing] window(2) this]
  show ?thesis by (auto simp: window(3) pages_of_def listed_items_def)
qed

end
