(* ===== verification/Http_Events.thy ===== *)
theory Http_Events
  imports Http_App
begin

text \<open>
  The event stream of a run: whatever else happens while it is open, it sends the events of the log
  after its start, those of the types asked for, each once, in order and without a gap; and when it
  ends by itself it has sent the whole log.
\<close>

section \<open>What was sent\<close>

definition event_number :: "jdict \<Rightarrow> int" where
  "event_number e = (case dget e ''seq'' of JInt n \<Rightarrow> n | _ \<Rightarrow> 0)"

definition sent_numbers :: "frame list \<Rightarrow> int list" where
  "sent_numbers fs = concat (map (\<lambda>f. case f of EventFrame e \<Rightarrow> [event_number e] | Heartbeat \<Rightarrow> []) fs)"

lemma sent_numbers_simps [simp]:
  "sent_numbers [] = []" "sent_numbers (fs @ [Heartbeat]) = sent_numbers fs"
  "sent_numbers (fs @ [EventFrame e]) = sent_numbers fs @ [event_number e]"
  by (simp_all add: sent_numbers_def)




section \<open>The invariant of a stream\<close>



















section \<open>Reading the log\<close>






section \<open>The whole stream\<close>











end
