(* ===== verification/Http_Deletion.thy ===== *)
theory Http_Deletion
  imports Http_App Storage_Laws
begin

text \<open>
  Deleting a dataset: an answered deletion has erased the bytes of every version, and one that fails
  is recorded as failed.
\<close>

section \<open>Loops and files\<close>

lemma each_establishes:
  assumes "each f xs s = (Inr (), s')" and "x \<in> set xs" and "\<And>t t'. f x t = (Inr (), t') \<Longrightarrow> P t'"
    and "\<And>y t t'. P t \<Longrightarrow> f y t = (Inr (), t') \<Longrightarrow> P t'"
  shows "P s'"
proof -
  have kept: "P t'" if "each f ys t = (Inr (), t')" "P t" for ys t t'
    using that by (induction ys arbitrary: t) (auto simp: ret_def dest: assms(4) elim!: seq_Inr)
  show ?thesis using assms(1,2)
  proof (induction xs arbitrary: s)
    case (Cons y ys)
    from Cons.prems(1) obtain u t where first: "f y s = (Inr u, t)" and rest: "each f ys t = (Inr (), s')"
      unfolding each.simps by (elim seq_Inr)
    show ?case
    proof (cases "x = y")
      case True
      with first have "P t" by (intro assms(3)) simp
      with rest show ?thesis by (rule kept)
    qed (use Cons rest in auto)
  qed simp
qed

lemma each_keeps:
  assumes "each f xs s = (q, s')" and "P s" and "\<And>y t. P t \<Longrightarrow> P (post (f y) t)"
  shows "P s'"
  using keepsD [OF keeps_each [of xs P f], of s] assms by (auto simp: keeps_def)

text \<open>No file is kept of a version, neither its source nor its parts.\<close>

definition no_bytes :: "string \<Rightarrow> string \<Rightarrow> files \<Rightarrow> bool" where
  "no_bytes tenant version fs \<longleftrightarrow>
     list_all (\<lambda>(p, _). take 3 p \<noteq> [''datasets'', tenant, version] \<and> take 3 p \<noteq> [''uploads'', tenant, version]) fs"

lemma no_bytes_fewer: "no_bytes t v fs \<Longrightarrow> set fs' \<subseteq> set fs \<Longrightarrow> no_bytes t v fs'"
  by (auto simp: no_bytes_def list_all_iff)

lemma delete_version_files:
  "delete_dataset_version t v fs = (Inr u, fs') \<Longrightarrow> no_bytes t v fs'"
  "set (post (delete_dataset_version t v) fs) \<subseteq> set fs"
  using safe_component_cases [of t "''tenant_id''"] safe_component_cases [of v "''dataset_version_id''"]
  by (auto simp: delete_dataset_version_def py_run remove_tree_def no_bytes_def list_all_iff numeral_3_eq_3)

lemma delete_key_fewer: "set (post (delete_key cfg key) fs) \<subseteq> set fs"
proof -
  have "set (dpop q fs) \<subseteq> set fs" for q by (auto simp: AList.delete_eq)
  from this delete_key_post [of cfg key fs] show ?thesis by (elim disjE exE conjE) simp_all
qed

section \<open>The deletion\<close>

abbreviation world_files :: "durable_world \<Rightarrow> files" where
  "world_files d \<equiv> w_files (dw_world d)"

lemma in_state_files: "in_state m d = (q, d') \<Longrightarrow> world_files d' = world_files d"
  by (auto simp: on_world_def in_store_def split: prod.splits)

lemma in_files_files: "on_world (in_files m) d = (q, d') \<Longrightarrow> m (world_files d) = (q, world_files d')"
  by (auto simp: on_world_def in_files_def split: prod.splits)

lemma no_bytes_kept:
  assumes blobs: "sv_blobs (ht_service h) = local_blobs cr encode digest cfg"
    and erased: "erase_bytes h p versions artifacts d = (Inr (), d')"
    and v: "v \<in> set versions" "string_of v ''dataset_version_id'' = Inr version"
  shows "no_bytes (tenant_id p) version (world_files d')"
proof -
  let ?P = "\<lambda>d. no_bytes (tenant_id p) version (world_files d)"
  let ?f = "\<lambda>v. seq (lift (string_of v ''dataset_version_id'')) (\<lambda>version_id.
    on_world (in_files (delete_dataset_version (tenant_id p) version_id)))"
  let ?g = "\<lambda>a. seq (on_world (in_files (delete_key cfg (py_str (sv_env (ht_service h)) (dget_or a ''blob_key'' (JStr []))))))
    (\<lambda>_. seq (lift (string_of a ''artifact_id'')) (\<lambda>artifact_id.
      seq (in_state (update_artifact artifact_id [(''state'', JStr ''DELETED'')])) (\<lambda>_. ret ())))"
  from erased obtain u d1 where first: "each ?f versions d = (Inr u, d1)" and second: "each ?g artifacts d1 = (Inr (), d')"
    unfolding erase_bytes_def Let_def blobs local_blobs_def by (auto elim!: seq_Inr)
  have "?P d1"
  proof (rule each_establishes [where P = ?P, OF _ v(1)])
    show "each ?f versions d = (Inr (), d1)" using first by simp
  next
    fix t t' assume "?f v t = (Inr (), t')"
    then have "on_world (in_files (delete_dataset_version (tenant_id p) version)) t = (Inr (), t')"
      by (simp add: v(2) seq_def lift_def)
    from delete_version_files(1) [OF in_files_files [OF this]] show "?P t'" .
  next
    fix y t t' assume t: "?P t" and "?f y t = (Inr (), t')"
    then obtain k where "on_world (in_files (delete_dataset_version (tenant_id p) k)) t = (Inr (), t')"
      by (auto simp: lift_def elim!: seq_Inr)
    from in_files_files [OF this] delete_version_files(2) [of "tenant_id p" k "world_files t"]
    have "set (world_files t') \<subseteq> set (world_files t)" by simp
    with t show "?P t'" by (rule no_bytes_fewer)
  qed
  moreover have "keeps ?P (?g a)" for a
  proof (intro keeps_seq keeps_basic)
    show "keeps ?P (on_world (in_files (delete_key cfg key)))" for key
      using no_bytes_fewer delete_key_fewer by (auto simp: keeps_def on_world_def in_files_def case_prod_beta)
    show "keeps ?P (in_state (update_artifact k u))" for k u
      by (simp add: keeps_def on_world_def in_store_def case_prod_beta)
  qed
  then have "keeps ?P (each ?g artifacts)" by (intro keeps_each)
  ultimately have "?P (post (each ?g artifacts) d1)" by (rule keepsD [rotated])
  then show ?thesis by (simp add: second)
qed

text \<open>The versions that a deletion is about are those of the dataset when it starts.\<close>

definition versions_of :: "store \<Rightarrow> string \<Rightarrow> string \<Rightarrow> jdict list" where
  "versions_of s tenant dataset_id =
     of_tenant tenant (filter (\<lambda>v. py_eq (dget v ''dataset_id'') (JStr dataset_id)) (map snd (st_dataset_versions s)))"

lemma start_deletion_versions:
  assumes "start_deletion h p dataset_id d = (Inr (deletion_id, now, versions, runs), d')"
  shows "versions = versions_of (w_store (dw_world d)) (tenant_id p) dataset_id"
  using assms
  by (auto simp: start_deletion_def Let_def list_dataset_versions_def list_where_def gets_def lift_def ret_def versions_of_def
      on_world_def in_store_def get_dataset_def get_locked_def split: prod.splits elim!: seq_Inr)

lemma ended_status:
  "dget (dupdate found [(''status'', v), (''stores'', a), (''completed_at'', b)]) ''status'' = v"
  by (simp add: dget_def map_of_dupdate)

lemma end_deletion_run:
  assumes "map_of (st_deletions (w_store (dw_world d))) deletion_id = Some found"
  shows "\<exists>record d'. end_deletion h deletion_id status a b c d = (Inr record, d') \<and> dget record ''status'' = JStr status \<and>
    map_of (st_deletions (w_store (dw_world d'))) deletion_id = Some record \<and> world_files d' = world_files d"
proof -
  obtain t d1 where now: "on_world (iso_now (ht_service h)) d = (Inr t, d1)" and d1: "w_store (dw_world d1) = w_store (dw_world d)"
    "world_files d1 = world_files d"
    by (simp add: on_world_def iso_now_def iso_in_def utcnow_def seq_def ret_def)
  have "map_of (st_deletions (w_store (dw_world d1))) deletion_id = Some found" using assms d1 by simp
  with now d1(2) show ?thesis
    by (simp add: end_deletion_def seq_def on_world_def in_store_def update_deletion_def update_locked_run patch_without_id_def
        dget_or_def ended_status)
qed

lemma end_deletion_Inr:
  assumes "end_deletion h deletion_id status a b c d = (Inr record, d')"
  shows "dget record ''status'' = JStr status" and "map_of (st_deletions (w_store (dw_world d'))) deletion_id = Some record"
    and "world_files d' = world_files d"
proof -
  obtain t d1 where now: "on_world (iso_now (ht_service h)) d = (Inr t, d1)" and d1: "world_files d1 = world_files d"
    by (simp add: on_world_def iso_now_def iso_in_def utcnow_def seq_def ret_def)
  then obtain found where "map_of (st_deletions (w_store (dw_world d1))) deletion_id = Some found"
    using assms by (auto simp: end_deletion_def seq_def on_world_def in_store_def update_deletion_def update_locked_run
        split: option.splits)
  with now assms d1
  have "dget record ''status'' = JStr status \<and> map_of (st_deletions (w_store (dw_world d'))) deletion_id = Some record \<and>
      world_files d' = world_files d"
    by (auto simp: end_deletion_def seq_def on_world_def in_store_def update_deletion_def update_locked_run patch_without_id_def
        dget_or_def ended_status)
  then show "dget record ''status'' = JStr status" "map_of (st_deletions (w_store (dw_world d'))) deletion_id = Some record"
    "world_files d' = world_files d" by simp_all
qed

text \<open>
  C14. An answered deletion has erased the bytes. When the deletion of a dataset is answered, no file is left of any
  version that the dataset had when it began, neither its source nor its upload parts, and the
  deletion is recorded as completed.
\<close>

theorem deletion_erases_bytes:
  assumes blobs: "sv_blobs (ht_service h) = local_blobs cr encode digest cfg"
    and answered: "run_deletion h p dataset_id d = (Inr reply, d')"
  shows "(\<forall>v version. v \<in> set (versions_of (w_store (dw_world d)) (tenant_id p) dataset_id) \<longrightarrow>
      string_of v ''dataset_version_id'' = Inr version \<longrightarrow> no_bytes (tenant_id p) version (world_files d')) \<and>
    (\<exists>deletion_id record. map_of (st_deletions (w_store (dw_world d'))) deletion_id = Some record \<and>
      dget record ''status'' = JStr ''COMPLETED'')"
proof -
  from answered obtain deletion_id now versions runs deletion d1 d2 where
    start: "start_deletion h p dataset_id d = (Inr (deletion_id, now, versions, runs), d1)"
    and performed: "on_error (perform_deletion h p dataset_id deletion_id now versions runs)
        (seq (end_deletion h deletion_id ''FAILED'' ''FAILED'' ''FAILED'' ''FAILED'') (\<lambda>_. ret ())) d1 = (Inr deletion, d2)"
    and last: "d' = d2"
    unfolding run_deletion_def validated_def by (auto simp: lift_def ret_def elim!: seq_Inr)
  have "perform_deletion h p dataset_id deletion_id now versions runs d1 = (Inr deletion, d2)"
    using performed by (auto simp: on_error_def py_run split: prod.splits sum.splits)
  then obtain artifacts u d3 d4 where
    erased: "erase_bytes h p versions artifacts d3 = (Inr u, d4)"
    and ended: "end_deletion h deletion_id ''COMPLETED'' ''DELETED'' ''DELETED'' ''INACCESSIBLE'' d4 = (Inr deletion, d2)"
    unfolding perform_deletion_def by (elim seq_Inr)
  note done_ = end_deletion_Inr [OF ended]
  have "no_bytes (tenant_id p) version (world_files d')"
    if "v \<in> set (versions_of (w_store (dw_world d)) (tenant_id p) dataset_id)" "string_of v ''dataset_version_id'' = Inr version"
    for v version
    using no_bytes_kept [OF blobs, of p versions artifacts d3 d4 v version] erased that start_deletion_versions [OF start]
    by (simp add: last done_(3))
  then show ?thesis using done_(1,2) last by auto
qed

text \<open>
  A deletion that fails is recorded as failed. If anything of it raises, the request raises the same, and the record of the
  deletion, which a client can read, says so.
\<close>

theorem failed_deletion_recorded:
  assumes "start_deletion h p dataset_id d = (Inr (deletion_id, now, versions, runs), d1)"
    and "perform_deletion h p dataset_id deletion_id now versions runs d1 = (Inl e, d2)"
    and "has_key (st_deletions (w_store (dw_world d2))) deletion_id"
  shows "\<exists>d3 record. run_deletion h p dataset_id d = (Inl e, d3) \<and> dget record ''status'' = JStr ''FAILED'' \<and>
    map_of (st_deletions (w_store (dw_world d3))) deletion_id = Some record"
proof -
  obtain found where "map_of (st_deletions (w_store (dw_world d2))) deletion_id = Some found" using assms(3) by (auto simp: has_key_def)
  from end_deletion_run [OF this, of h "''FAILED''" "''FAILED''" "''FAILED''" "''FAILED''"] obtain rec d3 where
    "end_deletion h deletion_id ''FAILED'' ''FAILED'' ''FAILED'' ''FAILED'' d2 = (Inr rec, d3)"
    "dget rec ''status'' = JStr ''FAILED''" "map_of (st_deletions (w_store (dw_world d3))) deletion_id = Some rec" by blast
  then show ?thesis using assms(1,2) by (auto simp: run_deletion_def seq_def on_error_def py_run)
qed

end
