(* ===== verification/Http_Approval.thy ===== *)
theory Http_Approval
  imports Http_Bytes Workflow_Control Durable_Laws
begin

text \<open>
  Deciding an approval: under which conditions anything happens, and what an answered decision leaves.
\<close>

section \<open>The conditions\<close>

text \<open>The decision is admissible: by whom, on what, in which state and version.\<close>

definition may_decide :: "principal \<Rightarrow> string \<Rightarrow> string \<Rightarrow> int \<Rightarrow> store \<Rightarrow> bool" where
  "may_decide p run_id approval_id version s \<longleftrightarrow>
     (case (map_of (st_runs s) run_id, map_of (sub st_approvals run_id s) approval_id) of
        (Some run, Some approval) \<Rightarrow>
          py_eq (dget run ''tenant_id'') (JStr (tenant_id p)) \<and> py_eq (dget approval ''tenant_id'') (JStr (tenant_id p)) \<and>
          \<not> (authentication_mode p = ''production'' \<and> actor_type p \<noteq> ''human'') \<and>
          dget run ''status'' = JStr ''WAITING_APPROVAL'' \<and> dget approval ''status'' = JStr ''OPEN'' \<and>
          py_int (dget approval ''evidence_version'') = Inr version
      | _ \<Rightarrow> False)"

lemma get_approval_run:
  assumes "wf_store s" and "map_of (st_runs s) r = Some run"
  shows "get_approval r a s = (Inr (map_of (sub st_approvals r s) a), s)"
proof -
  have "has_key (st_approvals s) r" using wf_with_key [OF has_key_Some [OF assms(2)] assms(1)] by simp
  then have "dset_default r [] (st_approvals s) = st_approvals s" by (simp add: dset_default_def)
  then have "st_approvals_update (dset_default r []) s = s" by (cases s) simp
  then show ?thesis using has_key_Some [OF assms(2)]
    by (simp add: get_approval_def require_run_def ensure_sub_def get_locked_def py_run)
qed

lemma clock_store: "on_world (utcnow sv) d = (Inr t, d') \<Longrightarrow> w_store (dw_world d') = w_store (dw_world d)"
  by (auto simp: on_world_def utcnow_def)

lemma reads_of_decision:
  "in_state (get_run r) d = (Inr (map_of (st_runs (w_store (dw_world d))) r), d)"
  "wf_store (w_store (dw_world d)) \<Longrightarrow> map_of (st_runs (w_store (dw_world d))) r = Some run \<Longrightarrow>
     in_state (get_approval r a) d = (Inr (map_of (sub st_approvals r (w_store (dw_world d))) a), d)"
  using get_approval_run [of "w_store (dw_world d)" r run a]
  by (simp_all add: on_world_def in_store_def get_run_def get_locked_def gets_def)

lemma decidable_Inr:
  assumes wf: "wf_store (w_store (dw_world d))"
    and run: "decidable_approval h p r a version d = (Inr (run, approval), d')"
  shows "w_store (dw_world d') = w_store (dw_world d)"
proof -
  from run have "map_of (st_runs (w_store (dw_world d))) r \<noteq> None"
    unfolding decidable_approval_def
    by (elim seq_Inr) (auto simp: reads_of_decision(1) owned_def lift_def split: option.splits)
  then obtain found where "map_of (st_runs (w_store (dw_world d))) r = Some found" by blast
  note reads = reads_of_decision(1) [of r d] reads_of_decision(2) [OF wf this]
  show ?thesis
    using run unfolding decidable_approval_def
    by (elim seq_Inr) (auto simp: reads lift_def fail_if_def ret_def raise_def split: if_splits elim!: seq_Inr dest!: clock_store)
qed

lemma decidable_owned:
  assumes wf: "wf_store (w_store (dw_world d))" and not: "\<not> may_decide p r a version (w_store (dw_world d))"
    and run: "map_of (st_runs (w_store (dw_world d))) r = Some run" "owned (Some run) p = Inr run"
    and approval: "map_of (sub st_approvals r (w_store (dw_world d))) a = Some approval" "owned (Some approval) p = Inr approval"
    and human: "require_human_approval p = Inr u"
  shows "\<exists>e. decidable_approval h p r a version d = (Inl e, d)"
proof -
  note step = decidable_approval_def seq_def reads_of_decision(1) reads_of_decision(2) [OF wf run(1)] lift_def fail_if_def run approval human
  have no: "dget run ''status'' \<noteq> JStr ''WAITING_APPROVAL'' \<or> dget approval ''status'' \<noteq> JStr ''OPEN'' \<or>
      py_int (dget approval ''evidence_version'') \<noteq> Inr version"
    using not run approval human by (auto simp: may_decide_def require_human_approval_def owned_def split: if_splits)
  have item: "dget x k = v" if "item_of x k = Inr v" for x k v
    using that by (simp add: item_of_def dget_def split: option.splits)
  show ?thesis
  proof (cases "item_of approval ''status''")
    case (Inr va)
    note va = this
    show ?thesis
    proof (cases "item_of run ''status''")
      case (Inr vr)
      show ?thesis
      proof (cases "va \<noteq> JStr ''OPEN'' \<or> vr \<noteq> JStr ''WAITING_APPROVAL''")
        case False
        with no item [OF va] item [OF Inr] int_of_dget [of approval "''evidence_version''"] va Inr show ?thesis
          by (cases "int_of approval ''evidence_version''") (auto simp: step)
      qed (simp add: step va Inr)
    qed (simp add: step va)
  qed (simp add: step)
qed

lemma decidable_refused:
  assumes wf: "wf_store (w_store (dw_world d))" and not: "\<not> may_decide p r a version (w_store (dw_world d))"
  shows "\<exists>e. decidable_approval h p r a version d = (Inl e, d)"
proof (cases "map_of (st_runs (w_store (dw_world d))) r")
  case (Some run)
  note step = decidable_approval_def seq_def reads_of_decision(1) reads_of_decision(2) [OF wf Some] lift_def Some
  show ?thesis
  proof (cases "owned (Some run) p")
    case (Inr run')
    then have run: "owned (Some run) p = Inr run" by (auto simp: owned_def split: if_splits)
    show ?thesis
    proof (cases "owned (map_of (sub st_approvals r (w_store (dw_world d))) a) p")
      case (Inr approval)
      then have approval: "map_of (sub st_approvals r (w_store (dw_world d))) a = Some approval" "owned (Some approval) p = Inr approval"
        by (auto simp: owned_def split: option.splits if_splits)
      show ?thesis
        using decidable_owned [OF wf not Some run approval]
        by (cases "require_human_approval p") (simp_all add: step run approval)
    qed (simp add: step run)
  qed (simp add: step)
qed (simp add: decidable_approval_def seq_def reads_of_decision(1) owned_def lift_def)

section \<open>What an answered decision leaves\<close>

lemma wf_decision_command: "keeps (in_durable wf_store) (decision_command h p r choice)"
  unfolding decision_command_def Let_def
  by (intro keeps_seq keeps_basic keeps_on_world keeps_clock keeps_in_store wf_operations pure_read_keeps pure_store_reads)

lemma keeps_option: "keeps P m \<Longrightarrow> (\<And>x. keeps P (f x)) \<Longrightarrow> keeps P (case q of None \<Rightarrow> m | Some x \<Rightarrow> f x)"
  by (cases q) simp_all

lemma keeps_choice: "keeps P m \<Longrightarrow> keeps P m' \<Longrightarrow> keeps P (if b then m else m')"
  by simp

lemma wf_decided_result: "keeps (in_durable wf_store) (decided_result h p r run approval choice status reason outputs charts t)"
  unfolding decided_result_def approved_model_def Let_def
  by (intro keeps_seq keeps_choice keeps_option keeps_basic keeps_on_world keeps_clock keeps_in_store wf_operations)
    (simp_all add: get_model_def get_locked_def)

definition disposition_of :: "string \<Rightarrow> string" where
  "disposition_of choice = (if choice = ''APPROVE'' then ''ELIGIBLE_MODEL_AVAILABLE'' else ''NO_ELIGIBLE_MODEL'')"

text \<open>The run is over, took its place, and its result says what was decided.\<close>

definition closed_by :: "string \<Rightarrow> string \<Rightarrow> store \<Rightarrow> bool" where
  "closed_by choice r s \<longleftrightarrow>
     (\<exists>n. stands r (JStr ''TERMINAL'', JStr ''SUCCEEDED'', JArr [], JInt n) s) \<and>
     (\<exists>res. map_of (st_results s) r = Some res \<and> dget res ''outcome'' = JStr ''SUCCEEDED'' \<and>
        dget res ''model_disposition'' = JStr (disposition_of choice))"

lemma decided_result_fields:
  "decided_result h p r run approval choice status reason outputs charts t d = (Inr result, d') \<Longrightarrow>
     dget result ''outcome'' = JStr ''SUCCEEDED'' \<and> dget result ''model_disposition'' = JStr (disposition_of choice)"
  by (auto simp: decided_result_def Let_def approval_result_def disposition_of_def dget_def ret_def split: if_splits elim!: seq_Inr)

lemma triple_in_state:
  "triple P m Q (\<lambda>_. True) \<Longrightarrow> triple (in_durable P) (in_state m) (\<lambda>x d. Q x (w_store (dw_world d))) (\<lambda>_. True)"
  by (fastforce simp: triple_def in_store_def on_world_def split: prod.splits sum.splits)

lemma close_decided_run_closes:
  assumes result: "dget result ''outcome'' = JStr ''SUCCEEDED''" "dget result ''model_disposition'' = JStr (disposition_of choice)"
  shows "triple (in_durable wf_store) (close_decided_run h r run outputs result t) (\<lambda>_. in_durable (closed_by choice r)) (\<lambda>_. True)"
proof -
  note keep = weaker_error [where P = "in_durable wf_store"]
  note fields = triple_both [OF finalize_stores_field [where f = "''outcome''"] finalize_stores_field [where f = "''model_disposition''"]]
  have closed: "triple (in_durable wf_store) (in_state (finalize_run_with_result env r result (decided_updates t stage_list) events (Some n)))
      (\<lambda>_. in_durable (closed_by choice r)) (\<lambda>_. True)" for env stage_list events n
    by (rule triple_weaken [OF triple_in_state [OF triple_both [OF finalize_stands
        [where v = "(JStr ''TERMINAL'', JStr ''SUCCEEDED'', JArr [], JInt (n + 1))"] fields]]])
      (auto simp: bumped_def protect_run_def dupdate_def run_state_def decided_updates_def closed_by_def result)
  show ?thesis
    unfolding close_decided_run_def Let_def
    apply (rule triple_seq, rule keep, rule keeps_basic)
    apply (rule triple_seq, rule keep, rule keeps_basic)
    apply (rule triple_seq, rule keep, rule keeps_on_world, rule keeps_clock)
    apply (rule triple_seq, rule keep, rule keeps_basic)
    apply (rule triple_seq, rule keep, rule keeps_basic)
    apply (rule triple_seq, rule closed)
    apply (simp add: triple_def ret_def split: prod.split)
    done
qed

lemma closed_by_update_command: "keeps (closed_by choice r) (update_command k u)"
proof (rule keepsI)
  fix s assume s: "closed_by choice r s"
  then obtain n where "stands r (JStr ''TERMINAL'', JStr ''SUCCEEDED'', JArr [], JInt n) s" by (auto simp: closed_by_def)
  then have "stands r (JStr ''TERMINAL'', JStr ''SUCCEEDED'', JArr [], JInt n) (post (update_command k u) s)"
    by (rule keepsD [OF stands_frame [OF frame_flat(2)], rotated]) (rule wf_operations)
  moreover have "st_results (post (update_command k u) s) = st_results s"
    by (simp add: update_command_def update_locked_run split: option.split sum.split)
  ultimately show "closed_by choice r (post (update_command k u) s)" using s by (auto simp: closed_by_def)
qed

lemma wf_decidable: "keeps (in_durable wf_store) (decidable_approval h p r a v)"
  unfolding decidable_approval_def split_beta
  by (intro keeps_seq keeps_choice keeps_basic keeps_on_world keeps_clock keeps_in_store wf_operations)
    (simp_all add: get_run_def get_locked_def)

lemma decided_result_triple:
  "triple (in_durable wf_store) (decided_result h p r run approval choice status reason outputs charts t)
     (\<lambda>result d. in_durable wf_store d \<and> dget result ''outcome'' = JStr ''SUCCEEDED'' \<and>
        dget result ''model_disposition'' = JStr (disposition_of choice)) (\<lambda>_. True)"
  unfolding triple_def
proof (intro allI impI)
  fix d assume "in_durable wf_store d"
  note kept = keepsD [OF wf_decided_result this, of h p r run approval choice status reason outputs charts t]
  show "case decided_result h p r run approval choice status reason outputs charts t d of (Inl e, d') \<Rightarrow> True
    | (Inr result, d') \<Rightarrow> in_durable wf_store d' \<and> dget result ''outcome'' = JStr ''SUCCEEDED'' \<and>
        dget result ''model_disposition'' = JStr (disposition_of choice)"
    using kept decided_result_fields [of h p r run approval choice status reason outputs charts t d]
    by (auto split: prod.split sum.split)
qed

lemma decide_closes:
  assumes "dget payload ''decision'' = JStr choice"
  shows "triple (in_durable wf_store) (decide h p r a v payload) (\<lambda>_. in_durable (closed_by choice r)) (\<lambda>_. True)"
proof -
  note keep = weaker_error [where P = "in_durable wf_store"]
  note stays = weaker_error [where P = "in_durable (closed_by choice r)"]
  have choice: "string_of payload ''decision'' = Inr c \<Longrightarrow> c = choice" for c
    using assms by (simp add: string_of_Inr dget_def)
  show ?thesis
    unfolding decide_def Let_def split_beta
    apply (rule triple_seq, rule keep, rule wf_decidable)
    apply (rule triple_seq, rule triple_lift_eq, simp, rule triple_given, drule choice, simp)
    apply (rule triple_seq, rule keep, rule keeps_basic)
    apply (rule triple_seq, rule keep, rule keeps_basic)
    apply (rule triple_seq, rule keep, rule keeps_basic)
    apply (rule triple_seq, rule keep, intro keeps_on_world keeps_in_store wf_operations, simp)
    apply (rule triple_seq, rule keep, rule wf_decision_command)
    apply (rule triple_seq, rule keep, intro keeps_on_world keeps_pure_store pure_store_reads)
    apply (rule triple_seq, rule keep, rule keeps_basic)
    apply (rule triple_seq, rule keep, rule keeps_on_world, rule keeps_clock)
    apply (rule triple_seq, rule decided_result_triple)
    apply (rule triple_given)
    apply (rule triple_seq, rule close_decided_run_closes, simp, simp)
    apply (rule triple_seq, rule stays, rule keeps_basic)
    apply (rule triple_seq, rule stays, intro keeps_on_world keeps_in_store closed_by_update_command)
    apply (rule triple_seq, rule stays, intro keeps_on_world keeps_pure_store pure_store_reads)
    apply (rule stays)
    apply (auto simp: validated_def split: option.split intro!: keeps_seq)
    done
qed

text \<open>
  C13. Decisions are guarded and close the run. Whoever decides, on whatever, in whatever state: unless the run and the approval are
  the principal's, the principal may approve, the run waits, the approval is open and of the version
  named, the store stays as it is and the answer is a problem. An answered decision has closed the
  run with a result that says whether a model became eligible, so no other decision on it is admissible.
\<close>

theorem decision_guarded_and_final:
  assumes wf: "wf_store (w_store (dw_world d))"
    and run: "decide h p run_id approval_id version payload d = (q, d')"
  shows "(\<not> may_decide p run_id approval_id version (w_store (dw_world d)) \<longrightarrow>
      (\<exists>e. q = Inl e) \<and> w_store (dw_world d') = w_store (dw_world d)) \<and>
    (\<forall>outcome choice. q = Inr outcome \<longrightarrow> dget payload ''decision'' = JStr choice \<longrightarrow>
      closed_by choice run_id (w_store (dw_world d')) \<and>
      (\<forall>p' a' v'. \<not> may_decide p' run_id a' v' (w_store (dw_world d'))))"
proof -
  have refused: "(\<exists>e. q = Inl e) \<and> w_store (dw_world d') = w_store (dw_world d)"
    if "\<not> may_decide p run_id approval_id version (w_store (dw_world d))"
  proof -
    from decidable_refused [OF wf that] obtain e where "decidable_approval h p run_id approval_id version d = (Inl e, d)" by blast
    then show ?thesis using run by (auto simp: decide_def Let_def seq_def)
  qed
  have closed: "closed_by choice run_id (w_store (dw_world d'))"
    if q: "q = Inr outcome" and choice: "dget payload ''decision'' = JStr choice" for outcome choice
  proof -
    from triple_Inr [OF decide_closes [OF choice] wf] run q show ?thesis by simp
  qed
  have "\<not> may_decide p' run_id a' v' s" if "closed_by choice run_id s" for p' a' v' choice s
    using that by (auto simp: closed_by_def stands_def may_decide_def run_state_def split: option.splits)
  with refused closed show ?thesis by blast
qed

end
