(* ===== verification/Http_Examples.thy ===== *)
theory Http_Examples
  imports Durable_Run_Examples Runtime_Examples Http_Once Http_Bytes Http_Listing Http_Events Http_Deletion Http_Approval
begin

text \<open>A concrete application and requests to it, which the theorems on the HTTP handlers are applied to.\<close>

definition demo_http :: http where
  "demo_http =
     \<lparr>ht_service = ds_service demo_durable,
      ht_runs = durable_run_service (ds_service demo_durable) demo_engine (\<lambda>_ d. d), ht_crypto = demo_crypto,
      ht_digest = demo_digest, ht_dumps = put, ht_cursor_secret = ''secret'', ht_validated = (\<lambda>model nulls j. Inr j),
      ht_detail = (\<lambda>_. ''detail''), ht_urandom = (\<lambda>n. ''0123''), ht_parse_time = (\<lambda>s. Some (1000, True)),
      ht_webhooks = Inr demo_ws, ht_web = demo_web, ht_urlsplit = (\<lambda>_. None),
      ht_public_base_url = ''https://api'', ht_public_base_urls = []\<rparr>"

definition demo_scoped :: principal where
  "demo_scoped = demo_principal\<lparr>scopes := [''*'']\<rparr>"

definition demo_request :: api_request where
  "demo_request =
     \<lparr>rq_method = ''POST'', rq_path = ''/v1/runs/r1:cancel'', rq_query = [], rq_if_match = None,
      rq_base_url = ''https://api/'', rq_correlation_id = ''c1''\<rparr>"

lemma demo_http_parts:
  "sv_env (ht_service demo_http) = plain_env" "built_with demo_http (\<lambda>_ d. d)"
  "sv_blobs (ht_service demo_http) = local_blobs demo_crypto put demo_digest demo_config"
  "json_codec (ht_crypto demo_http) (ht_dumps demo_http)"
  by (auto simp: demo_http_def built_with_def demo_durable_def demo_service_env demo_codec)

section \<open>Requests\<close>

theorem unauthorized_request_refused_witness:
  "case perform demo_http (\<lambda>_ d. d) (demo_scoped\<lparr>scopes := [''automl:operation:getRun'']\<rparr>)
     (H_Cancel ''k1'' demo_request ''r1'') demo_taken of (q, d) \<Rightarrow> isl q \<and> d = demo_taken"
  using unauthorized_request_refused [of "demo_scoped\<lparr>scopes := [''automl:operation:getRun'']\<rparr>"
    "H_Cancel ''k1'' demo_request ''r1''" demo_http "\<lambda>_ d. d" demo_taken]
  by simp


theorem http_runs_isolated_between_tenants_witness:
  "map_of (st_runs (w_store (dw_world (post (perform demo_http (\<lambda>_ d. d) (demo_scoped\<lparr>tenant_id := ''t2''\<rparr>)
     (H_Cancel ''k1'' demo_request ''r1'')) demo_taken)))) ''r1'' = Some demo_taken_run"
proof -
  have "dget demo_taken_run ''tenant_id'' = JStr ''t1''" by code_simp
  then show ?thesis
    by (intro http_runs_isolated_between_tenants [OF wf_reachable [OF demo_taken_reachable] demo_taken_run _ demo_http_parts(2)])
      simp_all
qed

section \<open>Idempotency\<close>

definition demo_response :: stored_response where
  "demo_response = \<lparr>status_code = 202, body = JStr ''ok'', headers = []\<rparr>"

definition "demo_begun = post (in_state (begin_idempotent_request ''op'' ''k1'' ''f'')) demo_taken"
definition "demo_finished = post (in_state (complete_idempotent_request ''op'' ''k1'' ''f'' demo_response)) demo_begun"

lemma demo_key:
  "in_state (begin_idempotent_request ''op'' ''k1'' ''f'') demo_taken = (Inr (decision NEW ''f''), demo_begun)"
  "in_state (begin_idempotent_request ''op'' ''k1'' ''f'') demo_begun = (Inr (decision IN_PROGRESS ''f''), demo_begun)"
  "in_state (complete_idempotent_request ''op'' ''k1'' ''f'' demo_response) demo_begun = (Inr demo_response, demo_finished)"
  "in_state (get_idempotency ''op'' ''k1'' ''f'') demo_finished
     = (Inr \<lparr>state = REPLAY, asked_fingerprint = ''f'', replayed = Some demo_response, existing_fingerprint = None\<rparr>, demo_finished)"
  by code_simp+

lemma demo_key_free: "key_record ''op'' ''k1'' demo_taken = None"
  by code_simp

definition "demo_requests_at_once = [(''f'', Arrived), (''f'', Arrived)]"
definition "demo_answer_twice = (let r = stored_http_response demo_response in [(''f'', Answered r), (''f'', Answered r)])"

lemma demo_key_run: "(key_step ''op'' ''k1'')\<^sup>*\<^sup>* (demo_taken, demo_requests_at_once) (demo_finished, demo_answer_twice)"
proof -
  let ?r = "stored_http_response demo_response" and ?step = "key_step ''op'' ''k1''"
  have "?step (demo_taken, demo_requests_at_once) (demo_begun, [(''f'', Executing), (''f'', Arrived)])"
    using begin_step [of 0 demo_requests_at_once "''f''" "''op''" "''k1''", OF _ _ demo_key(1)]
    by (simp add: demo_requests_at_once_def after_begin_def decision_def)
  moreover have "?step (demo_begun, [(''f'', Executing), (''f'', Arrived)]) (demo_begun, [(''f'', Executing), (''f'', Polling)])"
    using begin_step [of 1 "[(''f'', Executing), (''f'', Arrived)]" "''f''" "''op''" "''k1''", OF _ _ demo_key(2)]
    by (simp add: after_begin_def decision_def)
  moreover have "?step (demo_begun, [(''f'', Executing), (''f'', Polling)]) (demo_finished, [(''f'', Answered ?r), (''f'', Polling)])"
    using finish_step [of 0 "[(''f'', Executing), (''f'', Polling)]" "''f''" "''op''" "''k1''", OF _ _ demo_key(3)] by simp
  moreover have "?step (demo_finished, [(''f'', Answered ?r), (''f'', Polling)]) (demo_finished, demo_answer_twice)"
    using poll_step [of 1 "[(''f'', Answered ?r), (''f'', Polling)]" "''f''" "''op''" "''k1''", OF _ _ demo_key(4)]
    by (simp add: after_poll_def demo_answer_twice_def Let_def)
  ultimately show ?thesis by (meson converse_rtranclp_into_rtranclp rtranclp.rtrancl_refl)
qed

theorem one_answer_per_key_witness:
  "length (filter (\<lambda>(fp, ph). ph = Executing) demo_answer_twice) \<le> 1 \<and> snd (demo_answer_twice ! 0) = snd (demo_answer_twice ! 1)"
  using one_answer_per_key [OF _ demo_key_free, of "[''f'', ''f'']" demo_finished demo_answer_twice] demo_key_run
  by (simp add: demo_requests_at_once_def) (simp add: demo_answer_twice_def Let_def)


section \<open>Downloads\<close>

definition demo_artifact :: jdict where
  "demo_artifact =
     [(''artifact_id'', JStr ''art_1''), (''tenant_id'', JStr ''t1''), (''state'', JStr ''COMMITTED''), (''etag'', JStr ''e''),
      (''blob_key'', JStr ''artifacts/t1/art_1''), (''size_bytes'', JInt 6), (''sha256'', JStr ''s''),
      (''media_type'', JStr ''text/plain''), (''supports_range'', JBool True)]"

definition demo_shelf :: durable_world where
  "demo_shelf =
     \<lparr>dw_world = \<lparr>w_store = run_op plain_env (CreateArtifact demo_artifact) empty_store,
        w_files = [([''artifacts'', ''t1'', ''art_1''], ''report'')], w_reads = 0\<rparr>,
      dw_jobs = [], dw_transactions = 0\<rparr>"

definition "demo_stored_artifact = the (map_of (st_artifacts (w_store (dw_world demo_shelf))) ''art_1'')"

lemma demo_stored_artifact:
  "map_of (st_artifacts (w_store (dw_world demo_shelf))) ''art_1'' = Some demo_stored_artifact"
  "map_of demo_stored_artifact ''etag'' = Some (JStr ''e'')" "dget demo_stored_artifact ''tenant_id'' = JStr ''t1''"
  "dget demo_stored_artifact ''state'' = JStr ''COMMITTED''"
  "map_of (w_files (dw_world demo_shelf)) [''artifacts'', ''t1'', ''art_1''] = Some ''report''"
  by code_simp+

lemma demo_recorded: "records demo_stored_artifact [''artifacts'', ''t1'', ''art_1''] ''report''"
proof -
  have "list_all plain_component [''artifacts'', ''t1'', ''art_1'']"
    and "map_of demo_stored_artifact ''blob_key'' = Some (JStr (join_path [''artifacts'', ''t1'', ''art_1'']))"
    and "map_of demo_stored_artifact ''size_bytes'' = Some (JInt 6)" "map_of demo_stored_artifact ''sha256'' = Some (JStr ''s'')"
      "map_of demo_stored_artifact ''media_type'' = Some (JStr ''text/plain'')"
    by code_simp+
  then show ?thesis by (simp add: records_def)
qed

definition "demo_issued = create_download_ticket (ht_service demo_http) demo_scoped ''art_1'' ''https://api'' (dw_world demo_shelf)"

lemma demo_issued_ok: "\<exists>ticket. fst demo_issued = Inr ticket"
proof -
  have fields: "item_of demo_stored_artifact ''state'' = Inr (JStr ''COMMITTED'')" "string_of demo_stored_artifact ''etag'' = Inr ''e''"
    "item_of demo_stored_artifact ''etag'' = Inr (JStr ''e'')" "item_of demo_stored_artifact ''sha256'' = Inr (JStr ''s'')"
    "item_of demo_stored_artifact ''size_bytes'' = Inr (JInt 6)" "item_of demo_stored_artifact ''supports_range'' = Inr (JBool True)"
    by code_simp+
  have owned: "owned_artifact demo_scoped ''art_1'' (dw_world demo_shelf) = (Inr demo_stored_artifact, dw_world demo_shelf)"
    using demo_stored_artifact
    by (simp add: owned_artifact_def get_artifact_def get_locked_def in_store_def owned_def py_run demo_scoped_def demo_principal_def)
  obtain i t where id: "new_id ''ticket'' (w_store (dw_world demo_shelf)) = (Inr i, t)"
  proof -
    have "\<not> isl (fst (new_id ''ticket'' (w_store (dw_world demo_shelf))))" by code_simp
    with that show thesis by (metis isl_def prod.collapse sum.exhaust_sel)
  qed
  show ?thesis
    using fields
    by (simp add: demo_issued_def create_download_ticket_def seq_def owned lift_def fail_if_def ret_def in_store_def id
        utcnow_def iso_in_def random_hex_def ticket_dict_def Let_def)
qed

text \<open>The token is the one in the address of the ticket.\<close>

lemma demo_issued_token:
  obtains ticket token w' where "create_download_ticket (ht_service demo_http) demo_scoped ''art_1'' ''https://api'' (dw_world demo_shelf) = (Inr ticket, w')"
    and "dget ticket ''url'' = JStr (py_rstrip (CHR ''/'') ''https://api'' @ ''/v1/artifact-downloads/'' @ token)"
    and "\<exists>i. token = create_download_token demo_crypto put demo_config i ''art_1'' ''t1'' ''e'' 900"
proof -
  obtain ticket where "fst demo_issued = Inr ticket" using demo_issued_ok by blast
  then have issued: "create_download_ticket (ht_service demo_http) demo_scoped ''art_1'' ''https://api'' (dw_world demo_shelf)
      = (Inr ticket, snd demo_issued)" by (metis demo_issued_def prod.collapse)
  have clock: "sv_clock (ht_service demo_http) (w_reads (dw_world demo_shelf)) = 0" and tenant: "tenant_id demo_scoped = ''t1''"
    by (simp_all add: demo_http_def demo_durable_def demo_service_def demo_shelf_def demo_scoped_def demo_principal_def)
  show thesis
    by (rule ticket_issued [OF demo_http_parts(3) issued])
      (use demo_stored_artifact in \<open>auto simp: clock tenant dget_def intro!: that [OF issued]\<close>)
qed

theorem download_round_trip_witness:
  "\<exists>token headers d'. http_download demo_http token None (Some ''e'') demo_shelf =
     (Inr \<lparr>rp_status = 200, rp_content = Bytes ''report'', rp_headers = headers\<rparr>, d')"
proof -
  obtain ticket token w' where "create_download_ticket (ht_service demo_http) demo_scoped ''art_1'' ''https://api'' (dw_world demo_shelf) = (Inr ticket, w')"
    and "dget ticket ''url'' = JStr (py_rstrip (CHR ''/'') ''https://api'' @ ''/v1/artifact-downloads/'' @ token)"
    by (rule demo_issued_token)
  from download_round_trip [OF demo_codec put_nonempty demo_hmac_length demo_http_parts(3) this demo_stored_artifact(1,2)
      demo_recorded demo_stored_artifact(1,5), of None]
  show ?thesis by auto
qed

lemma demo_downloaded:
  obtains token reply d' where "http_download demo_http token None (Some ''e'') demo_shelf = (Inr reply, d')" "rp_content reply = Bytes ''report''"
proof -
  let ?t = "create_download_token demo_crypto put demo_config ''tkt'' ''art_1'' ''t1'' ''e'' 900"
  obtain ticket where ticket: "verify_download_token demo_crypto demo_config (clock_of demo_http (dw_world demo_shelf)) ?t = Inr ticket"
    "map_of ticket = map_of (ticket_payload ''tkt'' ''art_1'' ''t1'' ''e'' 900)"
    using download_ticket_round_trip [where now = "clock_of demo_http (dw_world demo_shelf)",
        OF demo_codec put_nonempty demo_hmac_length refl [of ?t]]
    by (auto simp: clock_of_def demo_http_def demo_durable_def demo_service_def demo_shelf_def)
  have "ticketed_artifact demo_http ticket d' = (Inr demo_stored_artifact, d')"
    if "w_store (dw_world d') = w_store (dw_world demo_shelf)" for d'
    by (rule ticketed_run [OF _ _ _ _ ticket(2)]) (use that demo_stored_artifact in \<open>simp_all add: dget_def\<close>)
  from download_run [OF demo_http_parts(3) ticket(1) this demo_stored_artifact(2) demo_recorded demo_stored_artifact(5), of None None]
  obtain headers d' where "http_download demo_http ?t None (Some ''e'') demo_shelf =
      (Inr \<lparr>rp_status = 200, rp_content = Bytes ''report'', rp_headers = headers\<rparr>, d')"
    by (auto simp: parse_byte_range_def)
  then show thesis by (rule that) simp
qed

theorem downloads_are_ticketed_witness:
  "\<exists>payload token ticket. b64_decode False (b64_pad token) =
       Some (payload @ hmac_sha256 demo_crypto (lc_ticket_secret demo_config) payload) \<and>
     loads demo_crypto payload = Some (JObj ticket)"
proof -
  obtain token reply d' where "http_download demo_http token None (Some ''e'') demo_shelf = (Inr reply, d')"
    by (rule demo_downloaded)
  from downloads_are_ticketed [OF demo_codec put_nonempty demo_hmac_length demo_http_parts(3) this] show ?thesis by blast
qed

end
