(* ===== verification/Http_Run_Examples.thy ===== *)
theory Http_Run_Examples
  imports Http_Examples
begin

text \<open>Listings, streams, deletions and approvals of concrete runs.\<close>

section \<open>Listings\<close>

text \<open>Two runs when the listing begins; a third is created before the second page is asked for.\<close>

definition listed_run :: "string \<Rightarrow> jdict" where
  "listed_run k = [(''run_id'', JStr k), (''tenant_id'', JStr ''t1''), (''status'', JStr ''RUNNING'')]"

definition demo_runs_at :: "nat \<Rightarrow> jdict list" where
  "demo_runs_at i = (if i = 2 then map listed_run [''r2'', ''r1''] else map listed_run [''r3'', ''r2'', ''r1''])"

definition demo_keyed :: "nat \<Rightarrow> (string \<times> jdict) list" where
  "demo_keyed i = map (\<lambda>k. (k, listed_run k)) (if i = 2 then [''r1'', ''r2''] else [''r1'', ''r2'', ''r3''])"

lemma demo_sorted: "sorted_by ''run_id'' (demo_runs_at i) = Inr (demo_keyed i)"
  by (simp add: demo_runs_at_def demo_keyed_def listed_run_def sorted_by_def string_of_def item_of_def sort_key_def)

theorem runs_listing_complete_witness:
  "\<exists>pages. follow (runs_listing demo_http demo_scoped (Some 1) None None demo_runs_at) 3 None = Inr pages \<and>
     concat pages = map (\<lambda>(k, d). JObj d) (demo_keyed 2) \<and> (\<forall>page \<in> set pages. int (length page) \<le> 1)"
proof -
  have "length (hmac_sha256 (ht_crypto demo_http) (ht_cursor_secret demo_http) m) = 32" for m
    by (simp add: demo_http_def demo_hmac_length)
  note runs_listing_complete [where n = 2 and limit = "Some 1" and m = 1 and requested = None and items = "demo_keyed 2"
      and runs_at = demo_runs_at and h = demo_http and ks = demo_keyed, OF demo_http_parts(4) this demo_sorted, of demo_scoped None]
  moreover have "distinct (map fst (demo_keyed 2))" "\<forall>q \<in> set (demo_keyed 2). fst q \<noteq> []"
    "\<And>i. i < 2 \<Longrightarrow> filter (\<lambda>q. fst q \<le> (if demo_keyed 2 = [] then [] else fst (last (demo_keyed 2)))) (demo_keyed i) = demo_keyed 2"
    "chosen_runs None (demo_keyed 2) = Inr (demo_keyed 2)" "length (demo_runs_at 2) \<le> 2"
    by (auto simp: demo_keyed_def demo_runs_at_def chosen_runs_def)
  ultimately show ?thesis by (simp add: page_size_def eval_nat_numeral)
qed

section \<open>The event stream\<close>

definition demo_stream_env :: stream_env where
  "demo_stream_env = \<lparr>se_due = (\<lambda>k. True), se_wakes = (\<lambda>k. 1), se_others = (\<lambda>k d. d)\<rparr>"

definition "demo_streamed = sse_stream demo_stream_env demo_scoped ''r1'' None 3
  \<lparr>ss_world = demo_taken, ss_ticks = 0, ss_position = 0, ss_frames = []\<rparr>"


section \<open>Deletion\<close>

definition "demo_deleted = run_deletion demo_http demo_scoped ''ds_1'' demo_taken"

lemma demo_deleted_ok: "\<not> isl (fst demo_deleted)"
  by code_simp

lemma demo_versions:
  "\<exists>v \<in> set (versions_of (w_store (dw_world demo_taken)) ''t1'' ''ds_1''). string_of v ''dataset_version_id'' = Inr ''dsv_1''"
  by code_simp

theorem deletion_erases_bytes_witness: "no_bytes ''t1'' ''dsv_1'' (world_files (snd demo_deleted))"
proof -
  obtain reply where "run_deletion demo_http demo_scoped ''ds_1'' demo_taken = (Inr reply, snd demo_deleted)"
    using demo_deleted_ok by (metis demo_deleted_def isl_def prod.collapse sum.exhaust_sel)
  from deletion_erases_bytes [OF demo_http_parts(3) this] demo_versions show ?thesis
    by (auto simp: demo_scoped_def demo_principal_def)
qed

section \<open>Approval\<close>

definition demo_approval_ops :: "store_op list" where
  "demo_approval_ops =
     [CreateRun [(''run_id'', JStr ''r1''), (''tenant_id'', JStr ''t1''), (''status'', JStr ''WAITING_APPROVAL''), (''stages'', JArr [])],
      CreateApproval ''r1'' [(''approval_id'', JStr ''ap_1''), (''tenant_id'', JStr ''t1''), (''status'', JStr ''OPEN''),
        (''evidence_version'', JInt 1), (''expires_at'', JStr ''2030'')]]"

definition demo_waiting :: durable_world where
  "demo_waiting = \<lparr>dw_world = \<lparr>w_store = fold (run_op plain_env) demo_approval_ops empty_store, w_files = [], w_reads = 0\<rparr>,
     dw_jobs = [], dw_transactions = 0\<rparr>"

lemma demo_waiting_reachable: "reachable plain_env (w_store (dw_world demo_waiting))"
  by (simp add: demo_waiting_def demo_approval_ops_def) (intro reachable.intros, simp_all add: dget_or_def)

definition demo_decision :: jdict where
  "demo_decision = [(''decision'', JStr ''REJECT''), (''reason'', JStr ''no'')]"

definition "demo_decided = decide demo_http demo_scoped ''r1'' ''ap_1'' 1 demo_decision demo_waiting"

lemma demo_decided_ok: "\<not> isl (fst demo_decided)"
  by code_simp

theorem decision_guarded_and_final_witness:
  "closed_by ''REJECT'' ''r1'' (w_store (dw_world (snd demo_decided))) \<and>
   \<not> may_decide demo_scoped ''r1'' ''ap_1'' 2 (w_store (dw_world (snd demo_decided)))"
proof -
  obtain outcome where "decide demo_http demo_scoped ''r1'' ''ap_1'' 1 demo_decision demo_waiting = (Inr outcome, snd demo_decided)"
    using demo_decided_ok by (metis demo_decided_def isl_def prod.collapse sum.exhaust_sel)
  from decision_guarded_and_final [OF wf_reachable [OF demo_waiting_reachable] this] show ?thesis
    by (cases outcome) (simp add: demo_decision_def dget_def)
qed

end
