(* ===== verification/Spec2Isabelle.thy ===== *)
theory Spec2Isabelle
  imports Http_Run_Examples
begin

text \<open>
  A model of the AutoML control-plane service (apps/api/src/automl_api).

  The service keeps the resources of machine-learning runs in \<open>InMemoryStore\<close> (store.py);
  \<open>SqliteStore\<close> (persistence.py) makes each mutation durable and adds a table of execution
  jobs. A worker (worker.py) claims a job under a lease, keeps the lease alive while the handler
  runs, and settles the job under a fence. Events of a run feed an outbox, from which the
  webhook dispatcher (webhooks.py) sends signed callbacks. Requests pass the middleware of
  hardening.py, authentication (auth.py, security.py, operations.py) and the rules of the
  workflow service (workflow.py), which keeps to the limits of limits.py, asks the back-end
  registry (backends/registry.py) who may serve a run, and keeps bytes in a blob store (storage.py).

  Prelude. \<open>Py_Values\<close> holds Python's JSON values, dictionaries, exceptions and the
  state-passing computations with their proof rules; \<open>Py_Text\<close> strings, numbers as text, the
  parameters \<open>py_env\<close> for \<open>repr\<close> and for the order of sets; \<open>Py_Json\<close> what a value is after
  \<open>json.dumps(sort_keys=True)\<close> and \<open>json.loads\<close>; \<open>Py_Base64\<close> the base64 codec with its round trip.

  The store. \<open>Store_State\<close> (the record \<open>store\<close>, identifiers, the three private helpers),
  \<open>Store_Ops\<close> (the operations on the tables), \<open>Store_Events\<close> (the log and the webhook outbox),
  \<open>Store_Idempotency\<close>. \<open>Store_Collections\<close> states the contract of a keyed collection as the
  locale \<open>collection\<close>, interpreted for every table. \<open>Store_Invariant\<close> proves well-formedness,
  \<open>Store_Steps\<close> lists the operations as \<open>store_op\<close> and defines \<open>reachable\<close>, \<open>Store_Log\<close> proves
  the invariant of the logs, \<open>Store_Laws\<close> the properties the clients rely on.

  Durability. \<open>Sqlite_State\<close> (snapshot, restoration, \<open>_durable_mutation\<close>, opening, closing),
  \<open>Checkpoint\<close> (restart and rollback), \<open>Jobs\<close> (the job table), \<open>Job_Laws\<close> (its step relation
  \<open>row_step\<close>, invariant, leases and fences). \<open>Worker\<close>: one round of \<open>LocalExecutionWorker\<close>, over
  the locale \<open>fenced_store\<close>, which the job table interprets. The schedule of a round lists what
  happens while the handler runs, in any order: renewals, changes by others, the handler's end.

  Requests. \<open>Hardening\<close> (settings, rate limiter, metrics, middleware) with \<open>Hardening_Laws\<close>
  (histories of admitted requests and of open streams as inductive relations). \<open>Security\<close>
  (token verification), \<open>Operations\<close> (operation identifiers), \<open>Auth\<close> (configuration, principals,
  scopes, issuance of credentials) with \<open>Auth_Laws\<close>. \<open>Runtime_Limits\<close>, \<open>Protocol\<close>.
  \<open>Webhooks\<close> with \<open>Webhook_Laws\<close>. \<open>Storage\<close> (both blob stores) with \<open>Storage_Laws\<close> (sequences
  of blob operations as an inductive relation). \<open>Backends\<close> (registry, descriptors, selection).

  The workflow service. Its state is the record \<open>world\<close> (store, files, readings of clock and random
  source), its configuration the record \<open>workflow_service\<close>. \<open>Workflow_Rules\<close> (the rules that do not
  change the state) with \<open>Rules_Laws\<close>; \<open>Workflow_Service\<close> (datasets, webhooks of a run, events and
  outputs); \<open>Workflow_Runs\<close> (creating, answering, pausing, resuming, cancelling a run); \<open>Workflow\<close>
  (what is shown, and \<open>serve\<close>, one request). \<open>Workflow_Laws\<close> states what the service needs of the store
  as the locale \<open>store_client\<close> and interprets it twice: on the paths of store operations, which
  gives the refinement of the store's step relation, and (in \<open>Workflow_Isolation\<close>) on a run that the
  request does not address, which gives isolation. \<open>Workflow_Guards\<close> shows that a refusal comes before
  any change, \<open>Workflow_Control\<close> what an accepted command leaves.

  The durable workflow (durable_workflow.py). \<open>Durable_Steps\<close>: the questions a run asks, the outputs and
  artifacts it publishes, and the sections of its three steps that run under the visibility lock.
  \<open>Durable_Workflow\<close>: the state \<open>durable_world\<close> (a \<open>world\<close> and the job table), the requests that
  differ from those of the workflow service, and the handler of an execution job. The learning engine
  is the record \<open>engine\<close>: the profile it makes of a file, the stage callbacks it makes and how it ends.
  Where the handler does not hold the lock, \<open>others k\<close>, any function on the state, is what else happens
  at the \<open>k\<close>-th such point. Writes of the checkpoint succeed here; \<open>Checkpoint\<close> treats those that do not.
  \<open>Durable_Laws\<close> extends the locale \<open>store_client\<close> to \<open>durable_client\<close> and interprets it on the paths
  of store operations and on a run that the step is not about; \<open>Durable_Effects\<close> proves what failing a
  run leaves, what the fence refuses, and which questions an agent may answer.

  The HTTP application (app.py, errors.py). Its configuration is the record \<open>http\<close>, its state that of the
  durable workflow. \<open>Http_Base\<close>: replies, problems, correlation identifiers, the helper functions of app.py;
  \<open>Http_Idempotent\<close>: \<open>_idempotent\<close>; \<open>Http_Pages\<close>: the listings with their cursors, and reading events;
  \<open>Http_Stream\<close>: the event stream and downloads; \<open>Http_Endpoints\<close>: the handlers of datasets, runs, packets,
  commands, artifacts, approvals and models; \<open>Http_Webhooks\<close>: webhook endpoints, deliveries and the deletion of
  a dataset; \<open>Http_App\<close>: every request as a value of \<open>http_op\<close>, and \<open>perform\<close>. What happens while a handler
  waits is \<open>others\<close>, as in the durable workflow. \<open>Http_Laws\<close> interprets the locales of the clients once more,
  for refinement of the store and isolation of tenants; \<open>Http_Once\<close> gives the requests under one idempotency key
  as a step relation and shows that \<open>_idempotent\<close> is a run of it; \<open>Http_Listing\<close> follows cursors, \<open>Http_Events\<close>
  follows a stream by its loop invariant, \<open>Http_Bytes\<close> reads what a ticket opens, \<open>Http_Deletion\<close> and
  \<open>Http_Approval\<close> show what those two handlers leave. A stream is cut off after a number of turns that is
  an argument, since the client decides when it ends.

  \<open>Store_Examples\<close>, \<open>Durable_Examples\<close>, \<open>Runtime_Examples\<close>, \<open>Access_Examples\<close>, \<open>Service_Examples\<close>,
  \<open>Durable_Run_Examples\<close>, \<open>Http_Examples\<close> and \<open>Http_Run_Examples\<close> apply the properties to concrete executions;
  \<open>Durable_Run_Examples\<close> also shows two faults of the code. \<open>Demo_Codec\<close> is a text format for JSON that
  instantiates the parameters of the token and cursor properties.

  Parameters and bounds. Cryptography, JSON text, base64 apart from its codec, PyJWT, the
  resolver, the HTTP client, clocks and random numbers are arguments. A float is the rational
  number it denotes; the powers of two that overflow a double are errors as in the code. The
  stream's loop apart, no recursion needs fuel.

  Not modelled: the wiring and lifespan of \<open>create_app\<close>, its health, readiness, metrics, manifest and contract
  endpoints, routing and parsing, the schemas of models.py (their enumerations are), the learning engine and
  the training runs of its back ends, the drawing of charts, the SDK, the asyncio tasks and polling loops,
  and what the manifest lists.
\<close>

end
